(* ===== verification/Go_Prelude.thy ===== *)
theory Go_Prelude
  imports Main "HOL-Library.Signed_Division" "HOL-Library.Sublist"
begin

section \<open>Prelude: the Go values the components share\<close>

text \<open>
  What every other theory builds on: Go's \<open>int64\<close> as \<open>int\<close> with the wrap-around
  written out (\<open>i64\<close>), Go's truncating division (\<open>sdiv\<close>), byte strings as
  \<open>string\<close> (Go strings are byte sequences, and an Isabelle \<open>char\<close> is a byte), the
  functions of package \<open>strings\<close> and \<open>strconv\<close> the sources call, and the
  collections of simplification rules the component proofs use.
\<close>

named_theorems go_str \<open>rules about byte strings and their rendering\<close>
named_theorems go_int \<open>rules about wrapped int64 arithmetic\<close>

type_synonym bytes = string
type_synonym int64 = int
type_synonym duration = int
type_synonym time = int

subsection \<open>Definitions: int64 and time\<close>

definition i64 :: "int \<Rightarrow> int64" where
  "i64 x = (x + 2 ^ 63) mod 2 ^ 64 - 2 ^ 63"

definition MaxInt64 :: int64 where
  "MaxInt64 = 2 ^ 63 - 1"

definition MinInt64 :: int64 where
  "MinInt64 = - (2 ^ 63)"

definition in_i64 :: "int \<Rightarrow> bool" where
  "in_i64 x \<longleftrightarrow> MinInt64 \<le> x \<and> x \<le> MaxInt64"

text \<open>
  A \<open>time.Time\<close> is the number of nanoseconds since January 1, year 1 UTC, so that the
  zero value is \<open>0\<close> and \<open>IsZero\<close> is a comparison with it; a \<open>time.Duration\<close> is an
  \<open>int64\<close> of nanoseconds. \<open>Sub\<close> saturates, as package \<open>time\<close> does. The calendar
  date of a UTC time is a function of its day number that is one-to-one on days, so two
  dates agree exactly when the day numbers do.
\<close>

definition nsecond :: duration where "nsecond = 1000000000"
definition nhour :: duration where "nhour = 3600 * nsecond"
definition nday :: duration where "nday = 24 * nhour"

definition IsZero :: "time \<Rightarrow> bool" where
  "IsZero t \<longleftrightarrow> t = 0"

definition time_add :: "time \<Rightarrow> duration \<Rightarrow> time" where
  "time_add t d = t + d"

definition time_sub :: "time \<Rightarrow> time \<Rightarrow> duration" where
  "time_sub a b = max MinInt64 (min MaxInt64 (a - b))"

definition utc_day :: "time \<Rightarrow> int" where
  "utc_day t = t div nday"

definition unix_epoch :: time where
  "unix_epoch = 62135596800 * nsecond"

definition time_unix :: "time \<Rightarrow> int64" where
  "time_unix t = (t - unix_epoch) div nsecond"

subsection \<open>Definitions: byte strings\<close>

definition HasPrefix :: "string \<Rightarrow> string \<Rightarrow> bool" where
  "HasPrefix s p \<longleftrightarrow> take (length p) s = p"

definition HasSuffix :: "string \<Rightarrow> string \<Rightarrow> bool" where
  "HasSuffix s p \<longleftrightarrow> length p \<le> length s \<and> drop (length s - length p) s = p"

definition CutPrefix :: "string \<Rightarrow> string \<Rightarrow> string option" where
  "CutPrefix s p = (if HasPrefix s p then Some (drop (length p) s) else None)"

definition TrimPrefix :: "string \<Rightarrow> string \<Rightarrow> string" where
  "TrimPrefix s p = (if HasPrefix s p then drop (length p) s else s)"

definition TrimSuffix :: "string \<Rightarrow> string \<Rightarrow> string" where
  "TrimSuffix s p = (if HasSuffix s p then take (length s - length p) s else s)"

fun Contains :: "string \<Rightarrow> string \<Rightarrow> bool" where
  "Contains [] sub = (sub = [])"
| "Contains (c # s) sub = (HasPrefix (c # s) sub \<or> Contains s sub)"

fun Join :: "string list \<Rightarrow> string \<Rightarrow> string" where
  "Join [] sep = []"
| "Join [x] sep = x"
| "Join (x # xs) sep = x @ sep @ Join xs sep"

fun Split :: "string \<Rightarrow> char \<Rightarrow> string list" where
  "Split [] c = [[]]"
| "Split (x # s) c =
     (if x = c then [] # Split s c
      else (case Split s c of [] \<Rightarrow> [[x]] | w # ws \<Rightarrow> (x # w) # ws))"

definition is_space :: "char \<Rightarrow> bool" where
  "is_space c \<longleftrightarrow> c \<in> {CHR '' '', CHR 0x09, CHR 0x0A, CHR 0x0B, CHR 0x0C, CHR 0x0D}"

definition TrimSpace :: "string \<Rightarrow> string" where
  "TrimSpace s = rev (dropWhile is_space (rev (dropWhile is_space s)))"

fun Replace1 :: "string \<Rightarrow> string \<Rightarrow> string \<Rightarrow> string" where
  "Replace1 [] old new = (if old = [] then new else [])"
| "Replace1 (c # s) old new =
     (if HasPrefix (c # s) old then new @ drop (length old) (c # s)
      else c # Replace1 s old new)"

definition nl :: string where "nl = [CHR 0x0A]"
definition tab :: string where "tab = [CHR 0x09]"

text \<open>\<open>strings.Compare(a, b) <= 0\<close>.\<close>

fun str_le :: "string \<Rightarrow> string \<Rightarrow> bool" where
  "str_le [] _ = True"
| "str_le (c # s) [] = False"
| "str_le (c # s) (d # t) =
     (if c = d then str_le s t else (of_char c :: nat) < of_char d)"

text \<open>A stable sort by a string key, as \<open>sort.Slice\<close> and \<open>slices.SortFunc\<close> on distinct keys.\<close>

fun insert_by :: "('a \<Rightarrow> string) \<Rightarrow> 'a \<Rightarrow> 'a list \<Rightarrow> 'a list" where
  "insert_by key x [] = [x]"
| "insert_by key x (y # ys) = (if str_le (key x) (key y) then x # y # ys else y # insert_by key x ys)"

definition sort_by :: "('a \<Rightarrow> string) \<Rightarrow> 'a list \<Rightarrow> 'a list" where
  "sort_by key xs = foldr (insert_by key) xs []"

subsection \<open>Definitions: decimal numbers\<close>

definition is_digit :: "char \<Rightarrow> bool" where
  "is_digit c \<longleftrightarrow> 48 \<le> (of_char c :: nat) \<and> (of_char c :: nat) \<le> 57"

definition digit_char :: "nat \<Rightarrow> char" where
  "digit_char d = char_of (48 + d)"

definition digit_val :: "char \<Rightarrow> nat" where
  "digit_val c = of_char c - 48"

fun show_nat :: "nat \<Rightarrow> string" where
  "show_nat n = (if n < 10 then [digit_char n] else show_nat (n div 10) @ [digit_char (n mod 10)])"

definition show_int :: "int \<Rightarrow> string" where
  "show_int i = (if i < 0 then CHR ''-'' # show_nat (nat (- i)) else show_nat (nat i))"

definition digits_val :: "string \<Rightarrow> nat" where
  "digits_val s = foldl (\<lambda>a c. a * 10 + digit_val c) 0 s"

text \<open>
  \<open>strconv.ParseInt(s, 10, 64)\<close> on a string with no sign, the only form the sources
  reach: \<open>None\<close> is the syntax error (empty or a non-digit) or the range error.
\<close>

definition ParseInt :: "string \<Rightarrow> int64 option" where
  "ParseInt s =
     (if s = [] \<or> \<not> list_all is_digit s then None
      else if int (digits_val s) > MaxInt64 then None
      else Some (int (digits_val s)))"

declare show_nat.simps [simp del]

subsection \<open>Lemmas: int64\<close>

lemma i64_id [go_int]: "in_i64 x \<Longrightarrow> i64 x = x"
  by (simp add: i64_def in_i64_def MinInt64_def MaxInt64_def)

lemma i64_range: "in_i64 (i64 x)"
proof -
  have "0 \<le> (x + 2 ^ 63) mod 2 ^ 64" and "(x + 2 ^ 63) mod 2 ^ 64 < (2 ^ 64 :: int)"
    by (rule pos_mod_sign, simp) (rule pos_mod_bound, simp)
  then show ?thesis by (simp add: i64_def in_i64_def MinInt64_def MaxInt64_def)
qed

lemma in_i64_nonneg [go_int]: "0 \<le> x \<Longrightarrow> in_i64 x \<longleftrightarrow> x \<le> MaxInt64"
  by (simp add: in_i64_def MinInt64_def)

lemma i64_small [go_int]: "0 \<le> x \<Longrightarrow> x \<le> MaxInt64 \<Longrightarrow> i64 x = x"
  by (simp add: i64_id in_i64_nonneg)

lemma sdiv_nonneg [go_int]: "0 \<le> (a::int) \<Longrightarrow> 0 \<le> b \<Longrightarrow> a sdiv b = a div b"
  by (cases "a = 0"; cases "b = 0") (simp_all add: signed_divide_int_def)

lemma time_sub_pos: "0 < time_sub a b \<longleftrightarrow> b < a"
  by (auto simp: time_sub_def MinInt64_def MaxInt64_def)

lemma time_sub_le: "b \<le> a \<Longrightarrow> time_sub a b \<le> a - b"
  by (auto simp: time_sub_def MinInt64_def MaxInt64_def)

lemma utc_day_mono: "s \<le> t \<Longrightarrow> utc_day s \<le> utc_day t"
  by (simp add: utc_day_def zdiv_mono1 nday_def nhour_def nsecond_def)

subsection \<open>Lemmas: strings\<close>

lemma HasPrefix_prefix: "HasPrefix s p \<longleftrightarrow> prefix p s"
  by (metis HasPrefix_def append_take_drop_id prefix_def take_is_prefix append_eq_conv_conj)

lemma HasPrefix_self_append [simp, go_str]: "HasPrefix (p @ s) p"
  by (simp add: HasPrefix_def)

lemma HasPrefix_Nil [simp, go_str]: "HasPrefix s []"
  by (simp add: HasPrefix_def)

lemma set_Join: "set (Join xs sep) \<subseteq> \<Union> (set ` set xs) \<union> set sep"
  by (induction xs sep rule: Join.induct) auto

lemma Split_nonempty [simp]: "Split s c \<noteq> []"
  by (induction s) (auto split: list.splits)

lemma Split_append: "Split (a @ c # b) c = Split a c @ Split b c"
  by (induction a) (auto split: list.splits)

lemma Split_no_sep: "c \<notin> set s \<Longrightarrow> Split s c = [s]"
  by (induction s) auto

lemma Split_Join: "xs \<noteq> [] \<Longrightarrow> \<forall>x \<in> set xs. c \<notin> set x \<Longrightarrow> Split (Join xs [c]) c = xs"
  by (induction xs "[c]" rule: Join.induct) (auto simp: Split_no_sep Split_append)

lemma Join_nonempty: "xs \<noteq> [] \<Longrightarrow> hd xs \<noteq> [] \<Longrightarrow> Join xs sep \<noteq> []"
  by (induction xs sep rule: Join.induct) auto

lemma digit_val_digit_char [simp]: "d < 10 \<Longrightarrow> digit_val (digit_char d) = d"
  by (simp add: digit_val_def digit_char_def)

lemma is_digit_digit_char [simp]: "d < 10 \<Longrightarrow> is_digit (digit_char d)"
  by (simp add: is_digit_def digit_char_def)

lemma show_nat_nonempty [simp, go_str]: "show_nat n \<noteq> []"
  by (subst show_nat.simps) simp

lemma show_nat_digits [go_str]: "list_all is_digit (show_nat n)"
proof (induction n rule: show_nat.induct)
  case (1 n)
  then show ?case by (subst show_nat.simps) simp
qed

lemma digits_val_snoc: "digits_val (s @ [c]) = digits_val s * 10 + digit_val c"
  by (simp add: digits_val_def)

lemma digits_val_show_nat [simp, go_str]: "digits_val (show_nat n) = n"
proof (induction n rule: show_nat.induct)
  case (1 n)
  show ?case
  proof (cases "n < 10")
    case True
    then show ?thesis by (subst show_nat.simps) (simp add: digits_val_def)
  next
    case False
    with "1.IH" have "digits_val (show_nat (n div 10)) = n div 10" by simp
    with False show ?thesis by (subst show_nat.simps) (simp add: digits_val_snoc)
  qed
qed

lemma ParseInt_show_nat [go_str]:
  "int n \<le> MaxInt64 \<Longrightarrow> ParseInt (show_nat n) = Some (int n)"
  by (simp add: ParseInt_def show_nat_digits)

lemma ParseInt_Some_range: "ParseInt s = Some n \<Longrightarrow> 0 \<le> n \<and> n \<le> MaxInt64"
  by (auto simp: ParseInt_def split: if_splits)

subsection \<open>Sorting by a key\<close>

lemma str_le_refl [simp]: "str_le s s"
  by (induction s) auto

lemma str_le_total: "str_le a b \<or> str_le b a"
proof (induction a b rule: str_le.induct)
  case (3 c s d t)
  then show ?case by (auto simp: not_less order_class.le_less of_char_eq_iff)
qed auto

lemma str_le_trans: "str_le a b \<Longrightarrow> str_le b c \<Longrightarrow> str_le a c"
proof (induction a b arbitrary: c rule: str_le.induct)
  case (3 x s y t)
  then show ?case by (cases c) (auto split: if_splits)
qed auto

lemma set_insert_by [simp]: "set (insert_by key x ys) = insert x (set ys)"
  by (induction ys) auto

lemma length_insert_by [simp]: "length (insert_by key x ys) = Suc (length ys)"
  by (induction ys) auto

lemma set_sort_by [simp]: "set (sort_by key xs) = set xs"
  by (induction xs) (auto simp: sort_by_def)

lemma length_sort_by [simp]: "length (sort_by key xs) = length xs"
  by (induction xs) (auto simp: sort_by_def)

lemma distinct_sort_by [simp]: "distinct (sort_by key xs) = distinct xs"
  by (metis card_distinct distinct_card length_sort_by set_sort_by)

lemma sorted_insert_by:
  "sorted_wrt (\<lambda>a b. str_le (key a) (key b)) ys \<Longrightarrow> sorted_wrt (\<lambda>a b. str_le (key a) (key b)) (insert_by key x ys)"
proof (induction ys)
  case (Cons y ys)
  then show ?case using Cons str_le_total [of "key x" "key y"] by (auto intro: str_le_trans)
qed simp

lemma sorted_sort_by: "sorted_wrt (\<lambda>a b. str_le (key a) (key b)) (sort_by key xs)"
  by (induction xs) (auto simp: sort_by_def sorted_insert_by)

end
