(* ===== verification/Gas_Price.thy ===== *)
theory Gas_Price
  imports Go_Prelude
begin

section \<open>Pricing a transaction: packages gasprice and chain (gasfee.go)\<close>

text \<open>
  \<open>gasprice.Fetch\<close> and \<open>gasprice.Compute\<close>, and the fee and gas sizing of
  \<open>internal/chain/gasfee.go\<close>. The ABCI query and the amino decoder are parameters:
  they belong to the gno toolchain, which is not part of the repository. The theorems
  relate the overflow-guarded int64 arithmetic of \<open>Compute\<close> to the exact ceiling over
  the integers, and bound the gas limit \<open>gasWantedFor\<close> sizes.
\<close>

record gas_price =
  gp_gas :: int64
  gp_amount :: int64
  gp_denom :: string

datatype fee_error =
    FeeQuery string
  | FeeUnmarshal string
  | GasWantedNotPositive int64
  | MarginNotPositive int64 int64
  | DenomNotUgnot string

definition ugnot_denom :: string where "ugnot_denom = ''ugnot''"

definition QueryPath :: string where "QueryPath = ''auth/gasprice''"

definition zero_gas_price :: gas_price where
  "zero_gas_price = \<lparr>gp_gas = 0, gp_amount = 0, gp_denom = []\<rparr>"

text \<open>
  \<open>unmarshal\<close> is \<open>amino.UnmarshalJSON\<close>; \<open>query\<close> is \<open>gnoclient.Client.Query\<close>, an
  error or the response bytes.
\<close>

definition decode :: "(bytes \<Rightarrow> string + gas_price) \<Rightarrow> bytes \<Rightarrow> fee_error + gas_price" where
  "decode unmarshal data =
     (case unmarshal data of Inl e \<Rightarrow> Inl (FeeUnmarshal e) | Inr gp \<Rightarrow> Inr gp)"

definition Fetch :: "(string \<Rightarrow> string + bytes) \<Rightarrow> (bytes \<Rightarrow> string + gas_price) \<Rightarrow> fee_error + gas_price" where
  "Fetch query unmarshal =
     (case query QueryPath of
        Inl e \<Rightarrow> Inl (FeeQuery e)
      | Inr data \<Rightarrow>
          if data = [] \<or> data = ''null'' then Inr zero_gas_price
          else decode unmarshal data)"

definition Compute :: "gas_price \<Rightarrow> int64 \<Rightarrow> int64 \<Rightarrow> int64 \<Rightarrow> int64 \<Rightarrow> fee_error + int64" where
  "Compute price gasWanted floor marginNum marginDen =
     (if gasWanted \<le> 0 then Inl (GasWantedNotPositive gasWanted)
      else if marginNum \<le> 0 \<or> marginDen \<le> 0 then Inl (MarginNotPositive marginNum marginDen)
      else if gp_gas price \<le> 0 \<or> gp_amount price \<le> 0 then Inr floor
      else if gp_denom price \<noteq> ugnot_denom then Inl (DenomNotUgnot (gp_denom price))
      else if gp_amount price > i64 (MaxInt64 - i64 (gp_gas price - 1)) sdiv gasWanted then Inr floor
      else let minFee = i64 (i64 (i64 (gasWanted * gp_amount price) + gp_gas price) - 1) sdiv gp_gas price
           in if minFee > MaxInt64 sdiv marginNum then Inr floor
              else let withMargin = i64 (minFee * marginNum) sdiv marginDen
                   in if withMargin < floor then Inr floor else Inr withMargin)"

text \<open>The constants and functions of \<open>internal/chain/gasfee.go\<close> and the defaults of \<open>real.go\<close>.\<close>

definition DefaultGasWanted :: int64 where "DefaultGasWanted = 10000000"
definition minGasPriceDivisor :: int64 where "minGasPriceDivisor = 1000"
definition DefaultGasFeeUgnot :: int64 where
  "DefaultGasFeeUgnot = DefaultGasWanted sdiv minGasPriceDivisor"
definition gasFeeMarginNum :: int64 where "gasFeeMarginNum = 2"
definition gasFeeMarginDen :: int64 where "gasFeeMarginDen = 1"
definition gasEstimateCeiling :: int64 where "gasEstimateCeiling = 1000000000"
definition gasWantedMarginNum :: int64 where "gasWantedMarginNum = 3"
definition gasWantedMarginDen :: int64 where "gasWantedMarginDen = 2"

definition gasWantedFor :: "int64 \<Rightarrow> int64" where
  "gasWantedFor measured =
     (let want = i64 (measured * gasWantedMarginNum) sdiv gasWantedMarginDen
      in if want < DefaultGasWanted then DefaultGasWanted
         else if want > gasEstimateCeiling then gasEstimateCeiling
         else want)"

definition currentGasFee ::
  "(string \<Rightarrow> string + bytes) \<Rightarrow> (bytes \<Rightarrow> string + gas_price) \<Rightarrow> int64 \<Rightarrow> fee_error + int64" where
  "currentGasFee query unmarshal gasWanted =
     (case Fetch query unmarshal of
        Inl e \<Rightarrow> Inl e
      | Inr price \<Rightarrow> Compute price gasWanted DefaultGasFeeUgnot gasFeeMarginNum gasFeeMarginDen)"

definition GasFeeUgnot ::
  "(string \<Rightarrow> string + bytes) \<Rightarrow> (bytes \<Rightarrow> string + gas_price) \<Rightarrow> fee_error + int64" where
  "GasFeeUgnot query unmarshal = currentGasFee query unmarshal DefaultGasWanted"

record base_tx_cfg =
  cfg_gas_fee :: string
  cfg_gas_wanted :: int64

definition baseTxCfg :: "int64 \<Rightarrow> int64 \<Rightarrow> base_tx_cfg" where
  "baseTxCfg feeUgnot gasWanted =
     \<lparr>cfg_gas_fee = show_int feeUgnot @ ''ugnot'', cfg_gas_wanted = gasWanted\<rparr>"

subsection \<open>The reference: exact integer arithmetic\<close>

text \<open>The smallest fee the chain accepts: the least \<open>f\<close> with \<open>f / gasWanted \<ge> amount / gas\<close>.\<close>

definition ante_min_fee :: "gas_price \<Rightarrow> int \<Rightarrow> int" where
  "ante_min_fee price gasWanted = - ((- (gasWanted * gp_amount price)) div gp_gas price)"

definition ante_accepts :: "gas_price \<Rightarrow> int \<Rightarrow> int \<Rightarrow> bool" where
  "ante_accepts price gasWanted fee \<longleftrightarrow> gp_amount price * gasWanted \<le> fee * gp_gas price"

definition priced :: "gas_price \<Rightarrow> bool" where
  "priced price \<longleftrightarrow> 0 < gp_gas price \<and> 0 < gp_amount price \<and> gp_denom price = ugnot_denom"

definition price_fits :: "gas_price \<Rightarrow> int \<Rightarrow> int \<Rightarrow> bool" where
  "price_fits price gasWanted marginNum \<longleftrightarrow>
     gasWanted * gp_amount price + gp_gas price - 1 \<le> MaxInt64 \<and>
     ante_min_fee price gasWanted * marginNum \<le> MaxInt64"

subsection \<open>Lemmas\<close>

lemmas fee_consts = DefaultGasWanted_def minGasPriceDivisor_def DefaultGasFeeUgnot_def
  gasFeeMarginNum_def gasFeeMarginDen_def gasEstimateCeiling_def gasWantedMarginNum_def
  gasWantedMarginDen_def

lemma le_div_iff_mult: "0 < (g::int) \<Longrightarrow> a \<le> b div g \<longleftrightarrow> a * g \<le> b"
  by (smt (verit) div_mult_mod_eq mult_right_mono pos_mod_bound pos_mod_sign zdiv_mono1
      nonzero_mult_div_cancel_right)

lemma ante_min_fee_least:
  assumes "0 < gp_gas price"
  shows "ante_accepts price gw f \<longleftrightarrow> ante_min_fee price gw \<le> f"
proof -
  have "ante_min_fee price gw \<le> f \<longleftrightarrow> - f \<le> (- (gw * gp_amount price)) div gp_gas price"
    by (auto simp: ante_min_fee_def)
  also have "\<dots> \<longleftrightarrow> (- f) * gp_gas price \<le> - (gw * gp_amount price)"
    by (rule le_div_iff_mult [OF assms])
  also have "\<dots> \<longleftrightarrow> gp_amount price * gw \<le> f * gp_gas price"
    by (simp add: mult.commute)
  finally show ?thesis by (simp add: ante_accepts_def)
qed

lemma ceil_div: 
  assumes "0 < (g::int)"
  shows "- ((- x) div g) = (x + g - 1) div g"
proof (rule antisym)
  have "- ((- x) div g) * g \<le> x + g - 1"
    using pos_mod_bound [OF assms, of "- x"] div_mult_mod_eq [of "- x" g] by linarith
  then show "- ((- x) div g) \<le> (x + g - 1) div g" by (simp only: le_div_iff_mult [OF assms])
next
  have "(x + g - 1) div g * g \<le> x + g - 1"
    using pos_mod_sign [OF assms, of "x + g - 1"] div_mult_mod_eq [of "x + g - 1" g] by linarith
  moreover have "x \<le> - ((- x) div g) * g"
    using pos_mod_sign [OF assms, of "- x"] div_mult_mod_eq [of "- x" g] by linarith
  ultimately have "(x + g - 1) div g * g < (- ((- x) div g) + 1) * g"
    using assms by (simp add: algebra_simps)
  then show "(x + g - 1) div g \<le> - ((- x) div g)"
    using assms by (simp add: mult_less_cancel_right)
qed

lemma i64_add_absorb [go_int]: "i64 (i64 a + b) = i64 (a + b)"
proof -
  have "(i64 a + b + 2 ^ 63) mod 2 ^ 64 = ((a + 2 ^ 63) mod 2 ^ 64 + b) mod 2 ^ 64"
    by (simp add: i64_def algebra_simps)
  also have "\<dots> = (a + b + 2 ^ 63) mod 2 ^ 64"
    by (simp add: mod_simps algebra_simps)
  finally show ?thesis by (simp add: i64_def)
qed

lemma ante_min_fee_pos:
  assumes "priced price" and "0 < gw"
  shows "0 < ante_min_fee price gw"
proof -
  from assms have "\<not> ante_accepts price gw 0"
    by (simp add: ante_accepts_def priced_def not_le)
  with assms show ?thesis by (simp add: priced_def ante_min_fee_least not_le)
qed

text \<open>The two overflow guards say exactly that the exact products fit an int64.\<close>

lemma amount_guard:
  assumes "priced price" "in_i64 (gp_gas price)" "0 < gw"
  shows "gp_amount price > i64 (MaxInt64 - i64 (gp_gas price - 1)) sdiv gw \<longleftrightarrow>
    \<not> gw * gp_amount price + gp_gas price - 1 \<le> MaxInt64"
proof -
  from assms have r: "0 \<le> gp_gas price - 1" "gp_gas price - 1 \<le> MaxInt64"
    by (auto simp: priced_def in_i64_def)
  then have "i64 (gp_gas price - 1) = gp_gas price - 1" by (rule i64_small)
  moreover from r have "i64 (MaxInt64 - (gp_gas price - 1)) = MaxInt64 - (gp_gas price - 1)"
    by (intro i64_small) auto
  moreover from r have "(MaxInt64 - (gp_gas price - 1)) sdiv gw = (MaxInt64 - (gp_gas price - 1)) div gw"
    using assms by (simp add: sdiv_nonneg)
  ultimately show ?thesis
    using le_div_iff_mult [of gw "gp_amount price" "MaxInt64 - (gp_gas price - 1)"] assms
    by (simp add: mult.commute not_le) linarith
qed

lemma min_fee_exact:
  assumes "priced price" "0 < gw" "gw * gp_amount price + gp_gas price - 1 \<le> MaxInt64"
  shows "i64 (i64 (i64 (gw * gp_amount price) + gp_gas price) - 1) sdiv gp_gas price = ante_min_fee price gw"
proof -
  let ?x = "gw * gp_amount price"
  have p: "0 < gp_gas price" "0 < ?x" using assms by (simp_all add: priced_def)
  have "i64 (i64 (i64 ?x + gp_gas price) - 1) = i64 (?x + gp_gas price - 1)"
    using i64_add_absorb [of "i64 ?x + gp_gas price" "-1"] i64_add_absorb [of ?x "gp_gas price - 1"]
    by (simp add: algebra_simps)
  also have "\<dots> = ?x + gp_gas price - 1" using assms p by (intro i64_small) auto
  finally show ?thesis
    using p ceil_div [of "gp_gas price" ?x] by (simp add: sdiv_nonneg ante_min_fee_def)
qed

lemma margin_guard:
  assumes "0 < m" "in_i64 m"
  shows "f > MaxInt64 sdiv m \<longleftrightarrow> \<not> f * m \<le> MaxInt64"
proof -
  have "MaxInt64 sdiv m = MaxInt64 div m" using assms by (intro sdiv_nonneg) (auto simp: MaxInt64_def)
  then show ?thesis using le_div_iff_mult [of m f MaxInt64] assms by auto
qed

lemma Compute_cases:
  assumes "priced price" "in_i64 (gp_gas price)" "0 < gw" "0 < num" "in_i64 num" "0 < den"
  shows "Compute price gw fl num den =
    Inr (if price_fits price gw num then max fl (ante_min_fee price gw * num div den) else fl)"
proof -
  note base = amount_guard [OF assms(1-3)] margin_guard [OF assms(4,5)]
  show ?thesis
  proof (cases "gw * gp_amount price + gp_gas price - 1 \<le> MaxInt64")
    case False
    then show ?thesis using assms base by (auto simp: Compute_def price_fits_def priced_def)
  next
    case fits: True
    note m = min_fee_exact [OF assms(1,3) fits]
    show ?thesis
    proof (cases "ante_min_fee price gw * num \<le> MaxInt64")
      case False
      then show ?thesis using assms fits base m by (auto simp: Compute_def price_fits_def priced_def Let_def)
    next
      case True
      have "0 < ante_min_fee price gw" using assms by (simp add: ante_min_fee_pos)
      then have "i64 (ante_min_fee price gw * num) sdiv den = ante_min_fee price gw * num div den"
        using assms True by (simp add: i64_small sdiv_nonneg)
      then show ?thesis using assms fits True base m
        by (auto simp: Compute_def price_fits_def priced_def Let_def)
    qed
  qed
qed

lemma Compute_fits:
  assumes "priced price" "in_i64 (gp_gas price)" "0 < gw" "0 < num" "in_i64 num" "0 < den"
    and "price_fits price gw num"
  shows "Compute price gw fl num den = Inr (max fl (ante_min_fee price gw * num div den))"
  using Compute_cases [OF assms(1-6)] assms(7) by simp

subsection \<open>Properties\<close>

text \<open>
  C5. \<open>gasprice.Compute\<close> against exact arithmetic. For every int64 price, gas limit,
  floor and positive margin, the fee is the floor when the chain reports no price or when
  one of the two products would leave the int64 range, and otherwise the exact least fee
  the ante handler accepts, scaled by the margin and never below the floor. No
  intermediate wraps.
\<close>

theorem Compute_exact:
  assumes "priced price" "in_i64 (gp_gas price)" "0 < gw" "0 < num" "in_i64 num" "0 < den"
  shows "Compute price gw fl num den =
    Inr (if price_fits price gw num then max fl (ante_min_fee price gw * num div den) else fl)"
  by (rule Compute_cases [OF assms])

theorem Compute_exact_witness:
  "Compute \<lparr>gp_gas = 1000, gp_amount = 7, gp_denom = ''ugnot''\<rparr> 12345 50 2 1 = Inr 174"
  using Compute_exact [of "\<lparr>gp_gas = 1000, gp_amount = 7, gp_denom = ''ugnot''\<rparr>" 12345 2 1 50]
  by (simp add: priced_def ugnot_denom_def in_i64_def price_fits_def ante_min_fee_def
      MinInt64_def MaxInt64_def)

text \<open>
  What \<open>currentGasFee\<close> offers: whenever the chain reports a ugnot price whose products
  fit an int64, the fee is accepted by the chain's ante handler for that gas limit (it is at
  least the exact minimum, doubled), and it is never below the flat default fee.
\<close>

theorem currentGasFee_accepted:
  assumes "Fetch query unmarshal = Inr price" "priced price" "in_i64 (gp_gas price)" "0 < gw"
    and "price_fits price gw gasFeeMarginNum"
  shows "\<exists>fee. currentGasFee query unmarshal gw = Inr fee \<and> DefaultGasFeeUgnot \<le> fee \<and>
    ante_accepts price gw fee \<and> 2 * ante_min_fee price gw \<le> fee"
proof -
  let ?fee = "max DefaultGasFeeUgnot (ante_min_fee price gw * gasFeeMarginNum div gasFeeMarginDen)"
  have "currentGasFee query unmarshal gw = Inr ?fee"
    using assms Compute_fits [of price gw gasFeeMarginNum gasFeeMarginDen DefaultGasFeeUgnot]
    by (simp add: currentGasFee_def in_i64_def MinInt64_def MaxInt64_def gasFeeMarginNum_def
        gasFeeMarginDen_def)
  moreover have "2 * ante_min_fee price gw \<le> ?fee"
    by (simp add: gasFeeMarginNum_def gasFeeMarginDen_def)
  moreover have "0 < ante_min_fee price gw" using assms by (simp add: ante_min_fee_pos)
  ultimately show ?thesis
    using assms ante_min_fee_least [of price gw ?fee] by (intro exI [of _ ?fee]) (auto simp: priced_def)
qed

theorem currentGasFee_accepted_witness:
  "\<exists>fee. currentGasFee (\<lambda>p. Inr ''x'') (\<lambda>b. Inr \<lparr>gp_gas = 1000, gp_amount = 7, gp_denom = ''ugnot''\<rparr>)
      12345 = Inr fee \<and> DefaultGasFeeUgnot \<le> fee"
proof -
  let ?p = "\<lparr>gp_gas = 1000, gp_amount = 7, gp_denom = ''ugnot''\<rparr>"
  have "\<exists>fee. currentGasFee (\<lambda>p. Inr ''x'') (\<lambda>b. Inr ?p) 12345 = Inr fee \<and> DefaultGasFeeUgnot \<le> fee \<and>
      ante_accepts ?p 12345 fee \<and> 2 * ante_min_fee ?p 12345 \<le> fee"
    by (rule currentGasFee_accepted)
      (simp_all add: Fetch_def decode_def priced_def ugnot_denom_def in_i64_def price_fits_def
        ante_min_fee_def MinInt64_def MaxInt64_def gasFeeMarginNum_def)
  then show ?thesis by blast
qed

text \<open>
  The gas limit \<open>gasWantedFor\<close> sizes from a simulation. Whatever int64 the node
  reports, the limit lies between the default and the simulation ceiling (a product that
  wraps cannot escape that range), and for every gas a capped simulation can report the
  limit covers what was measured.
\<close>

theorem gasWantedFor_bounds:
  "DefaultGasWanted \<le> gasWantedFor m \<and> gasWantedFor m \<le> gasEstimateCeiling \<and>
   (0 \<le> m \<and> m \<le> gasEstimateCeiling \<longrightarrow> m \<le> gasWantedFor m)"
proof -
  have "i64 (m * 3) sdiv 2 = m * 3 div 2" if "0 \<le> m" "m \<le> 1000000000" for m
    using that by (simp add: i64_small sdiv_nonneg MaxInt64_def)
  then show ?thesis by (auto simp: gasWantedFor_def Let_def fee_consts)
qed

theorem gasWantedFor_bounds_witness:
  "20000000 \<le> gasWantedFor 20000000"
  using gasWantedFor_bounds [of 20000000] by (simp add: fee_consts)

end
