(* ===== verification/Limiter.thy ===== *)
theory Limiter
  imports Complex_Main "HOL-Library.Multiset" Go_Prelude
begin

section \<open>The faucet's rate limiter: faucet/limiter.go\<close>

text \<open>
  The in-memory limiter: per-address and per-IP sliding windows, the daily cap and the
  drip token bucket. Every exported method holds the mutex for its whole body, so a method
  is one atomic step; the clock \<open>l.now\<close> is read once per method and is the argument
  \<open>now\<close>. A \<open>float64\<close> is a rational and \<open>rnd\<close> is the rounding the machine applies
  after each operation; the facts used of it are monotonicity and \<open>rnd 0 = 0\<close>.
  The abstract counterpart \<open>ref_limiter\<close> never prunes or sweeps its histories.
\<close>

subsection \<open>State and configuration\<close>

datatype limit_error = ErrCooldown | ErrRateLimited | ErrDailyCap | ErrDripLimited

record LimiterCfg =
  cfg_PerAddrWindow :: duration
  cfg_PerAddrMax :: int
  cfg_PerIPWindow :: duration
  cfg_PerIPMax :: int
  cfg_DailyCapUgnot :: int64
  cfg_GrantUgnot :: int64
  cfg_DripBurstUgnot :: int64
  cfg_DripRateUgnotPerSec :: int64

type_synonym hit_map = "string \<rightharpoonup> time list"

record limiter =
  perAddrWindow :: duration
  perAddrMax :: int
  perIPWindow :: duration
  perIPMax :: int
  dailyCapUgnot :: int64
  grantUgnot :: int64
  addrHits :: hit_map
  ipHits :: hit_map
  daySpent :: int64
  dayStart :: time
  dripTokens :: rat
  dripBurst :: rat
  dripRatePerSec :: rat
  dripLast :: time

record LimiterSnapshot =
  snap_DripEnabled :: bool
  snap_DripTokens :: rat
  snap_DripBurst :: rat
  snap_DailyCapUgnot :: int64
  snap_DaySpentUgnot :: int64

record LimiterPolicy =
  pol_PerAddrMax :: int
  pol_PerAddrWindow :: duration

definition hits_of :: "hit_map \<Rightarrow> string \<Rightarrow> time list" where
  "hits_of m k = (case m k of None \<Rightarrow> [] | Some hs \<Rightarrow> hs)"

subsection \<open>Operations\<close>

definition NewLimiter :: "(rat \<Rightarrow> rat) \<Rightarrow> LimiterCfg \<Rightarrow> limiter" where
  "NewLimiter rnd cfg =
     \<lparr>perAddrWindow = (if cfg_PerAddrWindow cfg = 0 then 24 * nhour else cfg_PerAddrWindow cfg),
      perAddrMax = cfg_PerAddrMax cfg,
      perIPWindow = (if cfg_PerIPWindow cfg = 0 then nhour else cfg_PerIPWindow cfg),
      perIPMax = cfg_PerIPMax cfg,
      dailyCapUgnot = cfg_DailyCapUgnot cfg,
      grantUgnot = cfg_GrantUgnot cfg,
      addrHits = Map.empty,
      ipHits = Map.empty,
      daySpent = 0,
      dayStart = 0,
      dripTokens = rnd (of_int (cfg_DripBurstUgnot cfg)),
      dripBurst = rnd (of_int (cfg_DripBurstUgnot cfg)),
      dripRatePerSec = rnd (of_int (cfg_DripRateUgnotPerSec cfg)),
      dripLast = 0\<rparr>"

definition sameUTCDay :: "time \<Rightarrow> time \<Rightarrow> bool" where
  "sameUTCDay a b \<longleftrightarrow> utc_day a = utc_day b"

definition countWithin :: "time list \<Rightarrow> time \<Rightarrow> duration \<Rightarrow> int" where
  "countWithin hits now window =
     (let cutoff = time_add now (i64 (- window))
      in int (length (filter (\<lambda>h. \<not> h < cutoff) hits)))"

definition prune :: "time list \<Rightarrow> time \<Rightarrow> duration \<Rightarrow> time list" where
  "prune hits now window =
     (let cutoff = time_add now (i64 (- window)) in filter (\<lambda>h. \<not> h < cutoff) hits)"

definition pruneAndAppend :: "time list \<Rightarrow> time \<Rightarrow> duration \<Rightarrow> time list" where
  "pruneAndAppend hits now window = prune hits now window @ [now]"

definition dropLast :: "time list \<Rightarrow> time list" where
  "dropLast hits = (if length hits = 0 then hits else take (length hits - 1) hits)"

definition sweep_map :: "hit_map \<Rightarrow> time \<Rightarrow> duration \<Rightarrow> hit_map" where
  "sweep_map m now window =
     (\<lambda>k. case m k of
            None \<Rightarrow> None
          | Some hits \<Rightarrow> (let kept = prune hits now window in if kept = [] then None else Some kept))"

definition sweepStale :: "limiter \<Rightarrow> time \<Rightarrow> limiter" where
  "sweepStale l now =
     l\<lparr>addrHits := sweep_map (addrHits l) now (perAddrWindow l),
       ipHits := sweep_map (ipHits l) now (perIPWindow l)\<rparr>"

text \<open>\<open>Duration.Seconds\<close>: the whole seconds plus the remaining nanoseconds over 1e9.\<close>

definition Seconds :: "(rat \<Rightarrow> rat) \<Rightarrow> duration \<Rightarrow> rat" where
  "Seconds rnd d =
     rnd (rnd (of_int (d sdiv nsecond)) + rnd (rnd (of_int (d smod nsecond)) / 1000000000))"

definition refillDrip :: "(rat \<Rightarrow> rat) \<Rightarrow> limiter \<Rightarrow> time \<Rightarrow> limiter" where
  "refillDrip rnd l now =
     (if IsZero (dripLast l) then l\<lparr>dripLast := now\<rparr>
      else
        let elapsed = Seconds rnd (time_sub now (dripLast l))
        in if elapsed \<le> 0 then l
           else let tokens = rnd (dripTokens l + rnd (elapsed * dripRatePerSec l));
                    capped = (if tokens > dripBurst l then dripBurst l else tokens)
                in l\<lparr>dripTokens := capped, dripLast := now\<rparr>)"

definition day_rollover :: "limiter \<Rightarrow> time \<Rightarrow> limiter" where
  "day_rollover l now =
     (if IsZero (dayStart l) \<or> \<not> sameUTCDay (dayStart l) now
      then sweepStale (l\<lparr>daySpent := 0, dayStart := now\<rparr>) now
      else l)"

definition drip_take :: "(rat \<Rightarrow> rat) \<Rightarrow> limiter \<Rightarrow> time \<Rightarrow> limiter \<times> bool" where
  "drip_take rnd l now =
     (if dripBurst l > 0 then
        let l = refillDrip rnd l now
        in if dripTokens l < rnd (of_int (grantUgnot l)) then (l, False)
           else (l\<lparr>dripTokens := rnd (dripTokens l - rnd (of_int (grantUgnot l)))\<rparr>, True)
      else (l, True))"

definition record_grant :: "limiter \<Rightarrow> string \<Rightarrow> string \<Rightarrow> time \<Rightarrow> limiter" where
  "record_grant l addr ip now =
     l\<lparr>addrHits := (addrHits l)(addr \<mapsto> pruneAndAppend (hits_of (addrHits l) addr) now (perAddrWindow l)),
       ipHits := (ipHits l)(ip \<mapsto> pruneAndAppend (hits_of (ipHits l) ip) now (perIPWindow l)),
       daySpent := i64 (daySpent l + grantUgnot l)\<rparr>"

definition Allow :: "(rat \<Rightarrow> rat) \<Rightarrow> limiter \<Rightarrow> string \<Rightarrow> string \<Rightarrow> time \<Rightarrow> limiter \<times> (limit_error + time)" where
  "Allow rnd l0 addr ip now =
     (let l = day_rollover l0 now
      in if countWithin (hits_of (addrHits l) addr) now (perAddrWindow l) \<ge> perAddrMax l
         then (l, Inl ErrCooldown)
         else if countWithin (hits_of (ipHits l) ip) now (perIPWindow l) \<ge> perIPMax l
         then (l, Inl ErrRateLimited)
         else if daySpent l > i64 (dailyCapUgnot l - grantUgnot l)
         then (l, Inl ErrDailyCap)
         else case drip_take rnd l now of
                (l, False) \<Rightarrow> (l, Inl ErrDripLimited)
              | (l, True) \<Rightarrow> (record_grant l addr ip now, Inr now))"

definition refund_day :: "limiter \<Rightarrow> time \<Rightarrow> limiter" where
  "refund_day l grantedAt =
     (if sameUTCDay grantedAt (dayStart l) then
        let spent = i64 (daySpent l - grantUgnot l)
        in l\<lparr>daySpent := (if spent < 0 then 0 else spent)\<rparr>
      else l)"

definition refund_drip :: "(rat \<Rightarrow> rat) \<Rightarrow> limiter \<Rightarrow> time \<Rightarrow> limiter" where
  "refund_drip rnd l now =
     (if dripBurst l > 0 then
        let l = refillDrip rnd l now;
            tokens = rnd (dripTokens l + rnd (of_int (grantUgnot l)))
        in l\<lparr>dripTokens := (if tokens > dripBurst l then dripBurst l else tokens)\<rparr>
      else l)"

definition Refund :: "(rat \<Rightarrow> rat) \<Rightarrow> limiter \<Rightarrow> string \<Rightarrow> string \<Rightarrow> time \<Rightarrow> time \<Rightarrow> limiter" where
  "Refund rnd l addr ip grantedAt now =
     (let l1 = l\<lparr>addrHits := (addrHits l)(addr \<mapsto> dropLast (hits_of (addrHits l) addr)),
                 ipHits := (ipHits l)(ip \<mapsto> dropLast (hits_of (ipHits l) ip))\<rparr>
      in refund_drip rnd (refund_day l1 grantedAt) now)"

definition Snapshot :: "(rat \<Rightarrow> rat) \<Rightarrow> limiter \<Rightarrow> time \<Rightarrow> LimiterSnapshot" where
  "Snapshot rnd l now =
     (let spent = (if IsZero (dayStart l) \<or> \<not> sameUTCDay (dayStart l) now then 0 else daySpent l);
          tokens =
            (if dripBurst l > 0 then
               (if \<not> IsZero (dripLast l) then
                  let elapsed = Seconds rnd (time_sub now (dripLast l))
                  in if elapsed > 0
                     then let t = rnd (dripTokens l + rnd (elapsed * dripRatePerSec l))
                          in if t > dripBurst l then dripBurst l else t
                     else dripTokens l
                else dripTokens l)
             else 0)
      in \<lparr>snap_DripEnabled = (dripBurst l > 0), snap_DripTokens = tokens, snap_DripBurst = dripBurst l,
          snap_DailyCapUgnot = dailyCapUgnot l, snap_DaySpentUgnot = spent\<rparr>)"

definition Policy :: "limiter \<Rightarrow> LimiterPolicy" where
  "Policy l = \<lparr>pol_PerAddrMax = perAddrMax l, pol_PerAddrWindow = perAddrWindow l\<rparr>"

subsection \<open>Runs, and the limiter that never forgets\<close>

text \<open>
  A run is a sequence of limiter calls with the clock each one read; \<open>lim_run\<close> gives the
  final state and what each \<open>Allow\<close> returned. The reference limiter keeps every hit for
  ever: it neither prunes on a grant nor sweeps on a new day.
\<close>

datatype lim_event =
    is_EvAllow: EvAllow (ev_addr: string) (ev_ip: string) (ev_now: time)
  | EvRefund (ev_addr: string) (ev_ip: string) (ev_granted: time) (ev_now: time)

type_synonym allow_fn = "limiter \<Rightarrow> string \<Rightarrow> string \<Rightarrow> time \<Rightarrow> limiter \<times> (limit_error + time)"

fun lim_run :: "allow_fn \<Rightarrow> (rat \<Rightarrow> rat) \<Rightarrow> limiter \<Rightarrow> lim_event list \<Rightarrow> limiter \<times> (limit_error + time) list" where
  "lim_run allow rnd l [] = (l, [])"
| "lim_run allow rnd l (EvAllow a i t # evs) =
     (case allow l a i t of (l1, r) \<Rightarrow>
        case lim_run allow rnd l1 evs of (l2, rs) \<Rightarrow> (l2, r # rs))"
| "lim_run allow rnd l (EvRefund a i g t # evs) = lim_run allow rnd (Refund rnd l a i g t) evs"

definition ref_rollover :: "limiter \<Rightarrow> time \<Rightarrow> limiter" where
  "ref_rollover l now =
     (if IsZero (dayStart l) \<or> \<not> sameUTCDay (dayStart l) now
      then l\<lparr>daySpent := 0, dayStart := now\<rparr> else l)"

definition ref_record :: "limiter \<Rightarrow> string \<Rightarrow> string \<Rightarrow> time \<Rightarrow> limiter" where
  "ref_record l addr ip now =
     l\<lparr>addrHits := (addrHits l)(addr \<mapsto> hits_of (addrHits l) addr @ [now]),
       ipHits := (ipHits l)(ip \<mapsto> hits_of (ipHits l) ip @ [now]),
       daySpent := i64 (daySpent l + grantUgnot l)\<rparr>"

definition ref_Allow :: "(rat \<Rightarrow> rat) \<Rightarrow> allow_fn" where
  "ref_Allow rnd l0 addr ip now =
     (let l = ref_rollover l0 now
      in if countWithin (hits_of (addrHits l) addr) now (perAddrWindow l) \<ge> perAddrMax l
         then (l, Inl ErrCooldown)
         else if countWithin (hits_of (ipHits l) ip) now (perIPWindow l) \<ge> perIPMax l
         then (l, Inl ErrRateLimited)
         else if daySpent l > i64 (dailyCapUgnot l - grantUgnot l)
         then (l, Inl ErrDailyCap)
         else case drip_take rnd l now of
                (l, False) \<Rightarrow> (l, Inl ErrDripLimited)
              | (l, True) \<Rightarrow> (ref_record l addr ip now, Inr now))"

definition win_ok :: "duration \<Rightarrow> bool" where
  "win_ok w \<longleftrightarrow> 0 \<le> w \<and> w \<le> MaxInt64"

definition pruned :: "duration \<Rightarrow> time \<Rightarrow> time list \<Rightarrow> time list \<Rightarrow> bool" where
  "pruned w T hs hist \<longleftrightarrow>
     sorted hist \<and> (\<forall>h \<in> set hist. h \<le> T) \<and> (\<exists>c \<le> T - w. hs = filter (\<lambda>h. c \<le> h) hist)"

definition refines :: "time \<Rightarrow> limiter \<Rightarrow> limiter \<Rightarrow> bool" where
  "refines T c r \<longleftrightarrow>
     c = r\<lparr>addrHits := addrHits c, ipHits := ipHits c\<rparr> \<and>
     win_ok (perAddrWindow r) \<and> win_ok (perIPWindow r) \<and>
     (\<forall>k. pruned (perAddrWindow r) T (hits_of (addrHits c) k) (hits_of (addrHits r) k)) \<and>
     (\<forall>k. pruned (perIPWindow r) T (hits_of (ipHits c) k) (hits_of (ipHits r) k))"

subsection \<open>Lemmas: pruned histories\<close>

lemma neg_window: "win_ok w \<Longrightarrow> i64 (- w) = - w"
  by (simp add: win_ok_def i64_id in_i64_def MinInt64_def MaxInt64_def)

lemma prune_eq: "win_ok w \<Longrightarrow> prune hs now w = filter (\<lambda>h. now - w \<le> h) hs"
  by (simp add: prune_def neg_window time_add_def not_less Let_def)

lemma countWithin_eq: "win_ok w \<Longrightarrow> countWithin hs now w = int (length (filter (\<lambda>h. now - w \<le> h) hs))"
  by (simp add: countWithin_def neg_window time_add_def not_less Let_def)

lemma dropLast_butlast: "dropLast hs = butlast hs"
  by (simp add: dropLast_def butlast_conv_take)

lemma hits_of_upd [simp]: "hits_of (m(k \<mapsto> v)) j = (if j = k then v else hits_of m j)"
  by (simp add: hits_of_def)

lemma hits_of_empty [simp]: "hits_of Map.empty k = []"
  by (simp add: hits_of_def)

lemma hits_of_sweep: "hits_of (sweep_map m now w) k = prune (hits_of m k) now w"
  by (auto simp: hits_of_def sweep_map_def Let_def prune_def split: option.splits)

lemma pruned_mono: "pruned w T hs hist \<Longrightarrow> T \<le> T' \<Longrightarrow> pruned w T' hs hist"
proof -
  assume "pruned w T hs hist" "T \<le> T'"
  moreover from this obtain c where "c \<le> T - w" "hs = filter (\<lambda>h. c \<le> h) hist"
    by (auto simp: pruned_def)
  ultimately show ?thesis by (auto simp: pruned_def intro!: exI [of _ c])
qed

lemma pruned_prune: "pruned w now hs hist \<Longrightarrow> win_ok w \<Longrightarrow> pruned w now (prune hs now w) hist"
  by (force simp: pruned_def prune_eq intro: exI [of _ "now - w"] filter_cong)

lemma pruned_count: "pruned w now hs hist \<Longrightarrow> win_ok w \<Longrightarrow> countWithin hs now w = countWithin hist now w"
  by (force simp: pruned_def countWithin_eq intro: arg_cong [where f = length] filter_cong)

lemma pruned_snoc: "pruned w now hs hist \<Longrightarrow> win_ok w \<Longrightarrow> pruned w now (hs @ [now]) (hist @ [now])"
  by (auto simp: pruned_def sorted_append win_ok_def)

lemma filter_butlast:
  assumes "sorted (hist :: time list)"
  shows "filter (\<lambda>h. c \<le> h) (butlast hist) = butlast (filter (\<lambda>h. c \<le> h) hist)"
proof (cases hist rule: rev_cases)
  case (snoc xs x)
  with assms have "filter (\<lambda>h. c \<le> h) xs = []" if "\<not> c \<le> x"
    using that by (auto simp: sorted_append filter_empty_conv)
  with snoc show ?thesis by auto
qed simp

lemma pruned_dropLast: "pruned w T hs hist \<Longrightarrow> pruned w T (dropLast hs) (dropLast hist)"
proof -
  assume a: "pruned w T hs hist"
  then have "sorted (butlast hist)" by (simp add: pruned_def sorted_butlast)
  with a show ?thesis
    by (auto simp: pruned_def dropLast_butlast filter_butlast dest: in_set_butlastD)
qed

subsection \<open>Lemmas: the refinement\<close>

lemma refillDrip_hits:
  "refillDrip rnd (l\<lparr>addrHits := a, ipHits := i\<rparr>) now = (refillDrip rnd l now)\<lparr>addrHits := a, ipHits := i\<rparr>"
  by (simp add: refillDrip_def Let_def)

lemma drip_take_hits:
  "drip_take rnd (l\<lparr>addrHits := a, ipHits := i\<rparr>) now =
     map_prod (\<lambda>l. l\<lparr>addrHits := a, ipHits := i\<rparr>) id (drip_take rnd l now)"
  by (simp add: drip_take_def refillDrip_hits Let_def)

lemma refillDrip_frame [simp]:
  "addrHits (refillDrip rnd l now) = addrHits l" "ipHits (refillDrip rnd l now) = ipHits l"
  "perAddrWindow (refillDrip rnd l now) = perAddrWindow l" "perIPWindow (refillDrip rnd l now) = perIPWindow l"
  "perAddrMax (refillDrip rnd l now) = perAddrMax l" "perIPMax (refillDrip rnd l now) = perIPMax l"
  "daySpent (refillDrip rnd l now) = daySpent l" "dayStart (refillDrip rnd l now) = dayStart l"
  "dailyCapUgnot (refillDrip rnd l now) = dailyCapUgnot l" "grantUgnot (refillDrip rnd l now) = grantUgnot l"
  "dripBurst (refillDrip rnd l now) = dripBurst l" "dripRatePerSec (refillDrip rnd l now) = dripRatePerSec l"
  by (simp_all add: refillDrip_def Let_def)

lemma drip_take_frame:
  assumes "drip_take rnd l now = (l', b)"
  shows "addrHits l' = addrHits l" "ipHits l' = ipHits l"
    "perAddrWindow l' = perAddrWindow l" "perIPWindow l' = perIPWindow l"
    "perAddrMax l' = perAddrMax l" "perIPMax l' = perIPMax l"
    "daySpent l' = daySpent l" "dayStart l' = dayStart l"
    "dailyCapUgnot l' = dailyCapUgnot l" "grantUgnot l' = grantUgnot l"
    "dripBurst l' = dripBurst l" "dripRatePerSec l' = dripRatePerSec l"
  using assms by (auto simp: drip_take_def Let_def split: if_splits)

lemma refines_mono: "refines T c r \<Longrightarrow> T \<le> T' \<Longrightarrow> refines T' c r"
  unfolding refines_def by (blast intro: pruned_mono)

lemma refines_rollover:
  assumes "refines now c r"
  shows "refines now (day_rollover c now) (ref_rollover r now)"
proof -
  obtain a i where c: "c = r\<lparr>addrHits := a, ipHits := i\<rparr>" using assms by (auto simp: refines_def)
  show ?thesis
    using assms unfolding c
    by (auto simp: refines_def day_rollover_def ref_rollover_def sweepStale_def hits_of_sweep
        intro: pruned_prune)
qed

lemma refines_drip:
  assumes "refines T c r" "drip_take rnd r now = (r', b)"
  shows "\<exists>c'. drip_take rnd c now = (c', b) \<and> refines T c' r'"
proof -
  obtain a i where c: "c = r\<lparr>addrHits := a, ipHits := i\<rparr>" using assms by (auto simp: refines_def)
  have "refines T (r'\<lparr>addrHits := a, ipHits := i\<rparr>) r'"
    using assms(1) drip_take_frame [OF assms(2)] unfolding c by (simp add: refines_def)
  then show ?thesis using assms(2) by (simp add: c drip_take_hits)
qed

lemma refines_record:
  assumes "refines now c r"
  shows "refines now (record_grant c addr ip now) (ref_record r addr ip now)"
proof -
  obtain a i where c: "c = r\<lparr>addrHits := a, ipHits := i\<rparr>" using assms by (auto simp: refines_def)
  show ?thesis
    using assms unfolding c
    by (auto simp: refines_def record_grant_def ref_record_def pruneAndAppend_def
        intro: pruned_snoc pruned_prune)
qed

lemma refines_checks:
  assumes "refines now c r"
  shows "countWithin (hits_of (addrHits c) k) now (perAddrWindow c) =
      countWithin (hits_of (addrHits r) k) now (perAddrWindow r)"
    and "countWithin (hits_of (ipHits c) k) now (perIPWindow c) =
      countWithin (hits_of (ipHits r) k) now (perIPWindow r)"
    and "perAddrMax c = perAddrMax r" "perIPMax c = perIPMax r" "daySpent c = daySpent r"
    and "dailyCapUgnot c = dailyCapUgnot r" "grantUgnot c = grantUgnot r"
proof -
  obtain a i where c: "c = r\<lparr>addrHits := a, ipHits := i\<rparr>" using assms by (auto simp: refines_def)
  show "countWithin (hits_of (addrHits c) k) now (perAddrWindow c) =
      countWithin (hits_of (addrHits r) k) now (perAddrWindow r)"
    and "countWithin (hits_of (ipHits c) k) now (perIPWindow c) =
      countWithin (hits_of (ipHits r) k) now (perIPWindow r)"
    and "perAddrMax c = perAddrMax r" "perIPMax c = perIPMax r" "daySpent c = daySpent r"
    and "dailyCapUgnot c = dailyCapUgnot r" "grantUgnot c = grantUgnot r"
    using assms unfolding c by (auto simp: refines_def intro: pruned_count)
qed

lemma Allow_refines:
  assumes "refines now c r" "ref_Allow rnd r addr ip now = (r', res)"
  shows "\<exists>c'. Allow rnd c addr ip now = (c', res) \<and> refines now c' r'"
proof -
  let ?r = "ref_rollover r now"
  note rr = refines_rollover [OF assms(1)]
  note eqs = refines_checks [OF rr]
  obtain r1 b where d: "drip_take rnd ?r now = (r1, b)" by force
  obtain c1 where c1: "drip_take rnd (day_rollover c now) now = (c1, b)" "refines now c1 r1"
    using refines_drip [OF rr d] by blast
  show ?thesis
    using assms(2) rr c1 d refines_record [OF c1(2), of addr ip]
    by (auto simp: Allow_def ref_Allow_def Let_def eqs split: if_splits bool.splits)
qed

lemma refund_day_hits:
  "refund_day (l\<lparr>addrHits := a, ipHits := i\<rparr>) g = (refund_day l g)\<lparr>addrHits := a, ipHits := i\<rparr>"
  by (simp add: refund_day_def Let_def)

lemma refund_drip_hits:
  "refund_drip rnd (l\<lparr>addrHits := a, ipHits := i\<rparr>) now = (refund_drip rnd l now)\<lparr>addrHits := a, ipHits := i\<rparr>"
  by (simp add: refund_drip_def refillDrip_hits Let_def)

lemma refund_frame [simp]:
  "perAddrWindow (refund_drip rnd (refund_day l g) now) = perAddrWindow l"
  "perIPWindow (refund_drip rnd (refund_day l g) now) = perIPWindow l"
  by (simp_all add: refund_drip_def refund_day_def Let_def)

lemma Refund_refines:
  assumes "refines T c r"
  shows "refines T (Refund rnd c addr ip g now) (Refund rnd r addr ip g now)"
proof -
  obtain a i where c: "c = r\<lparr>addrHits := a, ipHits := i\<rparr>" using assms by (auto simp: refines_def)
  show ?thesis
    using assms unfolding c
    by (auto simp: refines_def Refund_def refund_day_hits refund_drip_hits Let_def
        intro: pruned_dropLast)
qed

lemma NewLimiter_refines:
  assumes "win_ok (perAddrWindow (NewLimiter rnd cfg))" "win_ok (perIPWindow (NewLimiter rnd cfg))"
  shows "refines T (NewLimiter rnd cfg) (NewLimiter rnd cfg)"
  using assms by (auto simp: refines_def NewLimiter_def pruned_def)

lemma lim_run_refines:
  "refines T c r \<Longrightarrow> \<forall>e \<in> set evs. T \<le> ev_now e \<Longrightarrow> sorted (map ev_now evs) \<Longrightarrow>
   snd (lim_run (Allow rnd) rnd c evs) = snd (lim_run (ref_Allow rnd) rnd r evs)"
proof (induction evs arbitrary: T c r)
  case (Cons e evs)
  have later: "\<forall>x \<in> set evs. ev_now e \<le> ev_now x" "sorted (map ev_now evs)"
    using Cons.prems by auto
  have ref: "refines (ev_now e) c r" using Cons.prems by (auto intro: refines_mono)
  show ?case
  proof (cases e)
    case (EvAllow a i t)
    obtain r' res where "ref_Allow rnd r a i t = (r', res)" by force
    moreover obtain c' where "Allow rnd c a i t = (c', res)" "refines t c' r'"
      using Allow_refines [OF _ calculation] ref EvAllow by auto
    moreover have "snd (lim_run (Allow rnd) rnd c' evs) = snd (lim_run (ref_Allow rnd) rnd r' evs)"
      using Cons.IH [of t c' r'] later EvAllow calculation by auto
    ultimately show ?thesis using EvAllow by (auto split: prod.splits)
  next
    case (EvRefund a i g t)
    have "refines t (Refund rnd c a i g t) (Refund rnd r a i g t)"
      using ref EvRefund by (auto intro: Refund_refines)
    then show ?thesis using Cons.IH later EvRefund by auto
  qed
qed simp

lemma lim_run_from_new:
  assumes "win_ok (perAddrWindow (NewLimiter rnd cfg))" "win_ok (perIPWindow (NewLimiter rnd cfg))"
    and "sorted (map ev_now evs)"
  shows "snd (lim_run (Allow rnd) rnd (NewLimiter rnd cfg) evs) =
    snd (lim_run (ref_Allow rnd) rnd (NewLimiter rnd cfg) evs)"
proof (cases evs)
  case (Cons e es)
  with assms(3) have "\<forall>x \<in> set evs. ev_now e \<le> ev_now x" by auto
  then show ?thesis using lim_run_refines NewLimiter_refines [OF assms(1,2)] assms(3) by blast
qed simp

subsection \<open>Lemmas: windows over recorded grants\<close>

text \<open>The times at which the calls with key \<open>k\<close> were granted, in a run without refunds.\<close>

fun granted_to :: "(lim_event \<Rightarrow> string) \<Rightarrow> string \<Rightarrow> lim_event list \<Rightarrow> (limit_error + time) list \<Rightarrow> time list" where
  "granted_to key k (e # evs) (r # rs) =
     (if key e = k then (case r of Inl _ \<Rightarrow> [] | Inr t \<Rightarrow> [t]) else []) @ granted_to key k evs rs"
| "granted_to key k _ _ = []"

definition window_inv :: "duration \<Rightarrow> int \<Rightarrow> time list \<Rightarrow> bool" where
  "window_inv w m hist \<longleftrightarrow> (\<forall>t. int (length (filter (\<lambda>h. t - w \<le> h \<and> h \<le> t) hist)) \<le> m)"

lemma length_filter_mono: "(\<And>x. P x \<Longrightarrow> Q x) \<Longrightarrow> length (filter P xs) \<le> length (filter Q xs)"
  by (induction xs) auto

lemma window_inv_snoc:
  assumes "window_inv w m hist" "\<not> m \<le> countWithin hist now w" "win_ok w"
  shows "window_inv w m (hist @ [now])"
  unfolding window_inv_def
proof
  fix t
  let ?in = "\<lambda>h. t - w \<le> h \<and> h \<le> t"
  have "int (length (filter ?in hist)) \<le> m" using assms by (simp add: window_inv_def)
  moreover have "int (length (filter ?in hist)) < m" if "?in now"
  proof -
    have "length (filter ?in hist) \<le> length (filter (\<lambda>h. now - w \<le> h) hist)"
      using that by (intro length_filter_mono) auto
    with assms show ?thesis by (simp add: countWithin_eq)
  qed
  ultimately show "int (length (filter ?in (hist @ [now]))) \<le> m" by auto
qed

lemma window_inv_grant:
  "\<forall>k. window_inv w m (hits_of H k) \<Longrightarrow> \<not> m \<le> countWithin (hits_of H a) now w \<Longrightarrow> win_ok w \<Longrightarrow>
   window_inv w m (hits_of H a @ [now])"
  by (blast intro: window_inv_snoc)

definition windows_inv :: "limiter \<Rightarrow> bool" where
  "windows_inv r \<longleftrightarrow> win_ok (perAddrWindow r) \<and> win_ok (perIPWindow r) \<and>
     (\<forall>k. window_inv (perAddrWindow r) (perAddrMax r) (hits_of (addrHits r) k)) \<and>
     (\<forall>k. window_inv (perIPWindow r) (perIPMax r) (hits_of (ipHits r) k))"

definition same_limits :: "limiter \<Rightarrow> limiter \<Rightarrow> bool" where
  "same_limits l r \<longleftrightarrow> perAddrWindow l = perAddrWindow r \<and> perIPWindow l = perIPWindow r \<and>
     perAddrMax l = perAddrMax r \<and> perIPMax l = perIPMax r"

lemma ref_Allow_windows:
  assumes "windows_inv r" "ref_Allow rnd r addr ip now = (r', res)"
  shows "windows_inv r' \<and> same_limits r' r \<and>
    (\<forall>k. hits_of (addrHits r') k = hits_of (addrHits r) k @ granted_to ev_addr k [EvAllow addr ip now] [res]) \<and>
    (\<forall>k. hits_of (ipHits r') k = hits_of (ipHits r) k @ granted_to ev_ip k [EvAllow addr ip now] [res])"
proof -
  let ?r = "ref_rollover r now"
  have fr: "addrHits ?r = addrHits r" "ipHits ?r = ipHits r" "same_limits ?r r"
    by (simp_all add: ref_rollover_def same_limits_def)
  obtain r1 b where d: "drip_take rnd ?r now = (r1, b)" by force
  note fr1 = drip_take_frame [OF d]
  show ?thesis
    using assms fr fr1 d
    by (auto simp: ref_Allow_def Let_def windows_inv_def same_limits_def ref_record_def
        split: if_splits bool.splits intro: window_inv_grant)
qed

lemma granted_to_Cons:
  "granted_to key k (e # evs) (r # rs) = granted_to key k [e] [r] @ granted_to key k evs rs"
  by simp

lemma ref_run_windows:
  "windows_inv r \<Longrightarrow> \<forall>e \<in> set evs. is_EvAllow e \<Longrightarrow> lim_run (ref_Allow rnd) rnd r evs = (r', rs) \<Longrightarrow>
   windows_inv r' \<and> same_limits r' r \<and>
   (\<forall>k. hits_of (addrHits r') k = hits_of (addrHits r) k @ granted_to ev_addr k evs rs) \<and>
   (\<forall>k. hits_of (ipHits r') k = hits_of (ipHits r) k @ granted_to ev_ip k evs rs)"
proof (induction evs arbitrary: r rs)
  case Nil
  then show ?case by (auto simp: same_limits_def)
next
  case (Cons e evs)
  then obtain a i t where e: "e = EvAllow a i t" by (cases e) auto
  obtain r1 x where s: "ref_Allow rnd r a i t = (r1, x)" by force
  obtain xs where t: "lim_run (ref_Allow rnd) rnd r1 evs = (r', xs)" and rs: "rs = x # xs"
    using Cons.prems e s by (auto split: prod.splits)
  note h = ref_Allow_windows [OF Cons.prems(1) s]
  have "windows_inv r1" using h by blast
  note ih = Cons.IH [OF this _ t]
  show ?case
    using Cons.prems h ih unfolding e rs
    by (auto simp: granted_to_Cons [of _ _ _ evs] same_limits_def simp del: granted_to.simps(1))
qed

lemma NewLimiter_windows:
  assumes "win_ok (perAddrWindow (NewLimiter rnd cfg))" "win_ok (perIPWindow (NewLimiter rnd cfg))"
    and "0 \<le> cfg_PerAddrMax cfg" "0 \<le> cfg_PerIPMax cfg"
  shows "windows_inv (NewLimiter rnd cfg)"
  using assms by (auto simp: windows_inv_def NewLimiter_def window_inv_def)

subsection \<open>Lemmas: the daily counter and the drip bucket\<close>

text \<open>The day the counter is for; \<open>None\<close> before the first call.\<close>

definition lim_day :: "limiter \<Rightarrow> int option" where
  "lim_day l = (if IsZero (dayStart l) then None else Some (utc_day (dayStart l)))"

definition lim_ok :: "int64 \<Rightarrow> int64 \<Rightarrow> limiter \<Rightarrow> bool" where
  "lim_ok grant cap l \<longleftrightarrow> grantUgnot l = grant \<and> dailyCapUgnot l = cap \<and>
     0 \<le> grant \<and> grant \<le> MaxInt64 \<and> 0 \<le> cap \<and> cap \<le> MaxInt64 \<and>
     0 \<le> daySpent l \<and> daySpent l \<le> cap \<and> (IsZero (dayStart l) \<longrightarrow> daySpent l = 0)"

lemma day_rollover_frame [simp]:
  "grantUgnot (day_rollover l now) = grantUgnot l" "dailyCapUgnot (day_rollover l now) = dailyCapUgnot l"
  "perAddrWindow (day_rollover l now) = perAddrWindow l" "perIPWindow (day_rollover l now) = perIPWindow l"
  "perAddrMax (day_rollover l now) = perAddrMax l" "perIPMax (day_rollover l now) = perIPMax l"
  "dripBurst (day_rollover l now) = dripBurst l" "dripTokens (day_rollover l now) = dripTokens l"
  "dripLast (day_rollover l now) = dripLast l" "dripRatePerSec (day_rollover l now) = dripRatePerSec l"
  by (simp_all add: day_rollover_def sweepStale_def)

lemma day_rollover_day:
  assumes "0 < now"
  shows "lim_day (day_rollover l now) = Some (utc_day now)"
    and "daySpent (day_rollover l now) = (if lim_day l = Some (utc_day now) then daySpent l else 0)"
  using assms
  by (auto simp: lim_day_def day_rollover_def sweepStale_def IsZero_def sameUTCDay_def)

lemma day_rollover_ok: "lim_ok grant cap l \<Longrightarrow> 0 < now \<Longrightarrow> lim_ok grant cap (day_rollover l now)"
  by (auto simp: lim_ok_def day_rollover_def sweepStale_def)

lemma cap_guard:
  "lim_ok grant cap l \<Longrightarrow> daySpent l > i64 (cap - grant) \<longleftrightarrow> daySpent l + grant > cap"
  by (subst i64_id) (auto simp: lim_ok_def in_i64_def MinInt64_def MaxInt64_def)

lemma Allow_day:
  assumes "lim_ok grant cap l" "0 < now" "Allow rnd l addr ip now = (l', res)"
  shows "lim_ok grant cap l' \<and> lim_day l' = Some (utc_day now) \<and> (\<forall>g. res = Inr g \<longrightarrow> g = now) \<and>
    daySpent l' = (if lim_day l = Some (utc_day now) then daySpent l else 0) +
      (case res of Inl _ \<Rightarrow> 0 | Inr _ \<Rightarrow> grant)"
proof -
  let ?l = "day_rollover l now"
  obtain l1 b where d: "drip_take rnd ?l now = (l1, b)" by force
  note fr = drip_take_frame [OF d]
  note ok = day_rollover_ok [OF assms(1,2)]
  note guard = cap_guard [OF ok]
  have l1: "lim_ok grant cap l1" "lim_day l1 = lim_day ?l" "daySpent l1 = daySpent ?l"
    using ok fr by (simp_all add: lim_ok_def lim_day_def)
  have rec: "lim_ok grant cap (record_grant l1 addr ip now)"
      "daySpent (record_grant l1 addr ip now) = daySpent ?l + grant" if "\<not> i64 (cap - grant) < daySpent ?l"
    using that guard ok l1 day_rollover_day [OF assms(2), of l]
    by (auto simp: record_grant_def lim_ok_def i64_small lim_day_def)
  have g: "grantUgnot ?l = grant" "dailyCapUgnot ?l = cap" using ok by (simp_all add: lim_ok_def)
  show ?thesis
    using assms(3) ok l1 rec g d day_rollover_day [OF assms(2), of l]
    by (auto simp: Allow_def Let_def record_grant_def lim_day_def split: if_splits bool.splits)
qed

lemma Refund_frame:
  "grantUgnot (Refund rnd l a i g now) = grantUgnot l" "dailyCapUgnot (Refund rnd l a i g now) = dailyCapUgnot l"
  "dayStart (Refund rnd l a i g now) = dayStart l"
  "daySpent (Refund rnd l a i g now) =
     (if sameUTCDay g (dayStart l) then max 0 (i64 (daySpent l - grantUgnot l)) else daySpent l)"
  by (auto simp: Refund_def refund_drip_def refund_day_def Let_def)

lemma Refund_day:
  assumes "lim_ok grant cap l"
  shows "lim_ok grant cap (Refund rnd l a i g now) \<and> lim_day (Refund rnd l a i g now) = lim_day l \<and>
    daySpent (Refund rnd l a i g now) =
      (if lim_day l = Some (utc_day g) then max 0 (daySpent l - grant) else daySpent l)"
proof -
  have "i64 (daySpent l - grant) = daySpent l - grant"
    using assms by (intro i64_id) (auto simp: lim_ok_def in_i64_def MinInt64_def MaxInt64_def)
  with assms show ?thesis
    by (auto simp: lim_ok_def lim_day_def Refund_frame sameUTCDay_def)
qed

definition rounding :: "(rat \<Rightarrow> rat) \<Rightarrow> bool" where
  "rounding rnd \<longleftrightarrow> mono rnd \<and> rnd 0 = 0 \<and> (\<forall>x. rnd (rnd x) = rnd x)"

definition drip_ok :: "(rat \<Rightarrow> rat) \<Rightarrow> limiter \<Rightarrow> bool" where
  "drip_ok rnd l \<longleftrightarrow> 0 \<le> dripTokens l \<and> dripTokens l \<le> dripBurst l \<and> rnd (dripBurst l) = dripBurst l \<and>
     0 \<le> dripRatePerSec l \<and> 0 \<le> grantUgnot l"

lemma rounding_nonneg:
  assumes "rounding rnd" "0 \<le> x"
  shows "0 \<le> rnd x"
proof -
  have "mono rnd" "rnd 0 = 0" using assms by (simp_all add: rounding_def)
  from monoD [OF this(1) assms(2)] this(2) show ?thesis by simp
qed

lemma rounding_le:
  assumes "rounding rnd" "x \<le> y" "rnd y = y"
  shows "rnd x \<le> y"
proof -
  have "mono rnd" using assms by (simp add: rounding_def)
  from monoD [OF this assms(2)] assms(3) show ?thesis by simp
qed

lemma grant_nonneg: "rounding rnd \<Longrightarrow> 0 \<le> grantUgnot l \<Longrightarrow> 0 \<le> rnd (of_int (grantUgnot l))"
  by (rule rounding_nonneg [of rnd]) simp_all

lemma refillDrip_ok:
  assumes "rounding rnd" "drip_ok rnd l"
  shows "drip_ok rnd (refillDrip rnd l now)"
proof -
  have "0 \<le> rnd (e * dripRatePerSec l)" if "0 < e" for e
    using assms that by (intro rounding_nonneg [OF assms(1)]) (auto simp: drip_ok_def)
  then have "0 \<le> rnd (dripTokens l + rnd (e * dripRatePerSec l))" if "0 < e" for e
    using assms that by (intro rounding_nonneg [OF assms(1)]) (auto simp: drip_ok_def)
  with assms show ?thesis by (auto simp: refillDrip_def drip_ok_def Let_def)
qed

lemma drip_take_ok:
  assumes "rounding rnd" "drip_ok rnd l" "drip_take rnd l now = (l', b)"
  shows "drip_ok rnd l'"
proof -
  let ?l = "refillDrip rnd l now"
  let ?g = "rnd (of_int (grantUgnot l))"
  have ok: "drip_ok rnd ?l" using assms by (simp add: refillDrip_ok)
  have g: "0 \<le> ?g" using assms by (simp add: grant_nonneg drip_ok_def)
  have "rnd (dripTokens ?l - ?g) \<le> dripBurst l"
    using ok g assms by (intro rounding_le [OF assms(1)]) (auto simp: drip_ok_def)
  moreover have "0 \<le> rnd (dripTokens ?l - ?g)" if "\<not> dripTokens ?l < ?g"
    using that by (intro rounding_nonneg [OF assms(1)]) simp
  ultimately show ?thesis
    using assms ok by (auto simp: drip_take_def drip_ok_def Let_def split: if_splits)
qed

lemma drip_ok_cong:
  "dripTokens l' = dripTokens l \<Longrightarrow> dripBurst l' = dripBurst l \<Longrightarrow> dripRatePerSec l' = dripRatePerSec l \<Longrightarrow>
   grantUgnot l' = grantUgnot l \<Longrightarrow> drip_ok rnd l' = drip_ok rnd l"
  by (simp add: drip_ok_def)

lemma Allow_drip_ok:
  assumes "rounding rnd" "drip_ok rnd l" "Allow rnd l addr ip now = (l', res)"
  shows "drip_ok rnd l'"
proof -
  obtain l1 b where d: "drip_take rnd (day_rollover l now) now = (l1, b)" by force
  have ro: "drip_ok rnd (day_rollover l now)" using assms by (simp add: drip_ok_def)
  then have "drip_ok rnd l1" using assms d by (blast intro: drip_take_ok)
  moreover have "drip_ok rnd (record_grant l1 addr ip now) = drip_ok rnd l1"
    by (rule drip_ok_cong) (simp_all add: record_grant_def)
  ultimately show ?thesis
    using assms(3) d ro by (auto simp: Allow_def Let_def split: if_splits bool.splits)
qed

lemma Refund_drip_ok:
  assumes "rounding rnd" "drip_ok rnd l"
  shows "drip_ok rnd (Refund rnd l addr ip g now)"
proof -
  obtain l1 where l1: "l1 = refund_day (l\<lparr>addrHits := (addrHits l)(addr \<mapsto> dropLast (hits_of (addrHits l) addr)),
      ipHits := (ipHits l)(ip \<mapsto> dropLast (hits_of (ipHits l) ip))\<rparr>) g" by simp
  have "drip_ok rnd l1 = drip_ok rnd l"
    by (rule drip_ok_cong) (simp_all add: l1 refund_day_def Let_def)
  then have ok: "drip_ok rnd (refillDrip rnd l1 now)" using assms by (simp add: refillDrip_ok)
  have "0 \<le> rnd (of_int (grantUgnot (refillDrip rnd l1 now)))"
    by (rule grant_nonneg [OF assms(1)]) (use ok in \<open>simp add: drip_ok_def\<close>)
  then have "0 \<le> rnd (dripTokens (refillDrip rnd l1 now) + rnd (of_int (grantUgnot l1)))"
    using ok by (intro rounding_nonneg [OF assms(1)]) (simp add: drip_ok_def)
  with ok have "drip_ok rnd (refund_drip rnd l1 now)" if "0 < dripBurst l1"
    using that by (auto simp: refund_drip_def Let_def drip_ok_def)
  moreover have "drip_ok rnd (refund_drip rnd l1 now)" if "\<not> 0 < dripBurst l1"
    using that assms \<open>drip_ok rnd l1 = drip_ok rnd l\<close> by (simp add: refund_drip_def)
  ultimately show ?thesis unfolding Refund_def Let_def l1 [symmetric] by blast
qed

lemma lim_run_invariant:
  assumes "\<And>l a i t l' r. P l \<Longrightarrow> allow l a i t = (l', r) \<Longrightarrow> P l'"
    and "\<And>l a i g t. P l \<Longrightarrow> P (Refund rnd l a i g t)"
  shows "P l \<Longrightarrow> P (fst (lim_run allow rnd l evs))"
proof (induction evs arbitrary: l)
  case (Cons e evs)
  then show ?case using assms by (cases e) (auto split: prod.splits, metis fst_conv)
qed simp

text \<open>
  The drip bucket in exact arithmetic: \<open>potential\<close> says that what was granted net of refunds,
  plus the tokens left, is at most the burst plus what the rate supplied since \<open>t0\<close>.
\<close>

definition potential :: "time \<Rightarrow> limiter \<Rightarrow> int \<Rightarrow> bool" where
  "potential t0 l n \<longleftrightarrow> 0 < dripBurst l \<and>
     (if IsZero (dripLast l) then of_int (grantUgnot l * n) + dripTokens l \<le> dripBurst l
      else t0 \<le> dripLast l \<and> of_int (grantUgnot l * n) + dripTokens l \<le>
        dripBurst l + dripRatePerSec l * of_int (dripLast l - t0) / 1000000000)"

lemma Seconds_id: "Seconds (\<lambda>x. x) d = of_int d / 1000000000"
proof -
  have "(of_int d :: rat) = of_int (d sdiv nsecond * nsecond + d smod nsecond)"
    by (simp add: sdiv_mult_smod_eq)
  then show ?thesis by (simp add: Seconds_def nsecond_def add_divide_distrib)
qed

lemma elapsed_le:
  assumes "b \<le> a" "0 \<le> (rate :: rat)"
  shows "Seconds (\<lambda>x. x) (time_sub a b) * rate \<le> rate * of_int (a - b) / 1000000000"
proof -
  have "(of_int (time_sub a b) :: rat) \<le> of_int (a - b)"
    using time_sub_le [OF assms(1)] by (simp only: of_int_le_iff)
  then have "rate * of_int (time_sub a b) \<le> rate * of_int (a - b)"
    using assms(2) by (rule mult_left_mono)
  then show ?thesis by (simp add: Seconds_id mult.commute divide_right_mono)
qed

lemma refillDrip_potential:
  assumes "potential t0 l n" "0 \<le> dripRatePerSec l" "0 < t0" "t0 \<le> now"
  shows "potential t0 (refillDrip (\<lambda>x. x) l now) n \<and> (dripLast (refillDrip (\<lambda>x. x) l now) \<le> max now (dripLast l))"
proof (cases "IsZero (dripLast l)")
  case True
  have "0 \<le> dripRatePerSec l * of_int (now - t0) / 1000000000" using assms by simp
  then have "of_int (grantUgnot l * n) + dripTokens l \<le> dripBurst l + dripRatePerSec l * of_int (now - t0) / 1000000000"
    using True assms by (simp only: potential_def if_True) linarith
  with True assms show ?thesis by (simp add: potential_def refillDrip_def IsZero_def)
next
  case False
  show ?thesis
  proof (cases "dripLast l < now")
    case late: True
    let ?t = "dripTokens l + Seconds (\<lambda>x. x) (time_sub now (dripLast l)) * dripRatePerSec l"
    have pos: "0 < Seconds (\<lambda>x. x) (time_sub now (dripLast l))"
      using late by (simp add: Seconds_id time_sub_pos)
    have "?t \<le> dripTokens l + dripRatePerSec l * of_int (now - dripLast l) / 1000000000"
      using elapsed_le [of "dripLast l" now "dripRatePerSec l"] late assms by simp
    also have "\<dots> = dripTokens l + dripRatePerSec l * of_int (now - t0) / 1000000000
        - dripRatePerSec l * of_int (dripLast l - t0) / 1000000000"
      by (simp add: field_simps)
    finally have "of_int (grantUgnot l * n) + ?t \<le> dripBurst l + dripRatePerSec l * of_int (now - t0) / 1000000000"
      using False assms by (simp add: potential_def)
    then show ?thesis
      using False assms late pos by (auto simp: potential_def refillDrip_def Let_def IsZero_def)
  next
    case early: False
    then have "Seconds (\<lambda>x. x) (time_sub now (dripLast l)) \<le> 0"
      using time_sub_pos [of now "dripLast l"] by (simp add: Seconds_id)
    then show ?thesis using assms False by (simp add: refillDrip_def)
  qed
qed

definition drip_inv :: "time \<Rightarrow> time \<Rightarrow> limiter \<Rightarrow> int \<Rightarrow> bool" where
  "drip_inv t0 T l n \<longleftrightarrow> potential t0 l n \<and> 0 \<le> dripRatePerSec l \<and> dripLast l \<le> T"

lemma refillDrip_inv:
  assumes "drip_inv t0 T l n" "0 < t0" "t0 \<le> now" "now \<le> T"
  shows "drip_inv t0 T (refillDrip (\<lambda>x. x) l now) n"
  using assms refillDrip_potential [of t0 l n now] by (auto simp: drip_inv_def)

lemma drip_inv_cong:
  "dripTokens l' = dripTokens l \<Longrightarrow> dripBurst l' = dripBurst l \<Longrightarrow> dripRatePerSec l' = dripRatePerSec l \<Longrightarrow>
   grantUgnot l' = grantUgnot l \<Longrightarrow> dripLast l' = dripLast l \<Longrightarrow> drip_inv t0 T l' n = drip_inv t0 T l n"
  by (simp add: drip_inv_def potential_def)

lemma drip_inv_spend:
  "drip_inv t0 T l n \<Longrightarrow> drip_inv t0 T (l\<lparr>dripTokens := dripTokens l - of_int (grantUgnot l)\<rparr>) (n + 1)"
  by (auto simp: drip_inv_def potential_def distrib_left)

lemma drip_inv_credit:
  "drip_inv t0 T l n \<Longrightarrow> x \<le> dripTokens l + of_int (grantUgnot l) \<Longrightarrow> drip_inv t0 T (l\<lparr>dripTokens := x\<rparr>) (n - 1)"
  by (auto simp: drip_inv_def potential_def right_diff_distrib)

lemma Allow_shape:
  assumes "Allow rnd l addr ip now = (l', res)" "drip_take rnd (day_rollover l now) now = (l1, b)"
  shows "l' = day_rollover l now \<and> isl res \<or> l' = l1 \<and> \<not> b \<and> res = Inl ErrDripLimited \<or>
    l' = record_grant l1 addr ip now \<and> b \<and> res = Inr now"
  using assms by (auto simp: Allow_def Let_def split: if_splits bool.splits)

definition drip_config :: "limiter \<Rightarrow> int64 \<times> rat \<times> rat" where
  "drip_config l = (grantUgnot l, dripBurst l, dripRatePerSec l)"

lemma Allow_config: "Allow rnd l addr ip now = (l', res) \<Longrightarrow> drip_config l' = drip_config l"
proof -
  assume a: "Allow rnd l addr ip now = (l', res)"
  obtain l1 b where d: "drip_take rnd (day_rollover l now) now = (l1, b)" by force
  show ?thesis
    using Allow_shape [OF a d] drip_take_frame [OF d] by (auto simp: drip_config_def record_grant_def)
qed

lemma Refund_config: "drip_config (Refund rnd l addr ip g now) = drip_config l"
  by (simp add: drip_config_def Refund_def refund_drip_def refund_day_def Let_def)

lemma lim_run_config:
  "lim_run (Allow rnd) rnd l evs = (l', rs) \<Longrightarrow> drip_config l' = drip_config l"
  using lim_run_invariant [of "\<lambda>x. drip_config x = drip_config l" "Allow rnd" rnd l evs]
  by (simp add: Allow_config Refund_config)

lemma Allow_drip_inv:
  assumes "drip_inv t0 T l n" "0 < t0" "t0 \<le> now" "now \<le> T" "Allow (\<lambda>x. x) l addr ip now = (l', res)"
  shows "drip_inv t0 T l' (n + (if isl res then 0 else 1))"
proof -
  let ?l = "day_rollover l now"
  obtain l1 b where d: "drip_take (\<lambda>x. x) ?l now = (l1, b)" by force
  have ro: "drip_inv t0 T ?l n" using assms by (subst drip_inv_cong [where l = l]) simp_all
  note fill = refillDrip_inv [OF ro assms(2-4)]
  have "0 < dripBurst ?l" using ro by (simp add: drip_inv_def potential_def)
  then have "drip_inv t0 T l1 (n + (if b then 1 else 0))"
    using d fill drip_inv_spend [OF fill] by (auto simp: drip_take_def Let_def split: if_splits)
  moreover have "drip_inv t0 T (record_grant l1 addr ip now) m = drip_inv t0 T l1 m" for m
    by (rule drip_inv_cong) (simp_all add: record_grant_def)
  ultimately show ?thesis
    using Allow_shape [OF assms(5) d] ro by (elim disjE conjE) simp_all
qed

lemma Refund_drip_inv:
  assumes "drip_inv t0 T l n" "0 < t0" "t0 \<le> now" "now \<le> T"
  shows "drip_inv t0 T (Refund (\<lambda>x. x) l addr ip g now) (n - 1)"
proof -
  obtain l1 where l1: "l1 = refund_day (l\<lparr>addrHits := (addrHits l)(addr \<mapsto> dropLast (hits_of (addrHits l) addr)),
      ipHits := (ipHits l)(ip \<mapsto> dropLast (hits_of (ipHits l) ip))\<rparr>) g" by simp
  have "drip_inv t0 T l1 n = drip_inv t0 T l n"
    by (rule drip_inv_cong) (simp_all add: l1 refund_day_def Let_def)
  with assms have i: "drip_inv t0 T l1 n" "drip_inv t0 T (refillDrip (\<lambda>x. x) l1 now) n"
    by (simp_all add: refillDrip_inv)
  have "0 < dripBurst l1" using i by (simp add: drip_inv_def potential_def)
  then have "drip_inv t0 T (refund_drip (\<lambda>x. x) l1 now) (n - 1)"
    using i by (auto simp: refund_drip_def Let_def intro!: drip_inv_credit)
  then show ?thesis unfolding Refund_def Let_def l1 [symmetric] .
qed

definition net_grants :: "lim_event list \<Rightarrow> (limit_error + time) list \<Rightarrow> int" where
  "net_grants evs rs = int (length (filter (\<lambda>r. \<not> isl r) rs)) - int (length (filter (\<lambda>e. \<not> is_EvAllow e) evs))"

lemma lim_run_drip_inv:
  "drip_inv t0 T l n \<Longrightarrow> 0 < t0 \<Longrightarrow> \<forall>e \<in> set evs. t0 \<le> ev_now e \<and> ev_now e \<le> T \<Longrightarrow>
   lim_run (Allow (\<lambda>x. x)) (\<lambda>x. x) l evs = (l', rs) \<Longrightarrow> drip_inv t0 T l' (n + net_grants evs rs)"
proof (induction evs arbitrary: l n rs)
  case Nil
  then show ?case by (simp add: net_grants_def)
next
  case (Cons e evs)
  show ?case
  proof (cases e)
    case (EvAllow a i t)
    obtain l1 x where s: "Allow (\<lambda>x. x) l a i t = (l1, x)" by force
    obtain xs where t: "lim_run (Allow (\<lambda>x. x)) (\<lambda>x. x) l1 evs = (l', xs)" and rs: "rs = x # xs"
      using Cons.prems EvAllow s by (auto split: prod.splits)
    have "drip_inv t0 T l1 (n + (if isl x then 0 else 1))"
      using Allow_drip_inv [OF Cons.prems(1,2) _ _ s] Cons.prems EvAllow by auto
    from Cons.IH [OF this Cons.prems(2) _ t] Cons.prems show ?thesis
      by (simp add: EvAllow rs net_grants_def algebra_simps split: if_splits)
  next
    case (EvRefund a i g t)
    have "drip_inv t0 T (Refund (\<lambda>x. x) l a i g t) (n - 1)"
      using Refund_drip_inv [OF Cons.prems(1,2)] Cons.prems EvRefund by auto
    from Cons.IH [OF this Cons.prems(2)] Cons.prems show ?thesis
      by (simp add: EvRefund net_grants_def algebra_simps)
  qed
qed

lemma NewLimiter_run_drip_ok:
  assumes "rounding rnd" "0 \<le> cfg_DripBurstUgnot cfg" "0 \<le> cfg_DripRateUgnotPerSec cfg" "0 \<le> cfg_GrantUgnot cfg"
  shows "drip_ok rnd (fst (lim_run (Allow rnd) rnd (NewLimiter rnd cfg) evs))"
proof -
  have "drip_ok rnd (NewLimiter rnd cfg)"
    using assms rounding_nonneg [OF assms(1), of "of_int (cfg_DripBurstUgnot cfg)"]
      rounding_nonneg [OF assms(1), of "of_int (cfg_DripRateUgnotPerSec cfg)"]
    by (simp add: drip_ok_def NewLimiter_def rounding_def)
  then show ?thesis
    by (rule lim_run_invariant [rotated 2])
      (auto intro: Allow_drip_ok [OF assms(1)] Refund_drip_ok [OF assms(1)])
qed

lemma lim_run_tokens:
  assumes "rounding rnd" "0 \<le> cfg_DripBurstUgnot cfg" "0 \<le> cfg_DripRateUgnotPerSec cfg" "0 \<le> cfg_GrantUgnot cfg"
    and "lim_run (Allow rnd) rnd (NewLimiter rnd cfg) evs = (l, rs)"
  shows "0 \<le> dripTokens l"
  using NewLimiter_run_drip_ok [OF assms(1-4), of evs] assms(5) by (simp add: drip_ok_def)

subsection \<open>The contract the faucet relies on\<close>

text \<open>
  What the service needs of a limiter with a daily budget: a granted call is dated by the
  clock it read, adds one grant to the counter of that UTC day, the counter starts from zero
  on another day and never exceeds the cap, and a refund takes a grant back only from the
  day it was counted on.
\<close>

locale daily_budget =
  fixes allow :: "'l \<Rightarrow> string \<Rightarrow> string \<Rightarrow> time \<Rightarrow> 'l \<times> (limit_error + time)"
    and refund :: "'l \<Rightarrow> string \<Rightarrow> string \<Rightarrow> time \<Rightarrow> time \<Rightarrow> 'l"
    and ok :: "'l \<Rightarrow> bool"
    and day :: "'l \<Rightarrow> int option"
    and spent :: "'l \<Rightarrow> int"
    and grant :: int
    and cap :: int
  assumes allow_law: "ok l \<Longrightarrow> 0 < now \<Longrightarrow> allow l a i now = (l', res) \<Longrightarrow>
      ok l' \<and> day l' = Some (utc_day now) \<and> (\<forall>g. res = Inr g \<longrightarrow> g = now) \<and>
      spent l' = (if day l = Some (utc_day now) then spent l else 0) + (case res of Inl _ \<Rightarrow> 0 | Inr _ \<Rightarrow> grant)"
    and refund_law: "ok l \<Longrightarrow>
      ok (refund l a i g now) \<and> day (refund l a i g now) = day l \<and>
      spent (refund l a i g now) = (if day l = Some (utc_day g) then max 0 (spent l - grant) else spent l)"
    and spent_law: "ok l \<Longrightarrow> 0 \<le> spent l \<and> spent l \<le> cap"
    and grant_law: "0 \<le> grant"
begin

text \<open>The outstanding grants of a day, as a number of ugnot.\<close>

definition owed :: "time list \<Rightarrow> int \<Rightarrow> int" where
  "owed gs d = grant * int (length (filter (\<lambda>g. utc_day g = d) gs))"

definition budget_inv :: "'l \<Rightarrow> time list \<Rightarrow> time \<Rightarrow> bool" where
  "budget_inv l gs clock \<longleftrightarrow> ok l \<and> 0 < clock \<and> (\<forall>g \<in> set gs. g \<le> clock) \<and>
     (\<forall>d. owed gs d \<le> cap) \<and>
     (case day l of None \<Rightarrow> gs = [] | Some d \<Rightarrow> d \<le> utc_day clock \<and>
        (\<forall>g \<in> set gs. utc_day g \<le> d) \<and> owed gs d = spent l)"

lemma owed_Cons: "owed (g # gs) d = (if utc_day g = d then grant else 0) + owed gs d"
  by (simp add: owed_def algebra_simps)

lemma owed_other_day: "\<forall>g \<in> set gs. utc_day g < d \<Longrightarrow> owed gs d = 0"
  by (induction gs) (auto simp: owed_def)

lemma owed_remove1: "g \<in> set gs \<Longrightarrow> owed gs d = (if utc_day g = d then grant else 0) + owed (remove1 g gs) d"
  by (induction gs) (auto simp: owed_Cons owed_def [of "[]"])

lemma owed_perm: "mset gs = mset gs' \<Longrightarrow> owed gs d = owed gs' d"
  unfolding owed_def by (metis mset_filter size_mset)

lemma budget_perm:
  assumes "budget_inv l gs clock" "mset gs = mset gs'"
  shows "budget_inv l gs' clock"
proof -
  have "set gs' = set gs" using assms(2) by (metis set_mset_mset)
  with assms owed_perm [OF assms(2)] show ?thesis
    by (auto simp: budget_inv_def split: option.splits)
qed

lemma owed_nonneg: "0 \<le> owed gs d"
  using grant_law by (simp add: owed_def)

lemma budget_today:
  assumes "budget_inv l gs clock" "clock \<le> now"
  shows "owed gs (utc_day now) = (if day l = Some (utc_day now) then spent l else 0)"
proof (cases "day l")
  case None
  with assms show ?thesis by (simp add: budget_inv_def owed_def)
next
  case (Some d)
  with assms utc_day_mono [of clock now] have d: "d \<le> utc_day now" "\<forall>g \<in> set gs. utc_day g \<le> d" "owed gs d = spent l"
    by (auto simp: budget_inv_def)
  then have "owed gs (utc_day now) = 0" if "d \<noteq> utc_day now"
    using that by (intro owed_other_day) force
  with d Some show ?thesis by auto
qed

lemma budget_allow:
  assumes inv: "budget_inv l gs clock" and "clock \<le> now" and call: "allow l a i now = (l', res)"
  shows "budget_inv l' (case res of Inl _ \<Rightarrow> gs | Inr g \<Rightarrow> g # gs) now"
proof -
  have pos: "ok l" "0 < now" using assms by (auto simp: budget_inv_def)
  note law = allow_law [OF pos call]
  have old: "\<forall>g \<in> set gs. g \<le> now" "\<forall>d. owed gs d \<le> cap" using assms by (auto simp: budget_inv_def)
  have "spent l' \<le> cap" using law spent_law by blast
  with law old pos budget_today [OF inv \<open>clock \<le> now\<close>] show ?thesis
    by (auto simp: budget_inv_def owed_Cons utc_day_mono split: sum.splits)
qed

lemma budget_refund:
  assumes inv: "budget_inv l gs clock" and "clock \<le> now" and g: "g \<in> set gs"
  shows "budget_inv (refund l a i g now) (remove1 g gs) now"
proof -
  have pos: "ok l" "0 < now" using assms by (auto simp: budget_inv_def)
  note law = refund_law [OF pos(1), of a i g now]
  obtain d where d: "day l = Some d" "d \<le> utc_day clock" "\<forall>g \<in> set gs. utc_day g \<le> d" "owed gs d = spent l"
    using inv g by (auto simp: budget_inv_def split: option.splits)
  have sub: "set (remove1 g gs) \<subseteq> set gs" by (rule set_remove1_subset)
  have le: "owed (remove1 g gs) e \<le> cap" for e
    using owed_remove1 [OF g, of e] inv grant_law by (auto simp: budget_inv_def split: if_splits)
      (smt (verit))+
  have eq: "owed (remove1 g gs) d = spent (refund l a i g now)"
    using owed_remove1 [OF g, of d] law d owed_nonneg [of "remove1 g gs" d] by auto
  have "\<forall>h \<in> set (remove1 g gs). h \<le> now \<and> utc_day h \<le> d"
    using inv sub d \<open>clock \<le> now\<close> unfolding budget_inv_def by (meson order_trans subsetD)
  moreover have "d \<le> utc_day now" using d utc_day_mono [OF \<open>clock \<le> now\<close>] by simp
  ultimately show ?thesis using law d pos le eq by (simp add: budget_inv_def)
qed

end

interpretation lim: daily_budget "Allow rnd" "Refund rnd" "lim_ok grant cap" lim_day daySpent
    "max 0 grant" cap for rnd grant cap
proof
  show "0 \<le> max 0 grant" by simp
next
  fix l now a i l' res
  assume "lim_ok grant cap l" "0 < now" "Allow rnd l a i now = (l', res)"
  moreover from this have "max 0 grant = grant" by (simp add: lim_ok_def)
  ultimately show "lim_ok grant cap l' \<and> lim_day l' = Some (utc_day now) \<and> (\<forall>g. res = Inr g \<longrightarrow> g = now) \<and>
      daySpent l' = (if lim_day l = Some (utc_day now) then daySpent l else 0) +
        (case res of Inl _ \<Rightarrow> 0 | Inr _ \<Rightarrow> max 0 grant)"
    using Allow_day by metis
next
  fix l a i g now
  assume "lim_ok grant cap l"
  moreover from this have "max 0 grant = grant" by (simp add: lim_ok_def)
  ultimately show "lim_ok grant cap (Refund rnd l a i g now) \<and> lim_day (Refund rnd l a i g now) = lim_day l \<and>
      daySpent (Refund rnd l a i g now) =
        (if lim_day l = Some (utc_day g) then max 0 (daySpent l - max 0 grant) else daySpent l)"
    using Refund_day by metis
qed (simp add: lim_ok_def)

subsection \<open>A concrete configuration\<close>

definition demo_cfg :: LimiterCfg where
  "demo_cfg = \<lparr>cfg_PerAddrWindow = 100, cfg_PerAddrMax = 1, cfg_PerIPWindow = 100, cfg_PerIPMax = 2,
     cfg_DailyCapUgnot = 50, cfg_GrantUgnot = 10, cfg_DripBurstUgnot = 40, cfg_DripRateUgnotPerSec = 1\<rparr>"

definition demo_run :: "lim_event list" where
  "demo_run = [EvAllow ''a'' ''x'' 10, EvAllow ''a'' ''x'' 50, EvAllow ''b'' ''x'' 60]"

lemmas lim_eval = NewLimiter_def demo_cfg_def demo_run_def win_ok_def MaxInt64_def

subsection \<open>Properties\<close>

text \<open>
  C13. Pruning and sweeping never change a decision. On every sequence of calls whose clock
  does not run backwards, the limiter of \<open>limiter.go\<close>, which forgets hits outside the
  window on a grant and on a new day, answers every \<open>Allow\<close> exactly as the limiter that
  remembers everything.
\<close>

theorem Allow_equals_unpruned:
  assumes "win_ok (perAddrWindow (NewLimiter rnd cfg))" "win_ok (perIPWindow (NewLimiter rnd cfg))"
    and "sorted (map ev_now evs)"
  shows "snd (lim_run (Allow rnd) rnd (NewLimiter rnd cfg) evs) =
    snd (lim_run (ref_Allow rnd) rnd (NewLimiter rnd cfg) evs)"
  by (rule lim_run_from_new [OF assms])

theorem Allow_equals_unpruned_witness:
  "snd (lim_run (Allow (\<lambda>x. x)) (\<lambda>x. x) (NewLimiter (\<lambda>x. x) demo_cfg) demo_run) =
   snd (lim_run (ref_Allow (\<lambda>x. x)) (\<lambda>x. x) (NewLimiter (\<lambda>x. x) demo_cfg) demo_run)"
  by (rule Allow_equals_unpruned) (simp_all add: lim_eval)

text \<open>
  The sliding windows hold. In every run of \<open>Allow\<close> calls with a clock that does not
  run backwards, no window of length \<open>perAddrWindow\<close> contains more than \<open>PerAddrMax\<close>
  grants to one address, and none of length \<open>perIPWindow\<close> more than \<open>PerIPMax\<close> to one IP.
\<close>

theorem Allow_window_bound:
  assumes "win_ok (perAddrWindow (NewLimiter rnd cfg))" "win_ok (perIPWindow (NewLimiter rnd cfg))"
    and "0 \<le> cfg_PerAddrMax cfg" "0 \<le> cfg_PerIPMax cfg"
    and "sorted (map ev_now evs)" "\<forall>e \<in> set evs. is_EvAllow e"
    and "rs = snd (lim_run (Allow rnd) rnd (NewLimiter rnd cfg) evs)"
  shows "window_inv (perAddrWindow (NewLimiter rnd cfg)) (cfg_PerAddrMax cfg) (granted_to ev_addr addr evs rs) \<and>
    window_inv (perIPWindow (NewLimiter rnd cfg)) (cfg_PerIPMax cfg) (granted_to ev_ip ip evs rs)"
proof -
  obtain r where r: "lim_run (ref_Allow rnd) rnd (NewLimiter rnd cfg) evs = (r, rs)"
    using lim_run_from_new [OF assms(1,2,5)] assms(7) by (metis prod.collapse)
  from ref_run_windows [OF NewLimiter_windows [OF assms(1-4)] assms(6) r] show ?thesis
    by (auto simp: windows_inv_def same_limits_def) (simp_all add: NewLimiter_def)
qed

theorem Allow_window_bound_witness:
  "window_inv 100 1 (granted_to ev_addr ''a'' demo_run
     (snd (lim_run (Allow (\<lambda>x. x)) (\<lambda>x. x) (NewLimiter (\<lambda>x. x) demo_cfg) demo_run)))"
  using Allow_window_bound [of "\<lambda>x. x" demo_cfg demo_run _ "''a''" "''x''"] by (simp add: lim_eval)



text \<open>
  The bucket stays within its bounds. Whatever monotone rounding the floating-point unit
  uses, after any sequence of calls the drip tokens lie between zero and the burst.
\<close>

theorem drip_tokens_bounded:
  assumes "rounding rnd" "0 \<le> cfg_DripBurstUgnot cfg" "0 \<le> cfg_DripRateUgnotPerSec cfg" "0 \<le> cfg_GrantUgnot cfg"
  shows "drip_ok rnd (fst (lim_run (Allow rnd) rnd (NewLimiter rnd cfg) evs))"
  by (rule NewLimiter_run_drip_ok [OF assms])

theorem drip_tokens_bounded_witness:
  "drip_ok (\<lambda>x. x) (fst (lim_run (Allow (\<lambda>x. x)) (\<lambda>x. x) (NewLimiter (\<lambda>x. x) demo_cfg) demo_run))"
  by (rule drip_tokens_bounded) (simp_all add: rounding_def mono_def demo_cfg_def)

text \<open>
  A metrics scrape tells the truth. \<open>Snapshot\<close> does not change the limiter, and it
  reports exactly the daily spend and the drip tokens against which an \<open>Allow\<close> at the same
  instant is decided.
\<close>

theorem Snapshot_projects:
  assumes "0 < dripBurst l"
  shows "snap_DaySpentUgnot (Snapshot rnd l now) = daySpent (day_rollover l now) \<and>
    snap_DripTokens (Snapshot rnd l now) = dripTokens (refillDrip rnd (day_rollover l now) now)"
  using assms by (auto simp: Snapshot_def refillDrip_def day_rollover_def sweepStale_def Let_def)

theorem Snapshot_projects_witness:
  "snap_DripTokens (Snapshot (\<lambda>x. x) (NewLimiter (\<lambda>x. x) demo_cfg) 10) = 40"
  using Snapshot_projects [of "NewLimiter (\<lambda>x. x) demo_cfg" "\<lambda>x. x" 10]
  by (simp add: lim_eval refillDrip_def day_rollover_def sweepStale_def IsZero_def)

text \<open>
  A refund removes the newest hit of the key, not the hit of the grant it refunds. With two
  grants to one IP in flight, refunding the older one forgets the newer one's time, and a
  window of length 100 then holds three grants that were kept, over \<open>PerIPMax = 2\<close>.
\<close>

lemma Refund_forgets_newer_hit:
  "snd (lim_run (Allow (\<lambda>x. x)) (\<lambda>x. x) (NewLimiter (\<lambda>x. x) demo_cfg)
     [EvAllow ''a'' ''x'' 10, EvAllow ''b'' ''x'' 90, EvRefund ''a'' ''x'' 10 91,
      EvAllow ''c'' ''x'' 100, EvAllow ''d'' ''x'' 111]) = [Inr 10, Inr 90, Inr 100, Inr 111]"
  by code_simp

end
