(* ===== verification/Faucet.thy ===== *)
theory Faucet
  imports Limiter Gas_Price
begin

section \<open>The faucet service: faucet/faucet.go, dispense.go, server.go, metrics.go, clientip.go, logging.go\<close>

text \<open>
  \<open>Fund\<close> is not atomic: the limiter, the dispenser and the refund each take their own
  lock, and concurrent requests interleave between them. It is therefore split at those
  points into \<open>fund_admit\<close> (up to and including \<open>Allow\<close>) and \<open>fund_settle\<close> (after
  \<open>Send\<close>), of which \<open>Fund\<close> is the composition; \<open>fund_step\<close> interleaves the two halves of
  any number of requests. Bech32 parsing, the gnoclient calls and JSON decoding are
  parameters.
\<close>

subsection \<open>The dispenser\<close>

datatype send_error = ErrNotGranted string | SendOutcomeUnknown string

record send_msg =
  msg_From :: bytes
  msg_To :: bytes
  msg_Denom :: string
  msg_Amount :: int64

text \<open>
  What \<open>BroadcastTxCommit\<close> can return: a result; an error together with the result of a node
  that refused or reverted the transaction; or an error alone, when no answer came.
\<close>

datatype broadcast_result = Committed bytes | NodeRefused string | NoAnswer string

record 'tx send_client =
  dc_AddressFromBech32 :: "string \<Rightarrow> bytes option"
  dc_Query :: "string \<Rightarrow> string + bytes"
  dc_Unmarshal :: "bytes \<Rightarrow> string + gas_price"
  dc_NewSendTx :: "base_tx_cfg \<Rightarrow> send_msg \<Rightarrow> string + 'tx"
  dc_SignTx :: "'tx \<Rightarrow> string + 'tx"
  dc_Broadcast :: "'tx \<Rightarrow> broadcast_result"
  dc_HexEncode :: "bytes \<Rightarrow> string"

record gnoclientDispenser =
  disp_from :: bytes
  disp_gasWanted :: int64
  disp_floor :: int64

definition dispenseGasFeeMarginNum :: int64 where "dispenseGasFeeMarginNum = 2"
definition dispenseGasFeeMarginDen :: int64 where "dispenseGasFeeMarginDen = 1"
definition genesisGasPriceDivisor :: int64 where "genesisGasPriceDivisor = 1000"

definition NewGnoclientDispenser :: "bytes \<Rightarrow> int64 \<Rightarrow> gnoclientDispenser" where
  "NewGnoclientDispenser from gasWanted =
     \<lparr>disp_from = from, disp_gasWanted = gasWanted, disp_floor = gasWanted sdiv genesisGasPriceDivisor\<rparr>"

definition Send :: "'tx send_client \<Rightarrow> gnoclientDispenser \<Rightarrow> string \<Rightarrow> int64 \<Rightarrow> send_error + string" where
  "Send c d to amountUgnot =
     (case dc_AddressFromBech32 c to of
        None \<Rightarrow> Inl (ErrNotGranted (''bad recipient '' @ to))
      | Some toAddr \<Rightarrow>
     (case Fetch (dc_Query c) (dc_Unmarshal c) of
        Inl _ \<Rightarrow> Inl (ErrNotGranted ''gas price'')
      | Inr price \<Rightarrow>
     (case Compute price (disp_gasWanted d) (disp_floor d) dispenseGasFeeMarginNum dispenseGasFeeMarginDen of
        Inl _ \<Rightarrow> Inl (ErrNotGranted ''gas price'')
      | Inr fee \<Rightarrow>
     (case dc_NewSendTx c (baseTxCfg fee (disp_gasWanted d))
             \<lparr>msg_From = disp_from d, msg_To = toAddr, msg_Denom = ''ugnot'', msg_Amount = amountUgnot\<rparr> of
        Inl e \<Rightarrow> Inl (ErrNotGranted (''build tx: '' @ e))
      | Inr tx \<Rightarrow>
     (case dc_SignTx c tx of
        Inl e \<Rightarrow> Inl (ErrNotGranted (''sign: '' @ e))
      | Inr signed \<Rightarrow>
     (case dc_Broadcast c signed of
        NodeRefused e \<Rightarrow> Inl (ErrNotGranted (''send: '' @ e))
      | NoAnswer e \<Rightarrow> Inl (SendOutcomeUnknown e)
      | Committed hash \<Rightarrow> Inr (dc_HexEncode c hash)))))))"

text \<open>The funding balance source: a TTL cache in front of \<open>QueryAccount\<close>.\<close>

record balance_cache =
  bc_cached :: int64
  bc_cachedAt :: time
  bc_seeded :: bool

definition new_balance_cache :: balance_cache where
  "new_balance_cache = \<lparr>bc_cached = 0, bc_cachedAt = 0, bc_seeded = False\<rparr>"

definition GnoclientBalance ::
  "duration \<Rightarrow> balance_cache \<Rightarrow> time \<Rightarrow> (string + int64) \<Rightarrow> time \<Rightarrow> balance_cache \<times> (string + int64)" where
  "GnoclientBalance ttl b now answer later =
     (if bc_seeded b \<and> time_sub now (bc_cachedAt b) < ttl then (b, Inr (bc_cached b))
      else case answer of
             Inl e \<Rightarrow> (b, Inl (''query funding account: '' @ e))
           | Inr bal \<Rightarrow> (\<lparr>bc_cached = bal, bc_cachedAt = later, bc_seeded = True\<rparr>, Inr bal))"

subsection \<open>The service\<close>

datatype fund_error =
    ErrChainMismatch
  | ErrBadAddress string
  | ErrFundingBalance string
  | ErrFundingLow
  | ErrLimited limit_error
  | ErrDispense send_error

record faucet =
  f_chainID :: string
  f_grantUgnot :: int64
  f_minFundingUgnot :: int64
  f_hasBalance :: bool
  f_trustedProxies :: int

text \<open>
  \<open>New\<close> with the options that carry state of the model: the balance floor and the trusted
  proxies. The logger and metrics options replace sinks that have no effect on the service.
\<close>

datatype option_fn = WithBalanceFloor int64 | WithTrustedProxies int

primrec apply_option :: "option_fn \<Rightarrow> faucet \<Rightarrow> faucet" where
  "apply_option (WithBalanceFloor minUgnot) f = f\<lparr>f_minFundingUgnot := minUgnot, f_hasBalance := True\<rparr>"
| "apply_option (WithTrustedProxies n) f = f\<lparr>f_trustedProxies := n\<rparr>"

definition New :: "string \<Rightarrow> int64 \<Rightarrow> option_fn list \<Rightarrow> faucet" where
  "New chainID grant opts =
     fold apply_option opts
       \<lparr>f_chainID = chainID, f_grantUgnot = grant, f_minFundingUgnot = 0, f_hasBalance = False, f_trustedProxies = 0\<rparr>"

record FaucetLimits =
  fl_GrantUgnot :: int64
  fl_Max :: int
  fl_WindowSeconds :: int

text \<open>\<open>int(x)\<close> on a float64 truncates towards zero.\<close>

definition trunc :: "rat \<Rightarrow> int" where
  "trunc x = (if x < 0 then - \<lfloor>- x\<rfloor> else \<lfloor>x\<rfloor>)"

definition Limits :: "(rat \<Rightarrow> rat) \<Rightarrow> faucet \<Rightarrow> limiter \<Rightarrow> FaucetLimits" where
  "Limits rnd f l =
     (let p = Policy l
      in \<lparr>fl_GrantUgnot = f_grantUgnot f, fl_Max = pol_PerAddrMax p,
          fl_WindowSeconds = trunc (Seconds rnd (pol_PerAddrWindow p))\<rparr>)"

definition retryAfterSeconds :: "(rat \<Rightarrow> rat) \<Rightarrow> limiter \<Rightarrow> int" where
  "retryAfterSeconds rnd l =
     (let floor = 24 * 60 * 60; w = trunc (Seconds rnd (pol_PerAddrWindow (Policy l)))
      in if w > floor then w else floor)"

text \<open>
  \<open>parse\<close> is \<open>crypto.AddressFromBech32\<close>, \<open>render\<close> is \<open>Address.String\<close>, \<open>balance\<close> the answer
  of the balance source for this request.
\<close>

definition fund_admit ::
  "(rat \<Rightarrow> rat) \<Rightarrow> (string \<Rightarrow> bytes option) \<Rightarrow> (bytes \<Rightarrow> string) \<Rightarrow> faucet \<Rightarrow> limiter \<Rightarrow> (string + int64) \<Rightarrow>
   string \<Rightarrow> string \<Rightarrow> string \<Rightarrow> time \<Rightarrow> limiter \<times> (fund_error + string \<times> time)" where
  "fund_admit rnd parse render f l balance address ip reqChainID now =
     (if reqChainID \<noteq> f_chainID f then (l, Inl ErrChainMismatch)
      else case parse address of
        None \<Rightarrow> (l, Inl (ErrBadAddress address))
      | Some addr \<Rightarrow>
          let canonical = render addr;
              floor_check = (if f_hasBalance f \<and> f_minFundingUgnot f > 0 then
                (case balance of
                   Inl e \<Rightarrow> Some (ErrFundingBalance e)
                 | Inr bal \<Rightarrow> if bal < f_minFundingUgnot f then Some ErrFundingLow else None)
                else None)
          in case floor_check of
               Some e \<Rightarrow> (l, Inl e)
             | None \<Rightarrow>
                 (case Allow rnd l canonical ip now of
                    (l', Inl e) \<Rightarrow> (l', Inl (ErrLimited e))
                  | (l', Inr grantedAt) \<Rightarrow> (l', Inr (canonical, grantedAt))))"

definition fund_settle ::
  "(rat \<Rightarrow> rat) \<Rightarrow> limiter \<Rightarrow> string \<Rightarrow> string \<Rightarrow> time \<Rightarrow> (send_error + string) \<Rightarrow> time \<Rightarrow> limiter \<times> (fund_error + string)" where
  "fund_settle rnd l canonical ip grantedAt sent now =
     (case sent of
        Inl (ErrNotGranted e) \<Rightarrow> (Refund rnd l canonical ip grantedAt now, Inl (ErrDispense (ErrNotGranted e)))
      | Inl (SendOutcomeUnknown e) \<Rightarrow> (l, Inl (ErrDispense (SendOutcomeUnknown e)))
      | Inr tx \<Rightarrow> (l, Inr tx))"

definition Fund ::
  "(rat \<Rightarrow> rat) \<Rightarrow> (string \<Rightarrow> bytes option) \<Rightarrow> (bytes \<Rightarrow> string) \<Rightarrow> (string \<Rightarrow> int64 \<Rightarrow> send_error + string) \<Rightarrow>
   faucet \<Rightarrow> limiter \<Rightarrow> (string + int64) \<Rightarrow> string \<Rightarrow> string \<Rightarrow> string \<Rightarrow> time \<Rightarrow> time \<Rightarrow> limiter \<times> (fund_error + string)" where
  "Fund rnd parse render send f l balance address ip reqChainID now later =
     (case fund_admit rnd parse render f l balance address ip reqChainID now of
        (l', Inl e) \<Rightarrow> (l', Inl e)
      | (l', Inr (canonical, grantedAt)) \<Rightarrow>
          fund_settle rnd l' canonical ip grantedAt (send canonical (f_grantUgnot f)) later)"

subsection \<open>Outcomes and HTTP\<close>

datatype outcome =
    OutcomeSuccess | OutcomeBadRequest | OutcomeChainMismatch | OutcomeCooldown | OutcomeRateLimited
  | OutcomeDailyCap | OutcomeDripLimited | OutcomeFundingLow | OutcomeDispenseFailed

fun classify :: "fund_error + string \<Rightarrow> int \<times> outcome" where
  "classify (Inr _) = (200, OutcomeSuccess)"
| "classify (Inl (ErrBadAddress _)) = (400, OutcomeBadRequest)"
| "classify (Inl ErrChainMismatch) = (403, OutcomeChainMismatch)"
| "classify (Inl (ErrLimited ErrCooldown)) = (429, OutcomeCooldown)"
| "classify (Inl (ErrLimited ErrRateLimited)) = (429, OutcomeRateLimited)"
| "classify (Inl (ErrLimited ErrDailyCap)) = (429, OutcomeDailyCap)"
| "classify (Inl (ErrLimited ErrDripLimited)) = (429, OutcomeDripLimited)"
| "classify (Inl ErrFundingLow) = (503, OutcomeFundingLow)"
| "classify (Inl (ErrFundingBalance _)) = (502, OutcomeDispenseFailed)"
| "classify (Inl (ErrDispense _)) = (502, OutcomeDispenseFailed)"

record fundRequest =
  req_Address :: string
  req_ChainID :: string

text \<open>\<open>ErrorBody e\<close> is the text \<open>err.Error()\<close> of an error of \<open>Fund\<close>.\<close>

datatype http_body =
    TextBody string
  | ErrorBody fund_error
  | FundBody string int64
  | RateLimitBody string "string option" int
  | LimitsBody FaucetLimits

record http_response =
  resp_status :: int
  resp_headers :: "(string \<times> string) list"
  resp_body :: http_body

definition http_Error :: "http_body \<Rightarrow> int \<Rightarrow> http_response" where
  "http_Error msg code =
     \<lparr>resp_status = code, resp_headers = [(''Content-Type'', ''text/plain; charset=utf-8'')], resp_body = msg\<rparr>"

definition fund_response :: "(rat \<Rightarrow> rat) \<Rightarrow> faucet \<Rightarrow> limiter \<Rightarrow> fund_error + string \<Rightarrow> http_response" where
  "fund_response rnd f l res =
     (case (res, classify res) of
        (Inr tx, _) \<Rightarrow>
          \<lparr>resp_status = 200, resp_headers = [(''Content-Type'', ''application/json'')], resp_body = FundBody tx (f_grantUgnot f)\<rparr>
      | (Inl e, (status, outcome)) \<Rightarrow>
          if outcome = OutcomeDispenseFailed then http_Error (TextBody ''faucet: dispense failed'') 502
          else if status = 429 then
            let retry = retryAfterSeconds rnd l
            in \<lparr>resp_status = 429,
                resp_headers = [(''Retry-After'', show_int retry), (''Content-Type'', ''application/json'')],
                resp_body = RateLimitBody ''rate limited''
                  (if outcome = OutcomeCooldown then Some ''per_address'' else None) retry\<rparr>
          else http_Error (ErrorBody e) status)"

text \<open>\<open>MaxBytesReader\<close>: the readable bytes, and whether reading past them is an error.\<close>

definition MaxBytesReader :: "bytes \<Rightarrow> nat \<Rightarrow> bytes \<times> bool" where
  "MaxBytesReader body n = (take n body, n < length body)"

definition handleFund ::
  "(bytes \<times> bool \<Rightarrow> fundRequest option) \<Rightarrow> (rat \<Rightarrow> rat) \<Rightarrow> (string \<Rightarrow> bytes option) \<Rightarrow> (bytes \<Rightarrow> string) \<Rightarrow>
   (string \<Rightarrow> int64 \<Rightarrow> send_error + string) \<Rightarrow> faucet \<Rightarrow> limiter \<Rightarrow> (string + int64) \<Rightarrow> bytes \<Rightarrow> string \<Rightarrow> time \<Rightarrow> time \<Rightarrow>
   limiter \<times> http_response \<times> outcome" where
  "handleFund decodeJSON rnd parse render send f l balance body ip now later =
     (let bad = (l, http_Error (TextBody ''bad request: expected JSON {address, chain_id}'') 400, OutcomeBadRequest)
      in case decodeJSON (MaxBytesReader body 4096) of
           None \<Rightarrow> bad
         | Some req \<Rightarrow>
             if req_Address req = [] then bad
             else case Fund rnd parse render send f l balance (req_Address req) ip (req_ChainID req) now later of
                    (l', res) \<Rightarrow> (l', fund_response rnd f l' res, snd (classify res)))"

definition handleLimits :: "(rat \<Rightarrow> rat) \<Rightarrow> faucet \<Rightarrow> limiter \<Rightarrow> http_response" where
  "handleLimits rnd f l =
     \<lparr>resp_status = 200, resp_headers = [(''Content-Type'', ''application/json'')], resp_body = LimitsBody (Limits rnd f l)\<rparr>"

definition handleHealth :: http_response where
  "handleHealth = \<lparr>resp_status = 200, resp_headers = [], resp_body = TextBody ''ok''\<rparr>"

subsection \<open>Client addresses\<close>

text \<open>\<open>net.SplitHostPort\<close>, the host only; \<open>None\<close> is its error.\<close>

fun index_byte :: "string \<Rightarrow> char \<Rightarrow> nat option" where
  "index_byte [] c = None"
| "index_byte (x # s) c = (if x = c then Some 0 else map_option Suc (index_byte s c))"

definition last_index_byte :: "string \<Rightarrow> char \<Rightarrow> nat option" where
  "last_index_byte s c = map_option (\<lambda>i. length s - 1 - i) (index_byte (rev s) c)"

definition no_brackets :: "string \<Rightarrow> nat \<Rightarrow> nat \<Rightarrow> bool" where
  "no_brackets s j k \<longleftrightarrow> CHR ''['' \<notin> set (drop j s) \<and> CHR '']'' \<notin> set (drop k s)"

definition SplitHostPort :: "string \<Rightarrow> string option" where
  "SplitHostPort s =
     (case last_index_byte s (CHR '':'') of
        None \<Rightarrow> None
      | Some i \<Rightarrow>
          if HasPrefix s ''['' then
            (case index_byte s (CHR '']'') of
               None \<Rightarrow> None
             | Some e \<Rightarrow>
                 if e + 1 = length s then None
                 else if e + 1 = i then
                   (if no_brackets s 1 (e + 1) then Some (take (e - 1) (drop 1 s)) else None)
                 else None)
          else if CHR '':'' \<in> set (take i s) then None
          else if no_brackets s 0 0 then Some (take i s) else None)"

definition hostOnly :: "string \<Rightarrow> string" where
  "hostOnly addr = (case SplitHostPort addr of Some host \<Rightarrow> host | None \<Rightarrow> addr)"

definition clientIP :: "string \<Rightarrow> string \<Rightarrow> int \<Rightarrow> string" where
  "clientIP remoteAddr xff trustedProxies =
     (let remote = hostOnly remoteAddr
      in if trustedProxies \<le> 0 then remote
         else if xff = [] then remote
         else let parts = Split xff (CHR '',''); idx = int (length parts) - trustedProxies
              in if idx < 0 \<or> idx \<ge> int (length parts) then remote
                 else TrimSpace (parts ! nat idx))"

subsection \<open>The access log\<close>

text \<open>
  A handler's effect on its response writer is a sequence of writes that may end in a panic.
  \<open>committed\<close> is the status line net/http sends: that of the first \<open>WriteHeader\<close>, or the
  implicit 200 of the first body write; \<open>None\<close> while nothing is sent.
\<close>

datatype rw_op = WHeader int | WBody bytes

record statusRecorder =
  sr_status :: int
  sr_wroteHeader :: bool
  sr_committed :: "int option"

definition new_statusRecorder :: statusRecorder where
  "new_statusRecorder = \<lparr>sr_status = 200, sr_wroteHeader = False, sr_committed = None\<rparr>"

definition net_WriteHeader :: "int \<Rightarrow> int option \<Rightarrow> int option" where
  "net_WriteHeader code c = (case c of None \<Rightarrow> Some code | Some k \<Rightarrow> Some k)"

definition sr_WriteHeader :: "statusRecorder \<Rightarrow> int \<Rightarrow> statusRecorder" where
  "sr_WriteHeader s code =
     (if sr_wroteHeader s then s
      else s\<lparr>sr_status := code, sr_wroteHeader := True, sr_committed := net_WriteHeader code (sr_committed s)\<rparr>)"

definition sr_Write :: "statusRecorder \<Rightarrow> bytes \<Rightarrow> statusRecorder" where
  "sr_Write s b =
     (let s = (if \<not> sr_wroteHeader s then sr_WriteHeader s 200 else s)
      in s\<lparr>sr_committed := net_WriteHeader 200 (sr_committed s)\<rparr>)"

primrec sr_op :: "rw_op \<Rightarrow> statusRecorder \<Rightarrow> statusRecorder" where
  "sr_op (WHeader c) s = sr_WriteHeader s c"
| "sr_op (WBody b) s = sr_Write s b"

record reqInfo =
  info_outcome :: string
  info_address :: string
  info_chainID :: string

record log_line =
  log_method :: string
  log_status :: int
  log_client_ip :: string
  log_attrs :: "(string \<times> string) list"
  log_panic :: bool

definition info_attrs :: "reqInfo \<Rightarrow> (string \<times> string) list" where
  "info_attrs info =
     (if info_outcome info \<noteq> [] then [(''outcome'', info_outcome info)] else []) @
     (if info_address info \<noteq> [] then [(''address'', info_address info)] else []) @
     (if info_chainID info \<noteq> [] then [(''chain_id'', info_chainID info)] else [])"

text \<open>
  The middleware: the recorder after the request and the one line it logs. \<open>info\<close> is the
  request information as the handler left it.
\<close>

definition logRequests ::
  "faucet \<Rightarrow> string \<Rightarrow> string \<Rightarrow> string \<Rightarrow> reqInfo \<Rightarrow> rw_op list \<Rightarrow> bool \<Rightarrow> statusRecorder \<times> log_line" where
  "logRequests f verb remoteAddr xff info ops panics =
     (let rec = fold sr_op ops new_statusRecorder;
          rec = (if panics \<and> \<not> sr_wroteHeader rec then sr_WriteHeader rec 500 else rec)
      in (rec, \<lparr>log_method = verb, log_status = sr_status rec,
                log_client_ip = clientIP remoteAddr xff (f_trustedProxies f),
                log_attrs = info_attrs info, log_panic = panics\<rparr>))"

subsection \<open>Interleaved requests\<close>

text \<open>
  The service with any number of requests in flight. \<open>fs_inflight\<close> holds the requests between
  \<open>Allow\<close> and the end of \<open>Send\<close>; \<open>fs_paid\<close> the times of the grants whose transfer landed or
  may have landed. The clock never runs backwards.
\<close>

record fund_state =
  fs_lim :: limiter
  fs_inflight :: "(string \<times> string \<times> time) list"
  fs_paid :: "time list"
  fs_clock :: time

inductive fund_step ::
  "(rat \<Rightarrow> rat) \<Rightarrow> (string \<Rightarrow> bytes option) \<Rightarrow> (bytes \<Rightarrow> string) \<Rightarrow> faucet \<Rightarrow> fund_state \<Rightarrow> fund_state \<Rightarrow> bool"
  for rnd parse render f where
  admitted: "fund_admit rnd parse render f (fs_lim s) balance address ip chain now = (l', Inr (canonical, g)) \<Longrightarrow>
    fs_clock s \<le> now \<Longrightarrow>
    fund_step rnd parse render f s
      (s\<lparr>fs_lim := l', fs_inflight := (canonical, ip, g) # fs_inflight s, fs_clock := now\<rparr>)"
| refused: "fund_admit rnd parse render f (fs_lim s) balance address ip chain now = (l', Inl e) \<Longrightarrow>
    fs_clock s \<le> now \<Longrightarrow>
    fund_step rnd parse render f s (s\<lparr>fs_lim := l', fs_clock := now\<rparr>)"
| not_granted: "(canonical, ip, g) \<in> set (fs_inflight s) \<Longrightarrow> fs_clock s \<le> now \<Longrightarrow>
    fund_settle rnd (fs_lim s) canonical ip g (Inl (ErrNotGranted e)) now = (l', res) \<Longrightarrow>
    fund_step rnd parse render f s
      (s\<lparr>fs_lim := l', fs_inflight := remove1 (canonical, ip, g) (fs_inflight s), fs_clock := now\<rparr>)"
| kept: "(canonical, ip, g) \<in> set (fs_inflight s) \<Longrightarrow> fs_clock s \<le> now \<Longrightarrow>
    (\<forall>e. sent \<noteq> Inl (ErrNotGranted e)) \<Longrightarrow>
    fund_settle rnd (fs_lim s) canonical ip g sent now = (l', res) \<Longrightarrow>
    fund_step rnd parse render f s
      (s\<lparr>fs_lim := l', fs_inflight := remove1 (canonical, ip, g) (fs_inflight s),
         fs_paid := g # fs_paid s, fs_clock := now\<rparr>)"

inductive_cases fund_stepE [elim]: "fund_step rnd parse render f s s'"

definition fund_init :: "limiter \<Rightarrow> time \<Rightarrow> fund_state" where
  "fund_init l t0 = \<lparr>fs_lim = l, fs_inflight = [], fs_paid = [], fs_clock = t0\<rparr>"

definition outstanding :: "fund_state \<Rightarrow> time list" where
  "outstanding s = map (\<lambda>(a, i, g). g) (fs_inflight s) @ fs_paid s"

definition day_outflow :: "fund_state \<Rightarrow> int \<Rightarrow> nat" where
  "day_outflow s d = length (filter (\<lambda>g. utc_day g = d) (outstanding s))"

subsection \<open>Lemmas\<close>

lemma fund_admit_cases:
  assumes "fund_admit rnd parse render f l balance address ip chain now = (l', res)"
  shows "l' = l \<and> isl res \<or>
    (\<exists>canonical r. Allow rnd l canonical ip now = (l', r) \<and>
       res = (case r of Inl e \<Rightarrow> Inl (ErrLimited e) | Inr g \<Rightarrow> Inr (canonical, g)))"
  using assms
  by (auto simp: fund_admit_def Let_def split: if_splits option.splits prod.splits sum.splits)

lemma fund_settle_lim:
  "fst (fund_settle rnd l a i g sent now) =
     (if \<exists>e. sent = Inl (ErrNotGranted e) then Refund rnd l a i g now else l)"
  by (auto simp: fund_settle_def split: sum.splits send_error.splits)

definition fund_inv :: "int64 \<Rightarrow> int64 \<Rightarrow> fund_state \<Rightarrow> bool" where
  "fund_inv grant cap s \<longleftrightarrow>
     daily_budget.budget_inv (lim_ok grant cap) lim_day daySpent (max 0 grant) cap
       (fs_lim s) (outstanding s) (fs_clock s)"

lemma outstanding_remove:
  assumes "(a, i, g) \<in> set (fs_inflight s)"
  shows "mset (map (\<lambda>(a, i, g). g) (remove1 (a, i, g) (fs_inflight s)) @ fs_paid s) =
      mset (remove1 g (outstanding s))"
    and "mset (map (\<lambda>(a, i, g). g) (remove1 (a, i, g) (fs_inflight s)) @ g # fs_paid s) = mset (outstanding s)"
proof -
  have "mset (fs_inflight s) = add_mset (a, i, g) (mset (remove1 (a, i, g) (fs_inflight s)))"
    using assms by simp
  from arg_cong [OF this, of "image_mset (\<lambda>(a, i, g). g)"]
  have "image_mset (\<lambda>(a, i, g). g) (mset (fs_inflight s)) =
      add_mset g (image_mset (\<lambda>(a, i, g). g) (mset (remove1 (a, i, g) (fs_inflight s))))"
    by (simp only: image_mset_add_mset prod.case)
  then show "mset (map (\<lambda>(a, i, g). g) (remove1 (a, i, g) (fs_inflight s)) @ fs_paid s) =
      mset (remove1 g (outstanding s))"
    and "mset (map (\<lambda>(a, i, g). g) (remove1 (a, i, g) (fs_inflight s)) @ g # fs_paid s) = mset (outstanding s)"
    by (simp_all add: outstanding_def)
qed

lemma budget_clock:
  "lim.budget_inv grant cap l gs clock \<Longrightarrow> clock \<le> now \<Longrightarrow> lim.budget_inv grant cap l gs now"
  by (auto simp: lim.budget_inv_def split: option.splits dest: utc_day_mono)

lemma fund_admit_inv:
  assumes "lim.budget_inv grant cap l gs clock" "clock \<le> now"
    and "fund_admit rnd parse render f l balance address ip chain now = (l', res)"
  shows "lim.budget_inv grant cap l' (case res of Inl _ \<Rightarrow> gs | Inr (_, g) \<Rightarrow> g # gs) now"
  using fund_admit_cases [OF assms(3)]
proof (elim disjE exE conjE)
  assume "l' = l" "isl res"
  with budget_clock [OF assms(1,2)] show ?thesis by (cases res) auto
next
  fix canonical r
  assume a: "Allow rnd l canonical ip now = (l', r)"
    and r: "res = (case r of Inl e \<Rightarrow> Inl (ErrLimited e) | Inr g \<Rightarrow> Inr (canonical, g))"
  from lim.budget_allow [OF assms(1,2) a] show ?thesis unfolding r by (cases r) auto
qed

lemma fund_step_inv:
  assumes "fund_step rnd parse render f s s'" "fund_inv grant cap s"
  shows "fund_inv grant cap s'"
  using assms
proof (cases rule: fund_step.cases)
  case (admitted balance address ip chain now l' canonical g)
  then show ?thesis
    using fund_admit_inv [of grant cap "fs_lim s" "outstanding s" "fs_clock s" now] assms(2)
    by (fastforce simp: fund_inv_def outstanding_def)
next
  case (refused balance address ip chain now l' e)
  then show ?thesis
    using fund_admit_inv [of grant cap "fs_lim s" "outstanding s" "fs_clock s" now] assms(2)
    by (fastforce simp: fund_inv_def outstanding_def)
next
  case (not_granted canonical ip g now e l' res)
  have "g \<in> set (outstanding s)" using not_granted by (force simp: outstanding_def)
  moreover have "l' = Refund rnd (fs_lim s) canonical ip g now"
    using not_granted fund_settle_lim [of rnd "fs_lim s" canonical ip g] by (metis fst_conv)
  ultimately have "lim.budget_inv grant cap l' (remove1 g (outstanding s)) now"
    using lim.budget_refund not_granted assms(2) by (auto simp: fund_inv_def)
  from lim.budget_perm [OF this outstanding_remove(1) [OF not_granted(2), symmetric]] show ?thesis
    using not_granted by (simp add: fund_inv_def outstanding_def)
next
  case (kept canonical ip g now sent l' res)
  have "l' = fs_lim s"
    using kept fund_settle_lim [of rnd "fs_lim s" canonical ip g sent now] by (metis fst_conv)
  then have "lim.budget_inv grant cap l' (outstanding s) now"
    using assms(2) kept budget_clock by (auto simp: fund_inv_def)
  from lim.budget_perm [OF this outstanding_remove(2) [OF kept(2), symmetric]] show ?thesis
    using kept by (simp add: fund_inv_def outstanding_def)
qed

lemma NewLimiter_ok:
  assumes "0 \<le> cfg_GrantUgnot cfg" "cfg_GrantUgnot cfg \<le> MaxInt64"
    and "0 \<le> cfg_DailyCapUgnot cfg" "cfg_DailyCapUgnot cfg \<le> MaxInt64"
  shows "lim_ok (cfg_GrantUgnot cfg) (cfg_DailyCapUgnot cfg) (NewLimiter rnd cfg)"
  using assms by (simp add: lim_ok_def NewLimiter_def IsZero_def)

lemma fund_init_inv:
  assumes "lim_ok grant cap l" "lim_day l = None" "0 < t0"
  shows "fund_inv grant cap (fund_init l t0)"
  unfolding fund_inv_def lim.budget_inv_def lim.owed_def
  using assms by (simp add: fund_init_def outstanding_def lim_ok_def)

lemma fund_inv_cap:
  assumes "fund_inv grant cap s"
  shows "grant * int (day_outflow s d) \<le> cap"
proof -
  have "max 0 grant * int (day_outflow s d) \<le> cap" and "0 \<le> grant"
    using assms by (auto simp: fund_inv_def lim.budget_inv_def lim.owed_def day_outflow_def lim_ok_def)
  then show ?thesis by simp
qed

lemma fund_reachable_inv:
  assumes "(fund_step rnd parse render f)\<^sup>*\<^sup>* s s'" "fund_inv grant cap s"
  shows "fund_inv grant cap s'"
  using assms by (induction rule: rtranclp_induct) (auto intro: fund_step_inv)

text \<open>The transaction \<open>Send\<close> hands to the node, when it gets that far.\<close>

definition send_reaches :: "'tx send_client \<Rightarrow> gnoclientDispenser \<Rightarrow> string \<Rightarrow> int64 \<Rightarrow> 'tx \<Rightarrow> bool" where
  "send_reaches c d to amt signed \<longleftrightarrow>
     (\<exists>toAddr price fee tx. dc_AddressFromBech32 c to = Some toAddr \<and>
        Fetch (dc_Query c) (dc_Unmarshal c) = Inr price \<and>
        Compute price (disp_gasWanted d) (disp_floor d) 2 1 = Inr fee \<and>
        dc_NewSendTx c (baseTxCfg fee (disp_gasWanted d))
          \<lparr>msg_From = disp_from d, msg_To = toAddr, msg_Denom = ''ugnot'', msg_Amount = amt\<rparr> = Inr tx \<and>
        dc_SignTx c tx = Inr signed)"

lemmas margin_defs = dispenseGasFeeMarginNum_def dispenseGasFeeMarginDen_def

subsection \<open>Properties\<close>

text \<open>
  The daily cap holds under every interleaving. Start the service with a fresh limiter
  and let any number of fund requests run concurrently, each of them ending in a payment, an
  unknown outcome or a provable failure: in every reachable state and for every UTC day, the
  grants that were paid, may have been paid or are in flight amount to at most
  \<open>DailyCapUgnot\<close>.
\<close>

theorem faucet_daily_cap:
  assumes "0 \<le> cfg_GrantUgnot cfg" "cfg_GrantUgnot cfg \<le> MaxInt64"
    and "0 \<le> cfg_DailyCapUgnot cfg" "cfg_DailyCapUgnot cfg \<le> MaxInt64" "0 < t0"
    and "(fund_step rnd parse render f)\<^sup>*\<^sup>* (fund_init (NewLimiter rnd cfg) t0) s"
  shows "cfg_GrantUgnot cfg * int (day_outflow s d) \<le> cfg_DailyCapUgnot cfg"
proof -
  have "lim_day (NewLimiter rnd cfg) = None" by (simp add: lim_day_def NewLimiter_def IsZero_def)
  then have "fund_inv (cfg_GrantUgnot cfg) (cfg_DailyCapUgnot cfg) (fund_init (NewLimiter rnd cfg) t0)"
    using NewLimiter_ok [OF assms(1-4)] assms(5) by (intro fund_init_inv)
  from fund_inv_cap [OF fund_reachable_inv [OF assms(6) this]] show ?thesis .
qed

theorem faucet_daily_cap_witness:
  "10 * int (day_outflow (fund_init (NewLimiter (\<lambda>x. x) demo_cfg) 5) 0) \<le> 50 \<and>
   (\<exists>s. fund_step (\<lambda>x. x) Some (\<lambda>a. a) (New ''dev'' 10 []) (fund_init (NewLimiter (\<lambda>x. x) demo_cfg) 5) s \<and>
      length (fs_inflight s) = 1 \<and> 10 * int (day_outflow s 0) \<le> 50)"
proof -
  let ?s0 = "fund_init (NewLimiter (\<lambda>x. x) demo_cfg) 5" and ?f = "New ''dev'' 10 []"
  obtain l where "fund_admit (\<lambda>x. x) Some (\<lambda>a. a) ?f (fs_lim ?s0) (Inr 0) ''a'' ''x'' ''dev'' 10 = (l, Inr (''a'', 10))"
    by (simp add: fund_init_def fund_admit_def New_def NewLimiter_def demo_cfg_def Allow_def day_rollover_def
        IsZero_def sweepStale_def countWithin_def drip_take_def refillDrip_def i64_def sweep_map_def
        hits_of_def Let_def)
  from fund_step.admitted [OF this]
  have step: "fund_step (\<lambda>x. x) Some (\<lambda>a. a) ?f ?s0
      (?s0\<lparr>fs_lim := l, fs_inflight := (''a'', ''x'', 10) # fs_inflight ?s0, fs_clock := 10\<rparr>)" (is "fund_step _ _ _ _ _ ?s1")
    by (simp add: fund_init_def)
  have "10 * int (day_outflow s 0) \<le> 50" if "(fund_step (\<lambda>x. x) Some (\<lambda>a. a) ?f)\<^sup>*\<^sup>* ?s0 s" for s
    using faucet_daily_cap [of demo_cfg 5 "\<lambda>x. x" Some "\<lambda>a. a" ?f s 0] that
    by (simp add: demo_cfg_def MaxInt64_def)
  with step have "10 * int (day_outflow ?s0 0) \<le> 50" "10 * int (day_outflow ?s1 0) \<le> 50"
    by blast+
  moreover have "length (fs_inflight ?s1) = 1" by (simp add: fund_init_def)
  ultimately show ?thesis using step by blast
qed

text \<open>
  What a fund request does to the limiter, on every path. A request refused before the
  limiter (wrong chain, bad address, balance source down, wallet below the floor) leaves it
  untouched; a limiter refusal is \<open>Allow\<close>'s own state; a payment, or a dispense whose outcome
  is unknown, keeps the recorded grant; and a dispense that provably failed is refunded at
  the recorded time.
\<close>

theorem Fund_accounting:
  assumes "Fund rnd parse render send f l balance address ip chain now later = (l', res)"
  shows "case res of
      Inr tx \<Rightarrow> \<exists>a g. Allow rnd l (render a) ip now = (l', Inr g) \<and> parse address = Some a \<and>
        chain = f_chainID f \<and> send (render a) (f_grantUgnot f) = Inr tx
    | Inl (ErrDispense (SendOutcomeUnknown e)) \<Rightarrow> \<exists>a g. parse address = Some a \<and> Allow rnd l (render a) ip now = (l', Inr g) \<and>
        send (render a) (f_grantUgnot f) = Inl (SendOutcomeUnknown e)
    | Inl (ErrDispense (ErrNotGranted e)) \<Rightarrow> \<exists>a g l1. parse address = Some a \<and> Allow rnd l (render a) ip now = (l1, Inr g) \<and>
        send (render a) (f_grantUgnot f) = Inl (ErrNotGranted e) \<and> l' = Refund rnd l1 (render a) ip g later
    | Inl (ErrLimited e) \<Rightarrow> \<exists>a. parse address = Some a \<and> Allow rnd l (render a) ip now = (l', Inl e)
    | Inl e \<Rightarrow> l' = l"
  using assms
  by (auto simp: Fund_def fund_admit_def fund_settle_def Let_def
      split: if_splits option.splits prod.splits sum.splits send_error.splits)

theorem Fund_accounting_witness:
  "\<exists>l'. Fund (\<lambda>x. x) Some (\<lambda>a. a) (\<lambda>a n. Inr ''tx'') (New ''dev'' 10 []) (NewLimiter (\<lambda>x. x) demo_cfg) (Inr 0)
      ''a'' ''x'' ''other'' 10 11 = (l', Inl ErrChainMismatch) \<and> l' = NewLimiter (\<lambda>x. x) demo_cfg"
proof -
  obtain l' where r: "Fund (\<lambda>x. x) Some (\<lambda>a. a) (\<lambda>a n. Inr ''tx'') (New ''dev'' 10 []) (NewLimiter (\<lambda>x. x) demo_cfg) (Inr 0)
      ''a'' ''x'' ''other'' 10 11 = (l', Inl ErrChainMismatch)"
    by (simp add: Fund_def fund_admit_def New_def)
  from Fund_accounting [OF r] show ?thesis using r by simp
qed

text \<open>
  C14. \<open>ErrNotGranted\<close> is honest. \<open>Send\<close> reports it only if no transaction was handed to the
  node or the node answered that the one it was handed did not go through, and reports an
  unknown outcome exactly when a signed transaction was handed over and no answer came; a
  hash is returned only for a committed transaction.
\<close>

theorem Send_outcomes:
  "(\<forall>e. Send c d to amt = Inl (ErrNotGranted e) \<longrightarrow>
      (\<forall>signed. send_reaches c d to amt signed \<longrightarrow> (\<exists>m. dc_Broadcast c signed = NodeRefused m))) \<and>
   (\<forall>e. Send c d to amt = Inl (SendOutcomeUnknown e) \<longleftrightarrow>
      (\<exists>signed. send_reaches c d to amt signed \<and> dc_Broadcast c signed = NoAnswer e)) \<and>
   (\<forall>h. Send c d to amt = Inr h \<longleftrightarrow>
      (\<exists>signed hash. send_reaches c d to amt signed \<and> dc_Broadcast c signed = Committed hash \<and> h = dc_HexEncode c hash))"
  by (auto simp: Send_def send_reaches_def margin_defs
      split: option.splits sum.splits broadcast_result.splits)

definition demo_client :: "string send_client" where
  "demo_client = \<lparr>dc_AddressFromBech32 = Some, dc_Query = (\<lambda>p. Inr []), dc_Unmarshal = (\<lambda>b. Inl ''none''),
     dc_NewSendTx = (\<lambda>cfg m. Inr (msg_To m)), dc_SignTx = Inr, dc_Broadcast = (\<lambda>tx. NoAnswer ''timeout''), dc_HexEncode = (\<lambda>h. h)\<rparr>"

theorem Send_outcomes_witness:
  "Send demo_client (NewGnoclientDispenser ''key'' 2000) ''g1x'' 5 = Inl (SendOutcomeUnknown ''timeout'')"
proof -
  have "Compute zero_gas_price 2000 2 2 1 = Inr 2" by (simp add: Compute_def zero_gas_price_def)
  then have "send_reaches demo_client (NewGnoclientDispenser ''key'' 2000) ''g1x'' 5 ''g1x''"
    by (simp add: send_reaches_def demo_client_def Fetch_def NewGnoclientDispenser_def genesisGasPriceDivisor_def
        sdiv_nonneg)
  moreover have "dc_Broadcast demo_client ''g1x'' = NoAnswer ''timeout''" by (simp add: demo_client_def)
  ultimately show ?thesis
    using Send_outcomes [of demo_client "NewGnoclientDispenser ''key'' 2000" "''g1x''" 5] by blast
qed

text \<open>
  What an anonymous caller can learn. Every dispense or balance failure gets one and the
  same response; a per-IP, daily-cap and drip refusal are indistinguishable from one another;
  and the advertised back-off is never below a day.
\<close>

theorem fund_response_discloses:
  "(snd (classify (Inl e)) = OutcomeDispenseFailed \<longrightarrow>
      fund_response rnd f l (Inl e) = http_Error (TextBody ''faucet: dispense failed'') 502) \<and>
   (k \<noteq> ErrCooldown \<longrightarrow>
      fund_response rnd f l (Inl (ErrLimited k)) = fund_response rnd f l (Inl (ErrLimited ErrDailyCap))) \<and>
   86400 \<le> retryAfterSeconds rnd l"
proof (intro conjI impI)
  show "fund_response rnd f l (Inl e) = http_Error (TextBody ''faucet: dispense failed'') 502"
    if "snd (classify (Inl e)) = OutcomeDispenseFailed"
    using that by (auto simp: fund_response_def split: prod.splits)
  show "fund_response rnd f l (Inl (ErrLimited k)) = fund_response rnd f l (Inl (ErrLimited ErrDailyCap))"
    if "k \<noteq> ErrCooldown"
    using that by (cases k) (simp_all add: fund_response_def)
  show "86400 \<le> retryAfterSeconds rnd l" by (simp add: retryAfterSeconds_def Let_def)
qed

theorem fund_response_discloses_witness:
  "fund_response (\<lambda>x. x) (New ''dev'' 10 []) (NewLimiter (\<lambda>x. x) demo_cfg) (Inl (ErrLimited ErrRateLimited)) =
   fund_response (\<lambda>x. x) (New ''dev'' 10 []) (NewLimiter (\<lambda>x. x) demo_cfg) (Inl (ErrLimited ErrDailyCap))"
  using fund_response_discloses [of "ErrDispense (ErrNotGranted [])" "\<lambda>x. x" "New ''dev'' 10 []"
      "NewLimiter (\<lambda>x. x) demo_cfg" ErrRateLimited] by simp

text \<open>
  C15. A caller cannot choose its rate-limit key. Behind \<open>n\<close> trusted proxies, each of which
  appends one \<open>X-Forwarded-For\<close> entry, \<open>clientIP\<close> is the entry the outermost trusted proxy
  appended, whatever the caller put to the left of it.
\<close>

theorem clientIP_unforgeable:
  assumes "\<forall>x \<in> set (client # hops). CHR '','' \<notin> set x" and "client \<noteq> []"
  shows "clientIP remote (forged @ CHR '','' # Join (client # hops) '','') (1 + int (length hops)) = TrimSpace client \<and>
    clientIP remote (Join (client # hops) '','') (1 + int (length hops)) = TrimSpace client"
proof -
  have split: "Split (Join (client # hops) '','') (CHR '','') = client # hops"
    using assms by (intro Split_Join) auto
  have ne: "Join (client # hops) '','' \<noteq> []" using assms by (intro Join_nonempty) auto
  show ?thesis
    using split ne by (simp add: clientIP_def Split_append Let_def nat_diff_distrib nth_append)
qed

theorem clientIP_unforgeable_witness:
  "clientIP ''10.0.0.1:80'' ''1.2.3.4, 9.9.9.9'' 1 = ''9.9.9.9''"
  using clientIP_unforgeable [of "'' 9.9.9.9''" "[]" "''10.0.0.1:80''" "''1.2.3.4''"]
  by (simp add: TrimSpace_def is_space_def)

text \<open>
  The access log reports the status the client got. For every sequence of header and body
  writes, ending normally or in a panic, the logged status is the status line that was sent,
  and it is 500 when the handler panicked before writing anything.
\<close>

theorem logRequests_status:
  "case logRequests f verb remote xff info ops panics of (rec, line) \<Rightarrow>
     (case sr_committed rec of Some code \<Rightarrow> log_status line = code | None \<Rightarrow> log_status line = 200) \<and>
     (ops = [] \<and> panics \<longrightarrow> sr_committed rec = Some 500)"
proof -
  define P where "P s \<longleftrightarrow> (if sr_wroteHeader s then sr_committed s = Some (sr_status s)
    else sr_committed s = None \<and> sr_status s = 200)" for s :: statusRecorder
  have "P (sr_op x s)" if "P s" for x s
    using that by (cases x) (auto simp: P_def sr_WriteHeader_def sr_Write_def net_WriteHeader_def Let_def split: if_splits)
  then have "P (fold sr_op ops s)" if "P s" for s
    using that by (induction ops arbitrary: s) auto
  then have "P (fold sr_op ops new_statusRecorder)" by (simp add: P_def new_statusRecorder_def)
  then show ?thesis
    by (auto simp: logRequests_def P_def Let_def sr_WriteHeader_def net_WriteHeader_def new_statusRecorder_def
        split: if_splits)
qed

theorem logRequests_status_witness:
  "sr_committed (fst (logRequests (New ''dev'' 10 []) ''POST'' ''r'' []
     \<lparr>info_outcome = [], info_address = [], info_chainID = []\<rparr> [] True)) = Some 500"
  using logRequests_status [where f = "New ''dev'' 10 []" and verb = "''POST''" and remote = "''r''" and xff = "[]"
      and info = "\<lparr>info_outcome = [], info_address = [], info_chainID = []\<rparr>" and ops = "[]" and panics = True]
  by (simp split: prod.splits)

text \<open>
  The funding balance is fresh or an error. With the node's answer \<open>answer\<close>, the source
  returns either that answer or a value an earlier call read less than \<open>ttl\<close> ago; a failed
  query is never masked by a zero or a stale balance, and does not disturb the cache.
\<close>

theorem GnoclientBalance_fresh:
  assumes "GnoclientBalance ttl b now answer later = (b', res)"
  shows "(case res of
       Inl e \<Rightarrow> (\<exists>m. answer = Inl m) \<and> b' = b \<and> \<not> (bc_seeded b \<and> time_sub now (bc_cachedAt b) < ttl)
     | Inr v \<Rightarrow> bc_cached b' = v \<and> bc_seeded b' \<and>
         (answer = Inr v \<and> bc_cachedAt b' = later \<or> b' = b \<and> time_sub now (bc_cachedAt b) < ttl))"
  using assms by (auto simp: GnoclientBalance_def split: if_splits sum.splits)

theorem GnoclientBalance_fresh_witness:
  "bc_cached (fst (GnoclientBalance 30 new_balance_cache 5 (Inr 77) 6)) = 77"
  using GnoclientBalance_fresh [of 30 new_balance_cache 5 "Inr 77" 6, OF prod.collapse [symmetric]]
  by (auto simp: GnoclientBalance_def new_balance_cache_def split: sum.splits)

end
