(* ===== verification/Go_Regexp.thy ===== *)
theory Go_Regexp
  imports Go_Prelude
begin

section \<open>Regular expressions: the package regexp patterns of the sources\<close>

text \<open>
  The validators of the program are anchored patterns over byte classes. \<open>rx\<close> is their
  syntax, \<open>rlang\<close> what they denote, \<open>rx_match\<close> an executable matcher by derivatives, and
  \<open>rx_match_iff\<close> its correctness. \<open>rx_bytes\<close> is the set of bytes a pattern can consume: it
  carries the shell-safety arguments of the components.
\<close>

datatype rx =
    RZero
  | REps
  | RCls "(nat \<times> nat) list"
  | RSeq rx rx
  | RAlt rx rx
  | RStar rx

definition in_cls :: "(nat \<times> nat) list \<Rightarrow> char \<Rightarrow> bool" where
  "in_cls cs c \<longleftrightarrow> list_ex (\<lambda>(lo, hi). lo \<le> of_char c \<and> of_char c \<le> hi) cs"

definition RPlus :: "rx \<Rightarrow> rx" where "RPlus r = RSeq r (RStar r)"
definition ROpt :: "rx \<Rightarrow> rx" where "ROpt r = RAlt REps r"

fun RUpTo :: "nat \<Rightarrow> rx \<Rightarrow> rx" where
  "RUpTo 0 r = REps"
| "RUpTo (Suc n) r = RAlt REps (RSeq r (RUpTo n r))"

fun RLit :: "string \<Rightarrow> rx" where
  "RLit [] = REps"
| "RLit (c # s) = RSeq (RCls [(of_char c, of_char c)]) (RLit s)"

inductive_set star_lang :: "string set \<Rightarrow> string set" for L where
  star_nil: "[] \<in> star_lang L"
| star_app: "u \<in> L \<Longrightarrow> v \<in> star_lang L \<Longrightarrow> u @ v \<in> star_lang L"

fun rlang :: "rx \<Rightarrow> string set" where
  "rlang RZero = {}"
| "rlang REps = {[]}"
| "rlang (RCls cs) = {[c] | c. in_cls cs c}"
| "rlang (RSeq r q) = {u @ v | u v. u \<in> rlang r \<and> v \<in> rlang q}"
| "rlang (RAlt r q) = rlang r \<union> rlang q"
| "rlang (RStar r) = star_lang (rlang r)"

fun nullable :: "rx \<Rightarrow> bool" where
  "nullable RZero = False"
| "nullable REps = True"
| "nullable (RCls cs) = False"
| "nullable (RSeq r q) = (nullable r \<and> nullable q)"
| "nullable (RAlt r q) = (nullable r \<or> nullable q)"
| "nullable (RStar r) = True"

text \<open>Constructors that keep derivatives small.\<close>

definition mk_seq :: "rx \<Rightarrow> rx \<Rightarrow> rx" where
  "mk_seq r q = (if r = RZero then RZero else if r = REps then q else RSeq r q)"

definition mk_alt :: "rx \<Rightarrow> rx \<Rightarrow> rx" where
  "mk_alt r q = (if r = RZero then q else if q = RZero then r else RAlt r q)"

fun deriv_rx :: "char \<Rightarrow> rx \<Rightarrow> rx" where
  "deriv_rx c RZero = RZero"
| "deriv_rx c REps = RZero"
| "deriv_rx c (RCls cs) = (if in_cls cs c then REps else RZero)"
| "deriv_rx c (RSeq r q) =
     (if nullable r then mk_alt (mk_seq (deriv_rx c r) q) (deriv_rx c q) else mk_seq (deriv_rx c r) q)"
| "deriv_rx c (RAlt r q) = mk_alt (deriv_rx c r) (deriv_rx c q)"
| "deriv_rx c (RStar r) = mk_seq (deriv_rx c r) (RStar r)"

fun rx_match :: "rx \<Rightarrow> string \<Rightarrow> bool" where
  "rx_match r [] = nullable r"
| "rx_match r (c # s) = rx_match (deriv_rx c r) s"

fun rx_bytes :: "rx \<Rightarrow> char set" where
  "rx_bytes RZero = {}"
| "rx_bytes REps = {}"
| "rx_bytes (RCls cs) = {c. in_cls cs c}"
| "rx_bytes (RSeq r q) = rx_bytes r \<union> rx_bytes q"
| "rx_bytes (RAlt r q) = rx_bytes r \<union> rx_bytes q"
| "rx_bytes (RStar r) = rx_bytes r"

subsection \<open>Correctness of the matcher\<close>

lemma nullable_iff: "nullable r \<longleftrightarrow> [] \<in> rlang r"
  by (induction r) (auto intro: star_nil)

lemma rlang_mk_seq: "rlang (mk_seq r q) = rlang (RSeq r q)"
  by (auto simp: mk_seq_def)

lemma rlang_mk_alt: "rlang (mk_alt r q) = rlang (RAlt r q)"
  by (auto simp: mk_alt_def)

lemma star_Cons:
  assumes "c # s \<in> star_lang L"
  shows "\<exists>u v. s = u @ v \<and> c # u \<in> L \<and> v \<in> star_lang L"
  using assms
proof (induction "c # s" arbitrary: s rule: star_lang.induct)
  case (star_app u v)
  then show ?case by (cases u) auto
qed

lemma rlang_deriv: "s \<in> rlang (deriv_rx c r) \<longleftrightarrow> c # s \<in> rlang r"
proof (induction r arbitrary: s)
  case (RSeq r q)
  have "c # s \<in> rlang (RSeq r q) \<longleftrightarrow>
      (\<exists>u v. s = u @ v \<and> c # u \<in> rlang r \<and> v \<in> rlang q) \<or> ([] \<in> rlang r \<and> c # s \<in> rlang q)"
    by (auto simp: Cons_eq_append_conv)
  with RSeq show ?case by (auto simp: rlang_mk_seq rlang_mk_alt nullable_iff)
next
  case (RStar r)
  then show ?case
    by (auto simp: rlang_mk_seq dest: star_Cons intro: star_app [of "c # u" for u, simplified])
qed (auto simp: rlang_mk_alt)

lemma rx_match_iff: "rx_match r s \<longleftrightarrow> s \<in> rlang r"
  by (induction r s rule: rx_match.induct) (simp_all add: nullable_iff rlang_deriv)

lemma star_bytes: "s \<in> star_lang L \<Longrightarrow> \<forall>u \<in> L. set u \<subseteq> A \<Longrightarrow> set s \<subseteq> A"
  by (induction rule: star_lang.induct) auto

lemma rlang_bytes: "s \<in> rlang r \<Longrightarrow> set s \<subseteq> rx_bytes r"
proof (induction r arbitrary: s)
  case (RStar r)
  then show ?case using star_bytes [of s "rlang r" "rx_bytes r"] by auto
qed fastforce+

lemma rx_match_bytes: "rx_match r s \<Longrightarrow> set s \<subseteq> rx_bytes r"
  by (simp add: rx_match_iff rlang_bytes)

lemma rx_bytes_RLit: "rx_bytes (RLit s) = set s"
proof (induction s)
  case (Cons c s)
  have "{x. in_cls [(of_char c, of_char c)] x} = {c}" by (auto simp: in_cls_def)
  with Cons show ?case by simp
qed simp

lemma rx_bytes_derived [simp]:
  "rx_bytes (RPlus r) = rx_bytes r" "rx_bytes (ROpt r) = rx_bytes r" "rx_bytes (RUpTo n r) \<subseteq> rx_bytes r"
  by (simp_all add: RPlus_def ROpt_def) (induction n; auto)

subsection \<open>Shell-safe bytes\<close>

text \<open>
  The bytes that stand for themselves in a POSIX shell word: letters, digits and a few marks.
  No quoting, expansion, redirection, separator or comment byte is among them.
\<close>

definition shell_safe_cls :: "(nat \<times> nat) list" where
  "shell_safe_cls = [(48, 57), (65, 90), (97, 122), (45, 47), (58, 58), (95, 95)]"

definition shell_safe :: "char \<Rightarrow> bool" where
  "shell_safe c \<longleftrightarrow> in_cls shell_safe_cls c"

definition shell_word :: "string \<Rightarrow> bool" where
  "shell_word s \<longleftrightarrow> s \<noteq> [] \<and> list_all shell_safe s"

definition cls_sub :: "(nat \<times> nat) list \<Rightarrow> bool" where
  "cls_sub cs \<longleftrightarrow> list_all (\<lambda>(lo, hi). list_ex (\<lambda>(a, b). a \<le> lo \<and> hi \<le> b) shell_safe_cls) cs"

lemma cls_sub_safe: "cls_sub cs \<Longrightarrow> in_cls cs c \<Longrightarrow> shell_safe c"
proof -
  assume a: "cls_sub cs" "in_cls cs c"
  then obtain lo hi where l: "(lo, hi) \<in> set cs" "lo \<le> of_char c" "of_char c \<le> hi"
    by (auto simp: in_cls_def list_ex_iff)
  with a obtain x y where "(x, y) \<in> set shell_safe_cls" "x \<le> lo" "hi \<le> y"
    by (fastforce simp: cls_sub_def list_all_iff list_ex_iff)
  moreover from this l have "x \<le> of_char c" "of_char c \<le> y" by (meson order_trans)+
  ultimately show ?thesis unfolding shell_safe_def in_cls_def list_ex_iff by blast
qed

fun rx_safe :: "rx \<Rightarrow> bool" where
  "rx_safe RZero = True"
| "rx_safe REps = True"
| "rx_safe (RCls cs) = cls_sub cs"
| "rx_safe (RSeq r q) = (rx_safe r \<and> rx_safe q)"
| "rx_safe (RAlt r q) = (rx_safe r \<and> rx_safe q)"
| "rx_safe (RStar r) = rx_safe r"

lemma rx_safe_bytes: "rx_safe r \<Longrightarrow> c \<in> rx_bytes r \<Longrightarrow> shell_safe c"
  by (induction r) (auto intro: cls_sub_safe)

lemma rx_match_shell_word:
  assumes "rx_match r s" "rx_safe r" "\<not> nullable r"
  shows "shell_word s"
proof -
  have "s \<noteq> []" using assms by (auto simp: rx_match_iff nullable_iff)
  moreover have "\<forall>c \<in> set s. shell_safe c" using rx_match_bytes [OF assms(1)] rx_safe_bytes [OF assms(2)] by blast
  ultimately show ?thesis by (simp add: shell_word_def list_all_iff)
qed

text \<open>A shell-safe string holds no blank, newline, quote, expansion or control operator.\<close>

definition shell_meta :: "char \<Rightarrow> bool" where
  "shell_meta c \<longleftrightarrow> (of_char c :: nat) \<le> 42 \<or> (of_char c :: nat) = 59 \<or>
     60 \<le> (of_char c :: nat) \<and> (of_char c :: nat) \<le> 63 \<or> 91 \<le> (of_char c :: nat) \<and> (of_char c :: nat) \<le> 94 \<or>
     (of_char c :: nat) = 96 \<or> 123 \<le> (of_char c :: nat)"

lemma shell_safe_no_meta: "shell_safe c \<Longrightarrow> \<not> shell_meta c"
  by (auto simp: shell_safe_def shell_safe_cls_def in_cls_def shell_meta_def)

lemma shell_word_no_meta: "shell_word s \<Longrightarrow> \<forall>c \<in> set s. \<not> shell_meta c"
  by (auto simp: shell_word_def list_all_iff shell_safe_no_meta)

end
