(* ===== verification/Profiles.thy ===== *)
theory Profiles
  imports Go_Regexp
begin

section \<open>Chain profiles: internal/profiles\<close>

text \<open>
  Profiles, their classification by chain-id, validation, layering of the configuration files
  over the built-in defaults, and the write limits. A profile map is a partial function; a
  loop over it takes the order in which Go happens to visit the keys as an argument. The TOML
  decoder, \<open>url.Parse\<close>, \<open>net.ParseIP\<close>, \<open>time.ParseDuration\<close> and bech32 parsing are arguments,
  and the theorems hold for all of them.
\<close>

subsection \<open>Data\<close>

record Profile =
  RPCURL :: string
  ChainID :: string
  TxIndexerURL :: string
  GnowebURL :: string
  FaucetServiceURL :: string
  FaucetURL :: string
  Sunset :: bool
  MasterAddress :: string
  DefaultSpendLimit :: string
  DefaultExpiresIn :: string
  BypassHardLimits :: bool

type_synonym profile_map = "string \<rightharpoonup> Profile"

definition empty_profile :: Profile where
  "empty_profile = \<lparr>RPCURL = [], ChainID = [], TxIndexerURL = [], GnowebURL = [], FaucetServiceURL = [],
     FaucetURL = [], Sunset = False, MasterAddress = [], DefaultSpendLimit = [], DefaultExpiresIn = [],
     BypassHardLimits = False\<rparr>"

datatype profile_error =
    NoProfiles
  | MissingRPCURL string
  | InvalidRPCURL string string
  | MissingChainID string
  | MalformedChainID string string
  | InvalidExpiresIn string string
  | InvalidSpendLimit string string
  | BypassNeedsMaster string
  | MasterOnReadOnly string string
  | InvalidMaster string string
  | FaucetOnReadOnly string string string
  | InvalidFaucetURL string string string
  | ConfigOpen string string
  | ConfigParse string
  | ConfigUnknownKeys "string list"

subsection \<open>Patterns\<close>

definition cls_digit :: "(nat \<times> nat) list" where "cls_digit = [(48, 57)]"
definition cls_lower :: "(nat \<times> nat) list" where "cls_lower = [(97, 122)]"
definition cls_upper :: "(nat \<times> nat) list" where "cls_upper = [(65, 90)]"
definition cls_dot :: "(nat \<times> nat) list" where "cls_dot = [(46, 46)]"
definition cls_dash :: "(nat \<times> nat) list" where "cls_dash = [(45, 45)]"
definition cls_under :: "(nat \<times> nat) list" where "cls_under = [(95, 95)]"
definition cls_slash :: "(nat \<times> nat) list" where "cls_slash = [(47, 47)]"
definition cls_lowdig :: "(nat \<times> nat) list" where "cls_lowdig = cls_lower @ cls_digit"

definition spendLimitRE :: rx where
  "spendLimitRE = RSeq (RPlus (RCls cls_digit)) (RPlus (RCls cls_lower))"

definition chainIDFormatRE :: rx where
  "chainIDFormatRE = RSeq (RCls cls_lowdig)
     (ROpt (RSeq (RStar (RCls (cls_lowdig @ cls_dot @ cls_under @ cls_dash))) (RCls cls_lowdig)))"

definition profileNameRE :: rx where
  "profileNameRE = RSeq (RCls cls_lowdig) (RStar (RCls (cls_lowdig @ cls_under @ cls_dash)))"

definition rpcURLRE :: rx where
  "rpcURLRE = RSeq (RLit ''http'') (RSeq (ROpt (RLit ''s'')) (RSeq (RLit ''://'')
     (RSeq (RPlus (RCls (cls_upper @ cls_lowdig @ cls_dot @ cls_dash)))
     (RSeq (ROpt (RSeq (RLit '':'') (RPlus (RCls cls_digit))))
       (ROpt (RSeq (RLit ''/'') (RStar (RCls (cls_upper @ cls_lowdig @ cls_dot @ cls_under @ cls_slash @ cls_dash)))))))))"

lemmas rx_defs = spendLimitRE_def chainIDFormatRE_def profileNameRE_def rpcURLRE_def cls_digit_def cls_lower_def
  cls_upper_def cls_dot_def cls_dash_def cls_under_def cls_slash_def cls_lowdig_def RPlus_def ROpt_def

definition testnetChainNames :: "string list" where
  "testnetChainNames = [''test'', ''onyx'']"

definition SpendLimitValid :: "string \<Rightarrow> bool" where
  "SpendLimitValid s = rx_match spendLimitRE s"

definition ValidProfileName :: "string \<Rightarrow> bool" where
  "ValidProfileName name = rx_match profileNameRE name"

definition ValidRPCURL :: "string \<Rightarrow> bool" where
  "ValidRPCURL s = rx_match rpcURLRE s"

definition IsTestnetChainID :: "string \<Rightarrow> bool" where
  "IsTestnetChainID i = list_ex (\<lambda>name. HasPrefix i name) testnetChainNames"

definition ChainIDWritable :: "string \<Rightarrow> bool" where
  "ChainIDWritable chainID \<longleftrightarrow> chainID = ''dev'' \<or> IsTestnetChainID chainID"

definition ChainIDValid :: "string \<Rightarrow> bool" where
  "ChainIDValid chainID \<longleftrightarrow> length chainID \<le> 64 \<and> rx_match chainIDFormatRE chainID"

subsection \<open>Classification and display\<close>

definition IsLocal :: "Profile \<Rightarrow> bool" where
  "IsLocal p \<longleftrightarrow> ChainID p = ''dev''"

definition IsTestnet :: "Profile \<Rightarrow> bool" where
  "IsTestnet p \<longleftrightarrow> ChainIDWritable (ChainID p) \<and> \<not> IsLocal p"

definition IsReadOnly :: "Profile \<Rightarrow> bool" where
  "IsReadOnly p \<longleftrightarrow> \<not> ChainIDWritable (ChainID p)"

definition Kind :: "Profile \<Rightarrow> string" where
  "Kind p = (if IsLocal p then ''local'' else if IsReadOnly p then ''read-only'' else ''testnet'')"

text \<open>
  \<open>url.Parse\<close> as the scheme, host and host name of an absolute URL, and the address classes
  of \<open>net.ParseIP\<close>: \<open>None\<close> for a string that is no IP, else whether the IP is public.
\<close>

record url_parts =
  u_Scheme :: string
  u_Host :: string
  u_Hostname :: string

type_synonym url_parse = "string \<Rightarrow> url_parts option"

definition isPublicHost :: "(string \<Rightarrow> bool option) \<Rightarrow> string \<Rightarrow> bool" where
  "isPublicHost parseIP host =
     (case parseIP host of Some public \<Rightarrow> public | None \<Rightarrow> Contains host ''.'')"

definition gnowebBase :: "url_parse \<Rightarrow> (string \<Rightarrow> bool option) \<Rightarrow> Profile \<Rightarrow> string" where
  "gnowebBase urlParse parseIP p =
     (if GnowebURL p \<noteq> [] then TrimSuffix (GnowebURL p) ''/''
      else let base = TrimSuffix (Replace1 (RPCURL p) ''://rpc.'' ''://'') '':443''
           in case urlParse base of
                None \<Rightarrow> []
              | Some u \<Rightarrow>
                  if (u_Scheme u \<noteq> ''http'' \<and> u_Scheme u \<noteq> ''https'') \<or> \<not> isPublicHost parseIP (u_Hostname u) then []
                  else TrimSuffix base ''/'')"

definition RealmViewURL :: "url_parse \<Rightarrow> (string \<Rightarrow> bool option) \<Rightarrow> Profile \<Rightarrow> string \<Rightarrow> string" where
  "RealmViewURL urlParse parseIP p pkgPath =
     (let base = gnowebBase urlParse parseIP p
      in if base = [] then [] else base @ ''/'' @ TrimPrefix pkgPath ''gno.land/'')"

subsection \<open>Validation\<close>

definition check_faucet_url :: "url_parse \<Rightarrow> string \<Rightarrow> Profile \<Rightarrow> string \<times> string \<Rightarrow> profile_error option" where
  "check_faucet_url urlParse name p f =
     (case f of (fname, val) \<Rightarrow>
        if val = [] then None
        else if \<not> ChainIDWritable (ChainID p) then Some (FaucetOnReadOnly name fname (ChainID p))
        else case urlParse val of
               None \<Rightarrow> Some (InvalidFaucetURL name fname val)
             | Some u \<Rightarrow>
                 if (u_Scheme u \<noteq> ''http'' \<and> u_Scheme u \<noteq> ''https'') \<or> u_Host u = []
                 then Some (InvalidFaucetURL name fname val) else None)"

fun first_error :: "('a \<Rightarrow> 'e option) \<Rightarrow> 'a list \<Rightarrow> 'e option" where
  "first_error f [] = None"
| "first_error f (x # xs) = (case f x of Some e \<Rightarrow> Some e | None \<Rightarrow> first_error f xs)"

definition validate_profile ::
  "url_parse \<Rightarrow> (string \<Rightarrow> duration option) \<Rightarrow> (string \<Rightarrow> bytes option) \<Rightarrow> string \<Rightarrow> Profile \<Rightarrow> profile_error option" where
  "validate_profile urlParse parseDuration bech32 name p =
     (if RPCURL p = [] then Some (MissingRPCURL name)
      else if \<not> ValidRPCURL (RPCURL p) then Some (InvalidRPCURL name (RPCURL p))
      else if ChainID p = [] then Some (MissingChainID name)
      else if \<not> ChainIDValid (ChainID p) then Some (MalformedChainID name (ChainID p))
      else if DefaultExpiresIn p \<noteq> [] \<and> parseDuration (DefaultExpiresIn p) = None
        then Some (InvalidExpiresIn name (DefaultExpiresIn p))
      else if DefaultSpendLimit p \<noteq> [] \<and> \<not> rx_match spendLimitRE (DefaultSpendLimit p)
        then Some (InvalidSpendLimit name (DefaultSpendLimit p))
      else if BypassHardLimits p \<and> MasterAddress p = [] then Some (BypassNeedsMaster name)
      else if MasterAddress p \<noteq> [] \<and> \<not> ChainIDWritable (ChainID p) then Some (MasterOnReadOnly name (ChainID p))
      else if MasterAddress p \<noteq> [] \<and> bech32 (MasterAddress p) = None then Some (InvalidMaster name (MasterAddress p))
      else first_error (check_faucet_url urlParse name p)
             [(''faucet-url'', FaucetURL p), (''faucet-service-url'', FaucetServiceURL p)])"

text \<open>\<open>order\<close> lists the keys of the map in the order the loop visits them.\<close>

definition Validate ::
  "url_parse \<Rightarrow> (string \<Rightarrow> duration option) \<Rightarrow> (string \<Rightarrow> bytes option) \<Rightarrow> string list \<Rightarrow> profile_map \<Rightarrow> profile_error option" where
  "Validate urlParse parseDuration bech32 order ps =
     (if order = [] then Some NoProfiles
      else first_error (\<lambda>name. case ps name of
             None \<Rightarrow> None
           | Some p \<Rightarrow> validate_profile urlParse parseDuration bech32 name p) order)"

subsection \<open>Built-in profiles and layered sources\<close>

definition BuiltinProfiles :: profile_map where
  "BuiltinProfiles = [
     ''local'' \<mapsto> empty_profile\<lparr>RPCURL := ''http://127.0.0.1:26657'', ChainID := ''dev''\<rparr>,
     ''testnet'' \<mapsto> empty_profile\<lparr>RPCURL := ''https://rpc.onyx.testnets.gno.land:443'', ChainID := ''onyx-1'',
        GnowebURL := ''https://onyx.testnets.gno.land'',
        TxIndexerURL := ''https://indexer.onyx.testnets.gno.land/graphql/query'',
        FaucetServiceURL := ''https://faucet-agent.onyx.testnets.gno.land''\<rparr>,
     ''mainnet'' \<mapsto> empty_profile\<lparr>RPCURL := ''https://rpc.gno.land:443'', ChainID := ''gnoland-1'',
        GnowebURL := ''https://gno.land'', TxIndexerURL := ''https://indexer.gno.land/graphql/query''\<rparr>]"

definition Merge :: "profile_map \<Rightarrow> profile_map \<Rightarrow> profile_map" where
  "Merge base overlay = base ++ overlay"

text \<open>\<open>toml\<close> is the TOML decoder: an error, or the decoded table and its undecoded keys.\<close>

definition Load :: "(bytes \<Rightarrow> string + profile_map \<times> string list) \<Rightarrow> bytes \<Rightarrow> profile_error + profile_map" where
  "Load toml r =
     (case toml r of
        Inl e \<Rightarrow> Inl (ConfigParse e)
      | Inr (ps, undec) \<Rightarrow> if undec \<noteq> [] then Inl (ConfigUnknownKeys undec) else Inr ps)"

datatype open_result = FileMissing | FileError string | FileContent bytes

record Sources =
  GlobalPath :: string
  ProjectPath :: string
  ExplicitPath :: string

definition layer ::
  "(string \<Rightarrow> open_result) \<Rightarrow> (bytes \<Rightarrow> string + profile_map \<times> string list) \<Rightarrow> profile_map \<Rightarrow> string \<Rightarrow> bool \<Rightarrow>
   profile_error + profile_map" where
  "layer openf toml merged path required =
     (if path = [] then Inr merged
      else case openf path of
             FileMissing \<Rightarrow> if \<not> required then Inr merged else Inl (ConfigOpen path ''not found'')
           | FileError e \<Rightarrow> Inl (ConfigOpen path e)
           | FileContent b \<Rightarrow>
               (case Load toml b of Inl e \<Rightarrow> Inl e | Inr ps \<Rightarrow> Inr (Merge merged ps)))"

text \<open>\<open>keys\<close> gives the order in which the loop of \<open>Validate\<close> visits the merged map.\<close>

definition LoadResolved ::
  "(string \<Rightarrow> open_result) \<Rightarrow> (bytes \<Rightarrow> string + profile_map \<times> string list) \<Rightarrow> (profile_map \<Rightarrow> string list) \<Rightarrow>
   url_parse \<Rightarrow> (string \<Rightarrow> duration option) \<Rightarrow> (string \<Rightarrow> bytes option) \<Rightarrow> Sources \<Rightarrow> profile_error + profile_map" where
  "LoadResolved openf toml keys urlParse parseDuration bech32 s =
     (case layer openf toml BuiltinProfiles (GlobalPath s) False of
        Inl e \<Rightarrow> Inl e
      | Inr m1 \<Rightarrow>
     (case layer openf toml m1 (ProjectPath s) False of
        Inl e \<Rightarrow> Inl e
      | Inr m2 \<Rightarrow>
     (case layer openf toml m2 (ExplicitPath s) True of
        Inl e \<Rightarrow> Inl e
      | Inr m3 \<Rightarrow>
     (case Validate urlParse parseDuration bech32 (keys m3) m3 of
        Some e \<Rightarrow> Inl e
      | None \<Rightarrow> Inr m3))))"

subsection \<open>Limits of write sessions\<close>

record HardLimits =
  MaxSpendLimit :: string
  MaxExpiresIn :: duration
  MaxAllowPathsCount :: int

definition hardDefaultSpendLimit :: string where "hardDefaultSpendLimit = ''100000000ugnot''"
definition hardDefaultExpiresIn :: duration where "hardDefaultExpiresIn = nhour"

definition EffectiveDefaults ::
  "(string \<Rightarrow> duration option) \<Rightarrow> Profile \<Rightarrow> profile_error + string \<times> duration" where
  "EffectiveDefaults parseDuration p =
     (let spendLimit = (if DefaultSpendLimit p = [] then hardDefaultSpendLimit else DefaultSpendLimit p)
      in if DefaultExpiresIn p = [] then Inr (spendLimit, hardDefaultExpiresIn)
         else case parseDuration (DefaultExpiresIn p) of
                None \<Rightarrow> Inl (InvalidExpiresIn [] (DefaultExpiresIn p))
              | Some d \<Rightarrow> Inr (spendLimit, d))"

definition hardLimits :: "Profile \<Rightarrow> HardLimits" where
  "hardLimits p =
     (if BypassHardLimits p then \<lparr>MaxSpendLimit = [], MaxExpiresIn = 0, MaxAllowPathsCount = 0\<rparr>
      else if IsLocal p then \<lparr>MaxSpendLimit = ''100000000ugnot'', MaxExpiresIn = 30 * 24 * nhour, MaxAllowPathsCount = 20\<rparr>
      else \<lparr>MaxSpendLimit = ''100000000ugnot'', MaxExpiresIn = 7 * 24 * nhour, MaxAllowPathsCount = 10\<rparr>)"

subsection \<open>Lemmas\<close>

lemma first_error_None: "first_error f xs = None \<longleftrightarrow> (\<forall>x \<in> set xs. f x = None)"
  by (induction xs) (auto split: option.splits)

lemma Validate_None:
  "Validate u d b order ps = None \<longleftrightarrow>
     order \<noteq> [] \<and> (\<forall>name \<in> set order. \<forall>p. ps name = Some p \<longrightarrow> validate_profile u d b name p = None)"
  by (auto simp: Validate_def first_error_None split: option.splits)

lemma safe_patterns:
  "rx_safe spendLimitRE" "rx_safe chainIDFormatRE" "rx_safe profileNameRE" "rx_safe rpcURLRE"
  by (simp_all add: rx_defs cls_sub_def shell_safe_cls_def)

lemma nonempty_patterns:
  "\<not> nullable spendLimitRE" "\<not> nullable chainIDFormatRE" "\<not> nullable profileNameRE" "\<not> nullable rpcURLRE"
  by (simp_all add: rx_defs)

lemma SpendLimitValid_word: "SpendLimitValid s \<Longrightarrow> shell_word s"
  unfolding SpendLimitValid_def by (rule rx_match_shell_word [OF _ safe_patterns(1) nonempty_patterns(1)])

lemma ChainIDValid_word: "ChainIDValid s \<Longrightarrow> shell_word s"
  unfolding ChainIDValid_def by (blast intro: rx_match_shell_word [OF _ safe_patterns(2) nonempty_patterns(2)])

lemma ValidProfileName_word: "ValidProfileName s \<Longrightarrow> shell_word s"
  unfolding ValidProfileName_def by (rule rx_match_shell_word [OF _ safe_patterns(3) nonempty_patterns(3)])

lemma ValidRPCURL_word: "ValidRPCURL s \<Longrightarrow> shell_word s"
  unfolding ValidRPCURL_def by (rule rx_match_shell_word [OF _ safe_patterns(4) nonempty_patterns(4)])

text \<open>A word a command line cannot take for a flag.\<close>

lemma cls_first:
  assumes "s \<in> rlang (RSeq (RCls cs) r)"
  shows "s \<noteq> [] \<and> in_cls cs (hd s)"
  using assms by auto

lemma ChainIDValid_no_flag: "ChainIDValid s \<Longrightarrow> hd s \<noteq> CHR ''-''"
  unfolding ChainIDValid_def rx_match_iff chainIDFormatRE_def
  by (auto dest!: cls_first simp: in_cls_def cls_lowdig_def cls_lower_def cls_digit_def)

lemma ValidProfileName_no_flag: "ValidProfileName s \<Longrightarrow> hd s \<noteq> CHR ''-''"
  unfolding ValidProfileName_def rx_match_iff profileNameRE_def
  by (auto dest!: cls_first simp: in_cls_def cls_lowdig_def cls_lower_def cls_digit_def)

text \<open>What a validated profile promises to the components that use it.\<close>

definition profile_ok :: "(string \<Rightarrow> bytes option) \<Rightarrow> Profile \<Rightarrow> bool" where
  "profile_ok bech32 p \<longleftrightarrow>
     shell_word (RPCURL p) \<and> shell_word (ChainID p) \<and> hd (ChainID p) \<noteq> CHR ''-'' \<and> length (ChainID p) \<le> 64 \<and>
     (IsReadOnly p \<longrightarrow> MasterAddress p = [] \<and> FaucetURL p = [] \<and> FaucetServiceURL p = [] \<and> \<not> BypassHardLimits p) \<and>
     (MasterAddress p \<noteq> [] \<longrightarrow> bech32 (MasterAddress p) \<noteq> None) \<and>
     (BypassHardLimits p \<longrightarrow> MasterAddress p \<noteq> [])"

lemma validate_profile_ok:
  assumes "validate_profile u d b name p = None"
  shows "profile_ok b p"
proof -
  note v = assms [unfolded validate_profile_def]
  have "ValidRPCURL (RPCURL p)" "ChainIDValid (ChainID p)" using v by (auto split: if_splits)
  moreover have "length (ChainID p) \<le> 64" using calculation by (simp add: ChainIDValid_def)
  moreover have "MasterAddress p = [] \<and> FaucetURL p = [] \<and> FaucetServiceURL p = []" if "IsReadOnly p"
    using v that by (auto simp: IsReadOnly_def check_faucet_url_def split: if_splits option.splits)
  moreover have "MasterAddress p \<noteq> [] \<longrightarrow> b (MasterAddress p) \<noteq> None"
    "BypassHardLimits p \<longrightarrow> MasterAddress p \<noteq> []"
    using v by (auto split: if_splits)
  ultimately show ?thesis
    by (auto simp: profile_ok_def ValidRPCURL_word ChainIDValid_word ChainIDValid_no_flag)
qed

lemma validate_profile_defaults:
  assumes "validate_profile u d b name p = None"
  shows "\<exists>sl ex. EffectiveDefaults d p = Inr (sl, ex) \<and> SpendLimitValid sl"
proof -
  have "rx_match spendLimitRE hardDefaultSpendLimit" by (simp add: hardDefaultSpendLimit_def) code_simp
  moreover have "DefaultSpendLimit p \<noteq> [] \<longrightarrow> rx_match spendLimitRE (DefaultSpendLimit p)"
    "DefaultExpiresIn p \<noteq> [] \<longrightarrow> d (DefaultExpiresIn p) \<noteq> None"
    using assms by (auto simp: validate_profile_def split: if_splits)
  ultimately show ?thesis by (auto simp: EffectiveDefaults_def SpendLimitValid_def Let_def)
qed

text \<open>What one configuration file contributes, when it could be read.\<close>

definition file_profiles :: "(string \<Rightarrow> open_result) \<Rightarrow> (bytes \<Rightarrow> string + profile_map \<times> string list) \<Rightarrow> string \<Rightarrow> profile_map" where
  "file_profiles openf toml path =
     (if path = [] then Map.empty
      else case openf path of
             FileContent b \<Rightarrow> (case toml b of Inr (ps, _) \<Rightarrow> ps | Inl _ \<Rightarrow> Map.empty)
           | _ \<Rightarrow> Map.empty)"

lemma layer_lookup:
  assumes "layer openf toml m path req = Inr m'"
  shows "m' = m ++ file_profiles openf toml path"
    and "req \<Longrightarrow> path = [] \<or> (\<exists>b. openf path = FileContent b)"
    and "openf path = FileContent b \<Longrightarrow> path = [] \<or> (\<exists>ps. toml b = Inr (ps, []))"
  using assms
  by (auto simp: layer_def Load_def Merge_def file_profiles_def split: if_splits open_result.splits sum.splits prod.splits)

lemma not_isl_Inr: "\<not> isl r \<Longrightarrow> (\<And>m. r = Inr m \<Longrightarrow> P) \<Longrightarrow> P"
  by (cases r) auto

subsection \<open>Properties\<close>

text \<open>
  A configuration that passes validation is safe to interpolate. Whatever order the map is
  visited in, every profile of a validated configuration has an RPC URL and a chain-id made of
  shell-safe bytes, the chain-id cannot be read as a flag, a read-only chain has no
  master address, no faucet and no bypass, a master address parses, and the scope defaults
  resolve to a well-formed spend limit.
\<close>

theorem Validate_safe:
  assumes "Validate urlParse parseDuration bech32 order ps = None" "set order = dom ps" "ps name = Some p"
  shows "profile_ok bech32 p \<and> (\<forall>c \<in> set (RPCURL p @ ChainID p). \<not> shell_meta c) \<and>
    (\<exists>sl ex. EffectiveDefaults parseDuration p = Inr (sl, ex) \<and> SpendLimitValid sl)"
proof -
  have v: "validate_profile urlParse parseDuration bech32 name p = None"
    using assms by (auto simp: Validate_None dom_def)
  note ok = validate_profile_ok [OF v]
  then have "\<forall>c \<in> set (RPCURL p @ ChainID p). \<not> shell_meta c"
    by (auto simp: profile_ok_def dest: shell_word_no_meta)
  with ok validate_profile_defaults [OF v] show ?thesis by blast
qed

theorem Validate_safe_witness:
  "profile_ok Some (empty_profile\<lparr>RPCURL := ''http://a.b:1'', ChainID := ''dev''\<rparr>)"
proof -
  let ?p = "empty_profile\<lparr>RPCURL := ''http://a.b:1'', ChainID := ''dev''\<rparr>"
  have "Validate (\<lambda>u. None) (\<lambda>s. None) Some [''x''] [''x'' \<mapsto> ?p] = None" by code_simp
  from Validate_safe [OF this, of "''x''"] show ?thesis by simp
qed

text \<open>
  C28. Configuration layering. When loading succeeds, every name resolves to the explicit file's
  profile if that file has one, else the project file's, else the global file's, else the
  built-in one (whole profiles, no field mixing); a configured explicit file was present; and
  the merged map passed validation.
\<close>

theorem LoadResolved_precedence:
  assumes "LoadResolved openf toml keys urlParse parseDuration bech32 s = Inr m"
  shows "(\<forall>name. m name =
        (case file_profiles openf toml (ExplicitPath s) name of Some p \<Rightarrow> Some p | None \<Rightarrow>
         case file_profiles openf toml (ProjectPath s) name of Some p \<Rightarrow> Some p | None \<Rightarrow>
         case file_profiles openf toml (GlobalPath s) name of Some p \<Rightarrow> Some p | None \<Rightarrow> BuiltinProfiles name)) \<and>
      (ExplicitPath s = [] \<or> (\<exists>b ps. openf (ExplicitPath s) = FileContent b \<and> toml b = Inr (ps, []))) \<and>
      Validate urlParse parseDuration bech32 (keys m) m = None"
proof -
  obtain m1 m2 where l: "layer openf toml BuiltinProfiles (GlobalPath s) False = Inr m1"
      "layer openf toml m1 (ProjectPath s) False = Inr m2" "layer openf toml m2 (ExplicitPath s) True = Inr m"
    and v: "Validate urlParse parseDuration bech32 (keys m) m = None"
    using assms by (auto simp: LoadResolved_def split: sum.splits option.splits)
  note m = layer_lookup(1) [OF l(3)] layer_lookup(1) [OF l(2)] layer_lookup(1) [OF l(1)]
  have "ExplicitPath s = [] \<or> (\<exists>b ps. openf (ExplicitPath s) = FileContent b \<and> toml b = Inr (ps, []))"
    using layer_lookup(2,3) [OF l(3)] by blast
  with v show ?thesis by (simp add: m map_add_def split: option.splits)
qed

definition demo_toml :: "bytes \<Rightarrow> string + profile_map \<times> string list" where
  "demo_toml b = Inr ([''local'' \<mapsto> empty_profile\<lparr>RPCURL := ''http://'' @ b, ChainID := ''dev''\<rparr>], [])"

definition demo_files :: "string \<Rightarrow> open_result" where
  "demo_files f = (if f = ''p'' then FileContent ''h'' else FileMissing)"

theorem LoadResolved_precedence_witness:
  "\<exists>m. LoadResolved demo_files demo_toml (\<lambda>m. [''local'', ''testnet'', ''mainnet''])
       (\<lambda>u. Some \<lparr>u_Scheme = ''https'', u_Host = ''h'', u_Hostname = ''h''\<rparr>) (\<lambda>s. None) Some
       \<lparr>GlobalPath = ''g'', ProjectPath = ''p'', ExplicitPath = []\<rparr> = Inr m \<and>
     map_option RPCURL (m ''local'') = Some ''http://h'' \<and> m ''mainnet'' = BuiltinProfiles ''mainnet''"
proof -
  let ?s = "\<lparr>GlobalPath = ''g'', ProjectPath = ''p'', ExplicitPath = []\<rparr>"
  let ?r = "LoadResolved demo_files demo_toml (\<lambda>m. [''local'', ''testnet'', ''mainnet''])
       (\<lambda>u. Some \<lparr>u_Scheme = ''https'', u_Host = ''h'', u_Hostname = ''h''\<rparr>) (\<lambda>s. None) Some ?s"
  have "\<not> isl ?r" by code_simp
  then obtain m where r: "?r = Inr m" by (rule not_isl_Inr)
  have "m name = (case file_profiles demo_files demo_toml ''p'' name of Some p \<Rightarrow> Some p | None \<Rightarrow> BuiltinProfiles name)" for name
    using LoadResolved_precedence [OF r, THEN conjunct1, rule_format, of name]
    by (simp add: file_profiles_def demo_files_def split: option.splits)
  with r show ?thesis by (simp add: file_profiles_def demo_files_def demo_toml_def)
qed

end
