(* ===== verification/Untrusted.thy ===== *)
theory Untrusted
  imports Go_Prelude
begin

section \<open>The untrusted-content envelope and the output budget: internal/untrusted, internal/budget\<close>

text \<open>
  Chain bytes reach a language model only inside an envelope. \<open>Neutralize\<close> escapes every
  envelope tag of the content, \<open>Wrap\<close> adds the envelope, \<open>WrappedAt\<close> bounds the size. The
  pattern \<open>(?i)<(\s*/?\s*untrusted_content)\<close> is the deterministic recogniser \<open>env_match\<close>,
  which returns the length of the match at the start of a string; case folding takes the
  long s U+017F (bytes C5 BF) for an \<open>s\<close>, as package regexp does. \<open>quote\<close> stands for the verb
  \<open>%q\<close>.
\<close>

definition closeTag :: string where "closeTag = ''</untrusted_content>''"
definition env_name :: string where "env_name = ''untrusted_content''"

definition rx_space :: "char \<Rightarrow> bool" where
  "rx_space c \<longleftrightarrow> c \<in> {CHR 0x09, CHR 0x0A, CHR 0x0C, CHR 0x0D, CHR '' ''}"

definition lower_ascii :: "char \<Rightarrow> char" where
  "lower_ascii c = (let n = (of_char c :: nat) in if 65 \<le> n \<and> n \<le> 90 then char_of (n + 32) else c)"

fun ci_lit :: "string \<Rightarrow> string \<Rightarrow> nat option" where
  "ci_lit [] s = Some 0"
| "ci_lit (p # ps) [] = None"
| "ci_lit (p # ps) (c # s) =
     (if lower_ascii c = p then map_option Suc (ci_lit ps s)
      else if p = CHR ''s'' \<and> c = CHR 0xC5 then
        (case s of [] \<Rightarrow> None
         | d # s' \<Rightarrow> if d = CHR 0xBF then map_option (\<lambda>n. Suc (Suc n)) (ci_lit ps s') else None)
      else None)"

text \<open>The part after \<open><\<close>; the flag says that the optional slash has been consumed.\<close>

fun env_tail :: "bool \<Rightarrow> string \<Rightarrow> nat option" where
  "env_tail slash [] = None"
| "env_tail slash (c # s) =
     (if rx_space c then map_option Suc (env_tail slash s)
      else if \<not> slash \<and> c = CHR ''/'' then map_option Suc (env_tail True s)
      else ci_lit env_name (c # s))"

fun env_match :: "string \<Rightarrow> nat option" where
  "env_match [] = None"
| "env_match (c # s) = (if c = CHR ''<'' then map_option Suc (env_tail False s) else None)"

function Neutralize :: "string \<Rightarrow> string" where
  "Neutralize [] = []"
| "Neutralize (c # s) =
     (case env_match (c # s) of
        None \<Rightarrow> c # Neutralize s
      | Some n \<Rightarrow> ''&lt;'' @ take (n - 1) s @ Neutralize (drop (n - 1) s))"
  by pat_completeness auto
termination by (relation "measure length") auto

definition Wrap :: "(string \<Rightarrow> string) \<Rightarrow> string \<Rightarrow> string \<Rightarrow> string \<Rightarrow> string" where
  "Wrap quote body kind source =
     ''<untrusted_content kind='' @ quote kind @ '' source='' @ quote source @ ''>'' @ nl @
     Neutralize body @ nl @ closeTag"

subsection \<open>Budget\<close>

definition DefaultBudget :: int where "DefaultBudget = 4 * 1024"
definition ExplicitBudget :: int where "ExplicitBudget = 64 * 1024"

record budget_result =
  r_Summary :: string
  r_GnowebURL :: string
  r_Truncated :: bool
  r_Size :: int
  r_Full :: string

definition Apply :: "string \<Rightarrow> string \<Rightarrow> int \<Rightarrow> budget_result" where
  "Apply full gnowebURL limit =
     (if int (length full) \<le> limit then
        \<lparr>r_Summary = [], r_GnowebURL = gnowebURL, r_Truncated = False, r_Size = int (length full), r_Full = full\<rparr>
      else
        \<lparr>r_Summary = (if gnowebURL = []
            then show_nat (length full) @ '' bytes; preview omitted. Request a smaller slice (a specific file, symbol, or path).''
            else show_nat (length full) @ '' bytes; preview omitted. Request a slice (file/symbol/path), or view at '' @ gnowebURL),
         r_GnowebURL = gnowebURL, r_Truncated = True, r_Size = int (length full), r_Full = []\<rparr>)"

definition WrappedAt :: "(string \<Rightarrow> string) \<Rightarrow> string \<Rightarrow> string \<Rightarrow> string \<Rightarrow> string \<Rightarrow> int \<Rightarrow> string \<times> bool" where
  "WrappedAt quote full gnowebURL kind source limit =
     (let r = Apply full gnowebURL limit
      in if r_Truncated r then (r_Summary r, True) else (Wrap quote (r_Full r) kind source, False))"

definition Wrapped :: "(string \<Rightarrow> string) \<Rightarrow> string \<Rightarrow> string \<Rightarrow> string \<Rightarrow> string \<Rightarrow> string \<times> bool" where
  "Wrapped quote full gnowebURL kind source = WrappedAt quote full gnowebURL kind source DefaultBudget"

subsection \<open>Lemmas\<close>

fun env_free :: "string \<Rightarrow> bool" where
  "env_free [] = True"
| "env_free (c # s) = (env_match (c # s) = None \<and> env_free s)"

lemma env_free_drop: "env_free s \<longleftrightarrow> (\<forall>i. env_match (drop i s) = None)"
proof (induction s)
  case (Cons c s)
  have "(\<forall>i. env_match (drop i (c # s)) = None) \<longleftrightarrow> env_match (c # s) = None \<and> (\<forall>i. env_match (drop i s) = None)"
    by (metis drop0 drop_Suc_Cons not0_implies_Suc)
  with Cons show ?case by simp
qed simp

lemma lower_ascii_plain: "lower_ascii c = p \<Longrightarrow> p \<noteq> CHR ''<'' \<Longrightarrow> p \<noteq> CHR ''&'' \<Longrightarrow> c \<noteq> CHR ''<'' \<and> c \<noteq> CHR ''&''"
  by (auto simp: lower_ascii_def Let_def)

text \<open>A literal match reads its prefix only, and that prefix holds neither \<open><\<close> nor \<open>&\<close>.\<close>

lemma ci_lit_prefix:
  "ci_lit ps s = Some n \<Longrightarrow> CHR ''<'' \<notin> set ps \<Longrightarrow> CHR ''&'' \<notin> set ps \<Longrightarrow>
   n \<le> length s \<and> CHR ''<'' \<notin> set (take n s) \<and> CHR ''&'' \<notin> set (take n s) \<and>
   (\<forall>t. take n t = take n s \<longrightarrow> ci_lit ps t = Some n)"
proof (induction ps s arbitrary: n rule: ci_lit.induct)
  case (3 p ps c s)
  show ?case
  proof (cases "lower_ascii c = p")
    case True
    then obtain m where m: "n = Suc m" "ci_lit ps s = Some m" using "3.prems" by auto
    have ok: "c \<noteq> CHR ''<''" "c \<noteq> CHR ''&''" using True lower_ascii_plain "3.prems" by (metis list.set_intros(1))+
    have plain: "CHR ''<'' \<notin> set ps" "CHR ''&'' \<notin> set ps" using "3.prems" by simp_all
    note ih = "3.IH"(1) [OF True m(2) plain]
    have "ci_lit (p # ps) t = Some n" if t: "take n t = take n (c # s)" for t
    proof -
      obtain t' where "t = c # t'" "take m t' = take m s" using t m(1) by (cases t) auto
      with ih True m(1) show ?thesis by simp
    qed
    with ih m(1) ok show ?thesis by simp
  next
    case False
    with "3.prems" obtain s' m where m: "p = CHR ''s''" "c = CHR 0xC5" "s = CHR 0xBF # s'" "n = Suc (Suc m)" "ci_lit ps s' = Some m"
      by (auto split: if_splits list.splits)
    note ih = "3.IH"(2) [OF False _ m(3)]
    have ih': "m \<le> length s' \<and> CHR ''<'' \<notin> set (take m s') \<and> CHR ''&'' \<notin> set (take m s') \<and>
        (\<forall>t. take m t = take m s' \<longrightarrow> ci_lit ps t = Some m)"
      using ih m "3.prems" by auto
    have "ci_lit (p # ps) t = Some n" if t: "take n t = take n (c # s)" for t
    proof -
      obtain t' where "t = CHR 0xC5 # CHR 0xBF # t'" "take m t' = take m s'"
        using t m by (cases t; cases "tl t") auto
      with ih' m False show ?thesis by auto
    qed
    with m ih' show ?thesis by simp
  qed
qed auto

lemma env_name_plain: "CHR ''<'' \<notin> set env_name" "CHR ''&'' \<notin> set env_name"
  by (simp_all add: env_name_def)

lemma env_tail_prefix:
  "env_tail b s = Some n \<Longrightarrow>
   n \<le> length s \<and> CHR ''<'' \<notin> set (take n s) \<and> CHR ''&'' \<notin> set (take n s) \<and>
   (\<forall>t. take n t = take n s \<longrightarrow> env_tail b t = Some n)"
proof (induction b s arbitrary: n rule: env_tail.induct)
  case (2 b c s)
  consider (space) "rx_space c" | (slash) "\<not> rx_space c" "\<not> b" "c = CHR ''/''"
    | (lit) "\<not> rx_space c" "b \<or> c \<noteq> CHR ''/''" by blast
  then show ?case
  proof cases
    case space
    then obtain m where m: "n = Suc m" "env_tail b s = Some m" using "2.prems" by auto
    note ih = "2.IH"(1) [OF space m(2)]
    have "env_tail b t = Some n" if t: "take n t = take n (c # s)" for t
    proof -
      obtain t' where "t = c # t'" "take m t' = take m s" using t m(1) by (cases t) auto
      with ih space m(1) show ?thesis by simp
    qed
    moreover have "c \<noteq> CHR ''<''" "c \<noteq> CHR ''&''" using space by (auto simp: rx_space_def)
    ultimately show ?thesis using ih m(1) by simp
  next
    case slash
    then obtain m where m: "n = Suc m" "env_tail True s = Some m" using "2.prems" by auto
    have "\<not> b \<and> c = CHR ''/''" using slash by simp
    note ih = "2.IH"(2) [OF slash(1) this m(2)]
    have "env_tail b t = Some n" if t: "take n t = take n (c # s)" for t
    proof -
      obtain t' where "t = c # t'" "take m t' = take m s" using t m(1) by (cases t) auto
      with ih slash m(1) show ?thesis by simp
    qed
    with ih m(1) slash show ?thesis by simp
  next
    case lit
    then have l: "ci_lit env_name (c # s) = Some n" using "2.prems" by auto
    then have "n \<noteq> 0" by (auto simp: env_name_def split: if_splits)
    have "env_tail b t = Some n" if t: "take n t = take n (c # s)" for t
    proof -
      obtain t' where "t = c # t'" using t \<open>n \<noteq> 0\<close> by (cases t; cases n) auto
      moreover have "ci_lit env_name t = Some n" using t ci_lit_prefix [OF l env_name_plain] by blast
      ultimately show ?thesis using lit by auto
    qed
    with ci_lit_prefix [OF l env_name_plain] show ?thesis by blast
  qed
qed simp

lemma Neutralize_prefix:
  "n \<le> length (Neutralize s) \<Longrightarrow> CHR ''&'' \<notin> set (take n (Neutralize s)) \<Longrightarrow> take n (Neutralize s) = take n s"
proof (induction s arbitrary: n rule: Neutralize.induct)
  case (2 c s)
  then show ?case
    by (cases n; cases "env_match (c # s)") (auto split: option.splits)
qed simp

lemma env_tail_Neutralize:
  assumes "env_tail b (Neutralize s) = Some n"
  shows "env_tail b s = Some n"
proof -
  note p = env_tail_prefix [OF assms]
  have "take n s = take n (Neutralize s)" using p by (metis Neutralize_prefix)
  with p show ?thesis by blast
qed

lemma env_free_append: "CHR ''<'' \<notin> set xs \<Longrightarrow> env_free (xs @ t) = env_free t"
  by (induction xs) auto

lemma Neutralize_env_free: "env_free (Neutralize s)"
proof (induction s rule: Neutralize.induct)
  case (2 c s)
  show ?case
  proof (cases "env_match (c # s)")
    case None
    have "env_match (c # Neutralize s) = None"
      using None env_tail_Neutralize [of False s] by (auto split: if_splits) (metis not_None_eq)
    with None 2 show ?thesis by simp
  next
    case (Some n)
    then obtain m where m: "n = Suc m" "env_tail False s = Some m" by (auto split: if_splits)
    have "CHR ''<'' \<notin> set (''&lt;'' @ take m s)" using env_tail_prefix [OF m(2)] by simp
    from env_free_append [OF this, of "Neutralize (drop m s)"] 2(2) [OF Some] m Some show ?thesis by simp
  qed
qed simp

lemma Neutralize_id: "env_free s \<Longrightarrow> Neutralize s = s"
  by (induction s) auto

lemma Neutralize_length: "length s \<le> length (Neutralize s)"
proof (induction s rule: Neutralize.induct)
  case (2 c s)
  then show ?case by (auto split: option.splits)
qed simp

subsection \<open>Properties\<close>

text \<open>
  No forged envelope survives. For every content, no position of \<open>Neutralize\<close>'s result starts
  an opening or closing envelope tag, in any case and with any inner whitespace; content that
  has none is returned unchanged, and a second pass changes nothing.
\<close>

theorem Neutralize_no_tag:
  "(\<forall>i. env_match (drop i (Neutralize s)) = None) \<and> Neutralize (Neutralize s) = Neutralize s \<and>
   ((\<forall>i. env_match (drop i s) = None) \<longrightarrow> Neutralize s = s)"
  using Neutralize_env_free [of s] Neutralize_id by (auto simp: env_free_drop [symmetric])

theorem Neutralize_no_tag_witness:
  "Neutralize ''a < b > c'' = ''a < b > c'' \<and> Neutralize ''x< / Untrusted_Content>'' = ''x&lt; / Untrusted_Content>''"
proof
  have "env_free ''a < b > c''" by code_simp
  then show "Neutralize ''a < b > c'' = ''a < b > c''"
    using Neutralize_no_tag [of "''a < b > c''"] by (simp only: env_free_drop) blast
  show "Neutralize ''x< / Untrusted_Content>'' = ''x&lt; / Untrusted_Content>''" by code_simp
qed

text \<open>
  C4. Chain bytes reach the model only inside a sealed envelope, and within the budget. Over the
  limit the result depends on the length of the content alone: not one of its bytes is shown.
  Within it the content stands between the opening line and the closing tag and holds no
  envelope tag of its own.
\<close>

theorem WrappedAt_sealed:
  "(limit < int (length full) \<and> length full' = length full \<longrightarrow>
      WrappedAt quote full url kind source limit = WrappedAt quote full' url kind source limit \<and>
      snd (WrappedAt quote full url kind source limit)) \<and>
   (int (length full) \<le> limit \<longrightarrow>
      (\<exists>body. WrappedAt quote full url kind source limit =
          (''<untrusted_content kind='' @ quote kind @ '' source='' @ quote source @ ''>'' @ nl @ body @ nl @ closeTag, False) \<and>
        (\<forall>i. env_match (drop i body) = None) \<and> (env_free full \<longrightarrow> body = full)))"
proof -
  have "\<forall>i. env_match (drop i (Neutralize full)) = None"
    using Neutralize_env_free [of full] by (simp add: env_free_drop)
  then show ?thesis by (auto simp: WrappedAt_def Apply_def Wrap_def Neutralize_id)
qed

theorem WrappedAt_sealed_witness:
  "WrappedAt (\<lambda>s. s) ''secret'' ''u'' ''k'' ''s'' 3 = WrappedAt (\<lambda>s. s) ''public'' ''u'' ''k'' ''s'' 3"
  using WrappedAt_sealed [of 3 "''secret''" "''public''" "\<lambda>s. s" "''u''" "''k''" "''s''"] by simp

end
