(* ===== verification/Scope.thy ===== *)
theory Scope
  imports Profiles Gas_Price
begin

section \<open>Session scopes and the commands a user pastes: internal/session/scope.go, gnokey.go\<close>

text \<open>
  \<open>ResolveScope\<close> turns what an agent asked for into the constraints of a session, and the
  \<open>FormatGnokey...\<close> functions render the shell commands with which the user authorises or
  revokes it. \<open>isRealm\<close> is \<open>gnolang.IsRealmPath\<close> and \<open>parseDuration\<close> is
  \<open>time.ParseDuration\<close>. \<open>shell_words\<close> reads a command the way a shell would, so that the main
  theorem can say what the pasted text means.
\<close>

record Scope =
  SpendLimit :: string
  SpendPeriod :: duration
  ExpiresIn :: duration
  AllowPaths :: "string list"
  AllowRun :: bool

record ScopeArgs =
  arg_SpendLimit :: string
  arg_ExpiresIn :: string
  arg_AllowPaths :: "string list"
  arg_AllowRun :: bool

datatype scope_error =
    NothingRequested
  | PathEmpty
  | PathIllegal string
  | PathNotRealm string
  | ScopeDefaults profile_error
  | SpendLimitInvalid string
  | ExpiresInInvalid string
  | CoinEmpty
  | CoinNoDenom string
  | CoinMagnitude string
  | CoinDenomMismatch string string
  | SpendLimitNotUgnot string int64
  | SpendLimitBelowFee string int64

datatype scope_warning =
    ClampedSpend string string
  | ClampedExpiry duration duration
  | ClampedPaths int int

definition spendLimitWriteBudget :: int64 where "spendLimitWriteBudget = 10"

definition parseCoins :: "string \<Rightarrow> scope_error + int64 \<times> string" where
  "parseCoins s =
     (if s = [] then Inl CoinEmpty
      else let ds = takeWhile is_digit s; rest = dropWhile is_digit s
           in if rest = [] \<or> ds = [] then Inl (CoinNoDenom s)
              else case ParseInt ds of
                     None \<Rightarrow> Inl (CoinMagnitude s)
                   | Some mag \<Rightarrow> Inr (mag, rest))"

definition clampCoin :: "string \<Rightarrow> string \<Rightarrow> scope_error + string \<times> bool" where
  "clampCoin a cap =
     (case parseCoins a of
        Inl e \<Rightarrow> Inl e
      | Inr (aMag, aDenom) \<Rightarrow>
     (case parseCoins cap of
        Inl e \<Rightarrow> Inl e
      | Inr (cMag, cDenom) \<Rightarrow>
          if aDenom \<noteq> cDenom then Inl (CoinDenomMismatch aDenom cDenom)
          else if aMag > cMag then Inr (cap, True)
          else Inr (a, False)))"

definition allowPathUnsafe :: "string \<Rightarrow> bool" where
  "allowPathUnsafe p \<longleftrightarrow> list_ex (\<lambda>c. \<not> in_cls [(97, 122), (48, 57), (46, 46), (47, 47), (95, 95), (45, 45)] c) p"

definition validateAllowPath :: "(string \<Rightarrow> bool) \<Rightarrow> string \<Rightarrow> scope_error option" where
  "validateAllowPath isRealm p =
     (if p = [] then Some PathEmpty
      else if allowPathUnsafe p then Some (PathIllegal p)
      else if \<not> isRealm p then Some (PathNotRealm p)
      else None)"

definition derivedSpendLimit :: "int64 \<Rightarrow> Profile \<Rightarrow> string" where
  "derivedSpendLimit feeUgnot p =
     (let mag = i64 (feeUgnot * spendLimitWriteBudget);
          mag = (if \<not> BypassHardLimits p then
                   let maxSpend = MaxSpendLimit (hardLimits p)
                   in if maxSpend \<noteq> [] then
                        (case parseCoins maxSpend of
                           Inr (maxMag, maxDenom) \<Rightarrow> if maxDenom = ''ugnot'' \<and> mag > maxMag then maxMag else mag
                         | Inl _ \<Rightarrow> mag)
                      else mag
                 else mag)
      in show_int mag @ ''ugnot'')"

definition spendLimitCoversFee :: "string \<Rightarrow> int64 \<Rightarrow> scope_error option" where
  "spendLimitCoversFee spendLimit feeUgnot =
     (if feeUgnot \<le> 0 then None
      else case parseCoins spendLimit of
             Inl e \<Rightarrow> Some e
           | Inr (mag, denom) \<Rightarrow>
               if denom \<noteq> ''ugnot'' then Some (SpendLimitNotUgnot spendLimit feeUgnot)
               else if mag < feeUgnot then Some (SpendLimitBelowFee spendLimit feeUgnot)
               else None)"

definition WritesAtFee :: "Scope \<Rightarrow> int64 \<Rightarrow> int64 option" where
  "WritesAtFee s feeUgnot =
     (if feeUgnot \<le> 0 then None
      else case parseCoins (SpendLimit s) of
             Inl _ \<Rightarrow> None
           | Inr (mag, denom) \<Rightarrow> if denom \<noteq> ''ugnot'' then None else Some (mag sdiv feeUgnot))"

definition clamp_scope :: "HardLimits \<Rightarrow> Scope \<Rightarrow> scope_error + Scope \<times> scope_warning list" where
  "clamp_scope limits scope =
     (case (if MaxSpendLimit limits \<noteq> [] then
              (case clampCoin (SpendLimit scope) (MaxSpendLimit limits) of
                 Inl e \<Rightarrow> Inl e
               | Inr (clamped, True) \<Rightarrow>
                   Inr (scope\<lparr>SpendLimit := clamped\<rparr>, [ClampedSpend (SpendLimit scope) (MaxSpendLimit limits)])
               | Inr (clamped, False) \<Rightarrow> Inr (scope, []))
            else Inr (scope, [])) of
        Inl e \<Rightarrow> Inl e
      | Inr (sc, w1) \<Rightarrow>
          let (sc, w2) =
                (if MaxExpiresIn limits > 0 \<and> ExpiresIn sc > MaxExpiresIn limits
                 then (sc\<lparr>ExpiresIn := MaxExpiresIn limits, SpendPeriod := MaxExpiresIn limits\<rparr>,
                       [ClampedExpiry (ExpiresIn sc) (MaxExpiresIn limits)])
                 else (sc, []));
              (sc, w3) =
                (if MaxAllowPathsCount limits > 0 \<and> int (length (AllowPaths sc)) > MaxAllowPathsCount limits
                 then (sc\<lparr>AllowPaths := take (nat (MaxAllowPathsCount limits)) (AllowPaths sc)\<rparr>,
                       [ClampedPaths (int (length (AllowPaths sc))) (MaxAllowPathsCount limits)])
                 else (sc, []))
          in Inr (sc, w1 @ w2 @ w3))"

definition ResolveScope ::
  "(string \<Rightarrow> bool) \<Rightarrow> (string \<Rightarrow> duration option) \<Rightarrow> ScopeArgs \<Rightarrow> Profile \<Rightarrow> int64 \<Rightarrow>
   scope_error + Scope \<times> scope_warning list" where
  "ResolveScope isRealm parseDuration args p feeUgnot =
     (if arg_AllowPaths args = [] \<and> \<not> arg_AllowRun args then Inl NothingRequested
      else case first_error (validateAllowPath isRealm) (arg_AllowPaths args) of
        Some e \<Rightarrow> Inl e
      | None \<Rightarrow>
     (case EffectiveDefaults parseDuration p of
        Inl e \<Rightarrow> Inl (ScopeDefaults e)
      | Inr (profileSpendLimit, profileExpiresIn) \<Rightarrow>
          let spendLimit = (if arg_SpendLimit args \<noteq> [] then arg_SpendLimit args
                else if DefaultSpendLimit p = [] \<and> feeUgnot > 0 then derivedSpendLimit feeUgnot p
                else profileSpendLimit)
          in if \<not> SpendLimitValid spendLimit then Inl (SpendLimitInvalid spendLimit)
             else case (if arg_ExpiresIn args \<noteq> [] then parseDuration (arg_ExpiresIn args) else Some profileExpiresIn) of
               None \<Rightarrow> Inl (ExpiresInInvalid (arg_ExpiresIn args))
             | Some expiresIn \<Rightarrow>
                 let scope = \<lparr>SpendLimit = spendLimit, SpendPeriod = expiresIn, ExpiresIn = expiresIn,
                              AllowPaths = arg_AllowPaths args, AllowRun = arg_AllowRun args\<rparr>
                 in if BypassHardLimits p then
                      (case spendLimitCoversFee (SpendLimit scope) feeUgnot of
                         Some e \<Rightarrow> Inl e
                       | None \<Rightarrow> Inr (scope, []))
                    else
                      (case clamp_scope (hardLimits p) scope of
                         Inl e \<Rightarrow> Inl e
                       | Inr (scope, warnings) \<Rightarrow>
                           (case spendLimitCoversFee (SpendLimit scope) feeUgnot of
                              Some e \<Rightarrow> Inl e
                            | None \<Rightarrow> Inr (scope, warnings)))))"

subsection \<open>The gnokey commands\<close>

definition bsnl :: string where "bsnl = [CHR 0x5C, CHR 0x0A]"

text \<open>One rendered line \<open>"  flag value \\n"\<close>.\<close>

definition flag_line :: "string \<Rightarrow> string \<Rightarrow> string" where
  "flag_line flag v = ''  '' @ flag @ '' '' @ v @ '' '' @ bsnl"

definition gnokey_gas_fee :: "int64 \<Rightarrow> string" where
  "gnokey_gas_fee feeUgnot =
     (if feeUgnot > 0 then show_int feeUgnot @ ''ugnot'' else show_int DefaultGasFeeUgnot @ ''ugnot'')"

definition FormatGnokeyCreateCommand :: "Profile \<Rightarrow> string \<Rightarrow> Scope \<Rightarrow> int64 \<Rightarrow> time \<Rightarrow> string" where
  "FormatGnokeyCreateCommand p sessionPubkey scope feeUgnot now =
     ''gnokey maketx session create '' @ bsnl @
     flag_line ''--pubkey'' sessionPubkey @
     concat (map (\<lambda>q. flag_line ''--allow-paths'' (''vm/exec:'' @ q)) (AllowPaths scope)) @
     (if AllowRun scope then flag_line ''--allow-paths'' ''vm/run'' else []) @
     flag_line ''--spend-limit'' (SpendLimit scope) @
     flag_line ''--expires-at'' (show_int (time_unix (time_add now (ExpiresIn scope)))) @
     flag_line ''--gas-fee'' (gnokey_gas_fee feeUgnot) @
     flag_line ''--gas-wanted'' (show_int DefaultGasWanted) @
     flag_line ''--remote'' (RPCURL p) @
     flag_line ''--chainid'' (ChainID p) @
     ''  --broadcast '' @ bsnl @
     ''  <your-master-key-name>''"

definition FormatGnokeyRevokeCommand :: "Profile \<Rightarrow> string \<Rightarrow> int64 \<Rightarrow> string" where
  "FormatGnokeyRevokeCommand p sessionPubkey feeUgnot =
     ''gnokey maketx session revoke '' @ bsnl @
     flag_line ''--pubkey'' sessionPubkey @
     flag_line ''--gas-fee'' (gnokey_gas_fee feeUgnot) @
     flag_line ''--gas-wanted'' (show_int DefaultGasWanted) @
     flag_line ''--remote'' (RPCURL p) @
     flag_line ''--chainid'' (ChainID p) @
     ''  --broadcast '' @ bsnl @
     ''  <your-master-key-name>''"

subsection \<open>How a shell reads a command\<close>

text \<open>
  The words of a simple command: blanks separate, backslash-newline is removed, and any byte
  that is not shell-safe (a quote, an expansion, an operator, a bare newline) gives \<open>None\<close>.
\<close>

fun sh_words :: "string \<Rightarrow> string \<Rightarrow> string list option" where
  "sh_words acc [] = Some (if acc = [] then [] else [acc])"
| "sh_words acc (c # s) =
     (if c = CHR 0x5C then
        (case s of [] \<Rightarrow> None | d # s' \<Rightarrow> if d = CHR 0x0A then sh_words acc s' else None)
      else if c = CHR '' '' then map_option (\<lambda>ws. if acc = [] then ws else acc # ws) (sh_words [] s)
      else if shell_safe c then sh_words (acc @ [c]) s
      else None)"

definition shell_words :: "string \<Rightarrow> string list option" where
  "shell_words s = sh_words [] s"

subsection \<open>Lemmas: reading words back\<close>

lemma shell_safe_not_special: "shell_safe c \<Longrightarrow> c \<noteq> CHR 0x5C \<and> c \<noteq> CHR '' ''"
  by (auto simp: shell_safe_def shell_safe_cls_def in_cls_def)

lemma sh_words_safe: "list_all shell_safe w \<Longrightarrow> sh_words acc (w @ s) = sh_words (acc @ w) s"
  by (induction w arbitrary: acc) (auto dest: shell_safe_not_special)

lemma sh_words_word: "shell_word w \<Longrightarrow> sh_words [] (w @ CHR '' '' # s) = map_option ((#) w) (sh_words [] s)"
  using sh_words_safe [of w "[]" "CHR '' '' # s"] by (auto simp: shell_word_def)

lemma sh_words_blank [simp]: "sh_words [] (CHR '' '' # s) = sh_words [] s"
  by (cases "sh_words [] s") simp_all

lemma sh_words_cont [simp]: "sh_words [] (bsnl @ s) = sh_words [] s"
  by (simp add: bsnl_def)

lemma sh_words_flag_line:
  assumes "shell_word f" "shell_word v"
  shows "sh_words [] (flag_line f v @ s) = map_option (\<lambda>ws. f # v # ws) (sh_words [] s)"
  using sh_words_word [OF assms(1), of "v @ CHR '' '' # bsnl @ s"] sh_words_word [OF assms(2), of "bsnl @ s"]
  by (simp add: flag_line_def option.map_comp comp_def)

lemma sh_words_flag_lines:
  assumes "shell_word f" "\<forall>v \<in> set vs. shell_word v"
  shows "sh_words [] (concat (map (\<lambda>v. flag_line f v) vs) @ s) =
    map_option (\<lambda>ws. concat (map (\<lambda>v. [f, v]) vs) @ ws) (sh_words [] s)"
  using assms(2)
  by (induction vs; cases "sh_words [] s") (simp_all add: sh_words_flag_line [OF assms(1)])

lemma digit_safe: "is_digit c \<Longrightarrow> shell_safe c"
  by (auto simp: is_digit_def shell_safe_def shell_safe_cls_def in_cls_def)

lemma show_nat_safe: "list_all shell_safe (show_nat n)"
  using show_nat_digits [of n] by (auto simp: list_all_iff digit_safe)

lemma show_int_word [simp]: "shell_word (show_int i)"
proof -
  have "shell_safe (CHR ''-'')" by (simp add: shell_safe_def shell_safe_cls_def in_cls_def)
  then show ?thesis using show_nat_safe by (auto simp: show_int_def shell_word_def)
qed

lemma shell_word_append: "shell_word a \<Longrightarrow> list_all shell_safe b \<Longrightarrow> shell_word (a @ b)"
  by (simp add: shell_word_def)

lemma lit_words [simp]:
  "shell_word ''--pubkey''" "shell_word ''--allow-paths''" "shell_word ''vm/run''" "shell_word ''--spend-limit''"
  "shell_word ''--expires-at''" "shell_word ''--gas-fee''" "shell_word ''--gas-wanted''" "shell_word ''--remote''"
  "shell_word ''--chainid''" "shell_word ''--broadcast''" "shell_word ''gnokey''" "shell_word ''maketx''"
  "shell_word ''session''" "shell_word ''create''" "shell_word ''revoke''" "shell_word ''vm/exec:''"
  by (simp_all add: shell_word_def shell_safe_def shell_safe_cls_def in_cls_def)

lemma gnokey_gas_fee_word [simp]: "shell_word (gnokey_gas_fee f)"
  by (auto simp: gnokey_gas_fee_def intro!: shell_word_append)
    (simp_all add: shell_safe_def shell_safe_cls_def in_cls_def)

subsection \<open>Lemmas: scopes\<close>

lemma parseCoins_Inr:
  assumes "parseCoins s = Inr (m, d)"
  shows "s = takeWhile is_digit s @ d \<and> 0 \<le> m \<and> m \<le> MaxInt64 \<and> m = int (digits_val (takeWhile is_digit s))"
  using assms
  by (auto simp: parseCoins_def Let_def ParseInt_def split: if_splits option.splits)

lemma takeWhile_digits: "list_all is_digit ds \<Longrightarrow> d \<noteq> [] \<Longrightarrow> \<not> is_digit (hd d) \<Longrightarrow>
  takeWhile is_digit (ds @ d) = ds \<and> dropWhile is_digit (ds @ d) = d"
  by (induction ds) (cases d; auto)+

lemma parseCoins_render:
  assumes "0 \<le> m" "m \<le> MaxInt64" "d \<noteq> []" "\<not> is_digit (hd d)"
  shows "parseCoins (show_int m @ d) = Inr (m, d)"
proof -
  have "show_int m = show_nat (nat m)" using assms by (simp add: show_int_def)
  moreover have "ParseInt (show_nat (nat m)) = Some m" using assms ParseInt_show_nat [of "nat m"] by simp
  ultimately show ?thesis
    using takeWhile_digits [OF show_nat_digits assms(3,4), of "nat m"] assms
    by (simp add: parseCoins_def Let_def)
qed

lemma parseCoins_cap: "parseCoins ''100000000ugnot'' = Inr (100000000, ''ugnot'')"
  by (simp add: parseCoins_def is_digit_def ParseInt_def digits_val_def digit_val_def MaxInt64_def)

lemma clampCoin_cap:
  assumes "clampCoin a ''100000000ugnot'' = Inr (b, did)"
  shows "\<exists>m mb. parseCoins a = Inr (m, ''ugnot'') \<and> parseCoins b = Inr (mb, ''ugnot'') \<and> mb = min m 100000000 \<and>
    (b = a \<or> b = ''100000000ugnot'') \<and> did = (m > 100000000)"
  using assms parseCoins_cap by (auto simp: clampCoin_def split: sum.splits prod.splits if_splits)

lemma cap_valid: "SpendLimitValid ''100000000ugnot''"
  by code_simp

lemma hardLimits_fields:
  assumes "\<not> BypassHardLimits p"
  shows "MaxSpendLimit (hardLimits p) = ''100000000ugnot''"
    and "0 < MaxExpiresIn (hardLimits p)" "0 < MaxAllowPathsCount (hardLimits p)"
  using assms by (simp_all add: hardLimits_def nhour_def nsecond_def)

lemma clamp_scope_bounds:
  assumes "clamp_scope lim sc = Inr (sc', ws)"
    and lim: "MaxSpendLimit lim = ''100000000ugnot''" "0 < MaxExpiresIn lim" "0 < MaxAllowPathsCount lim"
  shows "\<exists>m mb. parseCoins (SpendLimit sc) = Inr (m, ''ugnot'') \<and> parseCoins (SpendLimit sc') = Inr (mb, ''ugnot'') \<and>
      mb = min m 100000000 \<and> (SpendLimit sc' = SpendLimit sc \<or> SpendLimit sc' = ''100000000ugnot'')"
    and "ExpiresIn sc' = min (ExpiresIn sc) (MaxExpiresIn lim)"
    and "AllowPaths sc' = take (nat (MaxAllowPathsCount lim)) (AllowPaths sc)"
    and "AllowRun sc' = AllowRun sc"
    and "SpendPeriod sc = ExpiresIn sc \<Longrightarrow> SpendPeriod sc' = ExpiresIn sc'"
proof -
  obtain b did where c: "clampCoin (SpendLimit sc) ''100000000ugnot'' = Inr (b, did)"
    using assms by (auto simp: clamp_scope_def split: sum.splits prod.splits)
  have b: "did \<or> b = SpendLimit sc" using c by (auto simp: clampCoin_def split: sum.splits prod.splits if_splits)
  have sl: "SpendLimit sc' = b" "ExpiresIn sc' = min (ExpiresIn sc) (MaxExpiresIn lim)"
      "AllowPaths sc' = take (nat (MaxAllowPathsCount lim)) (AllowPaths sc)" "AllowRun sc' = AllowRun sc"
      "SpendPeriod sc = ExpiresIn sc \<Longrightarrow> SpendPeriod sc' = ExpiresIn sc'"
    using assms(1) lim c b
    by (auto simp: clamp_scope_def Let_def split: bool.splits if_splits)
  from clampCoin_cap [OF c] sl(1)
  show "\<exists>m mb. parseCoins (SpendLimit sc) = Inr (m, ''ugnot'') \<and> parseCoins (SpendLimit sc') = Inr (mb, ''ugnot'') \<and>
      mb = min m 100000000 \<and> (SpendLimit sc' = SpendLimit sc \<or> SpendLimit sc' = ''100000000ugnot'')"
    by auto
  show "ExpiresIn sc' = min (ExpiresIn sc) (MaxExpiresIn lim)"
      "AllowPaths sc' = take (nat (MaxAllowPathsCount lim)) (AllowPaths sc)" "AllowRun sc' = AllowRun sc"
      "SpendPeriod sc = ExpiresIn sc \<Longrightarrow> SpendPeriod sc' = ExpiresIn sc'"
    using sl by auto
qed

lemma validateAllowPath_word: "validateAllowPath isRealm q = None \<Longrightarrow> shell_word q \<and> isRealm q"
  by (auto simp: validateAllowPath_def allowPathUnsafe_def shell_word_def list_all_iff list_ex_iff
      cls_sub_def shell_safe_cls_def intro!: cls_sub_safe split: if_splits)

lemma covers_fee: "spendLimitCoversFee s fee = None \<Longrightarrow> 0 < fee \<Longrightarrow> \<exists>m. parseCoins s = Inr (m, ''ugnot'') \<and> fee \<le> m"
  by (auto simp: spendLimitCoversFee_def split: sum.splits prod.splits if_splits)

text \<open>What every resolved scope satisfies, whatever the agent asked for.\<close>

definition scope_ok :: "(string \<Rightarrow> bool) \<Rightarrow> Profile \<Rightarrow> int64 \<Rightarrow> Scope \<Rightarrow> bool" where
  "scope_ok isRealm p fee sc \<longleftrightarrow>
     SpendLimitValid (SpendLimit sc) \<and> (\<forall>q \<in> set (AllowPaths sc). shell_word q \<and> isRealm q) \<and>
     (AllowPaths sc \<noteq> [] \<or> AllowRun sc) \<and> SpendPeriod sc = ExpiresIn sc \<and>
     (\<not> BypassHardLimits p \<longrightarrow>
        (\<exists>m. parseCoins (SpendLimit sc) = Inr (m, ''ugnot'') \<and> m \<le> 100000000) \<and>
        ExpiresIn sc \<le> (if IsLocal p then 30 else 7) * nday \<and>
        length (AllowPaths sc) \<le> (if IsLocal p then 20 else 10)) \<and>
     (0 < fee \<longrightarrow> (\<exists>m. parseCoins (SpendLimit sc) = Inr (m, ''ugnot'') \<and> fee \<le> m))"

lemma clamp_scope_ok:
  assumes "clamp_scope (hardLimits p) sc = Inr (sc', ws)" "\<not> BypassHardLimits p"
    and "SpendLimitValid (SpendLimit sc)" "\<forall>q \<in> set (AllowPaths sc). shell_word q \<and> isRealm q"
    and "AllowPaths sc \<noteq> [] \<or> AllowRun sc" "SpendPeriod sc = ExpiresIn sc"
    and "spendLimitCoversFee (SpendLimit sc') fee = None"
  shows "scope_ok isRealm p fee sc'"
proof -
  note lim = hardLimits_fields [OF assms(2)]
  note b = clamp_scope_bounds [OF assms(1) lim]
  have paths: "set (AllowPaths sc') \<subseteq> set (AllowPaths sc)" "AllowPaths sc' \<noteq> [] \<or> AllowRun sc'"
    "length (AllowPaths sc') \<le> (if IsLocal p then 20 else 10)"
    using b(3,4) assms(2,5) lim(3) by (auto simp: hardLimits_def dest: in_set_takeD)
  have "SpendLimitValid (SpendLimit sc')" using b(1) assms(3) cap_valid by metis
  moreover have "\<exists>m. parseCoins (SpendLimit sc') = Inr (m, ''ugnot'') \<and> m \<le> 100000000" using b(1) by auto
  moreover have "ExpiresIn sc' \<le> (if IsLocal p then 30 else 7) * nday"
    using b(2) assms(2) by (simp add: hardLimits_def nday_def)
  ultimately show ?thesis
    using paths assms(4) b(5) [OF assms(6)] covers_fee [OF assms(7)] by (auto simp: scope_ok_def)
qed

lemma ResolveScope_ok:
  assumes "ResolveScope isRealm parseDuration args p fee = Inr (sc, ws)"
  shows "scope_ok isRealm p fee sc"
proof -
  obtain sl ex where base: "SpendLimitValid sl" "first_error (validateAllowPath isRealm) (arg_AllowPaths args) = None"
      "arg_AllowPaths args \<noteq> [] \<or> arg_AllowRun args"
    and r: "(if BypassHardLimits p then
         (case spendLimitCoversFee sl fee of Some e \<Rightarrow> Inl e | None \<Rightarrow>
            Inr (\<lparr>SpendLimit = sl, SpendPeriod = ex, ExpiresIn = ex, AllowPaths = arg_AllowPaths args, AllowRun = arg_AllowRun args\<rparr>, []))
       else (case clamp_scope (hardLimits p) \<lparr>SpendLimit = sl, SpendPeriod = ex, ExpiresIn = ex,
            AllowPaths = arg_AllowPaths args, AllowRun = arg_AllowRun args\<rparr> of
          Inl e \<Rightarrow> Inl e
        | Inr (scope, warnings) \<Rightarrow> (case spendLimitCoversFee (SpendLimit scope) fee of Some e \<Rightarrow> Inl e | None \<Rightarrow> Inr (scope, warnings))))
       = Inr (sc, ws)"
    using assms by (simp add: ResolveScope_def Let_def split: if_splits option.splits sum.splits prod.splits)
  have paths: "\<forall>q \<in> set (arg_AllowPaths args). shell_word q \<and> isRealm q"
    using base(2) validateAllowPath_word by (auto simp: first_error_None)
  show ?thesis
  proof (cases "BypassHardLimits p")
    case True
    with r base paths covers_fee [of sl fee] show ?thesis by (auto simp: scope_ok_def split: option.splits)
  next
    case False
    with r clamp_scope_ok [OF _ False] base paths show ?thesis
      by (auto split: option.splits sum.splits prod.splits)
  qed
qed

definition create_argv :: "Profile \<Rightarrow> string \<Rightarrow> Scope \<Rightarrow> int64 \<Rightarrow> time \<Rightarrow> string list" where
  "create_argv p pk sc fee now =
     [''gnokey'', ''maketx'', ''session'', ''create'', ''--pubkey'', pk] @
     concat (map (\<lambda>q. [''--allow-paths'', ''vm/exec:'' @ q]) (AllowPaths sc)) @
     (if AllowRun sc then [''--allow-paths'', ''vm/run''] else []) @
     [''--spend-limit'', SpendLimit sc, ''--expires-at'', show_int (time_unix (time_add now (ExpiresIn sc))),
      ''--gas-fee'', gnokey_gas_fee fee, ''--gas-wanted'', show_int DefaultGasWanted,
      ''--remote'', RPCURL p, ''--chainid'', ChainID p, ''--broadcast'']"

lemma sh_words_head:
  assumes "shell_word v"
  shows "sh_words [] (''gnokey maketx session '' @ v @ CHR '' '' # s) =
    map_option (\<lambda>ws. [''gnokey'', ''maketx'', ''session'', v] @ ws) (sh_words [] s)"
  using sh_words_word [of "''gnokey''" "''maketx session '' @ v @ CHR '' '' # s"]
    sh_words_word [of "''maketx''" "''session '' @ v @ CHR '' '' # s"]
    sh_words_word [of "''session''" "v @ CHR '' '' # s"] sh_words_word [OF assms, of s]
  by (simp add: option.map_comp comp_def)

lemma sh_words_broadcast: "sh_words [] (''  --broadcast '' @ bsnl) = Some [''--broadcast'']"
  using sh_words_word [of "''--broadcast''" bsnl] by (simp add: bsnl_def)

lemma create_argv_words:
  assumes "shell_word pk" "shell_word (SpendLimit sc)" "\<forall>q \<in> set (AllowPaths sc). shell_word q"
    and "shell_word (RPCURL p)" "shell_word (ChainID p)"
    and "FormatGnokeyCreateCommand p pk sc fee now = pre @ ''  <your-master-key-name>''"
  shows "shell_words pre = Some (create_argv p pk sc fee now)"
proof -
  have exec: "shell_word (''vm/exec:'' @ q)" if "q \<in> set (AllowPaths sc)" for q
    using assms(3) that by (intro shell_word_append lit_words) (simp add: shell_word_def)
  have paths: "sh_words [] (concat (map (\<lambda>q. flag_line ''--allow-paths'' (''vm/exec:'' @ q)) (AllowPaths sc)) @ s) =
      map_option (\<lambda>ws. concat (map (\<lambda>q. [''--allow-paths'', ''vm/exec:'' @ q]) (AllowPaths sc)) @ ws) (sh_words [] s)" for s
    using sh_words_flag_lines [of "''--allow-paths''" "map (\<lambda>q. ''vm/exec:'' @ q) (AllowPaths sc)" s] exec
    by (simp add: comp_def)
  have run: "sh_words [] ((if AllowRun sc then flag_line ''--allow-paths'' ''vm/run'' else []) @ s) =
      map_option (\<lambda>ws. (if AllowRun sc then [''--allow-paths'', ''vm/run''] else []) @ ws) (sh_words [] s)" for s
    by (cases "sh_words [] s") (simp_all add: sh_words_flag_line)
  have "pre = ''gnokey maketx session '' @ ''create'' @ CHR '' '' # bsnl @ flag_line ''--pubkey'' pk @
      concat (map (\<lambda>q. flag_line ''--allow-paths'' (''vm/exec:'' @ q)) (AllowPaths sc)) @
      (if AllowRun sc then flag_line ''--allow-paths'' ''vm/run'' else []) @
      flag_line ''--spend-limit'' (SpendLimit sc) @
      flag_line ''--expires-at'' (show_int (time_unix (time_add now (ExpiresIn sc)))) @
      flag_line ''--gas-fee'' (gnokey_gas_fee fee) @ flag_line ''--gas-wanted'' (show_int DefaultGasWanted) @
      flag_line ''--remote'' (RPCURL p) @ flag_line ''--chainid'' (ChainID p) @ ''  --broadcast '' @ bsnl"
  proof -
    have "pre @ ''  <your-master-key-name>'' = (''gnokey maketx session '' @ ''create'' @ CHR '' '' # bsnl @ flag_line ''--pubkey'' pk @
      concat (map (\<lambda>q. flag_line ''--allow-paths'' (''vm/exec:'' @ q)) (AllowPaths sc)) @
      (if AllowRun sc then flag_line ''--allow-paths'' ''vm/run'' else []) @
      flag_line ''--spend-limit'' (SpendLimit sc) @
      flag_line ''--expires-at'' (show_int (time_unix (time_add now (ExpiresIn sc)))) @
      flag_line ''--gas-fee'' (gnokey_gas_fee fee) @ flag_line ''--gas-wanted'' (show_int DefaultGasWanted) @
      flag_line ''--remote'' (RPCURL p) @ flag_line ''--chainid'' (ChainID p) @ ''  --broadcast '' @ bsnl) @ ''  <your-master-key-name>''"
      unfolding assms(6) [symmetric] FormatGnokeyCreateCommand_def by simp
    then show ?thesis by (simp only: append_same_eq)
  qed
  then show ?thesis
    using assms
    by (simp only: shell_words_def create_argv_def sh_words_head sh_words_cont sh_words_flag_line paths run
        sh_words_broadcast lit_words show_int_word gnokey_gas_fee_word) simp
qed

lemma create_command_reads:
  assumes "ResolveScope isRealm parseDuration args p fee = Inr (sc, warnings)" "profile_ok bech32 p" "shell_word pk"
  shows "\<exists>pre. FormatGnokeyCreateCommand p pk sc fee now = pre @ ''  <your-master-key-name>'' \<and>
    shell_words pre = Some (create_argv p pk sc fee now)"
proof -
  obtain pre where pre: "FormatGnokeyCreateCommand p pk sc fee now = pre @ ''  <your-master-key-name>''"
    unfolding FormatGnokeyCreateCommand_def by (simp only: append_assoc [symmetric])
  have "shell_words pre = Some (create_argv p pk sc fee now)"
    using ResolveScope_ok [OF assms(1)] assms(2,3) SpendLimitValid_word
    by (intro create_argv_words [OF _ _ _ _ _ pre]) (auto simp: scope_ok_def profile_ok_def)
  with pre show ?thesis by blast
qed

subsection \<open>Properties\<close>

text \<open>
  C16. The scope policy cannot be talked around. Whatever arguments the agent supplies, a scope
  that resolves asks for something, names only clean realm paths, has a well-formed spend
  limit, expiry equal to its spend period, stays under the profile's hard limits for spend,
  lifetime and number of paths unless the profile bypasses them, and, when the fee is known,
  affords at least one write.
\<close>

theorem ResolveScope_bounds:
  assumes "ResolveScope isRealm parseDuration args p fee = Inr (sc, warnings)"
  shows "scope_ok isRealm p fee sc \<and> (0 < fee \<longrightarrow> (\<exists>n. WritesAtFee sc fee = Some n \<and> 1 \<le> n))"
proof -
  note ok = ResolveScope_ok [OF assms]
  have "\<exists>n. WritesAtFee sc fee = Some n \<and> 1 \<le> n" if f: "0 < fee"
  proof -
    obtain m where m: "parseCoins (SpendLimit sc) = Inr (m, ''ugnot'')" "fee \<le> m"
      using ok f by (auto simp: scope_ok_def)
    have "1 \<le> m div fee" using m(2) f by (simp add: le_div_iff_mult)
    with m f show ?thesis by (simp add: WritesAtFee_def sdiv_nonneg)
  qed
  with ok show ?thesis by blast
qed

theorem ResolveScope_bounds_witness:
  "\<exists>sc. ResolveScope (\<lambda>q. True) (\<lambda>d. Some nhour)
      \<lparr>arg_SpendLimit = ''900000000ugnot'', arg_ExpiresIn = [], arg_AllowPaths = [''gno.land/r/x''], arg_AllowRun = False\<rparr>
      (empty_profile\<lparr>RPCURL := ''http://h'', ChainID := ''dev''\<rparr>) 0 = Inr (sc, [ClampedSpend ''900000000ugnot'' ''100000000ugnot'']) \<and>
    SpendLimit sc = ''100000000ugnot'' \<and> scope_ok (\<lambda>q. True) (empty_profile\<lparr>RPCURL := ''http://h'', ChainID := ''dev''\<rparr>) 0 sc"
proof -
  let ?p = "empty_profile\<lparr>RPCURL := ''http://h'', ChainID := ''dev''\<rparr>"
  let ?a = "\<lparr>arg_SpendLimit = ''900000000ugnot'', arg_ExpiresIn = [], arg_AllowPaths = [''gno.land/r/x''], arg_AllowRun = False\<rparr>"
  have v: "SpendLimitValid ''900000000ugnot''" "validateAllowPath (\<lambda>q. True) ''gno.land/r/x'' = None" by code_simp+
  have c: "parseCoins ''900000000ugnot'' = Inr (900000000, ''ugnot'')"
    by (simp add: parseCoins_def is_digit_def ParseInt_def digits_val_def digit_val_def MaxInt64_def)
  have r: "ResolveScope (\<lambda>q. True) (\<lambda>d. Some nhour) ?a ?p 0 =
      Inr (\<lparr>SpendLimit = ''100000000ugnot'', SpendPeriod = nhour, ExpiresIn = nhour, AllowPaths = [''gno.land/r/x''], AllowRun = False\<rparr>,
        [ClampedSpend ''900000000ugnot'' ''100000000ugnot''])"
    using v c parseCoins_cap
    by (simp add: ResolveScope_def EffectiveDefaults_def hardDefaultExpiresIn_def empty_profile_def hardLimits_def IsLocal_def
        clamp_scope_def clampCoin_def spendLimitCoversFee_def nhour_def nsecond_def)
  from ResolveScope_bounds [OF r] r show ?thesis by auto
qed

text \<open>
  The pasted command means what it says. For every scope that resolved and every validated
  profile, a shell reads the \<open>session create\<close> command, up to the placeholder for the user's key
  name, as exactly the intended argument vector: one word per value, no expansion, no second
  command, whatever the agent put into the scope.
\<close>

theorem create_command_words:
  assumes "ResolveScope isRealm parseDuration args p fee = Inr (sc, warnings)"
    and "profile_ok bech32 p" "shell_word pk"
  shows "\<exists>pre. FormatGnokeyCreateCommand p pk sc fee now = pre @ ''  <your-master-key-name>'' \<and>
    shell_words pre = Some (create_argv p pk sc fee now)"
  by (rule create_command_reads [OF assms])

theorem create_command_words_witness:
  "\<exists>sc pre. FormatGnokeyCreateCommand (empty_profile\<lparr>RPCURL := ''http://h'', ChainID := ''dev''\<rparr>) ''gpub1x'' sc 0 0
      = pre @ ''  <your-master-key-name>'' \<and> AllowRun sc \<and>
    shell_words pre = Some (create_argv (empty_profile\<lparr>RPCURL := ''http://h'', ChainID := ''dev''\<rparr>) ''gpub1x'' sc 0 0)"
proof -
  let ?p = "empty_profile\<lparr>RPCURL := ''http://h'', ChainID := ''dev''\<rparr>"
  let ?a = "\<lparr>arg_SpendLimit = ''5ugnot'', arg_ExpiresIn = [], arg_AllowPaths = [], arg_AllowRun = True\<rparr>"
  have v: "SpendLimitValid ''5ugnot''" by code_simp
  have c: "parseCoins ''5ugnot'' = Inr (5, ''ugnot'')"
    by (simp add: parseCoins_def is_digit_def ParseInt_def digits_val_def digit_val_def MaxInt64_def)
  have r: "ResolveScope (\<lambda>q. True) (\<lambda>d. Some nhour) ?a ?p 0 =
      Inr (\<lparr>SpendLimit = ''5ugnot'', SpendPeriod = nhour, ExpiresIn = nhour, AllowPaths = [], AllowRun = True\<rparr>, [])"
    using v c parseCoins_cap
    by (simp add: ResolveScope_def EffectiveDefaults_def hardDefaultExpiresIn_def empty_profile_def hardLimits_def IsLocal_def
        clamp_scope_def clampCoin_def spendLimitCoversFee_def nhour_def nsecond_def)
  have "validate_profile (\<lambda>u. None) (\<lambda>s. None) Some ''x'' ?p = None" by code_simp
  then have "profile_ok Some ?p" by (rule validate_profile_ok)
  moreover have "shell_word ''gpub1x''" by code_simp
  ultimately show ?thesis using create_command_words [OF r, of Some "''gpub1x''" 0] by force
qed

text \<open>
  Coins round-trip. Rendering an amount and a denomination and parsing it back gives both
  again, for every non-negative int64 amount and every denomination that does not start with a
  digit; and whatever parses is an int64 in range.
\<close>

theorem parseCoins_roundtrip:
  "(0 \<le> m \<and> m \<le> MaxInt64 \<and> d \<noteq> [] \<and> \<not> is_digit (hd d) \<longrightarrow> parseCoins (show_int m @ d) = Inr (m, d)) \<and>
   (parseCoins s = Inr (n, e) \<longrightarrow> 0 \<le> n \<and> n \<le> MaxInt64 \<and> (\<exists>ds. s = ds @ e \<and> int (digits_val ds) = n))"
  using parseCoins_render parseCoins_Inr by blast

theorem parseCoins_roundtrip_witness:
  "parseCoins (show_int 42 @ ''ugnot'') = Inr (42, ''ugnot'')"
  using parseCoins_roundtrip [of 42 "''ugnot''"] by (simp add: MaxInt64_def is_digit_def)

text \<open>
  The derived default affords what it promises. When neither the agent nor the profile names
  a spend limit, the limit derived from the live fee buys ten writes, or as many as the hard cap
  allows.
\<close>

theorem derived_limit_writes:
  assumes "0 < fee" "fee \<le> 100000000" "\<not> BypassHardLimits p" "SpendLimit sc = derivedSpendLimit fee p"
  shows "WritesAtFee sc fee = Some (min 10 (100000000 div fee))"
proof -
  have mul: "i64 (fee * 10) = fee * 10" using assms by (intro i64_small) (auto simp: MaxInt64_def)
  have "derivedSpendLimit fee p = show_int (min (fee * 10) 100000000) @ ''ugnot''"
    using hardLimits_fields [OF assms(3)] assms(3) parseCoins_cap
    by (simp add: derivedSpendLimit_def spendLimitWriteBudget_def mul Let_def min_def)
  moreover have "parseCoins (show_int (min (fee * 10) 100000000) @ ''ugnot'') = Inr (min (fee * 10) 100000000, ''ugnot'')"
    using assms by (intro parseCoins_render) (auto simp: MaxInt64_def is_digit_def)
  moreover have "min (fee * 10) 100000000 div fee = min 10 (100000000 div fee)"
  proof (cases "fee * 10 \<le> 100000000")
    case True
    then have "10 \<le> 100000000 div fee" using le_div_iff_mult [OF assms(1), of 10] by (simp add: mult.commute)
    with True assms show ?thesis by simp
  next
    case False
    then have "\<not> 10 \<le> 100000000 div fee" using le_div_iff_mult [OF assms(1), of 10] by (simp add: mult.commute)
    with False show ?thesis by simp
  qed
  ultimately show ?thesis using assms by (simp add: WritesAtFee_def sdiv_nonneg)
qed

theorem derived_limit_writes_witness:
  "WritesAtFee \<lparr>SpendLimit = derivedSpendLimit 10000 empty_profile, SpendPeriod = 0, ExpiresIn = 0, AllowPaths = [], AllowRun = True\<rparr> 10000 = Some 10"
  using derived_limit_writes [of 10000 empty_profile
      "\<lparr>SpendLimit = derivedSpendLimit 10000 empty_profile, SpendPeriod = 0, ExpiresIn = 0, AllowPaths = [], AllowRun = True\<rparr>"]
  by (simp add: empty_profile_def)

end
