(* ===== verification/Storage.thy ===== *)
theory Storage
  imports Go_Prelude "HOL-Library.AList"
begin

section \<open>Durable writes and secrets at rest: internal/fsutil, internal/secret\<close>

text \<open>
  The file system is a partial map from directories to their entries. A write goes through the
  same system calls as the code, each of which may fail (\<open>faults\<close>), and returns the states the
  disk went through: a crash after any step leaves one of them. \<open>secret\<close> is modelled over an
  abstract AEAD and key derivation.
\<close>

subsection \<open>The file system\<close>

type_synonym fsys = "string \<rightharpoonup> (string \<times> bytes) list"

definition entries :: "fsys \<Rightarrow> string \<Rightarrow> (string \<times> bytes) list" where
  "entries fs d = (case fs d of None \<Rightarrow> [] | Some es \<Rightarrow> es)"

definition fget :: "fsys \<Rightarrow> string \<Rightarrow> string \<Rightarrow> bytes option" where
  "fget fs d n = map_of (entries fs d) n"

definition fput :: "fsys \<Rightarrow> string \<Rightarrow> string \<Rightarrow> bytes \<Rightarrow> fsys" where
  "fput fs d n b = fs(d \<mapsto> AList.update n b (entries fs d))"

definition fdel :: "fsys \<Rightarrow> string \<Rightarrow> string \<Rightarrow> fsys" where
  "fdel fs d n = fs(d \<mapsto> AList.delete n (entries fs d))"

definition MkdirAll :: "fsys \<Rightarrow> string \<Rightarrow> fsys" where
  "MkdirAll fs d = fs(d \<mapsto> entries fs d)"

text \<open>
  Which calls of a write fail; \<open>flt_partial\<close> is how much of the data an unfinished write has put on
  disk, \<open>flt_tmp\<close> the name \<open>CreateTemp\<close> chose.
\<close>

record faults =
  flt_mkdir :: bool
  flt_create :: bool
  flt_chmod :: bool
  flt_write :: bool
  flt_sync :: bool
  flt_close :: bool
  flt_place :: bool
  flt_remove :: bool
  flt_opendir :: bool
  flt_syncdir :: bool
  flt_partial :: nat
  flt_tmp :: string

datatype fs_error = MkdirErr | CreateTempErr | ChmodErr | WriteErr | SyncErr | CloseErr | PlaceErr | ErrExist | SyncDirErr

definition os_Remove :: "faults \<Rightarrow> fsys \<Rightarrow> string \<Rightarrow> string \<Rightarrow> fsys" where
  "os_Remove flt fs d n = (if flt_remove flt then fs else fdel fs d n)"

definition writeTemp :: "faults \<Rightarrow> fsys \<Rightarrow> string \<Rightarrow> bytes \<Rightarrow> fsys list \<times> (fs_error + fsys)" where
  "writeTemp flt fs d data =
     (if flt_mkdir flt then ([fs], Inl MkdirErr)
      else let fs0 = MkdirAll fs d; t = flt_tmp flt
      in if flt_create flt then ([fs, fs0], Inl CreateTempErr)
      else let fs1 = fput fs0 d t []
      in if flt_chmod flt then ([fs, fs0, fs1, os_Remove flt fs1 d t], Inl ChmodErr)
      else let fs2 = fput fs1 d t (take (flt_partial flt) data)
      in if flt_write flt then ([fs, fs0, fs1, fs2, os_Remove flt fs2 d t], Inl WriteErr)
      else let fs3 = fput fs2 d t data
      in if flt_sync flt then ([fs, fs0, fs1, fs2, fs3, os_Remove flt fs3 d t], Inl SyncErr)
      else if flt_close flt then ([fs, fs0, fs1, fs2, fs3, os_Remove flt fs3 d t], Inl CloseErr)
      else ([fs, fs0, fs1, fs2, fs3], Inr fs3))"

definition syncDir :: "faults \<Rightarrow> fs_error option" where
  "syncDir flt = (if flt_opendir flt then None else if flt_syncdir flt then Some SyncDirErr else None)"

text \<open>The states visited, in order, and the error if any. The last state is the one left behind.\<close>

definition WriteFileAtomic :: "faults \<Rightarrow> fsys \<Rightarrow> string \<Rightarrow> string \<Rightarrow> bytes \<Rightarrow> fsys list \<times> fs_error option" where
  "WriteFileAtomic flt fs d n data =
     (case writeTemp flt fs d data of
        (tr, Inl e) \<Rightarrow> (tr, Some e)
      | (tr, Inr fs3) \<Rightarrow>
          let t = flt_tmp flt
          in if flt_place flt then (tr @ [os_Remove flt fs3 d t], Some PlaceErr)
             else let fs4 = fput (fdel fs3 d t) d n data
                  in (tr @ [fs4, fs4], syncDir flt))"

definition WriteFileExclusive :: "faults \<Rightarrow> fsys \<Rightarrow> string \<Rightarrow> string \<Rightarrow> bytes \<Rightarrow> fsys list \<times> fs_error option" where
  "WriteFileExclusive flt fs d n data =
     (case writeTemp flt fs d data of
        (tr, Inl e) \<Rightarrow> (tr, Some e)
      | (tr, Inr fs3) \<Rightarrow>
          let t = flt_tmp flt
          in if fget fs3 d n \<noteq> None then (tr @ [os_Remove flt fs3 d t], Some ErrExist)
             else if flt_place flt then (tr @ [os_Remove flt fs3 d t], Some PlaceErr)
             else let fs4 = fput fs3 d n data
                  in (tr @ [fs4, os_Remove flt fs4 d t], syncDir flt))"

definition no_faults :: "string \<Rightarrow> faults" where
  "no_faults t = \<lparr>flt_mkdir = False, flt_create = False, flt_chmod = False, flt_write = False, flt_sync = False,
     flt_close = False, flt_place = False, flt_remove = False, flt_opendir = False, flt_syncdir = False,
     flt_partial = 0, flt_tmp = t\<rparr>"

subsection \<open>Secrets\<close>

record aead =
  kdf :: "string \<Rightarrow> bytes \<Rightarrow> string + bytes"
  seal :: "bytes \<Rightarrow> bytes \<Rightarrow> bytes \<Rightarrow> bytes"
  unseal :: "bytes \<Rightarrow> bytes \<Rightarrow> bytes \<Rightarrow> bytes option"

text \<open>
  What AES-256-GCM and scrypt document: opening what was sealed with the same key and nonce gives
  the plaintext back, a ciphertext carries a 16-byte tag, and key derivation is a function of
  passphrase and salt that succeeds with the fixed parameters.
\<close>

definition aead_ok :: "aead \<Rightarrow> bool" where
  "aead_ok a \<longleftrightarrow>
     (\<forall>k n p. unseal a k n (seal a k n p) = Some p \<and> length (seal a k n p) = length p + 16) \<and>
     (\<forall>w s. \<exists>k. kdf a w s = Inr k)"

datatype secret_error =
    SecretRandom
  | SecretKdf string
  | SecretEmpty
  | SecretUnknownScheme char
  | ErrPassphraseRequired
  | SecretTooShort
  | SecretDecrypt

definition saltLen :: nat where "saltLen = 16"
definition nonceLen :: nat where "nonceLen = 12"
definition gcmTagLen :: nat where "gcmTagLen = 16"
definition schemePlain :: char where "schemePlain = CHR 0x00"
definition schemeScrypt :: char where "schemeScrypt = CHR 0x01"

text \<open>\<open>salt\<close> and \<open>nonce\<close> are what the random source delivered; \<open>None\<close> is its failure.\<close>

definition Encrypt :: "aead \<Rightarrow> bytes option \<Rightarrow> bytes option \<Rightarrow> bytes \<Rightarrow> string \<Rightarrow> secret_error + bytes" where
  "Encrypt a salt nonce plaintext passphrase =
     (if passphrase = [] then Inr (schemePlain # plaintext)
      else case salt of
        None \<Rightarrow> Inl SecretRandom
      | Some salt \<Rightarrow>
     (case kdf a passphrase salt of
        Inl e \<Rightarrow> Inl (SecretKdf e)
      | Inr key \<Rightarrow>
     (case nonce of
        None \<Rightarrow> Inl SecretRandom
      | Some nonce \<Rightarrow> Inr (schemeScrypt # salt @ nonce @ seal a key nonce plaintext))))"

definition Decrypt :: "aead \<Rightarrow> bytes \<Rightarrow> string \<Rightarrow> secret_error + bytes" where
  "Decrypt a blob passphrase =
     (case blob of
        [] \<Rightarrow> Inl SecretEmpty
      | scheme # body \<Rightarrow>
          if scheme = schemePlain then Inr body
          else if scheme \<noteq> schemeScrypt then Inl (SecretUnknownScheme scheme)
          else if passphrase = [] then Inl ErrPassphraseRequired
          else if length body < saltLen + nonceLen + gcmTagLen then Inl SecretTooShort
          else case kdf a passphrase (take saltLen body) of
                 Inl e \<Rightarrow> Inl (SecretKdf e)
               | Inr key \<Rightarrow>
                   (case unseal a key (take nonceLen (drop saltLen body)) (drop (saltLen + nonceLen) body) of
                      None \<Rightarrow> Inl SecretDecrypt
                    | Some p \<Rightarrow> Inr p))"

subsection \<open>Lemmas: the file system\<close>

lemma entries_upd [simp]: "entries (fs(d \<mapsto> es)) e = (if e = d then es else entries fs e)"
  by (simp add: entries_def)

lemma fget_fput [simp]: "fget (fput fs d n b) e m = (if e = d \<and> m = n then Some b else fget fs e m)"
  by (simp add: fget_def fput_def update_conv')

lemma fget_fdel [simp]: "fget (fdel fs d n) e m = (if e = d \<and> m = n then None else fget fs e m)"
  by (simp add: fget_def fdel_def delete_conv')

lemma fget_MkdirAll [simp]: "fget (MkdirAll fs d) e m = fget fs e m"
  by (simp add: fget_def MkdirAll_def)

lemma fget_os_Remove:
  "fget (os_Remove flt fs d n) e m = (if e = d \<and> m = n \<and> \<not> flt_remove flt then None else fget fs e m)"
  by (simp add: os_Remove_def)

text \<open>Everything but the temporary file is untouched while it is written.\<close>

definition same_but :: "string \<Rightarrow> string set \<Rightarrow> fsys \<Rightarrow> fsys \<Rightarrow> bool" where
  "same_but d ns fs fs' \<longleftrightarrow> (\<forall>e m. \<not> (e = d \<and> m \<in> ns) \<longrightarrow> fget fs' e m = fget fs e m)"

lemma writeTemp_trace:
  assumes "writeTemp flt fs d data = (tr, res)"
  shows "\<forall>s \<in> set tr. same_but d {flt_tmp flt} fs s" and "tr \<noteq> []"
    and "res = Inr fs3 \<Longrightarrow> same_but d {flt_tmp flt} fs fs3 \<and> fget fs3 d (flt_tmp flt) = Some data"
    and "res = Inl e \<Longrightarrow> e \<noteq> ErrExist \<and> e \<noteq> SyncDirErr"
    and "res = Inl e \<Longrightarrow> \<not> flt_remove flt \<Longrightarrow> fget fs d (flt_tmp flt) = None \<Longrightarrow> fget (last tr) d (flt_tmp flt) = None"
  using assms
  by (auto simp: writeTemp_def Let_def same_but_def fget_os_Remove split: if_splits)

lemma same_but_refl [simp]: "same_but d ns fs fs"
  by (simp add: same_but_def)

lemma same_but_weaken: "same_but d {t} fs s \<Longrightarrow> same_but d {t, n} fs s"
  by (auto simp: same_but_def)

subsection \<open>The contract of a durable write\<close>

text \<open>
  What the stores rely on: \<open>wr fs d n b\<close> gives the disk states visited and the error. In every
  state the target holds what it held before or the complete new content, no other file but the
  temporary one differs, and success means the new content is there.
\<close>

locale durable_write =
  fixes wr :: "fsys \<Rightarrow> string \<Rightarrow> string \<Rightarrow> bytes \<Rightarrow> fsys list \<times> fs_error option"
    and tmp :: string
  assumes states: "n \<noteq> tmp \<Longrightarrow> wr fs d n b = (tr, err) \<Longrightarrow> s \<in> set tr \<Longrightarrow>
      same_but d {tmp, n} fs s \<and> (fget s d n = fget fs d n \<or> fget s d n = Some b)"
    and visits: "wr fs d n b = (tr, err) \<Longrightarrow> tr \<noteq> []"
    and success: "n \<noteq> tmp \<Longrightarrow> wr fs d n b = (tr, None) \<Longrightarrow> fget (last tr) d n = Some b"
    and failure: "n \<noteq> tmp \<Longrightarrow> wr fs d n b = (tr, Some e) \<Longrightarrow> e \<noteq> SyncDirErr \<Longrightarrow> fget (last tr) d n = fget fs d n"
begin

lemma last_state:
  assumes "n \<noteq> tmp" "wr fs d n b = (tr, err)"
  shows "same_but d {tmp, n} fs (last tr)"
  using states [OF assms, of "last tr"] visits [OF assms(2)] by simp

lemma others_kept:
  assumes "n \<noteq> tmp" "wr fs d n b = (tr, err)" "m \<noteq> tmp" "m \<noteq> n"
  shows "fget (last tr) e m = fget fs e m"
  using last_state [OF assms(1,2)] assms(3,4) by (simp add: same_but_def)

end

interpretation atomic: durable_write "WriteFileAtomic flt" "flt_tmp flt" for flt
proof
  fix fs d n b tr err s
  assume n: "n \<noteq> flt_tmp flt" and w: "WriteFileAtomic flt fs d n b = (tr, err)" and s: "s \<in> set tr"
  obtain tr0 res where t: "writeTemp flt fs d b = (tr0, res)" by force
  show "same_but d {flt_tmp flt, n} fs s \<and> (fget s d n = fget fs d n \<or> fget s d n = Some b)"
    using n w s t writeTemp_trace(1,3) [OF t]
    by (cases res) (auto simp: WriteFileAtomic_def Let_def same_but_def fget_os_Remove split: if_splits)
next
  fix fs d n b tr err
  assume w: "WriteFileAtomic flt fs d n b = (tr, err)"
  obtain tr0 res where t: "writeTemp flt fs d b = (tr0, res)" by force
  show "tr \<noteq> []" using w t writeTemp_trace(2) [OF t]
    by (cases res) (auto simp: WriteFileAtomic_def Let_def split: if_splits)
next
  fix fs d n b tr
  assume "n \<noteq> flt_tmp flt" "WriteFileAtomic flt fs d n b = (tr, None)"
  then show "fget (last tr) d n = Some b"
    by (auto simp: WriteFileAtomic_def Let_def split: if_splits sum.splits prod.splits)
next
  fix fs d n b tr e
  assume n: "n \<noteq> flt_tmp flt" "WriteFileAtomic flt fs d n b = (tr, Some e)" "e \<noteq> SyncDirErr"
  obtain tr0 res where t: "writeTemp flt fs d b = (tr0, res)" by force
  show "fget (last tr) d n = fget fs d n"
    using n t writeTemp_trace(1-3) [OF t]
    by (cases res) (auto simp: WriteFileAtomic_def Let_def same_but_def fget_os_Remove syncDir_def split: if_splits)
qed

interpretation exclusive: durable_write "WriteFileExclusive flt" "flt_tmp flt" for flt
proof
  fix fs d n b tr err s
  assume n: "n \<noteq> flt_tmp flt" and w: "WriteFileExclusive flt fs d n b = (tr, err)" and s: "s \<in> set tr"
  obtain tr0 res where t: "writeTemp flt fs d b = (tr0, res)" by force
  show "same_but d {flt_tmp flt, n} fs s \<and> (fget s d n = fget fs d n \<or> fget s d n = Some b)"
    using n w s t writeTemp_trace(1,3) [OF t]
    by (cases res) (auto simp: WriteFileExclusive_def Let_def same_but_def fget_os_Remove split: if_splits)
next
  fix fs d n b tr err
  assume w: "WriteFileExclusive flt fs d n b = (tr, err)"
  obtain tr0 res where t: "writeTemp flt fs d b = (tr0, res)" by force
  show "tr \<noteq> []" using w t writeTemp_trace(2) [OF t]
    by (cases res) (auto simp: WriteFileExclusive_def Let_def split: if_splits)
next
  fix fs d n b tr
  assume "n \<noteq> flt_tmp flt" "WriteFileExclusive flt fs d n b = (tr, None)"
  then show "fget (last tr) d n = Some b"
    by (auto simp: WriteFileExclusive_def Let_def fget_os_Remove split: if_splits sum.splits prod.splits)
next
  fix fs d n b tr e
  assume n: "n \<noteq> flt_tmp flt" "WriteFileExclusive flt fs d n b = (tr, Some e)" "e \<noteq> SyncDirErr"
  obtain tr0 res where t: "writeTemp flt fs d b = (tr0, res)" by force
  show "fget (last tr) d n = fget fs d n"
    using n t writeTemp_trace(1-3) [OF t]
    by (cases res) (auto simp: WriteFileExclusive_def Let_def same_but_def fget_os_Remove syncDir_def split: if_splits)
qed

lemma exclusive_existing:
  assumes "n \<noteq> flt_tmp flt" "WriteFileExclusive flt fs d n b = (tr, err)" "fget fs d n = Some old" "s \<in> set tr"
  shows "fget s d n = Some old \<and> err \<noteq> None"
proof -
  obtain tr0 res where t: "writeTemp flt fs d b = (tr0, res)" by force
  show ?thesis using assms t writeTemp_trace(1,3) [OF t]
    by (cases res) (auto simp: WriteFileExclusive_def Let_def same_but_def fget_os_Remove split: if_splits)
qed

lemma write_syncdir_landed:
  "WriteFileExclusive flt fs d n b = (tr, Some SyncDirErr) \<Longrightarrow> n \<noteq> flt_tmp flt \<Longrightarrow> fget (last tr) d n = Some b"
  "WriteFileAtomic flt fs d n b = (tr, Some SyncDirErr) \<Longrightarrow> n \<noteq> flt_tmp flt \<Longrightarrow> fget (last tr) d n = Some b"
proof -
  obtain tr0 res where t: "writeTemp flt fs d b = (tr0, res)" by force
  note e = writeTemp_trace(4) [OF t]
  show "WriteFileExclusive flt fs d n b = (tr, Some SyncDirErr) \<Longrightarrow> n \<noteq> flt_tmp flt \<Longrightarrow> fget (last tr) d n = Some b"
    using t e by (cases res) (auto simp: WriteFileExclusive_def Let_def fget_os_Remove split: if_splits)
  show "WriteFileAtomic flt fs d n b = (tr, Some SyncDirErr) \<Longrightarrow> n \<noteq> flt_tmp flt \<Longrightarrow> fget (last tr) d n = Some b"
    using t e by (cases res) (auto simp: WriteFileAtomic_def Let_def split: if_splits)
qed

lemma Decrypt_Encrypt:
  assumes "aead_ok a" "length salt = saltLen" "length nonce = nonceLen"
  shows "\<exists>blob. Encrypt a (Some salt) (Some nonce) p w = Inr blob \<and> Decrypt a blob w = Inr p"
proof (cases "w = []")
  case True
  then show ?thesis by (simp add: Encrypt_def Decrypt_def)
next
  case False
  obtain k where k: "kdf a w salt = Inr k" using assms(1) unfolding aead_ok_def by blast
  have "schemeScrypt \<noteq> schemePlain" by (simp add: schemeScrypt_def schemePlain_def)
  with False k assms show ?thesis
    by (simp add: Encrypt_def Decrypt_def aead_ok_def gcmTagLen_def)
qed

subsection \<open>Properties\<close>



text \<open>
  A creating write never clobbers. If the target exists, no visited state changes it and an
  error is returned; if the call succeeds, the target did not exist and now holds the data; and an
  error means the target is as it was, except when only the final directory sync failed, in which
  case the file has been created all the same.
\<close>

theorem WriteFileExclusive_create_or_fail:
  assumes "WriteFileExclusive flt fs d n data = (tr, err)" "n \<noteq> flt_tmp flt"
  shows "(\<forall>old. fget fs d n = Some old \<longrightarrow> err \<noteq> None \<and> (\<forall>s \<in> set tr. fget s d n = Some old)) \<and>
    (err = None \<longrightarrow> fget fs d n = None \<and> fget (last tr) d n = Some data) \<and>
    (\<forall>e. err = Some e \<longrightarrow> fget (last tr) d n = (if e = SyncDirErr then Some data else fget fs d n))"
proof (intro conjI allI impI)
  have ne: "last tr \<in> set tr" using exclusive.visits [OF assms(1)] by simp
  show "err \<noteq> None" if "fget fs d n = Some old" for old
    using exclusive_existing [OF assms(2,1) that ne] by simp
  show "\<forall>s \<in> set tr. fget s d n = Some old" if "fget fs d n = Some old" for old
    using exclusive_existing [OF assms(2,1) that] by simp
  show "fget fs d n = None" if "err = None"
    using exclusive_existing [OF assms(2,1) _ ne] that by (cases "fget fs d n") auto
  show "fget (last tr) d n = Some data" if "err = None"
    using exclusive.success assms that by blast
  show "fget (last tr) d n = (if e = SyncDirErr then Some data else fget fs d n)" if "err = Some e" for e
    using write_syncdir_landed(1) exclusive.failure assms that by auto
qed

theorem WriteFileExclusive_create_or_fail_witness:
  "snd (WriteFileExclusive (no_faults ''.tmp-1'') [''d'' \<mapsto> [(''f'', ''old'')]] ''d'' ''f'' ''new'') \<noteq> None"
  using WriteFileExclusive_create_or_fail [of "no_faults ''.tmp-1''" "[''d'' \<mapsto> [(''f'', ''old'')]]" "''d''" "''f''" "''new''",
      OF prod.collapse [symmetric]]
  by (simp add: no_faults_def fget_def entries_def)

text \<open>
  Secrets come back, and mismatches fail loudly. With any salt and nonce of the right size, what
  was encrypted under a passphrase decrypts under it; with no passphrase the plaintext is stored
  under its own tag. A blob encrypted with a passphrase is refused without one rather than
  mis-decoded, and an unknown tag is refused.
\<close>

theorem secret_roundtrip:
  assumes "aead_ok a" "length salt = saltLen" "length nonce = nonceLen"
  shows "\<exists>blob. Encrypt a (Some salt) (Some nonce) p w = Inr blob \<and> Decrypt a blob w = Inr p \<and>
    (w \<noteq> [] \<longrightarrow> Decrypt a blob [] = Inl ErrPassphraseRequired) \<and>
    (\<forall>c rest. c \<noteq> schemePlain \<and> c \<noteq> schemeScrypt \<longrightarrow> Decrypt a (c # rest) w = Inl (SecretUnknownScheme c))"
proof -
  obtain blob where b: "Encrypt a (Some salt) (Some nonce) p w = Inr blob" "Decrypt a blob w = Inr p"
    using Decrypt_Encrypt [OF assms] by blast
  moreover have "Decrypt a blob [] = Inl ErrPassphraseRequired" if "w \<noteq> []"
    using b(1) that by (auto simp: Encrypt_def Decrypt_def schemePlain_def schemeScrypt_def split: sum.splits)
  ultimately show ?thesis by (auto simp: Decrypt_def)
qed

definition demo_aead :: aead where
  "demo_aead = \<lparr>kdf = (\<lambda>w s. Inr w), seal = (\<lambda>k n p. p @ replicate 16 (CHR ''t'')),
     unseal = (\<lambda>k n c. Some (take (length c - 16) c))\<rparr>"

theorem secret_roundtrip_witness:
  "\<exists>blob. Encrypt demo_aead (Some (replicate 16 (CHR ''s''))) (Some (replicate 12 (CHR ''n''))) ''words'' ''pw'' = Inr blob \<and>
     Decrypt demo_aead blob ''pw'' = Inr ''words'' \<and> Decrypt demo_aead blob [] = Inl ErrPassphraseRequired"
  using secret_roundtrip [of demo_aead "replicate 16 (CHR ''s'')" "replicate 12 (CHR ''n'')" "''words''" "''pw''"]
  by (auto simp: aead_ok_def demo_aead_def saltLen_def nonceLen_def)

end
