(* ===== verification/Keystore.thy ===== *)
theory Keystore
  imports Profiles Storage
begin

section \<open>The agent's keys: internal/keystore\<close>

text \<open>
  Named mnemonics per profile, one file each, created with a create-or-fail write, capped in
  number, encrypted when a passphrase is set. The signer derivation of gnoclient is a record of
  functions; the mnemonic a call generates is an argument. Every operation takes the outcome of
  its own system calls (\<open>ks_io\<close>), so a failing disk is part of the model.
\<close>

subsection \<open>State and errors\<close>

record keystore =
  ks_rootDir :: string
  ks_passphrase :: string
  ks_maxKeys :: int

record 'sg signers =
  sg_derive :: "string \<Rightarrow> string \<Rightarrow> string + 'sg"
  sg_address :: "'sg \<Rightarrow> string + string"

datatype ks_error =
    ErrInvalidProfileName string
  | ErrKeyReadOnly string
  | ErrNoAgentKey
  | ErrKeyGenTestnetOnly
  | ErrNoKeyDir
  | ErrInvalidKeyName string
  | ErrKeyExists
  | ErrKeyCapReached
  | KsStat
  | KsReadDir
  | KsRead
  | KsRemove
  | KsDecrypt secret_error
  | KsEncrypt secret_error
  | KsMnemonic
  | KsDerive string
  | KsInfo string
  | KsWrite fs_error

record ks_io =
  io_stat_fails :: bool
  io_readdir_fails :: bool
  io_read_fails :: bool
  io_remove_fails :: bool
  io_faults :: faults

record KeyInfo =
  ki_Name :: string
  ki_Address :: string
  ki_Err :: string

definition Test1Mnemonic :: string where
  "Test1Mnemonic = ''source bonus chronic canvas draft south burst lottery vacant surface solve popular case indicate oppose farm nothing bullet exhibit title speed wink action roast''"

definition DefaultKeyName :: string where "DefaultKeyName = ''default''"
definition keyFileExt :: string where "keyFileExt = ''.key''"

definition keyNameRE :: rx where
  "keyNameRE = RSeq (RCls cls_lowdig) (RUpTo 31 (RCls (cls_lowdig @ cls_under @ cls_dash)))"

subsection \<open>Operations\<close>

definition requireValidProfileName :: "string \<Rightarrow> ks_error option" where
  "requireValidProfileName n = (if \<not> ValidProfileName n then Some (ErrInvalidProfileName n) else None)"

definition resolveKeyName :: "string \<Rightarrow> ks_error + string" where
  "resolveKeyName keyName =
     (let keyName = (if keyName = [] then DefaultKeyName else keyName)
      in if \<not> rx_match keyNameRE keyName then Inl (ErrInvalidKeyName keyName) else Inr keyName)"

definition profileDir :: "keystore \<Rightarrow> string \<Rightarrow> string" where
  "profileDir k profileName = ks_rootDir k @ ''/'' @ profileName"

definition keyFile :: "string \<Rightarrow> string" where
  "keyFile keyName = keyName @ keyFileExt"

definition keyPath :: "keystore \<Rightarrow> string \<Rightarrow> string \<Rightarrow> string" where
  "keyPath k profileName keyName = profileDir k profileName @ ''/'' @ keyFile keyName"

definition keyExists :: "ks_io \<Rightarrow> keystore \<Rightarrow> fsys \<Rightarrow> string \<Rightarrow> string \<Rightarrow> ks_error + bool" where
  "keyExists io k fs profileName keyName =
     (if io_stat_fails io then Inl KsStat
      else Inr (fget fs (profileDir k profileName) (keyFile keyName) \<noteq> None))"

definition key_entries :: "keystore \<Rightarrow> fsys \<Rightarrow> string \<Rightarrow> string list" where
  "key_entries k fs profileName =
     filter (\<lambda>n. HasSuffix n keyFileExt) (map fst (entries fs (profileDir k profileName)))"

definition countKeys :: "ks_io \<Rightarrow> keystore \<Rightarrow> fsys \<Rightarrow> string \<Rightarrow> ks_error + int" where
  "countKeys io k fs profileName =
     (if fs (profileDir k profileName) = None then Inr 0
      else if io_readdir_fails io then Inl KsReadDir
      else Inr (int (length (key_entries k fs profileName))))"

text \<open>\<open>Inl None\<close> is the error \<open>os.ErrNotExist\<close>.\<close>

definition loadMnemonic :: "ks_io \<Rightarrow> aead \<Rightarrow> keystore \<Rightarrow> fsys \<Rightarrow> string \<Rightarrow> string \<Rightarrow> ks_error option + string" where
  "loadMnemonic io a k fs profileName keyName =
     (if ks_rootDir k = [] then Inl (Some ErrNoKeyDir)
      else case fget fs (profileDir k profileName) (keyFile keyName) of
        None \<Rightarrow> Inl None
      | Some raw \<Rightarrow>
          if io_read_fails io then Inl (Some KsRead)
          else case Decrypt a raw (ks_passphrase k) of
                 Inl e \<Rightarrow> Inl (Some (KsDecrypt e))
               | Inr plain \<Rightarrow> Inr plain)"

definition saveMnemonic ::
  "ks_io \<Rightarrow> aead \<Rightarrow> bytes option \<Rightarrow> bytes option \<Rightarrow> keystore \<Rightarrow> fsys \<Rightarrow> string \<Rightarrow> string \<Rightarrow> string \<Rightarrow> fsys \<times> ks_error option" where
  "saveMnemonic io a salt nonce k fs profileName keyName mnemonic =
     (case Encrypt a salt nonce mnemonic (ks_passphrase k) of
        Inl e \<Rightarrow> (fs, Some (KsEncrypt e))
      | Inr enc \<Rightarrow>
          (case WriteFileExclusive (io_faults io) fs (profileDir k profileName) (keyFile keyName) enc of
             (tr, None) \<Rightarrow> (last tr, None)
           | (tr, Some e) \<Rightarrow> (last tr, Some (if e = ErrExist then ErrKeyExists else KsWrite e))))"

definition SignerForProfile ::
  "ks_io \<Rightarrow> aead \<Rightarrow> 'sg signers \<Rightarrow> keystore \<Rightarrow> fsys \<Rightarrow> string \<Rightarrow> string \<Rightarrow> Profile \<Rightarrow> ks_error + 'sg" where
  "SignerForProfile io a g k fs profileName keyName p =
     (case requireValidProfileName profileName of
        Some e \<Rightarrow> Inl e
      | None \<Rightarrow>
          if IsReadOnly p then Inl (ErrKeyReadOnly (ChainID p))
          else if IsLocal p then
            (case sg_derive g Test1Mnemonic (ChainID p) of Inl e \<Rightarrow> Inl (KsDerive e) | Inr s \<Rightarrow> Inr s)
          else case resolveKeyName keyName of
                 Inl e \<Rightarrow> Inl e
               | Inr name \<Rightarrow>
                   (case loadMnemonic io a k fs profileName name of
                      Inl None \<Rightarrow> Inl ErrNoAgentKey
                    | Inl (Some e) \<Rightarrow> Inl e
                    | Inr mnemonic \<Rightarrow>
                        (case sg_derive g mnemonic (ChainID p) of Inl e \<Rightarrow> Inl (KsDerive e) | Inr s \<Rightarrow> Inr s)))"

definition AgentAddress ::
  "ks_io \<Rightarrow> aead \<Rightarrow> 'sg signers \<Rightarrow> keystore \<Rightarrow> fsys \<Rightarrow> string \<Rightarrow> string \<Rightarrow> Profile \<Rightarrow> ks_error + string" where
  "AgentAddress io a g k fs profileName keyName p =
     (case SignerForProfile io a g k fs profileName keyName p of
        Inl e \<Rightarrow> Inl e
      | Inr s \<Rightarrow> (case sg_address g s of Inl e \<Rightarrow> Inl (KsInfo e) | Inr addr \<Rightarrow> Inr addr))"

definition unreadableReason :: "ks_error \<Rightarrow> string" where
  "unreadableReason e =
     (if e = KsRead then ''unreadable (I/O or permission error)''
      else ''could not decrypt (passphrase mismatch or corrupt file)'')"

text \<open>
  The entries of the directory are visited by name, as \<open>os.ReadDir\<close> returns them, and the final sort
  by key name is \<open>sort_by\<close>.
\<close>

definition key_info ::
  "ks_io \<Rightarrow> aead \<Rightarrow> 'sg signers \<Rightarrow> keystore \<Rightarrow> fsys \<Rightarrow> string \<Rightarrow> Profile \<Rightarrow> string \<Rightarrow> KeyInfo" where
  "key_info io a g k fs profileName p entry =
     (let name = TrimSuffix entry keyFileExt
      in case AgentAddress io a g k fs profileName name p of
           Inl e \<Rightarrow> \<lparr>ki_Name = name, ki_Address = [], ki_Err = unreadableReason e\<rparr>
         | Inr addr \<Rightarrow> \<lparr>ki_Name = name, ki_Address = addr, ki_Err = []\<rparr>)"

definition ListKeys ::
  "ks_io \<Rightarrow> aead \<Rightarrow> 'sg signers \<Rightarrow> keystore \<Rightarrow> fsys \<Rightarrow> string \<Rightarrow> Profile \<Rightarrow> ks_error + KeyInfo list" where
  "ListKeys io a g k fs profileName p =
     (case requireValidProfileName profileName of
        Some e \<Rightarrow> Inl e
      | None \<Rightarrow>
          if IsReadOnly p then Inl (ErrKeyReadOnly (ChainID p))
          else if IsLocal p then
            (case AgentAddress io a g k fs profileName DefaultKeyName p of
               Inl e \<Rightarrow> Inl e
             | Inr addr \<Rightarrow> Inr [\<lparr>ki_Name = DefaultKeyName, ki_Address = addr, ki_Err = []\<rparr>])
          else if ks_rootDir k = [] then Inl ErrNoKeyDir
          else if fs (profileDir k profileName) = None then Inr []
          else if io_readdir_fails io then Inl KsReadDir
          else Inr (sort_by ki_Name (map (key_info io a g k fs profileName p) (key_entries k fs profileName))))"

definition GenerateForProfile ::
  "ks_io \<Rightarrow> aead \<Rightarrow> 'sg signers \<Rightarrow> bytes option \<Rightarrow> bytes option \<Rightarrow> string option \<Rightarrow> keystore \<Rightarrow> fsys \<Rightarrow>
   string \<Rightarrow> string \<Rightarrow> Profile \<Rightarrow> fsys \<times> (ks_error + string)" where
  "GenerateForProfile io a g salt nonce fresh k fs profileName keyName p =
     (case requireValidProfileName profileName of
        Some e \<Rightarrow> (fs, Inl e)
      | None \<Rightarrow>
          if IsReadOnly p then (fs, Inl (ErrKeyReadOnly (ChainID p)))
          else if \<not> IsTestnet p then (fs, Inl ErrKeyGenTestnetOnly)
          else if ks_rootDir k = [] then (fs, Inl ErrNoKeyDir)
          else case resolveKeyName keyName of
            Inl e \<Rightarrow> (fs, Inl e)
          | Inr name \<Rightarrow>
         (case keyExists io k fs profileName name of
            Inl e \<Rightarrow> (fs, Inl e)
          | Inr True \<Rightarrow> (fs, Inl ErrKeyExists)
          | Inr False \<Rightarrow>
         (case countKeys io k fs profileName of
            Inl e \<Rightarrow> (fs, Inl e)
          | Inr count \<Rightarrow>
              if ks_maxKeys k > 0 \<and> count \<ge> ks_maxKeys k then (fs, Inl ErrKeyCapReached)
              else case fresh of
                None \<Rightarrow> (fs, Inl KsMnemonic)
              | Some mnemonic \<Rightarrow>
             (case sg_derive g mnemonic (ChainID p) of
                Inl e \<Rightarrow> (fs, Inl (KsDerive e))
              | Inr s \<Rightarrow>
             (case sg_address g s of
                Inl e \<Rightarrow> (fs, Inl (KsInfo e))
              | Inr addr \<Rightarrow>
             (case saveMnemonic io a salt nonce k fs profileName name mnemonic of
                (fs', Some e) \<Rightarrow> (fs', Inl e)
              | (fs', None) \<Rightarrow> (fs', Inr addr)))))))"

definition DeleteForProfile ::
  "ks_io \<Rightarrow> aead \<Rightarrow> 'sg signers \<Rightarrow> keystore \<Rightarrow> fsys \<Rightarrow> string \<Rightarrow> string \<Rightarrow> Profile \<Rightarrow> fsys \<times> (ks_error + string)" where
  "DeleteForProfile io a g k fs profileName keyName p =
     (case requireValidProfileName profileName of
        Some e \<Rightarrow> (fs, Inl e)
      | None \<Rightarrow>
          if \<not> IsTestnet p then (fs, Inl ErrKeyGenTestnetOnly)
          else if ks_rootDir k = [] then (fs, Inl ErrNoKeyDir)
          else case resolveKeyName keyName of
            Inl e \<Rightarrow> (fs, Inl e)
          | Inr name \<Rightarrow>
         (case AgentAddress io a g k fs profileName name p of
            Inl e \<Rightarrow> (fs, Inl e)
          | Inr addr \<Rightarrow>
              if io_remove_fails io then (fs, Inl KsRemove)
              else (fdel fs (profileDir k profileName) (keyFile name), Inr addr)))"

subsection \<open>Lemmas\<close>

definition io_ok :: "string \<Rightarrow> ks_io" where
  "io_ok t = \<lparr>io_stat_fails = False, io_readdir_fails = False, io_read_fails = False, io_remove_fails = False, io_faults = no_faults t\<rparr>"

lemma keyFile_suffix [simp]: "HasSuffix (keyFile n) keyFileExt" "TrimSuffix (keyFile n) keyFileExt = n"
  by (simp_all add: keyFile_def HasSuffix_def TrimSuffix_def)

lemma keyFile_inj [simp]: "keyFile a = keyFile b \<longleftrightarrow> a = b"
  by (simp add: keyFile_def)

lemma tmp_not_key: "\<not> HasSuffix t keyFileExt \<Longrightarrow> keyFile n \<noteq> t"
  by auto

lemma resolveKeyName_default: "resolveKeyName [] = Inr DefaultKeyName"
  by code_simp

lemma resolveKeyName_Inr: "resolveKeyName n = Inr m \<Longrightarrow> rx_match keyNameRE m \<and> m \<noteq> []"
  by (auto simp: resolveKeyName_def Let_def keyNameRE_def split: if_splits)

lemma resolveKeyName_idem: "resolveKeyName n = Inr m \<Longrightarrow> resolveKeyName m = Inr m"
  by (auto simp: resolveKeyName_def Let_def DefaultKeyName_def split: if_splits)

lemma segment_plain:
  "in_cls cls_lowdig c \<or> in_cls (cls_lowdig @ cls_under @ cls_dash) c \<Longrightarrow> c \<noteq> CHR ''/'' \<and> c \<noteq> CHR ''.''"
  by (auto simp: in_cls_def cls_lowdig_def cls_lower_def cls_digit_def cls_under_def cls_dash_def)

lemma ValidProfileName_no_slash:
  assumes "ValidProfileName n"
  shows "CHR ''/'' \<notin> set n \<and> CHR ''.'' \<notin> set n \<and> n \<noteq> []"
proof -
  have "set n \<subseteq> rx_bytes profileNameRE" using assms rx_match_bytes by (simp add: ValidProfileName_def)
  then have "\<forall>c \<in> set n. in_cls cls_lowdig c \<or> in_cls (cls_lowdig @ cls_under @ cls_dash) c"
    by (auto simp: profileNameRE_def)
  moreover have "n \<noteq> []" using ValidProfileName_word [OF assms] by (simp add: shell_word_def)
  ultimately show ?thesis using segment_plain by metis
qed

lemma keyName_no_slash:
  assumes "resolveKeyName n = Inr m"
  shows "CHR ''/'' \<notin> set m \<and> CHR ''.'' \<notin> set m"
proof -
  have "set m \<subseteq> rx_bytes keyNameRE" using resolveKeyName_Inr [OF assms] rx_match_bytes by blast
  then have "\<forall>c \<in> set m. in_cls cls_lowdig c \<or> in_cls (cls_lowdig @ cls_under @ cls_dash) c"
    unfolding keyNameRE_def rx_bytes.simps
    using rx_bytes_derived(3) [of 31 "RCls (cls_lowdig @ cls_under @ cls_dash)"] by auto
  then show ?thesis using segment_plain by metis
qed

subsection \<open>Lemmas: counting keys\<close>

definition kcount :: "fsys \<Rightarrow> string \<Rightarrow> nat" where
  "kcount fs d = length (filter (\<lambda>n. HasSuffix n keyFileExt) (map fst (entries fs d)))"

lemma filter_update:
  "length (filter P (map fst (AList.update n b es))) =
     length (filter P (map fst es)) + (if P n \<and> map_of es n = None then 1 else 0)"
  by (induction es) auto

lemma filter_delete_le: "length (filter P (map fst (AList.delete n es))) \<le> length (filter P (map fst es))"
  by (induction es) (auto simp: AList.delete_eq)

lemma filter_delete_same: "\<not> P n \<Longrightarrow> filter P (map fst (AList.delete n es)) = filter P (map fst es)"
  by (induction es) (auto simp: AList.delete_eq)

lemma kcount_fput [simp]:
  "kcount (fput fs d n b) e = kcount fs e + (if e = d \<and> HasSuffix n keyFileExt \<and> fget fs d n = None then 1 else 0)"
  unfolding kcount_def fput_def fget_def entries_upd by (cases "e = d") (simp_all only: filter_update simp_thms if_True if_False add_0_right)

lemma kcount_fdel_le: "kcount (fdel fs d n) e \<le> kcount fs e"
  unfolding kcount_def fdel_def entries_upd by (cases "e = d") (simp_all only: filter_delete_le simp_thms if_True if_False order_refl)

lemma kcount_fdel_same [simp]: "\<not> HasSuffix n keyFileExt \<Longrightarrow> kcount (fdel fs d n) e = kcount fs e"
  unfolding kcount_def fdel_def entries_upd by (cases "e = d") (simp_all only: filter_delete_same simp_thms if_True if_False)

lemma kcount_MkdirAll [simp]: "kcount (MkdirAll fs d) e = kcount fs e"
  by (simp add: kcount_def MkdirAll_def)

lemma kcount_os_Remove [simp]: "\<not> HasSuffix n keyFileExt \<Longrightarrow> kcount (os_Remove flt fs d n) e = kcount fs e"
  by (simp add: os_Remove_def)

lemma kcount_writeTemp:
  assumes "writeTemp flt fs d data = (tr, res)" "\<not> HasSuffix (flt_tmp flt) keyFileExt"
  shows "kcount (last tr) e = kcount fs e" and "res = Inr fs3 \<Longrightarrow> kcount fs3 e = kcount fs e"
  using assms by (auto simp: writeTemp_def Let_def split: if_splits)

lemma kcount_exclusive:
  assumes "WriteFileExclusive flt fs d n data = (tr, err)" "\<not> HasSuffix (flt_tmp flt) keyFileExt"
  shows "kcount (last tr) e \<le> kcount fs e + (if e = d then 1 else 0)"
proof -
  obtain tr0 res where t: "writeTemp flt fs d data = (tr0, res)" by force
  show ?thesis using assms t kcount_writeTemp [OF t assms(2)]
    by (cases res) (auto simp: WriteFileExclusive_def Let_def split: if_splits)
qed

lemma countKeys_kcount: "countKeys io k fs profileName = Inr c \<Longrightarrow> c = int (kcount fs (profileDir k profileName))"
  by (auto simp: countKeys_def kcount_def key_entries_def entries_def split: if_splits)

text \<open>The one path on which \<open>GenerateForProfile\<close> reaches the disk.\<close>

lemma Generate_cases:
  assumes "GenerateForProfile io a g salt nonce fresh k fs profileName keyName p = (fs', res)"
    and n: "\<not> (fs' = fs \<and> isl res)"
  obtains name mnemonic s addr err where "ValidProfileName profileName" "IsTestnet p" "ks_rootDir k \<noteq> []"
    "resolveKeyName keyName = Inr name" "fget fs (profileDir k profileName) (keyFile name) = None"
    "ks_maxKeys k > 0 \<longrightarrow> int (kcount fs (profileDir k profileName)) < ks_maxKeys k"
    "sg_derive g mnemonic (ChainID p) = Inr s" "sg_address g s = Inr addr"
    "saveMnemonic io a salt nonce k fs profileName name mnemonic = (fs', err)"
    "res = (case err of None \<Rightarrow> Inr addr | Some e \<Rightarrow> Inl e)"
proof -
  note d = assms(1) [unfolded GenerateForProfile_def]
  have v: "ValidProfileName profileName" "IsTestnet p" "ks_rootDir k \<noteq> []" "\<not> IsReadOnly p"
    using d n by (auto simp: requireValidProfileName_def split: if_splits)
  have "fs' = fs \<and> res = Inl e" if "resolveKeyName keyName = Inl e" for e
    using d v that by (simp add: requireValidProfileName_def)
  with n have "\<not> isl (resolveKeyName keyName)" by (metis isl_def)
  then obtain name where r: "resolveKeyName keyName = Inr name" by (rule not_isl_Inr)
  have ex: "keyExists io k fs profileName name = Inr False"
    using d n v r by (auto simp: requireValidProfileName_def split: sum.splits bool.splits)
  obtain c where c: "countKeys io k fs profileName = Inr c"
    using d n v r ex by (cases "countKeys io k fs profileName") (auto simp: requireValidProfileName_def)
  have cap: "\<not> (ks_maxKeys k > 0 \<and> c \<ge> ks_maxKeys k)"
    using d n v r ex c by (auto simp: requireValidProfileName_def split: if_splits)
  obtain mn where m: "fresh = Some mn" using d n v r ex c cap by (cases fresh) (auto simp: requireValidProfileName_def)
  obtain s where s: "sg_derive g mn (ChainID p) = Inr s"
    using d n v r ex c cap m by (cases "sg_derive g mn (ChainID p)") (auto simp: requireValidProfileName_def)
  obtain addr where ad: "sg_address g s = Inr addr"
    using d n v r ex c cap m s by (cases "sg_address g s") (auto simp: requireValidProfileName_def)
  obtain f err where sv: "saveMnemonic io a salt nonce k fs profileName name mn = (f, err)" by force
  have "fs' = f \<and> res = (case err of None \<Rightarrow> Inr addr | Some e \<Rightarrow> Inl e)"
    using d v r ex c cap m s ad sv by (auto simp: requireValidProfileName_def split: option.splits)
  with sv show ?thesis
    using that [OF v(1-3) r _ _ s ad] ex cap countKeys_kcount [OF c] by (auto simp: keyExists_def split: if_splits)
qed

lemma saveMnemonic_cases:
  assumes "saveMnemonic io a salt nonce k fs profileName name mnemonic = (fs', err)"
  shows "fs' = fs \<and> err \<noteq> None \<or>
    (\<exists>enc tr e. Encrypt a salt nonce mnemonic (ks_passphrase k) = Inr enc \<and>
       WriteFileExclusive (io_faults io) fs (profileDir k profileName) (keyFile name) enc = (tr, e) \<and> fs' = last tr \<and>
       err = map_option (\<lambda>e. if e = ErrExist then ErrKeyExists else KsWrite e) e)"
  using assms by (auto simp: saveMnemonic_def split: sum.splits prod.splits option.splits)

lemma Generate_kcount:
  assumes "GenerateForProfile io a g salt nonce fresh k fs profileName keyName p = (fs', res)"
    and "\<not> HasSuffix (flt_tmp (io_faults io)) keyFileExt"
  shows "kcount fs' e = kcount fs e \<or>
    kcount fs' e \<le> kcount fs e + 1 \<and> (ks_maxKeys k > 0 \<longrightarrow> int (kcount fs e) < ks_maxKeys k) \<or>
    kcount fs' e \<le> kcount fs e"
proof (cases "fs' = fs \<and> isl res")
  case False
  obtain name mnemonic err where g: "resolveKeyName keyName = Inr name"
      "ks_maxKeys k > 0 \<longrightarrow> int (kcount fs (profileDir k profileName)) < ks_maxKeys k"
      "saveMnemonic io a salt nonce k fs profileName name mnemonic = (fs', err)"
    by (rule Generate_cases [OF assms(1) False]) blast
  from saveMnemonic_cases [OF g(3)] g(2) show ?thesis
  proof (elim disjE exE conjE)
    fix enc tr e'
    assume w: "WriteFileExclusive (io_faults io) fs (profileDir k profileName) (keyFile name) enc = (tr, e')" "fs' = last tr"
    then have "kcount fs' e \<le> kcount fs e + (if e = profileDir k profileName then 1 else 0)"
      using kcount_exclusive [OF w(1) assms(2), of e] by simp
    with g(2) show ?thesis by (auto split: if_splits)
  qed auto
qed simp

lemma Delete_cases:
  assumes "DeleteForProfile io a g k fs profileName keyName p = (fs', res)"
  shows "fs' = fs \<and> isl res \<or>
    (\<exists>name addr. ValidProfileName profileName \<and> IsTestnet p \<and> resolveKeyName keyName = Inr name \<and>
       AgentAddress io a g k fs profileName name p = Inr addr \<and> res = Inr addr \<and>
       fs' = fdel fs (profileDir k profileName) (keyFile name))"
proof (cases "resolveKeyName keyName")
  case (Inl e)
  then have "fs' = fs \<and> (\<exists>e. res = Inl e)"
    using assms by (simp add: DeleteForProfile_def requireValidProfileName_def split: if_splits) (metis)+
  then show ?thesis by auto
next
  case (Inr name)
  show ?thesis
  proof (cases "AgentAddress io a g k fs profileName name p")
    case (Inl e)
    then have "fs' = fs \<and> (\<exists>e. res = Inl e)"
      using assms Inr by (simp add: DeleteForProfile_def requireValidProfileName_def split: if_splits) (metis)+
    then show ?thesis by auto
  next
    case A: (Inr addr)
    then show ?thesis using assms Inr
      by (auto simp: DeleteForProfile_def requireValidProfileName_def split: option.splits if_splits)
  qed
qed

lemma testnet_kinds: "IsTestnet p \<Longrightarrow> \<not> IsReadOnly p \<and> \<not> IsLocal p"
  by (simp add: IsTestnet_def IsReadOnly_def)

text \<open>A saved mnemonic loads again.\<close>

lemma load_saved:
  assumes "saveMnemonic io a (Some salt) (Some nonce) k fs profileName name mnemonic = (fs', None)"
    and "aead_ok a" "length salt = saltLen" "length nonce = nonceLen" "ks_rootDir k \<noteq> []"
    and "\<not> HasSuffix (flt_tmp (io_faults io)) keyFileExt" "\<not> io_read_fails io'"
  shows "loadMnemonic io' a k fs' profileName name = Inr mnemonic"
proof -
  obtain enc where e: "Encrypt a (Some salt) (Some nonce) mnemonic (ks_passphrase k) = Inr enc"
      "Decrypt a enc (ks_passphrase k) = Inr mnemonic"
    using Decrypt_Encrypt [OF assms(2-4)] by blast
  obtain tr where w: "WriteFileExclusive (io_faults io) fs (profileDir k profileName) (keyFile name) enc = (tr, None)" "fs' = last tr"
    using saveMnemonic_cases [OF assms(1)] e(1) by auto
  have "fget fs' (profileDir k profileName) (keyFile name) = Some enc"
    using exclusive.success [OF tmp_not_key [OF assms(6)] w(1)] w(2) by simp
  with e assms show ?thesis by (simp add: loadMnemonic_def)
qed

subsection \<open>Operation sequences\<close>

datatype ks_op =
    OpGenerate ks_io "bytes option" "bytes option" "string option" string string Profile
  | OpDelete ks_io string string Profile

fun op_io :: "ks_op \<Rightarrow> ks_io" where
  "op_io (OpGenerate io _ _ _ _ _ _) = io"
| "op_io (OpDelete io _ _ _) = io"

fun ks_exec :: "aead \<Rightarrow> 'sg signers \<Rightarrow> keystore \<Rightarrow> ks_op \<Rightarrow> fsys \<Rightarrow> fsys" where
  "ks_exec a g k (OpGenerate io salt nonce fresh pn kn p) fs = fst (GenerateForProfile io a g salt nonce fresh k fs pn kn p)"
| "ks_exec a g k (OpDelete io pn kn p) fs = fst (DeleteForProfile io a g k fs pn kn p)"

lemma ks_exec_cap:
  assumes "\<forall>d. int (kcount fs d) \<le> ks_maxKeys k" "0 < ks_maxKeys k"
    and "\<not> HasSuffix (flt_tmp (io_faults (op_io op))) keyFileExt"
  shows "int (kcount (ks_exec a g k op fs) d) \<le> ks_maxKeys k"
proof (cases op)
  case (OpGenerate io salt nonce fresh pn kn p)
  obtain fs' res where r: "GenerateForProfile io a g salt nonce fresh k fs pn kn p = (fs', res)" by force
  have "int (kcount fs d) \<le> ks_maxKeys k" using assms(1) by blast
  with Generate_kcount [OF r, of d] assms(2,3) OpGenerate have "int (kcount fs' d) \<le> ks_maxKeys k" by auto
  with OpGenerate r show ?thesis by simp
next
  case (OpDelete io pn kn p)
  obtain fs' res where r: "DeleteForProfile io a g k fs pn kn p = (fs', res)" by force
  have "kcount fs' d \<le> kcount fs d" using Delete_cases [OF r] kcount_fdel_le by auto
  with assms(1) show ?thesis using OpDelete r by (auto intro: order_trans [rotated])
qed

lemma ks_run_cap:
  "\<forall>d. int (kcount fs d) \<le> ks_maxKeys k \<Longrightarrow> 0 < ks_maxKeys k \<Longrightarrow>
   \<forall>op \<in> set ops. \<not> HasSuffix (flt_tmp (io_faults (op_io op))) keyFileExt \<Longrightarrow>
   int (kcount (fold (ks_exec a g k) ops fs) d) \<le> ks_maxKeys k"
proof (induction ops arbitrary: fs)
  case (Cons op ops)
  have "\<forall>d. int (kcount (ks_exec a g k op fs) d) \<le> ks_maxKeys k"
    using ks_exec_cap [OF Cons.prems(1,2), of op] Cons.prems(3) by auto
  from Cons.IH [OF this Cons.prems(2)] Cons.prems(3) show ?case by simp
qed simp

subsection \<open>Properties\<close>

definition demo_signers :: "string signers" where
  "demo_signers = \<lparr>sg_derive = (\<lambda>m c. Inr (m @ c)), sg_address = (\<lambda>s. Inr (''g1'' @ s))\<rparr>"

definition demo_ks :: keystore where
  "demo_ks = \<lparr>ks_rootDir = ''/k'', ks_passphrase = ''pw'', ks_maxKeys = 2\<rparr>"

definition demo_testnet :: Profile where
  "demo_testnet = empty_profile\<lparr>ChainID := ''test5''\<rparr>"

text \<open>
  C18. A generated key is the key that signs. When \<open>GenerateForProfile\<close> returns an address, no key of
  that name existed, the profile was a testnet below its cap, every other file is untouched, and
  from then on the profile's signer for that name is the one derived from the new mnemonic: its
  address is the one returned.
\<close>

theorem Generate_then_sign:
  assumes "GenerateForProfile io a g (Some salt) (Some nonce) fresh k fs profileName keyName p = (fs', Inr addr)"
    and "aead_ok a" "length salt = saltLen" "length nonce = nonceLen"
    and "\<not> HasSuffix (flt_tmp (io_faults io)) keyFileExt" "\<not> io_read_fails io'"
  shows "AgentAddress io' a g k fs' profileName keyName p = Inr addr \<and> IsTestnet p \<and>
    (\<exists>name. resolveKeyName keyName = Inr name \<and> fget fs (profileDir k profileName) (keyFile name) = None \<and>
       (\<forall>e m. m \<noteq> flt_tmp (io_faults io) \<and> (e, m) \<noteq> (profileDir k profileName, keyFile name) \<longrightarrow> fget fs' e m = fget fs e m))"
proof -
  obtain name mnemonic s where g: "ValidProfileName profileName" "IsTestnet p" "ks_rootDir k \<noteq> []"
      "resolveKeyName keyName = Inr name" "fget fs (profileDir k profileName) (keyFile name) = None"
      "sg_derive g mnemonic (ChainID p) = Inr s" "sg_address g s = Inr addr"
      "saveMnemonic io a (Some salt) (Some nonce) k fs profileName name mnemonic = (fs', None)"
  proof (rule Generate_cases [OF assms(1)])
    show "\<not> (fs' = fs \<and> isl (Inr addr :: ks_error + string))" by simp
  qed (auto split: option.splits)
  have "loadMnemonic io' a k fs' profileName name = Inr mnemonic"
    using load_saved [OF g(8) assms(2-4) g(3) assms(5,6)] .
  then have "AgentAddress io' a g k fs' profileName keyName p = Inr addr"
    using g testnet_kinds [OF g(2)] by (simp add: AgentAddress_def SignerForProfile_def requireValidProfileName_def)
  moreover have "fget fs' e m = fget fs e m"
    if "m \<noteq> flt_tmp (io_faults io)" "(e, m) \<noteq> (profileDir k profileName, keyFile name)" for e m
    using saveMnemonic_cases [OF g(8)] exclusive.last_state [OF tmp_not_key [OF assms(5)]] that
    by (fastforce simp: same_but_def)
  ultimately show ?thesis using g by blast
qed

theorem Generate_then_sign_witness:
  "\<exists>fs'. GenerateForProfile (io_ok ''.tmp-1'') demo_aead demo_signers (Some (replicate 16 (CHR ''s''))) (Some (replicate 12 (CHR ''n'')))
      (Some ''words'') demo_ks Map.empty ''net'' [] demo_testnet = (fs', Inr ''g1wordstest5'') \<and>
    AgentAddress (io_ok ''t'') demo_aead demo_signers demo_ks fs' ''net'' [] demo_testnet = Inr ''g1wordstest5''"
proof -
  let ?r = "GenerateForProfile (io_ok ''.tmp-1'') demo_aead demo_signers (Some (replicate 16 (CHR ''s''))) (Some (replicate 12 (CHR ''n'')))
      (Some ''words'') demo_ks Map.empty ''net'' [] demo_testnet"
  have "snd ?r = Inr ''g1wordstest5''" by code_simp
  then obtain fs' where r: "?r = (fs', Inr ''g1wordstest5'')" by (metis prod.collapse)
  have "\<not> HasSuffix (flt_tmp (io_faults (io_ok ''.tmp-1''))) keyFileExt" by code_simp
  with Generate_then_sign [OF r, of "io_ok ''t''"] r show ?thesis
    by (auto simp: aead_ok_def demo_aead_def saltLen_def nonceLen_def io_ok_def)
qed

text \<open>
  The cap holds over every history. Starting within the cap, no sequence of generations and
  deletions, for any profiles and names and whatever the disk does, brings a profile's number of key
  files above \<open>maxKeys\<close>.
\<close>

theorem keys_within_cap:
  assumes "\<forall>d. int (kcount fs d) \<le> ks_maxKeys k" "0 < ks_maxKeys k"
    and "\<forall>op \<in> set ops. \<not> HasSuffix (flt_tmp (io_faults (op_io op))) keyFileExt"
  shows "int (kcount (fold (ks_exec a g k) ops fs) d) \<le> ks_maxKeys k"
  by (rule ks_run_cap [OF assms])

theorem keys_within_cap_witness:
  "int (kcount (fold (ks_exec demo_aead demo_signers demo_ks)
     [OpGenerate (io_ok ''.tmp-1'') None None (Some ''w'') ''net'' ''a'' demo_testnet,
      OpGenerate (io_ok ''.tmp-2'') None None (Some ''w'') ''net'' ''b'' demo_testnet,
      OpGenerate (io_ok ''.tmp-3'') None None (Some ''w'') ''net'' ''c'' demo_testnet] Map.empty) ''/k/net'') \<le> 2"
  using keys_within_cap [of Map.empty demo_ks "[OpGenerate (io_ok ''.tmp-1'') None None (Some ''w'') ''net'' ''a'' demo_testnet,
      OpGenerate (io_ok ''.tmp-2'') None None (Some ''w'') ''net'' ''b'' demo_testnet,
      OpGenerate (io_ok ''.tmp-3'') None None (Some ''w'') ''net'' ''c'' demo_testnet]" demo_aead demo_signers "''/k/net''"]
  by (simp add: kcount_def entries_def demo_ks_def io_ok_def no_faults_def HasSuffix_def keyFileExt_def)

text \<open>
  Read-only chains have no keys. On a profile whose chain is not write-capable, no operation of the
  keystore yields a signer, an address or a listing, and none touches the disk.
\<close>

theorem readonly_no_keys:
  assumes "IsReadOnly p"
  shows "isl (SignerForProfile io a g k fs profileName keyName p) \<and> isl (AgentAddress io a g k fs profileName keyName p) \<and>
    isl (ListKeys io a g k fs profileName p) \<and>
    (\<exists>e. GenerateForProfile io a g salt nonce fresh k fs profileName keyName p = (fs, Inl e)) \<and>
    (\<exists>e. DeleteForProfile io a g k fs profileName keyName p = (fs, Inl e))"
proof -
  have "isl (SignerForProfile io a g k fs profileName keyName p)"
    using assms by (simp add: SignerForProfile_def split: option.splits)
  moreover from this have "isl (AgentAddress io a g k fs profileName keyName p)"
    by (auto simp: AgentAddress_def isl_def split: sum.splits)
  moreover have "\<not> IsTestnet p" using assms testnet_kinds by blast
  ultimately show ?thesis
    using assms by (auto simp: ListKeys_def GenerateForProfile_def DeleteForProfile_def split: option.splits)
qed

theorem readonly_no_keys_witness:
  "isl (SignerForProfile (io_ok ''t'') demo_aead demo_signers demo_ks Map.empty ''main'' [] (empty_profile\<lparr>ChainID := ''gnoland-1''\<rparr>))"
  using readonly_no_keys [of "empty_profile\<lparr>ChainID := ''gnoland-1''\<rparr>" "io_ok ''t''" demo_aead demo_signers demo_ks Map.empty "''main''" "[]"]
  by (simp add: IsReadOnly_def ChainIDWritable_def IsTestnetChainID_def testnetChainNames_def HasPrefix_def)

text \<open>
  Names cannot leave their directory. For every profile and key name the keystore accepts, the key
  file's path below the root consists of exactly two segments, the profile and the file name, neither
  of them empty or a dot segment, and different accepted pairs have different paths.
\<close>

theorem keyPath_contained:
  assumes "requireValidProfileName pn = None" "resolveKeyName kn = Inr name"
    and "requireValidProfileName pn' = None" "resolveKeyName kn' = Inr name'"
  shows "Split (drop (length (ks_rootDir k)) (keyPath k pn name)) (CHR ''/'') = [[], pn, keyFile name] \<and>
    CHR ''.'' \<notin> set pn \<and> pn \<noteq> [] \<and> name \<noteq> [] \<and> hd (keyFile name) \<noteq> CHR ''.'' \<and>
    (keyPath k pn name = keyPath k pn' name' \<longrightarrow> pn = pn' \<and> name = name')"
proof -
  have v: "ValidProfileName pn" "ValidProfileName pn'" using assms by (auto simp: requireValidProfileName_def split: if_splits)
  note sl = ValidProfileName_no_slash [OF v(1)] ValidProfileName_no_slash [OF v(2)] keyName_no_slash [OF assms(2)] keyName_no_slash [OF assms(4)]
  have split: "Split (drop (length (ks_rootDir k)) (keyPath k q m)) (CHR ''/'') = [[], q, keyFile m]"
    if "CHR ''/'' \<notin> set q" "CHR ''/'' \<notin> set m" for q m
    using that Split_append [of "[]" "CHR ''/''" "q @ CHR ''/'' # keyFile m"] Split_append [of q "CHR ''/''" "keyFile m"]
    by (simp add: keyPath_def profileDir_def Split_no_sep keyFile_def keyFileExt_def)
  have ne: "name \<noteq> []" using resolveKeyName_Inr [OF assms(2)] by simp
  then have "hd (keyFile name) \<noteq> CHR ''.''" using sl by (cases name) (auto simp: keyFile_def)
  moreover
  have s1: "Split (drop (length (ks_rootDir k)) (keyPath k pn name)) (CHR ''/'') = [[], pn, keyFile name]"
    and s2: "Split (drop (length (ks_rootDir k)) (keyPath k pn' name')) (CHR ''/'') = [[], pn', keyFile name']"
    using sl by (auto intro: split)
  have "pn = pn' \<and> name = name'" if eq: "keyPath k pn name = keyPath k pn' name'"
    using s1 [unfolded eq s2] by simp
  moreover note s1
  ultimately show ?thesis using sl ne by simp
qed

theorem keyPath_contained_witness:
  "Split (drop 2 (keyPath demo_ks ''net'' ''default'')) (CHR ''/'') = [[], ''net'', ''default.key'']"
proof -
  have a: "requireValidProfileName ''net'' = None" "resolveKeyName [] = Inr ''default''" by code_simp+
  have l: "length (ks_rootDir demo_ks) = 2" by (simp add: demo_ks_def)
  from keyPath_contained [OF a a, of demo_ks] show ?thesis by (simp only: l) (simp add: keyFile_def keyFileExt_def)
qed

text \<open>
  Deleting removes that key and nothing else. A successful deletion returns the address the key
  held, afterwards the profile has no such key, every other file is unchanged, and a failed deletion
  changes nothing.
\<close>

theorem Delete_removes_key:
  assumes "DeleteForProfile io a g k fs profileName keyName p = (fs', res)"
  shows "case res of
      Inl e \<Rightarrow> fs' = fs
    | Inr addr \<Rightarrow> AgentAddress io a g k fs profileName keyName p = Inr addr \<and>
        AgentAddress io' a g k fs' profileName keyName p = Inl ErrNoAgentKey \<and>
        (\<exists>name. resolveKeyName keyName = Inr name \<and>
           (\<forall>e m. (e, m) \<noteq> (profileDir k profileName, keyFile name) \<longrightarrow> fget fs' e m = fget fs e m))"
proof (cases res)
  case (Inl e)
  then show ?thesis using Delete_cases [OF assms] by auto
next
  case (Inr addr)
  then obtain name where d: "ValidProfileName profileName" "IsTestnet p" "resolveKeyName keyName = Inr name"
      "AgentAddress io a g k fs profileName name p = Inr addr" "fs' = fdel fs (profileDir k profileName) (keyFile name)"
    using Delete_cases [OF assms] by auto
  have same: "AgentAddress i a g k f profileName keyName p = AgentAddress i a g k f profileName name p" for i f
    using d(3) resolveKeyName_idem [OF d(3)] by (simp add: AgentAddress_def SignerForProfile_def split: option.splits)
  have "ks_rootDir k \<noteq> []" using assms Inr by (auto simp: DeleteForProfile_def split: option.splits if_splits)
  then have "AgentAddress io' a g k fs' profileName keyName p = Inl ErrNoAgentKey"
    using d testnet_kinds [OF d(2)]
    by (simp add: AgentAddress_def SignerForProfile_def requireValidProfileName_def loadMnemonic_def)
  with Inr d same show ?thesis by auto
qed

theorem Delete_removes_key_witness:
  "AgentAddress (io_ok ''t'') demo_aead demo_signers demo_ks
     (fst (DeleteForProfile (io_ok ''t'') demo_aead demo_signers demo_ks [''/k/net'' \<mapsto> [(''default.key'', CHR 0x00 # ''w'')]] ''net'' [] demo_testnet))
     ''net'' [] demo_testnet = Inl ErrNoAgentKey"
proof -
  let ?r = "DeleteForProfile (io_ok ''t'') demo_aead demo_signers demo_ks [''/k/net'' \<mapsto> [(''default.key'', CHR 0x00 # ''w'')]] ''net'' [] demo_testnet"
  have "snd ?r = Inr ''g1wtest5''" by code_simp
  then obtain fs' where r: "?r = (fs', Inr ''g1wtest5'')" by (metis prod.collapse)
  from Delete_removes_key [OF r, of "io_ok ''t''"] r show ?thesis by simp
qed

end
