(* ===== verification/Session.thy ===== *)
theory Session
  imports Scope Storage
begin

section \<open>Sessions: internal/session/store.go, chain_check.go, manager.go\<close>

text \<open>
  The store persists one file per session; the manager keeps the in-memory table, promotes pending
  sessions when the chain reports them, picks the session that signs a write and accounts its spend.
  JSON is a pair of functions with a round-trip law, the chain is the argument \<open>query\<close>. Locked
  sections are single functions; \<open>pickSession\<close> releases the lock between its three phases, and
  \<open>mgr_step\<close> interleaves every locked section of every method.
\<close>

subsection \<open>Data\<close>

record SessionMeta =
  sm_Version :: int
  sm_SessionAddress :: string
  sm_SessionPubkey :: string
  sm_MasterAddress :: string
  sm_Privkey :: bytes
  sm_Encrypted :: bool
  sm_AllowPaths :: "string list"
  sm_AllowRun :: bool
  sm_SpendLimit :: string
  sm_SpendRemaining :: string
  sm_ExpiresAt :: int64
  sm_CreatedAt :: int64
  sm_State :: string

definition StatePending :: string where "StatePending = ''pending''"
definition StateActive :: string where "StateActive = ''active''"
definition StateExpired :: string where "StateExpired = ''expired''"
definition StateRevoked :: string where "StateRevoked = ''revoked''"

record SessionStatus =
  ses_Active :: bool
  ses_AllowPaths :: "string list"
  ses_AllowRun :: bool
  ses_SpendLimit :: string
  ses_SpendRemaining :: string
  ses_ExpiresAt :: int64

datatype query_answer = QStatus SessionStatus | QUnsupported | QError string

text \<open>A chain client as the session code sees it: \<open>QuerySession master sessionAddr\<close>.\<close>

type_synonym session_query = "string \<Rightarrow> string \<Rightarrow> query_answer"

subsection \<open>The store\<close>

record session_store =
  st_rootDir :: string
  st_passphrase :: string

record json_codec =
  jenc :: "SessionMeta \<Rightarrow> bytes"
  jdec :: "bytes \<Rightarrow> SessionMeta option"

record store_io =
  sio_faults :: faults
  sio_salt :: "bytes option"
  sio_nonce :: "bytes option"

datatype store_error =
    StEncrypt secret_error
  | StWrite fs_error
  | StRead
  | StUnmarshal
  | StNeedsPassphrase
  | StDecrypt secret_error
  | StDelete
  | StReadDir

definition st_profileDir :: "session_store \<Rightarrow> string \<Rightarrow> string" where
  "st_profileDir s profile = st_rootDir s @ ''/'' @ profile"

definition st_file :: "string \<Rightarrow> string" where
  "st_file sessionAddr = sessionAddr @ ''.key''"

definition Store_Write ::
  "store_io \<Rightarrow> aead \<Rightarrow> json_codec \<Rightarrow> session_store \<Rightarrow> fsys \<Rightarrow> string \<Rightarrow> SessionMeta \<Rightarrow> fsys \<times> store_error option" where
  "Store_Write io a j s fs profile meta =
     (let enc = (if st_passphrase s \<noteq> [] then
                   (case Encrypt a (sio_salt io) (sio_nonce io) (sm_Privkey meta) (st_passphrase s) of
                      Inl e \<Rightarrow> Inl (StEncrypt e)
                    | Inr c \<Rightarrow> Inr (meta\<lparr>sm_Privkey := c, sm_Encrypted := True\<rparr>))
                 else Inr (meta\<lparr>sm_Encrypted := False\<rparr>))
      in case enc of
           Inl e \<Rightarrow> (fs, Some e)
         | Inr m \<Rightarrow>
             (case WriteFileAtomic (sio_faults io) fs (st_profileDir s profile) (st_file (sm_SessionAddress meta)) (jenc j m) of
                (tr, None) \<Rightarrow> (last tr, None)
              | (tr, Some e) \<Rightarrow> (last tr, Some (StWrite e))))"

definition Store_decode :: "aead \<Rightarrow> json_codec \<Rightarrow> session_store \<Rightarrow> bytes \<Rightarrow> store_error + SessionMeta" where
  "Store_decode a j s data =
     (case jdec j data of
        None \<Rightarrow> Inl StUnmarshal
      | Some m \<Rightarrow>
          if sm_Encrypted m \<and> st_passphrase s = [] then Inl StNeedsPassphrase
          else if sm_Encrypted m then
            (case Decrypt a (sm_Privkey m) (st_passphrase s) of
               Inl e \<Rightarrow> Inl (StDecrypt e)
             | Inr plain \<Rightarrow> Inr (m\<lparr>sm_Privkey := plain, sm_Encrypted := False\<rparr>))
          else Inr m)"

text \<open>\<open>rd\<close> reads a file; it may fail for reasons other than absence.\<close>

definition Store_Read ::
  "(fsys \<Rightarrow> string \<Rightarrow> string \<Rightarrow> bytes option) \<Rightarrow> aead \<Rightarrow> json_codec \<Rightarrow> session_store \<Rightarrow> fsys \<Rightarrow> string \<Rightarrow> string \<Rightarrow> store_error + SessionMeta" where
  "Store_Read rd a j s fs profile sessionAddr =
     (case rd fs (st_profileDir s profile) (st_file sessionAddr) of
        None \<Rightarrow> Inl StRead
      | Some data \<Rightarrow> Store_decode a j s data)"

definition Store_Delete :: "bool \<Rightarrow> session_store \<Rightarrow> fsys \<Rightarrow> string \<Rightarrow> string \<Rightarrow> fsys \<times> store_error option" where
  "Store_Delete rm_fails s fs profile sessionAddr =
     (if fget fs (st_profileDir s profile) (st_file sessionAddr) = None then (fs, None)
      else if rm_fails then (fs, Some StDelete)
      else (fdel fs (st_profileDir s profile) (st_file sessionAddr), None))"

definition Store_List ::
  "(fsys \<Rightarrow> string \<Rightarrow> string \<Rightarrow> bytes option) \<Rightarrow> bool \<Rightarrow> aead \<Rightarrow> json_codec \<Rightarrow> session_store \<Rightarrow> fsys \<Rightarrow> string \<Rightarrow> store_error + SessionMeta list" where
  "Store_List rd readdir_fails a j s fs profile =
     (if fs (st_profileDir s profile) = None then Inr []
      else if readdir_fails then Inl StReadDir
      else Inr (List.map_filter
             (\<lambda>name. if \<not> HasSuffix name ''.key'' then None
                else case rd fs (st_profileDir s profile) name of
                       None \<Rightarrow> None
                     | Some data \<Rightarrow> (case Store_decode a j s data of Inl _ \<Rightarrow> None | Inr m \<Rightarrow> Some m))
             (map fst (entries fs (st_profileDir s profile)))))"

subsection \<open>Asking the chain\<close>

record chainCheckResult =
  cc_Active :: bool
  cc_Unsupported :: bool
  cc_Status :: SessionStatus

definition no_status :: SessionStatus where
  "no_status = \<lparr>ses_Active = False, ses_AllowPaths = [], ses_AllowRun = False, ses_SpendLimit = [],
     ses_SpendRemaining = [], ses_ExpiresAt = 0\<rparr>"

text \<open>\<open>None\<close> is the error that the resolver has no client for the profile.\<close>

definition queryChain :: "(string \<Rightarrow> session_query option) \<Rightarrow> string \<Rightarrow> string \<Rightarrow> string \<Rightarrow> chainCheckResult option" where
  "queryChain resolver profile master sessionAddr =
     (case resolver profile of
        None \<Rightarrow> None
      | Some client \<Rightarrow>
          if master = [] then Some \<lparr>cc_Active = False, cc_Unsupported = True, cc_Status = no_status\<rparr>
          else case client master sessionAddr of
                 QUnsupported \<Rightarrow> Some \<lparr>cc_Active = False, cc_Unsupported = True, cc_Status = no_status\<rparr>
               | QError _ \<Rightarrow> Some \<lparr>cc_Active = False, cc_Unsupported = False, cc_Status = no_status\<rparr>
               | QStatus st \<Rightarrow> Some \<lparr>cc_Active = ses_Active st, cc_Unsupported = False, cc_Status = st\<rparr>)"

subsection \<open>The manager\<close>

record session_state =
  ss_state :: string
  ss_meta :: SessionMeta

type_synonym session_table = "string \<Rightarrow> string \<rightharpoonup> session_state"

record manager =
  mg_sessions :: session_table
  mg_fs :: fsys

datatype session_error =
    ErrNoActiveSession
  | ErrScopeMismatch "string list"
  | SessionNotFound string
  | SessionNotActive string string
  | SpendUnparseable scope_error
  | SessionPersist store_error
  | HydrateList store_error

definition applyStatus :: "SessionMeta \<Rightarrow> SessionStatus \<Rightarrow> SessionMeta" where
  "applyStatus meta st =
     meta\<lparr>sm_AllowPaths := ses_AllowPaths st, sm_AllowRun := ses_AllowRun st, sm_SpendLimit := ses_SpendLimit st,
          sm_SpendRemaining := ses_SpendRemaining st, sm_ExpiresAt := ses_ExpiresAt st, sm_State := StateActive\<rparr>"

definition insertState :: "manager \<Rightarrow> string \<Rightarrow> SessionMeta \<Rightarrow> string \<Rightarrow> manager" where
  "insertState m profile meta state =
     m\<lparr>mg_sessions := (mg_sessions m)(profile := (mg_sessions m profile)
          (sm_SessionAddress meta \<mapsto> \<lparr>ss_state = state, ss_meta = meta\<rparr>))\<rparr>"

definition getState :: "manager \<Rightarrow> string \<Rightarrow> string \<Rightarrow> session_state option" where
  "getState m profile addr = mg_sessions m profile addr"

definition setState :: "manager \<Rightarrow> string \<Rightarrow> string \<Rightarrow> session_state \<Rightarrow> manager" where
  "setState m profile addr ss =
     m\<lparr>mg_sessions := (mg_sessions m)(profile := (mg_sessions m profile)(addr \<mapsto> ss))\<rparr>"

text \<open>The store as the manager uses it: a write function on the disk.\<close>

type_synonym store_write = "fsys \<Rightarrow> string \<Rightarrow> SessionMeta \<Rightarrow> fsys \<times> store_error option"

definition persist :: "store_write \<Rightarrow> manager \<Rightarrow> string \<Rightarrow> SessionMeta \<Rightarrow> manager \<times> store_error option" where
  "persist wr m profile meta = (case wr (mg_fs m) profile meta of (fs, e) \<Rightarrow> (m\<lparr>mg_fs := fs\<rparr>, e))"

definition AddPending ::
  "store_write \<Rightarrow> manager \<Rightarrow> string \<Rightarrow> string \<Rightarrow> string \<Rightarrow> bytes \<Rightarrow> Scope \<Rightarrow> string \<Rightarrow> time \<Rightarrow> manager \<times> (session_error + SessionMeta)" where
  "AddPending wr m profile addr pubkey priv scope master now =
     (let meta = \<lparr>sm_Version = 1, sm_SessionAddress = addr, sm_SessionPubkey = pubkey, sm_MasterAddress = master,
            sm_Privkey = priv, sm_Encrypted = False, sm_AllowPaths = AllowPaths scope, sm_AllowRun = AllowRun scope,
            sm_SpendLimit = SpendLimit scope, sm_SpendRemaining = SpendLimit scope,
            sm_ExpiresAt = time_unix (time_add now (ExpiresIn scope)), sm_CreatedAt = time_unix now,
            sm_State = StatePending\<rparr>
      in case persist wr m profile meta of
           (m', Some e) \<Rightarrow> (m', Inl (SessionPersist e))
         | (m', None) \<Rightarrow> (insertState m' profile meta StatePending, Inr meta))"

definition coversRealm :: "string list \<Rightarrow> string \<Rightarrow> bool" where
  "coversRealm allowPaths realm = list_ex (\<lambda>p. p = realm \<or> HasPrefix realm (p @ ''/'')) allowPaths"

definition isZeroSpend :: "string \<Rightarrow> bool" where
  "isZeroSpend coin =
     (if coin = [] then False
      else case parseCoins coin of Inl _ \<Rightarrow> False | Inr (mag, _) \<Rightarrow> mag = 0)"

definition dedup :: "string list \<Rightarrow> string list" where
  "dedup xs = rev (foldl (\<lambda>out s. if s \<in> set out then out else s # out) [] xs)"

text \<open>One round of step 2: a pending session the chain reports active is promoted and persisted.\<close>

definition promote_one ::
  "store_write \<Rightarrow> (string \<Rightarrow> session_query option) \<Rightarrow> string \<Rightarrow> string \<times> string \<Rightarrow> manager \<Rightarrow> manager" where
  "promote_one wr resolver profile p m =
     (case p of (addr, master) \<Rightarrow>
        case queryChain resolver profile master addr of
          None \<Rightarrow> m
        | Some res \<Rightarrow>
            if \<not> cc_Active res then m
            else case getState m profile addr of
                   None \<Rightarrow> m
                 | Some ss \<Rightarrow>
                     if ss_state ss \<noteq> StatePending then m
                     else let meta = applyStatus (ss_meta ss) (cc_Status res)
                          in fst (persist wr (setState m profile addr \<lparr>ss_state = StateActive, ss_meta = meta\<rparr>) profile meta))"

definition pending_snapshot :: "manager \<Rightarrow> string \<Rightarrow> string list \<Rightarrow> (string \<times> string) list" where
  "pending_snapshot m profile order =
     List.map_filter (\<lambda>addr. case getState m profile addr of
         None \<Rightarrow> None
       | Some ss \<Rightarrow> if ss_state ss = StatePending then Some (addr, sm_MasterAddress (ss_meta ss)) else None) order"

definition is_expired :: "int64 \<Rightarrow> session_state \<Rightarrow> bool" where
  "is_expired now ss \<longleftrightarrow> sm_ExpiresAt (ss_meta ss) > 0 \<and> now > sm_ExpiresAt (ss_meta ss)"

text \<open>An active session that is neither expired nor spent.\<close>

definition usable :: "int64 \<Rightarrow> session_state \<Rightarrow> bool" where
  "usable now ss \<longleftrightarrow> ss_state ss = StateActive \<and> \<not> is_expired now ss \<and> \<not> isZeroSpend (sm_SpendRemaining (ss_meta ss))"

definition expire_stale :: "manager \<Rightarrow> string \<Rightarrow> int64 \<Rightarrow> manager" where
  "expire_stale m profile now =
     m\<lparr>mg_sessions := (mg_sessions m)(profile := (\<lambda>addr. map_option (\<lambda>ss.
          if ss_state ss = StateActive \<and> is_expired now ss then ss\<lparr>ss_state := StateExpired\<rparr> else ss)
        (mg_sessions m profile addr)))\<rparr>"

fun most_recent :: "session_state list \<Rightarrow> session_state option" where
  "most_recent [] = None"
| "most_recent (x # xs) =
     (case most_recent xs of
        None \<Rightarrow> Some x
      | Some y \<Rightarrow> if sm_CreatedAt (ss_meta y) > sm_CreatedAt (ss_meta x) then Some y else Some x)"

record signerAdapter =
  sa_addr :: string
  sa_priv :: bytes

text \<open>
  Step 3, under the lock. \<open>order\<close> is the order in which the loop visits the map; it also decides
  between sessions created in the same second, which the unstable sort leaves open.
\<close>

definition pick_final ::
  "(session_state \<Rightarrow> bool) \<Rightarrow> manager \<Rightarrow> string \<Rightarrow> string list \<Rightarrow> int64 \<Rightarrow> manager \<times> (session_error + signerAdapter \<times> string)" where
  "pick_final mat m profile order now =
     (if order = [] then (m, Inl ErrNoActiveSession)
      else let us = filter (usable now) (List.map_filter (getState m profile) order);
               candidates = filter mat us;
               availablePaths = concat (map (\<lambda>ss. sm_AllowPaths (ss_meta ss)) us);
               m' = expire_stale m profile now
           in if candidates = [] \<and> availablePaths = [] then (m', Inl ErrNoActiveSession)
              else case most_recent candidates of
                     None \<Rightarrow> (m', Inl (ErrScopeMismatch (dedup availablePaths)))
                   | Some best \<Rightarrow>
                       (m', Inr (\<lparr>sa_addr = sm_SessionAddress (ss_meta best), sa_priv = sm_Privkey (ss_meta best)\<rparr>,
                                 sm_MasterAddress (ss_meta best))))"

definition pickSession ::
  "store_write \<Rightarrow> (string \<Rightarrow> session_query option) \<Rightarrow> (session_state \<Rightarrow> bool) \<Rightarrow> manager \<Rightarrow> string \<Rightarrow> string list \<Rightarrow> int64 \<Rightarrow>
   manager \<times> (session_error + signerAdapter \<times> string)" where
  "pickSession wr resolver mat m profile order now =
     (let toPromote = pending_snapshot m profile order;
          m1 = fold (promote_one wr resolver profile) toPromote m
      in pick_final mat m1 profile order now)"

definition match_realm :: "string \<Rightarrow> session_state \<Rightarrow> bool" where
  "match_realm realm ss \<longleftrightarrow> realm = [] \<or> coversRealm (sm_AllowPaths (ss_meta ss)) realm"

definition PickSessionForProfile ::
  "store_write \<Rightarrow> (string \<Rightarrow> session_query option) \<Rightarrow> manager \<Rightarrow> string \<Rightarrow> string \<Rightarrow> string list \<Rightarrow> int64 \<Rightarrow>
   manager \<times> (session_error + signerAdapter \<times> string)" where
  "PickSessionForProfile wr resolver m profile realm order now =
     pickSession wr resolver (match_realm realm) m profile order now"

definition PickSessionForRun ::
  "store_write \<Rightarrow> (string \<Rightarrow> session_query option) \<Rightarrow> manager \<Rightarrow> string \<Rightarrow> string list \<Rightarrow> int64 \<Rightarrow>
   manager \<times> (session_error + signerAdapter \<times> string)" where
  "PickSessionForRun wr resolver m profile order now =
     pickSession wr resolver (\<lambda>ss. sm_AllowRun (ss_meta ss)) m profile order now"

definition UpdateSpend :: "store_write \<Rightarrow> manager \<Rightarrow> string \<Rightarrow> string \<Rightarrow> int64 \<Rightarrow> manager \<times> session_error option" where
  "UpdateSpend wr m profile sessionAddr gasUsed =
     (case getState m profile sessionAddr of
        None \<Rightarrow> (m, Some (SessionNotFound sessionAddr))
      | Some ss \<Rightarrow>
          if ss_state ss \<noteq> StateActive then (m, Some (SessionNotActive sessionAddr (ss_state ss)))
          else case parseCoins (sm_SpendRemaining (ss_meta ss)) of
                 Inl e \<Rightarrow> (m, Some (SpendUnparseable e))
               | Inr (remaining, denom) \<Rightarrow>
                   let left = i64 (remaining - gasUsed);
                       left = (if left < 0 then 0 else left);
                       meta = (ss_meta ss)\<lparr>sm_SpendRemaining := show_int left @ denom\<rparr>
                   in (case persist wr (setState m profile sessionAddr (ss\<lparr>ss_meta := meta\<rparr>)) profile meta of
                         (m', e) \<Rightarrow> (m', map_option SessionPersist e)))"

definition setSpendRemaining :: "store_write \<Rightarrow> manager \<Rightarrow> string \<Rightarrow> string \<Rightarrow> string \<Rightarrow> manager \<times> session_error option" where
  "setSpendRemaining wr m profile sessionAddr remaining =
     (case getState m profile sessionAddr of
        None \<Rightarrow> (m, Some (SessionNotFound sessionAddr))
      | Some ss \<Rightarrow>
          let meta = (ss_meta ss)\<lparr>sm_SpendRemaining := remaining\<rparr>
          in (case persist wr (setState m profile sessionAddr (ss\<lparr>ss_meta := meta\<rparr>)) profile meta of
                (m', e) \<Rightarrow> (m', map_option SessionPersist e)))"

definition SettleSpend :: "store_write \<Rightarrow> session_query \<Rightarrow> manager \<Rightarrow> string \<Rightarrow> string \<Rightarrow> int64 \<Rightarrow> manager \<times> session_error option" where
  "SettleSpend wr query m profile sessionAddr feeUgnot =
     (let master = (case getState m profile sessionAddr of None \<Rightarrow> [] | Some ss \<Rightarrow> sm_MasterAddress (ss_meta ss))
      in if master \<noteq> [] then
           (case query master sessionAddr of
              QStatus st \<Rightarrow>
                if ses_Active st \<and> ses_SpendRemaining st \<noteq> []
                then setSpendRemaining wr m profile sessionAddr (ses_SpendRemaining st)
                else UpdateSpend wr m profile sessionAddr feeUgnot
            | _ \<Rightarrow> UpdateSpend wr m profile sessionAddr feeUgnot)
         else UpdateSpend wr m profile sessionAddr feeUgnot)"

definition ListForProfile :: "manager \<Rightarrow> string \<Rightarrow> string list \<Rightarrow> SessionMeta list" where
  "ListForProfile m profile order = map ss_meta (List.map_filter (getState m profile) order)"

definition Get :: "manager \<Rightarrow> string \<Rightarrow> string \<Rightarrow> SessionMeta option" where
  "Get m profile sessionAddr = map_option ss_meta (getState m profile sessionAddr)"

definition MarkActive :: "store_write \<Rightarrow> manager \<Rightarrow> string \<Rightarrow> string \<Rightarrow> SessionStatus \<Rightarrow> manager \<times> session_error option" where
  "MarkActive wr m profile sessionAddr status =
     (case getState m profile sessionAddr of
        None \<Rightarrow> (m, Some (SessionNotFound sessionAddr))
      | Some ss \<Rightarrow>
          let meta = applyStatus (ss_meta ss) status
          in (case persist wr (setState m profile sessionAddr \<lparr>ss_state = StateActive, ss_meta = meta\<rparr>) profile meta of
                (m', e) \<Rightarrow> (m', map_option SessionPersist e)))"

definition MarkInactive :: "store_write \<Rightarrow> manager \<Rightarrow> string \<Rightarrow> string \<Rightarrow> string \<Rightarrow> manager \<times> session_error option" where
  "MarkInactive wr m profile sessionAddr state =
     (case getState m profile sessionAddr of
        None \<Rightarrow> (m, Some (SessionNotFound sessionAddr))
      | Some ss \<Rightarrow>
          let meta = (ss_meta ss)\<lparr>sm_State := state\<rparr>
          in (case persist wr (setState m profile sessionAddr \<lparr>ss_state = state, ss_meta = meta\<rparr>) profile meta of
                (m', e) \<Rightarrow> (m', map_option SessionPersist e)))"

text \<open>\<open>Hydrate\<close>: one session, one profile, all profiles. \<open>lst\<close> and \<open>del\<close> are the store's \<open>List\<close> and \<open>Delete\<close>.\<close>

definition hydrate_one ::
  "(fsys \<Rightarrow> string \<Rightarrow> string \<Rightarrow> fsys \<times> store_error option) \<Rightarrow> (string \<Rightarrow> session_query option) \<Rightarrow> string \<Rightarrow> SessionMeta \<Rightarrow> manager \<Rightarrow> manager" where
  "hydrate_one del resolver profile meta m =
     (case queryChain resolver profile (sm_MasterAddress meta) (sm_SessionAddress meta) of
        None \<Rightarrow> insertState m profile meta (sm_State meta)
      | Some result \<Rightarrow>
          if cc_Unsupported result then insertState m profile meta (sm_State meta)
          else if \<not> cc_Active result then m\<lparr>mg_fs := fst (del (mg_fs m) profile (sm_SessionAddress meta))\<rparr>
          else insertState m profile (applyStatus meta (cc_Status result)) StateActive)"

fun Hydrate ::
  "(fsys \<Rightarrow> string \<Rightarrow> store_error + SessionMeta list) \<Rightarrow> (fsys \<Rightarrow> string \<Rightarrow> string \<Rightarrow> fsys \<times> store_error option) \<Rightarrow>
   (string \<Rightarrow> session_query option) \<Rightarrow> manager \<Rightarrow> string list \<Rightarrow> manager \<times> session_error option" where
  "Hydrate lst del resolver m [] = (m, None)"
| "Hydrate lst del resolver m (profile # profiles) =
     (case lst (mg_fs m) profile of
        Inl e \<Rightarrow> (m, Some (HydrateList e))
      | Inr metas \<Rightarrow> Hydrate lst del resolver (fold (hydrate_one del resolver profile) metas m) profiles)"

subsection \<open>Interleaved operations\<close>

text \<open>
  Every section the manager runs under its lock, in any order and any number: the rounds of
  promotion and the final choice of a pick, spend accounting, the marks, and adding a session whose
  freshly generated key has an address not in the table. Each step has its own \<open>wr\<close>, so a step may
  also change memory only; a promotion writes its copy of the session after it released the lock,
  which is the separate step \<open>step_late_write\<close>.
\<close>

inductive mgr_step :: "manager \<Rightarrow> manager \<Rightarrow> bool" where
  step_add: "getState m profile addr = None \<Longrightarrow>
    AddPending wr m profile addr pubkey priv scope master now = (m', r) \<Longrightarrow> mgr_step m m'"
| step_promote: "mgr_step m (promote_one wr resolver profile p m)"
| step_late_write: "mgr_step m (fst (persist wr m profile meta))"
| step_pick: "pick_final mat m profile order now = (m', r) \<Longrightarrow> mgr_step m m'"
| step_update: "UpdateSpend wr m profile addr gas = (m', e) \<Longrightarrow> mgr_step m m'"
| step_set: "setSpendRemaining wr m profile addr left = (m', e) \<Longrightarrow> mgr_step m m'"
| step_active: "MarkActive wr m profile addr status = (m', e) \<Longrightarrow> mgr_step m m'"
| step_inactive: "MarkInactive wr m profile addr state = (m', e) \<Longrightarrow> mgr_step m m'"

definition identity_of :: "session_state \<Rightarrow> string \<times> string \<times> string \<times> bytes \<times> int64" where
  "identity_of ss = (sm_SessionAddress (ss_meta ss), sm_SessionPubkey (ss_meta ss), sm_MasterAddress (ss_meta ss),
     sm_Privkey (ss_meta ss), sm_CreatedAt (ss_meta ss))"

subsection \<open>Lemmas\<close>

lemma persist_sessions [simp]: "mg_sessions (fst (persist wr m profile meta)) = mg_sessions m"
  by (simp add: persist_def split: prod.splits)

lemma persist_sessions': "persist wr m profile meta = (m', e) \<Longrightarrow> mg_sessions m' = mg_sessions m"
  by (metis fst_conv persist_sessions)

lemma getState_setState [simp]:
  "getState (setState m p a ss) q b = (if q = p \<and> b = a then Some ss else getState m q b)"
  by (simp add: getState_def setState_def)

lemma getState_persist [simp]: "getState (fst (persist wr m profile meta)) q b = getState m q b"
  by (simp add: getState_def)

lemma getState_persist': "persist wr m profile meta = (m', e) \<Longrightarrow> getState m' q b = getState m q b"
  by (simp add: getState_def persist_sessions')

lemma getState_insertState [simp]:
  "getState (insertState m p meta st) q b =
     (if q = p \<and> b = sm_SessionAddress meta then Some \<lparr>ss_state = st, ss_meta = meta\<rparr> else getState m q b)"
  by (simp add: getState_def insertState_def)

lemma getState_expire:
  "getState (expire_stale m p now) q b =
     (if q = p then map_option (\<lambda>ss. if ss_state ss = StateActive \<and> is_expired now ss then ss\<lparr>ss_state := StateExpired\<rparr> else ss)
        (getState m p b) else getState m q b)"
  by (simp add: getState_def expire_stale_def)

lemma applyStatus_identity [simp]:
  "sm_SessionAddress (applyStatus meta st) = sm_SessionAddress meta"
  "sm_SessionPubkey (applyStatus meta st) = sm_SessionPubkey meta"
  "sm_MasterAddress (applyStatus meta st) = sm_MasterAddress meta"
  "sm_Privkey (applyStatus meta st) = sm_Privkey meta"
  "sm_CreatedAt (applyStatus meta st) = sm_CreatedAt meta"
  by (simp_all add: applyStatus_def)

lemma pick_final_fst: "fst (pick_final mat m profile order now) = (if order = [] then m else expire_stale m profile now)"
  by (simp add: pick_final_def Let_def split: option.splits)

definition keeps :: "manager \<Rightarrow> manager \<Rightarrow> bool" where
  "keeps m m' \<longleftrightarrow> (\<forall>p a ss. getState m p a = Some ss \<longrightarrow>
     (\<exists>ss'. getState m' p a = Some ss' \<and> identity_of ss' = identity_of ss))"

lemma keeps_refl [simp]: "keeps m m"
  by (simp add: keeps_def)

lemma keeps_trans: "keeps a b \<Longrightarrow> keeps b c \<Longrightarrow> keeps a c"
  unfolding keeps_def by metis

lemma keeps_set:
  assumes "getState m p a = Some ss" "identity_of ss' = identity_of ss"
  shows "keeps m (fst (persist wr (setState m p a ss') p meta))"
  using assms by (auto simp: keeps_def)

lemma keeps_promote: "keeps m (promote_one wr resolver profile p m)"
  by (auto simp: promote_one_def Let_def identity_of_def intro!: keeps_set split: prod.splits option.splits)

lemma keeps_update: "keeps m (fst (UpdateSpend wr m profile addr gas))"
  by (auto simp: UpdateSpend_def Let_def split_beta identity_of_def intro!: keeps_set split: option.splits sum.splits)

lemma keeps_set_remaining: "keeps m (fst (setSpendRemaining wr m profile addr left))"
  by (auto simp: setSpendRemaining_def Let_def split_beta identity_of_def intro!: keeps_set split: option.splits)

lemma keeps_active: "keeps m (fst (MarkActive wr m profile addr st))"
  by (auto simp: MarkActive_def Let_def split_beta identity_of_def intro!: keeps_set split: option.splits)

lemma keeps_inactive: "keeps m (fst (MarkInactive wr m profile addr st))"
  by (auto simp: MarkInactive_def Let_def split_beta identity_of_def intro!: keeps_set split: option.splits)

lemma keeps_pick: "keeps m (fst (pick_final mat m profile order now))"
  by (auto simp: pick_final_fst keeps_def getState_expire identity_of_def)

lemma keeps_add:
  assumes "getState m profile addr = None"
  shows "keeps m (fst (AddPending wr m profile addr pubkey priv scope master now))"
  using assms
  by (auto simp: AddPending_def Let_def keeps_def getState_persist' split: prod.splits option.splits)

lemma mgr_step_keeps: "mgr_step m m' \<Longrightarrow> keeps m m'"
proof (induction rule: mgr_step.induct)
  case (step_add m profile addr wr pubkey priv scope master now m' r)
  then show ?case using keeps_add by (metis fst_conv)
next
  case (step_promote m wr resolver profile p)
  show ?case by (rule keeps_promote)
next
  case (step_late_write m wr profile meta)
  show ?case by (simp add: keeps_def)
next
  case (step_pick mat m profile order now m' r)
  then show ?case using keeps_pick by (metis fst_conv)
next
  case (step_update wr m profile addr gas m' e)
  then show ?case using keeps_update by (metis fst_conv)
next
  case (step_set wr m profile addr left m' e)
  then show ?case using keeps_set_remaining by (metis fst_conv)
next
  case (step_active wr m profile addr status m' e)
  then show ?case using keeps_active by (metis fst_conv)
next
  case (step_inactive wr m profile addr state m' e)
  then show ?case using keeps_inactive by (metis fst_conv)
qed

lemma mgr_steps_keep: "mgr_step\<^sup>*\<^sup>* m m' \<Longrightarrow> keeps m m'"
  by (induction rule: rtranclp_induct) (auto intro: keeps_trans mgr_step_keeps)

text \<open>The table is keyed by the address each session carries.\<close>

definition keyed :: "manager \<Rightarrow> bool" where
  "keyed m \<longleftrightarrow> (\<forall>p a ss. getState m p a = Some ss \<longrightarrow> sm_SessionAddress (ss_meta ss) = a)"

lemma most_recent_None [simp]: "most_recent xs = None \<longleftrightarrow> xs = []"
  by (cases xs) (auto split: option.splits)

lemma most_recent_max:
  "most_recent xs = Some b \<Longrightarrow> b \<in> set xs \<and> (\<forall>x \<in> set xs. sm_CreatedAt (ss_meta x) \<le> sm_CreatedAt (ss_meta b))"
proof (induction xs arbitrary: b)
  case (Cons x xs)
  show ?case
  proof (cases "most_recent xs")
    case None
    with Cons.prems show ?thesis by auto
  next
    case (Some y)
    from Cons.IH [OF Some] Cons.prems Some show ?thesis by (auto split: if_splits)
  qed
qed simp

lemma map_filter_mem: "x \<in> set (List.map_filter f xs) \<longleftrightarrow> (\<exists>k \<in> set xs. f k = Some x)"
  by (induction xs) (auto simp: List.map_filter_simps split: option.splits)

definition usables :: "manager \<Rightarrow> string \<Rightarrow> string list \<Rightarrow> int64 \<Rightarrow> session_state list" where
  "usables m profile order now = filter (usable now) (List.map_filter (getState m profile) order)"

definition usable_set :: "manager \<Rightarrow> string \<Rightarrow> int64 \<Rightarrow> session_state set" where
  "usable_set m profile now = {ss. \<exists>a. getState m profile a = Some ss \<and> usable now ss}"

lemma usables_set:
  assumes "set order = dom (mg_sessions m profile)"
  shows "set (usables m profile order now) = usable_set m profile now"
  using assms by (auto simp: usables_def usable_set_def map_filter_mem getState_def dom_def)

text \<open>What a pick answers, as a function of the set of usable sessions.\<close>

definition pick_answer :: "session_state set \<Rightarrow> (session_state \<Rightarrow> bool) \<Rightarrow> session_error + signerAdapter \<times> string \<Rightarrow> bool" where
  "pick_answer U mat r \<longleftrightarrow>
     (case r of
        Inr (signer, master) \<Rightarrow> \<exists>ss \<in> U. mat ss \<and> (\<forall>tt \<in> U. mat tt \<longrightarrow> sm_CreatedAt (ss_meta tt) \<le> sm_CreatedAt (ss_meta ss)) \<and>
          signer = \<lparr>sa_addr = sm_SessionAddress (ss_meta ss), sa_priv = sm_Privkey (ss_meta ss)\<rparr> \<and>
          master = sm_MasterAddress (ss_meta ss)
      | Inl e \<Rightarrow> (\<forall>ss \<in> U. \<not> mat ss) \<and>
          (if \<forall>ss \<in> U. sm_AllowPaths (ss_meta ss) = [] then e = ErrNoActiveSession
           else \<exists>ps. e = ErrScopeMismatch ps \<and> distinct ps \<and> set ps = (\<Union>ss \<in> U. set (sm_AllowPaths (ss_meta ss)))))"

lemma dedup_set: "set (dedup xs) = set xs \<and> distinct (dedup xs)"
proof -
  have "set (foldl (\<lambda>out s. if s \<in> set out then out else s # out) acc xs) = set acc \<union> set xs \<and>
      (distinct acc \<longrightarrow> distinct (foldl (\<lambda>out s. if s \<in> set out then out else s # out) acc xs))" for acc
    by (induction xs arbitrary: acc) auto
  from this [of "[]"] show ?thesis by (simp add: dedup_def)
qed

lemma pick_final_answer:
  assumes "pick_final mat m profile order now = (m', r)" "set order = dom (mg_sessions m profile)"
  shows "pick_answer (usable_set m profile now) mat r"
proof (cases "order = []")
  case True
  then have "usable_set m profile now = {}" using usables_set [OF assms(2), of now] by (simp add: usables_def map_filter_simps)
  with assms(1) True show ?thesis by (auto simp: pick_final_def pick_answer_def)
next
  case ne: False
  let ?us = "usables m profile order now" and ?paths = "concat (map (\<lambda>ss. sm_AllowPaths (ss_meta ss)) (usables m profile order now))"
  have U: "usable_set m profile now = set ?us" using usables_set [OF assms(2)] by simp
  show ?thesis
  proof (cases "most_recent (filter mat ?us)")
    case None
    then have f: "filter mat ?us = []" by simp
    then have r: "r = Inl (if ?paths = [] then ErrNoActiveSession else ErrScopeMismatch (dedup ?paths))"
      using None assms(1) ne
      by (simp only: pick_final_def Let_def usables_def [symmetric] if_False simp_thms option.case split: if_splits) auto
    have "\<forall>ss \<in> set ?us. \<not> mat ss" using f by (simp add: filter_empty_conv)
    then show ?thesis unfolding U r by (simp add: pick_answer_def dedup_set)
  next
    case (Some best)
    then have "filter mat ?us \<noteq> []" by auto
    then have r: "r = Inr (\<lparr>sa_addr = sm_SessionAddress (ss_meta best), sa_priv = sm_Privkey (ss_meta best)\<rparr>,
                               sm_MasterAddress (ss_meta best))"
      using assms(1) ne Some by (auto simp: pick_final_def Let_def usables_def [symmetric] split: if_splits)
    from most_recent_max [OF Some] show ?thesis unfolding U r by (auto simp: pick_answer_def)
  qed
qed

subsection \<open>The contract of the session store\<close>

text \<open>
  What the manager relies on, for the sessions of a healthy store: what was written is what is read
  back, and nothing else changes.
\<close>

locale session_disk =
  fixes wr :: store_write
    and rd :: "fsys \<Rightarrow> string \<Rightarrow> string \<Rightarrow> SessionMeta option"
    and healthy :: bool
  assumes read_back: "healthy \<Longrightarrow> wr fs profile meta = (fs', None) \<Longrightarrow>
      rd fs' profile (sm_SessionAddress meta) = Some (meta\<lparr>sm_Encrypted := False\<rparr>)"
    and untouched: "healthy \<Longrightarrow> wr fs profile meta = (fs', err) \<Longrightarrow> (q, b) \<noteq> (profile, sm_SessionAddress meta) \<Longrightarrow>
      rd fs' q b = rd fs q b"
begin

text \<open>After a persisted change the disk holds what memory holds.\<close>

definition synced :: "manager \<Rightarrow> string \<Rightarrow> string \<Rightarrow> bool" where
  "synced m profile addr \<longleftrightarrow>
     rd (mg_fs m) profile addr = map_option (\<lambda>ss. (ss_meta ss)\<lparr>sm_Encrypted := False\<rparr>) (getState m profile addr)"

lemma persist_synced:
  assumes "healthy" "sm_SessionAddress meta = addr"
    and "persist wr (setState m profile addr \<lparr>ss_state = st, ss_meta = meta\<rparr>) profile meta = (m', None)"
  shows "synced m' profile addr"
proof -
  obtain fs' where w: "wr (mg_fs m) profile meta = (fs', None)" "mg_fs m' = fs'"
    using assms(3) by (auto simp: persist_def setState_def split: prod.splits)
  from read_back [OF assms(1) w(1)] show ?thesis
    using w(2) assms(2) getState_persist' [OF assms(3)] by (simp add: synced_def)
qed

lemma persist_others:
  assumes "healthy" "sm_SessionAddress meta = addr" "(q, b) \<noteq> (profile, addr)" "synced m q b"
    and "persist wr (setState m profile addr ss) profile meta = (m', e)"
  shows "synced m' q b"
proof -
  obtain fs' where w: "wr (mg_fs m) profile meta = (fs', e)" "mg_fs m' = fs'"
    using assms(5) by (auto simp: persist_def setState_def split: prod.splits)
  from untouched [OF assms(1) w(1), of q b] assms(2-4) show ?thesis
    using w(2) getState_persist' [OF assms(5)] by (auto simp: synced_def)
qed

lemma UpdateSpend_synced:
  assumes "healthy" "keyed m" "UpdateSpend wr m profile addr gas = (m', None)"
  shows "synced m' profile addr" and "(q, b) \<noteq> (profile, addr) \<Longrightarrow> synced m q b \<Longrightarrow> synced m' q b"
proof -
  obtain ss d left meta where u: "getState m profile addr = Some ss" "ss_state ss = StateActive"
      "meta = (ss_meta ss)\<lparr>sm_SpendRemaining := show_int left @ d\<rparr>"
      "persist wr (setState m profile addr (ss\<lparr>ss_meta := meta\<rparr>)) profile meta = (m', None)"
    using assms(3) by (auto simp: UpdateSpend_def Let_def split: option.splits if_splits sum.splits prod.splits)
  have key: "sm_SessionAddress meta = addr" using assms(2) u by (simp add: keyed_def)
  have "ss\<lparr>ss_meta := meta\<rparr> = \<lparr>ss_state = StateActive, ss_meta = meta\<rparr>" using u(2) by simp
  with u(4) show "synced m' profile addr" using persist_synced [OF assms(1) key] by simp
  show "(q, b) \<noteq> (profile, addr) \<Longrightarrow> synced m q b \<Longrightarrow> synced m' q b"
    using persist_others [OF assms(1) key _ _ u(4)] by blast
qed

end

definition codec_ok :: "json_codec \<Rightarrow> bool" where
  "codec_ok j \<longleftrightarrow> (\<forall>m. jdec j (jenc j m) = Some m)"

definition store_healthy :: "store_io \<Rightarrow> aead \<Rightarrow> json_codec \<Rightarrow> bool" where
  "store_healthy io a j \<longleftrightarrow> aead_ok a \<and> codec_ok j \<and> \<not> HasSuffix (flt_tmp (sio_faults io)) ''.key'' \<and>
     (\<exists>s n. sio_salt io = Some s \<and> length s = saltLen \<and> sio_nonce io = Some n \<and> length n = nonceLen)"

definition read_session :: "aead \<Rightarrow> json_codec \<Rightarrow> session_store \<Rightarrow> fsys \<Rightarrow> string \<Rightarrow> string \<Rightarrow> SessionMeta option" where
  "read_session a j s fs profile addr =
     (case Store_Read fget a j s fs profile addr of Inl _ \<Rightarrow> None | Inr m \<Rightarrow> Some m)"

lemma st_file_suffix: "HasSuffix (st_file a) ''.key''"
  by (simp add: st_file_def HasSuffix_def)

lemma st_file_inj [simp]: "st_file a = st_file b \<longleftrightarrow> a = b"
  by (simp add: st_file_def)

lemma st_profileDir_inj [simp]: "st_profileDir s p = st_profileDir s q \<longleftrightarrow> p = q"
  by (simp add: st_profileDir_def)

lemma Store_Write_disk:
  assumes "Store_Write io a j s fs profile meta = (fs', err)"
  shows "fs' = fs \<and> err \<noteq> None \<or> (\<exists>m tr e. WriteFileAtomic (sio_faults io) fs (st_profileDir s profile) (st_file (sm_SessionAddress meta)) (jenc j m) = (tr, e) \<and>
     fs' = last tr \<and> err = map_option StWrite e \<and>
     (if st_passphrase s \<noteq> [] then \<exists>c. Encrypt a (sio_salt io) (sio_nonce io) (sm_Privkey meta) (st_passphrase s) = Inr c \<and>
        m = meta\<lparr>sm_Privkey := c, sm_Encrypted := True\<rparr>
      else m = meta\<lparr>sm_Encrypted := False\<rparr>))"
  using assms by (auto simp: Store_Write_def Let_def split: if_splits sum.splits prod.splits option.splits)

lemma Store_Write_Read:
  assumes h: "store_healthy io a j" and w: "Store_Write io a j s fs profile meta = (fs', None)"
  shows "Store_Read fget a j s fs' profile (sm_SessionAddress meta) = Inr (meta\<lparr>sm_Encrypted := False\<rparr>)"
proof -
  let ?n = "st_file (sm_SessionAddress meta)" and ?d = "st_profileDir s profile"
  have tmp: "?n \<noteq> flt_tmp (sio_faults io)"
    using h st_file_suffix unfolding store_healthy_def by metis
  obtain m tr where m: "WriteFileAtomic (sio_faults io) fs ?d ?n (jenc j m) = (tr, None)" "fs' = last tr"
      "if st_passphrase s \<noteq> [] then \<exists>c. Encrypt a (sio_salt io) (sio_nonce io) (sm_Privkey meta) (st_passphrase s) = Inr c \<and>
        m = meta\<lparr>sm_Privkey := c, sm_Encrypted := True\<rparr> else m = meta\<lparr>sm_Encrypted := False\<rparr>"
    using Store_Write_disk [OF w] by auto
  have "fget fs' ?d ?n = Some (jenc j m)" using atomic.success [OF tmp m(1)] m(2) by simp
  then have r: "Store_Read fget a j s fs' profile (sm_SessionAddress meta) = Store_decode a j s (jenc j m)"
    by (simp add: Store_Read_def)
  have j: "jdec j (jenc j m) = Some m" using h by (simp add: store_healthy_def codec_ok_def)
  show ?thesis
  proof (cases "st_passphrase s = []")
    case True
    then show ?thesis using m(3) j r by (simp add: Store_decode_def)
  next
    case False
    obtain sa no where sn: "sio_salt io = Some sa" "length sa = saltLen" "sio_nonce io = Some no" "length no = nonceLen" "aead_ok a"
      using h by (auto simp: store_healthy_def)
    obtain c where c: "Encrypt a (Some sa) (Some no) (sm_Privkey meta) (st_passphrase s) = Inr c"
        "m = meta\<lparr>sm_Privkey := c, sm_Encrypted := True\<rparr>"
      using m(3) False sn by auto
    have "Decrypt a c (st_passphrase s) = Inr (sm_Privkey meta)"
      using Decrypt_Encrypt [OF sn(5,2,4), of "sm_Privkey meta" "st_passphrase s"] c(1) by auto
    then show ?thesis using c(2) False j r by (simp add: Store_decode_def)
  qed
qed

lemma Store_Write_unread:
  assumes h: "store_healthy io a j" and w: "Store_Write io a j s fs profile meta = (fs', None)" and p: "st_passphrase s \<noteq> []"
  shows "Store_Read fget a j (s\<lparr>st_passphrase := []\<rparr>) fs' profile (sm_SessionAddress meta) = Inl StNeedsPassphrase"
proof -
  let ?n = "st_file (sm_SessionAddress meta)" and ?d = "st_profileDir s profile"
  have tmp: "?n \<noteq> flt_tmp (sio_faults io)"
    using h st_file_suffix unfolding store_healthy_def by metis
  obtain m tr where m: "WriteFileAtomic (sio_faults io) fs ?d ?n (jenc j m) = (tr, None)" "fs' = last tr" "sm_Encrypted m"
    using Store_Write_disk [OF w] p by auto
  have "fget fs' ?d ?n = Some (jenc j m)" using atomic.success [OF tmp m(1)] m(2) by simp
  moreover have "jdec j (jenc j m) = Some m" using h by (simp add: store_healthy_def codec_ok_def)
  ultimately show ?thesis using m(3) by (simp add: Store_Read_def Store_decode_def st_profileDir_def)
qed

interpretation disk: session_disk "Store_Write io a j s" "read_session a j s" "store_healthy io a j" for io a j s
proof
  fix fs profile meta fs'
  assume "store_healthy io a j" "Store_Write io a j s fs profile meta = (fs', None)"
  then show "read_session a j s fs' profile (sm_SessionAddress meta) = Some (meta\<lparr>sm_Encrypted := False\<rparr>)"
    by (simp add: read_session_def Store_Write_Read)
next
  fix fs profile meta fs' err q b
  assume h: "store_healthy io a j" and w: "Store_Write io a j s fs profile meta = (fs', err)"
    and ne: "(q, b) \<noteq> (profile, sm_SessionAddress meta)"
  let ?n = "st_file (sm_SessionAddress meta)"
  have tmp: "st_file c \<noteq> flt_tmp (sio_faults io)" for c
    using h st_file_suffix [of c] unfolding store_healthy_def by metis
  have "fget fs' (st_profileDir s q) (st_file b) = fget fs (st_profileDir s q) (st_file b)"
  proof (cases "fs' = fs")
    case False
    then obtain m tr e where t: "WriteFileAtomic (sio_faults io) fs (st_profileDir s profile) ?n (jenc j m) = (tr, e)" "fs' = last tr"
      using Store_Write_disk [OF w] by blast
    from atomic.last_state [OF tmp t(1)] tmp [of b] ne show ?thesis
      by (auto simp: same_but_def t(2))
  qed simp
  then show "read_session a j s fs' q b = read_session a j s fs q b"
    by (simp add: read_session_def Store_Read_def)
qed

subsection \<open>Promotion and choice\<close>

lemma promote_one_table:
  "getState (promote_one wr resolver profile (addr, master) m) q b =
     (case queryChain resolver profile master addr of
        None \<Rightarrow> getState m q b
      | Some res \<Rightarrow>
          if q = profile \<and> b = addr \<and> cc_Active res
          then map_option (\<lambda>ss. if ss_state ss = StatePending
                 then \<lparr>ss_state = StateActive, ss_meta = applyStatus (ss_meta ss) (cc_Status res)\<rparr> else ss) (getState m q b)
          else getState m q b)"
  by (auto simp: promote_one_def Let_def split: option.splits)

text \<open>Where a session of the table after some promotions comes from.\<close>

definition origin_ok :: "(string \<Rightarrow> session_query option) \<Rightarrow> string \<Rightarrow> string \<Rightarrow> session_state option \<Rightarrow> session_state option \<Rightarrow> bool" where
  "origin_ok resolver profile addr old cur \<longleftrightarrow>
     cur = old \<or> (\<exists>ss res. old = Some ss \<and> ss_state ss = StatePending \<and>
        queryChain resolver profile (sm_MasterAddress (ss_meta ss)) addr = Some res \<and> cc_Active res \<and>
        cur = Some \<lparr>ss_state = StateActive, ss_meta = applyStatus (ss_meta ss) (cc_Status res)\<rparr>)"

lemma Active_not_Pending [simp]: "StateActive \<noteq> StatePending" "StateExpired \<noteq> StateActive" "StatePending \<noteq> StateActive"
  by (simp_all add: StateActive_def StatePending_def StateExpired_def)

lemma promote_fold_origin:
  assumes "\<forall>(a, ms) \<in> set ps. \<exists>ss. getState m profile a = Some ss \<and> ms = sm_MasterAddress (ss_meta ss)"
    and "\<forall>b. origin_ok resolver profile b (getState m profile b) (getState m1 profile b)"
  shows "origin_ok resolver profile b (getState m profile b) (getState (fold (promote_one wr resolver profile) ps m1) profile b)"
  using assms
proof (induction ps arbitrary: m1)
  case (Cons p ps)
  obtain a ms where p: "p = (a, ms)" by force
  obtain ss where ss: "getState m profile a = Some ss" "ms = sm_MasterAddress (ss_meta ss)" using Cons.prems(1) p by auto
  have "origin_ok resolver profile c (getState m profile c) (getState (promote_one wr resolver profile p m1) profile c)" for c
    using Cons.prems(2) [rule_format, of c] ss unfolding p promote_one_table origin_ok_def
    by (cases "c = a") (auto split: option.splits)
  then show ?case using Cons.IH [of "promote_one wr resolver profile p m1"] Cons.prems(1) by simp
qed simp

lemma pending_snapshot_mem:
  "(a, ms) \<in> set (pending_snapshot m profile order) \<longleftrightarrow>
     a \<in> set order \<and> (\<exists>ss. getState m profile a = Some ss \<and> ss_state ss = StatePending \<and> ms = sm_MasterAddress (ss_meta ss))"
  by (auto simp: pending_snapshot_def map_filter_mem split: option.splits if_splits)

lemma promote_dom:
  "(getState (fold (promote_one wr resolver profile) ps m) q b = None) \<longleftrightarrow> (getState m q b = None)"
proof (induction ps arbitrary: m)
  case (Cons p ps)
  obtain a ms where "p = (a, ms)" by force
  then show ?case using Cons.IH [of "promote_one wr resolver profile p m"] by (simp add: promote_one_table split: option.splits)
qed simp

lemma dom_getState: "dom (mg_sessions m profile) = {a. getState m profile a \<noteq> None}"
  by (auto simp: getState_def)

lemma usable_after_expiry:
  "getState (expire_stale m profile now) profile a = Some ss \<and> usable now ss \<longleftrightarrow> getState m profile a = Some ss \<and> usable now ss"
  by (auto simp: getState_expire usable_def is_expired_def split: if_splits)

lemma pickSession_phases:
  assumes "pickSession wr resolver mat m profile order now = (m', r)" "set order = dom (mg_sessions m profile)"
  obtains m1 where "pick_final mat m1 profile order now = (m', r)" "set order = dom (mg_sessions m1 profile)"
    "\<forall>a. origin_ok resolver profile a (getState m profile a) (getState m1 profile a)"
    "usable_set m' profile now = usable_set m1 profile now"
proof -
  let ?m1 = "fold (promote_one wr resolver profile) (pending_snapshot m profile order) m"
  have f: "pick_final mat ?m1 profile order now = (m', r)" using assms(1) by (simp add: pickSession_def Let_def)
  have d: "set order = dom (mg_sessions ?m1 profile)" using assms(2) promote_dom unfolding dom_getState by simp
  have o: "\<forall>a. origin_ok resolver profile a (getState m profile a) (getState ?m1 profile a)"
    by (intro allI promote_fold_origin) (auto simp: pending_snapshot_mem origin_ok_def)
  have u: "usable_set m' profile now = usable_set ?m1 profile now"
    using pick_final_fst [of mat ?m1 profile order now] f usable_after_expiry [of ?m1 profile now]
    by (auto simp: usable_set_def split: if_splits)
  show thesis by (rule that [OF f d o u])
qed

lemma pickSession_answer:
  assumes "pickSession wr resolver mat m profile order now = (m', r)" "set order = dom (mg_sessions m profile)"
  shows "pick_answer (usable_set m' profile now) mat r"
  using pickSession_phases [OF assms] pick_final_answer by metis

lemma parseCoins_denom:
  assumes "parseCoins s = Inr (n, d)"
  shows "d \<noteq> [] \<and> \<not> is_digit (hd d)"
proof -
  have "d = dropWhile is_digit s" "d \<noteq> []"
    using assms by (auto simp: parseCoins_def Let_def dropWhile_eq_drop split: if_splits option.splits)
  then show ?thesis using hd_dropWhile [of is_digit s] by simp
qed

text \<open>What a scope covers: a path itself and what lies below it, not its textual extensions.\<close>

definition covers_spec :: "string list \<Rightarrow> string \<Rightarrow> bool" where
  "covers_spec paths realm \<longleftrightarrow> (\<exists>p \<in> set paths. realm = p \<or> (\<exists>rest. realm = p @ ''/'' @ rest))"

lemma coversRealm_spec: "coversRealm paths realm = covers_spec paths realm"
  by (auto simp: coversRealm_def covers_spec_def list_ex_iff HasPrefix_prefix prefix_def)

lemma hydrate_one_other:
  assumes "(q, b) \<noteq> (profile, sm_SessionAddress meta)"
  shows "getState (hydrate_one del resolver profile meta m) q b = getState m q b"
  using assms by (auto simp: hydrate_one_def getState_def insertState_def applyStatus_def split: option.splits)

lemma hydrate_fold_other:
  assumes "b \<notin> sm_SessionAddress ` set metas"
  shows "getState (fold (hydrate_one del resolver profile) metas m) profile b = getState m profile b"
  using assms
proof (induction metas arbitrary: m)
  case (Cons x xs)
  then show ?case using Cons.IH [of "hydrate_one del resolver profile x m"] hydrate_one_other [of profile b profile x del resolver m] by auto
qed simp

definition hydrated :: "(string \<Rightarrow> session_query option) \<Rightarrow> string \<Rightarrow> SessionMeta \<Rightarrow> session_state option" where
  "hydrated resolver profile meta =
     (case queryChain resolver profile (sm_MasterAddress meta) (sm_SessionAddress meta) of
        None \<Rightarrow> Some \<lparr>ss_state = sm_State meta, ss_meta = meta\<rparr>
      | Some res \<Rightarrow>
          if cc_Unsupported res then Some \<lparr>ss_state = sm_State meta, ss_meta = meta\<rparr>
          else if cc_Active res then Some \<lparr>ss_state = StateActive, ss_meta = applyStatus meta (cc_Status res)\<rparr>
          else None)"

lemma hydrate_one_entry:
  assumes "getState m profile (sm_SessionAddress meta) = None"
  shows "getState (hydrate_one del resolver profile meta m) profile (sm_SessionAddress meta) = hydrated resolver profile meta"
  using assms by (auto simp: hydrate_one_def hydrated_def getState_def insertState_def split: option.splits)

lemma hydrate_fold_entry:
  assumes "distinct (map sm_SessionAddress metas)" "meta \<in> set metas" "getState m profile (sm_SessionAddress meta) = None"
  shows "getState (fold (hydrate_one del resolver profile) metas m) profile (sm_SessionAddress meta) = hydrated resolver profile meta"
  using assms
proof (induction metas arbitrary: m)
  case (Cons x xs)
  show ?case
  proof (cases "x = meta")
    case True
    then have "sm_SessionAddress meta \<notin> sm_SessionAddress ` set xs" using Cons.prems(1) by auto
    with hydrate_fold_other [OF this, of del resolver profile "hydrate_one del resolver profile x m"] True
      hydrate_one_entry [OF Cons.prems(3)] show ?thesis by simp
  next
    case False
    then have m: "meta \<in> set xs" using Cons.prems(2) by simp
    then have "sm_SessionAddress meta \<noteq> sm_SessionAddress x" using Cons.prems(1) by (metis distinct.simps(2) image_eqI list.simps(9) set_map)
    then have "getState (hydrate_one del resolver profile x m) profile (sm_SessionAddress meta) = None"
      using hydrate_one_other [of profile "sm_SessionAddress meta" profile x] Cons.prems(3) by auto
    from Cons.IH [OF _ m this] Cons.prems(1) show ?thesis by simp
  qed
qed simp

text \<open>A file leaves the disk only when the chain denied the session it holds.\<close>

lemma hydrate_one_file:
  assumes "fget (mg_fs m) d n = Some data"
    and "fget (mg_fs (hydrate_one (Store_Delete rm s) resolver profile meta m)) d n \<noteq> Some data"
  shows "d = st_profileDir s profile \<and> n = st_file (sm_SessionAddress meta) \<and> hydrated resolver profile meta = None"
  using assms by (auto simp: hydrate_one_def hydrated_def insertState_def Store_Delete_def split: option.splits if_splits)

lemma hydrate_fold_file:
  assumes "fget (mg_fs m) d n = Some data"
    and "fget (mg_fs (fold (hydrate_one (Store_Delete rm s) resolver profile) metas m)) d n \<noteq> Some data"
  shows "d = st_profileDir s profile \<and> (\<exists>meta \<in> set metas. n = st_file (sm_SessionAddress meta) \<and> hydrated resolver profile meta = None)"
  using assms
proof (induction metas arbitrary: m)
  case (Cons x xs)
  let ?m = "hydrate_one (Store_Delete rm s) resolver profile x m"
  show ?case
  proof (cases "fget (mg_fs ?m) d n = Some data")
    case True
    from Cons.IH [OF True] Cons.prems(2) show ?thesis by auto
  next
    case False
    from hydrate_one_file [OF Cons.prems(1) False] show ?thesis by simp
  qed
qed simp

subsection \<open>Properties\<close>

text \<open>
  C30. The session store returns what it stored. On a healthy store (a JSON codec and an AEAD that
  round-trip, randomness available) a successful write is read back as the same session with the
  private key in clear; when the store has a passphrase, reading the file without one is refused
  instead of handing out ciphertext as a key; and every other session of every profile reads as
  before, also when the write failed.
\<close>

theorem Store_roundtrip:
  assumes "store_healthy io a j" "Store_Write io a j s fs profile meta = (fs', err)"
  shows "(err = None \<longrightarrow>
       Store_Read fget a j s fs' profile (sm_SessionAddress meta) = Inr (meta\<lparr>sm_Encrypted := False\<rparr>) \<and>
       (st_passphrase s \<noteq> [] \<longrightarrow>
          Store_Read fget a j (s\<lparr>st_passphrase := []\<rparr>) fs' profile (sm_SessionAddress meta) = Inl StNeedsPassphrase)) \<and>
    ((q, b) \<noteq> (profile, sm_SessionAddress meta) \<longrightarrow> read_session a j s fs' q b = read_session a j s fs q b)"
  using Store_Write_Read [OF assms(1)] Store_Write_unread [OF assms(1)] disk.untouched [OF assms] assms(2) by blast


definition demo_meta :: SessionMeta where
  "demo_meta = \<lparr>sm_Version = 1, sm_SessionAddress = ''g1s'', sm_SessionPubkey = ''pk'', sm_MasterAddress = ''g1m'',
     sm_Privkey = ''key'', sm_Encrypted = False, sm_AllowPaths = [''r/a''], sm_AllowRun = True, sm_SpendLimit = ''9ugnot'',
     sm_SpendRemaining = ''9ugnot'', sm_ExpiresAt = 100, sm_CreatedAt = 5, sm_State = StatePending\<rparr>"

definition demo_manager :: manager where
  "demo_manager = \<lparr>mg_sessions = (\<lambda>p. if p = ''dev'' then [''g1s'' \<mapsto> \<lparr>ss_state = StatePending, ss_meta = demo_meta\<rparr>] else Map.empty),
     mg_fs = Map.empty\<rparr>"

definition demo_status :: SessionStatus where
  "demo_status = \<lparr>ses_Active = True, ses_AllowPaths = [''r/a''], ses_AllowRun = True, ses_SpendLimit = ''9ugnot'',
     ses_SpendRemaining = ''8ugnot'', ses_ExpiresAt = 100\<rparr>"

definition demo_resolver :: "string \<Rightarrow> session_query option" where
  "demo_resolver p = Some (\<lambda>master addr. if master = ''g1m'' then QStatus demo_status else QStatus (demo_status\<lparr>ses_Active := False\<rparr>))"


definition demo_io :: store_io where
  "demo_io = \<lparr>sio_faults = no_faults ''.tmp-1'', sio_salt = Some (replicate 16 (CHR ''s'')), sio_nonce = Some (replicate 12 (CHR ''n''))\<rparr>"

text \<open>A codec with the round-trip law, for the witnesses: fields as escaped strings, in order.\<close>

definition esc :: "string \<Rightarrow> string" where
  "esc s = concat (map (\<lambda>c. [CHR ''x'', c]) s) @ ''.''"

fun unesc :: "string \<Rightarrow> string list" where
  "unesc (x # c # r) =
     (if x = CHR ''x'' then (case unesc r of [] \<Rightarrow> [[c]] | s # ss \<Rightarrow> (c # s) # ss) else [] # unesc (c # r))"
| "unesc [x] = [[]]"
| "unesc [] = []"

definition int_of_string :: "string \<Rightarrow> int" where
  "int_of_string s = (if s \<noteq> [] \<and> hd s = CHR ''-'' then - int (digits_val (tl s)) else int (digits_val s))"

definition meta_fields :: "SessionMeta \<Rightarrow> string list" where
  "meta_fields m = [show_int (sm_Version m), sm_SessionAddress m, sm_SessionPubkey m, sm_MasterAddress m, sm_Privkey m,
     (if sm_Encrypted m then ''y'' else []), (if sm_AllowRun m then ''y'' else []), sm_SpendLimit m, sm_SpendRemaining m,
     show_int (sm_ExpiresAt m), show_int (sm_CreatedAt m), sm_State m] @ sm_AllowPaths m"

definition meta_of_fields :: "string list \<Rightarrow> SessionMeta option" where
  "meta_of_fields fs =
     (case fs of
        v # a # pk # ms # k # e # r # sl # sr # ex # cr # st # paths \<Rightarrow>
          Some \<lparr>sm_Version = int_of_string v, sm_SessionAddress = a, sm_SessionPubkey = pk, sm_MasterAddress = ms,
            sm_Privkey = k, sm_Encrypted = (e \<noteq> []), sm_AllowPaths = paths, sm_AllowRun = (r \<noteq> []), sm_SpendLimit = sl,
            sm_SpendRemaining = sr, sm_ExpiresAt = int_of_string ex, sm_CreatedAt = int_of_string cr, sm_State = st\<rparr>
      | _ \<Rightarrow> None)"

definition demo_codec :: json_codec where
  "demo_codec = \<lparr>jenc = (\<lambda>m. concat (map esc (meta_fields m))), jdec = (\<lambda>b. meta_of_fields (unesc b))\<rparr>"

lemma unesc_dot: "unesc (CHR ''.'' # r) = [] # unesc r"
  by (cases r) auto

lemma unesc_esc: "unesc (esc s @ r) = s # unesc r"
  by (induction s) (auto simp: esc_def unesc_dot)

lemma unesc_concat: "unesc (concat (map esc xs)) = xs"
  by (induction xs) (simp_all add: unesc_esc)

lemma int_of_show [simp]: "int_of_string (show_int i) = i"
proof -
  have "hd (show_nat n) \<noteq> CHR ''-''" for n
    using show_nat_digits [of n] show_nat_nonempty [of n] by (cases "show_nat n") (auto simp: is_digit_def)
  then show ?thesis by (auto simp: int_of_string_def show_int_def)
qed

lemma demo_codec_ok: "codec_ok demo_codec"
  by (simp add: codec_ok_def demo_codec_def unesc_concat) (simp add: meta_fields_def meta_of_fields_def)

definition demo_store :: session_store where
  "demo_store = \<lparr>st_rootDir = ''/s'', st_passphrase = ''pw''\<rparr>"

lemma demo_healthy: "store_healthy demo_io demo_aead demo_codec"
  by (simp add: store_healthy_def demo_io_def demo_codec_ok aead_ok_def demo_aead_def saltLen_def nonceLen_def no_faults_def HasSuffix_def)

lemma demo_write_ok: "snd (Store_Write demo_io demo_aead demo_codec demo_store Map.empty ''dev'' demo_meta) = None"
  by code_simp

theorem Store_roundtrip_witness:
  "Store_Read fget demo_aead demo_codec demo_store
     (fst (Store_Write demo_io demo_aead demo_codec demo_store Map.empty ''dev'' demo_meta)) ''dev'' ''g1s'' = Inr demo_meta"
  using Store_roundtrip [OF demo_healthy prod.collapse [symmetric], of demo_store Map.empty "''dev''" demo_meta] demo_write_ok
  by (simp add: demo_meta_def)

text \<open>
  A session signs only with the chain's consent. Whoever \<open>PickSessionForRun\<close> lets sign was in the
  table before under that address, keeps the identity it was created with, and either was already
  active there or was pending and has just been reported active by the chain, under the master it
  was proposed to, with the right to run taken from the chain's answer.
\<close>

theorem PickSessionForRun_confirmed:
  assumes "PickSessionForRun wr resolver m profile order now = (m', Inr (signer, master))" "set order = dom (mg_sessions m profile)"
  shows "\<exists>addr ss. getState m profile addr = Some ss \<and> sa_addr signer = sm_SessionAddress (ss_meta ss) \<and>
     sa_priv signer = sm_Privkey (ss_meta ss) \<and> master = sm_MasterAddress (ss_meta ss) \<and>
     (ss_state ss = StateActive \<and> sm_AllowRun (ss_meta ss) \<or>
      ss_state ss = StatePending \<and> (\<exists>query st. resolver profile = Some query \<and> query master addr = QStatus st \<and> ses_Active st \<and> ses_AllowRun st))"
proof -
  obtain m1 where p: "pick_final (\<lambda>ss. sm_AllowRun (ss_meta ss)) m1 profile order now = (m', Inr (signer, master))"
      "set order = dom (mg_sessions m1 profile)" "\<forall>a. origin_ok resolver profile a (getState m profile a) (getState m1 profile a)"
      "usable_set m' profile now = usable_set m1 profile now"
    by (rule pickSession_phases [OF assms [unfolded PickSessionForRun_def]])
  then obtain addr cur where c: "getState m1 profile addr = Some cur" "usable now cur" "sm_AllowRun (ss_meta cur)"
      "signer = \<lparr>sa_addr = sm_SessionAddress (ss_meta cur), sa_priv = sm_Privkey (ss_meta cur)\<rparr>" "master = sm_MasterAddress (ss_meta cur)"
    using pick_final_answer [OF p(1,2)] by (auto simp: pick_answer_def usable_set_def)
  from p(3) [rule_format, of addr] consider "getState m profile addr = Some cur"
    | ss res where "getState m profile addr = Some ss" "ss_state ss = StatePending"
        "queryChain resolver profile (sm_MasterAddress (ss_meta ss)) addr = Some res" "cc_Active res"
        "cur = \<lparr>ss_state = StateActive, ss_meta = applyStatus (ss_meta ss) (cc_Status res)\<rparr>"
    unfolding origin_ok_def c(1) by auto
  then show ?thesis
  proof cases
    case 1
    then show ?thesis using c by (auto simp: usable_def)
  next
    case 2
    then show ?thesis using c
      by (intro exI [of _ addr] exI [of _ ss])
         (auto simp: queryChain_def applyStatus_def split: option.splits if_splits query_answer.splits)
  qed
qed

theorem PickSessionForRun_confirmed_witness:
  "\<exists>signer master. snd (PickSessionForRun (\<lambda>fs p m. (fs, None)) demo_resolver demo_manager ''dev'' [''g1s''] 50) = Inr (signer, master) \<and>
     (\<exists>addr ss. getState demo_manager ''dev'' addr = Some ss \<and> sa_priv signer = sm_Privkey (ss_meta ss))"
proof -
  let ?r = "PickSessionForRun (\<lambda>fs p m. (fs, None)) demo_resolver demo_manager ''dev'' [''g1s''] 50"
  have "snd ?r = Inr (\<lparr>sa_addr = ''g1s'', sa_priv = ''key''\<rparr>, ''g1m'')" by code_simp
  then have r: "?r = (fst ?r, Inr (\<lparr>sa_addr = ''g1s'', sa_priv = ''key''\<rparr>, ''g1m''))" by (metis prod.collapse)
  have "set [''g1s''] = dom (mg_sessions demo_manager ''dev'')" by (simp add: demo_manager_def)
  from PickSessionForRun_confirmed [OF r this] obtain addr ss where
    "getState demo_manager ''dev'' addr = Some ss" "''key'' = sm_Privkey (ss_meta ss)" by auto
  then show ?thesis
    using arg_cong [OF r, of snd]
    by (intro exI [of _ "\<lparr>sa_addr = ''g1s'', sa_priv = ''key''\<rparr>"] exI [of _ "''g1m''"]) auto
qed

text \<open>
  C9. A session never changes hands. Whatever locked sections of the manager run, in any order and with
  any disk and any chain answers, a session once in the table stays there with the address, public
  and private key, master and creation time it was added with.
\<close>

theorem session_identity_stable:
  assumes "mgr_step\<^sup>*\<^sup>* m m'" "getState m profile addr = Some ss"
  shows "\<exists>ss'. getState m' profile addr = Some ss' \<and> identity_of ss' = identity_of ss"
  using mgr_steps_keep [OF assms(1)] assms(2) by (simp add: keeps_def)

theorem session_identity_stable_witness:
  "\<exists>ss'. getState (fst (MarkInactive (\<lambda>fs p m. (fs, None)) demo_manager ''dev'' ''g1s'' StateRevoked)) ''dev'' ''g1s'' = Some ss' \<and>
     identity_of ss' = (''g1s'', ''pk'', ''g1m'', ''key'', 5)"
proof -
  have "getState demo_manager ''dev'' ''g1s'' = Some \<lparr>ss_state = StatePending, ss_meta = demo_meta\<rparr>"
    by (simp add: getState_def demo_manager_def)
  from session_identity_stable [OF r_into_rtranclp [of mgr_step, OF step_inactive [OF prod.collapse [symmetric]]] this]
  show ?thesis by (simp add: identity_of_def demo_meta_def)
qed

text \<open>
  Spend is counted down and recorded. When \<open>UpdateSpend\<close> succeeds the session was active with
  some amount left, what is left afterwards is that amount less the fee and never below zero, in
  the same denomination; no other session and no other field of this one changes; and on a healthy
  store the disk then holds exactly the session memory holds.
\<close>

theorem UpdateSpend_accounts:
  assumes "UpdateSpend wr m profile addr fee = (m', None)" "0 \<le> fee" "fee \<le> MaxInt64"
  shows "\<exists>ss left denom. getState m profile addr = Some ss \<and> ss_state ss = StateActive \<and>
      parseCoins (sm_SpendRemaining (ss_meta ss)) = Inr (left, denom) \<and>
      getState m' profile addr = Some (ss\<lparr>ss_meta := (ss_meta ss)\<lparr>sm_SpendRemaining := show_int (max 0 (left - fee)) @ denom\<rparr>\<rparr>) \<and>
      parseCoins (show_int (max 0 (left - fee)) @ denom) = Inr (max 0 (left - fee), denom) \<and>
      (\<forall>q b. (q, b) \<noteq> (profile, addr) \<longrightarrow> getState m' q b = getState m q b) \<and>
      (store_healthy io a j \<and> keyed m \<and> wr = Store_Write io a j s \<longrightarrow>
         read_session a j s (mg_fs m') profile addr = map_option (\<lambda>ss. (ss_meta ss)\<lparr>sm_Encrypted := False\<rparr>) (getState m' profile addr))"
proof -
  obtain ss left denom where u: "getState m profile addr = Some ss" "ss_state ss = StateActive"
      "parseCoins (sm_SpendRemaining (ss_meta ss)) = Inr (left, denom)"
    using assms(1) by (auto simp: UpdateSpend_def split: option.splits if_splits sum.splits prod.splits)
  note r = parseCoins_Inr [OF u(3)]
  have i: "i64 (left - fee) = left - fee" using r assms(2,3) by (intro i64_id) (auto simp: in_i64_def MaxInt64_def MinInt64_def)
  have mx: "(if left < fee then 0 else left - fee) = max 0 (left - fee)" by simp
  obtain fs where st: "m' = (setState m profile addr (ss\<lparr>ss_meta := (ss_meta ss)\<lparr>sm_SpendRemaining := show_int (max 0 (left - fee)) @ denom\<rparr>\<rparr>))\<lparr>mg_fs := fs\<rparr>"
    using assms(1) u by (auto simp: UpdateSpend_def Let_def i mx persist_def split: prod.splits cong: if_cong)
  have g: "getState m' q b = (if q = profile \<and> b = addr
      then Some (ss\<lparr>ss_meta := (ss_meta ss)\<lparr>sm_SpendRemaining := show_int (max 0 (left - fee)) @ denom\<rparr>\<rparr>) else getState m q b)" for q b
    by (simp add: st getState_def setState_def)
  have p: "parseCoins (show_int (max 0 (left - fee)) @ denom) = Inr (max 0 (left - fee), denom)"
    using r assms(2) parseCoins_denom [OF u(3)] by (intro parseCoins_render) auto
  have d: "store_healthy io a j \<and> keyed m \<and> wr = Store_Write io a j s \<longrightarrow>
      read_session a j s (mg_fs m') profile addr = map_option (\<lambda>ss. (ss_meta ss)\<lparr>sm_Encrypted := False\<rparr>) (getState m' profile addr)"
    using disk.UpdateSpend_synced(1) [of io a j m s profile addr fee m'] assms(1) unfolding disk.synced_def by blast
  show ?thesis using u g p d by (intro exI conjI) (auto simp: g)
qed

theorem UpdateSpend_accounts_witness:
  "\<exists>ss. getState (fst (UpdateSpend (\<lambda>fs p m. (fs, None)) (insertState demo_manager ''dev'' demo_meta StateActive) ''dev'' ''g1s'' 4)) ''dev'' ''g1s'' = Some ss \<and>
     sm_SpendRemaining (ss_meta ss) = ''5ugnot''"
proof -
  let ?m = "insertState demo_manager ''dev'' demo_meta StateActive"
  have "snd (UpdateSpend (\<lambda>fs p m. (fs, None)) ?m ''dev'' ''g1s'' 4) = None" by code_simp
  then have r: "UpdateSpend (\<lambda>fs p m. (fs, None)) ?m ''dev'' ''g1s'' 4 = (fst (UpdateSpend (\<lambda>fs p m. (fs, None)) ?m ''dev'' ''g1s'' 4), None)"
    by (metis prod.collapse)
  have c: "parseCoins ''9ugnot'' = Inr (9, ''ugnot'')" by code_simp
  have d: "show_int 5 = ''5''" by code_simp
  have "getState ?m ''dev'' ''g1s'' = Some \<lparr>ss_state = StateActive, ss_meta = demo_meta\<rparr>"
    by (simp add: demo_meta_def)
  with UpdateSpend_accounts [OF r] c d show ?thesis by (auto simp: MaxInt64_def demo_meta_def)
qed

text \<open>
  Start-up neither loses nor resurrects sessions. After \<open>Hydrate\<close> of a profile with distinct
  session addresses, every stored session is in the table exactly as the chain's answer dictates:
  as stored when there is no client for the profile or the client cannot tell, active with the
  chain's scope when it confirms the session, and absent when the query answers inactive or fails
  outright. A file that was on the disk and is gone afterwards belongs to a session of that profile
  with such an answer.
\<close>

theorem Hydrate_follows_chain:
  assumes "Hydrate lst (Store_Delete rm s) resolver m [profile] = (m', None)" "lst (mg_fs m) profile = Inr metas"
    and "distinct (map sm_SessionAddress metas)" "\<forall>addr. getState m profile addr = None"
  shows "(\<forall>meta \<in> set metas. getState m' profile (sm_SessionAddress meta) = hydrated resolver profile meta) \<and>
    (\<forall>addr. addr \<notin> sm_SessionAddress ` set metas \<longrightarrow> getState m' profile addr = None) \<and>
    (\<forall>d n data. fget (mg_fs m) d n = Some data \<and> fget (mg_fs m') d n \<noteq> Some data \<longrightarrow>
       d = st_profileDir s profile \<and> (\<exists>meta \<in> set metas. n = st_file (sm_SessionAddress meta) \<and> hydrated resolver profile meta = None))"
proof -
  have m': "m' = fold (hydrate_one (Store_Delete rm s) resolver profile) metas m" using assms(1,2) by simp
  have e: "\<forall>meta \<in> set metas. getState m' profile (sm_SessionAddress meta) = hydrated resolver profile meta"
    unfolding m' using hydrate_fold_entry [OF assms(3)] assms(4) by blast
  have o: "\<forall>addr. addr \<notin> sm_SessionAddress ` set metas \<longrightarrow> getState m' profile addr = None"
    unfolding m' using hydrate_fold_other [of _ metas] assms(4) by simp
  from e o hydrate_fold_file [of m _ _ _ rm s resolver profile metas, folded m'] show ?thesis by blast
qed

theorem Hydrate_follows_chain_witness:
  "getState (fst (Hydrate (\<lambda>fs p. Inr [demo_meta]) (Store_Delete False demo_store) demo_resolver
      \<lparr>mg_sessions = (\<lambda>p. Map.empty), mg_fs = Map.empty\<rparr> [''dev''])) ''dev'' ''g1s'' =
    Some \<lparr>ss_state = StateActive, ss_meta = applyStatus demo_meta demo_status\<rparr>"
proof -
  let ?m = "\<lparr>mg_sessions = (\<lambda>p. Map.empty), mg_fs = Map.empty\<rparr>"
  have "snd (Hydrate (\<lambda>fs p. Inr [demo_meta]) (Store_Delete False demo_store) demo_resolver ?m [''dev'']) = None" by simp
  then have r: "Hydrate (\<lambda>fs p. Inr [demo_meta]) (Store_Delete False demo_store) demo_resolver ?m [''dev''] =
     (fst (Hydrate (\<lambda>fs p. Inr [demo_meta]) (Store_Delete False demo_store) demo_resolver ?m [''dev'']), None)"
    by (metis prod.collapse)
  have "hydrated demo_resolver ''dev'' demo_meta = Some \<lparr>ss_state = StateActive, ss_meta = applyStatus demo_meta demo_status\<rparr>"
    by (simp add: hydrated_def queryChain_def demo_resolver_def demo_meta_def demo_status_def)
  with Hydrate_follows_chain [OF r, of "[demo_meta]"] show ?thesis by (auto simp: demo_meta_def getState_def)
qed

end
