(* ===== verification/Chain.thy ===== *)
theory Chain
  imports Gas_Price Session
begin

section \<open>The chain client: internal/chain/real.go, client.go, path.go, package.go, vmparams.go, gnokeycmd.go\<close>

text \<open>
  \<open>Real\<close> talks to a node. A call is a function from the requests sent so far to the requests sent
  after it and a result (\<open>rpc\<close>); what the node answers may depend on all earlier requests, so
  nothing is assumed about two answers being equal. The node, the tm2 and gno.land libraries and
  the signers are the records \<open>node\<close>, \<open>lib\<close> and \<open>signer\<close>. The pipelines of session-signed and
  agent-signed writes are the functions \<open>asUserTx\<close> and \<open>agentMeasure\<close> with their callers.
\<close>

subsection \<open>Transactions\<close>

type_synonym addr = string
type_synonym coins = "(string \<times> int64) list"
type_synonym mem_file = "string \<times> string"

datatype msg =
    MsgCall addr coins string string "string list"
  | MsgRun addr "mem_file list"
  | MsgAddPackage addr string "mem_file list" coins
  | MsgSend addr addr coins

record utx =
  tx_fee :: "string \<times> int64"
  tx_gas :: int64
  tx_msgs :: "msg list"

record signature =
  sig_pubkey :: bytes
  sig_bytes :: bytes
  sig_session :: "addr option"

record stx =
  stx_tx :: utx
  stx_sigs :: "signature list"

record session_account =
  sac_AccountNumber :: int
  sac_Sequence :: int
  sac_AllowPaths :: "string list"
  sac_SpendLimit :: coins
  sac_SpendUsed :: coins
  sac_ExpiresAt :: int64

record sim_result =
  sim_error :: "string option"
  sim_log :: string
  sim_GasUsed :: int64
  sim_Data :: bytes

record commit =
  cm_Hash :: bytes
  cm_Height :: int64
  cm_Data :: bytes
  cm_GasUsed :: int64

record account_info =
  ai_Coins :: coins
  ai_Sequence :: int
  ai_AccountNumber :: int
  ai_Exists :: bool

datatype event =
    EvQuery string bytes
  | EvSimulate stx
  | EvBroadcast stx
  | EvAgentTx addr base_tx_cfg msg

record node =
  nd_query :: "event list \<Rightarrow> string \<Rightarrow> bytes \<Rightarrow> string + bytes"
  nd_simulate :: "event list \<Rightarrow> stx \<Rightarrow> string + sim_result"
  nd_broadcast :: "event list \<Rightarrow> stx \<Rightarrow> string + commit"
  nd_agent_tx :: "event list \<Rightarrow> addr \<Rightarrow> base_tx_cfg \<Rightarrow> msg \<Rightarrow> string + commit"
  nd_now :: "event list \<Rightarrow> int64"

record PackageMeta =
  pm_Status :: string
  pm_Reason :: string
  pm_Pending :: bool

record lib =
  lib_addr :: "string \<Rightarrow> addr option"
  lib_new_tx :: "base_tx_cfg \<Rightarrow> msg \<Rightarrow> string + utx"
  lib_sign_bytes :: "utx \<Rightarrow> string \<Rightarrow> int \<Rightarrow> int \<Rightarrow> string + bytes"
  lib_spend :: "msg \<Rightarrow> addr \<Rightarrow> coins option"
  lib_add :: "coins \<Rightarrow> coins \<Rightarrow> coins"
  lib_check :: "session_account \<Rightarrow> coins \<Rightarrow> int64 \<Rightarrow> string option"
  lib_decode_session :: "bytes \<Rightarrow> string + session_account"
  lib_sub :: "coins \<Rightarrow> coins \<Rightarrow> coins"
  lib_coins_string :: "coins \<Rightarrow> string"
  lib_parse_coins :: "string \<Rightarrow> string + coins"
  lib_gas_price :: "bytes \<Rightarrow> string + gas_price"
  lib_amount_of :: "coins \<Rightarrow> string \<Rightarrow> int64"
  lib_hex :: "bytes \<Rightarrow> string"
  lib_json_meta :: "bytes \<Rightarrow> string + PackageMeta"
  lib_json_string :: "bytes \<Rightarrow> string + string option"
  lib_json_strings :: "bytes \<Rightarrow> string + string list"
  lib_valid_utf8 :: "bytes \<Rightarrow> bytes"

text \<open>A session signer (\<open>chain.Signer\<close>) and an agent signer (\<open>gnoclient.Signer\<close>).\<close>

record signer =
  sn_Address :: string
  sn_Pubkey :: bytes
  sn_Sign :: "bytes \<Rightarrow> string + bytes"

record agent_signer =
  as_Info :: "string + addr"
  as_SignTx :: "utx \<Rightarrow> string + stx"

datatype meta_error = MetaUnmarshal string | MetaNoStatus bytes

datatype chain_error =
    SignerRequired
  | MasterRequired
  | BadMaster string
  | BadSession string
  | AccountQuery string
  | AccountDecode string
  | NoSuchSession
  | BuildTx string
  | SpendCheck coins coins coins string
  | SignErr string
  | PubkeyLength nat
  | SimulateErr string
  | FeeErr fee_error
  | BroadcastErr string
  | SignerInfoErr string
  | BadRecipient string
  | AmountNotPositive int64
  | ParseSend string string
  | FileNameEmpty
  | QueryErr string
  | DecodeErr meta_error
  | ErrSimulateUnsupported

subsection \<open>Calls in sequence\<close>

type_synonym 'a rpc = "event list \<Rightarrow> event list \<times> (chain_error + 'a)"

definition ret :: "'a \<Rightarrow> 'a rpc" where "ret x = (\<lambda>h. (h, Inr x))"
definition failE :: "chain_error \<Rightarrow> 'a rpc" where "failE e = (\<lambda>h. (h, Inl e))"

definition bindE :: "'a rpc \<Rightarrow> ('a \<Rightarrow> 'b rpc) \<Rightarrow> 'b rpc" where
  "bindE m f = (\<lambda>h. case m h of (h', Inl e) \<Rightarrow> (h', Inl e) | (h', Inr x) \<Rightarrow> f x h')"

definition lift_sum :: "('x \<Rightarrow> chain_error) \<Rightarrow> 'x + 'a \<Rightarrow> 'a rpc" where
  "lift_sum g r = (case r of Inl e \<Rightarrow> failE (g e) | Inr x \<Rightarrow> ret x)"

definition lift_opt :: "chain_error \<Rightarrow> 'a option \<Rightarrow> 'a rpc" where
  "lift_opt e r = (case r of None \<Rightarrow> failE e | Some x \<Rightarrow> ret x)"

definition guardE :: "(event list \<Rightarrow> chain_error option) \<Rightarrow> unit rpc" where
  "guardE c = (\<lambda>h. case c h of None \<Rightarrow> (h, Inr ()) | Some e \<Rightarrow> (h, Inl e))"

text \<open>Sending a request: it is recorded, then the node answers in view of what came before.\<close>

definition request :: "event \<Rightarrow> (event list \<Rightarrow> 'x + 'a) \<Rightarrow> ('x \<Rightarrow> chain_error) \<Rightarrow> 'a rpc" where
  "request ev ans g = (\<lambda>h. (h @ [ev], case ans h of Inl e \<Rightarrow> Inl (g e) | Inr x \<Rightarrow> Inr x))"

definition query :: "node \<Rightarrow> string \<Rightarrow> bytes \<Rightarrow> bytes rpc" where
  "query nd path data = request (EvQuery path data) (\<lambda>h. nd_query nd h path data) QueryErr"

definition gas_fee :: "node \<Rightarrow> lib \<Rightarrow> int64 \<Rightarrow> int64 rpc" where
  "gas_fee nd l gasWanted =
     request (EvQuery QueryPath []) (\<lambda>h. currentGasFee (\<lambda>p. nd_query nd h p []) (lib_gas_price l) gasWanted) FeeErr"

subsection \<open>Session accounts\<close>

definition session_path :: "addr \<Rightarrow> addr \<Rightarrow> string" where
  "session_path master sessionAddr = ''auth/accounts/'' @ master @ ''/session/'' @ sessionAddr"

definition querySessionAccount :: "node \<Rightarrow> lib \<Rightarrow> addr \<Rightarrow> addr \<Rightarrow> session_account rpc" where
  "querySessionAccount nd l master sessionAddr =
     bindE (request (EvQuery (session_path master sessionAddr) []) (\<lambda>h. nd_query nd h (session_path master sessionAddr) []) AccountQuery) (\<lambda>data.
       if data = [] \<or> data = ''null'' then failE NoSuchSession
       else lift_sum AccountDecode (lib_decode_session l data))"

definition tx_outflow :: "lib \<Rightarrow> utx \<Rightarrow> addr \<Rightarrow> coins" where
  "tx_outflow l tx master =
     foldl (\<lambda>total m. case lib_spend l m master of None \<Rightarrow> total | Some c \<Rightarrow> lib_add l total c)
       (if snd (tx_fee tx) \<noteq> 0 then lib_add l [] [tx_fee tx] else []) (tx_msgs tx)"

definition checkSessionSpendForTx :: "lib \<Rightarrow> session_account \<Rightarrow> utx \<Rightarrow> addr \<Rightarrow> int64 \<Rightarrow> chain_error option" where
  "checkSessionSpendForTx l acc tx master nowUnix =
     (let total = tx_outflow l tx master
      in case lib_check l acc total nowUnix of
           None \<Rightarrow> None
         | Some e \<Rightarrow> Some (SpendCheck total (sac_SpendLimit acc) (sac_SpendUsed acc) e))"

definition PubKeyEd25519Size :: nat where "PubKeyEd25519Size = 32"

definition signTxForSession :: "lib \<Rightarrow> string \<Rightarrow> utx \<Rightarrow> signer \<Rightarrow> session_account \<Rightarrow> addr \<Rightarrow> stx rpc" where
  "signTxForSession l chainID tx sg acc sessionAddr =
     bindE (lift_sum SignErr (lib_sign_bytes l tx chainID (sac_AccountNumber acc) (sac_Sequence acc))) (\<lambda>signBytes.
     bindE (lift_sum SignErr (sn_Sign sg signBytes)) (\<lambda>sig.
       if length (sn_Pubkey sg) \<noteq> PubKeyEd25519Size then failE (PubkeyLength (length (sn_Pubkey sg)))
       else ret \<lparr>stx_tx = tx, stx_sigs = [\<lparr>sig_pubkey = sn_Pubkey sg, sig_bytes = sig, sig_session = Some sessionAddr\<rparr>]\<rparr>))"

definition dryRun :: "node \<Rightarrow> stx \<Rightarrow> sim_result rpc" where
  "dryRun nd tx =
     bindE (request (EvSimulate tx) (\<lambda>h. nd_simulate nd h tx) SimulateErr) (\<lambda>res.
       case sim_error res of
         None \<Rightarrow> ret res
       | Some e \<Rightarrow> failE (SimulateErr (''error encountered during simulation: log:'' @ sim_log res @ '': '' @ e)))"

subsection \<open>Session-signed writes\<close>

record txOutcome =
  to_Simulated :: bool
  to_TxHash :: string
  to_Height :: int64
  to_Data :: string
  to_GasUsed :: int64
  to_GasWanted :: int64
  to_GasFeeUgnot :: int64

text \<open>
  The measuring leg and the pricing of the delivery leg: everything up to the point where a simulation
  returns and a real write signs and broadcasts.
\<close>

record priced_tx =
  pt_signer :: signer
  pt_acc :: session_account
  pt_session :: addr
  pt_deliver :: sim_result
  pt_gas :: int64
  pt_fee :: int64
  pt_tx :: utx

definition measure_and_price ::
  "node \<Rightarrow> lib \<Rightarrow> string \<Rightarrow> signer option \<Rightarrow> string \<Rightarrow> (addr \<Rightarrow> base_tx_cfg \<Rightarrow> string + utx) \<Rightarrow> priced_tx rpc" where
  "measure_and_price nd l chainID sgo master buildTx =
     bindE (lift_opt SignerRequired sgo) (\<lambda>sg.
     bindE (if master = [] then failE MasterRequired else ret ()) (\<lambda>_.
     bindE (lift_opt (BadMaster master) (lib_addr l master)) (\<lambda>masterAddr.
     bindE (lift_opt (BadSession (sn_Address sg)) (lib_addr l (sn_Address sg))) (\<lambda>sessionAddr.
     bindE (querySessionAccount nd l masterAddr sessionAddr) (\<lambda>acc.
     bindE (lift_sum BuildTx (buildTx masterAddr (baseTxCfg DefaultGasFeeUgnot gasEstimateCeiling))) (\<lambda>measureTx.
     bindE (guardE (\<lambda>h. checkSessionSpendForTx l acc measureTx masterAddr (nd_now nd h))) (\<lambda>_.
     bindE (signTxForSession l chainID measureTx sg acc sessionAddr) (\<lambda>signedMeasure.
     bindE (dryRun nd signedMeasure) (\<lambda>deliver.
     let gasWanted = gasWantedFor (sim_GasUsed deliver) in
     bindE (gas_fee nd l gasWanted) (\<lambda>fee.
     bindE (lift_sum BuildTx (buildTx masterAddr (baseTxCfg fee gasWanted))) (\<lambda>finalTx.
     bindE (guardE (\<lambda>h. checkSessionSpendForTx l acc finalTx masterAddr (nd_now nd h))) (\<lambda>_.
     ret \<lparr>pt_signer = sg, pt_acc = acc, pt_session = sessionAddr, pt_deliver = deliver, pt_gas = gasWanted,
          pt_fee = fee, pt_tx = finalTx\<rparr>))))))))))))"

definition asUserTx ::
  "node \<Rightarrow> lib \<Rightarrow> string \<Rightarrow> signer option \<Rightarrow> string \<Rightarrow> (addr \<Rightarrow> base_tx_cfg \<Rightarrow> string + utx) \<Rightarrow> bool \<Rightarrow> txOutcome rpc" where
  "asUserTx nd l chainID sgo master buildTx simulate =
     bindE (measure_and_price nd l chainID sgo master buildTx) (\<lambda>p.
     if simulate then
       ret \<lparr>to_Simulated = True, to_TxHash = [], to_Height = 0, to_Data = sim_Data (pt_deliver p),
            to_GasUsed = sim_GasUsed (pt_deliver p), to_GasWanted = pt_gas p, to_GasFeeUgnot = pt_fee p\<rparr>
     else
       bindE (signTxForSession l chainID (pt_tx p) (pt_signer p) (pt_acc p) (pt_session p)) (\<lambda>signedFinal.
       bindE (request (EvBroadcast signedFinal) (\<lambda>h. nd_broadcast nd h signedFinal) BroadcastErr) (\<lambda>res.
       ret \<lparr>to_Simulated = False, to_TxHash = lib_hex l (cm_Hash res), to_Height = cm_Height res, to_Data = cm_Data res,
            to_GasUsed = cm_GasUsed res, to_GasWanted = pt_gas p, to_GasFeeUgnot = pt_fee p\<rparr>)))"

text \<open>\<open>CallResult\<close>, \<open>RunResult\<close> and \<open>AddPackageResult\<close> are the same record; the payload is the result or output.\<close>

record tx_result =
  tr_TxHash :: string
  tr_Height :: int64
  tr_Result :: string
  tr_GasUsed :: int64
  tr_GasWanted :: int64
  tr_GasFeeUgnot :: int64
  tr_Simulated :: bool

definition outcome_result :: "txOutcome \<Rightarrow> tx_result" where
  "outcome_result out =
     \<lparr>tr_TxHash = to_TxHash out, tr_Height = to_Height out, tr_Result = to_Data out, tr_GasUsed = to_GasUsed out,
      tr_GasWanted = to_GasWanted out, tr_GasFeeUgnot = to_GasFeeUgnot out, tr_Simulated = to_Simulated out\<rparr>"

definition parseSendCoins :: "lib \<Rightarrow> string \<Rightarrow> chain_error + coins" where
  "parseSendCoins l send =
     (if send = [] then Inr []
      else case lib_parse_coins l send of Inl e \<Rightarrow> Inl (ParseSend send e) | Inr c \<Rightarrow> Inr c)"

definition ValidateSendCoins :: "lib \<Rightarrow> string \<Rightarrow> chain_error option" where
  "ValidateSendCoins l send = (case parseSendCoins l send of Inl e \<Rightarrow> Some e | Inr _ \<Rightarrow> None)"

definition CallAsUser ::
  "node \<Rightarrow> lib \<Rightarrow> string \<Rightarrow> signer option \<Rightarrow> string \<Rightarrow> string \<Rightarrow> string \<Rightarrow> string list \<Rightarrow> string \<Rightarrow> bool \<Rightarrow> tx_result rpc" where
  "CallAsUser nd l chainID sgo master realm fn args send simulate =
     bindE (lift_sum id (parseSendCoins l send)) (\<lambda>sendCoins.
     bindE (asUserTx nd l chainID sgo master
              (\<lambda>masterAddr cfg. lib_new_tx l cfg (MsgCall masterAddr sendCoins realm fn args)) simulate) (\<lambda>out.
     ret (outcome_result out)))"

definition RunAsUser ::
  "node \<Rightarrow> lib \<Rightarrow> string \<Rightarrow> signer option \<Rightarrow> string \<Rightarrow> string \<Rightarrow> bool \<Rightarrow> tx_result rpc" where
  "RunAsUser nd l chainID sgo master code simulate =
     bindE (asUserTx nd l chainID sgo master
              (\<lambda>masterAddr cfg. lib_new_tx l cfg (MsgRun masterAddr [(''main.gno'', code)])) simulate) (\<lambda>out.
     ret (outcome_result out))"

subsection \<open>What the chain knows of a session\<close>

definition isSessionNotFoundErr :: "string \<Rightarrow> bool" where
  "isSessionNotFoundErr e = Contains e ''session not found''"

fun splitAllowPaths :: "string list \<Rightarrow> string list \<times> bool" where
  "splitAllowPaths [] = ([], False)"
| "splitAllowPaths (p # ps) =
     (case splitAllowPaths ps of (realmPaths, allowRun) \<Rightarrow>
        (case CutPrefix p ''vm/exec:'' of
           Some stripped \<Rightarrow> (stripped # realmPaths, allowRun)
         | None \<Rightarrow> if p = ''vm/run'' then (realmPaths, True) else (realmPaths, allowRun)))"

definition spendRemaining :: "lib \<Rightarrow> coins \<Rightarrow> coins \<Rightarrow> string" where
  "spendRemaining l limit used =
     (let out = filter (\<lambda>c. snd c > 0) (lib_sub l limit used)
      in case limit of
           (d, _) # _ \<Rightarrow> if out = [] then ''0'' @ d else lib_coins_string l out
         | [] \<Rightarrow> lib_coins_string l out)"

definition QuerySession :: "(string \<Rightarrow> string + bytes) \<Rightarrow> lib \<Rightarrow> session_query" where
  "QuerySession q l master sessionAddr =
     (if master = [] \<or> sessionAddr = [] then QUnsupported
      else case q (session_path master sessionAddr) of
        Inl e \<Rightarrow> if isSessionNotFoundErr e then QStatus no_status else QUnsupported
      | Inr data \<Rightarrow>
          if data = [] \<or> data = ''null'' then QStatus no_status
          else case lib_decode_session l data of
            Inl _ \<Rightarrow> QUnsupported
          | Inr acc \<Rightarrow>
              (case splitAllowPaths (sac_AllowPaths acc) of (realmPaths, allowRun) \<Rightarrow>
                QStatus \<lparr>ses_Active = True, ses_AllowPaths = realmPaths, ses_AllowRun = allowRun,
                  ses_SpendLimit = lib_coins_string l (sac_SpendLimit acc),
                  ses_SpendRemaining = spendRemaining l (sac_SpendLimit acc) (sac_SpendUsed acc),
                  ses_ExpiresAt = sac_ExpiresAt acc\<rparr>))"

subsection \<open>Agent-signed writes\<close>

definition agentTxSetup :: "agent_signer option \<Rightarrow> (addr \<times> agent_signer) rpc" where
  "agentTxSetup sgo =
     bindE (lift_opt SignerRequired sgo) (\<lambda>sg.
     bindE (lift_sum SignerInfoErr (as_Info sg)) (\<lambda>a. ret (a, sg)))"

definition agentSimulate :: "node \<Rightarrow> agent_signer \<Rightarrow> string + utx \<Rightarrow> txOutcome rpc" where
  "agentSimulate nd sg built =
     bindE (lift_sum BuildTx built) (\<lambda>unsigned.
     bindE (lift_sum SignErr (as_SignTx sg unsigned)) (\<lambda>signed.
     bindE (dryRun nd signed) (\<lambda>deliver.
     ret \<lparr>to_Simulated = True, to_TxHash = [], to_Height = 0, to_Data = sim_Data deliver,
          to_GasUsed = sim_GasUsed deliver, to_GasWanted = 0, to_GasFeeUgnot = 0\<rparr>)))"

definition agentMeasure :: "node \<Rightarrow> lib \<Rightarrow> agent_signer \<Rightarrow> (base_tx_cfg \<Rightarrow> string + utx) \<Rightarrow> txOutcome rpc" where
  "agentMeasure nd l sg buildTx =
     bindE (agentSimulate nd sg (buildTx (baseTxCfg DefaultGasFeeUgnot gasEstimateCeiling))) (\<lambda>out.
     let gw = gasWantedFor (to_GasUsed out) in
     bindE (gas_fee nd l gw) (\<lambda>fee.
     ret (out\<lparr>to_GasWanted := gw, to_GasFeeUgnot := fee\<rparr>)))"

text \<open>
  The common tail of \<open>Call\<close>, \<open>Run\<close> and \<open>AddPackage\<close>: report the measured outcome or broadcast at
  exactly the measured limit and fee. \<open>payload\<close> says whether the result carries the returned data
  (\<open>AddPackageResult\<close> has no such field).
\<close>

definition agent_deliver :: "node \<Rightarrow> lib \<Rightarrow> addr \<Rightarrow> msg \<Rightarrow> bool \<Rightarrow> bool \<Rightarrow> txOutcome \<Rightarrow> tx_result rpc" where
  "agent_deliver nd l caller m payload simulate out =
     (if simulate then
        ret \<lparr>tr_TxHash = [], tr_Height = 0, tr_Result = (if payload then to_Data out else []), tr_GasUsed = to_GasUsed out,
             tr_GasWanted = to_GasWanted out, tr_GasFeeUgnot = to_GasFeeUgnot out, tr_Simulated = True\<rparr>
      else
        (let cfg = baseTxCfg (to_GasFeeUgnot out) (to_GasWanted out)
         in bindE (request (EvAgentTx caller cfg m) (\<lambda>h. nd_agent_tx nd h caller cfg m) BroadcastErr) (\<lambda>res.
            ret \<lparr>tr_TxHash = lib_hex l (cm_Hash res), tr_Height = cm_Height res,
                 tr_Result = (if payload then cm_Data res else []), tr_GasUsed = cm_GasUsed res,
                 tr_GasWanted = to_GasWanted out, tr_GasFeeUgnot = to_GasFeeUgnot out, tr_Simulated = False\<rparr>)))"

definition Call ::
  "node \<Rightarrow> lib \<Rightarrow> agent_signer option \<Rightarrow> string \<Rightarrow> string \<Rightarrow> string list \<Rightarrow> string \<Rightarrow> bool \<Rightarrow> tx_result rpc" where
  "Call nd l sgo realm fn args send simulate =
     bindE (agentTxSetup sgo) (\<lambda>(caller, sg).
     bindE (lift_sum id (parseSendCoins l send)) (\<lambda>sendCoins.
     let m = MsgCall caller sendCoins realm fn args in
     bindE (agentMeasure nd l sg (\<lambda>cfg. lib_new_tx l cfg m)) (\<lambda>out.
     agent_deliver nd l caller m True simulate out)))"

definition Run :: "node \<Rightarrow> lib \<Rightarrow> agent_signer option \<Rightarrow> string \<Rightarrow> bool \<Rightarrow> tx_result rpc" where
  "Run nd l sgo code simulate =
     bindE (agentTxSetup sgo) (\<lambda>(caller, sg).
     let m = MsgRun caller [(''main.gno'', code)] in
     bindE (agentMeasure nd l sg (\<lambda>cfg. lib_new_tx l cfg m)) (\<lambda>out.
     agent_deliver nd l caller m True simulate out))"

definition DefaultMaxDepositUgnot :: int64 where "DefaultMaxDepositUgnot = 50000000"

text \<open>Files sorted by name, as \<open>slices.SortFunc\<close> with \<open>strings.Compare\<close> leaves them.\<close>

definition sort_files :: "mem_file list \<Rightarrow> mem_file list" where
  "sort_files fs = sort_by fst fs"

definition AddPackage :: "node \<Rightarrow> lib \<Rightarrow> agent_signer option \<Rightarrow> string \<Rightarrow> mem_file list \<Rightarrow> bool \<Rightarrow> tx_result rpc" where
  "AddPackage nd l sgo deployPath files simulate =
     bindE (agentTxSetup sgo) (\<lambda>(creator, sg).
     let m = MsgAddPackage creator deployPath (sort_files files) [(ugnot_denom, DefaultMaxDepositUgnot)] in
     bindE (agentMeasure nd l sg (\<lambda>cfg. lib_new_tx l cfg m)) (\<lambda>out.
     agent_deliver nd l creator m False simulate out))"

record send_result =
  sr_TxHash :: string
  sr_Height :: int64
  sr_GasUsed :: int64
  sr_GasFeeUgnot :: int64

definition Send_real :: "node \<Rightarrow> lib \<Rightarrow> agent_signer option \<Rightarrow> string \<Rightarrow> int64 \<Rightarrow> send_result rpc" where
  "Send_real nd l sgo toAddr amountUgnot =
     bindE (if amountUgnot \<le> 0 then failE (AmountNotPositive amountUgnot) else ret ()) (\<lambda>_.
     bindE (agentTxSetup sgo) (\<lambda>(from_addr, sg).
     bindE (lift_opt (BadRecipient toAddr) (lib_addr l toAddr)) (\<lambda>to_addr.
     let m = MsgSend from_addr to_addr [(ugnot_denom, amountUgnot)] in
     bindE (gas_fee nd l DefaultGasWanted) (\<lambda>fee.
     let cfg = baseTxCfg fee DefaultGasWanted in
     bindE (request (EvAgentTx from_addr cfg m) (\<lambda>h. nd_agent_tx nd h from_addr cfg m) BroadcastErr) (\<lambda>res.
     ret \<lparr>sr_TxHash = lib_hex l (cm_Hash res), sr_Height = cm_Height res, sr_GasUsed = cm_GasUsed res,
          sr_GasFeeUgnot = fee\<rparr>)))))"

subsection \<open>Reads\<close>

definition nonblank_lines :: "string \<Rightarrow> string list" where
  "nonblank_lines data = filter (\<lambda>n. n \<noteq> []) (map TrimSpace (Split data (CHR 0x0A)))"

definition File :: "node \<Rightarrow> string \<Rightarrow> string \<Rightarrow> string rpc" where
  "File nd realm file =
     (if file = [] then failE FileNameEmpty else query nd ''vm/qfile'' (realm @ ''/'' @ file))"

definition ListFiles :: "node \<Rightarrow> string \<Rightarrow> string list rpc" where
  "ListFiles nd realm = bindE (query nd ''vm/qfile'' realm) (\<lambda>data. ret (nonblank_lines data))"

definition ListPaths :: "node \<Rightarrow> string \<Rightarrow> int \<Rightarrow> string list rpc" where
  "ListPaths nd target limit =
     bindE (query nd (if limit > 0 then ''vm/qpaths?limit='' @ show_int limit else ''vm/qpaths'') target) (\<lambda>data.
     ret (nonblank_lines data))"

definition Doc :: "node \<Rightarrow> string \<Rightarrow> string rpc" where
  "Doc nd realm = query nd ''vm/qdoc'' realm"

text \<open>\<open>ReadPackageFiles\<close>: one listing, one request per file, in the listed order; sorted at the end.\<close>

fun read_files :: "node \<Rightarrow> string \<Rightarrow> string list \<Rightarrow> mem_file list rpc" where
  "read_files nd pkgPath [] = ret []"
| "read_files nd pkgPath (n # ns) =
     bindE (File nd pkgPath n) (\<lambda>body. bindE (read_files nd pkgPath ns) (\<lambda>fs. ret ((n, body) # fs)))"

definition ReadPackageFiles :: "node \<Rightarrow> string \<Rightarrow> mem_file list rpc" where
  "ReadPackageFiles nd pkgPath =
     bindE (ListFiles nd pkgPath) (\<lambda>names. bindE (read_files nd pkgPath names) (\<lambda>fs. ret (sort_files fs)))"

text \<open>The account query reports an unknown address as the error \<open>std.UnknownAddressError\<close>.\<close>

datatype account_answer = AcUnknown | AcError string | AcInfo coins int int

definition Account :: "(addr \<Rightarrow> account_answer) \<Rightarrow> lib \<Rightarrow> string \<Rightarrow> chain_error + account_info" where
  "Account q l bech32 =
     (case lib_addr l bech32 of
        None \<Rightarrow> Inl (BadRecipient bech32)
      | Some a \<Rightarrow>
          (case q a of
             AcUnknown \<Rightarrow> Inr \<lparr>ai_Coins = [], ai_Sequence = 0, ai_AccountNumber = 0, ai_Exists = False\<rparr>
           | AcError e \<Rightarrow> Inl (QueryErr e)
           | AcInfo c s n \<Rightarrow> Inr \<lparr>ai_Coins = c, ai_Sequence = s, ai_AccountNumber = n, ai_Exists = True\<rparr>))"

definition Balance :: "(addr \<Rightarrow> account_answer) \<Rightarrow> lib \<Rightarrow> string \<Rightarrow> chain_error + int64" where
  "Balance q l bech32 =
     (case Account q l bech32 of Inl e \<Rightarrow> Inl e | Inr info \<Rightarrow> Inr (lib_amount_of l (ai_Coins info) ugnot_denom))"

subsection \<open>VM parameters\<close>

definition maxPackageReason :: nat where "maxPackageReason = 256"

text \<open>The status constants and the inert policy of the VM module.\<close>

record vm_consts =
  vc_Live :: string
  vc_Inert :: string
  vc_PolicyInert :: string

definition Live :: "vm_consts \<Rightarrow> PackageMeta \<Rightarrow> bool" where
  "Live v m \<longleftrightarrow> pm_Status m = vc_Live v \<and> \<not> pm_Pending m"

definition truncatedMark :: string where
  "truncatedMark = [CHR 0xE2, CHR 0x80, CHR 0xA6] @ ''(truncated)''"

definition decodePackageMeta :: "lib \<Rightarrow> bytes \<Rightarrow> meta_error + PackageMeta" where
  "decodePackageMeta l data =
     (case lib_json_meta l data of
        Inl e \<Rightarrow> Inl (MetaUnmarshal e)
      | Inr m \<Rightarrow>
          if pm_Status m = [] then Inl (MetaNoStatus data)
          else if length (pm_Reason m) > maxPackageReason
          then Inr (m\<lparr>pm_Reason := lib_valid_utf8 l (take maxPackageReason (pm_Reason m)) @ truncatedMark\<rparr>)
          else Inr m)"

definition decodeSubmissionPolicy :: "lib \<Rightarrow> bytes \<Rightarrow> meta_error + string" where
  "decodeSubmissionPolicy l data =
     (if data = [] then Inr []
      else case lib_json_string l data of
             Inl e \<Rightarrow> Inl (MetaUnmarshal e)
           | Inr None \<Rightarrow> Inr []
           | Inr (Some policy) \<Rightarrow> Inr policy)"

definition decodeAddressList :: "lib \<Rightarrow> bytes \<Rightarrow> meta_error + string list" where
  "decodeAddressList l data =
     (if data = [] then Inr [] else case lib_json_strings l data of Inl e \<Rightarrow> Inl (MetaUnmarshal e) | Inr addrs \<Rightarrow> Inr addrs)"

definition SubmissionPolicy :: "node \<Rightarrow> lib \<Rightarrow> string rpc" where
  "SubmissionPolicy nd l =
     bindE (query nd ''params/vm:p:code_submission_policy'' []) (\<lambda>data. lift_sum DecodeErr (decodeSubmissionPolicy l data))"

definition RunSubmitters :: "node \<Rightarrow> lib \<Rightarrow> string list rpc" where
  "RunSubmitters nd l =
     bindE (query nd ''params/vm:p:run_submitters'' []) (\<lambda>data. lift_sum DecodeErr (decodeAddressList l data))"

definition QueryPackageMeta :: "node \<Rightarrow> lib \<Rightarrow> string \<Rightarrow> PackageMeta rpc" where
  "QueryPackageMeta nd l pkgPath =
     bindE (query nd ''vm/qpkgmeta_json'' pkgPath) (\<lambda>data. lift_sum DecodeErr (decodePackageMeta l data))"

subsection \<open>Construction, status and paths\<close>

datatype new_error = NoRpcURL | NoChainID | RpcClientErr string

text \<open>\<open>dial\<close> is the tm2 HTTP client constructor, \<open>status\<close> a client's answer to the status request.\<close>

definition NewReal :: "(string \<Rightarrow> string + 'c) \<Rightarrow> string \<Rightarrow> string \<Rightarrow> new_error + 'c \<times> string" where
  "NewReal dial rpcURL chainID =
     (if rpcURL = [] then Inl NoRpcURL
      else if chainID = [] then Inl NoChainID
      else case dial rpcURL of Inl e \<Rightarrow> Inl (RpcClientErr e) | Inr rpc \<Rightarrow> Inr (rpc, chainID))"

record NodeStatus =
  ns_ChainID :: string
  ns_Height :: int64
  ns_BlockTime :: time

datatype status_error = StNoRpcURL | StRpcClient string | StQuery string

definition QueryChainID :: "(string \<Rightarrow> string + 'c) \<Rightarrow> ('c \<Rightarrow> string + NodeStatus) \<Rightarrow> string \<Rightarrow> status_error + string" where
  "QueryChainID dial status rpcURL =
     (if rpcURL = [] then Inl StNoRpcURL
      else case dial rpcURL of
             Inl e \<Rightarrow> Inl (StRpcClient e)
           | Inr rpc \<Rightarrow> (case status rpc of Inl e \<Rightarrow> Inl (StQuery e) | Inr st \<Rightarrow> Inr (ns_ChainID st)))"

definition Status :: "('c \<Rightarrow> string + NodeStatus) \<Rightarrow> 'c \<Rightarrow> status_error + NodeStatus" where
  "Status status rpc = (case status rpc of Inl e \<Rightarrow> Inl (StQuery e) | Inr st \<Rightarrow> Inr st)"

text \<open>The path predicates are gnovm's.\<close>

definition IsReadablePackagePath :: "(string \<Rightarrow> bool) \<Rightarrow> (string \<Rightarrow> bool) \<Rightarrow> string \<Rightarrow> bool" where
  "IsReadablePackagePath isRealm isPPackage pkgPath \<longleftrightarrow> isRealm pkgPath \<or> isPPackage pkgPath"

subsection \<open>The illustrative gnokey command\<close>

record GnokeyCmd =
  gk_Sub :: string
  gk_PkgPath :: string
  gk_Func :: string
  gk_Args :: "string list"
  gk_To :: string
  gk_Send :: string
  gk_PkgDir :: string
  gk_MaxDeposit :: string
  gk_RPC :: string
  gk_ChainID :: string
  gk_Signer :: string
  gk_Master :: string
  gk_Simulate :: bool
  gk_GasFeeUgnot :: int64
  gk_GasWanted :: int64

definition gnokey_parts :: "GnokeyCmd \<Rightarrow> string list" where
  "gnokey_parts g =
     [''gnokey'', ''maketx'', gk_Sub g] @
     (if gk_Sub g = ''call'' then
        [''-pkgpath'', gk_PkgPath g, ''-func'', gk_Func g] @ concat (map (\<lambda>a. [''-args'', a]) (gk_Args g))
      else if gk_Sub g = ''addpkg'' then
        [''-pkgpath'', gk_PkgPath g, ''-pkgdir'', (if gk_PkgDir g = [] then ''<your-source-dir>'' else gk_PkgDir g)]
      else []) @
     (if gk_Send g \<noteq> [] then [''-send'', gk_Send g] else []) @
     (if gk_Sub g = ''send'' \<and> gk_To g \<noteq> [] then [''-to'', gk_To g] else []) @
     (if gk_MaxDeposit g \<noteq> [] then [''-max-deposit'', gk_MaxDeposit g] else []) @
     [''-gas-fee'', show_int (if gk_GasFeeUgnot g = 0 then DefaultGasFeeUgnot else gk_GasFeeUgnot g) @ ''ugnot'',
      ''-gas-wanted'', show_int (if gk_GasWanted g = 0 then DefaultGasWanted else gk_GasWanted g),
      ''-remote'', gk_RPC g, ''-chainid'', gk_ChainID g] @
     (if gk_Simulate g then [''-simulate'', ''only''] else [''-broadcast'']) @
     (if gk_Master g \<noteq> [] then [''-master'', gk_Master g] else []) @
     [gk_Signer g] @
     (if gk_Sub g = ''run'' then [''<your-script.gno>''] else [])"

definition GnokeyCmd_String :: "GnokeyCmd \<Rightarrow> string" where
  "GnokeyCmd_String g = Join (gnokey_parts g) '' ''"

subsection \<open>Reasoning about calls\<close>

named_theorems rpc_run
named_theorems quiet_intros

lemma ret_run [rpc_run, simp]: "ret x h = (h, Inr x)" by (simp add: ret_def)
lemma failE_run [rpc_run, simp]: "failE e h = (h, Inl e)" by (simp add: failE_def)

lemma bindE_Inr: "bindE m f h = (h', Inr y) \<longleftrightarrow> (\<exists>h1 x. m h = (h1, Inr x) \<and> f x h1 = (h', Inr y))"
  by (auto simp: bindE_def split: prod.splits sum.splits)

lemma lift_sum_Inr [rpc_run]: "lift_sum g r h = (h', Inr x) \<longleftrightarrow> h' = h \<and> r = Inr x"
  by (auto simp: lift_sum_def split: sum.splits)

lemma lift_opt_Inr [rpc_run]: "lift_opt e r h = (h', Inr x) \<longleftrightarrow> h' = h \<and> r = Some x"
  by (auto simp: lift_opt_def split: option.splits)

lemma guardE_Inr [rpc_run]: "guardE c h = (h', Inr x) \<longleftrightarrow> h' = h \<and> c h = None"
  by (auto simp: guardE_def split: option.splits)

lemma request_Inr [rpc_run]: "request ev ans g h = (h', Inr x) \<longleftrightarrow> h' = h @ [ev] \<and> ans h = Inr x"
  by (auto simp: request_def split: sum.splits)

text \<open>A request that changes the chain, and calls that make none or one as their last request.\<close>

fun is_write :: "event \<Rightarrow> bool" where
  "is_write (EvBroadcast _) = True"
| "is_write (EvAgentTx _ _ _) = True"
| "is_write _ = False"

definition quiet :: "'a rpc \<Rightarrow> bool" where
  "quiet m \<longleftrightarrow> (\<forall>h. \<exists>evs. fst (m h) = h @ evs \<and> \<not> list_ex is_write evs)"

definition one_write :: "(event \<Rightarrow> bool) \<Rightarrow> 'a rpc \<Rightarrow> event list \<Rightarrow> bool" where
  "one_write Q m h \<longleftrightarrow> (\<exists>evs tl. fst (m h) = h @ evs @ tl \<and> \<not> list_ex is_write evs \<and> (tl = [] \<or> (\<exists>w. tl = [w] \<and> is_write w \<and> Q w)))"

lemma quiet_ret [quiet_intros]: "quiet (ret x)" by (auto simp: quiet_def)
lemma quiet_failE [quiet_intros]: "quiet (failE e)" by (auto simp: quiet_def)
lemma quiet_lift_sum [quiet_intros]: "quiet (lift_sum g r)" by (cases r) (auto simp: lift_sum_def intro: quiet_intros)
lemma quiet_lift_opt [quiet_intros]: "quiet (lift_opt e r)" by (cases r) (auto simp: lift_opt_def intro: quiet_intros)
lemma quiet_guardE [quiet_intros]: "quiet (guardE c)" by (auto simp: quiet_def guardE_def split: option.splits)
lemma quiet_request [quiet_intros]: "\<not> is_write ev \<Longrightarrow> quiet (request ev ans g)" by (auto simp: quiet_def request_def)

lemma quiet_bindE [quiet_intros]:
  assumes "quiet m" "\<And>x. quiet (f x)"
  shows "quiet (bindE m f)"
  unfolding quiet_def
proof
  fix h
  obtain h1 r where m: "m h = (h1, r)" by force
  obtain evs where e: "h1 = h @ evs" "\<not> list_ex is_write evs" using assms(1) m by (auto simp: quiet_def dest!: spec [of _ h])
  show "\<exists>evs. fst (bindE m f h) = h @ evs \<and> \<not> list_ex is_write evs"
  proof (cases r)
    case (Inl e')
    then show ?thesis using m e by (auto simp: bindE_def)
  next
    case (Inr x)
    obtain evs' where "fst (f x h1) = h1 @ evs'" "\<not> list_ex is_write evs'" using assms(2) [of x] by (auto simp: quiet_def)
    then show ?thesis using m e Inr by (intro exI [of _ "evs @ evs'"]) (auto simp: bindE_def)
  qed
qed

lemma one_write_quiet: "quiet m \<Longrightarrow> one_write Q m h"
  unfolding quiet_def one_write_def by (metis append_Nil2)

lemma one_write_bind:
  assumes "quiet m" "\<And>h1 x. m h = (h1, Inr x) \<Longrightarrow> one_write Q (f x) h1"
  shows "one_write Q (bindE m f) h"
proof -
  obtain h1 r where m: "m h = (h1, r)" by force
  obtain evs where e: "h1 = h @ evs" "\<not> list_ex is_write evs" using assms(1) m by (auto simp: quiet_def dest!: spec [of _ h])
  show ?thesis
  proof (cases r)
    case (Inl e')
    then show ?thesis using m e by (auto simp: bindE_def one_write_def)
  next
    case (Inr x)
    obtain evs' tl where "fst (f x h1) = h1 @ evs' @ tl" "\<not> list_ex is_write evs'" "tl = [] \<or> (\<exists>w. tl = [w] \<and> is_write w \<and> Q w)"
      using assms(2) m Inr unfolding one_write_def by blast
    then show ?thesis using m e Inr unfolding one_write_def
      by (intro exI [of _ "evs @ evs'"] exI [of _ tl]) (auto simp: bindE_def)
  qed
qed

lemma one_write_map: "one_write Q m h \<Longrightarrow> one_write Q (bindE m (\<lambda>x. ret (f x))) h"
proof -
  have "fst (bindE m (\<lambda>x. ret (f x)) h) = fst (m h)" by (simp add: bindE_def split: prod.split sum.split)
  then show "one_write Q m h \<Longrightarrow> one_write Q (bindE m (\<lambda>x. ret (f x))) h" by (simp add: one_write_def)
qed

lemma one_write_last:
  assumes "is_write ev" "Q ev" "\<And>x h. fst (f x h) = h"
  shows "one_write Q (bindE (request ev ans e) f) h"
  using assms unfolding one_write_def
  by (intro exI [of _ "[]"] exI [of _ "[ev]"]) (auto simp: bindE_def request_def split: sum.splits)

lemma quiet_if [quiet_intros]: "(b \<Longrightarrow> quiet x) \<Longrightarrow> (\<not> b \<Longrightarrow> quiet y) \<Longrightarrow> quiet (if b then x else y)"
  by simp

lemma quiet_option [quiet_intros]:
  "(x = None \<Longrightarrow> quiet a) \<Longrightarrow> (\<And>y. x = Some y \<Longrightarrow> quiet (f y)) \<Longrightarrow> quiet (case x of None \<Rightarrow> a | Some y \<Rightarrow> f y)"
  by (cases x) simp_all

lemma quiet_prod [quiet_intros]: "(\<And>a b. x = (a, b) \<Longrightarrow> quiet (f a b)) \<Longrightarrow> quiet (case x of (a, b) \<Rightarrow> f a b)"
  by (cases x) simp

lemma quiet_gas_fee [quiet_intros]: "quiet (gas_fee nd l gw)"
  unfolding gas_fee_def by (intro quiet_intros) simp

lemma quiet_query [quiet_intros]: "quiet (query nd p d)"
  unfolding query_def by (intro quiet_intros) simp

lemma quiet_params [quiet_intros]:
  "quiet (SubmissionPolicy nd l)" "quiet (RunSubmitters nd l)" "quiet (QueryPackageMeta nd l p)"
  unfolding SubmissionPolicy_def RunSubmitters_def QueryPackageMeta_def by (intro quiet_intros)+

lemma quiet_session_account [quiet_intros]: "quiet (querySessionAccount nd l m a)"
  unfolding querySessionAccount_def by (intro quiet_intros) simp

lemma quiet_sign [quiet_intros]: "quiet (signTxForSession l c tx sg acc a)"
  unfolding signTxForSession_def by (intro quiet_intros)

lemma quiet_dryRun [quiet_intros]: "quiet (dryRun nd tx)"
  unfolding dryRun_def by (intro quiet_intros) simp

lemma quiet_setup [quiet_intros]: "quiet (agentTxSetup sgo)"
  unfolding agentTxSetup_def by (intro quiet_intros)

lemma quiet_measure [quiet_intros]: "quiet (agentMeasure nd l sg b)"
  unfolding agentMeasure_def agentSimulate_def Let_def by (intro quiet_intros)

lemma quiet_price [quiet_intros]: "quiet (measure_and_price nd l c sgo master b)"
  unfolding measure_and_price_def Let_def by (intro quiet_intros)

lemma quiet_asUserTx [quiet_intros]: "quiet (asUserTx nd l c sgo master b True)"
  unfolding asUserTx_def Let_def if_True by (intro quiet_intros)

lemma quiet_deliver [quiet_intros]: "quiet (agent_deliver nd l a m p True out)"
  unfolding agent_deliver_def if_True by (intro quiet_intros)

lemma quiet_simulations [quiet_intros]:
  "quiet (CallAsUser nd l c sgo master realm fn args send True)" "quiet (RunAsUser nd l c sgo master code True)"
  "quiet (Call nd l ago realm fn args send True)" "quiet (Run nd l ago code True)" "quiet (AddPackage nd l ago path files True)"
  unfolding CallAsUser_def RunAsUser_def Call_def Run_def AddPackage_def Let_def
  by (intro quiet_intros)+

subsection \<open>Properties\<close>

text \<open>
  A simulation changes nothing. None of the five write operations sends the node a transaction to
  commit when called with \<open>simulate\<close>, whatever the node answers: the requests it adds are queries
  and dry runs.
\<close>

theorem simulation_no_write:
  "quiet (CallAsUser nd l c sgo master realm fn args send True) \<and> quiet (RunAsUser nd l c sgo master code True) \<and>
   quiet (Call nd l ago realm fn args send True) \<and> quiet (Run nd l ago code True) \<and> quiet (AddPackage nd l ago path files True)"
  by (intro conjI quiet_simulations)

text \<open>
  C2. What a session signs is what was checked and priced. A session-signed write broadcasts at most
  one transaction, as its last request. That transaction is built for the master's address at the
  fee the node's gas price gives for the measured gas, carries exactly one signature, by the session
  key over this chain id and the session account's number and sequence, and its whole outflow (fee
  plus what its messages spend) passed the chain's session spend check.
\<close>

definition session_tx_ok ::
  "node \<Rightarrow> lib \<Rightarrow> string \<Rightarrow> signer option \<Rightarrow> string \<Rightarrow> (addr \<Rightarrow> base_tx_cfg \<Rightarrow> string + utx) \<Rightarrow> event \<Rightarrow> bool" where
  "session_tx_ok nd l chainID sgo master buildTx ev \<longleftrightarrow>
     (\<exists>tx sg ma sa acc used fee h1 h2 sb sig.
        ev = EvBroadcast tx \<and> sgo = Some sg \<and> lib_addr l master = Some ma \<and> lib_addr l (sn_Address sg) = Some sa \<and>
        currentGasFee (\<lambda>p. nd_query nd h1 p []) (lib_gas_price l) (gasWantedFor used) = Inr fee \<and>
        buildTx ma (baseTxCfg fee (gasWantedFor used)) = Inr (stx_tx tx) \<and>
        lib_check l acc (tx_outflow l (stx_tx tx) ma) (nd_now nd h2) = None \<and>
        lib_sign_bytes l (stx_tx tx) chainID (sac_AccountNumber acc) (sac_Sequence acc) = Inr sb \<and> sn_Sign sg sb = Inr sig \<and>
        stx_sigs tx = [\<lparr>sig_pubkey = sn_Pubkey sg, sig_bytes = sig, sig_session = Some sa\<rparr>])"

lemma checkSessionSpend_None: "checkSessionSpendForTx l acc tx ma t = None \<longleftrightarrow> lib_check l acc (tx_outflow l tx ma) t = None"
  by (auto simp: checkSessionSpendForTx_def Let_def split: option.splits)

lemma signTx_Inr:
  "signTxForSession l c tx sg acc sa h = (h', Inr stx) \<Longrightarrow> h' = h \<and> (\<exists>sb sig.
     lib_sign_bytes l tx c (sac_AccountNumber acc) (sac_Sequence acc) = Inr sb \<and> sn_Sign sg sb = Inr sig \<and>
     stx = \<lparr>stx_tx = tx, stx_sigs = [\<lparr>sig_pubkey = sn_Pubkey sg, sig_bytes = sig, sig_session = Some sa\<rparr>]\<rparr>)"
  by (auto simp: signTxForSession_def bindE_Inr rpc_run split: if_splits)

lemma gas_fee_Inr: "gas_fee nd l gw h = (h', Inr fee) \<longleftrightarrow>
    h' = h @ [EvQuery QueryPath []] \<and> currentGasFee (\<lambda>p. nd_query nd h p []) (lib_gas_price l) gw = Inr fee"
  by (simp add: gas_fee_def rpc_run)

lemma measure_and_price_Inr:
  assumes "measure_and_price nd l c sgo master b h = (h', Inr p)"
  shows "sgo = Some (pt_signer p) \<and> lib_addr l (sn_Address (pt_signer p)) = Some (pt_session p) \<and>
    pt_gas p = gasWantedFor (sim_GasUsed (pt_deliver p)) \<and>
    (\<exists>ma h1. lib_addr l master = Some ma \<and> currentGasFee (\<lambda>q. nd_query nd h1 q []) (lib_gas_price l) (pt_gas p) = Inr (pt_fee p) \<and>
       b ma (baseTxCfg (pt_fee p) (pt_gas p)) = Inr (pt_tx p) \<and> lib_check l (pt_acc p) (tx_outflow l (pt_tx p) ma) (nd_now nd h') = None)"
  using assms unfolding measure_and_price_def Let_def bindE_Inr
  by (auto simp: rpc_run gas_fee_Inr checkSessionSpend_None)

lemma asUserTx_one_write:
  "one_write (session_tx_ok nd l c sgo master b) (asUserTx nd l c sgo master b False) h"
  unfolding asUserTx_def if_False
proof (rule one_write_bind [OF quiet_price], rule one_write_bind [OF quiet_sign], rule one_write_last)
  fix h1 p h2 tx
  assume p: "measure_and_price nd l c sgo master b h = (h1, Inr p)"
    and s: "signTxForSession l c (pt_tx p) (pt_signer p) (pt_acc p) (pt_session p) h1 = (h2, Inr tx)"
  from measure_and_price_Inr [OF p] signTx_Inr [OF s] show "session_tx_ok nd l c sgo master b (EvBroadcast tx)"
    unfolding session_tx_ok_def by force
qed simp_all

lemma CallAsUser_one_write:
  "one_write (\<lambda>ev. \<exists>coins. parseSendCoins l send = Inr coins \<and>
      session_tx_ok nd l c sgo master (\<lambda>ma cfg. lib_new_tx l cfg (MsgCall ma coins realm fn args)) ev)
    (CallAsUser nd l c sgo master realm fn args send False) h"
proof (cases "parseSendCoins l send")
  case (Inl x)
  then show ?thesis by (simp add: CallAsUser_def lift_sum_def bindE_def one_write_def)
next
  case (Inr coins)
  have m: "CallAsUser nd l c sgo master realm fn args send False =
      bindE (asUserTx nd l c sgo master (\<lambda>ma cfg. lib_new_tx l cfg (MsgCall ma coins realm fn args)) False) (\<lambda>out. ret (outcome_result out))"
    by (simp add: CallAsUser_def Inr lift_sum_def bindE_def fun_eq_iff)
  show ?thesis unfolding m Inr sum.inject
    by (rule one_write_map) (simp add: asUserTx_one_write)
qed

lemma RunAsUser_one_write:
  "one_write (session_tx_ok nd l c sgo master (\<lambda>ma cfg. lib_new_tx l cfg (MsgRun ma [(''main.gno'', code)])))
    (RunAsUser nd l c sgo master code False) h"
  unfolding RunAsUser_def by (rule one_write_map [OF asUserTx_one_write])

theorem session_write_discipline:
  assumes "asUserTx nd l chainID sgo master buildTx simulate h = (h', r)"
  shows "\<exists>evs tl. h' = h @ evs @ tl \<and> \<not> list_ex is_write evs \<and>
     (tl = [] \<or> \<not> simulate \<and> (\<exists>ev. tl = [ev] \<and> session_tx_ok nd l chainID sgo master buildTx ev))"
proof (cases simulate)
  case True
  then have "quiet (asUserTx nd l chainID sgo master buildTx simulate)" by (simp add: quiet_asUserTx)
  then obtain evs where "fst (asUserTx nd l chainID sgo master buildTx simulate h) = h @ evs" "\<not> list_ex is_write evs"
    unfolding quiet_def by blast
  then show ?thesis using assms by (intro exI [of _ evs] exI [of _ "[]"]) simp
next
  case False
  then have "one_write (session_tx_ok nd l chainID sgo master buildTx) (asUserTx nd l chainID sgo master buildTx simulate) h"
    using asUserTx_one_write by simp
  then obtain evs tl where "h' = h @ evs @ tl" "\<not> list_ex is_write evs"
      "tl = [] \<or> (\<exists>w. tl = [w] \<and> is_write w \<and> session_tx_ok nd l chainID sgo master buildTx w)"
    unfolding one_write_def assms fst_conv by blast
  then show ?thesis using False by blast
qed

definition predicts :: "event list \<times> (chain_error + tx_result) \<Rightarrow> event list \<times> (chain_error + tx_result) \<Rightarrow> bool" where
  "predicts s w \<longleftrightarrow>
     (\<forall>a b. snd s = Inr a \<and> snd w = Inr b \<longrightarrow> tr_Simulated a \<and> \<not> tr_Simulated b \<and> tr_GasWanted a = tr_GasWanted b \<and>
        tr_GasFeeUgnot a = tr_GasFeeUgnot b \<and> (\<exists>ev. fst w = fst s @ [ev] \<and> is_write ev))"

lemma asUserTx_predicts:
  assumes "asUserTx nd l c sgo master b True h = (h1, Inr o1)" "asUserTx nd l c sgo master b False h = (h2, Inr o2)"
  shows "predicts (h1, Inr (outcome_result o1)) (h2, Inr (outcome_result o2))"
proof -
  obtain p where p: "measure_and_price nd l c sgo master b h = (h1, Inr p)"
      "to_GasWanted o1 = pt_gas p" "to_GasFeeUgnot o1 = pt_fee p" "to_Simulated o1"
    using assms(1) by (auto simp: asUserTx_def bindE_Inr)
  obtain h3 tx where t: "signTxForSession l c (pt_tx p) (pt_signer p) (pt_acc p) (pt_session p) h1 = (h3, Inr tx)"
      "h2 = h3 @ [EvBroadcast tx]" "to_GasWanted o2 = pt_gas p" "to_GasFeeUgnot o2 = pt_fee p" "\<not> to_Simulated o2"
    using assms(2) p(1) by (auto simp: asUserTx_def bindE_Inr request_Inr)
  from signTx_Inr [OF t(1)] p t show ?thesis by (simp add: predicts_def outcome_result_def)
qed

lemma agent_deliver_predicts:
  "predicts (agent_deliver nd l a m p True out h) (agent_deliver nd l a m p False out h)"
  by (auto simp: agent_deliver_def bindE_def request_def predicts_def Let_def split: sum.splits)

lemma predicts_bind:
  assumes "\<And>x h. predicts (f x h) (g x h)"
  shows "predicts (bindE m f h) (bindE m g h)"
proof -
  obtain h' r where "m h = (h', r)" by force
  then show ?thesis using assms by (cases r) (auto simp: bindE_def predicts_def)
qed

lemma predicts_as_user:
  "predicts (bindE (asUserTx nd l c sgo master b True) (\<lambda>out. ret (outcome_result out)) h)
     (bindE (asUserTx nd l c sgo master b False) (\<lambda>out. ret (outcome_result out)) h)"
proof -
  obtain h1 r1 h2 r2 where r: "asUserTx nd l c sgo master b True h = (h1, r1)" "asUserTx nd l c sgo master b False h = (h2, r2)"
    by force
  show ?thesis
  proof (cases "isl r1 \<or> isl r2")
    case True
    then show ?thesis using r by (auto simp: bindE_def predicts_def isl_def split: sum.splits)
  next
    case False
    then obtain o1 o2 where "r1 = Inr o1" "r2 = Inr o2" using not_isl_Inr by metis
    with asUserTx_predicts [of nd l c sgo master b h h1 o1 h2 o2] r show ?thesis by (simp add: bindE_def)
  qed
qed

text \<open>
  A simulation predicts the cost. Whenever a write succeeds both as a simulation and for real from
  the same state, whether signed by a session or by the agent, both report the same gas limit and
  fee, and the real one sends exactly what the simulation sent followed by its transaction.
\<close>

theorem simulation_predicts:
  "predicts (CallAsUser nd l c sgo master realm fn args send True h) (CallAsUser nd l c sgo master realm fn args send False h) \<and>
   predicts (RunAsUser nd l c sgo master code True h) (RunAsUser nd l c sgo master code False h) \<and>
   predicts (Call nd l ago realm fn args send True h) (Call nd l ago realm fn args send False h) \<and>
   predicts (Run nd l ago code True h) (Run nd l ago code False h) \<and>
   predicts (AddPackage nd l ago path files True h) (AddPackage nd l ago path files False h)"
  unfolding CallAsUser_def RunAsUser_def Call_def Run_def AddPackage_def Let_def
  by (intro conjI predicts_as_user predicts_bind) (auto simp: predicts_as_user agent_deliver_predicts intro!: predicts_bind)

text \<open>A transaction of the agent: from the signer's own address, with the message asked for.\<close>

definition agent_tx_of :: "agent_signer option \<Rightarrow> (addr \<Rightarrow> msg) \<Rightarrow> event \<Rightarrow> bool" where
  "agent_tx_of sgo m ev \<longleftrightarrow> (\<exists>sg a fee gw. sgo = Some sg \<and> as_Info sg = Inr a \<and> ev = EvAgentTx a (baseTxCfg fee gw) (m a))"

lemma agentTxSetup_Inr: "agentTxSetup sgo h = (h', Inr x) \<longleftrightarrow> h' = h \<and> (\<exists>sg a. sgo = Some sg \<and> as_Info sg = Inr a \<and> x = (a, sg))"
  by (auto simp: agentTxSetup_def bindE_Inr rpc_run)

lemma deliver_one_write:
  assumes "sgo = Some sg" "as_Info sg = Inr a"
  shows "one_write (agent_tx_of sgo m) (agent_deliver nd l a (m a) p s out) h"
proof (cases s)
  case True
  then show ?thesis by (simp add: one_write_quiet quiet_deliver)
next
  case False
  then show ?thesis unfolding agent_deliver_def Let_def using assms
    by (auto simp: agent_tx_of_def intro!: one_write_last) blast
qed

lemma agent_one_write:
  assumes "\<And>sg a h. sgo = Some sg \<Longrightarrow> as_Info sg = Inr a \<Longrightarrow> one_write Q (f (a, sg)) h"
  shows "one_write Q (bindE (agentTxSetup sgo) f) h"
  by (rule one_write_bind [OF quiet_setup]) (auto simp: agentTxSetup_Inr intro: assms)

lemma Call_one_write:
  "one_write (\<lambda>ev. \<exists>coins. parseSendCoins l send = Inr coins \<and> agent_tx_of ago (\<lambda>a. MsgCall a coins realm fn args) ev)
    (Call nd l ago realm fn args send simulate) h"
  unfolding Call_def Let_def
proof (rule agent_one_write, unfold prod.case)
  fix sg a h assume sg: "ago = Some sg" "as_Info sg = Inr a"
  show "one_write (\<lambda>ev. \<exists>coins. parseSendCoins l send = Inr coins \<and> agent_tx_of ago (\<lambda>a. MsgCall a coins realm fn args) ev)
      (bindE (lift_sum id (parseSendCoins l send)) (\<lambda>sendCoins. bindE (agentMeasure nd l sg (\<lambda>cfg. lib_new_tx l cfg (MsgCall a sendCoins realm fn args)))
         (agent_deliver nd l a (MsgCall a sendCoins realm fn args) True simulate))) h"
  proof (cases "parseSendCoins l send")
    case (Inr coins)
    then show ?thesis using deliver_one_write [OF sg, of "\<lambda>a. MsgCall a coins realm fn args"]
      by (auto simp: rpc_run intro!: one_write_bind quiet_intros)
  qed (simp add: lift_sum_def bindE_def one_write_def)
qed

lemma Run_one_write:
  "one_write (agent_tx_of ago (\<lambda>a. MsgRun a [(''main.gno'', code)])) (Run nd l ago code simulate) h"
  unfolding Run_def Let_def
  by (rule agent_one_write) (auto intro!: one_write_bind quiet_intros deliver_one_write)

lemma AddPackage_one_write:
  "one_write (agent_tx_of ago (\<lambda>a. MsgAddPackage a path (sort_files files) [(ugnot_denom, DefaultMaxDepositUgnot)]))
    (AddPackage nd l ago path files simulate) h"
  unfolding AddPackage_def Let_def
  by (rule agent_one_write) (auto intro!: one_write_bind quiet_intros deliver_one_write)

lemma Send_one_write:
  "one_write (\<lambda>ev. 0 < amount \<and> (\<exists>t. lib_addr l toAddr = Some t \<and> agent_tx_of ago (\<lambda>a. MsgSend a t [(ugnot_denom, amount)]) ev))
    (Send_real nd l ago toAddr amount) h"
  unfolding Send_real_def Let_def
  apply (rule one_write_last | rule agent_one_write | (rule one_write_bind, intro quiet_intros) | simp only: prod.case)+
  by (auto simp: rpc_run agent_tx_of_def split: if_splits)

text \<open>A real write that succeeds has committed its transaction.\<close>

definition success_commits :: "'a rpc \<Rightarrow> bool" where
  "success_commits m \<longleftrightarrow> (\<forall>h h' x. m h = (h', Inr x) \<longrightarrow> (\<exists>evs ev. h' = h @ evs @ [ev] \<and> is_write ev))"

lemma success_commits_bind:
  assumes "quiet m" "\<And>x. success_commits (f x)"
  shows "success_commits (bindE m f)"
  unfolding success_commits_def bindE_Inr
proof (intro allI impI)
  fix h h' y assume "\<exists>h1 x. m h = (h1, Inr x) \<and> f x h1 = (h', Inr y)"
  then obtain h1 x where m: "m h = (h1, Inr x)" and f: "f x h1 = (h', Inr y)" by blast
  obtain evs where "h1 = h @ evs" using assms(1) m unfolding quiet_def by (metis fst_conv)
  moreover obtain evs' ev where "h' = h1 @ evs' @ [ev]" "is_write ev" using assms(2) f unfolding success_commits_def by blast
  ultimately show "\<exists>evs ev. h' = h @ evs @ [ev] \<and> is_write ev" by (intro exI [of _ "evs @ evs'"]) auto
qed

lemma success_commits_last:
  assumes "is_write ev" "\<And>x h. fst (f x h) = h"
  shows "success_commits (bindE (request ev ans g) f)"
  unfolding success_commits_def bindE_Inr request_Inr
  using assms by (metis append_Nil fst_conv)

lemma success_commits_map: "success_commits m \<Longrightarrow> success_commits (bindE m (\<lambda>x. ret (f x)))"
  unfolding success_commits_def bindE_Inr by auto

lemma success_commits_asUser: "success_commits (asUserTx nd l c sgo master b False)"
  unfolding asUserTx_def if_False by (intro success_commits_bind success_commits_last quiet_intros) simp_all

lemma success_commits_deliver: "success_commits (agent_deliver nd l a m p False out)"
  unfolding agent_deliver_def if_False Let_def by (rule success_commits_last) simp_all

lemma success_commits_writes:
  "success_commits (Call nd l ago realm fn args send False)" "success_commits (Run nd l ago code False)"
  "success_commits (AddPackage nd l ago path files False)" "success_commits (CallAsUser nd l c sgo master realm fn args send False)"
  "success_commits (RunAsUser nd l c sgo master code False)"
  unfolding Call_def Run_def AddPackage_def CallAsUser_def RunAsUser_def Let_def
  by (auto intro!: success_commits_bind success_commits_map success_commits_asUser success_commits_deliver quiet_intros)

lemma success_commits_send: "success_commits (Send_real nd l ago t n)"
  unfolding Send_real_def Let_def
  by (auto intro!: success_commits_bind success_commits_last quiet_intros)

text \<open>
  The agent signs as itself, once. Every agent-signed write sends at most one transaction, as its
  last request, from the signer's own address, with the message the caller asked for; a package is
  deployed with its files sorted and the fixed deposit cap; a transfer moves exactly the positive
  amount asked for, and a transfer of nothing or less sends no request at all.
\<close>

theorem agent_write_discipline:
  assumes "parseSendCoins l send = Inr coins"
  shows "one_write (agent_tx_of ago (\<lambda>a. MsgCall a coins realm fn args)) (Call nd l ago realm fn args send simulate) h \<and>
    one_write (agent_tx_of ago (\<lambda>a. MsgRun a [(''main.gno'', code)])) (Run nd l ago code simulate) h \<and>
    one_write (agent_tx_of ago (\<lambda>a. MsgAddPackage a path (sort_files files) [(ugnot_denom, DefaultMaxDepositUgnot)]))
      (AddPackage nd l ago path files simulate) h \<and>
    (if amount \<le> 0 then Send_real nd l ago toAddr amount h = (h, Inl (AmountNotPositive amount))
     else one_write (\<lambda>ev. \<exists>t. lib_addr l toAddr = Some t \<and> agent_tx_of ago (\<lambda>a. MsgSend a t [(ugnot_denom, amount)]) ev)
       (Send_real nd l ago toAddr amount) h)"
  using Call_one_write [of l send ago realm fn args] Run_one_write AddPackage_one_write Send_one_write [of amount l toAddr ago nd h] assms
  by (auto simp: Send_real_def [of nd l ago toAddr amount] bindE_def)

text \<open>
  A node and libraries for the witnesses: one session account that allows anything, gas measured as
  400000, price 1 ugnot per 1000 gas.
\<close>

definition demo_account :: session_account where
  "demo_account = \<lparr>sac_AccountNumber = 7, sac_Sequence = 3, sac_AllowPaths = [''vm/exec:r/a'', ''vm/run'', ''bank/send''],
     sac_SpendLimit = [(''ugnot'', 50)], sac_SpendUsed = [(''ugnot'', 50)], sac_ExpiresAt = 99\<rparr>"

definition demo_lib :: lib where
  "demo_lib = \<lparr>lib_addr = Some, lib_new_tx = (\<lambda>cfg m. Inr \<lparr>tx_fee = (''ugnot'', 10000), tx_gas = cfg_gas_wanted cfg, tx_msgs = [m]\<rparr>),
     lib_sign_bytes = (\<lambda>tx c n s. Inr c), lib_spend = (\<lambda>m a. None), lib_add = (@), lib_check = (\<lambda>acc c t. None),
     lib_decode_session = (\<lambda>b. Inr demo_account), lib_sub = (\<lambda>a b. []), lib_coins_string = (\<lambda>c. []), lib_parse_coins = (\<lambda>s. Inr []),
     lib_gas_price = (\<lambda>b. Inr \<lparr>gp_gas = 1000, gp_amount = 1, gp_denom = ''ugnot''\<rparr>), lib_amount_of = (\<lambda>c d. 0), lib_hex = id,
     lib_json_meta = (\<lambda>b. Inl []), lib_json_string = (\<lambda>b. Inr None), lib_json_strings = (\<lambda>b. Inr []), lib_valid_utf8 = id\<rparr>"

definition demo_node :: node where
  "demo_node = \<lparr>nd_query = (\<lambda>h p d. Inr ''x''),
     nd_simulate = (\<lambda>h tx. Inr \<lparr>sim_error = None, sim_log = [], sim_GasUsed = 400000, sim_Data = ''ok''\<rparr>),
     nd_broadcast = (\<lambda>h tx. Inr \<lparr>cm_Hash = ''hash'', cm_Height = 5, cm_Data = ''ok'', cm_GasUsed = 400000\<rparr>),
     nd_agent_tx = (\<lambda>h a c m. Inr \<lparr>cm_Hash = ''hash'', cm_Height = 5, cm_Data = ''ok'', cm_GasUsed = 400000\<rparr>), nd_now = (\<lambda>h. 1)\<rparr>"

definition demo_signer :: signer where
  "demo_signer = \<lparr>sn_Address = ''g1s'', sn_Pubkey = replicate 32 (CHR ''k''), sn_Sign = (\<lambda>b. Inr b)\<rparr>"

definition demo_agent :: agent_signer where
  "demo_agent = \<lparr>as_Info = Inr ''g1agent'', as_SignTx = (\<lambda>tx. Inr \<lparr>stx_tx = tx, stx_sigs = []\<rparr>)\<rparr>"

definition demo_build :: "addr \<Rightarrow> base_tx_cfg \<Rightarrow> string + utx" where
  "demo_build ma cfg = lib_new_tx demo_lib cfg (MsgRun ma [])"

lemma demo_fee: "gas_fee demo_node demo_lib (gasWantedFor 400000) h = (h @ [EvQuery QueryPath []], Inr 20000)"
proof -
  have "currentGasFee (\<lambda>p. Inr ''x'') (\<lambda>b. Inr \<lparr>gp_gas = 1000, gp_amount = 1, gp_denom = ''ugnot''\<rparr>) (gasWantedFor 400000) = Inr 20000"
    by code_simp
  then show ?thesis by (simp add: gas_fee_def request_def demo_node_def demo_lib_def)
qed

lemmas run_simps = bindE_def lift_opt_def lift_sum_def guardE_def request_def

lemmas demo_simps = demo_node_def demo_lib_def demo_account_def demo_signer_def demo_agent_def demo_build_def

lemmas demo_steps = run_simps querySessionAccount_def session_path_def checkSessionSpendForTx_def tx_outflow_def
  signTxForSession_def dryRun_def PubKeyEd25519Size_def agentTxSetup_def agentMeasure_def agentSimulate_def agent_deliver_def
  parseSendCoins_def Let_def demo_simps demo_fee [unfolded demo_node_def demo_lib_def demo_account_def]

lemma demo_session_run: "list_ex is_write (fst (asUserTx demo_node demo_lib ''dev'' (Some demo_signer) ''g1m'' demo_build False []))"
  unfolding asUserTx_def measure_and_price_def by (simp add: demo_steps)

theorem session_write_discipline_witness:
  "\<exists>tx. last (fst (asUserTx demo_node demo_lib ''dev'' (Some demo_signer) ''g1m'' demo_build False [])) = EvBroadcast tx \<and>
     session_tx_ok demo_node demo_lib ''dev'' (Some demo_signer) ''g1m'' demo_build (EvBroadcast tx)"
proof -
  let ?r = "asUserTx demo_node demo_lib ''dev'' (Some demo_signer) ''g1m'' demo_build False []"
  have b: "list_ex is_write (fst ?r)" by (rule demo_session_run)
  obtain evs tl where e: "fst ?r = [] @ evs @ tl" "\<not> list_ex is_write evs" "tl = [] \<or> \<not> False \<and>
      (\<exists>ev. tl = [ev] \<and> session_tx_ok demo_node demo_lib ''dev'' (Some demo_signer) ''g1m'' demo_build ev)"
    using session_write_discipline [of demo_node demo_lib "''dev''" "Some demo_signer" "''g1m''" demo_build False "[]" "fst ?r" "snd ?r"]
    by auto
  with b obtain ev where "tl = [ev]" "session_tx_ok demo_node demo_lib ''dev'' (Some demo_signer) ''g1m'' demo_build ev" by auto
  moreover from this(2) obtain tx where "ev = EvBroadcast tx" unfolding session_tx_ok_def by blast
  ultimately show ?thesis using e(1) by auto
qed

theorem simulation_predicts_witness:
  "map_sum id tr_GasFeeUgnot (snd (Run demo_node demo_lib (Some demo_agent) ''code'' True [])) = Inr 20000 \<and>
   map_sum id tr_GasFeeUgnot (snd (Run demo_node demo_lib (Some demo_agent) ''code'' False [])) = Inr 20000"
proof -
  have s: "map_sum id tr_GasFeeUgnot (snd (Run demo_node demo_lib (Some demo_agent) ''code'' True [])) = Inr 20000"
    unfolding Run_def by (simp add: demo_steps)
  have w: "\<not> isl (snd (Run demo_node demo_lib (Some demo_agent) ''code'' False []))"
    unfolding Run_def by (simp add: demo_steps)
  obtain b where b: "snd (Run demo_node demo_lib (Some demo_agent) ''code'' False []) = Inr b" using not_isl_Inr [OF w] by blast
  obtain a where ab: "snd (Run demo_node demo_lib (Some demo_agent) ''code'' True []) = Inr a"
    using s by (cases "snd (Run demo_node demo_lib (Some demo_agent) ''code'' True [])") auto
  have "predicts (Run demo_node demo_lib (Some demo_agent) ''code'' True []) (Run demo_node demo_lib (Some demo_agent) ''code'' False [])"
    using simulation_predicts by blast
  with ab b s show ?thesis by (simp add: predicts_def)
qed

theorem agent_write_discipline_witness:
  "one_write (agent_tx_of (Some demo_agent) (\<lambda>a. MsgCall a [] ''r/a'' ''F'' [])) (Call demo_node demo_lib (Some demo_agent) ''r/a'' ''F'' [] [] False) []
   \<and> list_ex is_write (fst (Call demo_node demo_lib (Some demo_agent) ''r/a'' ''F'' [] [] False []))"
proof
  have "parseSendCoins demo_lib [] = Inr []" by (simp add: parseSendCoins_def)
  from agent_write_discipline [OF this, of "Some demo_agent"]
  show "one_write (agent_tx_of (Some demo_agent) (\<lambda>a. MsgCall a [] ''r/a'' ''F'' [])) (Call demo_node demo_lib (Some demo_agent) ''r/a'' ''F'' [] [] False) []"
    by blast
  show "list_ex is_write (fst (Call demo_node demo_lib (Some demo_agent) ''r/a'' ''F'' [] [] False []))"
    unfolding Call_def by (simp add: demo_steps)
qed

text \<open>
  Only the chain's word deletes a session. At start-up over real chain clients, a session file
  disappears only if the profile has a client and its node, asked for exactly that session, answered
  that no such session exists: the not-found error, or an empty or null record. A node that is
  unreachable, answers with another error or with bytes that do not decode costs no session.
\<close>

definition denied :: "(string \<Rightarrow> string + bytes) \<Rightarrow> string \<Rightarrow> string \<Rightarrow> bool" where
  "denied q master sessionAddr \<longleftrightarrow>
     (case q (session_path master sessionAddr) of
        Inl e \<Rightarrow> Contains e ''session not found''
      | Inr data \<Rightarrow> data = [] \<or> data = ''null'')"

lemma QuerySession_cases:
  "QuerySession q l master addr = QUnsupported \<or>
   (\<exists>st. QuerySession q l master addr = QStatus st \<and> (ses_Active st \<or> denied q master addr))"
  by (auto simp: QuerySession_def denied_def isSessionNotFoundErr_def Let_def split: sum.splits prod.splits)

lemma hydrated_None_denied:
  assumes "hydrated (\<lambda>p. map_option (\<lambda>q. QuerySession q l) (nodes p)) profile meta = None"
  shows "\<exists>q. nodes profile = Some q \<and> denied q (sm_MasterAddress meta) (sm_SessionAddress meta)"
proof -
  obtain res where res: "queryChain (\<lambda>p. map_option (\<lambda>q. QuerySession q l) (nodes p)) profile (sm_MasterAddress meta)
      (sm_SessionAddress meta) = Some res" "\<not> cc_Unsupported res" "\<not> cc_Active res"
    using assms by (auto simp: hydrated_def split: option.splits if_splits)
  then obtain q where q: "nodes profile = Some q" by (auto simp: queryChain_def split: option.splits)
  from QuerySession_cases [of q l "sm_MasterAddress meta" "sm_SessionAddress meta"] res q show ?thesis
    by (auto simp: queryChain_def split: if_splits)
qed

theorem Hydrate_real_denial:
  assumes "Hydrate lst (Store_Delete rm s) (\<lambda>p. map_option (\<lambda>q. QuerySession q l) (nodes p)) m [profile] = (m', None)"
    and "fget (mg_fs m) d n = Some data" "fget (mg_fs m') d n \<noteq> Some data"
  shows "d = st_profileDir s profile \<and> (\<exists>q metas meta. nodes profile = Some q \<and> lst (mg_fs m) profile = Inr metas \<and> meta \<in> set metas \<and>
     n = st_file (sm_SessionAddress meta) \<and> denied q (sm_MasterAddress meta) (sm_SessionAddress meta))"
proof -
  obtain metas where ms: "lst (mg_fs m) profile = Inr metas" and "m' = fold (hydrate_one (Store_Delete rm s) (\<lambda>p. map_option (\<lambda>q. QuerySession q l) (nodes p)) profile) metas m"
    using assms(1) by (auto split: sum.splits)
  with hydrate_fold_file [OF assms(2), of rm s "\<lambda>p. map_option (\<lambda>q. QuerySession q l) (nodes p)" profile metas] assms(3)
  obtain meta where d: "d = st_profileDir s profile" "n = st_file (sm_SessionAddress meta)" "meta \<in> set metas"
      "hydrated (\<lambda>p. map_option (\<lambda>q. QuerySession q l) (nodes p)) profile meta = None" by auto
  from hydrated_None_denied [OF d(4)] d ms show ?thesis by blast
qed

theorem Hydrate_real_denial_witness:
  "\<exists>q. q = (\<lambda>p::string. (Inl ''session not found'' :: string + bytes)) \<and> denied q ''g1m'' ''g1s''"
proof -
  let ?q = "\<lambda>p::string. (Inl ''session not found'' :: string + bytes)"
  let ?m = "\<lparr>mg_sessions = (\<lambda>p. Map.empty), mg_fs = [''/s/dev'' \<mapsto> [(''g1s.key'', ''x'')]]\<rparr>"
  let ?h = "Hydrate (\<lambda>fs p. Inr [demo_meta]) (Store_Delete False demo_store) (\<lambda>p. map_option (\<lambda>q. QuerySession q demo_lib) (Some ?q))"
  have e: "?h ?m [''dev''] = (fst (?h ?m [''dev'']), None)" by simp
  have g: "fget (mg_fs (fst (?h ?m [''dev'']))) ''/s/dev'' ''g1s.key'' \<noteq> Some ''x''" by code_simp
  have o: "fget (mg_fs ?m) ''/s/dev'' ''g1s.key'' = Some ''x''" by (simp add: fget_def entries_def)
  from Hydrate_real_denial [OF e o g] show ?thesis by (simp add: demo_meta_def)
qed

text \<open>
  What the user grants is what the session may do. The permissions a pasted session create command
  grants (its \<open>--allow-paths\<close> arguments), as the chain stores them and \<open>QuerySession\<close> reads them back,
  are exactly the paths and the run permission of the scope that was proposed.
\<close>

fun flag_values :: "string \<Rightarrow> string list \<Rightarrow> string list" where
  "flag_values f (x # y # r) = (if x = f then y # flag_values f r else flag_values f (y # r))"
| "flag_values f _ = []"

lemma flag_values_paths: "flag_values f (concat (map (\<lambda>q. [f, g q]) qs) @ r) = map g qs @ flag_values f r"
  by (induction qs) simp_all

lemma flag_values_skip: "x \<noteq> f \<Longrightarrow> flag_values f (x # r) = flag_values f r"
  by (cases r) simp_all

lemma splitAllowPaths_grants:
  "splitAllowPaths (map (\<lambda>q. ''vm/exec:'' @ q) qs @ (if b then [''vm/run''] else [])) = (qs, b)"
  by (induction qs) (simp_all add: CutPrefix_def HasPrefix_def)

lemma show_int_not_flag: "show_int i \<noteq> CHR ''-'' # CHR ''-'' # s"
proof -
  have "show_nat n \<noteq> CHR ''-'' # t" for n t
    using show_nat_digits [of n] by (auto simp: is_digit_def)
  then show ?thesis by (auto simp: show_int_def)
qed

lemma gas_fee_not_flag: "gnokey_gas_fee fee \<noteq> CHR ''-'' # CHR ''-'' # s"
proof -
  have "DefaultGasFeeUgnot = 10000" by code_simp
  then have "gnokey_gas_fee fee = show_nat (nat (if fee > 0 then fee else 10000)) @ ''ugnot''"
    by (simp add: gnokey_gas_fee_def show_int_def del: show_nat.simps)
  then obtain n where n: "gnokey_gas_fee fee = show_nat n @ ''ugnot''" by blast
  show ?thesis
  proof (cases "show_nat n")
    case (Cons c r)
    then have "is_digit c" using show_nat_digits [of n] by simp
    then show ?thesis unfolding n Cons by (auto simp: is_digit_def)
  qed (use show_nat_nonempty [of n] in blast)
qed

theorem granted_scope_roundtrip:
  assumes "''--allow-paths'' \<notin> {pk, SpendLimit sc, RPCURL p, ChainID p}"
    and "q (session_path master addr) = Inr data" "data \<noteq> []" "data \<noteq> ''null''" "master \<noteq> []" "addr \<noteq> []"
    and "lib_decode_session l data = Inr acc"
    and "sac_AllowPaths acc = flag_values ''--allow-paths'' (create_argv p pk sc fee now)"
  shows "\<exists>st. QuerySession q l master addr = QStatus st \<and> ses_Active st \<and>
     ses_AllowPaths st = AllowPaths sc \<and> ses_AllowRun st = AllowRun sc"
proof -
  have ne: "pk \<noteq> ''--allow-paths''" "SpendLimit sc \<noteq> ''--allow-paths''" "RPCURL p \<noteq> ''--allow-paths''" "ChainID p \<noteq> ''--allow-paths''"
    using assms(1) by auto
  have "flag_values ''--allow-paths'' (create_argv p pk sc fee now) =
      map (\<lambda>q. ''vm/exec:'' @ q) (AllowPaths sc) @ (if AllowRun sc then [''vm/run''] else [])"
    using ne by (simp add: create_argv_def flag_values_skip flag_values_paths show_int_not_flag gas_fee_not_flag)
  then have "splitAllowPaths (sac_AllowPaths acc) = (AllowPaths sc, AllowRun sc)"
    unfolding assms(8) by (simp only: splitAllowPaths_grants)
  then show ?thesis using assms(2-7) by (simp add: QuerySession_def)
qed

theorem granted_scope_roundtrip_witness:
  "\<exists>st. QuerySession (\<lambda>p. Inr ''x'') (demo_lib\<lparr>lib_decode_session := (\<lambda>b. Inr (demo_account\<lparr>sac_AllowPaths := [''vm/exec:r/a'', ''vm/run'']\<rparr>))\<rparr>)
      ''g1m'' ''g1s'' = QStatus st \<and> ses_AllowPaths st = [''r/a''] \<and> ses_AllowRun st"
proof -
  let ?sc = "\<lparr>SpendLimit = ''5ugnot'', SpendPeriod = nhour, ExpiresIn = nhour, AllowPaths = [''r/a''], AllowRun = True\<rparr>"
  let ?p = "empty_profile\<lparr>RPCURL := ''http://h'', ChainID := ''dev''\<rparr>"
  let ?acc = "demo_account\<lparr>sac_AllowPaths := [''vm/exec:r/a'', ''vm/run'']\<rparr>"
  have f: "flag_values ''--allow-paths'' (create_argv ?p ''pk'' ?sc 7 0) = [''vm/exec:r/a'', ''vm/run'']"
    by (simp add: create_argv_def flag_values_skip show_int_not_flag gas_fee_not_flag empty_profile_def)
  show ?thesis
    using granted_scope_roundtrip [of "''pk''" ?sc ?p "\<lambda>p. Inr ''x''" "''g1m''" "''g1s''" "''x''"
        "demo_lib\<lparr>lib_decode_session := (\<lambda>b. Inr ?acc)\<rparr>" ?acc 7 0] f by (auto simp: empty_profile_def)
qed

end
