(* ===== verification/Server.thy ===== *)
theory Server
  imports Complex_Main Profiles Untrusted
begin

section \<open>The tool server: internal/server, internal/audit, cmd/gnomcp main.go\<close>

text \<open>
  Typed access to decoded JSON arguments, the tool registry, the profile argument of the schemas,
  the server's profile table with its dynamic additions, the audit log, and the adapter that runs
  one tool call: default profile, dispatch with panic recovery, audit line, result. A handler is a
  function from the arguments and the state of the program to the new state, the audit entries it
  wrote itself and its outcome; a panic is an outcome.
\<close>

subsection \<open>Arguments\<close>

text \<open>
  Decoded JSON. A number is a \<open>float64\<close> (a rational), an \<open>int64\<close> or \<open>int\<close>, or a \<open>json.Number\<close>,
  the three forms \<open>Int64Arg\<close> accepts.
\<close>

datatype json =
    JNull
  | JBool bool
  | JFloat rat
  | JInt int64
  | JNumber string
  | JStr string
  | JArr "json list"
  | JObj "(string \<times> json) list"

type_synonym args = "string \<rightharpoonup> json"

datatype arg_error =
    ExpectedString string
  | ExpectedBool string
  | ExpectedWhole string
  | ExpectedNumber string
  | ExpectedArray string
  | ExpectedElem string nat

definition StringArg :: "args \<Rightarrow> string \<Rightarrow> arg_error + string" where
  "StringArg args name =
     (case args name of None \<Rightarrow> Inr [] | Some (JStr v) \<Rightarrow> Inr v | Some _ \<Rightarrow> Inl (ExpectedString name))"

definition BoolArg :: "args \<Rightarrow> string \<Rightarrow> arg_error + bool" where
  "BoolArg args name =
     (case args name of None \<Rightarrow> Inr False | Some (JBool v) \<Rightarrow> Inr v | Some _ \<Rightarrow> Inl (ExpectedBool name))"

text \<open>
  Conversion between \<open>float64\<close> and \<open>int64\<close>: truncation in range; out of range the result depends on the
  machine (\<open>oor\<close>). \<open>f64\<close> rounds an int64 to the nearest \<open>float64\<close>.
\<close>

definition trunc_rat :: "rat \<Rightarrow> int" where
  "trunc_rat v = (if v < 0 then - floor (- v) else floor v)"

definition int64_of_float :: "(rat \<Rightarrow> int64) \<Rightarrow> rat \<Rightarrow> int64" where
  "int64_of_float oor v = (if in_i64 (trunc_rat v) then trunc_rat v else oor v)"

definition ParseInt_signed :: "string \<Rightarrow> int64 option" where
  "ParseInt_signed s =
     (if HasPrefix s ''-'' \<or> HasPrefix s ''+'' then
        (let ds = tl s; n = (if HasPrefix s ''-'' then - int (digits_val ds) else int (digits_val ds))
         in if ds \<noteq> [] \<and> list_all is_digit ds \<and> in_i64 n then Some n else None)
      else ParseInt s)"

definition Int64Arg :: "(rat \<Rightarrow> int64) \<Rightarrow> (int64 \<Rightarrow> rat) \<Rightarrow> args \<Rightarrow> string \<Rightarrow> arg_error + int64" where
  "Int64Arg oor f64 args name =
     (case args name of
        None \<Rightarrow> Inr 0
      | Some (JFloat v) \<Rightarrow>
          if v \<noteq> f64 (int64_of_float oor v) then Inl (ExpectedWhole name) else Inr (int64_of_float oor v)
      | Some (JInt v) \<Rightarrow> Inr v
      | Some (JNumber v) \<Rightarrow> (case ParseInt_signed v of None \<Rightarrow> Inl (ExpectedWhole name) | Some n \<Rightarrow> Inr n)
      | Some _ \<Rightarrow> Inl (ExpectedNumber name))"

fun string_elems :: "string \<Rightarrow> nat \<Rightarrow> json list \<Rightarrow> arg_error + string list" where
  "string_elems name i [] = Inr []"
| "string_elems name i (x # xs) =
     (case x of
        JStr s \<Rightarrow> (case string_elems name (Suc i) xs of Inl e \<Rightarrow> Inl e | Inr r \<Rightarrow> Inr (s # r))
      | _ \<Rightarrow> Inl (ExpectedElem name i))"

text \<open>A missing slice and an empty one are both the empty list.\<close>

definition StringSliceArg :: "args \<Rightarrow> string \<Rightarrow> arg_error + string list" where
  "StringSliceArg args name =
     (case args name of None \<Rightarrow> Inr [] | Some (JArr xs) \<Rightarrow> string_elems name 0 xs | Some _ \<Rightarrow> Inl (ExpectedArray name))"

subsection \<open>Tools and results\<close>

datatype capability = CapBaseRead | CapIndexerRead | CapWrite | CapWritePrep | CapSessionRead | CapA2A

datatype output_kind = OutputText | OutputResource

record annotations =
  an_ReadOnly :: bool
  an_Destructive :: bool
  an_Idempotent :: bool
  an_OpenWorld :: bool

definition Annotations_valid :: "annotations \<Rightarrow> bool" where
  "Annotations_valid a \<longleftrightarrow> \<not> (an_ReadOnly a \<and> an_Destructive a)"

record tool_result =
  rs_Text :: string
  rs_ResourceURI :: string
  rs_ResourceBody :: string
  rs_ResourceMIME :: string
  rs_Structured :: "(string \<times> json) list"

text \<open>A structured \<open>ToolError\<close>, or any other error with its text.\<close>

datatype tool_error =
    ToolError string string "(string \<times> json) list"
  | PlainError string

datatype outcome = Returned tool_result | Failed tool_error | Panicked string

record audit_entry =
  ae_Tool :: string
  ae_Profile :: string
  ae_ArgsSummary :: string
  ae_Result :: string
  ae_SessionAddress :: string

type_synonym 's handler = "args \<Rightarrow> 's \<Rightarrow> 's \<times> audit_entry list \<times> outcome"

text \<open>What \<open>Tool\<close> declares, and the handler it closes over. A schema is the list of its keys.\<close>

record tool_decl =
  tl_Name :: string
  tl_Description :: string
  tl_InputSchema :: "(string \<times> json) list"
  tl_OutputKind :: output_kind
  tl_Capability :: capability
  tl_Annotations :: annotations
  tl_SelfAudited :: bool

record 's tool = tool_decl +
  tl_Handler :: "'s handler option"

subsection \<open>The registry\<close>

type_synonym 's registry = "'s tool list"

definition Registry_Add :: "'a tool_decl_scheme \<Rightarrow> 'a tool_decl_scheme list \<Rightarrow> 'a tool_decl_scheme list" where
  "Registry_Add t r = t # filter (\<lambda>u. tl_Name u \<noteq> tl_Name t) r"

definition Registry_Get :: "'a tool_decl_scheme list \<Rightarrow> string \<Rightarrow> 'a tool_decl_scheme option" where
  "Registry_Get r name = List.find (\<lambda>t. tl_Name t = name) r"

definition WithCapability :: "'a tool_decl_scheme list \<Rightarrow> capability \<Rightarrow> 'a tool_decl_scheme list" where
  "WithCapability r c = sort_by tl_Name (filter (\<lambda>t. tl_Capability t = c) r)"

definition Registry_All :: "'a tool_decl_scheme list \<Rightarrow> 'a tool_decl_scheme list" where
  "Registry_All r = sort_by tl_Name r"

text \<open>\<open>Call\<close> (\<open>quote\<close> is the verb \<open>%q\<close>): a panic of the handler becomes an error; what the handler had done by then stays done.\<close>

definition Registry_Call :: "(string \<Rightarrow> string) \<Rightarrow> 's registry \<Rightarrow> string \<Rightarrow> args \<Rightarrow> 's \<Rightarrow> 's \<times> audit_entry list \<times> (tool_error + tool_result)" where
  "Registry_Call quote r name args s =
     (case Registry_Get r name of
        None \<Rightarrow> (s, [], Inl (PlainError (''unknown tool: '' @ name)))
      | Some t \<Rightarrow>
          (case tl_Handler t of
             None \<Rightarrow> (s, [], Inl (PlainError (''tool '' @ quote name @ '' has no handler'')))
           | Some h \<Rightarrow>
               (case h args s of (s', es, out) \<Rightarrow>
                  (s', es, case out of
                     Returned res \<Rightarrow> Inr res
                   | Failed e \<Rightarrow> Inl e
                   | Panicked rec \<Rightarrow> Inl (PlainError (''tool '' @ quote name @ '' panicked: '' @ rec))))))"

subsection \<open>The profile argument\<close>

record profile_schema =
  psc_Enum :: "string list"
  psc_Default :: string
  psc_Required :: bool

definition chain_label :: "Profile \<Rightarrow> string" where
  "chain_label p = (if IsReadOnly p then '', read-only'' else if Sunset p then '', sunset'' else [])"

definition ProfileChainList :: "(string \<Rightarrow> Profile) \<Rightarrow> string list \<Rightarrow> string" where
  "ProfileChainList cfg names =
     Join (map (\<lambda>n. n @ '' (chain '' @ ChainID (cfg n) @ chain_label (cfg n) @ '')'') names) '', ''"

text \<open>\<open>keys\<close> are the names of the loaded profiles, in any order.\<close>

definition ProfileArgSchema :: "string list \<Rightarrow> string \<Rightarrow> profile_schema" where
  "ProfileArgSchema keys discoveredLocal =
     (let names = sort_by id keys;
          discovered = (if discoveredLocal \<noteq> [] \<and> discoveredLocal \<notin> set keys then [] else discoveredLocal)
      in if names = [] then \<lparr>psc_Enum = [], psc_Default = [], psc_Required = True\<rparr>
         else if discovered \<noteq> [] then \<lparr>psc_Enum = names, psc_Default = discovered, psc_Required = False\<rparr>
         else \<lparr>psc_Enum = names, psc_Default = (if ''testnet'' \<in> set names then ''testnet'' else hd names), psc_Required = False\<rparr>)"

subsection \<open>The server's profiles\<close>

text \<open>The table as an association list with distinct names.\<close>

record server =
  sv_profiles :: "(string \<times> Profile) list"
  sv_initNames :: "string list"
  sv_discoveredLocal :: string

datatype dyn_error = ErrProfileNameInvalid string | ErrProfileReserved | ErrProfileImmutable string

definition NewServer :: "(string \<times> Profile) list \<Rightarrow> string \<Rightarrow> server" where
  "NewServer cfg discovered = \<lparr>sv_profiles = cfg, sv_initNames = map fst cfg, sv_discoveredLocal = discovered\<rparr>"

definition server_profile :: "server \<Rightarrow> string \<Rightarrow> Profile option" where
  "server_profile s name = map_of (sv_profiles s) name"

definition CheckDynamicProfileName :: "server \<Rightarrow> string \<Rightarrow> dyn_error option" where
  "CheckDynamicProfileName s name =
     (if \<not> ValidProfileName name then Some (ErrProfileNameInvalid name)
      else if name = ''default'' then Some ErrProfileReserved
      else if name \<in> set (sv_initNames s) then Some (ErrProfileImmutable name)
      else None)"

definition AddDynamicProfile :: "string \<Rightarrow> Profile \<Rightarrow> server \<Rightarrow> server \<times> dyn_error option" where
  "AddDynamicProfile name p s =
     (if \<not> ValidProfileName name then (s, Some (ErrProfileNameInvalid name))
      else if name = ''default'' then (s, Some ErrProfileReserved)
      else if name \<in> set (sv_initNames s) then (s, Some (ErrProfileImmutable name))
      else (s\<lparr>sv_profiles := (name, p) # filter (\<lambda>q. fst q \<noteq> name) (sv_profiles s)\<rparr>, None))"

definition AnyProfileHasIndexer :: "server \<Rightarrow> bool" where
  "AnyProfileHasIndexer s = list_ex (\<lambda>(n, p). TxIndexerURL p \<noteq> []) (sv_profiles s)"

definition AnyProfileTestnet :: "server \<Rightarrow> bool" where
  "AnyProfileTestnet s = list_ex (\<lambda>(n, p). IsTestnet p) (sv_profiles s)"

definition server_schema :: "server \<Rightarrow> profile_schema" where
  "server_schema s = ProfileArgSchema (map fst (sv_profiles s)) (sv_discoveredLocal s)"

subsection \<open>The audit log\<close>

text \<open>The writer of the log may fail; \<open>Record\<close> then only warns.\<close>

definition Append :: "bool \<Rightarrow> audit_entry \<Rightarrow> audit_entry list \<Rightarrow> audit_entry list \<times> bool" where
  "Append fails e l = (if fails then (l, False) else (l @ [e], True))"

definition Record :: "bool \<Rightarrow> audit_entry \<Rightarrow> audit_entry list \<Rightarrow> audit_entry list" where
  "Record fails e l = fst (Append fails e l)"

definition shouldAuditAtAdapter :: "capability \<Rightarrow> bool \<Rightarrow> bool \<Rightarrow> bool" where
  "shouldAuditAtAdapter c selfAudited auditReads =
     (if selfAudited then False else c = CapWrite \<or> c = CapWritePrep \<or> auditReads)"

definition safeArgKeys :: "string list" where
  "safeArgKeys = [''profile'', ''realm'', ''func'', ''path'', ''file'', ''deploy_path'', ''simulate'', ''identity'', ''limit'',
     ''since'', ''until'', ''namespace'', ''tag'', ''category'', ''allow_run'', ''expires_in'', ''gnoweb_url'', ''name'', ''address'',
     ''rpc_url'', ''chain_id'', ''tx_indexer_url'', ''faucet_service_url'', ''faucet_url'']"

text \<open>\<open>marshal\<close> is \<open>json.Marshal\<close> of a map.\<close>

definition argsSummary :: "(args \<Rightarrow> string option) \<Rightarrow> args \<Rightarrow> string" where
  "argsSummary marshal args =
     (if args = Map.empty then []
      else (let redacted = (\<lambda>k. case args k of None \<Rightarrow> None
                               | Some v \<Rightarrow> Some (if k \<in> set safeArgKeys then v else JStr ''[redacted]''))
            in case marshal redacted of
                 None \<Rightarrow> []
               | Some b \<Rightarrow> if length b > 200 then take 200 b @ ''...'' else b))"

subsection \<open>The adapter\<close>

definition argString :: "args \<Rightarrow> string \<Rightarrow> string" where
  "argString args k = (case args k of Some (JStr v) \<Rightarrow> v | _ \<Rightarrow> [])"

definition toolAcceptsProfile :: "'a tool_decl_scheme \<Rightarrow> bool" where
  "toolAcceptsProfile t =
     (case map_of (tl_InputSchema t) ''properties'' of Some (JObj props) \<Rightarrow> map_of props ''profile'' \<noteq> None | _ \<Rightarrow> False)"

definition applyProfileDefault :: "'a tool_decl_scheme \<Rightarrow> server \<Rightarrow> args \<Rightarrow> args" where
  "applyProfileDefault t s args =
     (let def = psc_Default (server_schema s)
      in if def = [] \<or> \<not> toolAcceptsProfile t then args
         else case args ''profile'' of
                None \<Rightarrow> args(''profile'' \<mapsto> JStr def)
              | Some (JStr v) \<Rightarrow> if v \<noteq> [] then args else args(''profile'' \<mapsto> JStr def)
              | Some _ \<Rightarrow> args)"

record mcp_result =
  mr_Text :: string
  mr_Resource :: "(string \<times> string) option"
  mr_Structured :: "(string \<times> json) list"
  mr_IsError :: bool

definition formatResult :: "tool_result \<Rightarrow> output_kind \<Rightarrow> mcp_result" where
  "formatResult res kind =
     (case kind of
        OutputResource \<Rightarrow>
          \<lparr>mr_Text = rs_ResourceBody res,
             mr_Resource = Some (rs_ResourceURI res, if rs_ResourceMIME res = [] then ''text/markdown'' else rs_ResourceMIME res),
             mr_Structured = rs_Structured res, mr_IsError = False\<rparr>
      | OutputText \<Rightarrow>
          \<lparr>mr_Text = rs_Text res, mr_Resource = None, mr_Structured = rs_Structured res, mr_IsError = False\<rparr>)"

definition toolErrorResult :: "tool_error \<Rightarrow> mcp_result" where
  "toolErrorResult e =
     (case e of
        ToolError code message extra \<Rightarrow>
          \<lparr>mr_Text = Neutralize message, mr_Resource = None,
           mr_Structured = (''code'', JStr code) # filter (\<lambda>kv. fst kv \<noteq> ''code'') extra, mr_IsError = True\<rparr>
      | PlainError text \<Rightarrow> \<lparr>mr_Text = Neutralize text, mr_Resource = None, mr_Structured = [], mr_IsError = True\<rparr>)"

text \<open>
  \<open>makeHandler\<close>: \<open>raw\<close> is what \<open>json.Unmarshal\<close> made of the request's arguments (\<open>None\<close>: no arguments).
  The log is written in the order the entries arrive; \<open>fails\<close> says which writes fail.
\<close>

definition makeHandler ::
  "(string \<Rightarrow> string) \<Rightarrow> (args \<Rightarrow> string option) \<Rightarrow> 's tool \<Rightarrow> 's registry \<Rightarrow> server \<Rightarrow> bool \<Rightarrow> (string + args) option \<Rightarrow> 's \<Rightarrow>
   's \<times> audit_entry list \<times> mcp_result" where
  "makeHandler quote marshal t reg sv auditReads raw s =
     (case raw of
        Some (Inl e) \<Rightarrow>
          (s, [], \<lparr>mr_Text = ''invalid arguments: '' @ e, mr_Resource = None, mr_Structured = [], mr_IsError = True\<rparr>)
      | _ \<Rightarrow>
          (let args0 = (case raw of Some (Inr a) \<Rightarrow> a | _ \<Rightarrow> Map.empty);
               args = applyProfileDefault t sv args0
           in case Registry_Call quote reg (tl_Name t) args s of (s', es, res) \<Rightarrow>
                (s',
                 es @ (if shouldAuditAtAdapter (tl_Capability t) (tl_SelfAudited t) auditReads
                       then [\<lparr>ae_Tool = tl_Name t, ae_Profile = argString args ''profile'', ae_ArgsSummary = argsSummary marshal args,
                              ae_Result = (case res of Inl _ \<Rightarrow> ''tool_err'' | Inr _ \<Rightarrow> ''ok''), ae_SessionAddress = []\<rparr>]
                       else []),
                 (case res of Inl e \<Rightarrow> toolErrorResult e | Inr r \<Rightarrow> formatResult r (tl_OutputKind t)))))"

subsection \<open>Server instructions\<close>

definition maxMCPTextLen :: nat where "maxMCPTextLen = 2048"

text \<open>\<open>utf8.RuneCountInString\<close> of valid UTF-8: the bytes that do not continue a rune.\<close>

definition RuneCount :: "string \<Rightarrow> nat" where
  "RuneCount s = length (filter (\<lambda>c. \<not> (128 \<le> (of_char c :: nat) \<and> (of_char c :: nat) < 192)) s)"

definition serverInstructions :: string where
  "serverInstructions = concat [
     ''Indexer and faucet tools exist only for profiles that provide them.'',
     nl,
     ''- IDENTITY: keys and mnemonics never enter the conversation; never request key material. The agent key signs agent writes. '',
     ''Writing AS the user needs a session the user approves with their own gnokey: gno_session_propose (with no profile master-address, '',
     ''pass the user's PUBLIC g1 address as master_address), the user runs the printed command, then retry with identity=session. '',
     ''Sessions cover gno_call and gno_run; gno_addpkg is not session-signed.'',
     nl,
     ''- DISCOVER: never guess a package path; gno_packages lists a prefix or @namespace. gno_profile_list maps a chain the user names '',
     ''(\"on onyx\") to a profile. A gnoweb URL names its chain: resolve it with gno_profile_add (gnoweb_url=...), never read it on the ambient profile.'',
     nl,
     ''- READ: gno_read (outline by default; symbols=[...] or full=true for source), gno_render, gno_eval. An outline is navigation, not evidence.'',
     nl,
     ''- WRITE (testnet): gno_key_generate once, gno_faucet_fund, then gno_call / gno_run / gno_addpkg; the key arg picks among several agent keys. '',
     ''On cla_unsigned, show the user gno_cla_info's agreement URL, then gno_cla_sign once they confirm. A deploy is callable only once '',
     ''gno_addpkg reports package_status live. Where deploys park (onyx), a parked path fails with package_parked, and gno_run fails with run_not_allowed.'',
     nl,
     ''- RECOVER: tool errors carry their repair; perform it when the user's request already authorizes it, and hand back only the steps '',
     ''that need the user (gnokey, a client restart).'',
     nl,
     ''Report which identity signed every write.'',
     nl]"

definition profileLine :: "string \<Rightarrow> Profile \<Rightarrow> string" where
  "profileLine name p =
     ''- '' @ name @ '': '' @ ChainID p @ '' at '' @ RPCURL p @ '', '' @ Kind p @
     (if IsReadOnly p then '' (read tools only)''
      else if Sunset p then '' (sunset: still fully writable, prefer the current testnet)'' else []) @
     (if MasterAddress p \<noteq> [] then '', write-as-user'' else []) @
     (if GnowebURL p \<noteq> [] then '', gnoweb '' @ GnowebURL p else []) @ nl"

definition moreProfilesLine :: "nat \<Rightarrow> string" where
  "moreProfilesLine n = ''- '' @ show_nat n @ '' more: gno_profile_list lists every profile.'' @ nl"

fun list_profiles :: "string \<Rightarrow> (string \<times> Profile) list \<Rightarrow> string" where
  "list_profiles b [] = b"
| "list_profiles b ((name, p) # rest) =
     (let line = profileLine name p;
          reserve = (if length rest > 0 then RuneCount (moreProfilesLine (length rest)) else 0)
      in if RuneCount b + RuneCount line + reserve > maxMCPTextLen then b @ moreProfilesLine (Suc (length rest))
         else list_profiles (b @ line) rest)"

definition buildServerInstructions :: "(string \<times> Profile) list \<Rightarrow> string" where
  "buildServerInstructions profs =
     list_profiles (serverInstructions @
       ''Profiles at startup, what exists, not what is reachable (gno_profile_list is current):'' @ nl) (sort_by fst profs)"

subsection \<open>Paths and caps from the environment\<close>

text \<open>
  \<open>env\<close> is \<open>os.Getenv\<close>, \<open>home\<close> the home directory when there is one, as a clean path other than the root
  (so that \<open>filepath.Join\<close> only puts a slash between).
\<close>

definition env_path :: "(string \<Rightarrow> string) \<Rightarrow> string option \<Rightarrow> string \<Rightarrow> string \<Rightarrow> string \<Rightarrow> string" where
  "env_path env home var sub fallback =
     (if env var \<noteq> [] then env var
      else case home of Some h \<Rightarrow> h @ ''/.local/share/gnomcp/'' @ sub | None \<Rightarrow> fallback)"

definition defaultAuditPath :: "(string \<Rightarrow> string) \<Rightarrow> string option \<Rightarrow> string" where
  "defaultAuditPath env home = env_path env home ''GNOMCP_AUDIT_PATH'' ''audit.jsonl'' ''audit.jsonl''"

definition defaultSessionsPath :: "(string \<Rightarrow> string) \<Rightarrow> string option \<Rightarrow> string" where
  "defaultSessionsPath env home = env_path env home ''GNOMCP_SESSIONS_PATH'' ''sessions'' ''./sessions''"

definition defaultAgentKeysPath :: "(string \<Rightarrow> string) \<Rightarrow> string option \<Rightarrow> string" where
  "defaultAgentKeysPath env home = env_path env home ''GNOMCP_AGENT_KEYS_PATH'' ''agent-keys'' ''./agent-keys''"

definition defaultAgentMaxKeys :: "(string \<Rightarrow> string) \<Rightarrow> int64" where
  "defaultAgentMaxKeys env =
     (let v = env ''GNOMCP_AGENT_MAX_KEYS''
      in if v \<noteq> [] then (case ParseInt_signed v of Some n \<Rightarrow> if n > 0 then n else 5 | None \<Rightarrow> 5) else 5)"

definition resolveSources :: "(string \<Rightarrow> string) \<Rightarrow> string option \<Rightarrow> string \<Rightarrow> Sources" where
  "resolveSources env home explicit =
     \<lparr>GlobalPath = (case home of Some h \<Rightarrow> h @ ''/.config/gnomcp/profiles.toml'' | None \<Rightarrow> []),
      ProjectPath = ''profiles.toml'', ExplicitPath = (if explicit = [] then env ''GNOMCP_CONFIG'' else explicit)\<rparr>"


subsection \<open>Chain clients\<close>

text \<open>
  \<open>buildChainResolver\<close> caches one client per profile name with the connection data it was dialled
  with; \<open>dial\<close> is \<open>chain.NewReal\<close>, \<open>None\<close> its error. A profile that cannot be dialled at startup ends
  the program (\<open>None\<close>).
\<close>

record 'c conn =
  cn_rpcURL :: string
  cn_chainID :: string
  cn_client :: 'c

type_synonym 'c conn_cache = "string \<rightharpoonup> 'c conn"

fun seed_cache :: "(string \<Rightarrow> string \<Rightarrow> 'c option) \<Rightarrow> (string \<times> Profile) list \<Rightarrow> 'c conn_cache \<Rightarrow> 'c conn_cache option" where
  "seed_cache dial [] cache = Some cache"
| "seed_cache dial ((name, p) # ps) cache =
     (case dial (RPCURL p) (ChainID p) of
        None \<Rightarrow> None
      | Some c \<Rightarrow> seed_cache dial ps (cache(name \<mapsto> \<lparr>cn_rpcURL = RPCURL p, cn_chainID = ChainID p, cn_client = c\<rparr>)))"

definition chainResolver ::
  "(string \<Rightarrow> string \<Rightarrow> 'c option) \<Rightarrow> server \<Rightarrow> string \<Rightarrow> 'c conn_cache \<Rightarrow> 'c conn_cache \<times> 'c option" where
  "chainResolver dial s profile cache =
     (case server_profile s profile of
        None \<Rightarrow> (cache, None)
      | Some p \<Rightarrow>
          (let fresh =
                 (case dial (RPCURL p) (ChainID p) of
                    None \<Rightarrow> (cache, None)
                  | Some c \<Rightarrow>
                      (cache(profile \<mapsto> \<lparr>cn_rpcURL = RPCURL p, cn_chainID = ChainID p, cn_client = c\<rparr>), Some c))
           in case cache profile of
                Some e \<Rightarrow>
                  if cn_rpcURL e = RPCURL p \<and> cn_chainID e = ChainID p then (cache, Some (cn_client e)) else fresh
              | None \<Rightarrow> fresh))"

text \<open>\<open>buildIndexerResolver\<close>; \<open>NewGraphQL\<close> cannot fail.\<close>

definition indexerResolver ::
  "(string \<Rightarrow> 'i) \<Rightarrow> server \<Rightarrow> string \<Rightarrow> (string \<rightharpoonup> string \<times> 'i) \<Rightarrow> (string \<rightharpoonup> string \<times> 'i) \<times> 'i option" where
  "indexerResolver newGraphQL s profile cache =
     (case server_profile s profile of
        None \<Rightarrow> (cache, None)
      | Some p \<Rightarrow>
          if TxIndexerURL p = [] then (cache, None)
          else (let c = newGraphQL (TxIndexerURL p); fresh = (cache(profile \<mapsto> (TxIndexerURL p, c)), Some c)
                in case cache profile of
                     Some (url, i) \<Rightarrow> if url = TxIndexerURL p then (cache, Some i) else fresh
                   | None \<Rightarrow> fresh))"

text \<open>What the resolvers see: profiles being added, and lookups, in the order their locks admit them.\<close>

datatype srv_event = AddEv string Profile | ChainEv string | IndexerEv string

record ('c, 'i) srv_world =
  wd_server :: server
  wd_chain :: "'c conn_cache"
  wd_indexer :: "string \<rightharpoonup> string \<times> 'i"

definition srv_step ::
  "(string \<Rightarrow> string \<Rightarrow> 'c option) \<Rightarrow> (string \<Rightarrow> 'i) \<Rightarrow> srv_event \<Rightarrow> ('c, 'i) srv_world \<Rightarrow> ('c, 'i) srv_world" where
  "srv_step dial newGraphQL ev w =
     (case ev of
        AddEv n p \<Rightarrow> w\<lparr>wd_server := fst (AddDynamicProfile n p (wd_server w))\<rparr>
      | ChainEv n \<Rightarrow> w\<lparr>wd_chain := fst (chainResolver dial (wd_server w) n (wd_chain w))\<rparr>
      | IndexerEv n \<Rightarrow> w\<lparr>wd_indexer := fst (indexerResolver newGraphQL (wd_server w) n (wd_indexer w))\<rparr>)"

record sdk_annotations =
  sdk_ReadOnlyHint :: bool
  sdk_DestructiveHint :: "bool option"
  sdk_IdempotentHint :: bool
  sdk_OpenWorldHint :: "bool option"

definition toSDKAnnotations :: "annotations \<Rightarrow> sdk_annotations" where
  "toSDKAnnotations a =
     \<lparr>sdk_ReadOnlyHint = an_ReadOnly a, sdk_DestructiveHint = Some (an_Destructive a),
      sdk_IdempotentHint = an_Idempotent a, sdk_OpenWorldHint = Some (an_OpenWorld a)\<rparr>"

text \<open>\<open>discoverLocal\<close>: the profiles in the order the map yields them; \<open>probe\<close> is \<open>DiscoverLocal\<close>.\<close>

fun discoverLocal :: "(Profile \<Rightarrow> string + bool) \<Rightarrow> (string \<times> Profile) list \<Rightarrow> string" where
  "discoverLocal probe [] = []"
| "discoverLocal probe ((name, p) # ps) =
     (case probe p of Inr True \<Rightarrow> name | _ \<Rightarrow> discoverLocal probe ps)"

text \<open>
  The audit subcommand: a \<open>bufio.Scanner\<close> gives up at a line of 64 KiB, after printing the ones
  before it (\<open>False\<close>: the program ends with an error).
\<close>

definition MaxScanTokenSize :: nat where "MaxScanTokenSize = 64 * 1024"

fun scan_lines :: "string list \<Rightarrow> string list \<times> bool" where
  "scan_lines [] = ([], True)"
| "scan_lines (l # ls) =
     (if length l \<ge> MaxScanTokenSize then ([], False)
      else (case scan_lines ls of (out, ok) \<Rightarrow> (l # out, ok)))"

definition grepAudit :: "string \<Rightarrow> string list \<Rightarrow> string list \<times> bool" where
  "grepAudit pattern ls = (case scan_lines ls of (out, ok) \<Rightarrow> (filter (\<lambda>l. Contains l pattern) out, ok))"


subsection \<open>Lemmas: profiles and clients\<close>

lemma AddDynamicProfile_profiles:
  "server_profile (fst (AddDynamicProfile n p s)) m =
     (if CheckDynamicProfileName s n = None \<and> m = n then Some p else server_profile s m)"
proof -
  have "map_of (filter (\<lambda>q. fst q \<noteq> n) xs) m = map_of xs m" if "m \<noteq> n" for xs :: "(string \<times> Profile) list"
    using that by (induction xs) auto
  then show ?thesis
    by (auto simp: AddDynamicProfile_def CheckDynamicProfileName_def server_profile_def)
qed

lemma AddDynamicProfile_init [simp]: "sv_initNames (fst (AddDynamicProfile n p s)) = sv_initNames s"
  by (simp add: AddDynamicProfile_def)

lemma AddDynamicProfile_names:
  "set (map fst (sv_profiles s)) \<subseteq> set (map fst (sv_profiles (fst (AddDynamicProfile n p s))))"
  by (auto simp: AddDynamicProfile_def)

lemma AddDynamicProfile_distinct:
  "distinct (map fst (sv_profiles s)) \<Longrightarrow> distinct (map fst (sv_profiles (fst (AddDynamicProfile n p s))))"
  by (auto simp: AddDynamicProfile_def distinct_map intro: inj_on_subset)

text \<open>Every cached client was dialled with the data stored beside it.\<close>

definition cache_ok :: "(string \<Rightarrow> string \<Rightarrow> 'c option) \<Rightarrow> 'c conn_cache \<Rightarrow> bool" where
  "cache_ok dial cache \<longleftrightarrow>
     (\<forall>n e. cache n = Some e \<longrightarrow> dial (cn_rpcURL e) (cn_chainID e) = Some (cn_client e))"

definition indexer_ok :: "(string \<Rightarrow> 'i) \<Rightarrow> (string \<rightharpoonup> string \<times> 'i) \<Rightarrow> bool" where
  "indexer_ok newGraphQL cache \<longleftrightarrow> (\<forall>n url c. cache n = Some (url, c) \<longrightarrow> c = newGraphQL url)"

lemma cache_ok_upd:
  "cache_ok dial c \<Longrightarrow> dial u i = Some x \<Longrightarrow> cache_ok dial (c(n \<mapsto> \<lparr>cn_rpcURL = u, cn_chainID = i, cn_client = x\<rparr>))"
  by (simp add: cache_ok_def)

lemma seed_cache_ok: "cache_ok dial c0 \<Longrightarrow> seed_cache dial cfg c0 = Some c \<Longrightarrow> cache_ok dial c"
  by (induction dial cfg c0 rule: seed_cache.induct) (simp_all add: cache_ok_upd split: option.splits)

lemma chainResolver_ok: "cache_ok dial c \<Longrightarrow> cache_ok dial (fst (chainResolver dial s n c))"
  by (simp add: chainResolver_def Let_def cache_ok_upd split: option.split)

lemma chainResolver_dial:
  assumes "cache_ok dial c"
  shows "snd (chainResolver dial s n c) = (case server_profile s n of None \<Rightarrow> None | Some p \<Rightarrow> dial (RPCURL p) (ChainID p))"
proof (cases "c n")
  case (Some e)
  then have "dial (cn_rpcURL e) (cn_chainID e) = Some (cn_client e)" using assms by (simp add: cache_ok_def)
  with Some show ?thesis by (auto simp: chainResolver_def Let_def split: option.splits)
qed (auto simp: chainResolver_def Let_def split: option.splits)

lemma indexerResolver_ok: "indexer_ok g c \<Longrightarrow> indexer_ok g (fst (indexerResolver g s n c))"
  by (auto simp: indexerResolver_def indexer_ok_def Let_def split: option.splits)

lemma indexerResolver_new:
  assumes "indexer_ok g c"
  shows "snd (indexerResolver g s n c) =
           (case server_profile s n of None \<Rightarrow> None | Some p \<Rightarrow> if TxIndexerURL p = [] then None else Some (g (TxIndexerURL p)))"
  using assms by (auto simp: indexerResolver_def indexer_ok_def Let_def split: option.splits)

definition wd_ok :: "(string \<Rightarrow> string \<Rightarrow> 'c option) \<Rightarrow> (string \<Rightarrow> 'i) \<Rightarrow> ('c, 'i) srv_world \<Rightarrow> bool" where
  "wd_ok dial g w \<longleftrightarrow> cache_ok dial (wd_chain w) \<and> indexer_ok g (wd_indexer w)"

lemma srv_step_ok: "wd_ok dial g w \<Longrightarrow> wd_ok dial g (srv_step dial g ev w)"
  by (auto simp: wd_ok_def srv_step_def chainResolver_ok indexerResolver_ok split: srv_event.split)

lemma srv_steps_ok: "wd_ok dial g w \<Longrightarrow> wd_ok dial g (fold (srv_step dial g) evs w)"
  by (induction evs arbitrary: w) (simp_all add: srv_step_ok)

definition demo_cfg :: "(string \<times> Profile) list" where
  "demo_cfg = [(''testnet'', empty_profile\<lparr>RPCURL := ''https://rpc.one'', ChainID := ''topaz-1'', TxIndexerURL := ''https://idx.one''\<rparr>)]"

definition demo_dyn :: Profile where
  "demo_dyn = empty_profile\<lparr>RPCURL := ''http://localhost:1'', ChainID := ''dev''\<rparr>"

definition demo_dial :: "string \<Rightarrow> string \<Rightarrow> (string \<times> string) option" where
  "demo_dial u c = (if u = [] then None else Some (u, c))"

text \<open>
  What a start-up configuration loads can never be changed at run time: whatever sequence of
  dynamic additions is attempted, every initial profile is still the one loaded, the name \<open>default\<close>
  never appears unless it was loaded, and the table keeps one profile per name.
\<close>

theorem init_profiles_immutable:
  fixes adds :: "(string \<times> Profile) list" and d :: string
  assumes cfg: "distinct (map fst cfg)" and n: "map_of cfg n = Some p"
  defines "s \<equiv> fold (\<lambda>(m, q) s. fst (AddDynamicProfile m q s)) adds (NewServer cfg d)"
  shows "server_profile s n = Some p \<and> distinct (map fst (sv_profiles s)) \<and>
    (''default'' \<in> fst ` set (sv_profiles s) \<longleftrightarrow> ''default'' \<in> fst ` set cfg)"
proof -
  let ?I = "\<lambda>s. server_profile s n = Some p \<and> n \<in> set (sv_initNames s) \<and> distinct (map fst (sv_profiles s)) \<and>
              (''default'' \<in> fst ` set (sv_profiles s) \<longleftrightarrow> ''default'' \<in> fst ` set cfg)"
  have step: "?I (fst (AddDynamicProfile m q s))" if "?I s" for m q s
    using that AddDynamicProfile_distinct [of s m q] AddDynamicProfile_profiles [of m q s n]
    by (auto simp: AddDynamicProfile_def CheckDynamicProfileName_def image_iff) (metis fst_conv)+
  have fold: "?I (fold (\<lambda>(m, q) s. fst (AddDynamicProfile m q s)) adds s)" if "?I s" for s
    using that
  proof (induction adds arbitrary: s)
    case (Cons a adds)
    then show ?case using step [of s] by (cases a) simp
  qed simp
  have "?I (NewServer cfg d)"
    using cfg n map_of_SomeD [OF n] by (force simp: NewServer_def server_profile_def)
  from fold [OF this] show ?thesis unfolding s_def by blast
qed

text \<open>
  A client is never stale: whatever profiles were added and looked up before, in any order,
  looking up a profile returns the client for its present RPC URL and chain id (a dial failure or
  an unknown name is no client), and the indexer client for its present indexer URL.
\<close>

theorem resolvers_current:
  fixes evs :: "srv_event list" and d :: string and g :: "string \<Rightarrow> 'i"
  assumes "seed_cache dial cfg Map.empty = Some c0"
  defines "w \<equiv> fold (srv_step dial g) evs \<lparr>wd_server = NewServer cfg d, wd_chain = c0, wd_indexer = Map.empty\<rparr>"
  shows "snd (chainResolver dial (wd_server w) n (wd_chain w)) =
           (case server_profile (wd_server w) n of None \<Rightarrow> None | Some p \<Rightarrow> dial (RPCURL p) (ChainID p)) \<and>
         snd (indexerResolver g (wd_server w) n (wd_indexer w)) =
           (case server_profile (wd_server w) n of None \<Rightarrow> None
            | Some p \<Rightarrow> if TxIndexerURL p = [] then None else Some (g (TxIndexerURL p)))"
proof -
  have "cache_ok dial c0" using seed_cache_ok [OF _ assms(1)] by (simp add: cache_ok_def)
  then have "wd_ok dial g w" unfolding w_def by (intro srv_steps_ok) (simp add: wd_ok_def indexer_ok_def)
  then show ?thesis by (simp add: wd_ok_def chainResolver_dial indexerResolver_new)
qed


lemma init_profiles_immutable_witness:
  "server_profile (fst (AddDynamicProfile ''testnet'' demo_dyn (fst (AddDynamicProfile ''mine'' demo_dyn (NewServer demo_cfg []))))) ''testnet'' =
     Some (snd (hd demo_cfg))"
  using init_profiles_immutable [of demo_cfg "''testnet''" "snd (hd demo_cfg)" "[(''mine'', demo_dyn), (''testnet'', demo_dyn)]" "[]"]
  by (simp add: demo_cfg_def)

lemma resolvers_current_witness:
  "snd (chainResolver demo_dial
     (fst (AddDynamicProfile ''mine'' demo_dyn (NewServer demo_cfg []))) ''mine''
     (fst (chainResolver demo_dial (NewServer demo_cfg []) ''mine'' (Map.empty(''testnet'' \<mapsto> \<lparr>cn_rpcURL = ''https://rpc.one'', cn_chainID = ''topaz-1'', cn_client = (''https://rpc.one'', ''topaz-1'')\<rparr>))))) =
   Some (''http://localhost:1'', ''dev'')"
proof -
  let ?c0 = "Map.empty(''testnet'' \<mapsto> \<lparr>cn_rpcURL = ''https://rpc.one'', cn_chainID = ''topaz-1'', cn_client = (''https://rpc.one'', ''topaz-1'')\<rparr>)"
  have seed: "seed_cache demo_dial demo_cfg Map.empty = Some ?c0"
    by (simp add: demo_cfg_def demo_dial_def)
  have "ValidProfileName ''mine''" by code_simp
  then have "server_profile (fst (AddDynamicProfile ''mine'' demo_dyn (NewServer demo_cfg []))) ''mine'' = Some demo_dyn"
    by (simp add: AddDynamicProfile_profiles CheckDynamicProfileName_def NewServer_def demo_cfg_def)
  moreover have "demo_dial (RPCURL demo_dyn) (ChainID demo_dyn) = Some (''http://localhost:1'', ''dev'')"
    by (simp add: demo_dial_def demo_dyn_def)
  ultimately show ?thesis
    using resolvers_current [OF seed, where evs = "[ChainEv ''mine'', AddEv ''mine'' demo_dyn]" and g = id and d = "[]" and n = "''mine''"]
    by (simp add: srv_step_def)
qed


subsection \<open>The default profile\<close>

lemma ProfileArgSchema_cases:
  "(keys = [] \<and> ProfileArgSchema keys d = \<lparr>psc_Enum = [], psc_Default = [], psc_Required = True\<rparr>) \<or>
   (keys \<noteq> [] \<and> psc_Required (ProfileArgSchema keys d) = False \<and> psc_Default (ProfileArgSchema keys d) \<in> set keys \<and>
    psc_Enum (ProfileArgSchema keys d) = sort_by id keys)"
proof (cases "keys = []")
  case False
  then have n: "sort_by id keys \<noteq> []" using length_sort_by [of id keys] by (metis length_0_conv)
  then have "hd (sort_by id keys) \<in> set keys" using hd_in_set [of "sort_by id keys"] by simp
  with False n show ?thesis by (simp add: ProfileArgSchema_def Let_def)
qed (simp add: ProfileArgSchema_def sort_by_def)

text \<open>
  A call that names no profile gets one that exists. With at least one profile loaded under a
  nonempty name, a tool that takes a profile and is called without one, or with the empty string, sees a
  loaded profile's name in its place and its other arguments unchanged; the published schema lists
  exactly the loaded names, each once, and its default is one of them. An explicit profile, and a
  value that is not a string, reach the handler as they came.
\<close>

theorem profile_default_loaded:
  assumes names: "sv_profiles s \<noteq> []" "[] \<notin> set (map fst (sv_profiles s))" and t: "toolAcceptsProfile t"
  shows "set (psc_Enum (server_schema s)) = set (map fst (sv_profiles s)) \<and>
     psc_Default (server_schema s) \<in> set (map fst (sv_profiles s)) \<and>
     (if args ''profile'' = None \<or> args ''profile'' = Some (JStr [])
      then applyProfileDefault t s args = args(''profile'' \<mapsto> JStr (psc_Default (server_schema s)))
      else applyProfileDefault t s args = args)"
proof -
  let ?d = "psc_Default (server_schema s)"
  have "?d \<in> set (map fst (sv_profiles s)) \<and> set (psc_Enum (server_schema s)) = set (map fst (sv_profiles s))"
    using names(1) ProfileArgSchema_cases [of "map fst (sv_profiles s)" "sv_discoveredLocal s"]
    by (auto simp: server_schema_def)
  moreover from this names(2) have "?d \<noteq> []" by metis
  ultimately show ?thesis using t
    by (auto simp: applyProfileDefault_def Let_def split: option.splits json.splits)
qed

definition demo_tool :: "nat tool" where
  "demo_tool = \<lparr>tl_Name = ''gno_call'', tl_Description = ''Calls.'', tl_InputSchema = [(''properties'', JObj [(''profile'', JObj [])])],
     tl_OutputKind = OutputText, tl_Capability = CapWrite,
     tl_Annotations = \<lparr>an_ReadOnly = False, an_Destructive = True, an_Idempotent = False, an_OpenWorld = True\<rparr>, tl_SelfAudited = False,
     tl_Handler = Some (\<lambda>args n. (Suc n, [], Failed (PlainError ''<untrusted_content>'')))\<rparr>"

lemma profile_default_loaded_witness:
  "applyProfileDefault demo_tool (NewServer demo_cfg []) Map.empty = Map.empty(''profile'' \<mapsto> JStr ''testnet'')"
proof -
  have d: "psc_Default (server_schema (NewServer demo_cfg [])) = ''testnet''"
    by (simp add: server_schema_def NewServer_def demo_cfg_def ProfileArgSchema_def sort_by_def)
  have "sv_profiles (NewServer demo_cfg []) \<noteq> []" "[] \<notin> set (map fst (sv_profiles (NewServer demo_cfg [])))" "toolAcceptsProfile demo_tool"
    by (simp_all add: NewServer_def demo_cfg_def demo_tool_def toolAcceptsProfile_def)
  from profile_default_loaded [OF this, of Map.empty] d show ?thesis by simp
qed

subsection \<open>The audit summary and the audit log\<close>

text \<open>
  The log leaks no secret argument. Two calls whose arguments have the same keys and agree on the
  listed harmless keys have the same summary, whatever the other values are: function arguments,
  code, file bodies and keys never influence a byte of it. A summary has at most 203 bytes.
\<close>

theorem argsSummary_redacts:
  assumes "dom a = dom b" and "\<And>k. k \<in> set safeArgKeys \<Longrightarrow> a k = b k"
  shows "argsSummary marshal a = argsSummary marshal b \<and> length (argsSummary marshal a) \<le> 203"
proof
  have e: "(a = Map.empty) = (b = Map.empty)" using assms(1) by (metis dom_eq_empty_conv)
  have "(case a k of None \<Rightarrow> None | Some v \<Rightarrow> Some (if k \<in> set safeArgKeys then v else JStr ''[redacted]'')) =
        (case b k of None \<Rightarrow> None | Some v \<Rightarrow> Some (if k \<in> set safeArgKeys then v else JStr ''[redacted]''))" for k
    using assms(1) assms(2) [of k] domIff [of k a] domIff [of k b] by (cases "a k"; cases "b k") auto
  then show "argsSummary marshal a = argsSummary marshal b" using e by (simp add: argsSummary_def)
  show "length (argsSummary marshal a) \<le> 203" by (simp add: argsSummary_def Let_def split: option.split)
qed

definition demo_marshal :: "args \<Rightarrow> string option" where
  "demo_marshal a = (case a ''code'' of Some (JStr v) \<Rightarrow> Some v | _ \<Rightarrow> None)"

lemma argsSummary_redacts_witness:
  "argsSummary demo_marshal (Map.empty(''realm'' \<mapsto> JStr ''r/a'', ''code'' \<mapsto> JStr ''one'')) =
   argsSummary demo_marshal (Map.empty(''realm'' \<mapsto> JStr ''r/a'', ''code'' \<mapsto> JStr ''other''))"
proof (rule conjunct1 [OF argsSummary_redacts])
  have "''code'' \<notin> set safeArgKeys" by code_simp
  then show "k \<in> set safeArgKeys \<Longrightarrow> (Map.empty(''realm'' \<mapsto> JStr ''r/a'', ''code'' \<mapsto> JStr ''one'')) k =
      (Map.empty(''realm'' \<mapsto> JStr ''r/a'', ''code'' \<mapsto> JStr ''other'')) k" for k by auto
qed auto

text \<open>The contract of a handler towards the adapter: how many records it writes itself.\<close>

locale audited_handler =
  fixes h :: "args \<Rightarrow> 's \<Rightarrow> 's \<times> audit_entry list \<times> outcome" and self :: bool
  assumes records: "h args s = (s', es, out) \<Longrightarrow> length es = (if self then 1 else 0)"
begin

lemma one_record:
  assumes "Registry_Get reg (tl_Name t) = Some t" "tl_Handler t = Some h" "tl_SelfAudited t = self"
    and "tl_Capability t = CapWrite \<or> tl_Capability t = CapWritePrep"
    and "makeHandler quote marshal t reg sv auditReads raw s = (s', es, r)" "\<And>e. raw \<noteq> Some (Inl e)"
  shows "length es = 1"
proof -
  obtain a s1 es1 out where h: "h a s = (s1, es1, out)" "length es = length es1 + (if self then 0 else 1)"
    using assms by (cases "h (applyProfileDefault t sv (case raw of Some (Inr a) \<Rightarrow> a | _ \<Rightarrow> Map.empty)) s")
      (auto simp: makeHandler_def Registry_Call_def Let_def shouldAuditAtAdapter_def split: option.splits sum.splits)
  with records [OF h(1)] show ?thesis by simp
qed

end


subsection \<open>The instructions fit\<close>

lemma RuneCount_append [simp]: "RuneCount (a @ b) = RuneCount a + RuneCount b"
  by (simp add: RuneCount_def)

lemma RuneCount_le: "RuneCount s \<le> length s"
  by (simp add: RuneCount_def)

lemma length_show_nat: "n < 10 ^ Suc k \<Longrightarrow> length (show_nat n) \<le> Suc k"
proof (induction k arbitrary: n)
  case 0
  then show ?case by (subst show_nat.simps) simp
next
  case (Suc k)
  then have "n div 10 < 10 ^ Suc k" by (simp add: less_mult_imp_div_less)
  with Suc.IH show ?case by (subst show_nat.simps) simp
qed

lemma moreProfilesLine_bound:
  assumes "n < 2 ^ 63" shows "RuneCount (moreProfilesLine n) \<le> 66"
proof -
  have "(2::nat) ^ 63 < 10 ^ Suc 18" by simp
  then have "length (show_nat n) \<le> 19" using assms length_show_nat [of n 18] by linarith
  then show ?thesis using RuneCount_le [of "moreProfilesLine n"] by (simp add: moreProfilesLine_def nl_def)
qed

lemma list_profiles_Cons:
  "list_profiles b ((name, p) # rest) =
     (if RuneCount b + RuneCount (profileLine name p) + (if rest = [] then 0 else RuneCount (moreProfilesLine (length rest))) > maxMCPTextLen
      then b @ moreProfilesLine (Suc (length rest)) else list_profiles (b @ profileLine name p) rest)"
  by (simp add: Let_def)

lemma list_profiles_prefix: "\<exists>t. list_profiles b ps = b @ t"
proof (induction ps arbitrary: b)
  case (Cons x rest)
  then obtain t where "list_profiles (b @ profileLine (fst x) (snd x)) rest = (b @ profileLine (fst x) (snd x)) @ t" by blast
  then show ?case using list_profiles_Cons [of b "fst x" "snd x" rest] by auto
qed simp

lemma list_profiles_fits:
  "RuneCount b \<le> maxMCPTextLen \<Longrightarrow> (ps \<noteq> [] \<Longrightarrow> RuneCount b + RuneCount (moreProfilesLine (length ps)) \<le> maxMCPTextLen) \<Longrightarrow>
   RuneCount (list_profiles b ps) \<le> maxMCPTextLen"
proof (induction ps arbitrary: b)
  case (Cons x rest)
  obtain name p where x: "x = (name, p)" by force
  let ?res = "if rest = [] then 0 else RuneCount (moreProfilesLine (length rest))"
  show ?case
  proof (cases "RuneCount b + RuneCount (profileLine name p) + ?res > maxMCPTextLen")
    case True
    then show ?thesis using Cons.prems(2) unfolding x list_profiles_Cons by simp
  next
    case False
    then have le: "RuneCount b + RuneCount (profileLine name p) + ?res \<le> maxMCPTextLen" by simp
    have "RuneCount (list_profiles (b @ profileLine name p) rest) \<le> maxMCPTextLen"
    proof (rule Cons.IH)
      show "RuneCount (b @ profileLine name p) \<le> maxMCPTextLen" using le by simp
      assume "rest \<noteq> []"
      with le show "RuneCount (b @ profileLine name p) + RuneCount (moreProfilesLine (length rest)) \<le> maxMCPTextLen" by simp
    qed
    with False show ?thesis unfolding x list_profiles_Cons by simp
  qed
qed simp

lemma static_length:
  "length (serverInstructions @ ''Profiles at startup, what exists, not what is reachable (gno_profile_list is current):'' @ nl) \<le> 1700"
  by (simp add: serverInstructions_def nl_def)

text \<open>
  The client never cuts the instructions. For any profiles (fewer than 2^63 of them, with lines
  of any length) the text built for the client has at most 2048 characters, and it always begins with
  the whole static guidance.
\<close>

theorem instructions_fit:
  assumes "length profs < 2 ^ 63"
  shows "RuneCount (buildServerInstructions profs) \<le> 2048 \<and> HasPrefix (buildServerInstructions profs) serverInstructions"
proof
  let ?b = "serverInstructions @ ''Profiles at startup, what exists, not what is reachable (gno_profile_list is current):'' @ nl"
  have b: "RuneCount ?b \<le> 1700" using RuneCount_le static_length by (rule order_trans)
  have "RuneCount (list_profiles ?b (sort_by fst profs)) \<le> maxMCPTextLen"
  proof (rule list_profiles_fits)
    show "RuneCount ?b \<le> maxMCPTextLen" using b by (simp add: maxMCPTextLen_def)
    show "RuneCount ?b + RuneCount (moreProfilesLine (length (sort_by fst profs))) \<le> maxMCPTextLen"
      using b moreProfilesLine_bound [OF assms] unfolding maxMCPTextLen_def length_sort_by by linarith
  qed
  then show "RuneCount (buildServerInstructions profs) \<le> 2048"
    unfolding buildServerInstructions_def maxMCPTextLen_def .
  obtain t where "list_profiles ?b (sort_by fst profs) = ?b @ t" using list_profiles_prefix by blast
  then show "HasPrefix (buildServerInstructions profs) serverInstructions"
    unfolding buildServerInstructions_def by simp
qed

lemma instructions_fit_witness: "RuneCount (buildServerInstructions demo_cfg) \<le> 2048"
  by (rule conjunct1 [OF instructions_fit]) (simp add: demo_cfg_def)

subsection \<open>The gates\<close>

lemma Registry_Add_names: "tl_Name ` set (Registry_Add t r) = insert (tl_Name t) (tl_Name ` set r)"
  by (auto simp: Registry_Add_def)

lemma gate_closes:
  "AnyProfileHasIndexer (NewServer [] []\<lparr>sv_profiles := [(''mine'', demo_dyn\<lparr>TxIndexerURL := ''https://i''\<rparr>)]\<rparr>) \<and>
   \<not> AnyProfileHasIndexer (fst (AddDynamicProfile ''mine'' demo_dyn (NewServer [] []\<lparr>sv_profiles := [(''mine'', demo_dyn\<lparr>TxIndexerURL := ''https://i''\<rparr>)]\<rparr>)))"
proof -
  have "ValidProfileName ''mine''" by code_simp
  then show ?thesis by (simp add: AnyProfileHasIndexer_def NewServer_def AddDynamicProfile_def demo_dyn_def empty_profile_def)
qed

end
