(* ===== verification/Dispatch.thy ===== *)
theory Dispatch
  imports Chain Keystore Server
begin

section \<open>The write pipeline: internal/tools/write dispatch.go, identity.go, args.go, call.go, run.go and internal/tools/parked\<close>

text \<open>
  \<open>dispatchWriteTx\<close> decides who signs, obtains the signer, runs the operation, maps errors, keeps the
  audit result and accounts the session's spend; \<open>gno_call\<close> and \<open>gno_run\<close> are its two clients. The
  state (\<open>world\<close>) is the session manager, the key directory and the requests sent to the node. All
  the rest a handler refers to (the server, the clients, system-call outcomes, cryptography, the
  wording of library errors, how long polls and sleeps take) is the record \<open>env\<close>. Each tool writes one audit record when it
  returns, on every path: its body returns the record it would write.
\<close>

subsection \<open>State and environment\<close>

record world =
  wo_mgr :: manager
  wo_keys :: fsys
  wo_rpc :: "event list"

record client =
  cl_node :: node
  cl_chainID :: string
  cl_account :: "event list \<Rightarrow> addr \<Rightarrow> account_answer"

record env =
  en_server :: server
  en_resolver :: "string \<Rightarrow> client option"
  en_lib :: lib
  en_vm :: vm_consts
  en_ks :: keystore
  en_ksio :: ks_io
  en_aead :: aead
  en_derive :: "string \<Rightarrow> string \<Rightarrow> string + agent_signer"
  en_store :: store_write
  en_order :: "string list"
  en_now :: int64
  en_pubkey :: "bytes \<Rightarrow> bytes"
  en_ed25519 :: "bytes \<Rightarrow> bytes \<Rightarrow> string + bytes"
  en_quote :: "string \<Rightarrow> string"
  en_arg_text :: "arg_error \<Rightarrow> string"
  en_ks_text :: "ks_error \<Rightarrow> string"
  en_chain_text :: "chain_error \<Rightarrow> string"
  en_session_text :: "session_error \<Rightarrow> string"
  en_duration_text :: "duration \<Rightarrow> string"
  en_poll_time :: "nat \<Rightarrow> nat"
  en_oversleep :: "nat \<Rightarrow> nat"
  en_cancelled :: "nat \<Rightarrow> bool"
  en_gnomod :: "string \<Rightarrow> string"
  en_url :: url_parse
  en_ip :: "string \<Rightarrow> bool option"
  en_unauthorized :: "chain_error \<Rightarrow> bool"
  en_error_nodes :: "chain_error \<Rightarrow> string list"

definition en_signers :: "env \<Rightarrow> agent_signer signers" where
  "en_signers e = \<lparr>sg_derive = en_derive e, sg_address = as_Info\<rparr>"

text \<open>The session keypair of a picked session, as \<open>chain.Signer\<close>.\<close>

definition session_signer :: "env \<Rightarrow> signerAdapter \<Rightarrow> signer" where
  "session_signer e sa =
     \<lparr>sn_Address = sa_addr sa, sn_Pubkey = en_pubkey e (sa_priv sa), sn_Sign = en_ed25519 e (sa_priv sa)\<rparr>"

text \<open>The session queries of one step are answered as of its beginning.\<close>

definition client_session :: "env \<Rightarrow> event list \<Rightarrow> client \<Rightarrow> session_query" where
  "client_session e h c = QuerySession (\<lambda>p. nd_query (cl_node c) h p []) (en_lib e)"

definition session_resolver :: "env \<Rightarrow> event list \<Rightarrow> string \<Rightarrow> session_query option" where
  "session_resolver e h profile = map_option (client_session e h) (en_resolver e profile)"

definition run_rpc :: "'a rpc \<Rightarrow> world \<Rightarrow> world \<times> (chain_error + 'a)" where
  "run_rpc m w = (case m (wo_rpc w) of (h, r) \<Rightarrow> (w\<lparr>wo_rpc := h\<rparr>, r))"

subsection \<open>Arguments and identity\<close>

definition arg :: "env \<Rightarrow> (args \<Rightarrow> string \<Rightarrow> arg_error + 'a) \<Rightarrow> args \<Rightarrow> string \<Rightarrow> tool_error + 'a" where
  "arg e get a name = (case get a name of Inl x \<Rightarrow> Inl (PlainError (en_arg_text e x)) | Inr v \<Rightarrow> Inr v)"

definition bindS :: "'e + 'a \<Rightarrow> ('a \<Rightarrow> 'e + 'b) \<Rightarrow> 'e + 'b" where
  "bindS r f = (case r of Inl x \<Rightarrow> Inl x | Inr v \<Rightarrow> f v)"

definition dash :: string where "dash = [CHR '' '', CHR 0xE2, CHR 0x80, CHR 0x94, CHR '' '']"

definition requireProfile :: "env \<Rightarrow> args \<Rightarrow> tool_error + string \<times> Profile" where
  "requireProfile e a =
     bindS (arg e StringArg a ''profile'') (\<lambda>name.
       if name = [] then Inl (PlainError (''profile: required'' @ dash @ ''pick one of the configured profiles''))
       else case server_profile (en_server e) name of
              None \<Rightarrow> Inl (PlainError (''profile '' @ en_quote e name @ '': not found''))
            | Some p \<Rightarrow> Inr (name, p))"

definition keyArg :: "env \<Rightarrow> args \<Rightarrow> tool_error + string" where
  "keyArg e a = arg e StringArg a ''key''"

definition profileWritableBySession :: "Profile \<Rightarrow> bool" where
  "profileWritableBySession p \<longleftrightarrow> MasterAddress p \<noteq> []"

definition profileSessionEligible :: "Profile \<Rightarrow> bool" where
  "profileSessionEligible p \<longleftrightarrow> \<not> IsReadOnly p"

definition profileWritableByAgent :: "Profile \<Rightarrow> bool" where
  "profileWritableByAgent p \<longleftrightarrow> \<not> IsReadOnly p"

text \<open>The profile argument of a tool's schema: the names kept, the default when it is one of them.\<close>

definition addProfileArgFiltered :: "server \<Rightarrow> (Profile \<Rightarrow> bool) \<Rightarrow> string list \<times> string option \<times> bool" where
  "addProfileArgFiltered s keep =
     (let ps = server_schema s;
          kept = (\<lambda>n. case server_profile s n of None \<Rightarrow> keep empty_profile | Some p \<Rightarrow> keep p)
      in (filter kept (psc_Enum ps),
          if psc_Default ps \<noteq> [] \<and> kept (psc_Default ps) then Some (psc_Default ps) else None,
          psc_Required ps))"

definition signedByLine :: "string \<Rightarrow> string \<Rightarrow> string \<Rightarrow> bool \<Rightarrow> string" where
  "signedByLine identity signerAddr master local =
     (if identity = ''session'' then ''Signed by: session '' @ signerAddr @ '' on behalf of master '' @ master
      else if local then ''Signed by: agent test1 ('' @ signerAddr @ '')''
      else ''Signed by: agent ('' @ signerAddr @ '')'')"

definition profile_extra :: "string \<Rightarrow> (string \<times> json) list" where
  "profile_extra profileName = [(''profile'', JStr profileName)]"

definition agentKeyToolError :: "env \<Rightarrow> ks_error \<Rightarrow> string \<Rightarrow> string \<Rightarrow> tool_error option" where
  "agentKeyToolError e err profileName noKeyHint =
     (if err = ErrNoAgentKey then
        Some (ToolError ''agent_identity_unavailable''
          (''no agent key for profile '' @ en_quote e profileName @ dash @ noKeyHint) (profile_extra profileName))
      else if err = ErrNoKeyDir then
        Some (ToolError ''key_storage_unconfigured''
          (''the agent keystore has no storage directory configured; set GNOMCP_AGENT_KEYS_PATH (or use the default) so agent keys can be persisted and loaded'')
          (profile_extra profileName))
      else None)"

definition agentSigner ::
  "env \<Rightarrow> fsys \<Rightarrow> string \<Rightarrow> string \<Rightarrow> string \<Rightarrow> string \<Rightarrow> Profile \<Rightarrow> tool_error + agent_signer \<times> string" where
  "agentSigner e keys tool noKeyHint profileName keyName p =
     (case SignerForProfile (en_ksio e) (en_aead e) (en_signers e) (en_ks e) keys profileName keyName p of
        Inl err \<Rightarrow>
          (case agentKeyToolError e err profileName noKeyHint of
             Some t \<Rightarrow> Inl t
           | None \<Rightarrow> Inl (PlainError (tool @ '': signer: '' @ en_ks_text e err)))
      | Inr sg \<Rightarrow>
          (case as_Info sg of
             Inl x \<Rightarrow> Inl (PlainError (tool @ '': signer info: '' @ x))
           | Inr addr \<Rightarrow> Inr (sg, addr)))"

definition requireFunded ::
  "env \<Rightarrow> client \<Rightarrow> event list \<Rightarrow> string \<Rightarrow> string \<Rightarrow> string \<Rightarrow> Profile \<Rightarrow> bool \<Rightarrow> tool_error option" where
  "requireFunded e c h tool profileName addr p simulate =
     (if \<not> IsTestnet p \<or> simulate then None
      else case Balance (cl_account c h) (en_lib e) addr of
             Inl x \<Rightarrow> Some (PlainError (tool @ '': balance check: '' @ en_chain_text e x))
           | Inr bal \<Rightarrow>
               if bal = 0 then
                 Some (ToolError ''insufficient_funds''
                   (''agent testnet account '' @ addr @ '' is unfunded'' @ dash @ ''run gno_faucet_fund (or send it ugnot), then retry'')
                   [(''profile'', JStr profileName), (''address'', JStr addr)])
               else None)"

definition acquireAgentSigner ::
  "env \<Rightarrow> client \<Rightarrow> world \<Rightarrow> string \<Rightarrow> string \<Rightarrow> string \<Rightarrow> string \<Rightarrow> Profile \<Rightarrow> bool \<Rightarrow> tool_error + agent_signer \<times> string" where
  "acquireAgentSigner e c w tool noKeyHint profileName keyName p simulate =
     bindS (agentSigner e (wo_keys w) tool noKeyHint profileName keyName p) (\<lambda>(sg, addr).
       case requireFunded e c (wo_rpc w) tool profileName addr p simulate of
         Some err \<Rightarrow> Inl err
       | None \<Rightarrow> Inr (sg, addr))"

subsection \<open>Dispatch\<close>

record writeTxDispatch =
  dp_tool :: string
  dp_noKeyHint :: string
  dp_profileName :: string
  dp_keyName :: string
  dp_profile :: Profile
  dp_simulate :: bool
  dp_pickSession :: "world \<Rightarrow> world \<times> (session_error + signerAdapter \<times> string)"
  dp_mapPickErr :: "session_error \<Rightarrow> tool_error option"
  dp_agentOp :: "agent_signer \<Rightarrow> tx_result rpc"
  dp_sessionOp :: "signer \<Rightarrow> string \<Rightarrow> tx_result rpc"
  dp_precheck :: "string \<Rightarrow> event list \<Rightarrow> event list \<times> tool_error option"

text \<open>What the dispatcher leaves: the audit result, the session address, and the outcome.\<close>

record written =
  wr_identity :: string
  wr_signerAddr :: string
  wr_master :: string
  wr_result :: tx_result

type_synonym dispatched = "world \<times> string \<times> string \<times> (tool_error + written)"

definition no_precheck :: "string \<Rightarrow> event list \<Rightarrow> event list \<times> tool_error option" where
  "no_precheck addr h = (h, None)"

definition txError :: "env \<Rightarrow> writeTxDispatch \<Rightarrow> chain_error \<Rightarrow> string \<times> tool_error" where
  "txError e d err =
     (if dp_simulate d then (''sim_err'', PlainError (dp_tool d @ '' simulate: '' @ en_chain_text e err))
      else (''broadcast_err'', PlainError (dp_tool d @ '' broadcast: '' @ en_chain_text e err)))"

definition audit_done :: "writeTxDispatch \<Rightarrow> string" where
  "audit_done d = (if dp_simulate d then ''sim'' else ''ok'')"

definition dispatch_agent :: "env \<Rightarrow> client \<Rightarrow> writeTxDispatch \<Rightarrow> world \<Rightarrow> dispatched" where
  "dispatch_agent e c d w =
     (case agentSigner e (wo_keys w) (dp_tool d) (dp_noKeyHint d) (dp_profileName d) (dp_keyName d) (dp_profile d) of
        Inl err \<Rightarrow> (w, ''tool_err'', [], Inl err)
      | Inr (sg, addr) \<Rightarrow>
     (case dp_precheck d addr (wo_rpc w) of
        (h, Some err) \<Rightarrow> (w\<lparr>wo_rpc := h\<rparr>, ''tool_err'', [], Inl err)
      | (h, None) \<Rightarrow>
     (case requireFunded e c h (dp_tool d) (dp_profileName d) addr (dp_profile d) (dp_simulate d) of
        Some err \<Rightarrow> (w\<lparr>wo_rpc := h\<rparr>, ''tool_err'', [], Inl err)
      | None \<Rightarrow>
     (case run_rpc (dp_agentOp d sg) (w\<lparr>wo_rpc := h\<rparr>) of
        (w1, Inl err) \<Rightarrow> (case txError e d err of (a, t) \<Rightarrow> (w1, a, [], Inl t))
      | (w1, Inr r) \<Rightarrow>
          (w1, audit_done d, [],
           Inr \<lparr>wr_identity = ''agent'', wr_signerAddr = addr, wr_master = [], wr_result = r\<rparr>)))))"

definition dispatch_session :: "env \<Rightarrow> client \<Rightarrow> writeTxDispatch \<Rightarrow> world \<Rightarrow> dispatched" where
  "dispatch_session e c d w =
     (if dp_keyName d \<noteq> [] then
        (w, ''tool_err'', [],
         Inl (ToolError ''key_ignored_for_session''
           ''the key arg selects an agent key and does not apply to identity=session (the session signer is used)''
           [(''profile'', JStr (dp_profileName d)), (''key'', JStr (dp_keyName d))]))
      else
     (case dp_pickSession d w of
        (w1, Inl err) \<Rightarrow>
          (w1, ''tool_err'', [],
           Inl (case dp_mapPickErr d err of
                  Some t \<Rightarrow> t
                | None \<Rightarrow> PlainError (dp_tool d @ '': pick session: '' @ en_session_text e err)))
      | (w1, Inr (sa, master)) \<Rightarrow>
     (case dp_precheck d master (wo_rpc w1) of
        (h, Some err) \<Rightarrow> (w1\<lparr>wo_rpc := h\<rparr>, ''tool_err'', sa_addr sa, Inl err)
      | (h, None) \<Rightarrow>
     (case run_rpc (dp_sessionOp d (session_signer e sa) master) (w1\<lparr>wo_rpc := h\<rparr>) of
        (w2, Inl err) \<Rightarrow>
          if dp_simulate d \<and> err = ErrSimulateUnsupported then
            (w2, ''tool_err'', sa_addr sa,
             Inl (ToolError ''simulate_unsupported'' ''this chain client does not support simulate; retry without simulate=true''
               (profile_extra (dp_profileName d))))
          else (case txError e d err of (a, t) \<Rightarrow> (w2, a, sa_addr sa, Inl t))
      | (w2, Inr r) \<Rightarrow>
          ((if dp_simulate d then w2
            else w2\<lparr>wo_mgr := fst (SettleSpend (en_store e) (client_session e (wo_rpc w2) c) (wo_mgr w2)
                       (dp_profileName d) (sa_addr sa) (tr_GasFeeUgnot r))\<rparr>),
           audit_done d, sa_addr sa,
           Inr \<lparr>wr_identity = ''session'', wr_signerAddr = sa_addr sa, wr_master = master, wr_result = r\<rparr>)))))"

definition dispatchWriteTx :: "env \<Rightarrow> client \<Rightarrow> string \<Rightarrow> writeTxDispatch \<Rightarrow> world \<Rightarrow> dispatched" where
  "dispatchWriteTx e c identityArg d w =
     (let identity = (if identityArg = [] then ''agent'' else identityArg)
      in if identity = ''agent'' then dispatch_agent e c d w
         else if identity = ''session'' then dispatch_session e c d w
         else (w, ''tool_err'', [],
               Inl (PlainError (''identity: must be \"agent\" or \"session\", got '' @ en_quote e identity))))"

subsection \<open>Results\<close>

definition set_field :: "string \<Rightarrow> json \<Rightarrow> (string \<times> json) list \<Rightarrow> (string \<times> json) list" where
  "set_field k v sc = filter (\<lambda>kv. fst kv \<noteq> k) sc @ [(k, v)]"

definition attachGnokeyCmd :: "tool_result \<Rightarrow> string \<Rightarrow> tool_result" where
  "attachGnokeyCmd out cmd =
     (if cmd = [] then out
      else out\<lparr>rs_Text := rs_Text out @ nl @ nl @ ''gnokey equivalent (illustrative'' @ dash @
                 ''gnomcp already signed and broadcast this; the signing key lives in gnomcp's keystore, not gnokey's):'' @ nl @ ''  '' @ cmd,
               rs_Structured := set_field ''gnokey_command'' (JStr cmd) (rs_Structured out)\<rparr>)"

definition decorateWriteResult :: "tool_result \<Rightarrow> string \<Rightarrow> string \<Rightarrow> string \<Rightarrow> bool \<Rightarrow> tool_result" where
  "decorateWriteResult out identity signerAddr master local =
     out\<lparr>rs_Text := signedByLine identity signerAddr master local @ nl @ nl @ rs_Text out,
         rs_Structured :=
           (let sc = set_field ''signer_address'' (JStr signerAddr) (set_field ''identity'' (JStr identity) (rs_Structured out))
            in if identity = ''session'' then set_field ''master_address'' (JStr master) sc else sc)\<rparr>"

definition text_result :: "string \<Rightarrow> (string \<times> json) list \<Rightarrow> tool_result" where
  "text_result t sc = \<lparr>rs_Text = t, rs_ResourceURI = [], rs_ResourceBody = [], rs_ResourceMIME = [], rs_Structured = sc\<rparr>"

definition tx_lines :: "string \<Rightarrow> string \<Rightarrow> tx_result \<Rightarrow> string" where
  "tx_lines simulated succeeded r =
     (if tr_Simulated r then simulated @ nl @ nl
      else succeeded @ nl @ nl @ ''TxHash:  '' @ tr_TxHash r @ nl @ ''Height:  '' @ show_int (tr_Height r) @ nl) @
     ''GasUsed: '' @ show_int (tr_GasUsed r) @ nl"

definition tx_fields :: "string \<Rightarrow> tx_result \<Rightarrow> (string \<times> json) list" where
  "tx_fields payload r =
     [(''tx_hash'', JStr (tr_TxHash r)), (''height'', JInt (tr_Height r)), (payload, JStr (tr_Result r)),
      (''gas_used'', JInt (tr_GasUsed r)), (''simulated'', JBool (tr_Simulated r))]"

definition buildCallResult :: "env \<Rightarrow> tx_result \<Rightarrow> string \<Rightarrow> tool_result" where
  "buildCallResult e cr realm =
     text_result
       (tx_lines ''Simulated call result'' ''Call succeeded'' cr @
        (if tr_Result cr \<noteq> [] then ''Result:'' @ nl @ Wrap (en_quote e) (tr_Result cr) ''call_result'' realm @ nl else []))
       (tx_fields ''result'' cr)"

definition buildRunResult :: "env \<Rightarrow> tx_result \<Rightarrow> string \<Rightarrow> tool_result" where
  "buildRunResult e rr profileName =
     text_result
       (tx_lines ''Simulated run result'' ''Run succeeded'' rr @
        (if tr_Result rr \<noteq> [] then ''Output:'' @ nl @ Wrap (en_quote e) (tr_Result rr) ''run_output'' profileName @ nl else []))
       (tx_fields ''output'' rr)"

subsection \<open>Parked packages\<close>

definition parked_Code :: string where "parked_Code = ''package_parked''"

definition NextSteps :: string where
  "NextSteps = ''If it is still parked a minute after its deploy, the chain's package approver is not going to enable it: lint it against the chain's release (a package that fails the type check is never enabled), check the deploying key can pay the storage deposit, then redeploy it to the same path with the same key.''"

definition Explain :: "env \<Rightarrow> client \<Rightarrow> string \<Rightarrow> tool_error \<Rightarrow> world \<Rightarrow> world \<times> tool_error" where
  "Explain e c path err w =
     (case err of
        ToolError _ _ _ \<Rightarrow> (w, err)
      | PlainError t \<Rightarrow>
          (case run_rpc (QueryPackageMeta (cl_node c) (en_lib e) path) w of
             (w1, Inl _) \<Rightarrow> (w1, err)
           | (w1, Inr m) \<Rightarrow>
               if pm_Status m \<noteq> vc_Inert (en_vm e) then (w1, err)
               else (w1, ToolError parked_Code
                      (path @ '' is parked, not live: the chain accepted its deploy and has not enabled it ([untrusted chain reason] '' @ pm_Reason m @
                       ''). Until it is enabled, every read and call answers it like a package that was never deployed.'' @ nl @ nl @
                       ''For its deployer: '' @ NextSteps @ nl @ nl @ ''Original error: '' @ t)
                      [(''path'', JStr path), (''reason'', JStr (pm_Reason m))])))"


subsection \<open>gno\_call\<close>

text \<open>
  A self-audited tool: its body returns the record it writes when it returns; the record starts as a
  denial with no profile.
\<close>

type_synonym 'r tool_body = "world \<times> audit_entry \<times> (tool_error + 'r)"

definition denial :: "string \<Rightarrow> audit_entry" where
  "denial tool = \<lparr>ae_Tool = tool, ae_Profile = [], ae_ArgsSummary = [], ae_Result = ''tool_err'', ae_SessionAddress = []\<rparr>"

definition self_audited :: "(args \<Rightarrow> world \<Rightarrow> tool_result tool_body) \<Rightarrow> world handler" where
  "self_audited body a w =
     (case body a w of
        (w', entry, Inl err) \<Rightarrow> (w', [entry], Failed err)
      | (w', entry, Inr r) \<Rightarrow> (w', [entry], Returned r))"

definition no_client :: "env \<Rightarrow> string \<Rightarrow> tool_error" where
  "no_client e profileName = PlainError (''profile '' @ en_quote e profileName @ '': no chain client available'')"

text \<open>A malformed \<open>identity\<close> is read as the empty string: its error is dropped.\<close>

definition identityArg :: "args \<Rightarrow> string" where
  "identityArg a = (case StringArg a ''identity'' of Inr v \<Rightarrow> v | Inl _ \<Rightarrow> [])"

record call_request =
  cq_key :: string
  cq_realm :: string
  cq_func :: string
  cq_args :: "string list"
  cq_simulate :: bool
  cq_send :: string

definition call_args :: "env \<Rightarrow> args \<Rightarrow> tool_error + call_request" where
  "call_args e a =
     bindS (keyArg e a) (\<lambda>key.
     bindS (arg e StringArg a ''realm'') (\<lambda>realm.
     if realm = [] then Inl (PlainError ''realm: required'') else
     bindS (arg e StringArg a ''func'') (\<lambda>fn.
     if fn = [] then Inl (PlainError ''func: required'') else
     bindS (arg e StringSliceArg a ''args'') (\<lambda>fnArgs.
     bindS (arg e BoolArg a ''simulate'') (\<lambda>simulate.
     bindS (arg e StringArg a ''send'') (\<lambda>send.
     if ValidateSendCoins (en_lib e) send \<noteq> None then
       Inl (ToolError ''invalid_send''
         (''send '' @ en_quote e send @ '' is not a valid coin amount'' @ dash @ ''use an amount like \"5000000ugnot\"'')
         [(''send'', JStr send)])
     else Inr \<lparr>cq_key = key, cq_realm = realm, cq_func = fn, cq_args = fnArgs, cq_simulate = simulate, cq_send = send\<rparr>))))))"

definition call_pick_error :: "env \<Rightarrow> string \<Rightarrow> string \<Rightarrow> session_error \<Rightarrow> tool_error option" where
  "call_pick_error e profileName realm err =
     (case err of
        ErrNoActiveSession \<Rightarrow>
          Some (ToolError ''authentication_required''
            (''no active session for profile '' @ en_quote e profileName @ dash @ ''use gno_session_propose to create one'')
            (profile_extra profileName))
      | ErrScopeMismatch paths \<Rightarrow>
          Some (ToolError ''scope_mismatch''
            (''realm '' @ en_quote e realm @ '' is not covered by any active session for profile '' @ en_quote e profileName @ dash @
             ''use gno_session_propose with allow_paths=['' @ en_quote e realm @ '']'')
            [(''profile'', JStr profileName), (''realm'', JStr realm), (''available_paths'', JArr (map JStr paths))])
      | _ \<Rightarrow> None)"

definition pick_in_world ::
  "env \<Rightarrow> (manager \<Rightarrow> manager \<times> (session_error + signerAdapter \<times> string)) \<Rightarrow> world \<Rightarrow>
   world \<times> (session_error + signerAdapter \<times> string)" where
  "pick_in_world e pick w = (case pick (wo_mgr w) of (m, r) \<Rightarrow> (w\<lparr>wo_mgr := m\<rparr>, r))"

definition call_dispatch :: "env \<Rightarrow> client \<Rightarrow> string \<Rightarrow> Profile \<Rightarrow> call_request \<Rightarrow> writeTxDispatch" where
  "call_dispatch e c profileName p q =
     \<lparr>dp_tool = ''gno_call'', dp_noKeyHint = ''run gno_key_generate (or pass identity=session to act as the user)'',
      dp_profileName = profileName, dp_keyName = cq_key q, dp_profile = p, dp_simulate = cq_simulate q,
      dp_pickSession = (\<lambda>w. pick_in_world e (\<lambda>m. PickSessionForProfile (en_store e) (session_resolver e (wo_rpc w)) m
                          profileName (cq_realm q) (en_order e) (en_now e)) w),
      dp_mapPickErr = call_pick_error e profileName (cq_realm q),
      dp_agentOp = (\<lambda>sg. Call (cl_node c) (en_lib e) (Some sg) (cq_realm q) (cq_func q) (cq_args q) (cq_send q) (cq_simulate q)),
      dp_sessionOp = (\<lambda>sg master. CallAsUser (cl_node c) (en_lib e) (cl_chainID c) (Some sg) master (cq_realm q) (cq_func q)
                          (cq_args q) (cq_send q) (cq_simulate q)),
      dp_precheck = no_precheck\<rparr>"

definition gnokey_base :: "string \<Rightarrow> Profile \<Rightarrow> string \<Rightarrow> string \<Rightarrow> bool \<Rightarrow> int64 \<Rightarrow> int64 \<Rightarrow> GnokeyCmd" where
  "gnokey_base sub p signerAddr master simulate fee gas =
     \<lparr>gk_Sub = sub, gk_PkgPath = [], gk_Func = [], gk_Args = [], gk_To = [], gk_Send = [], gk_PkgDir = [], gk_MaxDeposit = [],
      gk_RPC = RPCURL p, gk_ChainID = ChainID p, gk_Signer = signerAddr, gk_Master = master, gk_Simulate = simulate,
      gk_GasFeeUgnot = fee, gk_GasWanted = gas\<rparr>"

definition write_gnokey :: "string \<Rightarrow> Profile \<Rightarrow> bool \<Rightarrow> written \<Rightarrow> GnokeyCmd" where
  "write_gnokey sub p simulate r =
     gnokey_base sub p (wr_signerAddr r) (wr_master r) simulate (tr_GasFeeUgnot (wr_result r)) (tr_GasWanted (wr_result r))"

text \<open>Argument values are not logged, only their number.\<close>

definition call_summary :: "call_request \<Rightarrow> string" where
  "call_summary q =
     ''realm='' @ cq_realm q @ '' func='' @ cq_func q @ '' nargs='' @ show_nat (length (cq_args q)) @
     (if cq_send q \<noteq> [] then '' send='' @ cq_send q else [])"

definition call_body :: "env \<Rightarrow> args \<Rightarrow> world \<Rightarrow> tool_result tool_body" where
  "call_body e a w =
     (let entry = denial ''gno_call'' in
      case requireProfile e a of
        Inl err \<Rightarrow> (w, entry, Inl err)
      | Inr (profileName, p) \<Rightarrow>
     (let entry = entry\<lparr>ae_Profile := profileName\<rparr> in
      case call_args e a of
        Inl err \<Rightarrow> (w, entry, Inl err)
      | Inr q \<Rightarrow>
     (case en_resolver e profileName of
        None \<Rightarrow> (w, entry, Inl (no_client e profileName))
      | Some c \<Rightarrow>
     (let entry = entry\<lparr>ae_ArgsSummary := call_summary q\<rparr> in
      case dispatchWriteTx e c (identityArg a) (call_dispatch e c profileName p q) w of
        (w1, audit, sessionAddr, res) \<Rightarrow>
          (let entry = entry\<lparr>ae_Result := audit, ae_SessionAddress := sessionAddr\<rparr> in
           case res of
             Inl err \<Rightarrow> (case Explain e c (cq_realm q) err w1 of (w2, err') \<Rightarrow> (w2, entry, Inl err'))
           | Inr r \<Rightarrow>
               (w1, entry, Inr (attachGnokeyCmd
                  (decorateWriteResult (buildCallResult e (wr_result r) (cq_realm q)) (wr_identity r) (wr_signerAddr r) (wr_master r) (IsLocal p))
                  (GnokeyCmd_String ((write_gnokey ''call'' p (cq_simulate q) r)
                     \<lparr>gk_PkgPath := cq_realm q, gk_Func := cq_func q, gk_Args := cq_args q, gk_Send := cq_send q\<rparr>)))))))))"

definition callHandler :: "env \<Rightarrow> world handler" where
  "callHandler e = self_audited (call_body e)"

subsection \<open>gno\_run\<close>

text \<open>\<open>strings.EqualFold\<close> on ASCII.\<close>

definition EqualFold :: "string \<Rightarrow> string \<Rightarrow> bool" where
  "EqualFold a b \<longleftrightarrow> map lower_ascii a = map lower_ascii b"

definition requireRunSubmitter :: "env \<Rightarrow> client \<Rightarrow> string \<Rightarrow> event list \<Rightarrow> event list \<times> tool_error option" where
  "requireRunSubmitter e c caller h =
     (case RunSubmitters (cl_node c) (en_lib e) h of
        (h1, Inl x) \<Rightarrow>
          (h1, Some (PlainError (''gno_run: read the chain's run_submitters param (nothing signed): '' @ en_chain_text e x)))
      | (h1, Inr allowed) \<Rightarrow>
          if allowed = [] \<or> list_ex (\<lambda>x. EqualFold x caller) allowed then (h1, None)
          else (h1, Some (ToolError ''run_not_allowed''
                 (''this chain accepts MsgRun only from the addresses in its run_submitters param, and '' @ caller @
                  '' is not one of them; nothing was signed. Deploy the logic as a package and call it with gno_call, or run it on a chain whose run_submitters is empty.'')
                 [(''address'', JStr caller)])))"

definition run_args :: "env \<Rightarrow> args \<Rightarrow> tool_error + string \<times> string \<times> bool" where
  "run_args e a =
     bindS (keyArg e a) (\<lambda>key.
     bindS (arg e StringArg a ''code'') (\<lambda>code.
     if code = [] then Inl (PlainError ''code: required'') else
     bindS (arg e BoolArg a ''simulate'') (\<lambda>simulate.
     Inr (key, code, simulate))))"

definition run_pick_error :: "env \<Rightarrow> string \<Rightarrow> session_error \<Rightarrow> tool_error option" where
  "run_pick_error e profileName err =
     (case err of
        ErrNoActiveSession \<Rightarrow>
          Some (ToolError ''authentication_required''
            (''no active session with allow_run=true for profile '' @ en_quote e profileName @ dash @ ''use gno_session_propose with allow_run=true'')
            (profile_extra profileName))
      | ErrScopeMismatch paths \<Rightarrow>
          Some (ToolError ''authentication_required''
            (''active sessions for profile '' @ en_quote e profileName @ '' do not authorize MsgRun'' @ dash @ ''use gno_session_propose with allow_run=true'')
            (profile_extra profileName))
      | _ \<Rightarrow> None)"

definition run_dispatch :: "env \<Rightarrow> client \<Rightarrow> string \<Rightarrow> Profile \<Rightarrow> string \<Rightarrow> string \<Rightarrow> bool \<Rightarrow> writeTxDispatch" where
  "run_dispatch e c profileName p key code simulate =
     \<lparr>dp_tool = ''gno_run'', dp_noKeyHint = ''run gno_key_generate (or pass identity=session to act as the user)'',
      dp_profileName = profileName, dp_keyName = key, dp_profile = p, dp_simulate = simulate,
      dp_pickSession = (\<lambda>w. pick_in_world e (\<lambda>m. PickSessionForRun (en_store e) (session_resolver e (wo_rpc w)) m
                          profileName (en_order e) (en_now e)) w),
      dp_mapPickErr = run_pick_error e profileName,
      dp_agentOp = (\<lambda>sg. Run (cl_node c) (en_lib e) (Some sg) code simulate),
      dp_sessionOp = (\<lambda>sg master. RunAsUser (cl_node c) (en_lib e) (cl_chainID c) (Some sg) master code simulate),
      dp_precheck = requireRunSubmitter e c\<rparr>"

definition run_body :: "env \<Rightarrow> args \<Rightarrow> world \<Rightarrow> tool_result tool_body" where
  "run_body e a w =
     (let entry = denial ''gno_run'' in
      case requireProfile e a of
        Inl err \<Rightarrow> (w, entry, Inl err)
      | Inr (profileName, p) \<Rightarrow>
     (let entry = entry\<lparr>ae_Profile := profileName\<rparr> in
      case run_args e a of
        Inl err \<Rightarrow> (w, entry, Inl err)
      | Inr (key, code, simulate) \<Rightarrow>
     (case en_resolver e profileName of
        None \<Rightarrow> (w, entry, Inl (no_client e profileName))
      | Some c \<Rightarrow>
     (let entry = entry\<lparr>ae_ArgsSummary := ''code_len='' @ show_nat (length code)\<rparr> in
      case dispatchWriteTx e c (identityArg a) (run_dispatch e c profileName p key code simulate) w of
        (w1, audit, sessionAddr, res) \<Rightarrow>
          (let entry = entry\<lparr>ae_Result := audit, ae_SessionAddress := sessionAddr\<rparr> in
           case res of
             Inl err \<Rightarrow> (w1, entry, Inl err)
           | Inr r \<Rightarrow>
               (w1, entry, Inr (attachGnokeyCmd
                  (decorateWriteResult (buildRunResult e (wr_result r) profileName) (wr_identity r) (wr_signerAddr r) (wr_master r) (IsLocal p))
                  (GnokeyCmd_String (write_gnokey ''run'' p simulate r))))))))) "

definition runHandler :: "env \<Rightarrow> world handler" where
  "runHandler e = self_audited (run_body e)"


subsection \<open>Requests that change the chain\<close>

text \<open>The committed transactions between two points of the request history.\<close>

definition writes :: "event list \<Rightarrow> event list \<Rightarrow> event list" where
  "writes h h' = filter is_write (drop (length h) h')"

definition grows :: "event list \<Rightarrow> event list \<Rightarrow> bool" where
  "grows h h' \<longleftrightarrow> (\<exists>evs. h' = h @ evs)"

lemma grows_refl [simp]: "grows h h" by (simp add: grows_def)

lemma grows_trans: "grows h h1 \<Longrightarrow> grows h1 h2 \<Longrightarrow> grows h h2"
  by (auto simp: grows_def)

lemma writes_refl [simp]: "writes h h = []" by (simp add: writes_def)

lemma writes_append: "grows h h1 \<Longrightarrow> grows h1 h2 \<Longrightarrow> writes h h2 = writes h h1 @ writes h1 h2"
  by (auto simp: grows_def writes_def)

lemma quiet_writes: "quiet m \<Longrightarrow> m h = (h', r) \<Longrightarrow> grows h h' \<and> writes h h' = []"
  unfolding quiet_def grows_def writes_def
  by (metis append_eq_conv_conj filter_False fst_conv list_ex_iff)

lemma one_write_writes:
  assumes "one_write Q m h" "m h = (h', r)"
  shows "grows h h' \<and> (writes h h' = [] \<or> (\<exists>ev. writes h h' = [ev] \<and> is_write ev \<and> Q ev))"
proof -
  obtain evs tl where e: "h' = h @ evs @ tl" "\<not> list_ex is_write evs" "tl = [] \<or> (\<exists>w. tl = [w] \<and> is_write w \<and> Q w)"
    using assms unfolding one_write_def by auto
  then have "filter is_write evs = []" by (simp add: list_ex_iff filter_empty_conv)
  with e show ?thesis by (auto simp: grows_def writes_def)
qed

lemma run_rpc_conv: "run_rpc m w = (w', r) \<longleftrightarrow> (\<exists>h'. m (wo_rpc w) = (h', r) \<and> w' = w\<lparr>wo_rpc := h'\<rparr>)"
  by (auto simp: run_rpc_def split: prod.splits)

subsection \<open>The dispatcher, once for all its clients\<close>

text \<open>
  What an operation owes the dispatcher: it commits at most one transaction, none when simulated, one
  when it succeeds for real; its pre-check commits none; picking a session sends the node nothing to
  commit and leaves the keys alone.
\<close>

definition commits :: "bool \<Rightarrow> (event \<Rightarrow> bool) \<Rightarrow> 'a rpc \<Rightarrow> bool" where
  "commits simulate Q m \<longleftrightarrow>
     (\<forall>h h' r. m h = (h', r) \<longrightarrow> grows h h' \<and>
        (writes h h' = [] \<or> (\<exists>ev. writes h h' = [ev] \<and> \<not> simulate \<and> Q ev)) \<and>
        (\<not> simulate \<and> \<not> isl r \<longrightarrow> writes h h' \<noteq> []))"

locale write_dispatch =
  fixes e :: env and c :: client and d :: writeTxDispatch
    and agentQ :: "agent_signer \<Rightarrow> event \<Rightarrow> bool" and sessionQ :: "signer \<Rightarrow> string \<Rightarrow> event \<Rightarrow> bool"
  assumes agent_op: "commits (dp_simulate d) (agentQ sg) (dp_agentOp d sg)"
    and session_op: "commits (dp_simulate d) (sessionQ ssg master) (dp_sessionOp d ssg master)"
    and precheck: "dp_precheck d addr h = (h', err) \<Longrightarrow> grows h h' \<and> writes h h' = []"
    and pick: "dp_pickSession d w = (w', r) \<Longrightarrow> wo_rpc w' = wo_rpc w \<and> wo_keys w' = wo_keys w"
begin

definition signed_by :: "string \<Rightarrow> world \<Rightarrow> string \<Rightarrow> event \<Rightarrow> bool" where
  "signed_by ident w sessionAddr ev \<longleftrightarrow>
     \<not> dp_simulate d \<and>
     (if ident = ''session'' then
        dp_keyName d = [] \<and> (\<exists>w1 sa master h. dp_pickSession d w = (w1, Inr (sa, master)) \<and> sessionAddr = sa_addr sa \<and>
           dp_precheck d master (wo_rpc w) = (h, None) \<and> sessionQ (session_signer e sa) master ev)
      else ident \<in> {[], ''agent''} \<and> sessionAddr = [] \<and>
        (\<exists>sg addr h. agentSigner e (wo_keys w) (dp_tool d) (dp_noKeyHint d) (dp_profileName d) (dp_keyName d) (dp_profile d) = Inr (sg, addr) \<and>
           dp_precheck d addr (wo_rpc w) = (h, None) \<and> agentQ sg ev))"

definition outcome_ok :: "string \<Rightarrow> world \<Rightarrow> dispatched \<Rightarrow> bool" where
  "outcome_ok ident w out \<longleftrightarrow>
     (case out of (w', audit, sessionAddr, res) \<Rightarrow>
        wo_keys w' = wo_keys w \<and> grows (wo_rpc w) (wo_rpc w') \<and>
        (writes (wo_rpc w) (wo_rpc w') = [] \<or>
         (\<exists>ev. writes (wo_rpc w) (wo_rpc w') = [ev] \<and> signed_by ident w sessionAddr ev)) \<and>
        (isl res \<longrightarrow> audit \<in> {''tool_err'', ''sim_err'', ''broadcast_err''}) \<and> (\<not> isl res \<longrightarrow> audit = audit_done d) \<and>
        (audit \<in> {''tool_err'', ''sim_err'', ''sim''} \<longrightarrow> writes (wo_rpc w) (wo_rpc w') = []) \<and>
        (audit = ''ok'' \<longrightarrow> writes (wo_rpc w) (wo_rpc w') \<noteq> []))"

lemma agent_outcome:
  assumes "ident \<in> {[], ''agent''}"
  shows "outcome_ok ident w (dispatch_agent e c d w)"
proof (cases "agentSigner e (wo_keys w) (dp_tool d) (dp_noKeyHint d) (dp_profileName d) (dp_keyName d) (dp_profile d)")
  case (Inl err)
  then show ?thesis by (simp add: dispatch_agent_def outcome_ok_def audit_done_def)
next
  case (Inr s)
  then obtain sg addr where s: "agentSigner e (wo_keys w) (dp_tool d) (dp_noKeyHint d) (dp_profileName d) (dp_keyName d) (dp_profile d) = Inr (sg, addr)"
    by (cases s) auto
  obtain h perr where p: "dp_precheck d addr (wo_rpc w) = (h, perr)" by force
  note g = precheck [OF p]
  obtain h2 r where o: "dp_agentOp d sg h = (h2, r)" by force
  have c: "grows h h2" "writes h h2 = [] \<or> (\<exists>ev. writes h h2 = [ev] \<and> \<not> dp_simulate d \<and> agentQ sg ev)"
      "\<not> dp_simulate d \<and> \<not> isl r \<Longrightarrow> writes h h2 \<noteq> []"
    using agent_op [of sg] o unfolding commits_def by blast+
  have w: "grows (wo_rpc w) h2" "writes (wo_rpc w) h2 = writes h h2"
    using grows_trans [of "wo_rpc w" h h2] writes_append [of "wo_rpc w" h h2] g c(1) by auto
  show ?thesis
    using g c w s p o assms
    by (cases perr; cases "requireFunded e c h (dp_tool d) (dp_profileName d) addr (dp_profile d) (dp_simulate d)"; cases r)
       (auto simp: dispatch_agent_def outcome_ok_def signed_by_def audit_done_def txError_def run_rpc_def)
qed

lemma session_outcome:
  assumes "ident = ''session''"
  shows "outcome_ok ident w (dispatch_session e c d w)"
proof (cases "dp_keyName d = []")
  case False
  then show ?thesis by (simp add: dispatch_session_def outcome_ok_def audit_done_def)
next
  case key: True
  obtain w1 pr where pk: "dp_pickSession d w = (w1, pr)" by force
  note pw = pick [OF pk]
  show ?thesis
  proof (cases pr)
    case (Inl err)
    then show ?thesis using key pk pw by (simp add: dispatch_session_def outcome_ok_def audit_done_def)
  next
    case (Inr x)
    then obtain sa master where pr: "pr = Inr (sa, master)" by (cases x) auto
    obtain h perr where p: "dp_precheck d master (wo_rpc w) = (h, perr)" by force
    note g = precheck [OF p]
    obtain h2 r where o: "dp_sessionOp d (session_signer e sa) master h = (h2, r)" by force
    have c: "grows h h2" "writes h h2 = [] \<or> (\<exists>ev. writes h h2 = [ev] \<and> \<not> dp_simulate d \<and> sessionQ (session_signer e sa) master ev)"
        "\<not> dp_simulate d \<and> \<not> isl r \<Longrightarrow> writes h h2 \<noteq> []"
      using session_op [of "session_signer e sa" master] o unfolding commits_def by blast+
    have w: "grows (wo_rpc w) h2" "writes (wo_rpc w) h2 = writes h h2"
      using grows_trans [of "wo_rpc w" h h2] writes_append [of "wo_rpc w" h h2] g c(1) by auto
    show ?thesis
      using g c w p o assms key pk pw pr
      by (cases perr; cases r)
         (auto simp: dispatch_session_def outcome_ok_def signed_by_def audit_done_def txError_def run_rpc_def)
  qed
qed

lemma dispatch_outcome: "outcome_ok ident w (dispatchWriteTx e c ident d w)"
  using agent_outcome [of ident w] session_outcome [of ident w]
  by (auto simp: dispatchWriteTx_def Let_def) (auto simp: outcome_ok_def audit_done_def)

text \<open>A simulation leaves the sessions as picking left them: nothing is spent.\<close>

lemma simulate_no_spend:
  assumes "dp_simulate d" "dispatchWriteTx e c ident d w = (w', audit, sa, res)"
  shows "wo_mgr w' = wo_mgr w \<or> wo_mgr w' = wo_mgr (fst (dp_pickSession d w))"
  using assms
  by (auto simp: dispatchWriteTx_def dispatch_agent_def dispatch_session_def run_rpc_def txError_def Let_def
      split: if_splits sum.splits prod.splits option.splits)

end


text \<open>What a tool owes its audit record.\<close>

definition audit_true :: "string \<Rightarrow> (string \<Rightarrow> event \<Rightarrow> bool) \<Rightarrow> world \<Rightarrow> world \<times> audit_entry \<times> (tool_error + tool_result) \<Rightarrow> bool" where
  "audit_true tool Q w out \<longleftrightarrow>
     (case out of (w', entry, res) \<Rightarrow>
        ae_Tool entry = tool \<and> wo_keys w' = wo_keys w \<and> grows (wo_rpc w) (wo_rpc w') \<and>
        (\<not> isl res \<longleftrightarrow> ae_Result entry \<in> {''ok'', ''sim''}) \<and>
        (ae_Result entry \<in> {''tool_err'', ''sim_err'', ''sim''} \<longrightarrow> writes (wo_rpc w) (wo_rpc w') = []) \<and>
        (ae_Result entry = ''ok'' \<longrightarrow> writes (wo_rpc w) (wo_rpc w') \<noteq> []) \<and>
        (writes (wo_rpc w) (wo_rpc w') = [] \<or>
         (\<exists>ev. writes (wo_rpc w) (wo_rpc w') = [ev] \<and> Q (ae_SessionAddress entry) ev)))"

context write_dispatch
begin

lemma audit:
  assumes "dispatchWriteTx e c ident d w = (w1, audit, sa, res)"
    and "grows (wo_rpc w1) (wo_rpc w')" "writes (wo_rpc w1) (wo_rpc w') = []" "wo_keys w' = wo_keys w1"
    and "isl res' = isl res" "ae_Tool entry = tool" "ae_Result entry = audit" "ae_SessionAddress entry = sa"
    and "\<And>ev. signed_by ident w sa ev \<Longrightarrow> Q sa ev"
  shows "audit_true tool Q w (w', entry, res')"
proof -
  have o: "outcome_ok ident w (w1, audit, sa, res)" using dispatch_outcome [of ident w] unfolding assms(1) .
  have k: "wo_keys w1 = wo_keys w" and g: "grows (wo_rpc w) (wo_rpc w1)"
    using o by (simp_all add: outcome_ok_def)
  have W: "writes (wo_rpc w) (wo_rpc w1) = [] \<or> (\<exists>ev. writes (wo_rpc w) (wo_rpc w1) = [ev] \<and> signed_by ident w sa ev)"
    using o unfolding outcome_ok_def prod.case by (elim conjE)
  have f: "isl res \<longrightarrow> audit \<in> {''tool_err'', ''sim_err'', ''broadcast_err''}" "\<not> isl res \<longrightarrow> audit = audit_done d"
    using o by (simp_all add: outcome_ok_def)
  have n: "audit \<in> {''tool_err'', ''sim_err'', ''sim''} \<longrightarrow> writes (wo_rpc w) (wo_rpc w1) = []"
      "audit = ''ok'' \<longrightarrow> writes (wo_rpc w) (wo_rpc w1) \<noteq> []"
    using o by (simp_all add: outcome_ok_def)
  have w: "writes (wo_rpc w) (wo_rpc w') = writes (wo_rpc w) (wo_rpc w1)" "grows (wo_rpc w) (wo_rpc w')"
    using writes_append [OF g assms(2)] grows_trans [OF g assms(2)] assms(3) by auto
  have r: "(\<not> isl res) = (audit \<in> {''ok'', ''sim''})" using f by (cases "isl res") (auto simp: audit_done_def)
  show ?thesis unfolding audit_true_def prod.case assms(4-8) w(1)
    using w(2) k r n W assms(9) by (intro conjI) auto
qed

end

subsection \<open>gno\_call and gno\_run as clients of the dispatcher\<close>

lemma commits_simulated: "quiet m \<Longrightarrow> commits True Q m"
  unfolding commits_def using quiet_writes by blast

lemma commits_real:
  assumes "\<And>h. one_write Q m h" "success_commits m"
  shows "commits False Q m"
  unfolding commits_def
proof (intro allI impI)
  fix h h' r assume m: "m h = (h', r)"
  have w: "grows h h'" "writes h h' = [] \<or> (\<exists>ev. writes h h' = [ev] \<and> is_write ev \<and> Q ev)"
    using one_write_writes [OF assms(1) m] by auto
  have "writes h h' \<noteq> []" if r: "\<not> isl r"
  proof -
    obtain x where "r = Inr x" using r not_isl_Inr by blast
    with assms(2) m obtain evs ev where "h' = h @ evs @ [ev]" "is_write ev" unfolding success_commits_def by blast
    then show ?thesis by (simp add: writes_def)
  qed
  with w show "grows h h' \<and> (writes h h' = [] \<or> (\<exists>ev. writes h h' = [ev] \<and> \<not> False \<and> Q ev)) \<and> (\<not> False \<and> \<not> isl r \<longrightarrow> writes h h' \<noteq> [])"
    by blast
qed

lemma commits_cases:
  assumes "s \<Longrightarrow> quiet m" "\<not> s \<Longrightarrow> (\<And>h. one_write Q m h)" "\<not> s \<Longrightarrow> success_commits m"
  shows "commits s Q m"
  using assms commits_simulated [of m Q] commits_real [of Q m] by (cases s) auto

text \<open>The transactions the two tools may commit.\<close>

definition call_agent_tx :: "env \<Rightarrow> call_request \<Rightarrow> agent_signer \<Rightarrow> event \<Rightarrow> bool" where
  "call_agent_tx e q sg ev \<longleftrightarrow> (\<exists>coins. parseSendCoins (en_lib e) (cq_send q) = Inr coins \<and>
     agent_tx_of (Some sg) (\<lambda>a. MsgCall a coins (cq_realm q) (cq_func q) (cq_args q)) ev)"

definition call_session_tx :: "env \<Rightarrow> client \<Rightarrow> call_request \<Rightarrow> signer \<Rightarrow> string \<Rightarrow> event \<Rightarrow> bool" where
  "call_session_tx e c q sg master ev \<longleftrightarrow> (\<exists>coins. parseSendCoins (en_lib e) (cq_send q) = Inr coins \<and>
     session_tx_ok (cl_node c) (en_lib e) (cl_chainID c) (Some sg) master
       (\<lambda>ma cfg. lib_new_tx (en_lib e) cfg (MsgCall ma coins (cq_realm q) (cq_func q) (cq_args q))) ev)"

definition run_agent_tx :: "string \<Rightarrow> agent_signer \<Rightarrow> event \<Rightarrow> bool" where
  "run_agent_tx code sg ev \<longleftrightarrow> agent_tx_of (Some sg) (\<lambda>a. MsgRun a [(''main.gno'', code)]) ev"

definition run_session_tx :: "env \<Rightarrow> client \<Rightarrow> string \<Rightarrow> signer \<Rightarrow> string \<Rightarrow> event \<Rightarrow> bool" where
  "run_session_tx e c code sg master ev \<longleftrightarrow>
     session_tx_ok (cl_node c) (en_lib e) (cl_chainID c) (Some sg) master
       (\<lambda>ma cfg. lib_new_tx (en_lib e) cfg (MsgRun ma [(''main.gno'', code)])) ev"

lemma pick_in_world_quiet: "pick_in_world e pick w = (w', r) \<Longrightarrow> wo_rpc w' = wo_rpc w \<and> wo_keys w' = wo_keys w"
  by (auto simp: pick_in_world_def split: prod.splits)

interpretation call: write_dispatch e c "call_dispatch e c profileName p q" "call_agent_tx e q" "call_session_tx e c q"
  for e c profileName p q
proof
  show "commits (dp_simulate (call_dispatch e c profileName p q)) (call_agent_tx e q sg) (dp_agentOp (call_dispatch e c profileName p q) sg)" for sg
    unfolding call_dispatch_def call_agent_tx_def
    by (rule commits_cases) (simp_all add: quiet_simulations Call_one_write success_commits_writes)
  show "commits (dp_simulate (call_dispatch e c profileName p q)) (call_session_tx e c q ssg master)
      (dp_sessionOp (call_dispatch e c profileName p q) ssg master)" for ssg master
    unfolding call_dispatch_def call_session_tx_def
    by (rule commits_cases) (simp_all add: quiet_simulations CallAsUser_one_write success_commits_writes)
qed (auto simp: call_dispatch_def no_precheck_def dest: pick_in_world_quiet)

lemma requireRunSubmitter_quiet: "requireRunSubmitter e c addr h = (h', err) \<Longrightarrow> grows h h' \<and> writes h h' = []"
  using quiet_writes [OF quiet_params(2)]
  by (fastforce simp: requireRunSubmitter_def split: prod.splits sum.splits if_splits)

interpretation run: write_dispatch e c "run_dispatch e c profileName p key code simulate" "run_agent_tx code" "run_session_tx e c code"
  for e c profileName p key code simulate
proof
  show "commits (dp_simulate (run_dispatch e c profileName p key code simulate)) (run_agent_tx code sg)
      (dp_agentOp (run_dispatch e c profileName p key code simulate) sg)" for sg
    unfolding run_dispatch_def run_agent_tx_def
    by (rule commits_cases) (simp_all add: quiet_simulations Run_one_write success_commits_writes)
  show "commits (dp_simulate (run_dispatch e c profileName p key code simulate)) (run_session_tx e c code ssg master)
      (dp_sessionOp (run_dispatch e c profileName p key code simulate) ssg master)" for ssg master
    unfolding run_dispatch_def run_session_tx_def
    by (rule commits_cases) (simp_all add: quiet_simulations RunAsUser_one_write success_commits_writes)
qed (auto simp: run_dispatch_def requireRunSubmitter_quiet dest: pick_in_world_quiet)


subsection \<open>Properties\<close>

lemma Explain_quiet:
  assumes "Explain e c path err w = (w', err')"
  shows "grows (wo_rpc w) (wo_rpc w') \<and> writes (wo_rpc w) (wo_rpc w') = [] \<and> wo_keys w' = wo_keys w"
  using assms quiet_writes [OF quiet_params(3) [of "cl_node c" "en_lib e" path], of "wo_rpc w"]
  by (auto simp: Explain_def run_rpc_def split: tool_error.splits prod.splits sum.splits if_splits)

definition call_committed :: "env \<Rightarrow> args \<Rightarrow> world \<Rightarrow> string \<Rightarrow> event \<Rightarrow> bool" where
  "call_committed e a w sessionAddr ev \<longleftrightarrow>
     (\<exists>profileName p q c. requireProfile e a = Inr (profileName, p) \<and> call_args e a = Inr q \<and> en_resolver e profileName = Some c \<and>
        \<not> cq_simulate q \<and>
        (if identityArg a = ''session'' then
           cq_key q = [] \<and> (\<exists>w1 sa master. pick_in_world e (\<lambda>m. PickSessionForProfile (en_store e) (session_resolver e (wo_rpc w)) m
               profileName (cq_realm q) (en_order e) (en_now e)) w = (w1, Inr (sa, master)) \<and>
             sessionAddr = sa_addr sa \<and> call_session_tx e c q (session_signer e sa) master ev)
         else identityArg a \<in> {[], ''agent''} \<and> sessionAddr = [] \<and>
           (\<exists>sg addr. agentSigner e (wo_keys w) ''gno_call'' ''run gno_key_generate (or pass identity=session to act as the user)''
               profileName (cq_key q) p = Inr (sg, addr) \<and> call_agent_tx e q sg ev)))"

lemma call_body_true: "audit_true ''gno_call'' (call_committed e a w) w (call_body e a w)"
proof (cases "requireProfile e a")
  case (Inl err)
  then show ?thesis by (simp add: call_body_def audit_true_def denial_def)
next
  case (Inr np)
  then obtain profileName p where rp: "requireProfile e a = Inr (profileName, p)" by (cases np) auto
  show ?thesis
  proof (cases "call_args e a")
    case (Inl err)
    with rp show ?thesis by (simp add: call_body_def audit_true_def denial_def)
  next
    case q: (Inr q)
    show ?thesis
    proof (cases "en_resolver e profileName")
      case None
      with rp q show ?thesis by (simp add: call_body_def audit_true_def denial_def)
    next
      case c: (Some c)
      let ?d = "call_dispatch e c profileName p q"
      obtain w1 audit sessionAddr res where d: "dispatchWriteTx e c (identityArg a) ?d w = (w1, audit, sessionAddr, res)"
        using prod_cases4 by blast
      have o: "call.outcome_ok e c profileName p q (identityArg a) w (w1, audit, sessionAddr, res)"
        using call.dispatch_outcome [of e c profileName p q "identityArg a" w] unfolding d .
      have com: "call_committed e a w sessionAddr ev" if "call.signed_by e c profileName p q (identityArg a) w sessionAddr ev" for ev
        using that rp q c unfolding call.signed_by_def call_committed_def
        by (intro exI [of _ profileName] exI [of _ p] exI [of _ q] exI [of _ c]) (auto simp: call_dispatch_def split: if_splits)
      show ?thesis
      proof (cases res)
        case (Inl err)
        obtain w2 err' where x: "Explain e c (cq_realm q) err w1 = (w2, err')" by force
        let ?e = "(denial ''gno_call'')\<lparr>ae_Profile := profileName, ae_ArgsSummary := call_summary q, ae_Result := audit, ae_SessionAddress := sessionAddr\<rparr>"
        have "call_body e a w = (w2, ?e, Inl err')"
          using rp q c d x Inl by (simp add: call_body_def denial_def)
        moreover have "audit_true ''gno_call'' (call_committed e a w) w (w2, ?e, Inl err')"
          using Explain_quiet [OF x] Inl by (intro call.audit [OF d] com) (simp_all add: denial_def)
        ultimately show ?thesis by simp
      next
        case (Inr r)
        obtain entry out where b: "call_body e a w = (w1, entry, Inr out)"
            "ae_Tool entry = ''gno_call''" "ae_Result entry = audit" "ae_SessionAddress entry = sessionAddr"
          using rp q c d Inr by (simp add: call_body_def denial_def)
        then show ?thesis unfolding b(1) using Inr by (intro call.audit [OF d] com) simp_all
      qed
    qed
  qed
qed


definition submitter_ok :: "env \<Rightarrow> client \<Rightarrow> string \<Rightarrow> event list \<Rightarrow> bool" where
  "submitter_ok e c caller h \<longleftrightarrow>
     (case snd (RunSubmitters (cl_node c) (en_lib e) h) of
        Inl _ \<Rightarrow> False
      | Inr allowed \<Rightarrow> allowed = [] \<or> list_ex (\<lambda>x. EqualFold x caller) allowed)"

lemma requireRunSubmitter_ok: "requireRunSubmitter e c caller h = (h', None) \<Longrightarrow> submitter_ok e c caller h"
  by (auto simp: requireRunSubmitter_def submitter_ok_def split: prod.splits sum.splits if_splits)

definition run_committed :: "env \<Rightarrow> args \<Rightarrow> world \<Rightarrow> string \<Rightarrow> event \<Rightarrow> bool" where
  "run_committed e a w sessionAddr ev \<longleftrightarrow>
     (\<exists>profileName p key code c. requireProfile e a = Inr (profileName, p) \<and> run_args e a = Inr (key, code, False) \<and>
        en_resolver e profileName = Some c \<and>
        (if identityArg a = ''session'' then
           key = [] \<and> (\<exists>w1 sa master. pick_in_world e (\<lambda>m. PickSessionForRun (en_store e) (session_resolver e (wo_rpc w)) m
               profileName (en_order e) (en_now e)) w = (w1, Inr (sa, master)) \<and>
             sessionAddr = sa_addr sa \<and> submitter_ok e c master (wo_rpc w) \<and> run_session_tx e c code (session_signer e sa) master ev)
         else identityArg a \<in> {[], ''agent''} \<and> sessionAddr = [] \<and>
           (\<exists>sg addr. agentSigner e (wo_keys w) ''gno_run'' ''run gno_key_generate (or pass identity=session to act as the user)''
               profileName key p = Inr (sg, addr) \<and> submitter_ok e c addr (wo_rpc w) \<and> run_agent_tx code sg ev)))"

lemma run_body_true: "audit_true ''gno_run'' (run_committed e a w) w (run_body e a w)"
proof (cases "requireProfile e a")
  case (Inl err)
  then show ?thesis by (simp add: run_body_def audit_true_def denial_def)
next
  case (Inr np)
  then obtain profileName p where rp: "requireProfile e a = Inr (profileName, p)" by (cases np) auto
  show ?thesis
  proof (cases "run_args e a")
    case (Inl err)
    with rp show ?thesis by (simp add: run_body_def audit_true_def denial_def)
  next
    case (Inr q)
    then obtain key code simulate where q: "run_args e a = Inr (key, code, simulate)" by (cases q) auto
    show ?thesis
    proof (cases "en_resolver e profileName")
      case None
      with rp q show ?thesis by (simp add: run_body_def audit_true_def denial_def)
    next
      case c: (Some c)
      let ?d = "run_dispatch e c profileName p key code simulate"
      obtain w1 audit sessionAddr res where d: "dispatchWriteTx e c (identityArg a) ?d w = (w1, audit, sessionAddr, res)"
        using prod_cases4 by blast
      have com: "run_committed e a w sessionAddr ev" if "run.signed_by e c profileName p key code simulate (identityArg a) w sessionAddr ev" for ev
        using that rp q c requireRunSubmitter_ok unfolding run.signed_by_def run_committed_def
        by (intro exI [of _ profileName] exI [of _ p] exI [of _ key] exI [of _ code] exI [of _ c]) (fastforce simp: run_dispatch_def split: if_splits)
      obtain entry res' where b: "run_body e a w = (w1, entry, res')" "isl res' = isl res"
          "ae_Tool entry = ''gno_run''" "ae_Result entry = audit" "ae_SessionAddress entry = sessionAddr"
        using rp q c d by (cases res) (simp_all add: run_body_def denial_def)
      then show ?thesis unfolding b(1) by (intro run.audit [OF d] com) simp_all
    qed
  qed
qed

lemma self_audited_true:
  assumes "audit_true tool Q w (body a w)" "self_audited body a w = (w', es, out)"
  shows "\<exists>entry. es = [entry] \<and> ae_Tool entry = tool \<and> wo_keys w' = wo_keys w \<and>
     ((\<exists>r. out = Returned r) \<longleftrightarrow> ae_Result entry \<in> {''ok'', ''sim''}) \<and>
     (ae_Result entry \<in> {''tool_err'', ''sim_err'', ''sim''} \<longrightarrow> writes (wo_rpc w) (wo_rpc w') = []) \<and>
     (ae_Result entry = ''ok'' \<longrightarrow> writes (wo_rpc w) (wo_rpc w') \<noteq> []) \<and>
     (writes (wo_rpc w) (wo_rpc w') = [] \<or>
      (\<exists>ev. writes (wo_rpc w) (wo_rpc w') = [ev] \<and> Q (ae_SessionAddress entry) ev))"
proof -
  obtain w1 entry res where b: "body a w = (w1, entry, res)" using prod_cases3 by blast
  have t: "audit_true tool Q w (w1, entry, res)" using assms(1) unfolding b .
  show ?thesis
  proof (cases res)
    case (Inl err)
    then have "w' = w1" "es = [entry]" "out = Failed err" using assms(2) b by (simp_all add: self_audited_def)
    then show ?thesis using t Inl by (simp add: audit_true_def)
  next
    case (Inr r)
    then have "w' = w1" "es = [entry]" "out = Returned r" using assms(2) b by (simp_all add: self_audited_def)
    then show ?thesis using t Inr by (simp add: audit_true_def)
  qed
qed

text \<open>
  C6. The audit record of a call tells the truth. Every invocation of gno\_call, whatever its
  arguments and whatever the node answers, writes exactly one record. It says ok or sim exactly
  when the tool succeeded; under tool\_err, sim\_err and sim nothing was committed; under ok exactly
  one transaction was; and whatever was committed was not a simulation, and is the requested message,
  signed by the agent key the arguments name, or (identity session, never with a key argument) by the
  picked session, whose address the record holds, with its spend checked.
\<close>

theorem call_audit_truth:
  assumes "callHandler e a w = (w', es, out)"
  shows "\<exists>entry. es = [entry] \<and> ae_Tool entry = ''gno_call'' \<and> wo_keys w' = wo_keys w \<and>
     ((\<exists>r. out = Returned r) \<longleftrightarrow> ae_Result entry \<in> {''ok'', ''sim''}) \<and>
     (ae_Result entry \<in> {''tool_err'', ''sim_err'', ''sim''} \<longrightarrow> writes (wo_rpc w) (wo_rpc w') = []) \<and>
     (ae_Result entry = ''ok'' \<longrightarrow> writes (wo_rpc w) (wo_rpc w') \<noteq> []) \<and>
     (writes (wo_rpc w) (wo_rpc w') = [] \<or>
      (\<exists>ev. writes (wo_rpc w) (wo_rpc w') = [ev] \<and> call_committed e a w (ae_SessionAddress entry) ev))"
  using assms unfolding callHandler_def by (rule self_audited_true [OF call_body_true])

text \<open>
  Only listed submitters run code. The same truth holds of gno\_run's record, and code is committed
  only if the chain's run\_submitters, read in that same invocation before anything was signed, were
  empty or held the address the message is authorized by: the agent's own, or the session's master.
\<close>

theorem run_audit_truth:
  assumes "runHandler e a w = (w', es, out)"
  shows "\<exists>entry. es = [entry] \<and> ae_Tool entry = ''gno_run'' \<and> wo_keys w' = wo_keys w \<and>
     ((\<exists>r. out = Returned r) \<longleftrightarrow> ae_Result entry \<in> {''ok'', ''sim''}) \<and>
     (ae_Result entry \<in> {''tool_err'', ''sim_err'', ''sim''} \<longrightarrow> writes (wo_rpc w) (wo_rpc w') = []) \<and>
     (ae_Result entry = ''ok'' \<longrightarrow> writes (wo_rpc w) (wo_rpc w') \<noteq> []) \<and>
     (writes (wo_rpc w) (wo_rpc w') = [] \<or>
      (\<exists>ev. writes (wo_rpc w) (wo_rpc w') = [ev] \<and> run_committed e a w (ae_SessionAddress entry) ev))"
  using assms unfolding runHandler_def by (rule self_audited_true [OF run_body_true])


subsection \<open>Handlers without a record of their own\<close>

text \<open>A handler that leaves its record to the adapter.\<close>

definition plain_handler :: "(args \<Rightarrow> world \<Rightarrow> world \<times> (tool_error + tool_result)) \<Rightarrow> world handler" where
  "plain_handler body a w =
     (case body a w of (w', Inl err) \<Rightarrow> (w', [], Failed err) | (w', Inr r) \<Rightarrow> (w', [], Returned r))"

lemma plain_handler_records: "plain_handler body a w = (w', es, out) \<Longrightarrow> es = []"
  by (auto simp: plain_handler_def split: prod.splits sum.splits)

lemma plain_handler_outcome:
  assumes "plain_handler body a w = (w', es, out)"
  shows "\<exists>r. body a w = (w', r) \<and> es = [] \<and> ((\<exists>x. out = Returned x) \<longleftrightarrow> \<not> isl r) \<and> (\<forall>x. out = Returned x \<longleftrightarrow> r = Inr x)"
  using assms by (cases "body a w") (auto simp: plain_handler_def split: sum.splits)

subsection \<open>Handlers with one record of their own\<close>

lemma self_audited_records: "self_audited body a w = (w', es, out) \<Longrightarrow> length es = 1"
  by (auto simp: self_audited_def split: prod.splits sum.splits)

lemma self_audited_outcome:
  assumes "self_audited body a w = (w', es, out)"
  shows "\<exists>entry r. body a w = (w', entry, r) \<and> es = [entry] \<and> ((\<exists>x. out = Returned x) \<longleftrightarrow> \<not> isl r)"
  using assms by (cases "body a w") (auto simp: self_audited_def split: sum.splits)

lemma only_rpc: "w' = w\<lparr>wo_rpc := h\<rparr> \<Longrightarrow> wo_keys w' = wo_keys w \<and> wo_mgr w' = wo_mgr w"
  by simp

lemma acquire_agentSigner:
  "acquireAgentSigner e c w tool hint n k p s = Inr x \<Longrightarrow> agentSigner e (wo_keys w) tool hint n k p = Inr x"
  by (auto simp: acquireAgentSigner_def bindS_def split: sum.splits option.splits)

interpretation call_audited: audited_handler "callHandler e" True
  by unfold_locales (simp add: callHandler_def self_audited_records)

interpretation run_audited: audited_handler "runHandler e" True
  by unfold_locales (simp add: runHandler_def self_audited_records)

subsection \<open>A local profile, for the witnesses\<close>

definition demo_server :: server where
  "demo_server = NewServer [(''dev'', demo_dyn), (''net'', demo_dyn\<lparr>ChainID := ''test-1''\<rparr>)] ''dev''"

definition demo_client :: client where
  "demo_client = \<lparr>cl_node = demo_node, cl_chainID = ''dev'', cl_account = (\<lambda>h a. AcUnknown)\<rparr>"

definition demo_env :: env where
  "demo_env = \<lparr>en_server = demo_server, en_resolver = (\<lambda>p. Some demo_client), en_lib = demo_lib,
     en_vm = \<lparr>vc_Live = ''live'', vc_Inert = ''inert'', vc_PolicyInert = ''inert''\<rparr>,
     en_ks = \<lparr>ks_rootDir = ''/k'', ks_passphrase = [], ks_maxKeys = 5\<rparr>, en_ksio = io_ok ''.tmp'', en_aead = demo_aead,
     en_derive = (\<lambda>m c. Inr demo_agent), en_store = (\<lambda>fs p m. (fs, None)), en_order = [], en_now = 0, en_pubkey = id,
     en_ed25519 = (\<lambda>k b. Inr b), en_quote = id, en_arg_text = (\<lambda>x. []), en_ks_text = (\<lambda>x. []), en_chain_text = (\<lambda>x. []),
     en_session_text = (\<lambda>x. []), en_duration_text = (\<lambda>x. ''30s''), en_poll_time = (\<lambda>i. 0), en_oversleep = (\<lambda>i. 0),
     en_cancelled = (\<lambda>i. False), en_gnomod = (\<lambda>p. ''module '' @ p), en_url = (\<lambda>u. None), en_ip = (\<lambda>h. None),
     en_unauthorized = (\<lambda>x. False), en_error_nodes = (\<lambda>x. [])\<rparr>"

definition demo_world :: world where
  "demo_world = \<lparr>wo_mgr = \<lparr>mg_sessions = (\<lambda>p. Map.empty), mg_fs = Map.empty\<rparr>, wo_keys = Map.empty, wo_rpc = []\<rparr>"

definition demo_call_args :: args where
  "demo_call_args = [''profile'' \<mapsto> JStr ''dev'', ''realm'' \<mapsto> JStr ''r/a'', ''func'' \<mapsto> JStr ''F'']"

definition demo_run_args :: args where
  "demo_run_args = [''profile'' \<mapsto> JStr ''dev'', ''code'' \<mapsto> JStr ''package main'']"


lemmas env_simps = demo_env_def demo_server_def demo_client_def demo_world_def NewServer_def server_profile_def

lemma demo_fields [simp]:
  "en_resolver demo_env n = Some demo_client" "en_lib demo_env = demo_lib" "cl_node demo_client = demo_node"
  "cl_chainID demo_client = ''dev''" "wo_rpc demo_world = []"
  by (simp_all add: demo_env_def demo_client_def demo_world_def)

lemma demo_profile: "requireProfile demo_env (m(''profile'' \<mapsto> JStr ''dev'')) = Inr (''dev'', demo_dyn)"
  by (simp add: requireProfile_def arg_def bindS_def StringArg_def env_simps)

lemma demo_agentSigner: "agentSigner demo_env keys tool hint ''dev'' key demo_dyn = Inr (demo_agent, ''g1agent'')"
proof -
  have "ValidProfileName ''dev''" by code_simp
  then show ?thesis
    by (simp add: agentSigner_def SignerForProfile_def requireValidProfileName_def IsReadOnly_def ChainIDWritable_def IsLocal_def
        demo_dyn_def en_signers_def demo_env_def demo_agent_def)
qed

lemma demo_unfunded_local: "requireFunded demo_env c h tool ''dev'' a demo_dyn s = None"
  by (simp add: requireFunded_def IsTestnet_def IsLocal_def demo_dyn_def)

lemma demo_fee_floor: "gas_fee demo_node demo_lib DefaultGasWanted h = (h @ [EvQuery QueryPath []], Inr 20000)"
proof -
  have "gasWantedFor 400000 = DefaultGasWanted" by code_simp
  then show ?thesis using demo_fee by metis
qed

lemma demo_call_run:
  "list_ex is_write (fst (Call demo_node demo_lib (Some demo_agent) ''r/a'' ''F'' [] [] False [])) \<and>
   \<not> isl (snd (Call demo_node demo_lib (Some demo_agent) ''r/a'' ''F'' [] [] False []))"
  unfolding Call_def by (simp add: demo_steps)

lemma demo_code_run:
  "list_ex is_write (fst (Run demo_node demo_lib (Some demo_agent) ''package main'' False h)) \<and>
   \<not> isl (snd (Run demo_node demo_lib (Some demo_agent) ''package main'' False h))"
  unfolding Run_def by (simp add: demo_steps)

lemma demo_call_writes: "writes [] (wo_rpc (fst (callHandler demo_env demo_call_args demo_world))) \<noteq> []"
proof -
  have q: "requireProfile demo_env demo_call_args = Inr (''dev'', demo_dyn)" "identityArg demo_call_args = []"
    "call_args demo_env demo_call_args =
       Inr \<lparr>cq_key = [], cq_realm = ''r/a'', cq_func = ''F'', cq_args = [], cq_simulate = False, cq_send = []\<rparr>"
    by (simp_all add: demo_call_args_def requireProfile_def call_args_def keyArg_def identityArg_def arg_def bindS_def StringArg_def
        BoolArg_def StringSliceArg_def ValidateSendCoins_def parseSendCoins_def env_simps)
  obtain h r where o: "Call demo_node demo_lib (Some demo_agent) ''r/a'' ''F'' [] [] False [] = (h, Inr r)" "list_ex is_write h"
    using demo_call_run not_isl_Inr by (metis prod.collapse)
  have "wo_rpc (fst (callHandler demo_env demo_call_args demo_world)) = h" using q o(1)
    by (auto simp: callHandler_def self_audited_def call_body_def dispatchWriteTx_def dispatch_agent_def call_dispatch_def no_precheck_def
        demo_agentSigner demo_unfunded_local run_rpc_def)
  then show ?thesis using o(2) by (simp add: writes_def filter_empty_conv list_ex_iff)
qed

lemma call_audit_truth_witness:
  "\<exists>entry ev. fst (snd (callHandler demo_env demo_call_args demo_world)) = [entry] \<and>
     writes [] (wo_rpc (fst (callHandler demo_env demo_call_args demo_world))) = [ev] \<and>
     call_committed demo_env demo_call_args demo_world (ae_SessionAddress entry) ev"
proof -
  obtain w' es out where c: "callHandler demo_env demo_call_args demo_world = (w', es, out)" using prod_cases3 by blast
  have "writes (wo_rpc demo_world) (wo_rpc w') \<noteq> []" using demo_call_writes unfolding c by simp
  then show ?thesis using call_audit_truth [OF c] unfolding c by (auto simp: demo_world_def)
qed

lemma run_audit_truth_witness:
  "\<exists>entry ev. fst (snd (runHandler demo_env demo_run_args demo_world)) = [entry] \<and>
     writes [] (wo_rpc (fst (runHandler demo_env demo_run_args demo_world))) = [ev] \<and>
     run_committed demo_env demo_run_args demo_world (ae_SessionAddress entry) ev"
proof -
  obtain w' es out where c: "runHandler demo_env demo_run_args demo_world = (w', es, out)" using prod_cases3 by blast
  have q: "requireProfile demo_env demo_run_args = Inr (''dev'', demo_dyn)" "identityArg demo_run_args = []"
    "run_args demo_env demo_run_args = Inr ([], ''package main'', False)"
    by (simp_all add: demo_run_args_def requireProfile_def run_args_def keyArg_def identityArg_def arg_def bindS_def StringArg_def
        BoolArg_def env_simps)
  obtain h0 where p: "requireRunSubmitter demo_env demo_client ''g1agent'' [] = (h0, None)"
    by (simp add: requireRunSubmitter_def RunSubmitters_def query_def decodeAddressList_def run_simps demo_node_def demo_lib_def)
  obtain h r where o: "Run demo_node demo_lib (Some demo_agent) ''package main'' False h0 = (h, Inr r)" "list_ex is_write h"
    using demo_code_run [of h0] not_isl_Inr by (metis prod.collapse)
  have "wo_rpc w' = h" using c q p o(1)
    by (auto simp: runHandler_def self_audited_def run_body_def dispatchWriteTx_def dispatch_agent_def run_dispatch_def
        demo_agentSigner demo_unfunded_local run_rpc_def)
  then have "writes (wo_rpc demo_world) (wo_rpc w') \<noteq> []"
    using o(2) by (simp add: writes_def filter_empty_conv list_ex_iff)
  then show ?thesis using run_audit_truth [OF c] unfolding c by auto
qed

end
