(* ===== verification/Deploy.thy ===== *)
theory Deploy
  imports Dispatch
begin

section \<open>Deploying packages: internal/tools/write addpkg.go, clahint.go and clasign.go\<close>

text \<open>
  \<open>gno_addpkg\<close> expands a short path, generates the missing module file, simulates before it broadcasts
  and, on a chain that parks deploys, polls until the package is live or the wait is over;
  \<open>gno_cla_sign\<close> and \<open>gno_cla_info\<close> handle the contributor agreement. Time passes in the polling
  loop only: the environment says how long each poll takes and by how much each sleep overshoots.
  The loop is a partial function, so that returning is something to prove.
\<close>

subsection \<open>Waiting for a parked package\<close>

record parkWait =
  pw_timeout :: duration
  pw_interval :: duration

definition parkWaitTimeout :: duration where "parkWaitTimeout = 30 * nsecond"
definition parkPollInterval :: duration where "parkPollInterval = 2 * nsecond"

definition production_wait :: parkWait where
  "production_wait = \<lparr>pw_timeout = parkWaitTimeout, pw_interval = parkPollInterval\<rparr>"

text \<open>\<open>lastMeta\<close> holds the last answer when there was one, \<open>lastErr\<close> the last error.\<close>

definition settle :: "PackageMeta option \<Rightarrow> chain_error \<Rightarrow> chain_error + PackageMeta" where
  "settle lastMeta lastErr = (case lastMeta of None \<Rightarrow> Inl lastErr | Some m \<Rightarrow> Inr m)"

partial_function (option) wait_loop ::
  "env \<Rightarrow> client \<Rightarrow> string \<Rightarrow> duration \<Rightarrow> time \<Rightarrow> nat \<Rightarrow> time \<Rightarrow> PackageMeta option \<Rightarrow> event list \<Rightarrow>
   (event list \<times> (chain_error + PackageMeta)) option" where
  "wait_loop e c path interval deadline i now lastMeta h =
     (case QueryPackageMeta (cl_node c) (en_lib e) path h of
        (h1, Inl err) \<Rightarrow>
          (let t = now + int (en_poll_time e i); left = deadline - t
           in if left \<le> 0 \<or> en_cancelled e i then Some (h1, settle lastMeta err)
              else wait_loop e c path interval deadline (Suc i) (t + min interval left + int (en_oversleep e i)) lastMeta h1)
      | (h1, Inr m) \<Rightarrow>
          if Live (en_vm e) m then Some (h1, Inr m)
          else (let t = now + int (en_poll_time e i); left = deadline - t
                in if left \<le> 0 \<or> en_cancelled e i then Some (h1, Inr m)
                   else wait_loop e c path interval deadline (Suc i) (t + min interval left + int (en_oversleep e i)) (Some m) h1))"

definition waitLive ::
  "env \<Rightarrow> client \<Rightarrow> string \<Rightarrow> parkWait \<Rightarrow> event list \<Rightarrow> (event list \<times> (chain_error + PackageMeta)) option" where
  "waitLive e c path w h = wait_loop e c path (pw_interval w) (pw_timeout w) 0 0 None h"

definition packageStatusRedeployParked :: string where "packageStatusRedeployParked = ''redeploy_parked''"
definition packageStatusUnknown :: string where "packageStatusUnknown = ''unknown''"

definition deployStatus :: "vm_consts \<Rightarrow> chain_error + PackageMeta \<Rightarrow> string" where
  "deployStatus v r =
     (case r of
        Inl _ \<Rightarrow> packageStatusUnknown
      | Inr m \<Rightarrow>
          if Live v m then vc_Live v
          else if pm_Status m = vc_Inert v then vc_Inert v
          else if pm_Status m = vc_Live v \<and> pm_Pending m then packageStatusRedeployParked
          else packageStatusUnknown)"

subsection \<open>Files\<close>

text \<open>The dynamic type of an argument, as the verb \<open>%T\<close> prints it.\<close>

definition go_type :: "json \<Rightarrow> string" where
  "go_type x =
     (case x of
        JNull \<Rightarrow> ''<nil>'' | JBool _ \<Rightarrow> ''bool'' | JFloat _ \<Rightarrow> ''float64'' | JInt _ \<Rightarrow> ''int64'' | JNumber _ \<Rightarrow> ''json.Number''
      | JStr _ \<Rightarrow> ''string'' | JArr _ \<Rightarrow> ''[]interface {}'' | JObj _ \<Rightarrow> ''map[string]interface {}'')"

text \<open>\<open>i\<close> counts the elements for the error texts.\<close>

fun mem_files :: "nat \<Rightarrow> json list \<Rightarrow> string + mem_file list" where
  "mem_files i [] = Inr []"
| "mem_files i (x # xs) =
     (case x of
        JObj kvs \<Rightarrow>
          (case map_of kvs ''name'' of
             Some (JStr name) \<Rightarrow>
               (case map_of kvs ''body'' of
                  Some (JStr body) \<Rightarrow>
                    (case mem_files (Suc i) xs of Inl err \<Rightarrow> Inl err | Inr r \<Rightarrow> Inr ((name, body) # r))
                | _ \<Rightarrow> Inl (''['' @ show_nat i @ ''].body: expected string''))
           | _ \<Rightarrow> Inl (''['' @ show_nat i @ ''].name: expected string''))
      | _ \<Rightarrow> Inl (''['' @ show_nat i @ '']: expected object, got '' @ go_type x))"

definition toMemFiles :: "json option \<Rightarrow> string + mem_file list" where
  "toMemFiles raw =
     (case raw of
        None \<Rightarrow> Inl ''required: provide at least one file''
      | Some JNull \<Rightarrow> Inl ''required: provide at least one file''
      | Some (JArr xs) \<Rightarrow> if xs = [] then Inl ''required: provide at least one file'' else mem_files 0 xs
      | Some x \<Rightarrow> Inl (''expected array, got '' @ go_type x))"

definition gnomod_name :: string where "gnomod_name = ''gnomod.toml''"

definition hasGnoMod :: "mem_file list \<Rightarrow> bool" where
  "hasGnoMod files = list_ex (\<lambda>f. fst f = gnomod_name) files"

fun set_gnomod :: "string \<Rightarrow> mem_file list \<Rightarrow> mem_file list" where
  "set_gnomod body [] = []"
| "set_gnomod body (f # fs) = (if fst f = gnomod_name then (gnomod_name, body) # fs else f # set_gnomod body fs)"

subsection \<open>The agreement gate\<close>

definition claRealm :: string where "claRealm = ''gno.land/r/sys/cla''"
definition claUnsignedLog :: string where "claUnsignedLog = ''has not signed the required CLA''"

definition claHint :: string where
  "claHint = concat [
     ''This chain enforces a Contributor License Agreement (gno.land/r/sys/cla) that the signing key has not accepted.'', nl,
     ''Clear it, then retry the deploy:'', nl,
     ''  1. Call gno_cla_info to fetch the required hash and the CLA document URL.'', nl,
     ''  2. Show the URL to the user and get their explicit confirmation.'', nl,
     ''  3. Call gno_cla_sign with that hash, using the same key that deploys.'']"

text \<open>
  \<open>en_unauthorized\<close> is \<open>errors.Is\<close> against the VM's error type, \<open>en_error_nodes\<close> the verbose text of
  each error of the chain.
\<close>

definition mentionsCLA :: "env \<Rightarrow> chain_error \<Rightarrow> bool" where
  "mentionsCLA e err = list_ex (\<lambda>s. Contains s claUnsignedLog) (en_error_nodes e err)"

definition withCLAHint :: "env \<Rightarrow> string \<Rightarrow> chain_error \<Rightarrow> tool_error" where
  "withCLAHint e stage err =
     (let text = stage @ '': '' @ en_chain_text e err
      in if \<not> en_unauthorized e err then PlainError text
         else if \<not> mentionsCLA e err then PlainError text
         else ToolError ''cla_unsigned'' (text @ nl @ nl @ claHint)
                [(''sign_realm'', JStr claRealm), (''sign_tool'', JStr ''gno_cla_sign'')])"

subsection \<open>gno\_addpkg\<close>

record addpkg_request =
  aq_key :: string
  aq_path :: string
  aq_simulate :: bool
  aq_files :: "mem_file list"

definition shortName :: "string \<Rightarrow> bool" where
  "shortName path \<longleftrightarrow> \<not> Contains path ''/''"

definition addpkg_args :: "env \<Rightarrow> args \<Rightarrow> tool_error + addpkg_request" where
  "addpkg_args e a =
     bindS (keyArg e a) (\<lambda>key.
     bindS (arg e StringArg a ''deploy_path'') (\<lambda>path.
     if path = [] then Inl (PlainError ''deploy_path: required'') else
     bindS (arg e BoolArg a ''simulate'') (\<lambda>simulate.
     bindS (case toMemFiles (a ''files'') of Inl x \<Rightarrow> Inl (PlainError (''files: '' @ x)) | Inr fs \<Rightarrow> Inr fs) (\<lambda>files.
     if shortName path \<and> hasGnoMod files then
       Inl (PlainError (''deploy_path '' @ en_quote e path @ '': a short package name cannot be combined with a caller-supplied gnomod.toml'' @ dash @
            ''pass the full package path, or omit gnomod.toml to have it generated''))
     else Inr \<lparr>aq_key = key, aq_path = path, aq_simulate = simulate, aq_files = files\<rparr>))))"

definition inject_gnomod :: "env \<Rightarrow> string \<Rightarrow> mem_file list \<Rightarrow> mem_file list" where
  "inject_gnomod e path files =
     sort_files (if hasGnoMod files then files else files @ [(gnomod_name, en_gnomod e path)])"

definition addpkg_summary :: "string \<Rightarrow> nat \<Rightarrow> bool \<Rightarrow> string" where
  "addpkg_summary path n simulate =
     ''deploy_path='' @ path @ '' files='' @ show_nat n @ '' simulate='' @ (if simulate then ''true'' else ''false'')"

definition expand_path :: "string \<Rightarrow> string \<Rightarrow> string" where
  "expand_path addr path = (if shortName path then ''gno.land/r/'' @ addr @ ''/'' @ path else path)"

definition expand_files :: "env \<Rightarrow> string \<Rightarrow> string \<Rightarrow> mem_file list \<Rightarrow> mem_file list" where
  "expand_files e addr path files =
     (if shortName path then set_gnomod (en_gnomod e (expand_path addr path)) files else files)"

text \<open>The audit result of a landed or simulated deploy; \<open>status\<close> is empty on a dry run.\<close>

definition addpkg_audit :: "vm_consts \<Rightarrow> bool \<Rightarrow> string \<Rightarrow> string" where
  "addpkg_audit v simulate status =
     (if simulate then ''sim''
      else if status = vc_Inert v \<or> status = packageStatusRedeployParked then ''parked''
      else if status = packageStatusUnknown then ''status_unknown''
      else ''ok'')"

definition writeReason :: "env \<Rightarrow> string \<Rightarrow> string \<Rightarrow> string" where
  "writeReason e reason path =
     (if reason \<noteq> [] then ''Reason:'' @ nl @ Wrap (en_quote e) reason ''package_reason'' path @ nl else [])"

text \<open>What the caller should do next; empty when there is nothing to add.\<close>

definition addpkg_next :: "vm_consts \<Rightarrow> bool \<Rightarrow> bool \<Rightarrow> string \<Rightarrow> string" where
  "addpkg_next v simulate inert status =
     (if status = vc_Inert v then
        NextSteps @ '' Until it is enabled, every read and call answers it like a package that was never deployed; gno_read on the path reports package_parked while it waits.''
      else if status = packageStatusRedeployParked then
        ''Reads and calls still reach the previous version. A reason saying this submission can never be enabled is final. '' @ NextSteps
      else if status = packageStatusUnknown then
        ''The chain did not report the package as live or parked; this chain parks deploys until an approver enables them, so read the path with gno_read before calling it.''
      else if simulate \<and> inert then
        ''This chain parks deploys (code submission policy inert) without type-checking them, so this simulation did not type-check the code: lint it against the chain's release before deploying.''
      else [])"

definition addpkg_text :: "env \<Rightarrow> Profile \<Rightarrow> string \<Rightarrow> string \<Rightarrow> bool \<Rightarrow> bool \<Rightarrow> string \<Rightarrow> string \<Rightarrow> string \<Rightarrow> tx_result \<Rightarrow> string" where
  "addpkg_text e p addr path simulate inert status reason viewURL res =
     (let v = en_vm e; nextSteps = addpkg_next v simulate inert status in
     signedByLine ''agent'' addr [] (IsLocal p) @ nl @ nl @
     (if tr_Simulated res then ''AddPackage simulated (no broadcast)''
      else if status = vc_Inert v then ''AddPackage submitted: PARKED, not live''
      else if status = packageStatusRedeployParked then ''AddPackage submitted: redeploy PARKED; the previous version is still live''
      else if status = packageStatusUnknown then ''AddPackage submitted: status unknown''
      else ''AddPackage succeeded'') @ nl @
     (if tr_Simulated res then [] else ''TxHash:  '' @ tr_TxHash res @ nl @ ''Height:  '' @ show_int (tr_Height res) @ nl) @
     ''GasUsed: '' @ show_int (tr_GasUsed res) @ nl @
     (if simulate then [CHR ''('' ] @ ''simulate=true'' @ dash @ ''transaction was not broadcast)'' @ nl @
        (if inert then ''This chain parks deploys (code submission policy inert) without type-checking them, so this simulation did not type-check the code: lint it against the chain's release before deploying.'' @ nl else [])
      else []) @
     (if status = vc_Live v then (if inert then ''Package: live, enabled by the chain's package approver'' else ''Package: live'') @ nl
      else if status = vc_Inert v then
        ''Package: parked. The chain accepted the deploy and had not enabled it after '' @ en_duration_text e parkWaitTimeout @ ''.'' @ nl @
        writeReason e reason path @ nextSteps @ nl
      else if status = packageStatusRedeployParked then
        ''Package: the chain accepted this redeploy and had not enabled it after '' @ en_duration_text e parkWaitTimeout @ ''.'' @ nl @
        writeReason e reason path @ nextSteps @ nl
      else if status = packageStatusUnknown then ''Package: status unknown. '' @ nextSteps @ nl
      else []) @
     (if viewURL \<noteq> [] then ''View:    '' @ viewURL @ nl else []))"

definition addpkg_fields ::
  "env \<Rightarrow> string \<Rightarrow> string \<Rightarrow> bool \<Rightarrow> bool \<Rightarrow> string \<Rightarrow> string \<Rightarrow> string \<Rightarrow> tx_result \<Rightarrow> (string \<times> json) list" where
  "addpkg_fields e addr policy simulate inert status reason viewURL res =
     [(''identity'', JStr ''agent''), (''signer_address'', JStr addr), (''tx_hash'', JStr (tr_TxHash res)),
      (''height'', JInt (tr_Height res)), (''gas_used'', JInt (tr_GasUsed res)), (''simulated'', JBool (tr_Simulated res))] @
     (if viewURL \<noteq> [] then [(''gnoweb_url'', JStr viewURL)] else []) @
     (if inert then [(''code_submission_policy'', JStr policy)] else []) @
     (if status \<noteq> [] then [(''package_status'', JStr status)] else []) @
     (if reason \<noteq> [] \<and> (status = vc_Inert (en_vm e) \<or> status = packageStatusRedeployParked) then [(''package_reason'', JStr reason)] else []) @
     (let n = addpkg_next (en_vm e) simulate inert status in if n \<noteq> [] then [(''next_steps'', JStr n)] else [])"


text \<open>
  The body returns \<open>None\<close> when the wait does not end. Every step before the broadcast is in the order
  of the code: the policy is read, the signer acquired, the path expanded, the deploy simulated.
\<close>

definition addpkg_broadcast ::
  "env \<Rightarrow> client \<Rightarrow> parkWait \<Rightarrow> Profile \<Rightarrow> string \<Rightarrow> agent_signer \<Rightarrow> string \<Rightarrow> string \<Rightarrow> mem_file list \<Rightarrow> bool \<Rightarrow> audit_entry \<Rightarrow> world \<Rightarrow>
   tool_result tool_body option" where
  "addpkg_broadcast e c wt p policy sg addr path files simulate entry w =
     (let v = en_vm e; inert = (policy = vc_PolicyInert v) in
      case run_rpc (AddPackage (cl_node c) (en_lib e) (Some sg) path files simulate) w of
        (w1, Inl err) \<Rightarrow>
          Some (if simulate then (w1, entry\<lparr>ae_Result := ''sim_err''\<rparr>, Inl (withCLAHint e ''gno_addpkg simulate'' err))
                else (w1, entry\<lparr>ae_Result := ''broadcast_err''\<rparr>, Inl (withCLAHint e ''gno_addpkg broadcast'' err)))
      | (w1, Inr res) \<Rightarrow>
          (let finish = (\<lambda>w2 status reason.
                 let viewURL = (if status = vc_Live v then RealmViewURL (en_url e) (en_ip e) p path else [])
                 in (w2, entry\<lparr>ae_Result := addpkg_audit v simulate status\<rparr>,
                     Inr (attachGnokeyCmd
                            (text_result (addpkg_text e p addr path simulate inert status reason viewURL res)
                               (addpkg_fields e addr policy simulate inert status reason viewURL res))
                            (GnokeyCmd_String ((gnokey_base ''addpkg'' p addr [] simulate (tr_GasFeeUgnot res) (tr_GasWanted res))
                               \<lparr>gk_PkgPath := path, gk_MaxDeposit := show_int DefaultMaxDepositUgnot @ ''ugnot''\<rparr>)))))
           in if tr_Simulated res then Some (finish w1 [] [])
              else if inert then
                (case waitLive e c path wt (wo_rpc w1) of
                   None \<Rightarrow> None
                 | Some (h, r) \<Rightarrow> Some (finish (w1\<lparr>wo_rpc := h\<rparr>) (deployStatus v r) (case r of Inl _ \<Rightarrow> [] | Inr m \<Rightarrow> pm_Reason m)))
              else Some (finish w1 (vc_Live v) [])))"

definition addpkg_body :: "env \<Rightarrow> parkWait \<Rightarrow> args \<Rightarrow> world \<Rightarrow> tool_result tool_body option" where
  "addpkg_body e wt a w =
     (let entry = denial ''gno_addpkg'' in
      case requireProfile e a of
        Inl err \<Rightarrow> Some (w, entry, Inl err)
      | Inr (profileName, p) \<Rightarrow>
     (let entry = entry\<lparr>ae_Profile := profileName\<rparr> in
      case addpkg_args e a of
        Inl err \<Rightarrow> Some (w, entry, Inl err)
      | Inr q \<Rightarrow>
     (case en_resolver e profileName of
        None \<Rightarrow> Some (w, entry, Inl (no_client e profileName))
      | Some c \<Rightarrow>
     (let files = inject_gnomod e (aq_path q) (aq_files q);
          entry = entry\<lparr>ae_ArgsSummary := addpkg_summary (aq_path q) (length files) (aq_simulate q)\<rparr> in
      case run_rpc (SubmissionPolicy (cl_node c) (en_lib e)) w of
        (w1, Inl err) \<Rightarrow>
          Some (w1, entry, Inl (PlainError (''gno_addpkg: read the chain's code submission policy (nothing signed): '' @ en_chain_text e err)))
      | (w1, Inr policy) \<Rightarrow>
     (case acquireAgentSigner e c w1 ''gno_addpkg'' ''run gno_key_generate to create one'' profileName (aq_key q) p (aq_simulate q) of
        Inl err \<Rightarrow> Some (w1, entry, Inl err)
      | Inr (sg, addr) \<Rightarrow>
     (let path = expand_path addr (aq_path q); fs = expand_files e addr (aq_path q) files;
          entry = entry\<lparr>ae_ArgsSummary := addpkg_summary path (length files) (aq_simulate q)\<rparr> in
      if aq_simulate q then addpkg_broadcast e c wt p policy sg addr path fs True entry w1
      else case run_rpc (AddPackage (cl_node c) (en_lib e) (Some sg) path fs True) w1 of
             (w2, Inl err) \<Rightarrow>
               Some (w2, entry\<lparr>ae_Result := ''validate_err''\<rparr>, Inl (withCLAHint e ''gno_addpkg validation (no gas spent)'' err))
           | (w2, Inr _) \<Rightarrow> addpkg_broadcast e c wt p policy sg addr path fs False entry w2))))))"

definition addpkgHandler :: "env \<Rightarrow> world handler" where
  "addpkgHandler e = self_audited (\<lambda>a w. the (addpkg_body e production_wait a w))"

subsection \<open>The agreement tools\<close>

definition claDisabledMarker :: string where "claDisabledMarker = ''CLA enforcement is currently DISABLED''"

text \<open>
  \<open>render\<close> is the realm's answer, \<open>findHash\<close> and \<open>findURL\<close> the first groups of the two regular expressions (theory \<open>Clapage\<close>).
  The handler sends one query.
\<close>

definition claInfoHandler ::
  "env \<Rightarrow> (string \<Rightarrow> string + string) \<Rightarrow> (string \<Rightarrow> string option) \<Rightarrow> (string \<Rightarrow> string option) \<Rightarrow> args \<Rightarrow> tool_error + tool_result" where
  "claInfoHandler e render findHash findURL a =
     (case requireProfile e a of
        Inl err \<Rightarrow> Inl err
      | Inr (profileName, p) \<Rightarrow>
     (case en_resolver e profileName of
        None \<Rightarrow> Inl (no_client e profileName)
      | Some c \<Rightarrow>
     (case render profileName of
        Inl x \<Rightarrow> Inl (PlainError (''gno_cla_info: render '' @ claRealm @ '': '' @ x))
      | Inr rendered \<Rightarrow>
          if Contains rendered claDisabledMarker then
            Inr (text_result (''CLA enforcement is disabled on '' @ claRealm @ dash @ ''no signature is required to deploy.'' @ nl)
                   [(''enabled'', JBool False)])
          else
            (let hash = (case findHash rendered of Some x \<Rightarrow> x | None \<Rightarrow> []);
                 url = (case findURL rendered of Some x \<Rightarrow> x | None \<Rightarrow> [])
             in if hash = [] then
                  Inl (ToolError ''cla_hash_not_found''
                        (''could not extract the required CLA hash from '' @ claRealm @ dash @ ''the realm format may have changed'')
                        [(''realm'', JStr claRealm)])
                else
                  Inr (text_result
                    (''CLA information fetched from '' @ claRealm @ nl @ nl @ ''Required Hash: '' @ hash @ nl @
                     (if url \<noteq> [] then ''CLA document URL (realm-reported):'' @ nl @ Wrap (en_quote e) url ''cla_url'' claRealm @ nl @ nl else []) @
                     ''ACTION REQUIRED: Show the CLA URL to the user and ask for their explicit confirmation before signing with gno_cla_sign and the hash above.'' @ nl)
                    [(''enabled'', JBool True), (''hash'', JStr hash), (''cla_url'', JStr url),
                     (''action_required'', JStr ''Show this URL to the user and ask for confirmation before signing with gno_cla_sign'')])))))"

definition cla_sign_body :: "env \<Rightarrow> args \<Rightarrow> world \<Rightarrow> tool_result tool_body" where
  "cla_sign_body e a w =
     (let entry = denial ''gno_cla_sign'' in
      case requireProfile e a of
        Inl err \<Rightarrow> (w, entry, Inl err)
      | Inr (profileName, p) \<Rightarrow>
     (let entry = entry\<lparr>ae_Profile := profileName\<rparr> in
      case arg e StringArg a ''hash'' of
        Inl err \<Rightarrow> (w, entry, Inl err)
      | Inr hash \<Rightarrow>
          if hash = [] then
            (w, entry, Inl (ToolError ''hash_required''
               (''hash is required'' @ dash @ ''call gno_cla_info first to obtain the current CLA hash and the agreement URL, show the URL to the user, then sign with that hash'') []))
          else
     (let entry = entry\<lparr>ae_ArgsSummary := ''hash='' @ hash\<rparr> in
      case keyArg e a of
        Inl err \<Rightarrow> (w, entry, Inl err)
      | Inr key \<Rightarrow>
     (case en_resolver e profileName of
        None \<Rightarrow> (w, entry, Inl (no_client e profileName))
      | Some c \<Rightarrow>
     (case acquireAgentSigner e c w ''gno_cla_sign'' ''run gno_key_generate first, then gno_faucet_fund'' profileName key p False of
        Inl err \<Rightarrow> (w, entry, Inl err)
      | Inr (sg, addr) \<Rightarrow>
     (case run_rpc (Call (cl_node c) (en_lib e) (Some sg) claRealm ''Sign'' [hash] [] False) w of
        (w1, Inl err) \<Rightarrow> (w1, entry\<lparr>ae_Result := ''broadcast_err''\<rparr>, Inl (PlainError (''gno_cla_sign broadcast: '' @ en_chain_text e err)))
      | (w1, Inr cr) \<Rightarrow>
          (w1, entry\<lparr>ae_Result := ''ok''\<rparr>,
           Inr (text_result
             (signedByLine ''agent'' addr [] (IsLocal p) @ nl @ nl @ ''CLA signed successfully'' @ nl @ nl @
              ''TxHash:      '' @ tr_TxHash cr @ nl @ ''Height:      '' @ show_int (tr_Height cr) @ nl @
              ''GasUsed:     '' @ show_int (tr_GasUsed cr) @ nl @ ''Hash signed: '' @ hash @ nl)
             [(''identity'', JStr ''agent''), (''tx_hash'', JStr (tr_TxHash cr)), (''height'', JInt (tr_Height cr)),
              (''gas_used'', JInt (tr_GasUsed cr)), (''signer_address'', JStr addr), (''hash_signed'', JStr hash)]))))))))"

definition claSignHandler :: "env \<Rightarrow> world handler" where
  "claSignHandler e = self_audited (cla_sign_body e)"


subsection \<open>The wait ends\<close>

lemma QueryPackageMeta_one:
  assumes "QueryPackageMeta nd l path h = (h1, r)"
  shows "h1 = h @ [EvQuery ''vm/qpkgmeta_json'' path]"
  using assms by (auto simp: QueryPackageMeta_def query_def request_def bindE_def lift_sum_def split: sum.splits)

definition answered :: "env \<Rightarrow> client \<Rightarrow> string \<Rightarrow> PackageMeta \<Rightarrow> bool" where
  "answered e c path m \<longleftrightarrow> (\<exists>h. snd (QueryPackageMeta (cl_node c) (en_lib e) path h) = Inr m)"

text \<open>
  What a wait of at most \<open>Suc n\<close> polls returns: only queries were sent, and the outcome is an answer of
  the chain (a live one whenever the wait ended early of itself) or an error when it gave none.
\<close>

definition wait_result ::
  "env \<Rightarrow> client \<Rightarrow> string \<Rightarrow> PackageMeta option \<Rightarrow> event list \<Rightarrow> nat \<Rightarrow> (event list \<times> (chain_error + PackageMeta)) option \<Rightarrow> bool" where
  "wait_result e c path lastMeta h n out \<longleftrightarrow>
     (\<exists>h' r. out = Some (h', r) \<and> grows h h' \<and> writes h h' = [] \<and> length h < length h' \<and> length h' \<le> length h + Suc n \<and>
        (isl r \<longrightarrow> lastMeta = None) \<and> (\<forall>m. r = Inr m \<longrightarrow> answered e c path m \<or> lastMeta = Some m))"

lemma wait_result_step:
  assumes "QueryPackageMeta (cl_node c) (en_lib e) path h = (h1, r)"
    and "wait_result e c path lm h1 n out" "lm = (case r of Inl _ \<Rightarrow> lastMeta | Inr m \<Rightarrow> Some m)"
  shows "wait_result e c path lastMeta h (Suc n) out"
proof -
  have h1: "h1 = h @ [EvQuery ''vm/qpkgmeta_json'' path]" by (rule QueryPackageMeta_one [OF assms(1)])
  obtain h' r' where o: "out = Some (h', r')" "grows h1 h'" "writes h1 h' = []" "length h1 < length h'" "length h' \<le> length h1 + Suc n"
      "isl r' \<longrightarrow> lm = None" "\<forall>m. r' = Inr m \<longrightarrow> answered e c path m \<or> lm = Some m"
    using assms(2) unfolding wait_result_def by blast
  have g: "grows h h1" "writes h h1 = []" by (simp_all add: h1 grows_def writes_def)
  have a: "r = Inr m \<Longrightarrow> answered e c path m" for m
    using assms(1) by (auto simp: answered_def intro!: exI [of _ h])
  have "grows h h'" "writes h h' = []" using grows_trans [OF g(1) o(2)] writes_append [OF g(1) o(2)] g(2) o(3) by simp_all
  moreover have "isl r' \<longrightarrow> lastMeta = None" using o(6) assms(3) by (cases r) auto
  moreover have "\<forall>m. r' = Inr m \<longrightarrow> answered e c path m \<or> lastMeta = Some m" using o(7) assms(3) a by (cases r) auto
  ultimately show ?thesis unfolding wait_result_def o(1) using o(4,5) h1 by auto
qed

lemma wait_result_stop:
  assumes "QueryPackageMeta (cl_node c) (en_lib e) path h = (h1, r)"
    and "r' = (case r of Inl err \<Rightarrow> settle lastMeta err | Inr m \<Rightarrow> Inr m)"
  shows "wait_result e c path lastMeta h n (Some (h1, r'))"
proof -
  have h1: "h1 = h @ [EvQuery ''vm/qpkgmeta_json'' path]" by (rule QueryPackageMeta_one [OF assms(1)])
  have "r = Inr m \<Longrightarrow> answered e c path m" for m
    using assms(1) by (auto simp: answered_def intro!: exI [of _ h])
  then show ?thesis
    using h1 assms(2) by (auto simp: wait_result_def grows_def writes_def settle_def split: sum.splits option.splits)
qed

lemma wait_loop_returns:
  "0 < interval \<Longrightarrow> deadline - now \<le> int n * interval \<Longrightarrow>
   wait_result e c path lastMeta h n (wait_loop e c path interval deadline i now lastMeta h)"
proof (induction n arbitrary: i now lastMeta h)
  case 0
  obtain h1 r where q: "QueryPackageMeta (cl_node c) (en_lib e) path h = (h1, r)" by force
  have "deadline - (now + int (en_poll_time e i)) \<le> 0" using 0 by simp
  then show ?case using wait_result_stop [OF q refl, of lastMeta 0]
    by (cases r) (simp_all add: wait_loop.simps [of e c path interval deadline i now lastMeta h] q Let_def)
next
  case (Suc n)
  obtain h1 r where q: "QueryPackageMeta (cl_node c) (en_lib e) path h = (h1, r)" by force
  let ?t = "now + int (en_poll_time e i)" let ?left = "deadline - ?t"
  let ?now = "?t + min interval ?left + int (en_oversleep e i)"
  have stop: "wait_result e c path lastMeta h (Suc n) (Some (h1, case r of Inl err \<Rightarrow> settle lastMeta err | Inr m \<Rightarrow> Inr m))"
    by (rule wait_result_stop [OF q refl])
  have go: "wait_result e c path lastMeta h (Suc n) (wait_loop e c path interval deadline (Suc i) ?now lm h1)"
    if "0 < ?left" "lm = (case r of Inl _ \<Rightarrow> lastMeta | Inr m \<Rightarrow> Some m)" for lm
  proof (rule wait_result_step [OF q _ that(2)], rule Suc.IH [OF Suc.prems(1)])
    have "?left \<le> int n * interval + interval" using Suc.prems(2) by (simp add: algebra_simps)
    moreover have "0 \<le> int n * interval" using Suc.prems(1) by simp
    moreover have "min interval ?left = interval \<or> min interval ?left = ?left" by (simp add: min_def)
    ultimately show "deadline - ?now \<le> int n * interval" by (elim disjE) linarith+
  qed
  show ?case using stop go
    by (cases r) (simp_all add: wait_loop.simps [of e c path interval deadline i now lastMeta h] q Let_def)
qed

lemma waitLive_production: "wait_result e c path None h 15 (waitLive e c path production_wait h)"
  unfolding waitLive_def
  by (rule wait_loop_returns) (simp_all add: production_wait_def parkPollInterval_def parkWaitTimeout_def nsecond_def)

text \<open>
  C31. The wait for a parked package ends. However slow the polls, however late the sleeps and
  whatever the chain answers, the wait of gno\_addpkg returns after at most 16 polls, has sent nothing
  but queries, and returns an answer the chain gave for that path, or an error when it gave none; in
  general a wait with a positive interval returns after at most one poll more than its timeout has
  intervals, counting a started one.
\<close>

theorem waitLive_returns:
  assumes "0 < pw_interval wt" "pw_timeout wt \<le> int n * pw_interval wt"
  shows "\<exists>h' r. waitLive e c path wt h = Some (h', r) \<and> length h' \<le> length h + Suc n \<and> writes h h' = [] \<and>
      (isl r \<or> (\<exists>m. r = Inr m \<and> answered e c path m)) \<and>
    (\<exists>h' r. waitLive e c path production_wait h = Some (h', r) \<and> length h' \<le> length h + 16)"
proof -
  have "wait_result e c path None h n (waitLive e c path wt h)"
    unfolding waitLive_def by (rule wait_loop_returns) (use assms in simp_all)
  then obtain h' r where w: "waitLive e c path wt h = Some (h', r)" "length h' \<le> length h + Suc n" "writes h h' = []"
      "\<forall>m. r = Inr m \<longrightarrow> answered e c path m \<or> None = Some m" unfolding wait_result_def by blast
  have "isl r \<or> (\<exists>m. r = Inr m \<and> answered e c path m)" using w(4) by (cases r) auto
  moreover obtain h2 r2 where "waitLive e c path production_wait h = Some (h2, r2)" "length h2 \<le> length h + Suc 15"
    using waitLive_production [of e c path h] unfolding wait_result_def by blast
  ultimately show ?thesis using w(1-3) by simp
qed


lemma waitLive_returns_witness:
  "\<exists>h' r. waitLive demo_env demo_client ''r/a'' \<lparr>pw_timeout = 5, pw_interval = 2\<rparr> [] = Some (h', r) \<and> length h' \<le> 4"
  using waitLive_returns [of "\<lparr>pw_timeout = 5, pw_interval = 2\<rparr>" 3 demo_env demo_client "''r/a''" "[]"] by auto

subsection \<open>What a deploy commits\<close>

definition addpkg_tx :: "agent_signer \<Rightarrow> string \<Rightarrow> mem_file list \<Rightarrow> event \<Rightarrow> bool" where
  "addpkg_tx sg path files ev \<longleftrightarrow>
     agent_tx_of (Some sg) (\<lambda>a. MsgAddPackage a path (sort_files files) [(ugnot_denom, DefaultMaxDepositUgnot)]) ev"

lemma addpkg_commits: "commits simulate (addpkg_tx sg path files) (AddPackage nd l (Some sg) path files simulate)"
  unfolding addpkg_tx_def
  by (rule commits_cases) (simp_all add: quiet_simulations AddPackage_one_write success_commits_writes)

text \<open>The record, the result and the requests of a deploy agree.\<close>

definition deploy_true ::
  "env \<Rightarrow> client \<Rightarrow> string \<Rightarrow> (event \<Rightarrow> bool) \<Rightarrow> event list \<Rightarrow> string \<Rightarrow> bool \<Rightarrow> event list \<Rightarrow> string \<Rightarrow> bool" where
  "deploy_true e c path Q h audit failed h' policy \<longleftrightarrow>
     grows h h' \<and> (failed \<longleftrightarrow> audit \<notin> {''ok'', ''sim'', ''parked'', ''status_unknown''}) \<and>
     (audit \<in> {''tool_err'', ''validate_err'', ''sim_err'', ''sim''} \<longrightarrow> writes h h' = []) \<and>
     (audit \<in> {''ok'', ''parked'', ''status_unknown''} \<longrightarrow> writes h h' \<noteq> []) \<and>
     (writes h h' = [] \<or> (\<exists>ev. writes h h' = [ev] \<and> Q ev)) \<and>
     (audit = ''ok'' \<longrightarrow> policy \<noteq> vc_PolicyInert (en_vm e) \<or> (\<exists>m. answered e c path m \<and> Live (en_vm e) m))"

lemma deploy_true_quiet:
  assumes "grows h h1" "writes h h1 = []" "audit \<in> {''tool_err'', ''validate_err'', ''sim_err''}"
  shows "deploy_true e c path Q h audit True h1 policy"
  using assms by (auto simp: deploy_true_def)

lemma AddPackage_simulated: "AddPackage nd l sgo path files s h = (h', Inr res) \<Longrightarrow> tr_Simulated res = s"
  by (auto simp: AddPackage_def agent_deliver_def bindE_Inr request_Inr Let_def split: if_splits)

lemma addpkg_audit_cases:
  "addpkg_audit v False x = ''ok'' \<Longrightarrow> x \<noteq> vc_Inert v \<and> x \<noteq> packageStatusRedeployParked \<and> x \<noteq> packageStatusUnknown"
  by (simp add: addpkg_audit_def split: if_splits)

lemma deployStatus_ok:
  assumes "addpkg_audit v False (deployStatus v r) = ''ok''"
  shows "\<exists>m. r = Inr m \<and> Live v m"
proof (cases r)
  case (Inl err)
  then show ?thesis using addpkg_audit_cases [OF assms] by (simp add: deployStatus_def)
next
  case (Inr m)
  then show ?thesis using addpkg_audit_cases [OF assms] by (simp add: deployStatus_def split: if_splits)
qed

definition deploy_step ::
  "env \<Rightarrow> client \<Rightarrow> string \<Rightarrow> (event \<Rightarrow> bool) \<Rightarrow> event list \<Rightarrow> world \<Rightarrow> audit_entry \<Rightarrow> string \<Rightarrow> tool_result tool_body option \<Rightarrow> bool" where
  "deploy_step e c path Q h0 w entry policy out \<longleftrightarrow>
     (\<exists>h' audit res. out = Some (w\<lparr>wo_rpc := h'\<rparr>, entry\<lparr>ae_Result := audit\<rparr>, res) \<and>
        deploy_true e c path Q h0 audit (isl res) h' policy)"

lemma deploy_stepI:
  "deploy_true e c path Q h0 audit (isl res) h' policy \<Longrightarrow>
   deploy_step e c path Q h0 w entry policy (Some (w\<lparr>wo_rpc := h'\<rparr>, entry\<lparr>ae_Result := audit\<rparr>, res))"
  unfolding deploy_step_def by blast

lemma addpkg_broadcast_true:
  assumes g: "grows h0 (wo_rpc w)" "writes h0 (wo_rpc w) = []"
    and q: "\<And>ev. \<not> simulate \<Longrightarrow> addpkg_tx sg path files ev \<Longrightarrow> Q ev"
  shows "deploy_step e c path Q h0 w entry policy (addpkg_broadcast e c production_wait p policy sg addr path files simulate entry w)"
proof -
  obtain h1 r where a: "AddPackage (cl_node c) (en_lib e) (Some sg) path files simulate (wo_rpc w) = (h1, r)" by force
  have c: "grows (wo_rpc w) h1" "writes (wo_rpc w) h1 = [] \<or> (\<exists>ev. writes (wo_rpc w) h1 = [ev] \<and> \<not> simulate \<and> addpkg_tx sg path files ev)"
      "\<not> simulate \<and> \<not> isl r \<Longrightarrow> writes (wo_rpc w) h1 \<noteq> []"
    using addpkg_commits [of simulate sg path files "cl_node c" "en_lib e"] a unfolding commits_def by blast+
  have g1: "grows h0 h1" "writes h0 h1 = writes (wo_rpc w) h1"
    using grows_trans [OF g(1) c(1)] writes_append [OF g(1) c(1)] g(2) by simp_all
  have sim: "r = Inr res \<Longrightarrow> tr_Simulated res = simulate" for res
    using AddPackage_simulated a by blast
  have W: "writes h0 h1 = [] \<or> (\<exists>ev. writes h0 h1 = [ev] \<and> Q ev)" using c(2) q g1(2) by auto
  note def = addpkg_broadcast_def run_rpc_def Let_def
  show ?thesis
  proof (cases r)
    case (Inl err)
    show ?thesis
    proof (cases simulate)
      case True
      then have "deploy_true e c path Q h0 ''sim_err'' True h1 policy"
        using g1 c(2) by (intro deploy_true_quiet) auto
      with True a Inl show ?thesis by (simp add: def deploy_stepI)
    next
      case False
      then have "deploy_true e c path Q h0 ''broadcast_err'' True h1 policy" using g1 W by (simp add: deploy_true_def)
      with False a Inl show ?thesis by (simp add: def deploy_stepI)
    qed
  next
    case (Inr res)
    show ?thesis
    proof (cases simulate)
      case True
      then have "tr_Simulated res" "writes h0 h1 = []" using sim [OF Inr] c(2) g1 by auto
      moreover from this have "deploy_true e c path Q h0 (addpkg_audit (en_vm e) True []) False h1 policy"
        using g1(1) by (simp add: deploy_true_def addpkg_audit_def)
      ultimately show ?thesis using True a Inr by (simp add: def deploy_stepI)
    next
      case False
      then have ns: "\<not> tr_Simulated res" and ne: "writes h0 h1 \<noteq> []" using sim [OF Inr] Inr c(3) g1 by auto
      have rng: "addpkg_audit (en_vm e) False x \<in> {''ok'', ''parked'', ''status_unknown''}" for x by (simp add: addpkg_audit_def)
      show ?thesis
      proof (cases "policy = vc_PolicyInert (en_vm e)")
        case True
        obtain h2 st where w2: "waitLive e c path production_wait h1 = Some (h2, st)" "grows h1 h2" "writes h1 h2 = []"
            "\<forall>m. st = Inr m \<longrightarrow> answered e c path m"
          using waitLive_production [of e c path h1] unfolding wait_result_def by auto
        have g2: "grows h0 h2" "writes h0 h2 = writes h0 h1"
          using grows_trans [OF g1(1) w2(2)] writes_append [OF g1(1) w2(2)] w2(3) by simp_all
        have ok: "addpkg_audit (en_vm e) False (deployStatus (en_vm e) st) = ''ok'' \<Longrightarrow> \<exists>m. answered e c path m \<and> Live (en_vm e) m"
          using w2(4) deployStatus_ok [of "en_vm e" st] by blast
        have "deploy_true e c path Q h0 (addpkg_audit (en_vm e) False (deployStatus (en_vm e) st)) False h2 policy"
          unfolding deploy_true_def using g2 ne W ok rng [of "deployStatus (en_vm e) st"] by auto
        then show ?thesis using a Inr ns w2(1) True False by (simp add: def deploy_stepI)
      next
        case npi: False
        have "deploy_true e c path Q h0 (addpkg_audit (en_vm e) False (vc_Live (en_vm e))) False h1 policy"
          unfolding deploy_true_def using g1 ne W npi rng [of "vc_Live (en_vm e)"] by auto
        then show ?thesis using a Inr ns npi False by (simp add: def deploy_stepI)
      qed
    qed
  qed
qed


text \<open>What a deploy's arguments stand for: the signer, the full path and the files with their module file.\<close>

definition addpkg_setup :: "env \<Rightarrow> args \<Rightarrow> world \<Rightarrow> client \<Rightarrow> agent_signer \<Rightarrow> bool \<Rightarrow> string \<Rightarrow> mem_file list \<Rightarrow> bool" where
  "addpkg_setup e a w c sg simulate path files \<longleftrightarrow>
     (\<exists>profileName p q addr. requireProfile e a = Inr (profileName, p) \<and> addpkg_args e a = Inr q \<and> en_resolver e profileName = Some c \<and>
        agentSigner e (wo_keys w) ''gno_addpkg'' ''run gno_key_generate to create one'' profileName (aq_key q) p = Inr (sg, addr) \<and>
        simulate = aq_simulate q \<and> path = expand_path addr (aq_path q) \<and>
        files = expand_files e addr (aq_path q) (inject_gnomod e (aq_path q) (aq_files q)))"

definition addpkg_committed :: "env \<Rightarrow> args \<Rightarrow> world \<Rightarrow> event \<Rightarrow> bool" where
  "addpkg_committed e a w ev \<longleftrightarrow>
     (\<exists>c sg path files h1 h2 r. addpkg_setup e a w c sg False path files \<and>
        AddPackage (cl_node c) (en_lib e) (Some sg) path files True h1 = (h2, Inr r) \<and> addpkg_tx sg path files ev)"

definition callable :: "env \<Rightarrow> args \<Rightarrow> world \<Rightarrow> bool" where
  "callable e a w \<longleftrightarrow>
     (\<exists>c sg path files h policy. addpkg_setup e a w c sg False path files \<and> snd (SubmissionPolicy (cl_node c) (en_lib e) h) = Inr policy \<and>
        (policy \<noteq> vc_PolicyInert (en_vm e) \<or> (\<exists>m. answered e c path m \<and> Live (en_vm e) m)))"

definition addpkg_true :: "env \<Rightarrow> args \<Rightarrow> world \<Rightarrow> world \<times> audit_entry \<times> (tool_error + tool_result) \<Rightarrow> bool" where
  "addpkg_true e a w out \<longleftrightarrow>
     (case out of (w', entry, res) \<Rightarrow>
        ae_Tool entry = ''gno_addpkg'' \<and> w' = w\<lparr>wo_rpc := wo_rpc w'\<rparr> \<and>
        (\<not> isl res \<longleftrightarrow> ae_Result entry \<in> {''ok'', ''sim'', ''parked'', ''status_unknown''}) \<and>
        (ae_Result entry \<in> {''tool_err'', ''validate_err'', ''sim_err'', ''sim''} \<longrightarrow> writes (wo_rpc w) (wo_rpc w') = []) \<and>
        (ae_Result entry \<in> {''ok'', ''parked'', ''status_unknown''} \<longrightarrow> writes (wo_rpc w) (wo_rpc w') \<noteq> []) \<and>
        (writes (wo_rpc w) (wo_rpc w') = [] \<or> (\<exists>ev. writes (wo_rpc w) (wo_rpc w') = [ev] \<and> addpkg_committed e a w ev)) \<and>
        (ae_Result entry = ''ok'' \<longrightarrow> callable e a w))"

lemma addpkg_true_quiet:
  "ae_Tool entry = ''gno_addpkg'' \<Longrightarrow> ae_Result entry \<in> {''tool_err'', ''validate_err''} \<Longrightarrow> writes (wo_rpc w) h = [] \<Longrightarrow>
   addpkg_true e a w (w\<lparr>wo_rpc := h\<rparr>, entry, Inl err)"
  by (auto simp: addpkg_true_def)

lemma addpkg_true_deploy:
  assumes "deploy_step e c path (addpkg_committed e a w) (wo_rpc w) (w\<lparr>wo_rpc := h\<rparr>) entry policy out"
    and "ae_Tool entry = ''gno_addpkg''"
    and "addpkg_setup e a w c sg simulate path files" "snd (SubmissionPolicy (cl_node c) (en_lib e) h0) = Inr policy"
    and "simulate \<Longrightarrow> \<forall>w' entry res. out = Some (w', entry, res) \<longrightarrow> ae_Result entry \<noteq> ''ok''"
  shows "\<exists>x. out = Some x \<and> addpkg_true e a w x"
proof -
  obtain h' audit res where o: "out = Some (w\<lparr>wo_rpc := h'\<rparr>, entry\<lparr>ae_Result := audit\<rparr>, res)"
      "deploy_true e c path (addpkg_committed e a w) (wo_rpc w) audit (isl res) h' policy"
    using assms(1) unfolding deploy_step_def by auto
  have live: "audit = ''ok'' \<Longrightarrow> callable e a w"
  proof -
    assume ok: "audit = ''ok''"
    then have "\<not> simulate" using assms(5) o(1) by auto
    then have "addpkg_setup e a w c sg False path files" using assms(3) by simp
    moreover have "policy \<noteq> vc_PolicyInert (en_vm e) \<or> (\<exists>m. answered e c path m \<and> Live (en_vm e) m)"
      using o(2) ok by (simp add: deploy_true_def)
    ultimately show "callable e a w" using assms(4) unfolding callable_def by blast
  qed
  have "addpkg_true e a w (w\<lparr>wo_rpc := h'\<rparr>, entry\<lparr>ae_Result := audit\<rparr>, res)"
    using o(2) live assms(2) unfolding addpkg_true_def deploy_true_def by simp
  with o(1) show ?thesis by blast
qed

lemma addpkg_broadcast_sim:
  "addpkg_broadcast e c wt p policy sg addr path files True entry w = Some (w', entry', res) \<Longrightarrow> ae_Result entry' \<noteq> ''ok''"
  by (auto simp: addpkg_broadcast_def addpkg_audit_def Let_def split: prod.splits sum.splits if_splits option.splits)

lemma addpkg_body_true: "\<exists>x. addpkg_body e production_wait a w = Some x \<and> addpkg_true e a w x"
proof (cases "requireProfile e a")
  case (Inl err)
  then show ?thesis using addpkg_true_quiet [of "denial ''gno_addpkg''" w "wo_rpc w" e a err]
    by (simp add: addpkg_body_def denial_def)
next
  case (Inr np)
  then obtain profileName p where rp: "requireProfile e a = Inr (profileName, p)" by (cases np) auto
  show ?thesis
  proof (cases "addpkg_args e a")
    case (Inl err)
    then show ?thesis using rp addpkg_true_quiet [of "(denial ''gno_addpkg'')\<lparr>ae_Profile := profileName\<rparr>" w "wo_rpc w" e a err]
      by (simp add: addpkg_body_def denial_def)
  next
    case q: (Inr q)
    show ?thesis
    proof (cases "en_resolver e profileName")
      case None
      then show ?thesis
        using rp q addpkg_true_quiet [of "(denial ''gno_addpkg'')\<lparr>ae_Profile := profileName\<rparr>" w "wo_rpc w" e a "no_client e profileName"]
        by (simp add: addpkg_body_def denial_def)
    next
      case c: (Some c)
      obtain h1 pr where sp: "SubmissionPolicy (cl_node c) (en_lib e) (wo_rpc w) = (h1, pr)" by force
      have g1: "grows (wo_rpc w) h1" "writes (wo_rpc w) h1 = []" using quiet_writes [OF quiet_params(1) sp] by simp_all
      let ?files = "inject_gnomod e (aq_path q) (aq_files q)"
      let ?e1 = "(denial ''gno_addpkg'')\<lparr>ae_Profile := profileName, ae_ArgsSummary := addpkg_summary (aq_path q) (length ?files) (aq_simulate q)\<rparr>"
      show ?thesis
      proof (cases pr)
        case (Inl err)
        then show ?thesis using rp q c sp g1(2) addpkg_true_quiet [of ?e1 w h1 e a]
          by (simp add: addpkg_body_def denial_def run_rpc_def Let_def)
      next
        case pol: (Inr policy)
        show ?thesis
        proof (cases "acquireAgentSigner e c (w\<lparr>wo_rpc := h1\<rparr>) ''gno_addpkg'' ''run gno_key_generate to create one'' profileName (aq_key q) p (aq_simulate q)")
          case (Inl err)
          then show ?thesis using rp q c sp pol g1(2) addpkg_true_quiet [of ?e1 w h1 e a]
            by (simp add: addpkg_body_def denial_def run_rpc_def Let_def)
        next
          case (Inr sa)
          then obtain sg addr where ac: "acquireAgentSigner e c (w\<lparr>wo_rpc := h1\<rparr>) ''gno_addpkg'' ''run gno_key_generate to create one'' profileName (aq_key q) p (aq_simulate q) = Inr (sg, addr)"
            by (cases sa) auto
          then have sgn: "agentSigner e (wo_keys w) ''gno_addpkg'' ''run gno_key_generate to create one'' profileName (aq_key q) p = Inr (sg, addr)"
            by (auto dest: acquire_agentSigner)
          let ?path = "expand_path addr (aq_path q)" let ?fs = "expand_files e addr (aq_path q) ?files"
          let ?e2 = "?e1\<lparr>ae_ArgsSummary := addpkg_summary ?path (length ?files) (aq_simulate q)\<rparr>"
          have su: "addpkg_setup e a w c sg (aq_simulate q) ?path ?fs" using rp q c sgn unfolding addpkg_setup_def by blast
          have spol: "snd (SubmissionPolicy (cl_node c) (en_lib e) (wo_rpc w)) = Inr policy" by (simp add: sp pol)
          note finish = addpkg_true_deploy [OF _ _ su spol]
          show ?thesis
          proof (cases "aq_simulate q")
            case True
            have "deploy_step e c ?path (addpkg_committed e a w) (wo_rpc w) (w\<lparr>wo_rpc := h1\<rparr>) ?e2 policy
                (addpkg_broadcast e c production_wait p policy sg addr ?path ?fs True ?e2 (w\<lparr>wo_rpc := h1\<rparr>))"
              using g1 by (intro addpkg_broadcast_true) simp_all
            from finish [OF this] have "\<exists>x. addpkg_broadcast e c production_wait p policy sg addr ?path ?fs True ?e2 (w\<lparr>wo_rpc := h1\<rparr>) = Some x \<and>
                addpkg_true e a w x" using addpkg_broadcast_sim by (fastforce simp: denial_def)
            then show ?thesis
              using rp q c sp pol ac True by (simp add: addpkg_body_def denial_def run_rpc_def Let_def)
          next
            case False
            obtain h2 vr where v: "AddPackage (cl_node c) (en_lib e) (Some sg) ?path ?fs True h1 = (h2, vr)" by force
            have g2: "grows (wo_rpc w) h2" "writes (wo_rpc w) h2 = []"
              using quiet_writes [OF quiet_simulations(5) v] grows_trans [OF g1(1)] writes_append [OF g1(1)] g1(2) by auto
            show ?thesis
            proof (cases vr)
              case (Inl err)
              then show ?thesis using rp q c sp pol ac False v g2(2) addpkg_true_quiet [of "?e2\<lparr>ae_Result := ''validate_err''\<rparr>" w h2 e a]
                by (simp add: addpkg_body_def denial_def run_rpc_def Let_def)
            next
              case vok: (Inr vres)
              have "addpkg_committed e a w ev" if "addpkg_tx sg ?path ?fs ev" for ev
                unfolding addpkg_committed_def
                by (rule exI [of _ c], rule exI [of _ sg], rule exI [of _ ?path], rule exI [of _ ?fs], rule exI [of _ h1], rule exI [of _ h2], rule exI [of _ vres])
                  (use su False v vok that in simp)
              then have "deploy_step e c ?path (addpkg_committed e a w) (wo_rpc w) (w\<lparr>wo_rpc := h2\<rparr>) ?e2 policy
                  (addpkg_broadcast e c production_wait p policy sg addr ?path ?fs False ?e2 (w\<lparr>wo_rpc := h2\<rparr>))"
                using g2 by (intro addpkg_broadcast_true) simp_all
              from finish [OF this] have "\<exists>x. addpkg_broadcast e c production_wait p policy sg addr ?path ?fs False ?e2 (w\<lparr>wo_rpc := h2\<rparr>) = Some x \<and>
                  addpkg_true e a w x" using False by (simp add: denial_def)
              then show ?thesis
                using rp q c sp pol ac False v vok by (simp add: addpkg_body_def denial_def run_rpc_def Let_def)
            qed
          qed
        qed
      qed
    qed
  qed
qed

text \<open>
  C7. The audit record of a deploy tells the truth. Every invocation of gno\_addpkg returns, with
  exactly one record and no key touched. The record says ok, sim, parked or status\_unknown exactly
  when the tool succeeded. Nothing is committed under tool\_err, validate\_err, sim\_err or sim;
  at most one transaction ever is, and it is the requested package (the short path expanded to the
  signer's namespace, the module file generated for that path, the files in order) signed by the
  agent key the arguments name, after the same deploy has passed a simulation. A record that says ok
  means the package is callable: the chain does not park deploys, or it reported the package live.
\<close>

theorem addpkg_audit_truth:
  assumes "addpkgHandler e a w = (w', es, out)"
  shows "\<exists>entry. es = [entry] \<and> ae_Tool entry = ''gno_addpkg'' \<and> wo_keys w' = wo_keys w \<and> wo_mgr w' = wo_mgr w \<and>
     ((\<exists>r. out = Returned r) \<longleftrightarrow> ae_Result entry \<in> {''ok'', ''sim'', ''parked'', ''status_unknown''}) \<and>
     (ae_Result entry \<in> {''tool_err'', ''validate_err'', ''sim_err'', ''sim''} \<longrightarrow> writes (wo_rpc w) (wo_rpc w') = []) \<and>
     (ae_Result entry \<in> {''ok'', ''parked'', ''status_unknown''} \<longrightarrow> writes (wo_rpc w) (wo_rpc w') \<noteq> []) \<and>
     (writes (wo_rpc w) (wo_rpc w') = [] \<or>
      (\<exists>ev. writes (wo_rpc w) (wo_rpc w') = [ev] \<and> addpkg_committed e a w ev)) \<and>
     (ae_Result entry = ''ok'' \<longrightarrow> callable e a w)"
proof -
  obtain entry r where b: "the (addpkg_body e production_wait a w) = (w', entry, r)" "es = [entry]" "(\<exists>x. out = Returned x) \<longleftrightarrow> \<not> isl r"
    using self_audited_outcome [OF assms [unfolded addpkgHandler_def]] by auto
  have t: "addpkg_true e a w (w', entry, r)" using addpkg_body_true [of e a w] b(1) by auto
  then have "w' = w\<lparr>wo_rpc := wo_rpc w'\<rparr>" unfolding addpkg_true_def by simp
  from only_rpc [OF this] show ?thesis
    by (intro exI [of _ entry]) (use b(2,3) t in \<open>simp add: addpkg_true_def\<close>)
qed

subsection \<open>The agreement is signed once\<close>

definition cla_tx :: "agent_signer \<Rightarrow> string \<Rightarrow> event \<Rightarrow> bool" where
  "cla_tx sg hash ev \<longleftrightarrow> agent_tx_of (Some sg) (\<lambda>a. MsgCall a [] claRealm ''Sign'' [hash]) ev"

lemma cla_commits: "commits False (cla_tx sg hash) (Call nd l (Some sg) claRealm ''Sign'' [hash] [] False)"
proof -
  have "cla_tx sg hash = (\<lambda>ev. \<exists>coins. parseSendCoins l [] = Inr coins \<and> agent_tx_of (Some sg) (\<lambda>a. MsgCall a coins claRealm ''Sign'' [hash]) ev)"
    by (simp add: fun_eq_iff cla_tx_def parseSendCoins_def)
  then show ?thesis
    by (simp only:) (rule commits_cases, simp_all add: quiet_simulations Call_one_write success_commits_writes)
qed

definition cla_committed :: "env \<Rightarrow> args \<Rightarrow> world \<Rightarrow> event \<Rightarrow> bool" where
  "cla_committed e a w ev \<longleftrightarrow>
     (\<exists>profileName p hash key sg addr. requireProfile e a = Inr (profileName, p) \<and> arg e StringArg a ''hash'' = Inr hash \<and> hash \<noteq> [] \<and>
        keyArg e a = Inr key \<and>
        agentSigner e (wo_keys w) ''gno_cla_sign'' ''run gno_key_generate first, then gno_faucet_fund'' profileName key p = Inr (sg, addr) \<and>
        cla_tx sg hash ev)"

definition cla_true :: "env \<Rightarrow> args \<Rightarrow> world \<Rightarrow> world \<times> audit_entry \<times> (tool_error + tool_result) \<Rightarrow> bool" where
  "cla_true e a w out \<longleftrightarrow>
     (case out of (w', entry, res) \<Rightarrow>
        ae_Tool entry = ''gno_cla_sign'' \<and> w' = w\<lparr>wo_rpc := wo_rpc w'\<rparr> \<and>
        (\<not> isl res \<longleftrightarrow> ae_Result entry = ''ok'') \<and> ae_Result entry \<in> {''ok'', ''tool_err'', ''broadcast_err''} \<and>
        (ae_Result entry = ''tool_err'' \<longrightarrow> writes (wo_rpc w) (wo_rpc w') = []) \<and>
        (ae_Result entry = ''ok'' \<longrightarrow> writes (wo_rpc w) (wo_rpc w') \<noteq> []) \<and>
        (writes (wo_rpc w) (wo_rpc w') = [] \<or> (\<exists>ev. writes (wo_rpc w) (wo_rpc w') = [ev] \<and> cla_committed e a w ev)))"

lemma cla_true_quiet:
  "ae_Tool entry = ''gno_cla_sign'' \<Longrightarrow> ae_Result entry = ''tool_err'' \<Longrightarrow> cla_true e a w (w, entry, Inl err)"
  by (simp add: cla_true_def)

lemma cla_body_true: "cla_true e a w (cla_sign_body e a w)"
proof (cases "requireProfile e a")
  case (Inl err)
  then show ?thesis by (simp add: cla_sign_body_def denial_def cla_true_quiet)
next
  case (Inr np)
  then obtain profileName p where rp: "requireProfile e a = Inr (profileName, p)" by (cases np) auto
  show ?thesis
  proof (cases "arg e StringArg a ''hash''")
    case (Inl err)
    then show ?thesis using rp by (simp add: cla_sign_body_def denial_def cla_true_quiet)
  next
    case hs: (Inr hash)
    show ?thesis
    proof (cases "hash = []")
      case True
      then show ?thesis using rp hs by (simp add: cla_sign_body_def denial_def cla_true_quiet)
    next
      case ne: False
      show ?thesis
      proof (cases "keyArg e a")
        case (Inl err)
        then show ?thesis using rp hs ne by (simp add: cla_sign_body_def denial_def cla_true_quiet)
      next
        case k: (Inr key)
        show ?thesis
        proof (cases "en_resolver e profileName")
          case None
          then show ?thesis using rp hs ne k by (simp add: cla_sign_body_def denial_def cla_true_quiet)
        next
          case c: (Some c)
          show ?thesis
          proof (cases "acquireAgentSigner e c w ''gno_cla_sign'' ''run gno_key_generate first, then gno_faucet_fund'' profileName key p False")
            case (Inl err)
            then show ?thesis using rp hs ne k c by (simp add: cla_sign_body_def denial_def cla_true_quiet)
          next
            case (Inr sa)
            then obtain sg addr where ac: "acquireAgentSigner e c w ''gno_cla_sign'' ''run gno_key_generate first, then gno_faucet_fund'' profileName key p False = Inr (sg, addr)"
              by (cases sa) auto
            then have "agentSigner e (wo_keys w) ''gno_cla_sign'' ''run gno_key_generate first, then gno_faucet_fund'' profileName key p = Inr (sg, addr)"
              by (auto dest: acquire_agentSigner)
            then have Q: "cla_tx sg hash ev \<Longrightarrow> cla_committed e a w ev" for ev
              unfolding cla_committed_def using rp hs ne k by blast
            obtain h1 r where cr: "Call (cl_node c) (en_lib e) (Some sg) claRealm ''Sign'' [hash] [] False (wo_rpc w) = (h1, r)" by force
            have "writes (wo_rpc w) h1 = [] \<or> (\<exists>ev. writes (wo_rpc w) h1 = [ev] \<and> cla_committed e a w ev)"
                "\<not> isl r \<Longrightarrow> writes (wo_rpc w) h1 \<noteq> []"
              using cla_commits [of sg hash "cl_node c" "en_lib e"] cr Q unfolding commits_def by blast+
            then show ?thesis using rp hs ne k c ac cr
              by (cases r) (simp_all add: cla_sign_body_def denial_def run_rpc_def cla_true_def)
          qed
        qed
      qed
    qed
  qed
qed

text \<open>
  The agreement is signed only with the hash the caller passes. Every invocation of gno\_cla\_sign
  writes exactly one record and touches no key; it commits at most one transaction, a call of Sign on
  the agreement realm with exactly that non-empty hash, no coins, signed by the agent key the
  arguments name; it reports success exactly when the record says ok, and then it did commit; a
  tool\_err record means that nothing was committed.
\<close>

theorem cla_sign_audit_truth:
  assumes "claSignHandler e a w = (w', es, out)"
  shows "\<exists>entry. es = [entry] \<and> ae_Tool entry = ''gno_cla_sign'' \<and> wo_keys w' = wo_keys w \<and> wo_mgr w' = wo_mgr w \<and>
     ((\<exists>r. out = Returned r) \<longleftrightarrow> ae_Result entry = ''ok'') \<and>
     (ae_Result entry = ''ok'' \<longrightarrow> writes (wo_rpc w) (wo_rpc w') \<noteq> []) \<and>
     (ae_Result entry = ''tool_err'' \<longrightarrow> writes (wo_rpc w) (wo_rpc w') = []) \<and>
     (writes (wo_rpc w) (wo_rpc w') = [] \<or>
      (\<exists>ev. writes (wo_rpc w) (wo_rpc w') = [ev] \<and> cla_committed e a w ev))"
proof -
  obtain entry r where b: "cla_sign_body e a w = (w', entry, r)" "es = [entry]" "(\<exists>x. out = Returned x) \<longleftrightarrow> \<not> isl r"
    using self_audited_outcome [OF assms [unfolded claSignHandler_def]] by auto
  have t: "cla_true e a w (w', entry, r)" using cla_body_true [of e a w] b(1) by simp
  then have "w' = w\<lparr>wo_rpc := wo_rpc w'\<rparr>" unfolding cla_true_def by simp
  from only_rpc [OF this] show ?thesis
    by (intro exI [of _ entry]) (use b(2,3) t in \<open>simp add: cla_true_def\<close>)
qed

subsection \<open>Every write tool keeps its audit contract\<close>

interpretation addpkg_audited: audited_handler "addpkgHandler e" True
  by unfold_locales (simp add: addpkgHandler_def self_audited_records)

interpretation cla_audited: audited_handler "claSignHandler e" True
  by unfold_locales (simp add: claSignHandler_def self_audited_records)

subsection \<open>Deploying on the local profile\<close>

definition demo_addpkg_args :: args where
  "demo_addpkg_args = [''profile'' \<mapsto> JStr ''dev'', ''deploy_path'' \<mapsto> JStr ''a'',
     ''files'' \<mapsto> JArr [JObj [(''name'', JStr ''a.gno''), (''body'', JStr ''package a'')]]]"

lemma demo_deploy_run:
  "list_ex is_write (fst (AddPackage demo_node demo_lib (Some demo_agent) path fs False h)) \<and>
   \<not> isl (snd (AddPackage demo_node demo_lib (Some demo_agent) path fs False h)) \<and>
   \<not> isl (snd (AddPackage demo_node demo_lib (Some demo_agent) path fs True h))"
  unfolding AddPackage_def by (simp add: demo_steps)

lemma demo_policy: "\<exists>h1. SubmissionPolicy demo_node demo_lib [] = (h1, Inr [])"
  by (simp add: SubmissionPolicy_def decodeSubmissionPolicy_def query_def run_simps ret_def demo_node_def demo_lib_def)

lemma addpkg_audit_truth_witness:
  "\<exists>entry ev. fst (snd (addpkgHandler demo_env demo_addpkg_args demo_world)) = [entry] \<and>
     writes [] (wo_rpc (fst (addpkgHandler demo_env demo_addpkg_args demo_world))) = [ev] \<and>
     addpkg_committed demo_env demo_addpkg_args demo_world ev"
proof -
  obtain w' es out where c: "addpkgHandler demo_env demo_addpkg_args demo_world = (w', es, out)" using prod_cases3 by blast
  have q: "requireProfile demo_env demo_addpkg_args = Inr (''dev'', demo_dyn)"
    "addpkg_args demo_env demo_addpkg_args =
       Inr \<lparr>aq_key = [], aq_path = ''a'', aq_simulate = False, aq_files = [(''a.gno'', ''package a'')]\<rparr>"
    by (simp_all add: demo_addpkg_args_def requireProfile_def addpkg_args_def keyArg_def arg_def bindS_def StringArg_def
        BoolArg_def toMemFiles_def shortName_def hasGnoMod_def gnomod_name_def env_simps)
  obtain h1 where p: "SubmissionPolicy demo_node demo_lib [] = (h1, Inr [])" using demo_policy by blast
  have v: "en_vm demo_env = \<lparr>vc_Live = ''live'', vc_Inert = ''inert'', vc_PolicyInert = ''inert''\<rparr>" by (simp add: demo_env_def)
  let ?path = "expand_path ''g1agent'' ''a''"
  let ?fs = "expand_files demo_env ''g1agent'' ''a'' (inject_gnomod demo_env ''a'' [(''a.gno'', ''package a'')])"
  obtain h2 r2 where s: "AddPackage demo_node demo_lib (Some demo_agent) ?path ?fs True h1 = (h2, Inr r2)"
    using demo_deploy_run not_isl_Inr by (metis prod.collapse)
  obtain h3 r3 where o: "AddPackage demo_node demo_lib (Some demo_agent) ?path ?fs False h2 = (h3, Inr r3)" "list_ex is_write h3"
    using demo_deploy_run not_isl_Inr by (metis prod.collapse)
  have "wo_rpc w' = h3" using c q p s o(1) AddPackage_simulated [OF o(1)]
    by (auto simp: addpkgHandler_def self_audited_def addpkg_body_def addpkg_broadcast_def acquireAgentSigner_def bindS_def run_rpc_def
        demo_agentSigner demo_unfunded_local v Let_def)
  then have "writes (wo_rpc demo_world) (wo_rpc w') \<noteq> []"
    using o(2) by (simp add: writes_def filter_empty_conv list_ex_iff)
  then show ?thesis using addpkg_audit_truth [OF c] unfolding c by auto
qed

definition demo_cla_args :: args where
  "demo_cla_args = [''profile'' \<mapsto> JStr ''dev'', ''hash'' \<mapsto> JStr ''abc'']"

lemma demo_sign_run:
  "list_ex is_write (fst (Call demo_node demo_lib (Some demo_agent) claRealm ''Sign'' [''abc''] [] False h)) \<and>
   \<not> isl (snd (Call demo_node demo_lib (Some demo_agent) claRealm ''Sign'' [''abc''] [] False h))"
  unfolding Call_def by (simp add: demo_steps)

lemma cla_sign_audit_truth_witness:
  "\<exists>entry ev. fst (snd (claSignHandler demo_env demo_cla_args demo_world)) = [entry] \<and>
     writes [] (wo_rpc (fst (claSignHandler demo_env demo_cla_args demo_world))) = [ev] \<and>
     cla_committed demo_env demo_cla_args demo_world ev"
proof -
  obtain w' es out where c: "claSignHandler demo_env demo_cla_args demo_world = (w', es, out)" using prod_cases3 by blast
  have q: "requireProfile demo_env demo_cla_args = Inr (''dev'', demo_dyn)" "arg demo_env StringArg demo_cla_args ''hash'' = Inr ''abc''"
      "keyArg demo_env demo_cla_args = Inr []"
    by (simp_all add: demo_cla_args_def requireProfile_def keyArg_def arg_def bindS_def StringArg_def env_simps)
  obtain h r where o: "Call demo_node demo_lib (Some demo_agent) claRealm ''Sign'' [''abc''] [] False [] = (h, Inr r)" "list_ex is_write h"
    using demo_sign_run not_isl_Inr by (metis prod.collapse)
  have "wo_rpc w' = h" using c q o(1)
    by (auto simp: claSignHandler_def self_audited_def cla_sign_body_def acquireAgentSigner_def bindS_def run_rpc_def
        demo_agentSigner demo_unfunded_local Let_def)
  then have "writes (wo_rpc demo_world) (wo_rpc w') \<noteq> []"
    using o(2) by (simp add: writes_def filter_empty_conv list_ex_iff)
  then show ?thesis using cla_sign_audit_truth [OF c] unfolding c by auto
qed

end
