(* ===== verification/Clientfaucet.thy ===== *)
theory Clientfaucet
  imports Dispatch
begin

section \<open>Funding the agent: internal/clientfaucet and internal/tools/write/faucet.go\<close>

text \<open>
  \<open>gno_faucet_fund\<close> asks the backend a profile configures (a service, a page, or nothing) for a
  grant and polls the balance of the agent's address. The faucet service is not trusted: of its
  answer only a hash of a fixed shape reaches a success text. The HTTP exchange and the JSON decoders
  are parameters. A balance query is an event of the history, so that two polls may see two answers.
\<close>

subsection \<open>Backends\<close>

text \<open>
  \<open>hc_request\<close> is \<open>http.NewRequest\<close>; \<open>hc_do\<close> answers a method, a URL and a body. \<open>HttpTimeout\<close> is a
  \<open>url.Error\<close> whose \<open>Timeout\<close> holds.
\<close>

datatype http_fail = HttpTimeout string | HttpUnreachable string

record http_answer =
  ha_status :: int
  ha_status_line :: string
  ha_body :: bytes

record clientfaucet_Limits =
  fl_GrantUgnot :: int64
  fl_Max :: int
  fl_WindowSeconds :: int

record http_client =
  hc_request :: "string \<Rightarrow> string option"
  hc_do :: "string \<Rightarrow> string \<Rightarrow> bytes \<Rightarrow> http_fail + http_answer"
  hc_status_text :: "int \<Rightarrow> string"
  hc_json_fund :: "string \<Rightarrow> string \<Rightarrow> bytes"
  hc_tx_hash :: "bytes \<Rightarrow> string + string"
  hc_rate :: "bytes \<Rightarrow> string \<times> int64"
  hc_limits :: "bytes \<Rightarrow> string + clientfaucet_Limits"

record fund_outcome =
  fo_Backend :: string
  fo_Address :: string
  fo_TxHash :: string
  fo_FaucetURL :: string
  fo_Instructions :: string

datatype faucet_backend = ServiceFaucet string | LinkFaucet string

text \<open>\<open>ErrServiceFailed\<close> wraps its detail, every other error is its text.\<close>

datatype clientfaucet_error = ErrServiceFailed string | FundFailed string

definition maxFaucetRespBytes :: nat where "maxFaucetRespBytes = 4096"

definition cls_hex :: "(nat \<times> nat) list" where "cls_hex = [(0x30, 0x39), (0x61, 0x66), (0x41, 0x46)]"

definition txHashRE :: rx where
  "txHashRE = RSeq (ROpt (RLit ''0x'')) (RSeq (RCls cls_hex) (RUpTo 127 (RCls cls_hex)))"

definition clientfaucet_Resolve :: "Profile \<Rightarrow> faucet_backend" where
  "clientfaucet_Resolve p =
     (if FaucetServiceURL p \<noteq> [] then ServiceFaucet (FaucetServiceURL p) else LinkFaucet (FaucetURL p))"

definition link_Fund :: "string \<Rightarrow> string \<Rightarrow> fund_outcome" where
  "link_Fund faucetURL address =
     (if faucetURL = [] then
        \<lparr>fo_Backend = ''manual'', fo_Address = address, fo_TxHash = [], fo_FaucetURL = [],
         fo_Instructions = ''No faucet is configured for this profile. Send ugnot to '' @ address @ '', then retry the write.''\<rparr>
      else
        \<lparr>fo_Backend = ''link'', fo_Address = address, fo_TxHash = [], fo_FaucetURL = faucetURL,
         fo_Instructions = ''Open '' @ faucetURL @ '' and fund '' @ address @ '', then retry the write.''\<rparr>)"

text \<open>Division of Go truncates.\<close>

definition retry_hours :: "int64 \<Rightarrow> int64" where
  "retry_hours secs =
     (let hours = (if secs < 0 then - ((- secs) div 3600) else secs div 3600)
      in if hours < 1 then 24 else hours)"

definition rateLimitMessage :: "http_client \<Rightarrow> string \<Rightarrow> bytes \<Rightarrow> string" where
  "rateLimitMessage hc address body =
     (case hc_rate hc (take maxFaucetRespBytes body) of
        (limit, secs) \<Rightarrow>
          if limit = ''per_address'' then
            ''address '' @ address @ '' has already drawn its per-address faucet grant for this window'' @ dash @
            ''it may already hold funds (check the balance). A different key is not subject to this address's cooldown (gno_key_generate) if you need a separate funded identity; otherwise retry this address after ~'' @
            show_int (retry_hours secs) @ ''h''
          else ''faucet rate-limited; retry after ~'' @ show_int (retry_hours secs) @ ''h'')"

definition service_Fund :: "http_client \<Rightarrow> string \<Rightarrow> string \<Rightarrow> string \<Rightarrow> clientfaucet_error + fund_outcome" where
  "service_Fund hc url address chainID =
     (case hc_request hc (url @ ''/fund'') of
        Some x \<Rightarrow> Inl (FundFailed x)
      | None \<Rightarrow>
     (case hc_do hc ''POST'' (url @ ''/fund'') (hc_json_fund hc address chainID) of
        Inl (HttpTimeout x) \<Rightarrow> Inl (ErrServiceFailed (''no answer in time: '' @ x))
      | Inl (HttpUnreachable x) \<Rightarrow> Inl (FundFailed (''faucet service unreachable: '' @ x))
      | Inr resp \<Rightarrow>
          if ha_status resp = 429 then Inl (FundFailed (rateLimitMessage hc address (ha_body resp)))
          else if ha_status resp \<noteq> 200 then
            (let detail = show_int (ha_status resp) @ '' '' @ hc_status_text hc (ha_status resp) @
                   '': [untrusted faucet response] '' @ TrimSpace (take 512 (ha_body resp))
             in if ha_status resp \<in> {500, 502, 504} then Inl (ErrServiceFailed detail)
                else Inl (FundFailed (''faucet service error: '' @ detail)))
          else case hc_tx_hash hc (take maxFaucetRespBytes (ha_body resp)) of
                 Inl x \<Rightarrow> Inl (FundFailed (''faucet service: bad response: '' @ x))
               | Inr h \<Rightarrow>
                   if \<not> rx_match txHashRE h then Inl (FundFailed ''faucet service: response tx hash is not a valid hash'')
                   else Inr \<lparr>fo_Backend = ''service'', fo_Address = address, fo_TxHash = h, fo_FaucetURL = [],
                             fo_Instructions = ''Requested an automatic grant for '' @ address @ '' (tx '' @ h @ '').''\<rparr>))"

definition Fund_backend :: "http_client \<Rightarrow> faucet_backend \<Rightarrow> string \<Rightarrow> string \<Rightarrow> clientfaucet_error + fund_outcome" where
  "Fund_backend hc f address chainID =
     (case f of ServiceFaucet url \<Rightarrow> service_Fund hc url address chainID | LinkFaucet url \<Rightarrow> Inr (link_Fund url address))"

text \<open>No policy advertised is \<open>Inr None\<close>.\<close>

definition FetchServiceLimits :: "http_client \<Rightarrow> Profile \<Rightarrow> string + clientfaucet_Limits option" where
  "FetchServiceLimits hc p =
     (if FaucetServiceURL p = [] then Inr None
      else case hc_request hc (FaucetServiceURL p @ ''/limits'') of
        Some x \<Rightarrow> Inl x
      | None \<Rightarrow>
     (case hc_do hc ''GET'' (FaucetServiceURL p @ ''/limits'') [] of
        Inl (HttpTimeout x) \<Rightarrow> Inl (''faucet limits unreachable: '' @ x)
      | Inl (HttpUnreachable x) \<Rightarrow> Inl (''faucet limits unreachable: '' @ x)
      | Inr resp \<Rightarrow>
          if ha_status resp = 404 \<or> ha_status resp = 405 then Inr None
          else if ha_status resp \<noteq> 200 then Inl (''faucet limits: unexpected status '' @ ha_status_line resp)
          else case hc_limits hc (take maxFaucetRespBytes (ha_body resp)) of
                 Inl x \<Rightarrow> Inl (''faucet limits: bad response: '' @ x)
               | Inr limits \<Rightarrow> Inr (Some limits)))"

subsection \<open>Polling the balance\<close>

definition faucetPollTimeout :: duration where "faucetPollTimeout = 60 * nsecond"
definition faucetPollInterval :: duration where "faucetPollInterval = 3 * nsecond"

text \<open>Both backends confirm by the balance.\<close>

definition Funded :: "env \<Rightarrow> client \<Rightarrow> string \<Rightarrow> bool rpc" where
  "Funded e c address h =
     (h @ [EvQuery (''auth/accounts/'' @ address) []],
      case Balance (cl_account c h) (en_lib e) address of Inl x \<Rightarrow> Inl x | Inr bal \<Rightarrow> Inr (bal > 0))"

partial_function (option) poll_loop ::
  "env \<Rightarrow> client \<Rightarrow> string \<Rightarrow> duration \<Rightarrow> time \<Rightarrow> nat \<Rightarrow> time \<Rightarrow> chain_error option \<Rightarrow> event list \<Rightarrow>
   (event list \<times> bool \<times> chain_error option) option" where
  "poll_loop e c address interval deadline i now lastErr h =
     (case Funded e c address h of
        (h1, r) \<Rightarrow>
          if r = Inr True then Some (h1, True, None)
          else (let lastErr = (case r of Inl x \<Rightarrow> Some x | Inr _ \<Rightarrow> lastErr); t = now + int (en_poll_time e i)
                in if t > deadline \<or> en_cancelled e i then Some (h1, False, lastErr)
                   else poll_loop e c address interval deadline (Suc i) (t + interval + int (en_oversleep e i)) lastErr h1))"

definition pollFunded ::
  "env \<Rightarrow> client \<Rightarrow> string \<Rightarrow> duration \<Rightarrow> duration \<Rightarrow> event list \<Rightarrow> (event list \<times> bool \<times> chain_error option) option" where
  "pollFunded e c address timeout interval h = poll_loop e c address interval timeout 0 0 None h"

subsection \<open>gno\_faucet\_fund\<close>

definition poll_note :: "env \<Rightarrow> chain_error option \<Rightarrow> string" where
  "poll_note e pollErr =
     (case pollErr of None \<Rightarrow> [] | Some x \<Rightarrow> '' (last balance check failed: '' @ en_chain_text e x @ '')'')"

definition settleFaucetFailure :: "env \<Rightarrow> client \<Rightarrow> string \<Rightarrow> string \<Rightarrow> world \<Rightarrow> (world \<times> (tool_error + tool_result)) option" where
  "settleFaucetFailure e c addr faucetErr w =
     (case pollFunded e c addr faucetPollTimeout faucetPollInterval (wo_rpc w) of
        None \<Rightarrow> None
      | Some (h, funded, pollErr) \<Rightarrow>
          Some (w\<lparr>wo_rpc := h\<rparr>,
            if funded then
              Inr (text_result (''The faucet service did not confirm the grant, but the address holds a balance.'' @ nl @
                     ''Agent address '' @ addr @ '': funded.'') [])
            else
              Inl (PlainError (addr @ '' holds no balance yet'' @ poll_note e pollErr @
                     '', but the grant may still land. Read the balance with gno_account before calling gno_faucet_fund again. Details: faucet service error: '' @
                     faucetErr))))"

definition fund_status :: "env \<Rightarrow> bool \<Rightarrow> chain_error option \<Rightarrow> string" where
  "fund_status e funded pollErr = (if funded then ''funded'' else ''not funded yet'' @ poll_note e pollErr)"

definition faucet_body :: "env \<Rightarrow> http_client \<Rightarrow> args \<Rightarrow> world \<Rightarrow> (world \<times> (tool_error + tool_result)) option" where
  "faucet_body e hc a w =
     (case requireProfile e a of
        Inl err \<Rightarrow> Some (w, Inl err)
      | Inr (profileName, p) \<Rightarrow>
     (case keyArg e a of
        Inl err \<Rightarrow> Some (w, Inl err)
      | Inr keyName \<Rightarrow>
     (case AgentAddress (en_ksio e) (en_aead e) (en_signers e) (en_ks e) (wo_keys w) profileName keyName p of
        Inl err \<Rightarrow>
          Some (w, Inl (case agentKeyToolError e err profileName ''run gno_key_generate first, then gno_faucet_fund'' of
                          Some t \<Rightarrow> t
                        | None \<Rightarrow> PlainError (''gno_faucet_fund: agent address: '' @ en_ks_text e err)))
      | Inr addr \<Rightarrow>
     (case en_resolver e profileName of
        None \<Rightarrow> Some (w, Inl (no_client e profileName))
      | Some c \<Rightarrow>
     (case Fund_backend hc (clientfaucet_Resolve p) addr (ChainID p) of
        Inl (ErrServiceFailed x) \<Rightarrow> settleFaucetFailure e c addr x w
      | Inl (FundFailed x) \<Rightarrow> Some (w, Inl (PlainError x))
      | Inr out \<Rightarrow>
     (case pollFunded e c addr faucetPollTimeout faucetPollInterval (wo_rpc w) of
        None \<Rightarrow> None
      | Some (h, funded, pollErr) \<Rightarrow>
          Some (w\<lparr>wo_rpc := h\<rparr>,
            Inr (text_result (fo_Instructions out @ nl @ ''Agent address '' @ addr @ '': '' @ fund_status e funded pollErr @ ''.'') []))))))))"

definition faucetFundHandler :: "env \<Rightarrow> http_client \<Rightarrow> world handler" where
  "faucetFundHandler e hc = plain_handler (\<lambda>a w. the (faucet_body e hc a w))"

interpretation faucet_audited: audited_handler "faucetFundHandler e hc" False
  by unfold_locales (auto simp: faucetFundHandler_def dest: plain_handler_records)

subsection \<open>The poll ends and sees a grant\<close>

definition balance_query :: "string \<Rightarrow> event" where
  "balance_query address = EvQuery (''auth/accounts/'' @ address) []"

lemma Funded_history [simp]: "fst (Funded e c address h) = h @ [balance_query address]"
  by (simp add: Funded_def balance_query_def)

lemma writes_balance [simp]: "writes h (h @ replicate k (balance_query address)) = []"
  by (simp add: writes_def balance_query_def)

text \<open>What the client sees at the \<open>k\<close>-th poll from \<open>h\<close> on.\<close>

definition sees_funds :: "env \<Rightarrow> client \<Rightarrow> string \<Rightarrow> event list \<Rightarrow> nat \<Rightarrow> bool" where
  "sees_funds e c address h k \<longleftrightarrow> snd (Funded e c address (h @ replicate k (balance_query address))) = Inr True"

lemma sees_funds_next:
  "sees_funds e c address (h @ [balance_query address]) k \<longleftrightarrow> sees_funds e c address h (Suc k)"
  by (simp add: sees_funds_def)

text \<open>The outcome of a poll of at most \<open>Suc n\<close> queries: funded as soon as one saw funds, else none did.\<close>

definition poll_result ::
  "env \<Rightarrow> client \<Rightarrow> string \<Rightarrow> event list \<Rightarrow> nat \<Rightarrow> (event list \<times> bool \<times> chain_error option) option \<Rightarrow> bool" where
  "poll_result e c address h n out \<longleftrightarrow>
     (\<exists>k funded err. k \<le> n \<and> out = Some (h @ replicate (Suc k) (balance_query address), funded, err) \<and>
        (funded \<longleftrightarrow> sees_funds e c address h k) \<and> (\<forall>j<k. \<not> sees_funds e c address h j))"

lemma poll_result_Suc:
  assumes "poll_result e c address (h @ [balance_query address]) n out" "\<not> sees_funds e c address h 0"
  shows "poll_result e c address h (Suc n) out"
proof -
  obtain k funded err where k: "k \<le> n" "out = Some ((h @ [balance_query address]) @ replicate (Suc k) (balance_query address), funded, err)"
      "funded \<longleftrightarrow> sees_funds e c address h (Suc k)" "\<forall>j<k. \<not> sees_funds e c address h (Suc j)"
    using assms(1) unfolding poll_result_def sees_funds_next by blast
  have "\<forall>j<Suc k. \<not> sees_funds e c address h j" using k(4) assms(2) by (auto simp: less_Suc_eq_0_disj)
  then show ?thesis unfolding poll_result_def using k by (intro exI [of _ "Suc k"], intro exI [of _ funded], intro exI [of _ err]) simp
qed

lemma poll_loop_returns:
  "0 < interval \<Longrightarrow> deadline - now < int n * interval \<Longrightarrow>
   poll_result e c address h n (poll_loop e c address interval deadline i now lastErr h)"
proof (induction n arbitrary: i now lastErr h)
  case 0
  obtain r where f: "Funded e c address h = (h @ [balance_query address], r)" by (metis Funded_history prod.collapse)
  have s: "sees_funds e c address h 0 \<longleftrightarrow> r = Inr True" by (simp add: sees_funds_def f)
  have "now + int (en_poll_time e i) > deadline" using 0 by simp
  then show ?case using s
    by (simp add: poll_loop.simps [of e c address interval deadline i now lastErr h] f Let_def poll_result_def)
next
  case (Suc n)
  obtain r where f: "Funded e c address h = (h @ [balance_query address], r)" by (metis Funded_history prod.collapse)
  have s: "sees_funds e c address h 0 \<longleftrightarrow> r = Inr True" by (simp add: sees_funds_def f)
  let ?now = "now + int (en_poll_time e i) + interval + int (en_oversleep e i)"
  have stop: "poll_result e c address h (Suc n) (Some (h @ [balance_query address], r = Inr True, err))" for err
    unfolding poll_result_def using s by (intro exI [of _ 0], intro exI [of _ "r = Inr True"], intro exI [of _ err]) simp
  have "deadline - ?now < int n * interval" using Suc.prems(2) by (simp add: algebra_simps)
  from poll_result_Suc [OF Suc.IH [OF Suc.prems(1) this]]
  have go: "r \<noteq> Inr True \<Longrightarrow> poll_result e c address h (Suc n) (poll_loop e c address interval deadline (Suc i) ?now err (h @ [balance_query address]))" for err
    using s by blast
  show ?case
    using stop go by (auto simp: poll_loop.simps [of e c address interval deadline i now lastErr h] f Let_def)
qed

lemma pollFunded_production:
  "poll_result e c address h 21 (pollFunded e c address faucetPollTimeout faucetPollInterval h)"
  unfolding pollFunded_def
  by (rule poll_loop_returns) (simp_all add: faucetPollTimeout_def faucetPollInterval_def nsecond_def)

lemma poll_loop_sees:
  assumes "0 \<le> interval"
  shows "now + int m * (interval + d) \<le> deadline \<Longrightarrow> \<forall>j<m. \<not> en_cancelled e (i + j) \<and> int (en_poll_time e (i + j) + en_oversleep e (i + j)) \<le> d \<Longrightarrow>
    sees_funds e c address h m \<Longrightarrow> \<exists>h'. poll_loop e c address interval deadline i now lastErr h = Some (h', True, None)"
proof (induction m arbitrary: i now lastErr h)
  case 0
  then show ?case
    by (auto simp: poll_loop.simps [of e c address interval deadline i now lastErr h] sees_funds_def split: prod.splits)
next
  case (Suc m)
  obtain r where f: "Funded e c address h = (h @ [balance_query address], r)" by (metis Funded_history prod.collapse)
  let ?t = "now + int (en_poll_time e i)" let ?now = "?t + interval + int (en_oversleep e i)"
  have i: "\<not> en_cancelled e i" "int (en_poll_time e i + en_oversleep e i) \<le> d" using Suc.prems(2) by force+
  have split: "int (Suc m) * (interval + d) = int m * (interval + d) + (interval + d)" by (simp add: algebra_simps)
  have nn: "0 \<le> int m * (interval + d)" using assms i(2) by simp
  have pd: "int (en_poll_time e i) \<le> d" using i(2) by simp
  have t: "\<not> ?t > deadline" using Suc.prems(1) [unfolded split] nn pd assms by linarith
  have "?now + int m * (interval + d) \<le> deadline" using Suc.prems(1) split i(2) by simp
  moreover have "\<forall>j<m. \<not> en_cancelled e (Suc i + j) \<and> int (en_poll_time e (Suc i + j) + en_oversleep e (Suc i + j)) \<le> d"
    using Suc.prems(2) by force
  moreover have "sees_funds e c address (h @ [balance_query address]) m" using Suc.prems(3) by (simp add: sees_funds_next)
  ultimately have "\<exists>h'. poll_loop e c address interval deadline (Suc i) ?now err (h @ [balance_query address]) = Some (h', True, None)" for err
    using Suc.IH by blast
  then show ?case using i(1) t
    by (auto simp: poll_loop.simps [of e c address interval deadline i now lastErr h] f Let_def)
qed

text \<open>
  C32. A grant that lands is seen. The balance poll of gno\_faucet\_fund always returns, after at most
  22 queries and nothing else sent; it answers that the address is funded exactly when its last query
  saw a positive balance, and stops at the first that does. And when polls are not cancelled and each
  takes at most d with its sleep's overshoot, a balance that shows at the m-th query is reported,
  whatever the queries before it answered, as long as m rounds fit the timeout.
\<close>

theorem pollFunded_sees_grant:
  assumes "0 \<le> interval" "int m * (interval + d) \<le> timeout"
    and "\<forall>j<m. \<not> en_cancelled e j \<and> int (en_poll_time e j + en_oversleep e j) \<le> d"
    and "sees_funds e c address h m"
  shows "(\<exists>h'. pollFunded e c address timeout interval h = Some (h', True, None)) \<and>
    (\<exists>k funded err. k \<le> 21 \<and>
       pollFunded e c address faucetPollTimeout faucetPollInterval h = Some (h @ replicate (Suc k) (balance_query address), funded, err) \<and>
       (funded \<longleftrightarrow> sees_funds e c address h k))"
proof
  show "\<exists>h'. pollFunded e c address timeout interval h = Some (h', True, None)"
    unfolding pollFunded_def by (rule poll_loop_sees [OF assms(1), where d = d]) (use assms in simp_all)
  show "\<exists>k funded err. k \<le> 21 \<and>
       pollFunded e c address faucetPollTimeout faucetPollInterval h = Some (h @ replicate (Suc k) (balance_query address), funded, err) \<and>
       (funded \<longleftrightarrow> sees_funds e c address h k)"
    using pollFunded_production [of e c address h] unfolding poll_result_def by blast
qed

definition demo_fund_env :: env where
  "demo_fund_env = demo_env\<lparr>en_lib := demo_lib\<lparr>lib_amount_of := (\<lambda>coins d. int (length coins))\<rparr>\<rparr>"

definition demo_fund_client :: client where
  "demo_fund_client = demo_client\<lparr>cl_account := (\<lambda>h a. if length h < 2 then AcUnknown else AcInfo [(''ugnot'', 5)] 0 7)\<rparr>"

lemma demo_lib_addr [simp]: "lib_addr demo_lib a = Some a" by (simp add: demo_lib_def)

lemma pollFunded_sees_grant_witness:
  "\<not> sees_funds demo_fund_env demo_fund_client ''g1a'' [] 1 \<and>
   (\<exists>h'. pollFunded demo_fund_env demo_fund_client ''g1a'' 10 3 [] = Some (h', True, None))"
proof
  have env: "en_cancelled demo_fund_env j = False" "en_poll_time demo_fund_env j = 0" "en_oversleep demo_fund_env j = 0" for j
    by (simp_all add: demo_fund_env_def demo_env_def)
  show "\<not> sees_funds demo_fund_env demo_fund_client ''g1a'' [] 1"
    by (simp add: sees_funds_def Funded_def Balance_def Account_def demo_fund_env_def demo_fund_client_def)
  have "sees_funds demo_fund_env demo_fund_client ''g1a'' [] 2"
    by (simp add: sees_funds_def Funded_def Balance_def Account_def demo_fund_env_def demo_fund_client_def)
  then show "\<exists>h'. pollFunded demo_fund_env demo_fund_client ''g1a'' 10 3 [] = Some (h', True, None)"
    using pollFunded_sees_grant [of 3 2 0 10 demo_fund_env demo_fund_client "''g1a''" "[]"] by (simp add: env)
qed

subsection \<open>What a faucet can make the tool say\<close>

lemma txHash_bytes:
  assumes "rx_match txHashRE h"
  shows "set h \<subseteq> {c. in_cls cls_hex c} \<union> {CHR ''x''}"
proof -
  have "set h \<subseteq> rx_bytes txHashRE" using assms by (rule rx_match_bytes)
  also have "\<dots> \<subseteq> {c. in_cls cls_hex c} \<union> {CHR ''x''}"
    unfolding txHashRE_def rx_bytes.simps rx_bytes_derived rx_bytes_RLit
    using rx_bytes_derived(3) [of 127 "RCls cls_hex"] by (auto simp: in_cls_def cls_hex_def)
  finally show ?thesis .
qed

definition unconfirmed :: string where
  "unconfirmed = ''The faucet service did not confirm the grant, but the address holds a balance.''"

definition fund_text :: "Profile \<Rightarrow> string \<Rightarrow> string \<Rightarrow> bool" where
  "fund_text p addr s \<longleftrightarrow>
     s = fo_Instructions (link_Fund (FaucetURL p) addr) \<or> s = unconfirmed \<or>
     (\<exists>h. set h \<subseteq> {c. in_cls cls_hex c} \<union> {CHR ''x''} \<and> s = ''Requested an automatic grant for '' @ addr @ '' (tx '' @ h @ '').'')"

definition fund_said :: "env \<Rightarrow> client \<Rightarrow> Profile \<Rightarrow> string \<Rightarrow> world \<Rightarrow> world \<Rightarrow> tool_result \<Rightarrow> bool" where
  "fund_said e c p addr w w' r \<longleftrightarrow>
     (\<exists>k s st. k \<le> 21 \<and> w' = w\<lparr>wo_rpc := wo_rpc w @ replicate (Suc k) (balance_query addr)\<rparr> \<and> fund_text p addr s \<and>
        rs_Text r = s @ nl @ ''Agent address '' @ addr @ '': '' @ st @ ''.'' \<and> (st = ''funded'' \<longleftrightarrow> sees_funds e c addr (wo_rpc w) k))"

lemma Fund_backend_text:
  assumes "Fund_backend hc (clientfaucet_Resolve p) addr cid = Inr out"
  shows "fund_text p addr (fo_Instructions out)"
proof (cases "FaucetServiceURL p = []")
  case True
  then show ?thesis using assms by (simp add: Fund_backend_def clientfaucet_Resolve_def fund_text_def)
next
  case False
  then obtain h where "rx_match txHashRE h" "fo_Instructions out = ''Requested an automatic grant for '' @ addr @ '' (tx '' @ h @ '').''"
    using assms by (auto simp: Fund_backend_def clientfaucet_Resolve_def service_Fund_def Let_def
        split: option.splits sum.splits http_fail.splits if_splits)
  then show ?thesis using txHash_bytes unfolding fund_text_def by blast
qed

lemma fund_status_funded: "fund_status e b err = ''funded'' \<longleftrightarrow> b"
  by (simp add: fund_status_def)

lemma settle_said:
  assumes "settleFaucetFailure e c addr x w = Some (w', Inr r)"
  shows "fund_said e c p addr w w' r"
proof -
  obtain k b err where k: "k \<le> 21" "pollFunded e c addr faucetPollTimeout faucetPollInterval (wo_rpc w) =
      Some (wo_rpc w @ replicate (Suc k) (balance_query addr), b, err)" "b \<longleftrightarrow> sees_funds e c addr (wo_rpc w) k"
    using pollFunded_production [of e c addr "wo_rpc w"] unfolding poll_result_def by blast
  with assms have r: "b" "w' = w\<lparr>wo_rpc := wo_rpc w @ replicate (Suc k) (balance_query addr)\<rparr>"
      "rs_Text r = unconfirmed @ nl @ ''Agent address '' @ addr @ '': '' @ ''funded'' @ ''.''"
    by (auto simp: settleFaucetFailure_def text_result_def unconfirmed_def split: if_splits)
  show ?thesis unfolding fund_said_def
    by (rule exI [of _ k], rule exI [of _ unconfirmed], rule exI [of _ "''funded''"]) (use k r in \<open>simp add: fund_text_def\<close>)
qed

lemma poll_said:
  assumes "pollFunded e c addr faucetPollTimeout faucetPollInterval (wo_rpc w) = Some (h, b, err)" "fund_text p addr s"
  shows "fund_said e c p addr w (w\<lparr>wo_rpc := h\<rparr>)
     (text_result (s @ nl @ ''Agent address '' @ addr @ '': '' @ fund_status e b err @ ''.'') [])"
proof -
  obtain k where k: "k \<le> 21" "h = wo_rpc w @ replicate (Suc k) (balance_query addr)" "b \<longleftrightarrow> sees_funds e c addr (wo_rpc w) k"
    using pollFunded_production [of e c addr "wo_rpc w"] assms(1) unfolding poll_result_def by auto
  show ?thesis unfolding fund_said_def
    by (rule exI [of _ k], rule exI [of _ s], rule exI [of _ "fund_status e b err"])
      (use k assms(2) in \<open>simp add: fund_status_funded text_result_def\<close>)
qed


lemma faucet_returns:
  assumes "requireProfile e a = Inr (profileName, p)" "keyArg e a = Inr key" "en_resolver e profileName = Some c"
    and "AgentAddress (en_ksio e) (en_aead e) (en_signers e) (en_ks e) (wo_keys w) profileName key p = Inr addr"
    and "Fund_backend hc (clientfaucet_Resolve p) addr (ChainID p) = Inr out"
  shows "\<exists>w' r. faucetFundHandler e hc a w = (w', [], Returned r)"
proof -
  obtain h b err where "pollFunded e c addr faucetPollTimeout faucetPollInterval (wo_rpc w) = Some (h, b, err)"
    using pollFunded_production [of e c addr "wo_rpc w"] unfolding poll_result_def by auto
  then show ?thesis using assms by (simp add: faucetFundHandler_def plain_handler_def faucet_body_def)
qed

definition demo_http :: http_client where
  "demo_http = \<lparr>hc_request = (\<lambda>u. None), hc_do = (\<lambda>m u b. Inr \<lparr>ha_status = 200, ha_status_line = ''200 OK'', ha_body = ''{}''\<rparr>),
     hc_status_text = (\<lambda>c. ''OK''), hc_json_fund = (\<lambda>a c. a), hc_tx_hash = (\<lambda>b. Inr ''0xab12''), hc_rate = (\<lambda>b. ([], 0)),
     hc_limits = (\<lambda>b. Inl [])\<rparr>"

definition demo_service :: Profile where
  "demo_service = demo_dyn\<lparr>FaucetServiceURL := ''https://f''\<rparr>"

definition demo_service_env :: env where
  "demo_service_env = demo_env\<lparr>en_server := NewServer [(''dev'', demo_service)] ''dev''\<rparr>"

lemma demo_service_hash: "rx_match txHashRE ''0xab12''" by code_simp


end
