(* ===== verification/Keytools.thy ===== *)
theory Keytools
  imports Clientfaucet
begin

section \<open>The key tools: internal/tools/write keygen.go, keyaddr.go, keylist.go, keysend.go and keydelete.go\<close>

text \<open>
  Agent keys are generated, listed, funded from one another and deleted. Deleting a funded key would
  lose its money, so \<open>gno_key_delete\<close> refuses unless told to sweep the balance to another key or to
  abandon it. \<open>gno_key_send\<close> moves coins between own keys only; it writes an audit record of its own.
  A failed or repeated step leaves the key file where it was.
\<close>

subsection \<open>gno\_key\_generate, gno\_key\_address and gno\_key\_list\<close>

text \<open>
  \<open>salt\<close>, \<open>nonce\<close> and \<open>fresh\<close> are what the random source yields: \<open>None\<close> when it fails.
\<close>

definition keygen_error :: "env \<Rightarrow> string \<Rightarrow> ks_error \<Rightarrow> tool_error" where
  "keygen_error e profileName err =
     (case err of
        ErrInvalidKeyName _ \<Rightarrow> ToolError ''invalid_key_name'' (en_ks_text e err) (profile_extra profileName)
      | ErrKeyCapReached \<Rightarrow>
          ToolError ''key_cap_reached''
            (''profile '' @ en_quote e profileName @ '' has reached its agent-key cap'' @ dash @
             ''delete an existing key (gno_key_delete) to free a slot; see gno_key_list'') (profile_extra profileName)
      | ErrKeyGenTestnetOnly \<Rightarrow>
          ToolError ''key_generation_unsupported''
            (''gno_key_generate is testnet-only; profile '' @ en_quote e profileName @
             '' is not a testnet profile (local uses the built-in test1, prod uses sessions)'') (profile_extra profileName)
      | ErrKeyExists \<Rightarrow>
          ToolError ''key_already_exists''
            (''profile '' @ en_quote e profileName @ '' already has an agent key'' @ dash @ ''use gno_key_address to get its address'')
            (profile_extra profileName)
      | _ \<Rightarrow>
          (case agentKeyToolError e err profileName [] of
             Some t \<Rightarrow> t
           | None \<Rightarrow> PlainError (''gno_key_generate: '' @ en_ks_text e err)))"

definition keyGenHandler :: "env \<Rightarrow> bytes option \<Rightarrow> bytes option \<Rightarrow> string option \<Rightarrow> world handler" where
  "keyGenHandler e salt nonce fresh = plain_handler (\<lambda>a w.
     case requireProfile e a of
       Inl err \<Rightarrow> (w, Inl err)
     | Inr (profileName, p) \<Rightarrow>
    (case keyArg e a of
       Inl err \<Rightarrow> (w, Inl err)
     | Inr keyName \<Rightarrow>
    (case GenerateForProfile (en_ksio e) (en_aead e) (en_signers e) salt nonce fresh (en_ks e) (wo_keys w) profileName keyName p of
       (keys, Inl err) \<Rightarrow> (w\<lparr>wo_keys := keys\<rparr>, Inl (keygen_error e profileName err))
     | (keys, Inr addr) \<Rightarrow> (w\<lparr>wo_keys := keys\<rparr>, Inr (text_result addr [(''address'', JStr addr)])))))"

definition key_lookup_error :: "env \<Rightarrow> string \<Rightarrow> string \<Rightarrow> string \<Rightarrow> ks_error \<Rightarrow> tool_error" where
  "key_lookup_error e stage profileName hint err =
     (case agentKeyToolError e err profileName hint of Some t \<Rightarrow> t | None \<Rightarrow> PlainError (stage @ en_ks_text e err))"

definition agent_address :: "env \<Rightarrow> world \<Rightarrow> string \<Rightarrow> string \<Rightarrow> Profile \<Rightarrow> ks_error + string" where
  "agent_address e w = AgentAddress (en_ksio e) (en_aead e) (en_signers e) (en_ks e) (wo_keys w)"

definition keyAddrHandler :: "env \<Rightarrow> world handler" where
  "keyAddrHandler e = plain_handler (\<lambda>a w.
     (w, bindS (requireProfile e a) (\<lambda>(profileName, p).
         bindS (keyArg e a) (\<lambda>keyName.
         case agent_address e w profileName keyName p of
           Inl err \<Rightarrow> Inl (key_lookup_error e ''gno_key_address: '' profileName ''run gno_key_generate to create one'' err)
         | Inr addr \<Rightarrow> Inr (text_result addr [(''address'', JStr addr)])))))"

definition list_keys :: "env \<Rightarrow> world \<Rightarrow> string \<Rightarrow> Profile \<Rightarrow> ks_error + KeyInfo list" where
  "list_keys e w = ListKeys (en_ksio e) (en_aead e) (en_signers e) (en_ks e) (wo_keys w)"

definition key_line :: "KeyInfo \<Rightarrow> string" where
  "key_line k = (if ki_Err k \<noteq> [] then ki_Name k @ tab @ ''(unreadable: '' @ ki_Err k @ '')'' @ nl else ki_Name k @ tab @ ki_Address k @ nl)"

definition key_entry :: "KeyInfo \<Rightarrow> json" where
  "key_entry k = JObj [(''name'', JStr (ki_Name k)),
     if ki_Err k \<noteq> [] then (''error'', JStr (ki_Err k)) else (''address'', JStr (ki_Address k))]"

definition TrimRight_nl :: "string \<Rightarrow> string" where
  "TrimRight_nl s = rev (dropWhile (\<lambda>c. c = CHR 0x0A) (rev s))"

definition keyListHandler :: "env \<Rightarrow> world handler" where
  "keyListHandler e = plain_handler (\<lambda>a w.
     (w, bindS (requireProfile e a) (\<lambda>(profileName, p).
         case list_keys e w profileName p of
           Inl err \<Rightarrow> Inl (key_lookup_error e ''gno_key_list: '' profileName ''run gno_key_generate to create one'' err)
         | Inr ks \<Rightarrow>
             Inr (text_result
               (TrimRight_nl (if ks = [] then ''No agent keys for this profile yet'' @ dash @ ''run gno_key_generate.'' else concat (map key_line ks)))
               [(''keys'', JArr (map key_entry ks))]))))"

subsection \<open>gno\_key\_send\<close>

text \<open>\<open>oor\<close> and \<open>f64\<close> are the float conversions of \<open>Int64Arg\<close>.\<close>

definition key_send_body :: "env \<Rightarrow> (rat \<Rightarrow> int64) \<Rightarrow> (int64 \<Rightarrow> rat) \<Rightarrow> args \<Rightarrow> world \<Rightarrow> tool_result tool_body" where
  "key_send_body e oor f64 a w =
     (let entry = denial ''gno_key_send'' in
      case requireProfile e a of
        Inl err \<Rightarrow> (w, entry, Inl err)
      | Inr (profileName, p) \<Rightarrow>
     (let entry = entry\<lparr>ae_Profile := profileName\<rparr> in
      case bindS (arg e StringArg a ''from'') (\<lambda>fromKey. bindS (arg e StringArg a ''to'') (\<lambda>toKey.
             if toKey = [] then Inl (PlainError (''to: required'' @ dash @ ''the destination key name''))
             else bindS (arg e (Int64Arg oor f64) a ''amount'') (\<lambda>amount. Inr (fromKey, toKey, amount)))) of
        Inl err \<Rightarrow> (w, entry, Inl err)
      | Inr (fromKey, toKey, amount) \<Rightarrow>
     (let entry = entry\<lparr>ae_ArgsSummary := ''to='' @ toKey @ '' amount='' @ show_int amount\<rparr> in
      if amount \<le> 0 then
        (w, entry, Inl (ToolError ''invalid_amount'' (''amount must be a positive number of ugnot, got '' @ show_int amount) (profile_extra profileName)))
      else case agent_address e w profileName toKey p of
        Inl err \<Rightarrow>
          (w, entry, Inl (key_lookup_error e (''gno_key_send: resolve destination '' @ en_quote e toKey @ '': '') profileName
             (''destination key '' @ en_quote e toKey @ '' does not exist'' @ dash @ ''create it with gno_key_generate'') err))
      | Inr toAddr \<Rightarrow>
     (case en_resolver e profileName of
        None \<Rightarrow> (w, entry, Inl (no_client e profileName))
      | Some c \<Rightarrow>
     (case acquireAgentSigner e c w ''gno_key_send'' ''create or fund it with gno_key_generate / gno_faucet_fund'' profileName fromKey p False of
        Inl err \<Rightarrow> (w, entry, Inl err)
      | Inr (sg, fromAddr) \<Rightarrow>
          if fromAddr = toAddr then
            (w, entry, Inl (ToolError ''same_account'' (''from and to resolve to the same address'' @ dash @ ''choose distinct keys'')
               (profile_extra profileName @ [(''address'', JStr fromAddr)])))
          else case run_rpc (Send_real (cl_node c) (en_lib e) (Some sg) toAddr amount) w of
            (w1, Inl err) \<Rightarrow> (w1, entry\<lparr>ae_Result := ''broadcast_err''\<rparr>, Inl (PlainError (''gno_key_send broadcast: '' @ en_chain_text e err)))
          | (w1, Inr res) \<Rightarrow>
              (w1, entry\<lparr>ae_Result := ''ok''\<rparr>,
               Inr (attachGnokeyCmd
                 (text_result (''Sent '' @ show_int amount @ '' ugnot from '' @ fromAddr @ '' to '' @ toAddr @ '' (tx '' @ sr_TxHash res @ '').'')
                    [(''from_address'', JStr fromAddr), (''to_address'', JStr toAddr), (''amount_ugnot'', JInt amount),
                     (''tx_hash'', JStr (sr_TxHash res)), (''height'', JInt (sr_Height res))])
                 (GnokeyCmd_String ((gnokey_base ''send'' p fromAddr [] False (sr_GasFeeUgnot res) 0)
                    \<lparr>gk_To := toAddr, gk_Send := show_int amount @ ''ugnot''\<rparr>)))))))))"

definition keySendHandler :: "env \<Rightarrow> (rat \<Rightarrow> int64) \<Rightarrow> (int64 \<Rightarrow> rat) \<Rightarrow> world handler" where
  "keySendHandler e oor f64 = self_audited (key_send_body e oor f64)"

subsection \<open>gno\_key\_delete\<close>

fun first_other :: "string \<Rightarrow> string \<Rightarrow> KeyInfo list \<Rightarrow> string" where
  "first_other keyName first [] = first"
| "first_other keyName first (k # ks) =
     (if ki_Name k = keyName then first_other keyName first ks
      else if ki_Name k = DefaultKeyName then ki_Name k
      else first_other keyName (if first = [] then ki_Name k else first) ks)"

definition sweepTarget :: "env \<Rightarrow> world \<Rightarrow> string \<Rightarrow> string \<Rightarrow> Profile \<Rightarrow> string" where
  "sweepTarget e w profileName keyName p =
     first_other keyName [] (case list_keys e w profileName p of Inl _ \<Rightarrow> [] | Inr ks \<Rightarrow> ks)"

definition keyHasFundsError :: "env \<Rightarrow> world \<Rightarrow> string \<Rightarrow> string \<Rightarrow> string \<Rightarrow> int64 \<Rightarrow> Profile \<Rightarrow> tool_error" where
  "keyHasFundsError e w profileName keyName addr bal p =
     (let extra = [(''profile'', JStr profileName), (''key'', JStr keyName), (''address'', JStr addr), (''balance_ugnot'', JInt bal)];
          target = sweepTarget e w profileName keyName p
      in if target \<noteq> [] then
           ToolError ''key_has_funds''
             (''key '' @ en_quote e keyName @ '' holds '' @ show_int bal @ '' ugnot'' @ dash @
              ''deleting it makes those funds permanently unreachable. Recover them in one step: re-run with sweep_to='' @ en_quote e target @
              '' to move the full balance to that key and delete. (Or pass force=true to delete and abandon the funds.)'')
             (extra @ [(''sweep_target'', JStr target)])
         else
           ToolError ''key_has_funds''
             (''key '' @ en_quote e keyName @ '' holds '' @ show_int bal @
              '' ugnot and is the only key in this profile, so there is no other key to sweep to. Pass force=true to delete and permanently abandon the funds, or keep the key.'')
             extra)"

text \<open>The amount swept; 0 when the balance does not cover the fee.\<close>

definition sweepBeforeDelete ::
  "env \<Rightarrow> client \<Rightarrow> string \<Rightarrow> string \<Rightarrow> string \<Rightarrow> int64 \<Rightarrow> Profile \<Rightarrow> world \<Rightarrow> world \<times> (tool_error + int64)" where
  "sweepBeforeDelete e c profileName keyName sweepToKey bal p w =
     (if sweepToKey = keyName then
        (w, Inl (ToolError ''invalid_sweep_target''
           (''sweep_to '' @ en_quote e sweepToKey @ '' is the key being deleted'' @ dash @ ''choose a different key to receive the funds'')
           [(''profile'', JStr profileName), (''key'', JStr keyName)]))
      else case agent_address e w profileName sweepToKey p of
        Inl err \<Rightarrow>
          (w, Inl (key_lookup_error e (''gno_key_delete: resolve sweep_to '' @ en_quote e sweepToKey @ '': '') profileName
             (''sweep_to key '' @ en_quote e sweepToKey @ '' does not exist'' @ dash @ ''create it or name another'') err))
      | Inr toAddr \<Rightarrow>
     (case run_rpc (gas_fee (cl_node c) (en_lib e) DefaultGasWanted) w of
        (w1, Inl err) \<Rightarrow> (w1, Inl (PlainError (''gno_key_delete: query gas fee: '' @ en_chain_text e err)))
      | (w1, Inr fee) \<Rightarrow>
          if bal \<le> fee then (w1, Inr 0)
          else case SignerForProfile (en_ksio e) (en_aead e) (en_signers e) (en_ks e) (wo_keys w) profileName keyName p of
            Inl err \<Rightarrow> (w1, Inl (PlainError (''gno_key_delete: signer for '' @ en_quote e keyName @ '': '' @ en_ks_text e err)))
          | Inr sg \<Rightarrow>
              (case run_rpc (Send_real (cl_node c) (en_lib e) (Some sg) toAddr (i64 (bal - fee))) w1 of
                 (w2, Inl err) \<Rightarrow>
                   (w2, Inl (PlainError (''gno_key_delete: sweep to '' @ en_quote e sweepToKey @ '' failed (key NOT deleted): '' @ en_chain_text e err)))
               | (w2, Inr _) \<Rightarrow> (w2, Inr (i64 (bal - fee))))))"

definition delete_args :: "env \<Rightarrow> args \<Rightarrow> tool_error + string \<times> bool \<times> string" where
  "delete_args e a =
     bindS (keyArg e a) (\<lambda>keyName.
     if keyName = [] then Inl (PlainError (''key: required'' @ dash @ ''name the key to delete (no default, to avoid deleting the wrong key)''))
     else bindS (arg e BoolArg a ''force'') (\<lambda>force.
          bindS (arg e StringArg a ''sweep_to'') (\<lambda>sweepTo. Inr (keyName, force, sweepTo))))"

text \<open>What the result says: the swept amount, the abandoned balance, or neither.\<close>

definition delete_result :: "env \<Rightarrow> string \<Rightarrow> string \<Rightarrow> string \<Rightarrow> int64 \<Rightarrow> int64 \<Rightarrow> tool_result" where
  "delete_result e keyName addr sweepTo swept bal =
     (let key = en_quote e keyName @ '' (address '' @ addr @ '')''; sc = [(''deleted_key'', JStr keyName), (''deleted_address'', JStr addr)] in
      if sweepTo \<noteq> [] then
        (if swept > 0 then
           text_result (''Swept '' @ show_int swept @ '' ugnot to key '' @ en_quote e sweepTo @ '', then deleted key '' @ key @ ''.'')
             (sc @ [(''swept_ugnot'', JInt swept), (''swept_to'', JStr sweepTo)])
         else if bal > 0 then
           text_result (''Deleted key '' @ key @ ''; its balance of '' @ show_int bal @
               '' ugnot was at or below the gas fee, so it could not be swept and is now unreachable.'')
             (sc @ [(''abandoned_balance_ugnot'', JInt bal)])
         else text_result (''Deleted key '' @ key @ ''.'') sc)
      else if bal > 0 then
        text_result (''Deleted key '' @ key @ '', abandoning '' @ show_int bal @ '' ugnot'' @ dash @ ''those funds are now permanently unreachable.'')
          (sc @ [(''abandoned_balance_ugnot'', JInt bal)])
      else text_result (''Deleted key '' @ key @ ''.'') sc)"

definition delete_step :: "env \<Rightarrow> string \<Rightarrow> string \<Rightarrow> Profile \<Rightarrow> tool_result \<Rightarrow> world \<Rightarrow> world \<times> (tool_error + tool_result)" where
  "delete_step e profileName keyName p res w =
     (case DeleteForProfile (en_ksio e) (en_aead e) (en_signers e) (en_ks e) (wo_keys w) profileName keyName p of
        (keys, Inl err) \<Rightarrow>
          (w\<lparr>wo_keys := keys\<rparr>, Inl (key_lookup_error e ''gno_key_delete: '' profileName (''no key named '' @ en_quote e keyName @ '' to delete'') err))
      | (keys, Inr _) \<Rightarrow> (w\<lparr>wo_keys := keys\<rparr>, Inr res))"

definition key_delete_body :: "env \<Rightarrow> args \<Rightarrow> world \<Rightarrow> world \<times> (tool_error + tool_result)" where
  "key_delete_body e a w =
     (case requireProfile e a of
        Inl err \<Rightarrow> (w, Inl err)
      | Inr (profileName, p) \<Rightarrow>
     (case delete_args e a of
        Inl err \<Rightarrow> (w, Inl err)
      | Inr (keyName, force, sweepTo) \<Rightarrow>
          if \<not> IsTestnet p then
            (w, Inl (ToolError ''key_deletion_unsupported''
               (''gno_key_delete is testnet-only; profile '' @ en_quote e profileName @ '' is not a testnet profile'') (profile_extra profileName)))
          else case agent_address e w profileName keyName p of
            Inl err \<Rightarrow>
              (w, Inl (key_lookup_error e ''gno_key_delete: '' profileName (''no key named '' @ en_quote e keyName @ '' to delete'') err))
          | Inr addr \<Rightarrow>
         (case en_resolver e profileName of
            None \<Rightarrow> (w, Inl (no_client e profileName))
          | Some c \<Rightarrow>
         (case Balance (cl_account c (wo_rpc w)) (en_lib e) addr of
            Inl err \<Rightarrow> (w, Inl (PlainError (''gno_key_delete: balance check: '' @ en_chain_text e err)))
          | Inr bal \<Rightarrow>
              if sweepTo \<noteq> [] then
                (case sweepBeforeDelete e c profileName keyName sweepTo bal p w of
                   (w1, Inl err) \<Rightarrow> (w1, Inl err)
                 | (w1, Inr swept) \<Rightarrow> delete_step e profileName keyName p (delete_result e keyName addr sweepTo swept bal) w1)
              else if bal > 0 \<and> \<not> force then (w, Inl (keyHasFundsError e w profileName keyName addr bal p))
              else delete_step e profileName keyName p (delete_result e keyName addr [] 0 bal) w))))"

definition keyDeleteHandler :: "env \<Rightarrow> world handler" where
  "keyDeleteHandler e = plain_handler (key_delete_body e)"

interpretation keygen_audited: audited_handler "keyGenHandler e salt nonce fresh" False
  by unfold_locales (auto simp: keyGenHandler_def dest: plain_handler_records)

interpretation keyaddr_audited: audited_handler "keyAddrHandler e" False
  by unfold_locales (auto simp: keyAddrHandler_def dest: plain_handler_records)

interpretation keylist_audited: audited_handler "keyListHandler e" False
  by unfold_locales (auto simp: keyListHandler_def dest: plain_handler_records)

interpretation keydelete_audited: audited_handler "keyDeleteHandler e" False
  by unfold_locales (auto simp: keyDeleteHandler_def dest: plain_handler_records)

subsection \<open>Own keys only\<close>

definition send_tx :: "env \<Rightarrow> agent_signer \<Rightarrow> string \<Rightarrow> int64 \<Rightarrow> event \<Rightarrow> bool" where
  "send_tx e sg toAddr amount ev \<longleftrightarrow>
     0 < amount \<and> (\<exists>t. lib_addr (en_lib e) toAddr = Some t \<and> agent_tx_of (Some sg) (\<lambda>a. MsgSend a t [(ugnot_denom, amount)]) ev)"

lemma send_commits: "commits False (send_tx e sg toAddr amount) (Send_real nd (en_lib e) (Some sg) toAddr amount)"
proof -
  have "send_tx e sg toAddr amount = (\<lambda>ev. 0 < amount \<and> (\<exists>t. lib_addr (en_lib e) toAddr = Some t \<and> agent_tx_of (Some sg) (\<lambda>a. MsgSend a t [(ugnot_denom, amount)]) ev))"
    by (simp add: fun_eq_iff send_tx_def)
  then show ?thesis
    by (simp only:) (rule commits_cases, simp_all add: Send_one_write success_commits_send)
qed

definition send_request :: "env \<Rightarrow> (rat \<Rightarrow> int64) \<Rightarrow> (int64 \<Rightarrow> rat) \<Rightarrow> args \<Rightarrow> world \<Rightarrow> string \<Rightarrow> Profile \<Rightarrow> string \<Rightarrow> string \<Rightarrow> int64 \<Rightarrow> bool" where
  "send_request e oor f64 a w profileName p fromKey toKey amount \<longleftrightarrow>
     requireProfile e a = Inr (profileName, p) \<and> StringArg a ''from'' = Inr fromKey \<and> StringArg a ''to'' = Inr toKey \<and> toKey \<noteq> [] \<and>
     Int64Arg oor f64 a ''amount'' = Inr amount"

definition send_committed :: "env \<Rightarrow> (rat \<Rightarrow> int64) \<Rightarrow> (int64 \<Rightarrow> rat) \<Rightarrow> args \<Rightarrow> world \<Rightarrow> event \<Rightarrow> bool" where
  "send_committed e oor f64 a w ev \<longleftrightarrow>
     (\<exists>profileName p fromKey toKey amount sg fromAddr toAddr.
        send_request e oor f64 a w profileName p fromKey toKey amount \<and> 0 < amount \<and>
        agentSigner e (wo_keys w) ''gno_key_send'' ''create or fund it with gno_key_generate / gno_faucet_fund'' profileName fromKey p = Inr (sg, fromAddr) \<and>
        agent_address e w profileName toKey p = Inr toAddr \<and> fromAddr \<noteq> toAddr \<and> send_tx e sg toAddr amount ev)"

definition send_true :: "env \<Rightarrow> (rat \<Rightarrow> int64) \<Rightarrow> (int64 \<Rightarrow> rat) \<Rightarrow> args \<Rightarrow> world \<Rightarrow> world \<times> audit_entry \<times> (tool_error + tool_result) \<Rightarrow> bool" where
  "send_true e oor f64 a w out \<longleftrightarrow>
     (case out of (w', entry, res) \<Rightarrow>
        ae_Tool entry = ''gno_key_send'' \<and> w' = w\<lparr>wo_rpc := wo_rpc w'\<rparr> \<and> (\<not> isl res \<longleftrightarrow> ae_Result entry = ''ok'') \<and>
        (ae_Result entry = ''tool_err'' \<longrightarrow> wo_rpc w' = wo_rpc w) \<and> (ae_Result entry = ''ok'' \<longrightarrow> writes (wo_rpc w) (wo_rpc w') \<noteq> []) \<and>
        (writes (wo_rpc w) (wo_rpc w') = [] \<or> (\<exists>ev. writes (wo_rpc w) (wo_rpc w') = [ev] \<and> send_committed e oor f64 a w ev)))"

lemma send_true_quiet:
  "ae_Tool entry = ''gno_key_send'' \<Longrightarrow> ae_Result entry = ''tool_err'' \<Longrightarrow> send_true e oor f64 a w (w, entry, Inl err)"
  by (simp add: send_true_def)

lemma key_send_args:
  assumes "bindS (arg e StringArg a ''from'') (\<lambda>fromKey. bindS (arg e StringArg a ''to'') (\<lambda>toKey.
      if toKey = [] then Inl x else bindS (arg e (Int64Arg oor f64) a ''amount'') (\<lambda>amount. Inr (fromKey, toKey, amount)))) = Inr (f, t, n)"
    and "requireProfile e a = Inr (profileName, p)"
  shows "send_request e oor f64 a w profileName p f t n"
  using assms by (auto simp: send_request_def bindS_def arg_def split: sum.splits if_splits)

lemma key_send_body_true: "send_true e oor f64 a w (key_send_body e oor f64 a w)"
proof (cases "requireProfile e a")
  case (Inl err)
  then show ?thesis by (simp add: key_send_body_def denial_def send_true_quiet)
next
  case (Inr np)
  then obtain profileName p where rp: "requireProfile e a = Inr (profileName, p)" by (cases np) auto
  let ?args = "bindS (arg e StringArg a ''from'') (\<lambda>fromKey. bindS (arg e StringArg a ''to'') (\<lambda>toKey.
      if toKey = [] then Inl (PlainError (''to: required'' @ dash @ ''the destination key name''))
      else bindS (arg e (Int64Arg oor f64) a ''amount'') (\<lambda>amount. Inr (fromKey, toKey, amount))))"
  show ?thesis
  proof (cases ?args)
    case (Inl err)
    then show ?thesis using rp by (simp add: key_send_body_def denial_def send_true_quiet)
  next
    case (Inr q)
    then obtain f t n where q: "?args = Inr (f, t, n)" by (cases q) auto
    note req = key_send_args [OF q rp, of w]
    show ?thesis
    proof (cases "n \<le> 0 \<or> isl (agent_address e w profileName t p) \<or> en_resolver e profileName = None")
      case True
      show ?thesis
      proof (cases "n \<le> 0")
        case True
        then show ?thesis using rp q by (simp add: key_send_body_def denial_def send_true_quiet)
      next
        case n: False
        show ?thesis
          by (cases "agent_address e w profileName t p")
            (use rp q n True in \<open>simp_all add: key_send_body_def denial_def send_true_quiet\<close>)
      qed
    next
      case False
      then obtain toAddr c where n: "0 < n" and ta: "agent_address e w profileName t p = Inr toAddr" and c: "en_resolver e profileName = Some c"
        by (cases "agent_address e w profileName t p") auto
      let ?ac = "acquireAgentSigner e c w ''gno_key_send'' ''create or fund it with gno_key_generate / gno_faucet_fund'' profileName f p False"
      show ?thesis
      proof (cases ?ac)
        case (Inl err)
        then show ?thesis using rp q n ta c by (simp add: key_send_body_def denial_def send_true_quiet)
      next
        case (Inr sa)
        then obtain sg fromAddr where ac: "?ac = Inr (sg, fromAddr)" by (cases sa) auto
        show ?thesis
        proof (cases "fromAddr = toAddr")
          case True
          then show ?thesis using rp q n ta c ac by (simp add: key_send_body_def denial_def send_true_quiet)
        next
          case ne: False
          obtain h1 r where s: "Send_real (cl_node c) (en_lib e) (Some sg) toAddr n (wo_rpc w) = (h1, r)" by force
          have Q: "send_tx e sg toAddr n ev \<Longrightarrow> send_committed e oor f64 a w ev" for ev
            unfolding send_committed_def using req n acquire_agentSigner [OF ac] ta ne by blast
          have "writes (wo_rpc w) h1 = [] \<or> (\<exists>ev. writes (wo_rpc w) h1 = [ev] \<and> send_committed e oor f64 a w ev)"
              "\<not> isl r \<Longrightarrow> writes (wo_rpc w) h1 \<noteq> []"
            using send_commits [of e sg toAddr n "cl_node c"] s Q unfolding commits_def by blast+
          then show ?thesis using rp q n ta c ac ne s
            by (cases r) (simp_all add: key_send_body_def denial_def run_rpc_def send_true_def)
        qed
      qed
    qed
  qed
qed

text \<open>
  C34. Coins move between own, distinct keys only. Whatever the arguments, gno\_key\_send commits at most
  one transaction: a bank transfer of exactly the requested, positive amount, signed by the source
  key of the profile, to the address of another key stored for the same profile. It succeeds exactly
  when its record says ok, and then the transfer was sent; under tool\_err the node was sent nothing.
\<close>

theorem key_send_own_keys:
  assumes "keySendHandler e oor f64 a w = (w', es, out)"
  shows "\<exists>entry. es = [entry] \<and> ae_Tool entry = ''gno_key_send'' \<and> wo_keys w' = wo_keys w \<and>
     ((\<exists>r. out = Returned r) \<longleftrightarrow> ae_Result entry = ''ok'') \<and>
     (ae_Result entry = ''tool_err'' \<longrightarrow> wo_rpc w' = wo_rpc w) \<and>
     (ae_Result entry = ''ok'' \<longrightarrow> writes (wo_rpc w) (wo_rpc w') \<noteq> []) \<and>
     (writes (wo_rpc w) (wo_rpc w') = [] \<or>
      (\<exists>ev. writes (wo_rpc w) (wo_rpc w') = [ev] \<and> send_committed e oor f64 a w ev))"
proof -
  obtain entry r where b: "key_send_body e oor f64 a w = (w', entry, r)" "es = [entry]" "(\<exists>x. out = Returned x) \<longleftrightarrow> \<not> isl r"
    using self_audited_outcome [OF assms [unfolded keySendHandler_def]] by auto
  have t: "send_true e oor f64 a w (w', entry, r)" using key_send_body_true [of e oor f64 a w] b(1) by simp
  then have "w' = w\<lparr>wo_rpc := wo_rpc w'\<rparr>" unfolding send_true_def by simp
  from only_rpc [OF this] show ?thesis
    by (intro exI [of _ entry]) (use b(2,3) t in \<open>simp add: send_true_def\<close>)
qed

text \<open>
  The tool is registered without \<open>SelfAudited\<close>, so the adapter adds its own record to the handler's.
\<close>

lemma key_send_two_records:
  assumes "Registry_Get reg (tl_Name t) = Some t" "tl_Handler t = Some (keySendHandler e oor f64)" "\<not> tl_SelfAudited t"
    and "tl_Capability t = CapWrite" "makeHandler quote marshal t reg sv auditReads raw s = (s', es, r)" "\<And>x. raw \<noteq> Some (Inl x)"
  shows "length es = 2"
proof -
  obtain a s1 es1 out where h: "keySendHandler e oor f64 a s = (s1, es1, out)" "length es = length es1 + 1"
    using assms by (cases "keySendHandler e oor f64 (applyProfileDefault t sv (case raw of Some (Inr a) \<Rightarrow> a | _ \<Rightarrow> Map.empty)) s")
      (auto simp: makeHandler_def Registry_Call_def Let_def shouldAuditAtAdapter_def split: option.splits sum.splits)
  with self_audited_records [of "key_send_body e oor f64" a s s1 es1 out] show ?thesis by (simp add: keySendHandler_def)
qed

subsection \<open>Deleting a key loses no money unasked\<close>

definition sweep_tx :: "env \<Rightarrow> world \<Rightarrow> string \<Rightarrow> Profile \<Rightarrow> string \<Rightarrow> string \<Rightarrow> int64 \<Rightarrow> event \<Rightarrow> bool" where
  "sweep_tx e w profileName p keyName sweepTo amount ev \<longleftrightarrow>
     sweepTo \<noteq> keyName \<and>
     (\<exists>sg toAddr. SignerForProfile (en_ksio e) (en_aead e) (en_signers e) (en_ks e) (wo_keys w) profileName keyName p = Inr sg \<and>
        agent_address e w profileName sweepTo p = Inr toAddr \<and> send_tx e sg toAddr amount ev)"

text \<open>What a sweep sent: nothing, or the balance less the fee of the moment.\<close>

definition swept_ok :: "env \<Rightarrow> client \<Rightarrow> string \<Rightarrow> string \<Rightarrow> string \<Rightarrow> int64 \<Rightarrow> Profile \<Rightarrow> world \<Rightarrow> event list \<Rightarrow> bool \<Rightarrow> bool" where
  "swept_ok e c profileName keyName sweepTo bal p w h' done \<longleftrightarrow>
     (writes (wo_rpc w) h' = [] \<or>
      (\<exists>fee h ev. gas_fee (cl_node c) (en_lib e) DefaultGasWanted (wo_rpc w) = (h, Inr fee) \<and> fee < bal \<and>
         writes (wo_rpc w) h' = [ev] \<and> sweep_tx e w profileName p keyName sweepTo (i64 (bal - fee)) ev)) \<and>
     (done \<longrightarrow> (\<exists>fee h. gas_fee (cl_node c) (en_lib e) DefaultGasWanted (wo_rpc w) = (h, Inr fee) \<and>
         (bal \<le> fee \<or> writes (wo_rpc w) h' \<noteq> [])))"

lemma sweep_cases:
  assumes "sweepBeforeDelete e c profileName keyName sweepTo bal p w = (w1, r)"
  shows "w1 = w\<lparr>wo_rpc := wo_rpc w1\<rparr> \<and> swept_ok e c profileName keyName sweepTo bal p w (wo_rpc w1) (\<not> isl r)"
proof (cases "sweepTo = keyName \<or> isl (agent_address e w profileName sweepTo p)")
  case True
  then have "w1 = w \<and> isl r" using assms by (auto simp: sweepBeforeDelete_def split: sum.splits if_splits)
  then show ?thesis by (simp add: swept_ok_def)
next
  case False
  then obtain toAddr where ne: "sweepTo \<noteq> keyName" and ta: "agent_address e w profileName sweepTo p = Inr toAddr"
    by (cases "agent_address e w profileName sweepTo p") auto
  obtain h1 fr where f: "gas_fee (cl_node c) (en_lib e) DefaultGasWanted (wo_rpc w) = (h1, fr)" by force
  have g1: "grows (wo_rpc w) h1" "writes (wo_rpc w) h1 = []" using quiet_writes [OF quiet_gas_fee f] by simp_all
  show ?thesis
  proof (cases fr)
    case (Inl err)
    then have "w1 = w\<lparr>wo_rpc := h1\<rparr>" "isl r" using assms ne ta f by (auto simp: sweepBeforeDelete_def run_rpc_def)
    then show ?thesis using g1 by (simp add: swept_ok_def)
  next
    case fee: (Inr fee)
    show ?thesis
    proof (cases "bal \<le> fee")
      case True
      then have "w1 = w\<lparr>wo_rpc := h1\<rparr>" "r = Inr 0" using assms ne ta f fee by (auto simp: sweepBeforeDelete_def run_rpc_def)
      then show ?thesis using g1 f fee True by (simp add: swept_ok_def)
    next
      case lt: False
      show ?thesis
      proof (cases "SignerForProfile (en_ksio e) (en_aead e) (en_signers e) (en_ks e) (wo_keys w) profileName keyName p")
        case (Inl err)
        then have "w1 = w\<lparr>wo_rpc := h1\<rparr>" "isl r" using assms ne ta f fee lt by (auto simp: sweepBeforeDelete_def run_rpc_def)
        then show ?thesis using g1 by (simp add: swept_ok_def)
      next
        case sg: (Inr sg)
        obtain h2 sr where s: "Send_real (cl_node c) (en_lib e) (Some sg) toAddr (i64 (bal - fee)) h1 = (h2, sr)" by force
        have c: "grows h1 h2" "writes h1 h2 = [] \<or> (\<exists>ev. writes h1 h2 = [ev] \<and> send_tx e sg toAddr (i64 (bal - fee)) ev)"
            "\<not> isl sr \<Longrightarrow> writes h1 h2 \<noteq> []"
          using send_commits [of e sg toAddr "i64 (bal - fee)" "cl_node c"] s unfolding commits_def by blast+
        have w2: "writes (wo_rpc w) h2 = writes h1 h2" using writes_append [OF g1(1) c(1)] g1(2) by simp
        have "w1 = w\<lparr>wo_rpc := h2\<rparr>" "isl r = isl sr"
          using assms ne ta f fee lt sg s by (auto simp: sweepBeforeDelete_def run_rpc_def split: sum.splits)
        moreover have "sweep_tx e w profileName p keyName sweepTo (i64 (bal - fee)) ev" if "send_tx e sg toAddr (i64 (bal - fee)) ev" for ev
          using that ne ta sg unfolding sweep_tx_def by blast
        ultimately show ?thesis using c(2,3) w2 f fee lt by (auto simp: swept_ok_def)
      qed
    qed
  qed
qed

definition key_deleted :: "env \<Rightarrow> args \<Rightarrow> world \<Rightarrow> world \<Rightarrow> bool \<Rightarrow> bool" where
  "key_deleted e a w w' done \<longleftrightarrow>
     (\<exists>profileName p keyName force sweepTo addr c bal name.
        requireProfile e a = Inr (profileName, p) \<and> delete_args e a = Inr (keyName, force, sweepTo) \<and> IsTestnet p \<and>
        agent_address e w profileName keyName p = Inr addr \<and> en_resolver e profileName = Some c \<and>
        Balance (cl_account c (wo_rpc w)) (en_lib e) addr = Inr bal \<and>
        (if sweepTo = [] then wo_rpc w' = wo_rpc w \<and> (bal \<le> 0 \<or> force)
         else swept_ok e c profileName keyName sweepTo bal p w (wo_rpc w') done) \<and>
        (if done then resolveKeyName keyName = Inr name \<and>
           wo_keys w' = fdel (wo_keys w) (profileDir (en_ks e) profileName) (keyFile name)
         else wo_keys w' = wo_keys w))"

lemma key_deletedI:
  assumes "requireProfile e a = Inr (profileName, p)" "delete_args e a = Inr (keyName, force, sweepTo)" "IsTestnet p"
    and "agent_address e w profileName keyName p = Inr addr" "en_resolver e profileName = Some c"
    and "Balance (cl_account c (wo_rpc w)) (en_lib e) addr = Inr bal"
    and "if sweepTo = [] then wo_rpc w' = wo_rpc w \<and> (bal \<le> 0 \<or> force)
         else swept_ok e c profileName keyName sweepTo bal p w (wo_rpc w') done"
    and "if done then resolveKeyName keyName = Inr name \<and> wo_keys w' = fdel (wo_keys w) (profileDir (en_ks e) profileName) (keyFile name)
         else wo_keys w' = wo_keys w"
  shows "key_deleted e a w w' done"
  unfolding key_deleted_def using assms by blast

definition delete_true :: "env \<Rightarrow> args \<Rightarrow> world \<Rightarrow> world \<times> (tool_error + tool_result) \<Rightarrow> bool" where
  "delete_true e a w out \<longleftrightarrow>
     (case out of (w', r) \<Rightarrow> wo_mgr w' = wo_mgr w \<and>
        (if isl r then wo_keys w' = wo_keys w \<and> (wo_rpc w' = wo_rpc w \<or> key_deleted e a w w' False) else key_deleted e a w w' True))"

lemma delete_true_quiet: "delete_true e a w (w, Inl err)" by (simp add: delete_true_def)

lemma swept_ok_mono: "swept_ok e c n k s bal p w h True \<Longrightarrow> swept_ok e c n k s bal p w h False"
  by (simp add: swept_ok_def)

lemma delete_step_true:
  assumes "requireProfile e a = Inr (profileName, p)" "delete_args e a = Inr (keyName, force, sweepTo)" "IsTestnet p"
    and "agent_address e w profileName keyName p = Inr addr" "en_resolver e profileName = Some c"
    and "Balance (cl_account c (wo_rpc w)) (en_lib e) addr = Inr bal" "w1 = w\<lparr>wo_rpc := h\<rparr>"
    and "if sweepTo = [] then h = wo_rpc w \<and> (bal \<le> 0 \<or> force) else swept_ok e c profileName keyName sweepTo bal p w h True"
  shows "delete_true e a w (delete_step e profileName keyName p res w1)"
proof -
  obtain keys r where d: "DeleteForProfile (en_ksio e) (en_aead e) (en_signers e) (en_ks e) (wo_keys w) profileName keyName p = (keys, r)" by force
  show ?thesis
  proof (cases r)
    case (Inl err)
    then have "keys = wo_keys w" using Delete_cases [OF d] by auto
    moreover have "key_deleted e a w (w\<lparr>wo_rpc := h\<rparr>) False"
      using assms(8) swept_ok_mono [of e c profileName keyName sweepTo bal p w h]
      by (intro key_deletedI [OF assms(1-6)]) (simp_all split: if_splits)
    ultimately show ?thesis using d Inl assms(7) by (simp add: delete_step_def delete_true_def)
  next
    case (Inr x)
    then obtain name where n: "resolveKeyName keyName = Inr name"
        "keys = fdel (wo_keys w) (profileDir (en_ks e) profileName) (keyFile name)" using Delete_cases [OF d] by auto
    have "key_deleted e a w (w\<lparr>wo_rpc := h, wo_keys := keys\<rparr>) True"
      using assms(8) n by (intro key_deletedI [OF assms(1-6)]) simp_all
    then show ?thesis using d Inr assms(7) by (simp add: delete_step_def delete_true_def)
  qed
qed

lemma key_delete_body_true: "delete_true e a w (key_delete_body e a w)"
proof (cases "requireProfile e a")
  case (Inl err)
  then show ?thesis by (simp add: key_delete_body_def delete_true_quiet)
next
  case (Inr np)
  then obtain profileName p where rp: "requireProfile e a = Inr (profileName, p)" by (cases np) auto
  show ?thesis
  proof (cases "delete_args e a")
    case (Inl err)
    then show ?thesis using rp by (simp add: key_delete_body_def delete_true_quiet)
  next
    case (Inr q)
    then obtain keyName force sweepTo where q: "delete_args e a = Inr (keyName, force, sweepTo)" by (cases q) auto
    show ?thesis
    proof (cases "IsTestnet p")
      case False
      then show ?thesis using rp q by (simp add: key_delete_body_def delete_true_quiet)
    next
      case t: True
      show ?thesis
      proof (cases "agent_address e w profileName keyName p")
        case (Inl err)
        then show ?thesis using rp q t by (simp add: key_delete_body_def delete_true_quiet)
      next
        case ad: (Inr addr)
        show ?thesis
        proof (cases "en_resolver e profileName")
          case None
          then show ?thesis using rp q t ad by (simp add: key_delete_body_def delete_true_quiet)
        next
          case c: (Some c)
          show ?thesis
          proof (cases "Balance (cl_account c (wo_rpc w)) (en_lib e) addr")
            case (Inl err)
            then show ?thesis using rp q t ad c by (simp add: key_delete_body_def delete_true_quiet)
          next
            case b: (Inr bal)
            note st = delete_step_true [OF rp q t ad c b]
            show ?thesis
            proof (cases "sweepTo = []")
              case True
              show ?thesis
              proof (cases "bal > 0 \<and> \<not> force")
                case refused: True
                then show ?thesis using True rp q t ad c b by (simp add: key_delete_body_def delete_true_quiet)
              next
                case go: False
                then have "bal \<le> 0 \<or> force" by auto
                then show ?thesis using True go rp q t ad c b st [of w "wo_rpc w"] by (auto simp: key_delete_body_def)
              qed
            next
              case sw: False
              obtain w1 r where s: "sweepBeforeDelete e c profileName keyName sweepTo bal p w = (w1, r)" by force
              note sc = sweep_cases [OF s]
              show ?thesis
              proof (cases r)
                case (Inl err)
                then have ok: "swept_ok e c profileName keyName sweepTo bal p w (wo_rpc w1) False" using sc by simp
                have k: "wo_keys w1 = wo_keys w" "wo_mgr w1 = wo_mgr w" using only_rpc sc by blast+
                have "key_deleted e a w w1 False"
                  using sw ok k by (intro key_deletedI [OF rp q t ad c b]) simp_all
                then show ?thesis using rp q t ad c b sw s Inl k by (simp add: key_delete_body_def delete_true_def)
              next
                case (Inr n)
                have "swept_ok e c profileName keyName sweepTo bal p w (wo_rpc w1) True" using sc Inr by simp
                then show ?thesis using rp q t ad c b sw s Inr st [of w1 "wo_rpc w1"] sc by (simp add: key_delete_body_def)
              qed
            qed
          qed
        qed
      qed
    qed
  qed
qed


subsection \<open>Two keys on a test network, for the witnesses\<close>

definition demo_keys :: fsys where
  "demo_keys = [''/k/net'' \<mapsto> [(''default.key'', CHR 0x00 # ''w''), (''bob.key'', CHR 0x00 # ''v'')]]"

definition demo_keys_world :: world where "demo_keys_world = demo_world\<lparr>wo_keys := demo_keys\<rparr>"

definition demo_named :: "string \<Rightarrow> agent_signer" where
  "demo_named m = demo_agent\<lparr>as_Info := Inr (''g1'' @ m)\<rparr>"

definition demo_net :: Profile where "demo_net = demo_dyn\<lparr>ChainID := ''test-1''\<rparr>"

definition demo_keys_env :: env where
  "demo_keys_env = demo_env\<lparr>en_derive := (\<lambda>m c. Inr (demo_named m)), en_lib := demo_lib\<lparr>lib_amount_of := (\<lambda>c d. 50000)\<rparr>\<rparr>"

lemma demo_signers_named:
  "SignerForProfile (en_ksio demo_keys_env) (en_aead demo_keys_env) (en_signers demo_keys_env) (en_ks demo_keys_env) (wo_keys demo_keys_world)
     ''net'' ''bob'' demo_net = Inr (demo_named ''v'') \<and>
   SignerForProfile (en_ksio demo_keys_env) (en_aead demo_keys_env) (en_signers demo_keys_env) (en_ks demo_keys_env) (wo_keys demo_keys_world)
     ''net'' [] demo_net = Inr (demo_named ''w'')"
proof -
  have "loadMnemonic (io_ok ''.tmp'') demo_aead \<lparr>ks_rootDir = ''/k'', ks_passphrase = [], ks_maxKeys = 5\<rparr> demo_keys ''net'' ''bob'' = Inr ''v''"
    "loadMnemonic (io_ok ''.tmp'') demo_aead \<lparr>ks_rootDir = ''/k'', ks_passphrase = [], ks_maxKeys = 5\<rparr> demo_keys ''net'' ''default'' = Inr ''w''"
    "resolveKeyName ''bob'' = Inr ''bob''" "resolveKeyName [] = Inr ''default''" "requireValidProfileName ''net'' = None"
    "\<not> IsReadOnly demo_net" "\<not> IsLocal demo_net" by code_simp+
  then show ?thesis by (simp add: SignerForProfile_def demo_keys_env_def demo_keys_world_def demo_env_def en_signers_def)
qed

lemma demo_net_facts: "IsTestnet demo_net" "server_profile (en_server demo_keys_env) ''net'' = Some demo_net"
proof -
  show "IsTestnet demo_net" by code_simp
  show "server_profile (en_server demo_keys_env) ''net'' = Some demo_net"
    by (simp add: demo_keys_env_def demo_net_def env_simps)
qed

lemma demo_keys_fields [simp]:
  "en_resolver demo_keys_env n = Some demo_client" "en_lib demo_keys_env = demo_lib\<lparr>lib_amount_of := (\<lambda>c d. 50000)\<rparr>"
  "wo_rpc demo_keys_world = []" "wo_mgr demo_keys_world = wo_mgr demo_world"
  by (simp_all add: demo_keys_env_def demo_keys_world_def)

lemma demo_named_info [simp]: "as_Info (demo_named m) = Inr (''g1'' @ m)" by (simp add: demo_named_def)

lemma demo_addresses:
  "agent_address demo_keys_env demo_keys_world ''net'' ''bob'' demo_net = Inr ''g1v''"
  "agent_address demo_keys_env demo_keys_world ''net'' [] demo_net = Inr ''g1w''"
  "agentSigner demo_keys_env (wo_keys demo_keys_world) tool hint ''net'' [] demo_net = Inr (demo_named ''w'', ''g1w'')"
  using demo_signers_named by (simp_all add: agent_address_def AgentAddress_def agentSigner_def en_signers_def)

lemma demo_balance: "Balance (cl_account demo_client h) (demo_lib\<lparr>lib_amount_of := (\<lambda>c d. 50000)\<rparr>) a = Inr 50000"
  by (simp add: Balance_def Account_def demo_client_def)

definition demo_send_args :: args where
  "demo_send_args = [''profile'' \<mapsto> JStr ''net'', ''to'' \<mapsto> JStr ''bob'', ''amount'' \<mapsto> JInt 5]"

lemma demo_send_run:
  "list_ex is_write (fst (Send_real demo_node (demo_lib\<lparr>lib_amount_of := f\<rparr>) (Some (demo_named ''w'')) ''g1v'' 5 h)) \<and>
   \<not> isl (snd (Send_real demo_node (demo_lib\<lparr>lib_amount_of := f\<rparr>) (Some (demo_named ''w'')) ''g1v'' 5 h))"
proof -
  have "gas_fee demo_node demo_lib DefaultGasWanted h = (h @ [EvQuery QueryPath []], Inr 20000)" by (rule demo_fee_floor)
  moreover have "gas_fee demo_node (demo_lib\<lparr>lib_amount_of := f\<rparr>) DefaultGasWanted h = gas_fee demo_node demo_lib DefaultGasWanted h"
    by (simp add: gas_fee_def)
  ultimately have "gas_fee demo_node (demo_lib\<lparr>lib_amount_of := f\<rparr>) DefaultGasWanted h = (h @ [EvQuery QueryPath []], Inr 20000)" by simp
  then show ?thesis
    by (simp add: Send_real_def run_simps agentTxSetup_def Let_def) (simp add: demo_node_def demo_lib_def)
qed

lemma key_send_own_keys_witness:
  "\<exists>entry ev. fst (snd (keySendHandler demo_keys_env floor of_int demo_send_args demo_keys_world)) = [entry] \<and>
     writes [] (wo_rpc (fst (keySendHandler demo_keys_env floor of_int demo_send_args demo_keys_world))) = [ev] \<and>
     send_committed demo_keys_env floor of_int demo_send_args demo_keys_world ev"
proof -
  obtain w' es out where c: "keySendHandler demo_keys_env floor of_int demo_send_args demo_keys_world = (w', es, out)" using prod_cases3 by blast
  have q: "requireProfile demo_keys_env demo_send_args = Inr (''net'', demo_net)" "arg demo_keys_env StringArg demo_send_args ''from'' = Inr []"
      "arg demo_keys_env StringArg demo_send_args ''to'' = Inr ''bob''" "arg demo_keys_env (Int64Arg floor of_int) demo_send_args ''amount'' = Inr 5"
    using demo_net_facts by (simp_all add: demo_send_args_def requireProfile_def arg_def bindS_def StringArg_def Int64Arg_def)
  obtain h r where o: "Send_real demo_node (demo_lib\<lparr>lib_amount_of := \<lambda>c d. 50000\<rparr>) (Some (demo_named ''w'')) ''g1v'' 5 [] = (h, Inr r)" "list_ex is_write h"
    using demo_send_run not_isl_Inr by (metis prod.collapse)
  have "wo_rpc w' = h" using c q o(1) demo_addresses demo_net_facts(1)
    by (auto simp: keySendHandler_def self_audited_def key_send_body_def acquireAgentSigner_def bindS_def run_rpc_def requireFunded_def
        demo_balance Let_def)
  then have "writes (wo_rpc demo_keys_world) (wo_rpc w') \<noteq> []"
    using o(2) by (simp add: writes_def filter_empty_conv list_ex_iff)
  then show ?thesis using key_send_own_keys [OF c] unfolding c by auto
qed

definition demo_delete_args :: args where
  "demo_delete_args = [''profile'' \<mapsto> JStr ''net'', ''key'' \<mapsto> JStr ''bob'', ''force'' \<mapsto> JBool True]"


end
