(* ===== verification/Sessiontools.thy ===== *)
theory Sessiontools
  imports Dispatch
begin

section \<open>The session tools: internal/tools/write session\_propose.go, session\_revoke.go and auth\_status.go\<close>

text \<open>
  A session is authority over the user's own account. Proposing one resolves its scope against the
  live fee, makes a key pair, stores it pending and prints the command only the user can run; the
  tools never sign for the master. A master address the caller passes may be a pasted seed phrase, so
  a refused one must not come back in the error. The status tool reconciles every session of a
  profile with the chain.
\<close>

subsection \<open>gno\_session\_propose\<close>

text \<open>
  What the proposal takes from outside: the scope validators, a fresh key pair (\<open>None\<close> when the
  random source fails), the two readings of the clock, and the rendering of scope errors and
  warnings.
\<close>

record keypair =
  kp_Address :: string
  kp_PubkeyBech32 :: string
  kp_priv :: bytes

record propose_env =
  pe_isRealm :: "string \<Rightarrow> bool"
  pe_parseDuration :: "string \<Rightarrow> duration option"
  pe_keypair :: "string + keypair"
  pe_now :: time
  pe_later :: time
  pe_scope_text :: "scope_error \<Rightarrow> string"
  pe_warning_text :: "scope_warning \<Rightarrow> string"

definition writesBudgetNote :: string where
  "writesBudgetNote =
     ''That count is an upper bound: writes heavy enough to size above the floor gas limit cost proportionally more, and a write that stores new state also draws the storage deposit it locks from the limit. Every write is re-checked against the remaining limit before broadcast.''"

definition seed_phrase_text :: string where
  "seed_phrase_text =
     ''that looks like a seed phrase, not an address'' @ dash @
     ''paste ONLY your PUBLIC g1... address (one token, no spaces); never a private key or seed phrase''"

definition bad_master_text :: string where
  "bad_master_text = ''invalid master_address: want your PUBLIC bech32 address (starts with g1), not a private key or seed phrase''"

definition has_space :: "string \<Rightarrow> bool" where
  "has_space s \<longleftrightarrow> list_ex (\<lambda>c. c \<in> {CHR '' '', CHR 0x09, CHR 0x0D, CHR 0x0A}) s"

definition validateUserMasterAddress :: "lib \<Rightarrow> string \<Rightarrow> string option" where
  "validateUserMasterAddress l s =
     (if has_space s then Some seed_phrase_text
      else if lib_addr l s = None then Some bad_master_text
      else None)"

definition propose_args :: "env \<Rightarrow> args \<Rightarrow> tool_error + ScopeArgs \<times> string" where
  "propose_args e a =
     bindS (arg e StringSliceArg a ''allow_paths'') (\<lambda>allowPaths.
     bindS (arg e BoolArg a ''allow_run'') (\<lambda>allowRun.
     bindS (arg e StringArg a ''spend_limit'') (\<lambda>spendLimit.
     bindS (arg e StringArg a ''expires_in'') (\<lambda>expiresIn.
     bindS (arg e StringArg a ''master_address'') (\<lambda>userMaster.
       Inr (\<lparr>arg_SpendLimit = spendLimit, arg_ExpiresIn = expiresIn, arg_AllowPaths = allowPaths, arg_AllowRun = allowRun\<rparr>,
            userMaster))))))"

definition resolve_master :: "env \<Rightarrow> string \<Rightarrow> Profile \<Rightarrow> string \<Rightarrow> tool_error + string" where
  "resolve_master e profileName p userMaster =
     (case (if userMaster \<noteq> [] then validateUserMasterAddress (en_lib e) userMaster else None) of
        Some msg \<Rightarrow> Inl (ToolError ''invalid_master_address'' msg (profile_extra profileName))
      | None \<Rightarrow>
          (let master = (if userMaster \<noteq> [] then userMaster else MasterAddress p)
           in if master = [] then
                Inl (ToolError ''no_master_address''
                  (''profile '' @ en_quote e profileName @ '' has no master-address'' @ dash @
                   ''pass master_address (your PUBLIC g1... address, NOT a private key or seed phrase) so the session can act as you; or set master-address in profiles.toml'')
                  (profile_extra profileName))
              else Inr master))"

definition propose_text ::
  "env \<Rightarrow> propose_env \<Rightarrow> string \<Rightarrow> Scope \<Rightarrow> keypair \<Rightarrow> int64 \<Rightarrow> scope_warning list \<Rightarrow> string \<Rightarrow> string" where
  "propose_text e pe profileName sc kp fee warnings cmd =
     ''Session proposed for profile '' @ en_quote e profileName @ ''.'' @ nl @ nl @ ''Proposed scope:'' @ nl @
     ''  - allow_paths: '' @ Join (AllowPaths sc) '', '' @ nl @
     ''  - allow_run: '' @ (if AllowRun sc then ''true'' else ''false'') @ nl @
     (if SpendLimit sc \<noteq> [] then ''  - spend_limit: '' @ SpendLimit sc @ nl else []) @
     (if ExpiresIn sc > 0 then ''  - expires_in: '' @ en_duration_text e (ExpiresIn sc) @ nl else []) @
     ''  - session_address: '' @ kp_Address kp @ nl @
     (case WritesAtFee sc fee of
        None \<Rightarrow> []
      | Some n \<Rightarrow>
          nl @ ''Spend math: each write consumes its full offered gas fee'' @ dash @ ''currently '' @ show_int fee @
          ''ugnot per light write at this chain's live gas price'' @ dash @ ''from the spend limit, so '' @ SpendLimit sc @
          '' covers ~'' @ show_int n @ '' light write(s). '' @ writesBudgetNote @ nl) @
     (if warnings \<noteq> [] then nl @ concat (map (\<lambda>x. pe_warning_text pe x @ nl) warnings) else []) @
     nl @ ''To authorize, run this in a terminal where your master key is available:'' @ nl @ nl @
     ''```'' @ nl @ cmd @ nl @ ''```'' @ nl @ nl @
     ''After you run that, retry your original tool call. gnomcp will detect the active'' @ nl @
     ''session on chain and use it to sign.'' @ nl"

definition propose_fields ::
  "env \<Rightarrow> propose_env \<Rightarrow> string \<Rightarrow> Scope \<Rightarrow> keypair \<Rightarrow> int64 \<Rightarrow> scope_warning list \<Rightarrow> string \<Rightarrow> (string \<times> json) list" where
  "propose_fields e pe profileName sc kp fee warnings cmd =
     [(''state'', JStr ''pending''), (''profile'', JStr profileName), (''session_address'', JStr (kp_Address kp)),
      (''session_pubkey'', JStr (kp_PubkeyBech32 kp)),
      (''scope'', JObj [(''allow_paths'', JArr (map JStr (AllowPaths sc))), (''allow_run'', JBool (AllowRun sc)),
                        (''spend_limit'', JStr (SpendLimit sc)), (''expires_in'', JStr (en_duration_text e (ExpiresIn sc)))]),
      (''auth_command'', JStr cmd), (''clamp_warnings'', JArr (map (\<lambda>x. JStr (pe_warning_text pe x)) warnings)),
      (''per_write_fee_ugnot'', JInt fee)] @
     (case WritesAtFee sc fee of
        None \<Rightarrow> []
      | Some n \<Rightarrow> [(''writes_budget'', JInt n), (''writes_budget_note'', JStr writesBudgetNote)])"

definition propose_body :: "env \<Rightarrow> propose_env \<Rightarrow> args \<Rightarrow> world \<Rightarrow> world \<times> (tool_error + tool_result)" where
  "propose_body e pe a w =
     (case requireProfile e a of
        Inl err \<Rightarrow> (w, Inl err)
      | Inr (profileName, p) \<Rightarrow>
          if \<not> profileSessionEligible p then
            (w, Inl (ToolError ''chain_read_only''
               (''profile '' @ en_quote e profileName @ '' targets chain-id '' @ en_quote e (ChainID p) @ '', which is read-only'' @ dash @
                ''no session can be opened on it; propose against a dev or testnet profile instead'')
               [(''profile'', JStr profileName), (''chain_id'', JStr (ChainID p))]))
          else case bindS (propose_args e a) (\<lambda>(sa, userMaster).
                 bindS (resolve_master e profileName p userMaster) (\<lambda>master. Inr (sa, master))) of
            Inl err \<Rightarrow> (w, Inl err)
          | Inr (sa, master) \<Rightarrow>
         (case en_resolver e profileName of
            None \<Rightarrow> (w, Inl (PlainError (''gno_session_propose: no chain client for profile '' @ en_quote e profileName)))
          | Some c \<Rightarrow>
         (case run_rpc (gas_fee (cl_node c) (en_lib e) DefaultGasWanted) w of
            (w1, Inl err) \<Rightarrow> (w1, Inl (PlainError (''gno_session_propose: query live gas fee: '' @ en_chain_text e err)))
          | (w1, Inr fee) \<Rightarrow>
         (case ResolveScope (pe_isRealm pe) (pe_parseDuration pe) sa p fee of
            Inl err \<Rightarrow> (w1, Inl (PlainError (''gno_session_propose: resolve scope: '' @ pe_scope_text pe err)))
          | Inr (sc, warnings) \<Rightarrow>
         (case pe_keypair pe of
            Inl x \<Rightarrow> (w1, Inl (PlainError (''gno_session_propose: generate keypair: '' @ x)))
          | Inr kp \<Rightarrow>
         (case AddPending (en_store e) (wo_mgr w1) profileName (kp_Address kp) (kp_PubkeyBech32 kp) (kp_priv kp) sc master (pe_now pe) of
            (m, Inl err) \<Rightarrow>
              (w1\<lparr>wo_mgr := m\<rparr>, Inl (PlainError (''gno_session_propose: persist pending session: '' @ en_session_text e err)))
          | (m, Inr _) \<Rightarrow>
              (let cmd = FormatGnokeyCreateCommand p (kp_PubkeyBech32 kp) sc fee (pe_later pe)
               in (w1\<lparr>wo_mgr := m\<rparr>,
                   Inr (text_result (propose_text e pe profileName sc kp fee warnings cmd)
                          (propose_fields e pe profileName sc kp fee warnings cmd))))))))))"

definition sessionProposeHandler :: "env \<Rightarrow> propose_env \<Rightarrow> world handler" where
  "sessionProposeHandler e pe = plain_handler (propose_body e pe)"

subsection \<open>gno\_session\_revoke\<close>

definition manual_revoke :: "Profile \<Rightarrow> string" where
  "manual_revoke p =
     ''gnokey maketx session revoke '' @ bsnl @ ''  --pubkey <session-pubkey> '' @ bsnl @ flag_line ''--remote'' (RPCURL p) @
     flag_line ''--chainid'' (ChainID p) @ ''  <your-master-key-name>''"

definition revoke_body :: "env \<Rightarrow> args \<Rightarrow> world \<Rightarrow> world \<times> (tool_error + tool_result)" where
  "revoke_body e a w =
     (case requireProfile e a of
        Inl err \<Rightarrow> (w, Inl err)
      | Inr (profileName, p) \<Rightarrow>
     (case bindS (arg e StringArg a ''session_address'') (\<lambda>s.
             if s = [] then Inl (PlainError ''session_address: required'') else Inr s) of
        Inl err \<Rightarrow> (w, Inl err)
      | Inr sessionAddr \<Rightarrow>
     (case Get (wo_mgr w) profileName sessionAddr of
        None \<Rightarrow>
          (w, Inl (ToolError ''session_unmanaged''
            (''session '' @ en_quote e sessionAddr @ '' is not managed by gnomcp for profile '' @ en_quote e profileName @
             ''. To revoke manually, run:'' @ nl @ nl @ ''```'' @ nl @ manual_revoke p @ nl @ ''```'')
            [(''profile'', JStr profileName), (''session_address'', JStr sessionAddr), (''manual_command'', JStr (manual_revoke p))]))
      | Some meta \<Rightarrow>
          (let (w1, fee, note) =
                 (case en_resolver e profileName of
                    None \<Rightarrow> (w, 0, [])
                  | Some c \<Rightarrow>
                      (case run_rpc (gas_fee (cl_node c) (en_lib e) DefaultGasWanted) w of
                         (w1, Inr fee) \<Rightarrow> (w1, fee, [])
                       | (w1, Inl _) \<Rightarrow>
                           (w1, 0, ''NOTE: could not query the live gas price; --gas-fee shows the floor'' @ dash @
                              ''if the chain rejects the command with an insufficient-fee error, raise --gas-fee and rerun.'' @ nl @ nl)));
               cmd = FormatGnokeyRevokeCommand p (sm_SessionPubkey meta) fee
           in (w1, Inr (text_result
                (''Session revoke command for profile '' @ en_quote e profileName @ ''.'' @ nl @ nl @ ''Session address: '' @ sessionAddr @ nl @
                 nl @ ''To revoke, run this in a terminal where your master key is available:'' @ nl @ nl @
                 ''```'' @ nl @ cmd @ nl @ ''```'' @ nl @ nl @ note @
                 ''After running the command, the session key will be invalidated on chain.'' @ nl)
                [(''state'', JStr ''revoke_pending''), (''profile'', JStr profileName), (''session_address'', JStr sessionAddr),
                 (''session_pubkey'', JStr (sm_SessionPubkey meta)), (''revoke_command'', JStr cmd)]))))))"

definition sessionRevokeHandler :: "env \<Rightarrow> world handler" where
  "sessionRevokeHandler e = plain_handler (revoke_body e)"

subsection \<open>gno\_auth\_status\<close>

text \<open>
  One session: the chain's answer, the mark it asks for, and the listed copy, of which only the state
  is brought up to date. A mark that cannot be persisted leaves the copy as it was.
\<close>

definition auth_one ::
  "env \<Rightarrow> session_query option \<Rightarrow> string \<Rightarrow> SessionMeta \<Rightarrow> manager \<Rightarrow> manager \<times> SessionMeta" where
  "auth_one e client profileName meta m =
     (case client of
        None \<Rightarrow> (m, meta)
      | Some ask \<Rightarrow>
          if sm_MasterAddress meta = [] then (m, meta)
          else case ask (sm_MasterAddress meta) (sm_SessionAddress meta) of
            QStatus st \<Rightarrow>
              if ses_Active st \<and> sm_State meta = StatePending then
                (case MarkActive (en_store e) m profileName (sm_SessionAddress meta) st of
                   (m', None) \<Rightarrow> (m', meta\<lparr>sm_State := StateActive\<rparr>)
                 | (m', Some _) \<Rightarrow> (m', meta))
              else if \<not> ses_Active st \<and> sm_State meta = StateActive then
                (let newState = (if sm_ExpiresAt meta > 0 \<and> en_now e \<ge> sm_ExpiresAt meta then StateExpired else StateRevoked)
                 in case MarkInactive (en_store e) m profileName (sm_SessionAddress meta) newState of
                      (m', None) \<Rightarrow> (m', meta\<lparr>sm_State := newState\<rparr>)
                    | (m', Some _) \<Rightarrow> (m', meta))
              else (m, meta)
          | _ \<Rightarrow> (m, meta))"

fun auth_all ::
  "env \<Rightarrow> session_query option \<Rightarrow> string \<Rightarrow> SessionMeta list \<Rightarrow> manager \<Rightarrow> manager \<times> SessionMeta list" where
  "auth_all e client profileName [] m = (m, [])"
| "auth_all e client profileName (meta # metas) m =
     (case auth_one e client profileName meta m of
        (m1, meta') \<Rightarrow> (case auth_all e client profileName metas m1 of (m2, rest) \<Rightarrow> (m2, meta' # rest)))"

definition auth_line :: "SessionMeta \<Rightarrow> string" where
  "auth_line meta =
     ''['' @ sm_State meta @ ''] '' @ sm_SessionAddress meta @ nl @ ''  paths:   '' @ Join (sm_AllowPaths meta) '', '' @ nl @
     (if sm_SpendLimit meta \<noteq> [] then ''  limit:   '' @ sm_SpendLimit meta @ nl else []) @
     (if sm_SpendRemaining meta \<noteq> [] then ''  remaining: '' @ sm_SpendRemaining meta @ nl else []) @ nl"

definition auth_entry :: "SessionMeta \<Rightarrow> json" where
  "auth_entry meta =
     JObj [(''state'', JStr (sm_State meta)), (''session_address'', JStr (sm_SessionAddress meta)),
           (''session_pubkey'', JStr (sm_SessionPubkey meta)), (''allow_paths'', JArr (map JStr (sm_AllowPaths meta))),
           (''spend_limit'', JStr (sm_SpendLimit meta)), (''spend_remaining'', JStr (sm_SpendRemaining meta)),
           (''expires_at'', JInt (sm_ExpiresAt meta))]"

definition auth_text :: "env \<Rightarrow> string \<Rightarrow> bool \<Rightarrow> SessionMeta list \<Rightarrow> string" where
  "auth_text e profileName masterSet metas =
     ''Auth status for profile '' @ en_quote e profileName @ nl @ nl @
     (if metas = [] \<and> \<not> masterSet then
        ''No sessions found'' @ dash @ ''no active session for profile '' @ en_quote e profileName @ ''.'' @ nl @ nl @
        ''This profile has no master-address, so write-as-user is unavailable and sessions cannot be proposed. Set master-address for the profile in profiles.toml to enable it (gnomcp reads the file at startup). Agent-key writes are unaffected.'' @ nl
      else if metas = [] then
        ''No sessions found'' @ dash @ ''no active session for profile '' @ en_quote e profileName @ ''.'' @ nl @ nl @
        ''Use gno_session_propose to create one.'' @ nl
      else concat (map auth_line metas))"

definition auth_body :: "env \<Rightarrow> args \<Rightarrow> world \<Rightarrow> world \<times> (tool_error + tool_result)" where
  "auth_body e a w =
     (case requireProfile e a of
        Inl err \<Rightarrow> (w, Inl err)
      | Inr (profileName, p) \<Rightarrow>
          (let masterSet = (MasterAddress p \<noteq> []) in
           case auth_all e (session_resolver e (wo_rpc w) profileName) profileName
                  (ListForProfile (wo_mgr w) profileName (en_order e)) (wo_mgr w) of
             (m, metas) \<Rightarrow>
               (w\<lparr>wo_mgr := m\<rparr>,
                Inr (text_result (auth_text e profileName masterSet metas)
                  [(''profile'', JStr profileName), (''master_address_set'', JBool masterSet), (''sessions'', JArr (map auth_entry metas))]))))"

definition authStatusHandler :: "env \<Rightarrow> world handler" where
  "authStatusHandler e = plain_handler (auth_body e)"

interpretation propose_audited: audited_handler "sessionProposeHandler e pe" False
  by unfold_locales (auto simp: sessionProposeHandler_def dest: plain_handler_records)

interpretation revoke_audited: audited_handler "sessionRevokeHandler e" False
  by unfold_locales (auto simp: sessionRevokeHandler_def dest: plain_handler_records)

interpretation auth_audited: audited_handler "authStatusHandler e" False
  by unfold_locales (auto simp: authStatusHandler_def dest: plain_handler_records)

subsection \<open>A refused master address does not come back\<close>

lemma StringArg_upd: "StringArg (a(k \<mapsto> JStr v)) n = (if n = k then Inr v else StringArg a n)"
  by (simp add: StringArg_def)

lemma other_args:
  "n \<noteq> k \<Longrightarrow> StringArg (a(k \<mapsto> v)) n = StringArg a n" "n \<noteq> k \<Longrightarrow> BoolArg (a(k \<mapsto> v)) n = BoolArg a n"
  "n \<noteq> k \<Longrightarrow> StringSliceArg (a(k \<mapsto> v)) n = StringSliceArg a n"
  by (simp_all add: StringArg_def BoolArg_def StringSliceArg_def)

lemma requireProfile_other: "k \<noteq> ''profile'' \<Longrightarrow> requireProfile e (a(k \<mapsto> v)) = requireProfile e a"
  by (simp add: requireProfile_def arg_def other_args)

lemma propose_args_master:
  "propose_args e (a(''master_address'' \<mapsto> JStr v)) = map_sum id (\<lambda>(sa, x). (sa, v)) (propose_args e (a(''master_address'' \<mapsto> JStr [])))"
  by (auto simp: propose_args_def arg_def bindS_def other_args StringArg_upd split: sum.splits)

lemma resolve_master_refused:
  assumes "v \<noteq> []" "has_space v \<or> lib_addr (en_lib e) v = None"
  shows "resolve_master e profileName p v =
     Inl (ToolError ''invalid_master_address'' (if has_space v then seed_phrase_text else bad_master_text) (profile_extra profileName))"
  using assms by (auto simp: resolve_master_def validateUserMasterAddress_def)

definition refused :: "env \<Rightarrow> bool \<Rightarrow> string \<Rightarrow> bool" where
  "refused e b v \<longleftrightarrow> v \<noteq> [] \<and> (has_space v \<or> lib_addr (en_lib e) v = None) \<and> (has_space v \<longleftrightarrow> b)"

lemma propose_refused:
  "\<exists>err. \<forall>v. refused e b v \<longrightarrow> propose_body e pe (a(''master_address'' \<mapsto> JStr v)) w = (w, Inl err)"
proof (cases "requireProfile e a")
  case (Inl err)
  then show ?thesis by (simp add: propose_body_def requireProfile_other)
next
  case (Inr np)
  then obtain profileName p where rp: "requireProfile e a = Inr (profileName, p)" by (cases np) auto
  show ?thesis
  proof (cases "profileSessionEligible p")
    case False
    then show ?thesis using rp by (simp add: propose_body_def requireProfile_other)
  next
    case el: True
    show ?thesis
    proof (cases "propose_args e (a(''master_address'' \<mapsto> JStr []))")
      case (Inl err)
      then have "propose_args e (a(''master_address'' \<mapsto> JStr v)) = Inl err" for v by (subst propose_args_master) simp
      then show ?thesis using rp el by (simp add: propose_body_def requireProfile_other bindS_def)
    next
      case (Inr q)
      then have "propose_args e (a(''master_address'' \<mapsto> JStr v)) = Inr (fst q, v)" for v
        by (subst propose_args_master) (simp split: prod.splits)
      moreover have "resolve_master e profileName p v =
          Inl (ToolError ''invalid_master_address'' (if b then seed_phrase_text else bad_master_text) (profile_extra profileName))"
        if "refused e b v" for v
        using that resolve_master_refused [of v e profileName p] by (auto simp: refused_def)
      ultimately show ?thesis using rp el by (auto simp: propose_body_def requireProfile_other bindS_def)
    qed
  qed
qed

text \<open>
  C20. A pasted seed phrase never comes back. When gno\_session\_propose is given a master address that
  holds white space or is no address of the chain, it fails without touching anything, and its whole
  answer is the same for any other such value of the same kind: not a byte of what was pasted reaches
  the caller, the state or the node.
\<close>

theorem refused_master_not_echoed:
  assumes "v \<noteq> []" "has_space v \<or> lib_addr (en_lib e) v = None"
    and "v' \<noteq> []" "has_space v' \<or> lib_addr (en_lib e) v' = None" "has_space v' \<longleftrightarrow> has_space v"
  shows "\<exists>err. sessionProposeHandler e pe (a(''master_address'' \<mapsto> JStr v)) w = (w, [], Failed err) \<and>
     sessionProposeHandler e pe (a(''master_address'' \<mapsto> JStr v')) w = (w, [], Failed err)"
proof -
  obtain err where err: "refused e (has_space v) x \<Longrightarrow> propose_body e pe (a(''master_address'' \<mapsto> JStr x)) w = (w, Inl err)" for x
    using propose_refused [of e "has_space v" pe a w] by blast
  have "refused e (has_space v) v" "refused e (has_space v) v'" using assms by (simp_all add: refused_def)
  with err show ?thesis by (simp add: sessionProposeHandler_def plain_handler_def)
qed

definition demo_propose :: propose_env where
  "demo_propose = \<lparr>pe_isRealm = (\<lambda>r. True), pe_parseDuration = (\<lambda>s. Some nhour),
     pe_keypair = Inr \<lparr>kp_Address = ''g1new'', kp_PubkeyBech32 = ''gpub1new'', kp_priv = ''k''\<rparr>, pe_now = 0, pe_later = 1,
     pe_scope_text = (\<lambda>x. []), pe_warning_text = (\<lambda>x. [])\<rparr>"

lemma refused_master_not_echoed_witness:
  "\<exists>err. sessionProposeHandler demo_env demo_propose [''profile'' \<mapsto> JStr ''dev'', ''master_address'' \<mapsto> JStr ''abandon ability able''] demo_world =
       (demo_world, [], Failed err) \<and>
     sessionProposeHandler demo_env demo_propose [''profile'' \<mapsto> JStr ''dev'', ''master_address'' \<mapsto> JStr ''x y''] demo_world =
       (demo_world, [], Failed err)"
  using refused_master_not_echoed [of "''abandon ability able''" demo_env "''x y''" demo_propose "[''profile'' \<mapsto> JStr ''dev'']" demo_world]
  by (simp add: has_space_def)

subsection \<open>What a proposal does\<close>

definition pending_meta :: "propose_env \<Rightarrow> keypair \<Rightarrow> Scope \<Rightarrow> string \<Rightarrow> SessionMeta" where
  "pending_meta pe kp sc master =
     \<lparr>sm_Version = 1, sm_SessionAddress = kp_Address kp, sm_SessionPubkey = kp_PubkeyBech32 kp, sm_MasterAddress = master,
      sm_Privkey = kp_priv kp, sm_Encrypted = False, sm_AllowPaths = AllowPaths sc, sm_AllowRun = AllowRun sc,
      sm_SpendLimit = SpendLimit sc, sm_SpendRemaining = SpendLimit sc,
      sm_ExpiresAt = time_unix (time_add (pe_now pe) (ExpiresIn sc)), sm_CreatedAt = time_unix (pe_now pe), sm_State = StatePending\<rparr>"

definition proposed :: "env \<Rightarrow> propose_env \<Rightarrow> args \<Rightarrow> world \<Rightarrow> world \<Rightarrow> tool_result \<Rightarrow> bool" where
  "proposed e pe a w w' r \<longleftrightarrow>
     (\<exists>profileName p sa userMaster master fee sc warnings kp.
        requireProfile e a = Inr (profileName, p) \<and> \<not> IsReadOnly p \<and> propose_args e a = Inr (sa, userMaster) \<and>
        master = (if userMaster \<noteq> [] then userMaster else MasterAddress p) \<and> master \<noteq> [] \<and>
        (userMaster \<noteq> [] \<longrightarrow> lib_addr (en_lib e) userMaster \<noteq> None \<and> \<not> has_space userMaster) \<and>
        ResolveScope (pe_isRealm pe) (pe_parseDuration pe) sa p fee = Inr (sc, warnings) \<and> scope_ok (pe_isRealm pe) p fee sc \<and>
        pe_keypair pe = Inr kp \<and>
        mg_sessions (wo_mgr w') = (mg_sessions (wo_mgr w))(profileName := (mg_sessions (wo_mgr w) profileName)
          (kp_Address kp \<mapsto> \<lparr>ss_state = StatePending, ss_meta = pending_meta pe kp sc master\<rparr>)) \<and>
        map_of (rs_Structured r) ''auth_command'' = Some (JStr (FormatGnokeyCreateCommand p (kp_PubkeyBech32 kp) sc fee (pe_later pe))) \<and>
        (\<forall>bech32. profile_ok bech32 p \<and> shell_word (kp_PubkeyBech32 kp) \<longrightarrow>
           (\<exists>pre. FormatGnokeyCreateCommand p (kp_PubkeyBech32 kp) sc fee (pe_later pe) = pre @ ''  <your-master-key-name>'' \<and>
              shell_words pre = Some (create_argv p (kp_PubkeyBech32 kp) sc fee (pe_later pe)))))"

lemma proposedI:
  assumes "requireProfile e a = Inr (profileName, p)" "\<not> IsReadOnly p" "propose_args e a = Inr (sa, u)"
    and "master = (if u \<noteq> [] then u else MasterAddress p)" "master \<noteq> []" "u \<noteq> [] \<longrightarrow> lib_addr (en_lib e) u \<noteq> None \<and> \<not> has_space u"
    and "ResolveScope (pe_isRealm pe) (pe_parseDuration pe) sa p fee = Inr (sc, warnings)" "pe_keypair pe = Inr kp"
    and "mg_sessions (wo_mgr w') = (mg_sessions (wo_mgr w))(profileName := (mg_sessions (wo_mgr w) profileName)
          (kp_Address kp \<mapsto> \<lparr>ss_state = StatePending, ss_meta = pending_meta pe kp sc master\<rparr>))"
    and "map_of (rs_Structured r) ''auth_command'' = Some (JStr (FormatGnokeyCreateCommand p (kp_PubkeyBech32 kp) sc fee (pe_later pe)))"
    and "\<forall>bech32. profile_ok bech32 p \<and> shell_word (kp_PubkeyBech32 kp) \<longrightarrow>
           (\<exists>pre. FormatGnokeyCreateCommand p (kp_PubkeyBech32 kp) sc fee (pe_later pe) = pre @ ''  <your-master-key-name>'' \<and>
              shell_words pre = Some (create_argv p (kp_PubkeyBech32 kp) sc fee (pe_later pe)))"
  shows "proposed e pe a w w' r"
  unfolding proposed_def using assms ResolveScope_ok [OF assms(7)] by blast

lemma AddPending_sessions:
  "AddPending wr m profile addr pk priv sc master now = (m', r) \<Longrightarrow>
   mg_sessions m' = (case r of Inl _ \<Rightarrow> mg_sessions m | Inr meta \<Rightarrow> (mg_sessions m)(profile := (mg_sessions m profile)
          (addr \<mapsto> \<lparr>ss_state = StatePending, ss_meta = meta\<rparr>)))"
  by (auto simp: AddPending_def Let_def insertState_def persist_sessions' split: prod.splits option.splits)

lemma resolve_master_Inr:
  "resolve_master e n p u = Inr master \<Longrightarrow> master = (if u \<noteq> [] then u else MasterAddress p) \<and> master \<noteq> [] \<and>
     (u \<noteq> [] \<longrightarrow> lib_addr (en_lib e) u \<noteq> None \<and> \<not> has_space u)"
  by (auto simp: resolve_master_def validateUserMasterAddress_def Let_def split: option.splits if_splits)

definition propose_outcome :: "env \<Rightarrow> propose_env \<Rightarrow> args \<Rightarrow> world \<Rightarrow> world \<times> (tool_error + tool_result) \<Rightarrow> bool" where
  "propose_outcome e pe a w out \<longleftrightarrow>
     (case out of (w', r) \<Rightarrow> wo_keys w' = wo_keys w \<and> writes (wo_rpc w) (wo_rpc w') = [] \<and>
        (case r of Inl _ \<Rightarrow> mg_sessions (wo_mgr w') = mg_sessions (wo_mgr w) | Inr res \<Rightarrow> proposed e pe a w w' res))"

lemma propose_outcome_quiet: "writes (wo_rpc w) h = [] \<Longrightarrow> propose_outcome e pe a w (w\<lparr>wo_rpc := h\<rparr>, Inl err)"
  by (simp add: propose_outcome_def)

lemma propose_outcome_same: "propose_outcome e pe a w (w, Inl err)"
  by (simp add: propose_outcome_def)

lemma propose_body_outcome: "propose_outcome e pe a w (propose_body e pe a w)"
proof (cases "requireProfile e a")
  case (Inl err)
  then show ?thesis by (simp add: propose_body_def propose_outcome_same)
next
  case (Inr np)
  then obtain profileName p where rp: "requireProfile e a = Inr (profileName, p)" by (cases np) auto
  let ?q = "bindS (propose_args e a) (\<lambda>(sa, userMaster). bindS (resolve_master e profileName p userMaster) (\<lambda>master. Inr (sa, master)))"
  show ?thesis
  proof (cases "\<not> profileSessionEligible p \<or> isl ?q \<or> en_resolver e profileName = None")
    case True
    then show ?thesis using rp by (cases ?q) (auto simp: propose_body_def propose_outcome_same split: option.splits)
  next
    case False
    then obtain q where el: "profileSessionEligible p" "?q = Inr q" by (cases ?q) auto
    obtain c where c: "en_resolver e profileName = Some c" using False by auto
    obtain sa u master where q: "q = (sa, master)" "propose_args e a = Inr (sa, u)" "resolve_master e profileName p u = Inr master"
      using el(2) by (auto simp: bindS_def split: sum.splits)
    obtain h fr where f: "gas_fee (cl_node c) (en_lib e) DefaultGasWanted (wo_rpc w) = (h, fr)" by force
    have wr: "writes (wo_rpc w) h = []" using quiet_writes [OF quiet_gas_fee f] by simp
    show ?thesis
    proof (cases fr)
      case (Inl err)
      then show ?thesis using rp el c q(1) f wr by (simp add: propose_body_def run_rpc_def propose_outcome_quiet)
    next
      case fee: (Inr fee)
      show ?thesis
      proof (cases "ResolveScope (pe_isRealm pe) (pe_parseDuration pe) sa p fee")
        case (Inl err)
        then show ?thesis using rp el c q(1) f wr fee by (simp add: propose_body_def run_rpc_def propose_outcome_quiet)
      next
        case (Inr sw)
        then obtain sc warnings where sc: "ResolveScope (pe_isRealm pe) (pe_parseDuration pe) sa p fee = Inr (sc, warnings)" by (cases sw) auto
        show ?thesis
        proof (cases "pe_keypair pe")
          case (Inl err)
          then show ?thesis using rp el c q(1) f wr fee sc by (simp add: propose_body_def run_rpc_def propose_outcome_quiet)
        next
          case kp: (Inr kp)
          obtain m r where ad: "AddPending (en_store e) (wo_mgr w) profileName (kp_Address kp) (kp_PubkeyBech32 kp) (kp_priv kp) sc master (pe_now pe) = (m, r)"
            by force
          note ses = AddPending_sessions [OF ad]
          show ?thesis
          proof (cases r)
            case (Inl err)
            then show ?thesis using rp el c q(1) f wr fee sc kp ad ses by (simp add: propose_body_def run_rpc_def propose_outcome_def)
          next
            case (Inr meta)
            let ?cmd = "FormatGnokeyCreateCommand p (kp_PubkeyBech32 kp) sc fee (pe_later pe)"
            let ?res = "text_result (propose_text e pe profileName sc kp fee warnings ?cmd) (propose_fields e pe profileName sc kp fee warnings ?cmd)"
            have meta: "meta = pending_meta pe kp sc master"
              using ad Inr by (auto simp: AddPending_def Let_def pending_meta_def split: prod.splits option.splits)
            have rm: "master = (if u \<noteq> [] then u else MasterAddress p)" "master \<noteq> []" "u \<noteq> [] \<longrightarrow> lib_addr (en_lib e) u \<noteq> None \<and> \<not> has_space u"
              using resolve_master_Inr [OF q(3)] by blast+
            have nr: "\<not> IsReadOnly p" using el(1) by (simp add: profileSessionEligible_def)
            have tab: "mg_sessions m = (mg_sessions (wo_mgr w))(profileName := (mg_sessions (wo_mgr w) profileName)
                (kp_Address kp \<mapsto> \<lparr>ss_state = StatePending, ss_meta = pending_meta pe kp sc master\<rparr>))"
              using ses Inr meta by simp
            have fld: "map_of (rs_Structured ?res) ''auth_command'' = Some (JStr ?cmd)" by (simp add: text_result_def propose_fields_def)
            have words: "\<forall>bech32. profile_ok bech32 p \<and> shell_word (kp_PubkeyBech32 kp) \<longrightarrow>
                (\<exists>pre. ?cmd = pre @ ''  <your-master-key-name>'' \<and> shell_words pre = Some (create_argv p (kp_PubkeyBech32 kp) sc fee (pe_later pe)))"
              using create_command_reads [OF sc] by blast
            have "proposed e pe a w (w\<lparr>wo_rpc := h, wo_mgr := m\<rparr>) ?res"
              by (rule proposedI [OF rp nr q(2) rm sc kp _ fld words]) (simp add: tab)
            then show ?thesis using rp el c q(1) f wr fee sc kp ad Inr by (simp add: propose_body_def run_rpc_def propose_outcome_def Let_def)
          qed
        qed
      qed
    qed
  qed
qed

text \<open>
  C21. A proposal gives no authority by itself. gno\_session\_propose commits nothing and touches no key.
  If it fails the session table is what it was. If it succeeds the profile was not read-only, and the
  table has gained exactly one pending session: the fresh key pair, bound to the master address the
  caller gave as one clean address or the profile's own, with a scope within the hard limits that
  affords a write at the chain's fee; and the command handed out is the one a shell reads as creating
  that session and nothing else.
\<close>

theorem session_propose_pending:
  assumes "sessionProposeHandler e pe a w = (w', es, out)"
  shows "es = [] \<and> wo_keys w' = wo_keys w \<and> writes (wo_rpc w) (wo_rpc w') = [] \<and>
     ((\<forall>r. out \<noteq> Returned r) \<and> mg_sessions (wo_mgr w') = mg_sessions (wo_mgr w) \<or>
      (\<exists>r. out = Returned r \<and> proposed e pe a w w' r))"
proof -
  obtain r where r: "propose_body e pe a w = (w', r)" "es = []" "\<forall>x. out = Returned x \<longleftrightarrow> r = Inr x"
    using plain_handler_outcome [OF assms [unfolded sessionProposeHandler_def]] by auto
  then have "propose_outcome e pe a w (w', r)" using propose_body_outcome [of e pe a w] by simp
  then show ?thesis using r(2,3) by (cases r) (auto simp: propose_outcome_def)
qed

definition demo_master_profile :: Profile where "demo_master_profile = demo_dyn\<lparr>MasterAddress := ''g1m''\<rparr>"

definition demo_propose_env :: env where
  "demo_propose_env = demo_env\<lparr>en_server := NewServer [(''dev'', demo_master_profile)] ''dev''\<rparr>"

definition demo_propose_args :: args where
  "demo_propose_args = [''profile'' \<mapsto> JStr ''dev'', ''allow_run'' \<mapsto> JBool True, ''spend_limit'' \<mapsto> JStr ''50000ugnot'']"

lemma session_propose_pending_witness:
  "\<exists>w' r. sessionProposeHandler demo_propose_env demo_propose demo_propose_args demo_world = (w', [], Returned r) \<and>
     proposed demo_propose_env demo_propose demo_propose_args demo_world w' r"
proof -
  let ?sa = "\<lparr>arg_SpendLimit = ''50000ugnot'', arg_ExpiresIn = [], arg_AllowPaths = [], arg_AllowRun = True\<rparr>"
  have q: "requireProfile demo_propose_env demo_propose_args = Inr (''dev'', demo_master_profile)"
      "propose_args demo_propose_env demo_propose_args = Inr (?sa, [])"
    by (simp_all add: demo_propose_args_def requireProfile_def propose_args_def arg_def bindS_def StringArg_def BoolArg_def StringSliceArg_def
        demo_propose_env_def env_simps)
  have el: "profileSessionEligible demo_master_profile" by code_simp
  have v: "SpendLimitValid ''50000ugnot''" by code_simp
  have c: "parseCoins ''50000ugnot'' = Inr (50000, ''ugnot'')"
    by (simp add: parseCoins_def is_digit_def ParseInt_def digits_val_def digit_val_def MaxInt64_def)
  have sc: "ResolveScope (\<lambda>r. True) (\<lambda>s. Some nhour) ?sa demo_master_profile 20000 =
      Inr (\<lparr>SpendLimit = ''50000ugnot'', SpendPeriod = nhour, ExpiresIn = nhour, AllowPaths = [], AllowRun = True\<rparr>, [])"
    using v c parseCoins_cap
    by (simp add: ResolveScope_def EffectiveDefaults_def hardDefaultExpiresIn_def demo_master_profile_def demo_dyn_def empty_profile_def
        hardLimits_def IsLocal_def clamp_scope_def clampCoin_def spendLimitCoversFee_def nhour_def nsecond_def)
  obtain w' es out where r: "sessionProposeHandler demo_propose_env demo_propose demo_propose_args demo_world = (w', es, out)" using prod_cases3 by blast
  have "\<exists>x. out = Returned x" using r q el sc
    by (auto simp: sessionProposeHandler_def plain_handler_def propose_body_def bindS_def resolve_master_def demo_master_profile_def
        run_rpc_def demo_fee_floor demo_propose_def demo_propose_env_def demo_env_def AddPending_def persist_def Let_def)
  then show ?thesis using session_propose_pending [OF r] r by auto
qed

end
