(* ===== verification/Toolbox.thy ===== *)
theory Toolbox
  imports Keytools Sessiontools Deploy
begin

section \<open>The tools together\<close>

text \<open>
  A server runs tool calls one after another or interleaved; each is a step of the world. \<open>tool_step\<close>
  is one call of any write or session tool, with any arguments and any environment (the disk, the
  chain, the clock may answer each call differently). The sessions, the keys and the node see such a
  run through the components' own steps: this theory relates the two levels.
\<close>

subsection \<open>Steps of the world\<close>

text \<open>A proposal's fresh address is not in the table: key generation does not repeat.\<close>

inductive tool_step :: "world \<Rightarrow> world \<Rightarrow> bool" where
  by_call: "callHandler e a w = (w', es, out) \<Longrightarrow> tool_step w w'"
| by_run: "runHandler e a w = (w', es, out) \<Longrightarrow> tool_step w w'"
| by_addpkg: "addpkgHandler e a w = (w', es, out) \<Longrightarrow> tool_step w w'"
| by_cla_sign: "claSignHandler e a w = (w', es, out) \<Longrightarrow> tool_step w w'"
| by_faucet: "faucetFundHandler e hc a w = (w', es, out) \<Longrightarrow> tool_step w w'"
| by_key_generate: "keyGenHandler e salt nonce fresh a w = (w', es, out) \<Longrightarrow> tool_step w w'"
| by_key_address: "keyAddrHandler e a w = (w', es, out) \<Longrightarrow> tool_step w w'"
| by_key_list: "keyListHandler e a w = (w', es, out) \<Longrightarrow> tool_step w w'"
| by_key_send: "keySendHandler e oor f64 a w = (w', es, out) \<Longrightarrow> tool_step w w'"
| by_key_delete: "keyDeleteHandler e a w = (w', es, out) \<Longrightarrow> tool_step w w'"
| by_propose: "sessionProposeHandler e pe a w = (w', es, out) \<Longrightarrow>
    (\<And>kp profile. pe_keypair pe = Inr kp \<Longrightarrow> getState (wo_mgr w) profile (kp_Address kp) = None) \<Longrightarrow> tool_step w w'"
| by_revoke: "sessionRevokeHandler e a w = (w', es, out) \<Longrightarrow> tool_step w w'"
| by_auth_status: "authStatusHandler e a w = (w', es, out) \<Longrightarrow> tool_step w w'"

subsection \<open>The manager's steps under a tool\<close>

lemma mgr_steps_fold: "mgr_step\<^sup>*\<^sup>* m (fold (promote_one wr resolver profile) ps m)"
proof (induction ps arbitrary: m)
  case (Cons p ps)
  show ?case using converse_rtranclp_into_rtranclp [of mgr_step, OF step_promote Cons.IH] by simp
qed simp

lemma mgr_steps_pick: "pickSession wr resolver mat m profile order now = (m', r) \<Longrightarrow> mgr_step\<^sup>*\<^sup>* m m'"
  unfolding pickSession_def Let_def by (rule rtranclp.rtrancl_into_rtrancl [OF mgr_steps_fold step_pick])

lemma mgr_steps_settle: "mgr_step\<^sup>*\<^sup>* m (fst (SettleSpend wr ask m profile addr fee))"
  unfolding SettleSpend_def Let_def
  by (auto intro!: r_into_rtranclp [of mgr_step] intro: step_update [OF prod.collapse [symmetric]] step_set [OF prod.collapse [symmetric]]
      split: query_answer.splits)

lemma mgr_steps_world_pick:
  assumes "\<And>m m' r. pick m = (m', r) \<Longrightarrow> mgr_step\<^sup>*\<^sup>* m m'" "pick_in_world e pick w = (w', r)"
  shows "mgr_step\<^sup>*\<^sup>* (wo_mgr w) (wo_mgr w')"
proof -
  obtain m where m: "pick (wo_mgr w) = (m, r)" "w' = w\<lparr>wo_mgr := m\<rparr>" using assms(2) by (auto simp: pick_in_world_def split: prod.splits)
  from assms(1) [OF m(1)] m(2) show ?thesis by simp
qed

lemma mgr_steps_agent: "wo_mgr (fst (dispatch_agent e c d w)) = wo_mgr w"
  by (auto simp: dispatch_agent_def run_rpc_conv split: sum.splits prod.splits option.splits)

lemma mgr_steps_session:
  assumes "\<And>w w' r. dp_pickSession d w = (w', r) \<Longrightarrow> mgr_step\<^sup>*\<^sup>* (wo_mgr w) (wo_mgr w')"
  shows "mgr_step\<^sup>*\<^sup>* (wo_mgr w) (wo_mgr (fst (dispatch_session e c d w)))"
proof -
  obtain w1 r where p: "dp_pickSession d w = (w1, r)" by force
  note st = assms [OF p]
  have "mgr_step\<^sup>*\<^sup>* (wo_mgr w1) (wo_mgr (fst (dispatch_session e c d w)))" if "dp_keyName d = []"
    using p that mgr_steps_settle
    by (auto simp: dispatch_session_def run_rpc_conv split: sum.splits prod.splits option.splits)
  with st show ?thesis by (cases "dp_keyName d = []") (auto simp: dispatch_session_def)
qed

lemma mgr_steps_dispatch:
  assumes "\<And>w w' r. dp_pickSession d w = (w', r) \<Longrightarrow> mgr_step\<^sup>*\<^sup>* (wo_mgr w) (wo_mgr w')"
  shows "mgr_step\<^sup>*\<^sup>* (wo_mgr w) (wo_mgr (fst (dispatchWriteTx e c i d w)))"
  using mgr_steps_session [OF assms] by (simp add: dispatchWriteTx_def mgr_steps_agent Let_def)

lemma mgr_steps_same [simp]: "mgr_step\<^sup>*\<^sup>* m m" by (rule rtranclp.rtrancl_refl)

lemma mgr_steps_Explain: "wo_mgr (fst (Explain e c realm err w)) = wo_mgr w"
proof (cases err)
  case (PlainError t)
  then show ?thesis
    by (cases "QueryPackageMeta (cl_node c) (en_lib e) realm (wo_rpc w)"; cases "snd (QueryPackageMeta (cl_node c) (en_lib e) realm (wo_rpc w))")
      (simp_all add: Explain_def run_rpc_def)
qed (simp add: Explain_def)

lemma call_mgr_steps: "mgr_step\<^sup>*\<^sup>* (wo_mgr w) (wo_mgr (fst (call_body e a w)))"
proof (cases "requireProfile e a")
  case (Inr np)
  then obtain n p where rp: "requireProfile e a = Inr (n, p)" by (cases np) auto
  show ?thesis
  proof (cases "call_args e a")
    case q: (Inr q)
    show ?thesis
    proof (cases "en_resolver e n")
      case c: (Some c)
      obtain w1 au sa res where d: "dispatchWriteTx e c (identityArg a) (call_dispatch e c n p q) w = (w1, au, sa, res)"
        using prod_cases4 by blast
      have pk: "mgr_step\<^sup>*\<^sup>* (wo_mgr w) (wo_mgr w')" if "dp_pickSession (call_dispatch e c n p q) w = (w', r)" for w w' r
      proof (rule mgr_steps_world_pick)
        show "pick_in_world e (\<lambda>m. PickSessionForProfile (en_store e) (session_resolver e (wo_rpc w)) m n (cq_realm q) (en_order e) (en_now e)) w = (w', r)"
          using that by (simp add: call_dispatch_def)
      qed (simp add: PickSessionForProfile_def mgr_steps_pick)
      have "mgr_step\<^sup>*\<^sup>* (wo_mgr w) (wo_mgr (fst (dispatchWriteTx e c (identityArg a) (call_dispatch e c n p q) w)))"
        by (rule mgr_steps_dispatch) (rule pk)
      then have s: "mgr_step\<^sup>*\<^sup>* (wo_mgr w) (wo_mgr w1)" unfolding d by simp
      show ?thesis
      proof (cases res)
        case (Inl err)
        obtain w2 err' where x: "Explain e c (cq_realm q) err w1 = (w2, err')" by force
        then have "wo_mgr w2 = wo_mgr w1" using mgr_steps_Explain [of e c "cq_realm q" err w1] by simp
        then show ?thesis using rp q c d Inl x s by (simp add: call_body_def)
      next
        case (Inr r)
        then show ?thesis using rp q c d s by (simp add: call_body_def)
      qed
    qed (use rp q in \<open>simp add: call_body_def\<close>)
  qed (use rp in \<open>simp add: call_body_def\<close>)
qed (simp add: call_body_def)

lemma run_mgr_steps: "mgr_step\<^sup>*\<^sup>* (wo_mgr w) (wo_mgr (fst (run_body e a w)))"
proof (cases "requireProfile e a")
  case (Inr np)
  then obtain n p where rp: "requireProfile e a = Inr (n, p)" by (cases np) auto
  show ?thesis
  proof (cases "run_args e a")
    case (Inr x)
    then obtain k code s where q: "run_args e a = Inr (k, code, s)" by (cases x) auto
    show ?thesis
    proof (cases "en_resolver e n")
      case c: (Some c)
      obtain w1 au sa res where d: "dispatchWriteTx e c (identityArg a) (run_dispatch e c n p k code s) w = (w1, au, sa, res)"
        using prod_cases4 by blast
      have pk: "mgr_step\<^sup>*\<^sup>* (wo_mgr w) (wo_mgr w')" if "dp_pickSession (run_dispatch e c n p k code s) w = (w', r)" for w w' r
      proof (rule mgr_steps_world_pick)
        show "pick_in_world e (\<lambda>m. PickSessionForRun (en_store e) (session_resolver e (wo_rpc w)) m n (en_order e) (en_now e)) w = (w', r)"
          using that by (simp add: run_dispatch_def)
      qed (simp add: PickSessionForRun_def mgr_steps_pick)
      have "mgr_step\<^sup>*\<^sup>* (wo_mgr w) (wo_mgr (fst (dispatchWriteTx e c (identityArg a) (run_dispatch e c n p k code s) w)))"
        by (rule mgr_steps_dispatch) (rule pk)
      then have "mgr_step\<^sup>*\<^sup>* (wo_mgr w) (wo_mgr w1)" unfolding d by simp
      then show ?thesis using rp q c d by (cases res) (simp_all add: run_body_def)
    qed (use rp q in \<open>simp add: run_body_def\<close>)
  qed (use rp in \<open>simp add: run_body_def\<close>)
qed (simp add: run_body_def)

lemma auth_mgr_steps: "mgr_step\<^sup>*\<^sup>* m (fst (auth_all e client profileName metas m))"
proof (induction metas arbitrary: m)
  case (Cons meta metas)
  obtain m1 meta' where o: "auth_one e client profileName meta m = (m1, meta')" by force
  then have "m1 = m \<or> mgr_step m m1"
    by (auto simp: auth_one_def Let_def intro: step_active step_inactive
        split: option.splits query_answer.splits if_splits prod.splits)
  with Cons.IH [of m1] show ?case using o by (auto intro: converse_rtranclp_into_rtranclp split: prod.splits)
qed simp

lemma auth_body_mgr_steps: "mgr_step\<^sup>*\<^sup>* (wo_mgr w) (wo_mgr (fst (auth_body e a w)))"
proof (cases "requireProfile e a")
  case (Inr np)
  then obtain n p where rp: "requireProfile e a = Inr (n, p)" by (cases np) auto
  obtain m metas where o: "auth_all e (session_resolver e (wo_rpc w) n) n (ListForProfile (wo_mgr w) n (en_order e)) (wo_mgr w) = (m, metas)"
    by force
  then have "mgr_step\<^sup>*\<^sup>* (wo_mgr w) m"
    using auth_mgr_steps [of "wo_mgr w" e "session_resolver e (wo_rpc w) n" n "ListForProfile (wo_mgr w) n (en_order e)"] by simp
  then show ?thesis using rp o by (simp add: auth_body_def Let_def)
qed (simp add: auth_body_def)

lemma propose_manager:
  "wo_mgr (fst (propose_body e pe a w)) = wo_mgr w \<or>
   (\<exists>n kp sc master now. pe_keypair pe = Inr kp \<and> wo_mgr (fst (propose_body e pe a w)) =
      fst (AddPending (en_store e) (wo_mgr w) n (kp_Address kp) (kp_PubkeyBech32 kp) (kp_priv kp) sc master now))"
proof (cases "requireProfile e a")
  case (Inr np)
  then obtain n p where rp: "requireProfile e a = Inr (n, p)" by (cases np) auto
  let ?q = "bindS (propose_args e a) (\<lambda>(sa, u). bindS (resolve_master e n p u) (\<lambda>master. Inr (sa, master)))"
  show ?thesis
  proof (cases "\<not> profileSessionEligible p \<or> isl ?q \<or> en_resolver e n = None")
    case True
    then show ?thesis using rp by (cases ?q) (auto simp: propose_body_def split: option.splits)
  next
    case False
    then obtain sa master where q: "profileSessionEligible p" "?q = Inr (sa, master)" by (cases ?q) auto
    obtain c where c: "en_resolver e n = Some c" using False by auto
    obtain h fr where f: "gas_fee (cl_node c) (en_lib e) DefaultGasWanted (wo_rpc w) = (h, fr)" by force
    show ?thesis
    proof (cases fr)
      case (Inl err)
      then show ?thesis using rp q c f by (simp add: propose_body_def run_rpc_def)
    next
      case fee: (Inr fee)
      show ?thesis
      proof (cases "ResolveScope (pe_isRealm pe) (pe_parseDuration pe) sa p fee")
        case (Inl err)
        then show ?thesis using rp q c f fee by (simp add: propose_body_def run_rpc_def)
      next
        case (Inr sw)
        then obtain sc ws where sc: "ResolveScope (pe_isRealm pe) (pe_parseDuration pe) sa p fee = Inr (sc, ws)" by (cases sw) auto
        show ?thesis
        proof (cases "pe_keypair pe")
          case (Inl err)
          then show ?thesis using rp q c f fee sc by (simp add: propose_body_def run_rpc_def)
        next
          case kp: (Inr kp)
          obtain m r where ad: "AddPending (en_store e) (wo_mgr w) n (kp_Address kp) (kp_PubkeyBech32 kp) (kp_priv kp) sc master (pe_now pe) = (m, r)"
            by force
          then have "wo_mgr (fst (propose_body e pe a w)) = m"
            using rp q c f fee sc kp by (cases r) (simp_all add: propose_body_def run_rpc_def Let_def)
          with ad kp show ?thesis by (metis fst_conv)
        qed
      qed
    qed
  qed
qed (simp add: propose_body_def)

lemma propose_mgr_steps:
  assumes "\<And>kp profile. pe_keypair pe = Inr kp \<Longrightarrow> getState (wo_mgr w) profile (kp_Address kp) = None"
  shows "mgr_step\<^sup>*\<^sup>* (wo_mgr w) (wo_mgr (fst (propose_body e pe a w)))"
  using propose_manager [of e pe a w]
proof
  assume "\<exists>n kp sc master now. pe_keypair pe = Inr kp \<and> wo_mgr (fst (propose_body e pe a w)) =
      fst (AddPending (en_store e) (wo_mgr w) n (kp_Address kp) (kp_PubkeyBech32 kp) (kp_priv kp) sc master now)"
  then obtain n kp sc master now where k: "pe_keypair pe = Inr kp" "wo_mgr (fst (propose_body e pe a w)) =
      fst (AddPending (en_store e) (wo_mgr w) n (kp_Address kp) (kp_PubkeyBech32 kp) (kp_priv kp) sc master now)" by blast
  show ?thesis unfolding k(2)
    by (rule r_into_rtranclp [of mgr_step, OF step_add [OF assms [OF k(1)] prod.collapse [symmetric]]])
qed simp

subsection \<open>Tools that leave the sessions alone\<close>

definition quiet_step :: "world \<Rightarrow> world \<Rightarrow> bool" where
  "quiet_step w w' \<longleftrightarrow> wo_mgr w' = wo_mgr w \<and> writes (wo_rpc w) (wo_rpc w') = []"

lemma quiet_step_same [simp]: "quiet_step w w" by (simp add: quiet_step_def)

lemma poll_quiet:
  assumes "pollFunded e c addr faucetPollTimeout faucetPollInterval h = Some (h', b, err)"
  shows "writes h h' = []"
  using pollFunded_production [of e c addr h] assms by (auto simp: poll_result_def writes_def balance_query_def)

lemma faucet_quiet: "quiet_step w (fst (the (faucet_body e hc a w)))"
proof -
  have pf: "\<exists>h b err. pollFunded e c addr faucetPollTimeout faucetPollInterval (wo_rpc w) = Some (h, b, err) \<and> writes (wo_rpc w) h = []" for c addr
    using pollFunded_production [of e c addr "wo_rpc w"] poll_quiet unfolding poll_result_def by fastforce
  show ?thesis
  proof (cases "requireProfile e a")
    case (Inr np)
    then obtain n p where rp: "requireProfile e a = Inr (n, p)" by (cases np) auto
    show ?thesis
    proof (cases "keyArg e a")
      case k: (Inr key)
      show ?thesis
      proof (cases "AgentAddress (en_ksio e) (en_aead e) (en_signers e) (en_ks e) (wo_keys w) n key p")
        case ad: (Inr addr)
        show ?thesis
        proof (cases "en_resolver e n")
          case c: (Some c)
          obtain h b err where f: "pollFunded e c addr faucetPollTimeout faucetPollInterval (wo_rpc w) = Some (h, b, err)"
            "writes (wo_rpc w) h = []" using pf by blast
          show ?thesis
          proof (cases "Fund_backend hc (clientfaucet_Resolve p) addr (ChainID p)")
            case (Inl x)
            then show ?thesis using rp k ad c f
              by (cases x) (simp_all add: faucet_body_def settleFaucetFailure_def quiet_step_def)
          qed (use rp k ad c f in \<open>simp add: faucet_body_def quiet_step_def\<close>)
        qed (use rp k ad in \<open>simp add: faucet_body_def\<close>)
      qed (use rp k in \<open>simp add: faucet_body_def split: option.splits\<close>)
    qed (use rp in \<open>simp add: faucet_body_def\<close>)
  qed (simp add: faucet_body_def)
qed

lemma plain_world: "plain_handler body a w = (w', es, out) \<Longrightarrow> w' = fst (body a w)"
  by (auto simp: plain_handler_def split: prod.splits sum.splits)

lemma audited_world: "self_audited body a w = (w', es, out) \<Longrightarrow> w' = fst (body a w)"
  by (auto simp: self_audited_def split: prod.splits sum.splits)

lemma keys_quiet:
  "keyGenHandler e salt nonce fresh a w = (w', es, out) \<Longrightarrow> quiet_step w w'"
  "keyAddrHandler e a w = (w', es, out) \<Longrightarrow> quiet_step w w'"
  "keyListHandler e a w = (w', es, out) \<Longrightarrow> quiet_step w w'"
  by (auto simp: keyGenHandler_def keyAddrHandler_def keyListHandler_def quiet_step_def dest!: plain_world split: sum.splits prod.splits)

lemma revoke_quiet: "quiet_step w (fst (revoke_body e a w))"
proof (cases "requireProfile e a")
  case (Inr np)
  then obtain n p where rp: "requireProfile e a = Inr (n, p)" by (cases np) auto
  let ?q = "bindS (arg e StringArg a ''session_address'') (\<lambda>s. if s = [] then Inl (PlainError ''session_address: required'') else Inr s)"
  show ?thesis
  proof (cases ?q)
    case q: (Inr s)
    show ?thesis
    proof (cases "Get (wo_mgr w) n s")
      case m: (Some meta)
      show ?thesis
      proof (cases "en_resolver e n")
        case c: (Some c)
        obtain h r where f: "gas_fee (cl_node c) (en_lib e) DefaultGasWanted (wo_rpc w) = (h, r)" by force
        then have "writes (wo_rpc w) h = []" using quiet_writes [OF quiet_gas_fee f] by simp
        then show ?thesis using rp q m c f by (cases r) (simp_all add: revoke_body_def run_rpc_def quiet_step_def Let_def)
      qed (use rp q m in \<open>simp add: revoke_body_def Let_def\<close>)
    qed (use rp q in \<open>simp add: revoke_body_def\<close>)
  qed (use rp in \<open>simp add: revoke_body_def\<close>)
qed (simp add: revoke_body_def)

lemma auth_rpc: "wo_rpc (fst (auth_body e a w)) = wo_rpc w"
  by (auto simp: auth_body_def Let_def split: sum.splits prod.splits)

subsection \<open>Every tool\<close>

lemma audited_one:
  assumes "audit_true tool Q w out"
  shows "length (writes (wo_rpc w) (wo_rpc (fst out))) \<le> 1"
  using assms by (cases out) (auto simp: audit_true_def)

lemma sweep_one: "swept_ok e c n k s bal p w h d \<Longrightarrow> length (writes (wo_rpc w) h) \<le> 1"
  by (auto simp: swept_ok_def)

lemma delete_one: "delete_true e a w out \<Longrightarrow> wo_mgr (fst out) = wo_mgr w \<and> length (writes (wo_rpc w) (wo_rpc (fst out))) \<le> 1"
  by (cases out) (auto simp: delete_true_def key_deleted_def dest: sweep_one split: if_splits)

lemma agent_tools_one:
  "addpkg_true e a w out \<Longrightarrow> wo_mgr (fst out) = wo_mgr w \<and> length (writes (wo_rpc w) (wo_rpc (fst out))) \<le> 1"
  "cla_true e a w out \<Longrightarrow> wo_mgr (fst out) = wo_mgr w \<and> length (writes (wo_rpc w) (wo_rpc (fst out))) \<le> 1"
  "send_true e oor f64 a w out \<Longrightarrow> wo_mgr (fst out) = wo_mgr w \<and> length (writes (wo_rpc w) (wo_rpc (fst out))) \<le> 1"
proof -
  have one: "wo_mgr w' = wo_mgr w \<and> length (writes h h') \<le> 1"
    if "w' = w\<lparr>wo_rpc := wo_rpc w'\<rparr>" "writes h h' = [] \<or> (\<exists>ev. writes h h' = [ev] \<and> Q ev)" for w w' :: world and h h' Q
  proof
    show "wo_mgr w' = wo_mgr w" using only_rpc [OF that(1)] by simp
    show "length (writes h h') \<le> 1" using that(2) by fastforce
  qed
  show "addpkg_true e a w out \<Longrightarrow> wo_mgr (fst out) = wo_mgr w \<and> length (writes (wo_rpc w) (wo_rpc (fst out))) \<le> 1"
    by (cases out, rule one [where Q = "addpkg_committed e a w"]) (simp_all only: addpkg_true_def prod.case fst_conv)
  show "cla_true e a w out \<Longrightarrow> wo_mgr (fst out) = wo_mgr w \<and> length (writes (wo_rpc w) (wo_rpc (fst out))) \<le> 1"
    by (cases out, rule one [where Q = "cla_committed e a w"]) (simp_all only: cla_true_def prod.case fst_conv)
  show "send_true e oor f64 a w out \<Longrightarrow> wo_mgr (fst out) = wo_mgr w \<and> length (writes (wo_rpc w) (wo_rpc (fst out))) \<le> 1"
    by (cases out, rule one [where Q = "send_committed e oor f64 a w"]) (simp_all only: send_true_def prod.case fst_conv)
qed

lemma tool_step_facts:
  assumes "tool_step w w'"
  shows "mgr_step\<^sup>*\<^sup>* (wo_mgr w) (wo_mgr w') \<and> length (writes (wo_rpc w) (wo_rpc w')) \<le> 1"
  using assms
proof cases
  case (by_call e a es out)
  then have "w' = fst (call_body e a w)" unfolding callHandler_def by (rule audited_world)
  then show ?thesis using call_mgr_steps audited_one [OF call_body_true] by simp
next
  case (by_run e a es out)
  then have "w' = fst (run_body e a w)" unfolding runHandler_def by (rule audited_world)
  then show ?thesis using run_mgr_steps audited_one [OF run_body_true] by simp
next
  case (by_addpkg e a es out)
  obtain x where x: "addpkg_body e production_wait a w = Some x" "addpkg_true e a w x" using addpkg_body_true by blast
  have "w' = fst x" using audited_world [OF by_addpkg [unfolded addpkgHandler_def]] x(1) by simp
  then show ?thesis using agent_tools_one(1) [OF x(2)] by simp
next
  case (by_cla_sign e a es out)
  then have "w' = fst (cla_sign_body e a w)" unfolding claSignHandler_def by (rule audited_world)
  then show ?thesis using agent_tools_one(2) [OF cla_body_true] by simp
next
  case (by_faucet e hc a es out)
  then have "w' = fst (the (faucet_body e hc a w))" unfolding faucetFundHandler_def by (rule plain_world)
  then show ?thesis using faucet_quiet [of w e hc a] by (simp add: quiet_step_def)
next
  case (by_key_generate e salt nonce fresh a es out)
  then show ?thesis using keys_quiet(1) by (fastforce simp: quiet_step_def)
next
  case (by_key_address e a es out)
  then show ?thesis using keys_quiet(2) by (fastforce simp: quiet_step_def)
next
  case (by_key_list e a es out)
  then show ?thesis using keys_quiet(3) by (fastforce simp: quiet_step_def)
next
  case (by_key_send e oor f64 a es out)
  then have "w' = fst (key_send_body e oor f64 a w)" unfolding keySendHandler_def by (rule audited_world)
  then show ?thesis using agent_tools_one(3) [OF key_send_body_true] by simp
next
  case (by_key_delete e a es out)
  then have "w' = fst (key_delete_body e a w)" unfolding keyDeleteHandler_def by (rule plain_world)
  then show ?thesis using delete_one [OF key_delete_body_true [of e a w]] by simp
next
  case (by_propose e pe a es out)
  then have "w' = fst (propose_body e pe a w)" unfolding sessionProposeHandler_def by (auto dest: plain_world)
  moreover have "writes (wo_rpc w) (wo_rpc (fst (propose_body e pe a w))) = []"
    using propose_body_outcome [of e pe a w] by (auto simp: propose_outcome_def)
  ultimately show ?thesis using propose_mgr_steps [of pe w e a] by_propose(2) by auto
next
  case (by_revoke e a es out)
  then have "w' = fst (revoke_body e a w)" unfolding sessionRevokeHandler_def by (rule plain_world)
  then show ?thesis using revoke_quiet [of w e a] by (simp add: quiet_step_def)
next
  case (by_auth_status e a es out)
  then have "w' = fst (auth_body e a w)" unfolding authStatusHandler_def by (rule plain_world)
  then show ?thesis using auth_body_mgr_steps [of w e a] by (simp add: auth_rpc)
qed

text \<open>
  C8. The tools refine the session manager. Whatever tool calls a server runs, with any arguments, on
  any disk, chain and clock, the sessions see a run of the manager's own locked steps; so over the
  whole life of the server each session keeps its address, its key pair, the master it acts for and
  its creation time.
\<close>

theorem tools_refine_manager:
  assumes "tool_step\<^sup>*\<^sup>* w w'"
  shows "mgr_step\<^sup>*\<^sup>* (wo_mgr w) (wo_mgr w') \<and> keeps (wo_mgr w) (wo_mgr w')"
proof -
  have "mgr_step\<^sup>*\<^sup>* (wo_mgr w) (wo_mgr w')"
    using assms by (induction rule: rtranclp_induct) (auto dest: tool_step_facts)
  then show ?thesis using mgr_steps_keep by blast
qed


definition demo_sessions :: world where
  "demo_sessions = demo_world\<lparr>wo_mgr := demo_manager\<rparr>"

lemma tools_refine_manager_witness:
  "mgr_step\<^sup>*\<^sup>* demo_manager (wo_mgr (fst (authStatusHandler demo_env [''profile'' \<mapsto> JStr ''dev''] demo_sessions))) \<and>
   keeps demo_manager (wo_mgr (fst (authStatusHandler demo_env [''profile'' \<mapsto> JStr ''dev''] demo_sessions))) \<and>
   getState demo_manager ''dev'' ''g1s'' \<noteq> None"
proof -
  obtain w' es out where a: "authStatusHandler demo_env [''profile'' \<mapsto> JStr ''dev''] demo_sessions = (w', es, out)"
    using prod_cases3 by blast
  have "wo_mgr demo_sessions = demo_manager" "getState demo_manager ''dev'' ''g1s'' \<noteq> None"
    by (simp_all add: getState_def demo_manager_def demo_sessions_def)
  then show ?thesis
    using tools_refine_manager [of demo_sessions w', OF r_into_rtranclp [of tool_step, OF by_auth_status [OF a]]] unfolding a by simp
qed


end
