(* ===== verification/Gnosrc.thy ===== *)
theory Gnosrc
  imports Untrusted "HOL-Library.AList"
begin

section \<open>Package source: internal/gnosrc gnosrc.go, outline.go, symbols.go and deps.go\<close>

text \<open>
  Three syntactic views of a package: an outline, the verbatim text of named declarations, and a
  best-effort list of what a function refers to. Parsing and printing are \<open>go/parser\<close> and
  \<open>go/printer\<close>, and the archive format is txtar's: parameters here (\<open>goast\<close>). Their data is the part
  of \<open>go/ast\<close> the code looks at. Positions are offsets in the file; a declaration is identified by
  the indices of its file and of its place in it, where the code compares pointers, and an
  \<open>ast.Object\<close> is a number, the pointer the parser made. A table is an association list.
\<close>

subsection \<open>Syntax\<close>

record ident =
  id_Name :: string
  id_Obj :: "nat option"

datatype go_node =
    GIdent ident
  | GSelector go_node ident
  | GCall go_node "go_node list"
  | GComposite "go_node option" "go_node list"
  | GKeyValue go_node go_node
  | GStar go_node
  | GNode "go_node list"

record comment_group =
  cg_Pos :: nat
  cg_Text :: string

text \<open>A receiver list is a list of fields, each with its names and its type.\<close>

record func_decl =
  fd_Name :: ident
  fd_Recv :: "(ident list \<times> go_node) list option"
  fd_Type :: go_node
  fd_Body :: "go_node option"
  fd_Doc :: "comment_group option"
  fd_Pos :: nat
  fd_End :: nat

datatype go_spec =
    ImportSpec
  | TypeSpec ident "comment_group option" go_node
  | ValueSpec "ident list" "comment_group option" "go_node option" "go_node list"

record gen_decl =
  gd_Tok :: string
  gd_Specs :: "go_spec list"
  gd_Doc :: "comment_group option"
  gd_Pos :: nat
  gd_End :: nat

datatype go_decl = FuncDecl func_decl | GenDecl gen_decl

record import_spec =
  im_Name :: "ident option"
  im_Path :: string

record syn_file =
  sy_Doc :: "comment_group option"
  sy_Name :: string
  sy_Decls :: "go_decl list"
  sy_Imports :: "import_spec list"

text \<open>
  \<open>ga_parse\<close> is \<open>parser.ParseFile\<close> (its first argument is the place of the file in the set, so that
  objects differ between files); \<open>ga_print_func\<close> and \<open>ga_print_gen\<close> are \<open>printNode\<close> on a signature
  and on a declaration of one spec.
\<close>

record goast =
  ga_parse :: "nat \<Rightarrow> string \<Rightarrow> string \<Rightarrow> string + syn_file"
  ga_print_func :: "func_decl \<Rightarrow> string"
  ga_print_gen :: "string \<Rightarrow> go_spec \<Rightarrow> string"
  ga_txtar :: "(string \<times> bytes) list \<Rightarrow> string"
  ga_exported :: "string \<Rightarrow> bool"

record parsedFile =
  pf_name :: string
  pf_body :: string
  pf_isGno :: bool
  pf_syn :: "syn_file option"
  pf_err :: "string option"

definition parse_one :: "goast \<Rightarrow> nat \<Rightarrow> string \<times> string \<Rightarrow> parsedFile" where
  "parse_one g i f =
     (let isGno = HasSuffix (fst f) ''.gno'';
          r = (if isGno then Some (ga_parse g i (fst f) (snd f)) else None)
      in \<lparr>pf_name = fst f, pf_body = snd f, pf_isGno = isGno,
          pf_syn = (case r of Some (Inr s) \<Rightarrow> Some s | _ \<Rightarrow> None),
          pf_err = (case r of Some (Inl x) \<Rightarrow> Some x | _ \<Rightarrow> None)\<rparr>)"

definition parseAll :: "goast \<Rightarrow> (string \<times> string) list \<Rightarrow> parsedFile list" where
  "parseAll g files = map (\<lambda>(i, f). parse_one g i f) (enumerate 0 files)"

definition trim_nl :: "string \<Rightarrow> string" where
  "trim_nl s = rev (dropWhile (\<lambda>c. c = CHR 0x0A) (rev s))"

definition renderDoc :: "comment_group option \<Rightarrow> string" where
  "renderDoc d =
     (case d of
        None \<Rightarrow> []
      | Some c \<Rightarrow> concat (map (\<lambda>line. if line = [] then ''//'' @ nl else ''// '' @ line @ nl) (Split (trim_nl (cg_Text c)) (CHR 0x0A))))"

definition ellipsis :: ident where
  "ellipsis = \<lparr>id_Name = [CHR 0xE2, CHR 0x80, CHR 0xA6], id_Obj = None\<rparr>"

definition elideValues :: "go_spec \<Rightarrow> go_spec" where
  "elideValues sp =
     (case sp of
        ValueSpec names doc ty vals \<Rightarrow> ValueSpec names None ty (if vals = [] then [] else [GIdent ellipsis])
      | _ \<Rightarrow> sp)"

definition signatureOf :: "func_decl \<Rightarrow> func_decl" where
  "signatureOf fd = fd\<lparr>fd_Body := None, fd_Doc := None\<rparr>"

subsection \<open>Outline\<close>

definition trim_quotes :: "string \<Rightarrow> string" where
  "trim_quotes s = rev (dropWhile (\<lambda>c. c = CHR 0x22) (rev (dropWhile (\<lambda>c. c = CHR 0x22) s)))"

definition importPaths :: "syn_file \<Rightarrow> string list" where
  "importPaths f = map (\<lambda>i. trim_quotes (im_Path i)) (sy_Imports f)"

definition specDoc :: "gen_decl \<Rightarrow> comment_group option \<Rightarrow> string" where
  "specDoc d own = (case own of Some c \<Rightarrow> renderDoc (Some c) | None \<Rightarrow> renderDoc (gd_Doc d))"

definition outlineSpec :: "goast \<Rightarrow> gen_decl \<Rightarrow> go_spec \<Rightarrow> string \<times> string \<times> bool" where
  "outlineSpec g d sp =
     (case sp of
        ImportSpec \<Rightarrow> ([], [], False)
      | TypeSpec n doc ty \<Rightarrow> (specDoc d doc, ga_print_gen g ''type'' (TypeSpec n None ty), ga_exported g (id_Name n))
      | ValueSpec ns doc ty vals \<Rightarrow>
          (specDoc d doc, ga_print_gen g (gd_Tok d) (elideValues sp), list_ex (\<lambda>n. ga_exported g (id_Name n)) ns))"

text \<open>The exported text of a declaration, and what goes to the unexported list.\<close>

definition outlineGenDecl :: "goast \<Rightarrow> gen_decl \<Rightarrow> string \<times> string list" where
  "outlineGenDecl g d =
     (let rs = filter (\<lambda>(doc, rendered, exported). rendered \<noteq> []) (map (outlineSpec g d) (gd_Specs d))
      in (concat (map (\<lambda>(doc, rendered, exported). if exported then nl @ doc @ rendered @ nl else []) rs),
          concat (map (\<lambda>(doc, rendered, exported). if exported then [] else [rendered]) rs)))"

definition outline_decl :: "goast \<Rightarrow> go_decl \<Rightarrow> string \<times> string list" where
  "outline_decl g d =
     (case d of
        FuncDecl fd \<Rightarrow>
          (let sig = ga_print_func g (signatureOf fd)
           in if ga_exported g (id_Name (fd_Name fd)) then (nl @ renderDoc (fd_Doc fd) @ sig @ nl, []) else ([], [sig]))
      | GenDecl gd \<Rightarrow> if gd_Tok gd = ''import'' then ([], []) else outlineGenDecl g gd)"

definition outlineEntry :: "goast \<Rightarrow> parsedFile \<Rightarrow> string" where
  "outlineEntry g pf =
     (let size = ''// '' @ show_nat (length (pf_body pf)) @ '' bytes'' in
      if \<not> pf_isGno pf then size @ '' (not Gno source'' @ [CHR '' '', CHR 0xE2, CHR 0x80, CHR 0x94, CHR '' ''] @ ''content omitted; fetch with full=true)'' @ nl
      else case pf_syn pf of
        None \<Rightarrow> size @ '' (parse error: '' @ the (pf_err pf) @ [CHR '' '', CHR 0xE2, CHR 0x80, CHR 0x94, CHR '' ''] @ ''fetch with full=true)'' @ nl
      | Some s \<Rightarrow>
          (let decls = map (outline_decl g) (sy_Decls s); unexported = concat (map snd decls); paths = importPaths s
           in size @ [CHR '' '', CHR 0xE2, CHR 0x80, CHR 0x94, CHR '' ''] @
              ''outline only: signatures and docs are realm-authored claims, not evidence; fetch bodies via symbols=[...] or full=true'' @ nl @
              (if paths \<noteq> [] then ''// imports: '' @ Join paths '', '' @ nl else []) @
              (case sy_Doc s of None \<Rightarrow> [] | Some d \<Rightarrow> nl @ renderDoc (Some d) @ ''package '' @ sy_Name s @ nl) @
              concat (map fst decls) @
              (if unexported \<noteq> [] then
                 nl @ ''// unexported:'' @ nl @
                 concat (map (\<lambda>sig. concat (map (\<lambda>line. ''//'' @ tab @ line @ nl) (Split (trim_nl sig) (CHR 0x0A)))) unexported)
               else [])))"

definition Outline :: "goast \<Rightarrow> (string \<times> string) list \<Rightarrow> string" where
  "Outline g files = Neutralize (ga_txtar g (map (\<lambda>pf. (pf_name pf, outlineEntry g pf)) (parseAll g files)))"

subsection \<open>References of a function\<close>

text \<open>The names a spec declares, and the base type of a receiver.\<close>

fun specNames :: "go_spec \<Rightarrow> ident list" where
  "specNames (TypeSpec n doc ty) = [n]"
| "specNames (ValueSpec ns doc ty vals) = ns"
| "specNames ImportSpec = []"

definition type_base :: "go_node \<Rightarrow> string" where
  "type_base t = (case (case t of GStar x \<Rightarrow> x | _ \<Rightarrow> t) of GIdent i \<Rightarrow> id_Name i | _ \<Rightarrow> [])"

definition receiverTypeName :: "func_decl \<Rightarrow> string" where
  "receiverTypeName d = (case fd_Recv d of Some ((ns, t) # fs) \<Rightarrow> type_base t | _ \<Rightarrow> [])"

record packageNames =
  pn_names :: "string list"
  pn_topObjs :: "nat list"

definition package_decl :: "go_decl \<Rightarrow> ident list" where
  "package_decl d =
     (case d of
        FuncDecl fd \<Rightarrow> if fd_Recv fd \<noteq> None then [] else [fd_Name fd]
      | GenDecl gd \<Rightarrow> if gd_Tok gd = ''import'' then [] else concat (map specNames (gd_Specs gd)))"

definition file_decls :: "parsedFile \<Rightarrow> go_decl list" where
  "file_decls pf = (case pf_syn pf of None \<Rightarrow> [] | Some s \<Rightarrow> sy_Decls s)"

definition packageScope :: "parsedFile list \<Rightarrow> packageNames" where
  "packageScope parsed =
     (let ids = concat (map (\<lambda>pf. concat (map package_decl (file_decls pf))) parsed)
      in \<lparr>pn_names = map id_Name ids, pn_topObjs = List.map_filter id_Obj ids\<rparr>)"

definition isPackageRef :: "packageNames \<Rightarrow> ident \<Rightarrow> bool" where
  "isPackageRef p i \<longleftrightarrow>
     id_Name i \<in> set (pn_names p) \<and> (case id_Obj i of Some n \<Rightarrow> n \<in> set (pn_topObjs p) | None \<Rightarrow> True)"

text \<open>The last path segment.\<close>

definition last_segment :: "string \<Rightarrow> string" where
  "last_segment path = rev (takeWhile (\<lambda>c. c \<noteq> CHR ''/'') (rev path))"

definition import_local :: "import_spec \<Rightarrow> string" where
  "import_local i = (case im_Name i of Some n \<Rightarrow> id_Name n | None \<Rightarrow> last_segment (trim_quotes (im_Path i)))"

text \<open>A later import of the same local name replaces the earlier.\<close>

definition importLocalNames :: "syn_file \<Rightarrow> (string \<times> string) list" where
  "importLocalNames f =
     rev (map (\<lambda>i. (import_local i, trim_quotes (im_Path i)))
       (filter (\<lambda>i. import_local i \<noteq> ''.'' \<and> import_local i \<noteq> ''_'') (sy_Imports f)))"

definition importQualifier :: "(string \<times> string) list \<Rightarrow> go_node \<Rightarrow> string option" where
  "importQualifier locals x = (case x of GIdent i \<Rightarrow> if id_Obj i \<noteq> None then None else map_of locals (id_Name i) | _ \<Rightarrow> None)"

text \<open>
  The walk of \<open>collectDeps\<close>: names, import paths, and the number of method calls left unresolved. In
  a composite literal the key of a pair is skipped when it is a bare name.
\<close>

type_synonym found_refs = "string list \<times> string list \<times> nat"

definition no_refs :: found_refs where "no_refs = ([], [], 0)"

definition add_refs :: "found_refs \<Rightarrow> found_refs \<Rightarrow> found_refs" where
  "add_refs a b = (fst a @ fst b, fst (snd a) @ fst (snd b), snd (snd a) + snd (snd b))"

definition unresolved_call :: "(string \<times> string) list \<Rightarrow> go_node \<Rightarrow> nat" where
  "unresolved_call locals f =
     (case f of GSelector x s \<Rightarrow> (case importQualifier locals x of None \<Rightarrow> 1 | Some _ \<Rightarrow> 0) | _ \<Rightarrow> 0)"

fun visit_node :: "packageNames \<Rightarrow> string \<Rightarrow> (string \<times> string) list \<Rightarrow> go_node \<Rightarrow> found_refs"
  and visit_nodes :: "packageNames \<Rightarrow> string \<Rightarrow> (string \<times> string) list \<Rightarrow> go_node list \<Rightarrow> found_refs"
  and visit_elts :: "packageNames \<Rightarrow> string \<Rightarrow> (string \<times> string) list \<Rightarrow> go_node list \<Rightarrow> found_refs" where
  "visit_node p rt locals (GIdent i) = (if id_Name i \<noteq> rt \<and> isPackageRef p i then ([id_Name i], [], 0) else no_refs)"
| "visit_node p rt locals (GSelector x s) =
     (case importQualifier locals x of Some path \<Rightarrow> ([], [path], 0) | None \<Rightarrow> visit_node p rt locals x)"
| "visit_node p rt locals (GCall f args) =
     add_refs ([], [], unresolved_call locals f) (add_refs (visit_node p rt locals f) (visit_nodes p rt locals args))"
| "visit_node p rt locals (GComposite t elts) =
     add_refs (case t of None \<Rightarrow> no_refs | Some x \<Rightarrow> visit_node p rt locals x) (visit_elts p rt locals elts)"
| "visit_node p rt locals (GKeyValue k v) = add_refs (visit_node p rt locals k) (visit_node p rt locals v)"
| "visit_node p rt locals (GStar x) = visit_node p rt locals x"
| "visit_node p rt locals (GNode xs) = visit_nodes p rt locals xs"
| "visit_nodes p rt locals [] = no_refs"
| "visit_nodes p rt locals (x # xs) = add_refs (visit_node p rt locals x) (visit_nodes p rt locals xs)"
| "visit_elts p rt locals [] = no_refs"
| "visit_elts p rt locals (x # xs) =
     add_refs (case x of GKeyValue (GIdent k) v \<Rightarrow> visit_node p rt locals v | _ \<Rightarrow> visit_node p rt locals x)
       (visit_elts p rt locals xs)"

definition field_node :: "ident list \<times> go_node \<Rightarrow> go_node" where
  "field_node f = GNode (map GIdent (fst f) @ [snd f])"

text \<open>Receiver, signature and body, in that order.\<close>

definition func_nodes :: "func_decl \<Rightarrow> go_node list" where
  "func_nodes fd =
     (case fd_Recv fd of None \<Rightarrow> [] | Some fs \<Rightarrow> map field_node fs) @ [fd_Type fd] @ (case fd_Body fd of None \<Rightarrow> [] | Some b \<Rightarrow> [b])"

definition sorted_set :: "string list \<Rightarrow> string list" where
  "sorted_set xs = sort_by id (remdups xs)"

definition collectDeps :: "packageNames \<Rightarrow> syn_file \<Rightarrow> func_decl \<Rightarrow> found_refs" where
  "collectDeps p f fd =
     (case visit_nodes p (receiverTypeName fd) (importLocalNames f) (func_nodes fd) of
        (deps, imports, unresolved) \<Rightarrow> (sorted_set deps, sorted_set imports, unresolved))"

definition depHeader :: "packageNames \<Rightarrow> syn_file \<Rightarrow> func_decl \<Rightarrow> string" where
  "depHeader p f fd =
     (case collectDeps p f fd of
        (deps, imports, unresolved) \<Rightarrow>
          (if deps \<noteq> [] \<or> unresolved > 0 then
             ''// deps: '' @ Join deps '', '' @
             (if unresolved > 0 then
                (if deps \<noteq> [] then '' '' else []) @ ''(+'' @ show_nat unresolved @ '' unresolved method call(s)'' @
                [CHR '' '', CHR 0xE2, CHR 0x80, CHR 0x94, CHR '' ''] @ ''dep list incomplete; read the full file for the complete picture)''
              else []) @ nl
           else []) @
          (if imports \<noteq> [] then ''// imports: '' @ Join imports '', '' @ nl else []))"

subsection \<open>Named declarations\<close>

record symbolRef =
  sy_file :: nat
  sy_decl :: nat
  sy_pos :: nat
  sy_end :: nat
  sy_doc :: "comment_group option"
  sy_fn :: "func_decl option"

definition decl_refs :: "nat \<Rightarrow> nat \<Rightarrow> go_decl \<Rightarrow> (string \<times> symbolRef) list" where
  "decl_refs i j d =
     (case d of
        FuncDecl fd \<Rightarrow>
          [(if receiverTypeName fd \<noteq> [] then receiverTypeName fd @ ''.'' @ id_Name (fd_Name fd) else id_Name (fd_Name fd),
            \<lparr>sy_file = i, sy_decl = j, sy_pos = fd_Pos fd, sy_end = fd_End fd, sy_doc = fd_Doc fd, sy_fn = Some fd\<rparr>)]
      | GenDecl gd \<Rightarrow>
          if gd_Tok gd = ''import'' then []
          else map (\<lambda>n. (id_Name n, \<lparr>sy_file = i, sy_decl = j, sy_pos = gd_Pos gd, sy_end = gd_End gd, sy_doc = gd_Doc gd, sy_fn = None\<rparr>))
                 (concat (map specNames (gd_Specs gd))))"

definition all_refs :: "parsedFile list \<Rightarrow> (string \<times> symbolRef) list" where
  "all_refs parsed =
     concat (map (\<lambda>(i, pf). concat (map (\<lambda>(j, d). decl_refs i j d) (enumerate 0 (file_decls pf)))) (enumerate 0 parsed))"

text \<open>The last declaration of a name wins.\<close>

definition symbolTable :: "parsedFile list \<Rightarrow> (string \<times> symbolRef) list" where
  "symbolTable parsed = fold (\<lambda>(n, r) t. AList.update n r t) (all_refs parsed) []"

definition verbatim :: "parsedFile list \<Rightarrow> symbolRef \<Rightarrow> string" where
  "verbatim parsed r =
     (let from = (case sy_doc r of Some d \<Rightarrow> cg_Pos d | None \<Rightarrow> sy_pos r)
      in take (sy_end r - from) (drop from (pf_body (parsed ! sy_file r))))"

definition render_ref :: "parsedFile list \<Rightarrow> packageNames \<Rightarrow> symbolRef \<Rightarrow> string" where
  "render_ref parsed p r =
     (case (sy_fn r, pf_syn (parsed ! sy_file r)) of (Some fd, Some f) \<Rightarrow> depHeader p f fd | _ \<Rightarrow> []) @ verbatim parsed r @ nl"

definition renderRefs :: "parsedFile list \<Rightarrow> packageNames \<Rightarrow> symbolRef list \<Rightarrow> string" where
  "renderRefs parsed p refs = Join (map (render_ref parsed p) refs) nl"

text \<open>The names asked for, in order: those found, those missing, and the declarations to show, each once.\<close>

fun match_names ::
  "(string \<times> symbolRef) list \<Rightarrow> string list \<Rightarrow> string list \<Rightarrow> (nat \<times> nat) list \<Rightarrow> string list \<times> string list \<times> symbolRef list" where
  "match_names table [] seenName seenDecl = ([], [], [])"
| "match_names table (n # ns) seenName seenDecl =
     (if n \<in> set seenName then match_names table ns seenName seenDecl
      else case map_of table n of
        None \<Rightarrow> (case match_names table ns (n # seenName) seenDecl of (fs, ms, rs) \<Rightarrow> (fs, n # ms, rs))
      | Some r \<Rightarrow>
          if (sy_file r, sy_decl r) \<in> set seenDecl
          then (case match_names table ns (n # seenName) seenDecl of (fs, ms, rs) \<Rightarrow> (n # fs, ms, rs))
          else (case match_names table ns (n # seenName) ((sy_file r, sy_decl r) # seenDecl) of
                  (fs, ms, rs) \<Rightarrow> (n # fs, ms, r # rs)))"

record Extraction =
  ex_Body :: string
  ex_Found :: "string list"
  ex_Missing :: "string list"
  ex_Available :: "string list"
  ex_Errors :: "string list"

text \<open>One entry per file with a match, the declarations of a file in source order.\<close>

definition file_refs :: "symbolRef list \<Rightarrow> nat \<Rightarrow> symbolRef list" where
  "file_refs refs i = sort_key sy_pos (filter (\<lambda>r. sy_file r = i) refs)"

definition archive_entries :: "parsedFile list \<Rightarrow> symbolRef list \<Rightarrow> (string \<times> bytes) list" where
  "archive_entries parsed refs =
     concat (map (\<lambda>(i, pf). if file_refs refs i = [] then []
                             else [(pf_name pf, renderRefs parsed (packageScope parsed) (file_refs refs i))]) (enumerate 0 parsed))"

definition ExtractSymbols :: "goast \<Rightarrow> (string \<times> string) list \<Rightarrow> string list \<Rightarrow> Extraction" where
  "ExtractSymbols g files names =
     (let parsed = parseAll g files; table = symbolTable parsed in
      case match_names table names [] [] of
        (found, missing, refs) \<Rightarrow>
          (let entries = archive_entries parsed refs
           in \<lparr>ex_Body = (if entries \<noteq> [] then ga_txtar g entries else []), ex_Found = found, ex_Missing = missing,
               ex_Available = sort_by id (map fst table),
               ex_Errors = concat (map (\<lambda>pf. case pf_err pf of None \<Rightarrow> [] | Some x \<Rightarrow> [pf_name pf @ '': '' @ x]) parsed)\<rparr>))"

subsection \<open>Lemmas\<close>

lemma symbolTable_lookup: "map_of (symbolTable parsed) n = map_of (rev (all_refs parsed)) n"
proof -
  have "map_of (fold (\<lambda>(n, r) t. AList.update n r t) xs t) n = (map_of t ++ map_of (rev xs)) n" for xs t
    by (induction xs arbitrary: t) (auto simp: update_conv' map_add_def split: option.splits)
  from this [of "all_refs parsed" "[]"] show ?thesis by (simp add: symbolTable_def)
qed

lemma symbolTable_names: "set (map fst (symbolTable parsed)) = fst ` set (all_refs parsed)"
proof -
  have "dom (map_of (symbolTable parsed)) = dom (map_of (rev (all_refs parsed)))"
    by (simp add: dom_def symbolTable_lookup)
  then show ?thesis by (simp add: dom_map_of_conv_image_fst)
qed

abbreviation ref_key :: "symbolRef \<Rightarrow> nat \<times> nat" where
  "ref_key r \<equiv> (sy_file r, sy_decl r)"

lemma all_refs_origin:
  assumes "(n, r) \<in> set (all_refs parsed)"
  shows "sy_file r < length parsed \<and> sy_decl r < length (file_decls (parsed ! sy_file r)) \<and>
     (n, r) \<in> set (decl_refs (sy_file r) (sy_decl r) (file_decls (parsed ! sy_file r) ! sy_decl r))"
proof -
  obtain i j where i: "i < length parsed" "j < length (file_decls (parsed ! i))"
      "(n, r) \<in> set (decl_refs i j (file_decls (parsed ! i) ! j))"
    using assms unfolding all_refs_def by (auto simp: in_set_enumerate_eq)
  moreover from i(3) have "sy_file r = i" "sy_decl r = j" by (auto simp: decl_refs_def split: go_decl.splits if_splits)
  ultimately show ?thesis by simp
qed

lemma decl_refs_same: "(n, r) \<in> set (decl_refs i j d) \<Longrightarrow> (n', r') \<in> set (decl_refs i j d) \<Longrightarrow> r = r'"
  by (cases d) (auto simp: decl_refs_def split: if_splits)

lemma same_decl:
  assumes "(n, r) \<in> set (all_refs parsed)" "(n', r') \<in> set (all_refs parsed)" "ref_key r = ref_key r'"
  shows "r = r'"
  using all_refs_origin [OF assms(1)] all_refs_origin [OF assms(2)] assms(3) decl_refs_same by auto

lemma match_names_spec:
  "match_names t ns sn sd = (fs, ms, rs) \<Longrightarrow>
   set fs \<union> set ms = set ns - set sn \<and> distinct (fs @ ms) \<and>
   (\<forall>n\<in>set fs. \<exists>r. map_of t n = Some r \<and> ref_key r \<in> set sd \<union> ref_key ` set rs) \<and>
   (\<forall>n\<in>set ms. map_of t n = None) \<and> (\<forall>r\<in>set rs. \<exists>n. map_of t n = Some r)"
proof (induction ns arbitrary: sn sd fs ms rs)
  case (Cons n ns)
  show ?case
  proof (cases "n \<in> set sn")
    case True
    then show ?thesis using Cons.IH [of sn sd fs ms rs] Cons.prems by auto
  next
    case new: False
    show ?thesis
    proof (cases "map_of t n")
      case None
      then obtain ms' where m: "match_names t ns (n # sn) sd = (fs, ms', rs)" "ms = n # ms'"
        using Cons.prems new by (auto split: prod.splits)
      show ?thesis using Cons.IH [OF m(1)] m(2) new None by auto
    next
      case (Some r)
      define sd' where "sd' = (if ref_key r \<in> set sd then sd else ref_key r # sd)"
      obtain fs' rs' where m: "match_names t ns (n # sn) sd' = (fs', ms, rs')" "fs = n # fs'"
          "rs = (if ref_key r \<in> set sd then rs' else r # rs')"
        using Cons.prems new Some by (auto simp: sd'_def split: prod.splits if_splits)
      note ih = Cons.IH [OF m(1)]
      have key: "ref_key q \<in> set sd \<union> ref_key ` set rs" if "ref_key q \<in> set sd' \<union> ref_key ` set rs'" for q
        using that m(3) by (auto simp: sd'_def split: if_splits)
      have "\<exists>q. map_of t x = Some q \<and> ref_key q \<in> set sd \<union> ref_key ` set rs" if "x \<in> set fs" for x
      proof (cases "x = n")
        case True
        then show ?thesis using Some m(3) by (auto split: if_splits)
      next
        case False
        then show ?thesis using that m(2) ih key by fastforce
      qed
      moreover have "\<forall>q\<in>set rs. \<exists>x. map_of t x = Some q" using ih m(3) Some by (auto split: if_splits)
      moreover have "set fs \<union> set ms = set (n # ns) - set sn" "distinct (fs @ ms)" "\<forall>x\<in>set ms. map_of t x = None"
        using ih m(2) new by auto
      ultimately show ?thesis by blast
    qed
  qed
qed simp

lemma Join_part: "x \<in> set xs \<Longrightarrow> \<exists>pre post. Join xs sep = pre @ x @ post"
proof (induction xs sep rule: Join.induct)
  case (3 x' y xs sep)
  show ?case
  proof (cases "x = x'")
    case True
    then have "Join (x' # y # xs) sep = [] @ x @ sep @ Join (y # xs) sep" by simp
    then show ?thesis by blast
  next
    case False
    then obtain pre post where "Join (y # xs) sep = pre @ x @ post" using 3 by auto
    then show ?thesis by (intro exI [of _ "x' @ sep @ pre"] exI [of _ post]) simp
  qed
next
  case (2 x' sep)
  then have "Join [x'] sep = [] @ x @ []" by simp
  then show ?case by blast
qed simp

lemma archive_has:
  assumes "r \<in> set refs" "sy_file r < length parsed"
  shows "\<exists>pre post. (pf_name (parsed ! sy_file r), pre @ verbatim parsed r @ post) \<in> set (archive_entries parsed refs)"
proof -
  let ?rs = "file_refs refs (sy_file r)"
  have r: "r \<in> set ?rs" using assms(1) by (simp add: file_refs_def)
  then obtain pre post where "renderRefs parsed (packageScope parsed) ?rs = pre @ render_ref parsed (packageScope parsed) r @ post"
    using Join_part [of "render_ref parsed (packageScope parsed) r" "map (render_ref parsed (packageScope parsed)) ?rs" nl]
    unfolding renderRefs_def by auto
  then obtain pre' post' where e: "renderRefs parsed (packageScope parsed) ?rs = pre' @ verbatim parsed r @ post'"
    unfolding render_ref_def by (metis append.assoc)
  have "(sy_file r, parsed ! sy_file r) \<in> set (enumerate 0 parsed)" using assms(2) by (simp add: in_set_enumerate_eq)
  moreover have "?rs \<noteq> []" using r by auto
  ultimately have "(pf_name (parsed ! sy_file r), renderRefs parsed (packageScope parsed) ?rs) \<in> set (archive_entries parsed refs)"
    unfolding archive_entries_def by (auto intro!: bexI [of _ "(sy_file r, parsed ! sy_file r)"])
  then show ?thesis unfolding e by blast
qed

subsection \<open>Properties\<close>

text \<open>
  C35. Nothing asked for is lost. Every requested name is reported exactly once, as found or as missing,
  and it is found exactly if some file that parses declares it, which is when it is listed as
  available. For each name found the archive holds, in the entry of its file, the exact source text of
  the last declaration of that name.
\<close>

theorem ExtractSymbols_verbatim:
  fixes g :: goast and files :: "(string \<times> string) list" and names :: "string list"
  defines "x \<equiv> ExtractSymbols g files names" and "parsed \<equiv> parseAll g files"
  shows "set (ex_Found x) \<union> set (ex_Missing x) = set names \<and> distinct (ex_Found x @ ex_Missing x) \<and>
     set (ex_Available x) = fst ` set (all_refs parsed) \<and>
     set (ex_Found x) = set names \<inter> set (ex_Available x) \<and>
     (\<exists>entries. ex_Body x = (if entries \<noteq> [] then ga_txtar g entries else []) \<and>
        (\<forall>n\<in>set (ex_Found x). \<exists>r pre post. map_of (rev (all_refs parsed)) n = Some r \<and>
           (pf_name (parsed ! sy_file r), pre @ verbatim parsed r @ post) \<in> set entries))"
proof -
  obtain fs ms rs where m: "match_names (symbolTable parsed) names [] [] = (fs, ms, rs)" using prod_cases3 by blast
  note sp = match_names_spec [OF m]
  let ?en = "archive_entries parsed rs"
  have x: "ex_Found x = fs" "ex_Missing x = ms" "ex_Available x = sort_by id (map fst (symbolTable parsed))"
      "ex_Body x = (if ?en \<noteq> [] then ga_txtar g ?en else [])"
    using m by (simp_all add: x_def parsed_def ExtractSymbols_def Let_def)
  have av: "set (ex_Available x) = fst ` set (all_refs parsed)" using x(3) symbolTable_names by (simp add: set_sort_by)
  have has: "n \<in> fst ` set (all_refs parsed) \<longleftrightarrow> map_of (symbolTable parsed) n \<noteq> None" for n
    using symbolTable_names [of parsed] by (metis list.set_map map_of_eq_None_iff)
  have un: "set fs \<union> set ms = set names" "distinct (fs @ ms)" using sp by simp_all
  have fnd: "\<forall>n\<in>set fs. map_of (symbolTable parsed) n \<noteq> None" "\<forall>n\<in>set ms. map_of (symbolTable parsed) n = None"
    using sp by auto
  have found: "set fs = set names \<inter> set (ex_Available x)"
    unfolding av using un(1) fnd has by blast
  have "\<exists>r pre post. map_of (rev (all_refs parsed)) n = Some r \<and> (pf_name (parsed ! sy_file r), pre @ verbatim parsed r @ post) \<in> set ?en"
    if n: "n \<in> set fs" for n
  proof -
    obtain r r' where r: "map_of (symbolTable parsed) n = Some r" "r' \<in> set rs" "ref_key r = ref_key r'"
      using sp n by fastforce
    obtain n' where n': "map_of (symbolTable parsed) n' = Some r'" using sp r(2) by blast
    have in1: "(n, r) \<in> set (all_refs parsed)" "(n', r') \<in> set (all_refs parsed)"
      using r(1) n' by (auto simp: symbolTable_lookup dest: map_of_SomeD)
    have "r = r'" using same_decl [OF in1 r(3)] .
    moreover obtain pre post where "(pf_name (parsed ! sy_file r'), pre @ verbatim parsed r' @ post) \<in> set ?en"
      using archive_has [OF r(2)] all_refs_origin [OF in1(2)] by blast
    ultimately show ?thesis using r(1) by (auto simp: symbolTable_lookup)
  qed
  then have "\<forall>n\<in>set (ex_Found x). \<exists>r pre post. map_of (rev (all_refs parsed)) n = Some r \<and>
      (pf_name (parsed ! sy_file r), pre @ verbatim parsed r @ post) \<in> set ?en" unfolding x(1) by blast
  then show ?thesis using un av found x(4) unfolding x(1,2) by blast
qed

definition demo_func :: "string \<Rightarrow> nat \<Rightarrow> nat \<Rightarrow> func_decl" where
  "demo_func n from to =
     \<lparr>fd_Name = \<lparr>id_Name = n, id_Obj = Some 1\<rparr>, fd_Recv = None, fd_Type = GNode [], fd_Body = Some (GCall (GSelector (GIdent \<lparr>id_Name = ''x'', id_Obj = None\<rparr>) \<lparr>id_Name = ''m'', id_Obj = None\<rparr>) []),
      fd_Doc = None, fd_Pos = from, fd_End = to\<rparr>"

definition demo_goast :: goast where
  "demo_goast =
     \<lparr>ga_parse = (\<lambda>i n b. Inr \<lparr>sy_Doc = None, sy_Name = ''p'', sy_Decls = [FuncDecl (demo_func ''F'' 0 4), FuncDecl (demo_func ''F'' 5 9)], sy_Imports = []\<rparr>),
      ga_print_func = id_Name o fd_Name, ga_print_gen = (\<lambda>t s. t), ga_txtar = (\<lambda>es. concat (map snd es)), ga_exported = (\<lambda>n. True)\<rparr>"

lemma ExtractSymbols_verbatim_witness:
  "ex_Found (ExtractSymbols demo_goast [(''a.gno'', ''f(1) f(2)'')] [''F'', ''G'', ''F'']) = [''F''] \<and>
   set (ex_Available (ExtractSymbols demo_goast [(''a.gno'', ''f(1) f(2)'')] [''F'', ''G'', ''F''])) = {''F''} \<and>
   (\<exists>r pre post. verbatim (parseAll demo_goast [(''a.gno'', ''f(1) f(2)'')]) r = ''f(2)'' \<and>
      ex_Body (ExtractSymbols demo_goast [(''a.gno'', ''f(1) f(2)'')] [''F'', ''G'', ''F'']) = pre @ ''f(2)'' @ post)"
proof -
  let ?x = "ExtractSymbols demo_goast [(''a.gno'', ''f(1) f(2)'')] [''F'', ''G'', ''F'']"
  let ?p = "parseAll demo_goast [(''a.gno'', ''f(1) f(2)'')]"
  have refs: "map_of (rev (all_refs ?p)) ''F'' =
      Some \<lparr>sy_file = 0, sy_decl = 1, sy_pos = 5, sy_end = 9, sy_doc = None, sy_fn = Some (demo_func ''F'' 5 9)\<rparr>"
      "fst ` set (all_refs ?p) = {''F''}"
    by (simp_all add: all_refs_def parseAll_def parse_one_def file_decls_def decl_refs_def demo_goast_def HasSuffix_def receiverTypeName_def demo_func_def)
  note t = ExtractSymbols_verbatim [of demo_goast "[(''a.gno'', ''f(1) f(2)'')]" "[''F'', ''G'', ''F'']"]
  have av: "set (ex_Available ?x) = {''F''}" using t refs(2) by simp
  have f: "set (ex_Found ?x) = {''F''}" "distinct (ex_Found ?x)" using t av by auto
  then have fl: "ex_Found ?x = [''F'']" by (cases "ex_Found ?x"; cases "tl (ex_Found ?x)") auto
  obtain entries r pre post where e: "ex_Body ?x = (if entries \<noteq> [] then ga_txtar demo_goast entries else [])"
      "map_of (rev (all_refs ?p)) ''F'' = Some r" "(pf_name (?p ! sy_file r), pre @ verbatim ?p r @ post) \<in> set entries"
    using t f(1) by fastforce
  have v: "verbatim ?p r = ''f(2)''"
    using e(2) refs(1) by (simp add: verbatim_def parseAll_def parse_one_def Let_def)
  obtain n es1 es2 where "entries = es1 @ (n, pre @ verbatim ?p r @ post) # es2" using split_list [OF e(3)] by blast
  then have "concat (map snd entries) = (concat (map snd es1) @ pre) @ ''f(2)'' @ (post @ concat (map snd es2))"
    by (simp add: v)
  moreover have "ga_txtar demo_goast entries = concat (map snd entries)" "entries \<noteq> []" using e(3) by (auto simp: demo_goast_def)
  ultimately have "ex_Body ?x = (concat (map snd es1) @ pre) @ ''f(2)'' @ (post @ concat (map snd es2))" using e(1) by simp
  then have "\<exists>a b. ex_Body ?x = a @ ''f(2)'' @ b" by blast
  then show ?thesis using fl av v by blast
qed

lemma Outline_sealed: "env_free (Outline g files)"
  by (simp add: Outline_def Neutralize_env_free)

end
