(* ===== verification/Readtools.thy ===== *)
theory Readtools
  imports Clientfaucet Gnosrc
begin

section \<open>The read tools: internal/tools/read\<close>

text \<open>
  Everything a read tool shows comes from a chain anyone may write to. The text tools put what they
  read inside the envelope of \<open>Untrusted\<close>; \<open>gno_read\<close> returns a resource, within a size budget that
  depends on how precise the request was. None of them signs or stores anything.
\<close>

subsection \<open>Library calls\<close>

text \<open>
  \<open>rl_render\<close> and \<open>rl_eval\<close> are gnoclient's queries, \<open>rl_isRealm\<close> and \<open>rl_isPPackage\<close> gnovm's path
  predicates, \<open>rl_status\<close> the node's status call, \<open>rl_rfc3339\<close> and \<open>rl_g\<close> the formats of a time and
  of \<open>%g\<close>, \<open>rl_oor\<close> and \<open>rl_f64\<close> the float conversions of \<open>Int64Arg\<close>; \<open>rl_div\<close> is the float64
  division, \<open>rl_value\<close> the format \<open>%v\<close> of a JSON value.
\<close>

record read_lib =
  rl_render :: "client \<Rightarrow> event list \<Rightarrow> string \<Rightarrow> string \<Rightarrow> string + string"
  rl_eval :: "client \<Rightarrow> event list \<Rightarrow> string \<Rightarrow> string \<Rightarrow> string + string"
  rl_isRealm :: "string \<Rightarrow> bool"
  rl_isPPackage :: "string \<Rightarrow> bool"
  rl_status :: "client \<Rightarrow> event list \<Rightarrow> string + NodeStatus"
  rl_http :: http_client
  rl_go :: goast
  rl_rfc3339 :: "time \<Rightarrow> string"
  rl_g :: "rat \<Rightarrow> string"
  rl_div :: "rat \<Rightarrow> rat \<Rightarrow> rat"
  rl_oor :: "rat \<Rightarrow> int64"
  rl_f64 :: "int64 \<Rightarrow> rat"
  rl_value :: "json \<Rightarrow> string"

definition Real_Render :: "read_lib \<Rightarrow> client \<Rightarrow> string \<Rightarrow> string \<Rightarrow> string rpc" where
  "Real_Render rl c realm path =
     request (EvQuery ''vm/qrender'' (realm @ '':'' @ path)) (\<lambda>h. rl_render rl c h realm path) (\<lambda>x. QueryErr (''vm/qrender: '' @ x))"

definition Real_Eval :: "read_lib \<Rightarrow> client \<Rightarrow> string \<Rightarrow> string \<Rightarrow> string rpc" where
  "Real_Eval rl c realm expr =
     request (EvQuery ''vm/qeval'' (realm @ ''.'' @ expr)) (\<lambda>h. rl_eval rl c h realm expr) (\<lambda>x. QueryErr (''vm/qeval: '' @ x))"

subsection \<open>Common parts\<close>

definition gnowebURLFor :: "env \<Rightarrow> Profile \<Rightarrow> string \<Rightarrow> string \<Rightarrow> string" where
  "gnowebURLFor e p realm path =
     (let u = RealmViewURL (en_url e) (en_ip e) p realm in if u = [] \<or> path = [] then u else u @ ''/'' @ path)"

definition gnoweb_of :: "env \<Rightarrow> string \<Rightarrow> string \<Rightarrow> string \<Rightarrow> string" where
  "gnoweb_of e profile realm path =
     (case server_profile (en_server e) profile of None \<Rightarrow> [] | Some p \<Rightarrow> gnowebURLFor e p realm path)"

definition budgetBody :: "string \<Rightarrow> string \<Rightarrow> int \<Rightarrow> string \<times> bool" where
  "budgetBody full gnowebURL limit =
     (let r = Apply full gnowebURL limit in if r_Truncated r then (r_Summary r, True) else (r_Full r, False))"

definition no_chain_client :: "env \<Rightarrow> string \<Rightarrow> tool_error" where
  "no_chain_client e profile = PlainError (''no chain client for profile '' @ en_quote e profile)"

definition with_client :: "env \<Rightarrow> string \<Rightarrow> (client \<Rightarrow> world \<times> (tool_error + 'r)) \<Rightarrow> world \<Rightarrow> world \<times> (tool_error + 'r)" where
  "with_client e profile f w = (case en_resolver e profile of None \<Rightarrow> (w, Inl (no_chain_client e profile)) | Some c \<Rightarrow> f c)"

definition explained :: "env \<Rightarrow> client \<Rightarrow> string \<Rightarrow> tool_error \<Rightarrow> world \<Rightarrow> world \<times> (tool_error + 'r)" where
  "explained e c path err w = (case Explain e c path err w of (w1, err') \<Rightarrow> (w1, Inl err'))"

subsection \<open>gno\_render, gno\_eval, gno\_packages and gno\_account\<close>

definition render_args :: "env \<Rightarrow> read_lib \<Rightarrow> args \<Rightarrow> tool_error + string \<times> string \<times> string" where
  "render_args e rl a =
     bindS (arg e StringArg a ''realm'') (\<lambda>realm.
     if realm = [] then Inl (PlainError ''realm is required (e.g. gno.land/r/myorg/blog)'')
     else if \<not> rl_isRealm rl realm then
       Inl (PlainError (''realm must be a realm path (gno.land/r/...); got '' @ en_quote e realm @ '' (Render is realm-only)''))
     else bindS (arg e StringArg a ''path'') (\<lambda>path. bindS (arg e StringArg a ''profile'') (\<lambda>profile. Inr (realm, path, profile))))"

definition render_body :: "env \<Rightarrow> read_lib \<Rightarrow> args \<Rightarrow> world \<Rightarrow> world \<times> (tool_error + tool_result)" where
  "render_body e rl a w =
     (case render_args e rl a of
        Inl err \<Rightarrow> (w, Inl err)
      | Inr (realm, path, profile) \<Rightarrow>
          with_client e profile (\<lambda>c.
            case run_rpc (Real_Render rl c realm path) w of
              (w1, Inl x) \<Rightarrow> explained e c realm (PlainError (''gno_render: '' @ en_chain_text e x)) w1
            | (w1, Inr body) \<Rightarrow>
                (w1, Inr (text_result
                   (fst (WrappedAt (en_quote e) body (gnoweb_of e profile realm path) ''render''
                      (if path \<noteq> [] then realm @ ''/'' @ path else realm) ExplicitBudget)) []))) w)"

definition eval_args :: "env \<Rightarrow> read_lib \<Rightarrow> args \<Rightarrow> tool_error + string \<times> string \<times> string" where
  "eval_args e rl a =
     bindS (arg e StringArg a ''path'') (\<lambda>path.
     if path = [] then Inl (PlainError ''path is required (e.g. gno.land/r/myorg/counter)'')
     else if \<not> IsReadablePackagePath (rl_isRealm rl) (rl_isPPackage rl) path then
       Inl (PlainError (''path must be a realm (gno.land/r/...) or pure package (gno.land/p/...); got '' @ en_quote e path))
     else bindS (arg e StringArg a ''expr'') (\<lambda>expr.
     if expr = [] then Inl (PlainError ''expr is required (e.g. 'Counter()')'')
     else bindS (arg e StringArg a ''profile'') (\<lambda>profile. Inr (path, expr, profile))))"

definition eval_body :: "env \<Rightarrow> read_lib \<Rightarrow> args \<Rightarrow> world \<Rightarrow> world \<times> (tool_error + tool_result)" where
  "eval_body e rl a w =
     (case eval_args e rl a of
        Inl err \<Rightarrow> (w, Inl err)
      | Inr (path, expr, profile) \<Rightarrow>
          with_client e profile (\<lambda>c.
            case run_rpc (Real_Eval rl c path expr) w of
              (w1, Inl x) \<Rightarrow> explained e c path (PlainError (''gno_eval: '' @ en_chain_text e x)) w1
            | (w1, Inr out) \<Rightarrow> (w1, Inr (text_result (fst (Wrapped (en_quote e) out [] ''eval'' path)) []))) w)"

text \<open>The limit must be a float that is a whole number, as JSON numbers are read.\<close>

definition packages_limit :: "read_lib \<Rightarrow> args \<Rightarrow> string + int64" where
  "packages_limit rl a =
     (case a ''limit'' of
        None \<Rightarrow> Inr 0
      | Some (JFloat v) \<Rightarrow>
          if v \<noteq> rl_f64 rl (int64_of_float (rl_oor rl) v) then Inl (''limit: expected an integer, got '' @ rl_value rl (JFloat v))
          else if v < 0 then Inl (''limit: must be >= 0, got '' @ show_int (int64_of_float (rl_oor rl) v))
          else Inr (int64_of_float (rl_oor rl) v)
      | Some v \<Rightarrow> Inl (''limit: expected an integer, got '' @ rl_value rl v))"

definition packages_args :: "env \<Rightarrow> read_lib \<Rightarrow> args \<Rightarrow> tool_error + string \<times> string \<times> int64" where
  "packages_args e rl a =
     bindS (arg e StringArg a ''path'') (\<lambda>path.
     if path = [] then Inl (PlainError ''path is required (e.g. 'gno.land/r/demo/' or '@demo')'')
     else bindS (arg e StringArg a ''profile'') (\<lambda>profile.
       case packages_limit rl a of Inl x \<Rightarrow> Inl (PlainError x) | Inr limit \<Rightarrow> Inr (path, profile, limit)))"

definition packages_body :: "env \<Rightarrow> read_lib \<Rightarrow> args \<Rightarrow> world \<Rightarrow> world \<times> (tool_error + tool_result)" where
  "packages_body e rl a w =
     (case packages_args e rl a of
        Inl err \<Rightarrow> (w, Inl err)
      | Inr (path, profile, limit) \<Rightarrow>
          with_client e profile (\<lambda>c.
            case run_rpc (ListPaths (cl_node c) path limit) w of
              (w1, Inl x) \<Rightarrow> (w1, Inl (PlainError (''gno_packages: '' @ en_chain_text e x)))
            | (w1, Inr paths) \<Rightarrow> (w1, Inr (text_result (fst (Wrapped (en_quote e) (Join paths nl) [] ''packages'' path)) []))) w)"

definition account_args :: "env \<Rightarrow> args \<Rightarrow> tool_error + string \<times> string" where
  "account_args e a =
     bindS (arg e StringArg a ''address'') (\<lambda>address.
     if address = [] then
       Inl (PlainError (''address is required (bech32 'g1'' @ [CHR 0xE2, CHR 0x80, CHR 0xA6, CHR 0x27] @ '')''))
     else bindS (arg e StringArg a ''profile'') (\<lambda>profile. Inr (address, profile)))"

definition account_body :: "env \<Rightarrow> read_lib \<Rightarrow> args \<Rightarrow> world \<Rightarrow> world \<times> (tool_error + tool_result)" where
  "account_body e rl a w =
     (case account_args e a of
        Inl err \<Rightarrow> (w, Inl err)
      | Inr (address, profile) \<Rightarrow>
          with_client e profile (\<lambda>c.
            case Account (cl_account c (wo_rpc w)) (en_lib e) address of
              Inl x \<Rightarrow> (w, Inl (PlainError (''gno_account: '' @ en_chain_text e x)))
            | Inr info \<Rightarrow>
                (let s = lib_coins_string (en_lib e) (ai_Coins info); coins = (if s = [] then ''0'' else s);
                     text = (if ai_Exists info then
                               ''Account '' @ address @ '': balance '' @ coins @ '', sequence '' @ show_int (ai_Sequence info) @
                               '', account number '' @ show_int (ai_AccountNumber info) @ ''.''
                             else ''Account '' @ address @ '' has no on-chain record (never funded or used).'')
                 in (w, Inr (text_result (fst (Wrapped (en_quote e) text [] ''account'' address))
                      [(''address'', JStr address), (''exists'', JBool (ai_Exists info)), (''coins'', JStr coins),
                       (''sequence'', JInt (ai_Sequence info)), (''account_number'', JInt (ai_AccountNumber info))])))) w)"

subsection \<open>gno\_status and gno\_profile\_list\<close>

text \<open>A dead node or faucet is reported in the answer, not as a failure.\<close>

definition status_node :: "env \<Rightarrow> read_lib \<Rightarrow> client \<Rightarrow> Profile \<Rightarrow> event list \<Rightarrow> string \<times> (string \<times> json) list" where
  "status_node e rl c p h =
     (case rl_status rl c h of
        Inl x \<Rightarrow> ('' Live status query FAILED: status query: '' @ x @ ''.'', [(''height_error'', JStr (''status query: '' @ x))])
      | Inr st \<Rightarrow>
          (let mismatch = (ns_ChainID st \<noteq> ChainID p); t = rl_rfc3339 rl (ns_BlockTime st)
           in ('' Node is up: latest block '' @ show_int (ns_Height st) @ (if IsZero (ns_BlockTime st) then [] else '' at '' @ t) @ ''.'' @
               (if mismatch then
                  '' WARNING: chain-id mismatch'' @ dash @ ''node reports '' @ en_quote e (ns_ChainID st) @ '' but profile declares '' @
                  en_quote e (ChainID p) @ ''.''
                else []),
               [(''node_chain_id'', JStr (ns_ChainID st)), (''chain_id_mismatch'', JBool mismatch), (''height'', JInt (ns_Height st))] @
               (if IsZero (ns_BlockTime st) then [] else [(''block_time'', JStr t)]))))"

definition status_faucet :: "read_lib \<Rightarrow> Profile \<Rightarrow> string \<times> (string \<times> json) list" where
  "status_faucet rl p =
     (case FetchServiceLimits (rl_http rl) p of
        Inl x \<Rightarrow> ('' Faucet limits query FAILED: '' @ x @ ''.'', [(''faucet_error'', JStr x)])
      | Inr None \<Rightarrow> ([], [])
      | Inr (Some k) \<Rightarrow>
          ('' Faucet: '' @ rl_g rl (rl_div rl (rl_f64 rl (fl_GrantUgnot k)) 1000000) @ '' GNOT per grant, max '' @ show_int (fl_Max k) @
           '' per address per '' @ rl_g rl (rl_div rl (rl_f64 rl (fl_WindowSeconds k)) 3600) @ ''h.'',
           [(''faucet'', JObj [(''grant_ugnot'', JInt (fl_GrantUgnot k)),
              (''per_address'', JObj [(''max'', JInt (fl_Max k)), (''window_seconds'', JInt (fl_WindowSeconds k))])])]))"

definition status_body :: "env \<Rightarrow> read_lib \<Rightarrow> args \<Rightarrow> world \<Rightarrow> world \<times> (tool_error + tool_result)" where
  "status_body e rl a w =
     (case arg e StringArg a ''profile'' of
        Inl err \<Rightarrow> (w, Inl err)
      | Inr profile \<Rightarrow>
     (case server_profile (en_server e) profile of
        None \<Rightarrow> (w, Inl (PlainError (''unknown profile '' @ en_quote e profile)))
      | Some p \<Rightarrow>
          with_client e profile (\<lambda>c.
            case (status_node e rl c p (wo_rpc w), status_faucet rl p) of
              ((t1, f1), (t2, f2)) \<Rightarrow>
                (w, Inr (text_result
                   (fst (Wrapped (en_quote e)
                      (''Profile '' @ profile @ '': chain-id '' @ ChainID p @ '', rpc '' @ RPCURL p @ ''.'' @ t1 @ t2) [] ''status'' profile))
                   ([(''profile'', JStr profile), (''chain_id'', JStr (ChainID p)), (''rpc_url'', JStr (RPCURL p))] @ f1 @ f2)))) w))"

definition profileStatus :: "Profile \<Rightarrow> string" where
  "profileStatus p =
     (if IsReadOnly p then ''read-only'' @ dash @ ''no agent key, faucet, or session''
      else if Sunset p then ''sunset'' @ dash @ ''retiring chain, still writable; prefer the current testnet for new work''
      else if IsLocal p then ''local dev chain''
      else ''current testnet, writable'')"

definition middot :: string where "middot = [CHR '' '', CHR 0xC2, CHR 0xB7, CHR '' '']"

definition profile_endpoints :: "Profile \<Rightarrow> (string \<times> string) list" where
  "profile_endpoints p =
     [(''gnoweb'', GnowebURL p), (''indexer'', TxIndexerURL p), (''faucet-service'', FaucetServiceURL p), (''faucet-page'', FaucetURL p)]"

definition profile_line :: "string \<Rightarrow> Profile \<Rightarrow> string" where
  "profile_line name p =
     nl @ ''- '' @ name @ dash @ ''chain '' @ ChainID p @ middot @ profileStatus p @ nl @ ''  rpc '' @ RPCURL p @
     concat (map (\<lambda>(label, url). if url \<noteq> [] then middot @ label @ '' '' @ url else []) (profile_endpoints p)) @ nl"

definition profile_entry :: "string \<Rightarrow> Profile \<Rightarrow> json" where
  "profile_entry name p =
     JObj [(''name'', JStr name), (''chain_id'', JStr (ChainID p)), (''kind'', JStr (Kind p)), (''sunset'', JBool (Sunset p)),
           (''rpc_url'', JStr (RPCURL p)), (''gnoweb_url'', JStr (GnowebURL p)), (''tx_indexer_url'', JStr (TxIndexerURL p)),
           (''faucet_service_url'', JStr (FaucetServiceURL p)), (''faucet_url'', JStr (FaucetURL p))]"

definition profileListHandler :: "server \<Rightarrow> tool_result" where
  "profileListHandler s =
     (let ps = sort_by fst (sv_profiles s)
      in text_result (show_nat (length ps) @ '' profiles loaded:'' @ nl @ concat (map (\<lambda>(n, p). profile_line n p) ps))
           [(''profiles'', JArr (map (\<lambda>(n, p). profile_entry n p) ps))])"

subsection \<open>gno\_read\<close>

definition res_result :: "string \<Rightarrow> string \<Rightarrow> string \<Rightarrow> tool_result" where
  "res_result uri body mime = \<lparr>rs_Text = [], rs_ResourceURI = uri, rs_ResourceBody = body, rs_ResourceMIME = mime, rs_Structured = []\<rparr>"

definition read_error :: "env \<Rightarrow> chain_error \<Rightarrow> tool_error" where
  "read_error e x = PlainError (''gno_read: '' @ en_chain_text e x)"

definition fetchPackage :: "env \<Rightarrow> client \<Rightarrow> string \<Rightarrow> world \<Rightarrow> world \<times> (tool_error + mem_file list)" where
  "fetchPackage e c path w =
     (case run_rpc (ReadPackageFiles (cl_node c) path) w of
        (w1, Inl x) \<Rightarrow> (w1, Inl (read_error e x))
      | (w1, Inr files) \<Rightarrow>
          if files = [] then
            (w1, Inl (PlainError (''gno_read: no files found at '' @ en_quote e path @ '' (not a deployed package?)'')))
          else (w1, Inr files))"

definition readFullFile :: "env \<Rightarrow> client \<Rightarrow> string \<Rightarrow> string \<Rightarrow> string \<Rightarrow> world \<Rightarrow> world \<times> (tool_error + tool_result)" where
  "readFullFile e c path file gnowebURL w =
     (case run_rpc (File (cl_node c) path file) w of
        (w1, Inl x) \<Rightarrow> (w1, Inl (read_error e x))
      | (w1, Inr body) \<Rightarrow>
          (w1, Inr (res_result (''gno://'' @ path @ ''/'' @ file) (fst (budgetBody body gnowebURL ExplicitBudget)) ''text/x-gno'')))"

definition readFullPackage :: "env \<Rightarrow> read_lib \<Rightarrow> client \<Rightarrow> string \<Rightarrow> string \<Rightarrow> world \<Rightarrow> world \<times> (tool_error + tool_result)" where
  "readFullPackage e rl c path gnowebURL w =
     (case fetchPackage e c path w of
        (w1, Inl err) \<Rightarrow> (w1, Inl err)
      | (w1, Inr files) \<Rightarrow>
          (w1, Inr (res_result (''gno://'' @ path) (fst (budgetBody (ga_txtar (rl_go rl) files) gnowebURL DefaultBudget)) ''text/plain'')))"

definition readPackageOutline :: "env \<Rightarrow> read_lib \<Rightarrow> client \<Rightarrow> string \<Rightarrow> string \<Rightarrow> world \<Rightarrow> world \<times> (tool_error + tool_result)" where
  "readPackageOutline e rl c path gnowebURL w =
     (case fetchPackage e c path w of
        (w1, Inl err) \<Rightarrow> (w1, Inl err)
      | (w1, Inr files) \<Rightarrow>
          (w1, Inr (res_result (''gno://'' @ path @ ''#outline'') (fst (budgetBody (Outline (rl_go rl) files) gnowebURL ExplicitBudget)) ''text/plain'')))"

definition readFileOutline :: "env \<Rightarrow> read_lib \<Rightarrow> client \<Rightarrow> string \<Rightarrow> string \<Rightarrow> string \<Rightarrow> world \<Rightarrow> world \<times> (tool_error + tool_result)" where
  "readFileOutline e rl c path file gnowebURL w =
     (case run_rpc (File (cl_node c) path file) w of
        (w1, Inl x) \<Rightarrow> (w1, Inl (read_error e x))
      | (w1, Inr body) \<Rightarrow>
          (w1, Inr (res_result (''gno://'' @ path @ ''/'' @ file @ ''#outline'')
             (fst (budgetBody (Outline (rl_go rl) [(file, body)]) gnowebURL ExplicitBudget)) ''text/plain'')))"

definition maxNames :: nat where "maxNames = 30"

definition availableHint :: "string list \<Rightarrow> string" where
  "availableHint available =
     (if length available \<le> maxNames then Join available '', ''
      else Join (take maxNames available) '', '' @ '' (+'' @ show_nat (length available - maxNames) @ '' more'' @ dash @ ''fetch the outline)'')"

definition symbol_notes :: "Extraction \<Rightarrow> string list" where
  "symbol_notes x =
     (if ex_Missing x \<noteq> [] then [''// not found: '' @ Join (ex_Missing x) '', '' @ '' (fetch the outline for available symbols)''] else []) @
     map (\<lambda>err. ''// parse error: '' @ err) (ex_Errors x)"

definition symbol_body :: "Extraction \<Rightarrow> string" where
  "symbol_body x = (if symbol_notes x \<noteq> [] then Join (symbol_notes x) nl @ nl @ ex_Body x else ex_Body x)"

definition readSymbols ::
  "env \<Rightarrow> read_lib \<Rightarrow> client \<Rightarrow> string \<Rightarrow> string list \<Rightarrow> string \<Rightarrow> world \<Rightarrow> world \<times> (tool_error + tool_result)" where
  "readSymbols e rl c path symbols gnowebURL w =
     (case fetchPackage e c path w of
        (w1, Inl err) \<Rightarrow> (w1, Inl err)
      | (w1, Inr files) \<Rightarrow>
          (let x = ExtractSymbols (rl_go rl) files symbols
           in if ex_Found x = [] then
                (w1, Inl (PlainError (''gno_read: no symbol in '' @ path @ '' matches '' @ Join (ex_Missing x) '', '' @ ''; available: '' @
                   availableHint (ex_Available x))))
              else (w1, Inr (res_result (''gno://'' @ path @ ''#symbols'') (fst (budgetBody (symbol_body x) gnowebURL ExplicitBudget)) ''text/plain''))))"

record read_request =
  rq_path :: string
  rq_file :: string
  rq_symbols :: "string list"
  rq_full :: bool
  rq_profile :: string

definition read_args :: "env \<Rightarrow> read_lib \<Rightarrow> args \<Rightarrow> tool_error + read_request" where
  "read_args e rl a =
     bindS (arg e StringArg a ''path'') (\<lambda>path.
     if path = [] then Inl (PlainError ''path is required (e.g. gno.land/r/myorg/foo)'')
     else if \<not> IsReadablePackagePath (rl_isRealm rl) (rl_isPPackage rl) path then
       Inl (PlainError (''path must be a realm (gno.land/r/...) or pure package (gno.land/p/...); got '' @ en_quote e path))
     else bindS (arg e StringArg a ''file'') (\<lambda>file.
     bindS (arg e StringSliceArg a ''symbols'') (\<lambda>symbols.
     bindS (arg e BoolArg a ''full'') (\<lambda>full.
     if symbols \<noteq> [] \<and> full then
       Inl (PlainError (''symbols and full are mutually exclusive'' @ dash @ ''symbols already returns verbatim source''))
     else if symbols \<noteq> [] \<and> file \<noteq> [] then
       Inl (PlainError ''symbols and file cannot be combined: symbol names are package-scoped (a file filter would hide cross-file declarations); drop the file arg'')
     else bindS (arg e StringArg a ''profile'') (\<lambda>profile.
       Inr \<lparr>rq_path = path, rq_file = file, rq_symbols = symbols, rq_full = full, rq_profile = profile\<rparr>)))))"

definition read_mode :: "env \<Rightarrow> read_lib \<Rightarrow> client \<Rightarrow> read_request \<Rightarrow> string \<Rightarrow> world \<Rightarrow> world \<times> (tool_error + tool_result)" where
  "read_mode e rl c q gnowebURL w =
     (if rq_symbols q \<noteq> [] then readSymbols e rl c (rq_path q) (rq_symbols q) gnowebURL w
      else if rq_full q \<and> rq_file q \<noteq> [] then readFullFile e c (rq_path q) (rq_file q) gnowebURL w
      else if rq_full q then readFullPackage e rl c (rq_path q) gnowebURL w
      else if rq_file q \<noteq> [] then readFileOutline e rl c (rq_path q) (rq_file q) gnowebURL w
      else readPackageOutline e rl c (rq_path q) gnowebURL w)"

definition read_body :: "env \<Rightarrow> read_lib \<Rightarrow> args \<Rightarrow> world \<Rightarrow> world \<times> (tool_error + tool_result)" where
  "read_body e rl a w =
     (case read_args e rl a of
        Inl err \<Rightarrow> (w, Inl err)
      | Inr q \<Rightarrow>
          with_client e (rq_profile q) (\<lambda>c.
            case read_mode e rl c q (gnoweb_of e (rq_profile q) (rq_path q) []) w of
              (w1, Inl err) \<Rightarrow> explained e c (rq_path q) err w1
            | (w1, Inr r) \<Rightarrow> (w1, Inr r)) w)"

definition renderHandler :: "env \<Rightarrow> read_lib \<Rightarrow> world handler" where "renderHandler e rl = plain_handler (render_body e rl)"
definition evalHandler :: "env \<Rightarrow> read_lib \<Rightarrow> world handler" where "evalHandler e rl = plain_handler (eval_body e rl)"
definition packagesHandler :: "env \<Rightarrow> read_lib \<Rightarrow> world handler" where "packagesHandler e rl = plain_handler (packages_body e rl)"
definition accountHandler :: "env \<Rightarrow> read_lib \<Rightarrow> world handler" where "accountHandler e rl = plain_handler (account_body e rl)"
definition statusHandler :: "env \<Rightarrow> read_lib \<Rightarrow> world handler" where "statusHandler e rl = plain_handler (status_body e rl)"
definition readHandler :: "env \<Rightarrow> read_lib \<Rightarrow> world handler" where "readHandler e rl = plain_handler (read_body e rl)"

subsection \<open>Lemmas\<close>

text \<open>What is shown of content: all of it when it fits, else a summary that depends on its length only.\<close>

definition too_long :: "string \<Rightarrow> nat \<Rightarrow> string" where
  "too_long url n =
     (if url = [] then show_nat n @ '' bytes; preview omitted. Request a smaller slice (a specific file, symbol, or path).''
      else show_nat n @ '' bytes; preview omitted. Request a slice (file/symbol/path), or view at '' @ url)"

definition shown :: "int \<Rightarrow> string \<Rightarrow> string \<Rightarrow> string \<Rightarrow> bool" where
  "shown limit url full body \<longleftrightarrow> body = (if int (length full) \<le> limit then full else too_long url (length full))"

definition sealed :: "env \<Rightarrow> string \<Rightarrow> string \<Rightarrow> string \<Rightarrow> string \<Rightarrow> bool" where
  "sealed e kind source url t \<longleftrightarrow>
     (\<exists>body. env_free body \<and> t = ''<untrusted_content kind='' @ en_quote e kind @ '' source='' @ en_quote e source @ ''>'' @ nl @ body @ nl @ closeTag) \<or>
     (\<exists>n. t = too_long url n)"

lemma WrappedAt_is_sealed: "sealed e kind source url (fst (WrappedAt (en_quote e) full url kind source limit))"
  unfolding sealed_def using Neutralize_env_free [of full]
  by (auto simp: WrappedAt_def Apply_def Wrap_def too_long_def)

lemma Wrapped_is_sealed: "sealed e kind source url (fst (Wrapped (en_quote e) full url kind source))"
  by (simp add: Wrapped_def WrappedAt_is_sealed)

lemma budgetBody_shown: "shown limit url full (fst (budgetBody full url limit))"
  by (simp add: shown_def budgetBody_def Apply_def Let_def too_long_def)

definition only_read :: "world \<Rightarrow> world \<Rightarrow> bool" where
  "only_read w w' \<longleftrightarrow> (\<exists>h. w' = w\<lparr>wo_rpc := h\<rparr> \<and> grows (wo_rpc w) h \<and> writes (wo_rpc w) h = [])"

lemma only_read_refl [simp]: "only_read w w"
  unfolding only_read_def by (rule exI [of _ "wo_rpc w"]) simp

lemma only_read_trans:
  assumes "only_read w w1" "only_read w1 w2"
  shows "only_read w w2"
proof -
  obtain h1 h2 where h: "w1 = w\<lparr>wo_rpc := h1\<rparr>" "grows (wo_rpc w) h1" "writes (wo_rpc w) h1 = []"
      "w2 = w1\<lparr>wo_rpc := h2\<rparr>" "grows (wo_rpc w1) h2" "writes (wo_rpc w1) h2 = []"
    using assms unfolding only_read_def by blast
  have g: "grows h1 h2" "writes h1 h2 = []" using h(1,5,6) by simp_all
  have "w2 = w\<lparr>wo_rpc := h2\<rparr>" using h(1,4) by simp
  moreover have "grows (wo_rpc w) h2" by (rule grows_trans [OF h(2) g(1)])
  moreover have "writes (wo_rpc w) h2 = []" using writes_append [OF h(2) g(1)] h(3) g(2) by simp
  ultimately show ?thesis unfolding only_read_def by blast
qed

lemma only_read_rpc:
  assumes "quiet m" "run_rpc m w = (w', r)"
  shows "only_read w w'"
proof -
  obtain h where h: "m (wo_rpc w) = (h, r)" "w' = w\<lparr>wo_rpc := h\<rparr>" using assms(2) unfolding run_rpc_conv by blast
  show ?thesis unfolding only_read_def using quiet_writes [OF assms(1) h(1)] h(2) by blast
qed

lemma quiet_reads [quiet_intros]:
  "quiet (Real_Render rl c realm path)" "quiet (Real_Eval rl c realm expr)" "quiet (File nd realm file)" "quiet (ListPaths nd t k)"
  unfolding Real_Render_def Real_Eval_def File_def ListPaths_def by (intro quiet_intros; simp)+

lemma quiet_read_files: "quiet (read_files nd p ns)"
proof (induction ns)
  case Nil
  show ?case unfolding read_files.simps by (rule quiet_ret)
next
  case (Cons n ns)
  show ?case unfolding read_files.simps by (intro quiet_bindE quiet_reads Cons.IH quiet_ret)
qed

lemma quiet_package [quiet_intros]: "quiet (ReadPackageFiles nd p)"
  unfolding ReadPackageFiles_def ListFiles_def by (intro quiet_intros quiet_read_files)

lemma only_read_explained: "only_read w (fst (explained e c path err w))"
proof (cases err)
  case (PlainError t)
  obtain w1 r where q: "run_rpc (QueryPackageMeta (cl_node c) (en_lib e) path) w = (w1, r)" by force
  then have "only_read w w1" by (rule only_read_rpc [OF quiet_params(3)])
  then show ?thesis using PlainError q by (cases r) (simp_all add: explained_def Explain_def)
qed (simp add: explained_def Explain_def)

lemma only_read_with_client:
  "(\<And>c. only_read w (fst (f c))) \<Longrightarrow> only_read w (fst (with_client e profile f w))"
  by (simp add: with_client_def split: option.splits)

lemma only_read_then_explained: "only_read w w1 \<Longrightarrow> only_read w (fst (explained e c path err w1))"
  by (rule only_read_trans [OF _ only_read_explained])

lemma only_read_case:
  assumes "quiet m" "\<And>w1 x. only_read w w1 \<Longrightarrow> only_read w (fst (f w1 x))" "\<And>w1 y. only_read w w1 \<Longrightarrow> only_read w (fst (g w1 y))"
  shows "only_read w (fst (case run_rpc m w of (w1, Inl x) \<Rightarrow> f w1 x | (w1, Inr y) \<Rightarrow> g w1 y))"
proof -
  obtain w1 r where r: "run_rpc m w = (w1, r)" by force
  then have "only_read w w1" by (rule only_read_rpc [OF assms(1)])
  then show ?thesis using r assms(2,3) by (cases r) simp_all
qed

lemma only_read_render: "only_read w (fst (render_body e rl a w))"
proof (cases "render_args e rl a")
  case (Inr x)
  then obtain realm path profile where q: "render_args e rl a = Inr (realm, path, profile)" by (cases x) auto
  show ?thesis unfolding render_body_def q sum.case prod.case
    by (intro only_read_with_client only_read_case quiet_reads only_read_then_explained) simp_all
qed (simp add: render_body_def)

lemma only_read_eval: "only_read w (fst (eval_body e rl a w))"
proof (cases "eval_args e rl a")
  case (Inr x)
  then obtain path expr profile where q: "eval_args e rl a = Inr (path, expr, profile)" by (cases x) auto
  show ?thesis unfolding eval_body_def q sum.case prod.case
    by (intro only_read_with_client only_read_case quiet_reads only_read_then_explained) simp_all
qed (simp add: eval_body_def)

lemma only_read_packages: "only_read w (fst (packages_body e rl a w))"
proof (cases "packages_args e rl a")
  case (Inr x)
  then obtain path profile k where q: "packages_args e rl a = Inr (path, profile, k)" by (cases x) auto
  show ?thesis unfolding packages_body_def q sum.case prod.case
    by (intro only_read_with_client only_read_case quiet_reads) simp_all
qed (simp add: packages_body_def)

lemma only_read_account: "only_read w (fst (account_body e rl a w))"
  by (auto simp: account_body_def with_client_def Let_def split: sum.splits prod.splits option.splits)

lemma only_read_status: "only_read w (fst (status_body e rl a w))"
  by (auto simp: status_body_def with_client_def split: sum.splits prod.splits option.splits)

lemma only_read_fetch: "only_read w (fst (fetchPackage e c path w))"
proof -
  obtain w1 r where r: "run_rpc (ReadPackageFiles (cl_node c) path) w = (w1, r)" by force
  show ?thesis using only_read_rpc [OF quiet_package r] r by (cases r) (auto simp: fetchPackage_def)
qed

lemma only_read_mode: "only_read w (fst (read_mode e rl c q url w))"
proof -
  obtain w1 r where r: "fetchPackage e c (rq_path q) w = (w1, r)" by force
  obtain w2 r2 where r2: "run_rpc (File (cl_node c) (rq_path q) (rq_file q)) w = (w2, r2)" by force
  have "only_read w w1" using only_read_fetch [of w e c "rq_path q"] r by simp
  moreover have "only_read w w2" by (rule only_read_rpc [OF quiet_reads(3) r2])
  ultimately show ?thesis using r r2
    by (cases r; cases r2)
      (simp_all add: read_mode_def readSymbols_def readFullFile_def readFullPackage_def readFileOutline_def readPackageOutline_def Let_def)
qed

lemma only_read_read: "only_read w (fst (read_body e rl a w))"
proof (cases "read_args e rl a")
  case (Inr q)
  have "only_read w (fst (case read_mode e rl c q url w of (w1, Inl err) \<Rightarrow> explained e c (rq_path q) err w1 | (w1, Inr r) \<Rightarrow> (w1, Inr r)))" for c url
  proof -
    obtain w1 r where r: "read_mode e rl c q url w = (w1, r)" by force
    show ?thesis using only_read_mode [of w e rl c q url] r by (cases r) (simp_all add: only_read_then_explained)
  qed
  then show ?thesis using Inr by (simp add: read_body_def only_read_with_client)
qed (simp add: read_body_def)

subsection \<open>Properties\<close>

definition read_handlers :: "env \<Rightarrow> read_lib \<Rightarrow> world handler list" where
  "read_handlers e rl =
     [renderHandler e rl, evalHandler e rl, packagesHandler e rl, accountHandler e rl, statusHandler e rl, readHandler e rl]"

text \<open>
  Reading changes nothing. Whatever a chain-bound read tool is given and whatever the node, the
  faucet and the disk answer, it signs and broadcasts nothing, touches no key and no session, and
  leaves the audit record to the adapter; all it does is query.
\<close>

theorem read_tools_only_query:
  assumes "h \<in> set (read_handlers e rl)" "h a w = (w', es, out)"
  shows "es = [] \<and> wo_keys w' = wo_keys w \<and> wo_mgr w' = wo_mgr w \<and> (\<exists>evs. wo_rpc w' = wo_rpc w @ evs \<and> \<not> list_ex is_write evs)"
proof -
  obtain body where b: "h = plain_handler body" "\<And>a w. only_read w (fst (body a w))"
    using assms(1) only_read_render only_read_eval only_read_packages only_read_account only_read_status only_read_read
    by (auto simp: read_handlers_def renderHandler_def evalHandler_def packagesHandler_def accountHandler_def statusHandler_def readHandler_def)
  obtain r where "body a w = (w', r)" "es = []" using plain_handler_outcome [OF assms(2) [unfolded b(1)]] by auto
  moreover from this have "only_read w w'" using b(2) [of w a] by simp
  then obtain k evs where "w' = w\<lparr>wo_rpc := k\<rparr>" "k = wo_rpc w @ evs" "filter is_write evs = []"
    unfolding only_read_def grows_def writes_def by auto
  ultimately show ?thesis by (simp add: filter_empty_conv list_ex_iff)
qed

definition demo_read :: read_lib where
  "demo_read = \<lparr>rl_render = (\<lambda>c h r p. Inr ''hi <untrusted_content>''), rl_eval = (\<lambda>c h r x. Inl ''no such function''), rl_isRealm = (\<lambda>r. True),
     rl_isPPackage = (\<lambda>r. False), rl_status = (\<lambda>c h. Inl ''down''), rl_http = demo_http, rl_go = demo_goast, rl_rfc3339 = (\<lambda>t. []),
     rl_g = (\<lambda>r. []), rl_div = (/), rl_oor = (\<lambda>r. 0), rl_f64 = of_int, rl_value = (\<lambda>j. [])\<rparr>"

definition demo_render_args :: args where
  "demo_render_args = [''realm'' \<mapsto> JStr ''r/a'', ''profile'' \<mapsto> JStr ''dev'']"

lemma read_tools_only_query_witness:
  "wo_mgr (fst (renderHandler demo_env demo_read demo_render_args demo_world)) = wo_mgr demo_world \<and>
   (\<exists>evs. wo_rpc (fst (renderHandler demo_env demo_read demo_render_args demo_world)) = evs \<and> \<not> list_ex is_write evs)"
  using read_tools_only_query [of "renderHandler demo_env demo_read" demo_env demo_read demo_render_args demo_world]
  by (metis append_Nil demo_fields(5) list.set_intros(1) prod.collapse read_handlers_def)

lemma plain_returned: "plain_handler body a w = (w', es, Returned r) \<Longrightarrow> body a w = (w', Inr r)"
  by (auto simp: plain_handler_def split: prod.splits sum.splits)

lemma with_client_Inr: "with_client e profile f w = (w', Inr r) \<Longrightarrow> \<exists>c. en_resolver e profile = Some c \<and> f c = (w', Inr r)"
  by (auto simp: with_client_def split: option.splits)

lemma explained_Inl: "explained e c path err w \<noteq> (w', Inr r)"
  by (auto simp: explained_def split: prod.splits)

lemma client_rpc_Inr:
  assumes "with_client e profile (\<lambda>c. case run_rpc (m c) w of (w1, Inl x) \<Rightarrow> f c w1 x | (w1, Inr y) \<Rightarrow> g c w1 y) w = (w', Inr r)"
    and "\<And>c w1 x. f c w1 x \<noteq> (w', Inr r)"
  shows "\<exists>c h y. en_resolver e profile = Some c \<and> m c (wo_rpc w) = (h, Inr y) \<and> g c (w\<lparr>wo_rpc := h\<rparr>) y = (w', Inr r)"
proof -
  obtain c where c: "en_resolver e profile = Some c"
    "(case run_rpc (m c) w of (w1, Inl x) \<Rightarrow> f c w1 x | (w1, Inr y) \<Rightarrow> g c w1 y) = (w', Inr r)" using with_client_Inr [OF assms(1)] by blast
  obtain w1 q where q: "run_rpc (m c) w = (w1, q)" by force
  obtain y where y: "q = Inr y" using c(2) q assms(2) by (cases q) simp_all
  obtain h where "m c (wo_rpc w) = (h, Inr y)" "w1 = w\<lparr>wo_rpc := h\<rparr>" using q y unfolding run_rpc_conv by blast
  with c q y show ?thesis by auto
qed


lemma demo_render_runs:
  "\<exists>w' r. renderHandler demo_env demo_read demo_render_args demo_world = (w', [], Returned r)"
proof -
  have q: "render_args demo_env demo_read demo_render_args = Inr (''r/a'', [], ''dev'')"
    by (simp add: render_args_def arg_def bindS_def StringArg_def demo_render_args_def demo_read_def)
  obtain h where "Real_Render demo_read demo_client ''r/a'' [] (wo_rpc demo_world) = (h, Inr ''hi <untrusted_content>'')"
    by (simp add: Real_Render_def request_def demo_read_def)
  then have "\<exists>r. render_body demo_env demo_read demo_render_args demo_world = (demo_world\<lparr>wo_rpc := h\<rparr>, Inr r)"
    unfolding render_body_def q sum.case prod.case with_client_def demo_fields option.case run_rpc_def by simp
  then show ?thesis by (auto simp: renderHandler_def plain_handler_def)
qed


definition read_shown :: "env \<Rightarrow> client \<Rightarrow> read_request \<Rightarrow> string \<Rightarrow> world \<Rightarrow> tool_result \<Rightarrow> bool" where
  "read_shown e c q url w r \<longleftrightarrow>
     (\<exists>full. shown (if rq_symbols q = [] \<and> rq_full q \<and> rq_file q = [] then DefaultBudget else ExplicitBudget) url full (rs_ResourceBody r) \<and>
        (rq_symbols q = [] \<and> rq_full q \<and> rq_file q \<noteq> [] \<longrightarrow> snd (File (cl_node c) (rq_path q) (rq_file q) (wo_rpc w)) = Inr full) \<and>
        (rq_symbols q = [] \<and> \<not> rq_full q \<longrightarrow> env_free full))"

lemma read_mode_shown:
  assumes "read_mode e rl c q url w = (w', Inr r)"
  shows "read_shown e c q url w r"
proof -
  obtain w1 fr where f: "fetchPackage e c (rq_path q) w = (w1, fr)" by force
  obtain h fi where g: "File (cl_node c) (rq_path q) (rq_file q) (wo_rpc w) = (h, fi)" by force
  consider (sy) "rq_symbols q \<noteq> []" | (fl) "rq_symbols q = []" "rq_full q" "rq_file q \<noteq> []" | (pk) "rq_symbols q = []" "rq_full q" "rq_file q = []"
    | (ol) "rq_symbols q = []" "\<not> rq_full q" "rq_file q \<noteq> []" | (al) "rq_symbols q = []" "\<not> rq_full q" "rq_file q = []" by blast
  then show ?thesis
  proof cases
    case sy
    then obtain full where "rs_ResourceBody r = fst (budgetBody full url ExplicitBudget)"
      using assms f by (cases fr) (auto simp: read_mode_def readSymbols_def res_result_def Let_def split: if_splits)
    with sy show ?thesis unfolding read_shown_def using budgetBody_shown by auto
  next
    case fl
    then obtain full where "fi = Inr full" "rs_ResourceBody r = fst (budgetBody full url ExplicitBudget)"
      using assms g by (cases fi) (auto simp: read_mode_def readFullFile_def res_result_def run_rpc_def)
    with fl g show ?thesis unfolding read_shown_def using budgetBody_shown by auto
  next
    case pk
    then obtain full where "rs_ResourceBody r = fst (budgetBody full url DefaultBudget)"
      using assms f by (cases fr) (auto simp: read_mode_def readFullPackage_def res_result_def)
    with pk show ?thesis unfolding read_shown_def using budgetBody_shown by auto
  next
    case ol
    then obtain full where "rs_ResourceBody r = fst (budgetBody full url ExplicitBudget)" "env_free full"
      using assms g Outline_sealed by (cases fi) (auto simp: read_mode_def readFileOutline_def res_result_def run_rpc_def)
    with ol show ?thesis unfolding read_shown_def using budgetBody_shown by auto
  next
    case al
    then obtain full where "rs_ResourceBody r = fst (budgetBody full url ExplicitBudget)" "env_free full"
      using assms f Outline_sealed by (cases fr) (auto simp: read_mode_def readPackageOutline_def res_result_def)
    with al show ?thesis unfolding read_shown_def using budgetBody_shown by auto
  qed
qed

text \<open>
  A read shows all of what it promises or none of it. What gno\_read returns is the whole content of the
  depth asked for, or, when it is over the budget of that depth (4 KiB for a raw package, 64 KiB for
  every narrower request), a line that depends on its length alone: never a cut. A named file read in full is the node's answer byte for byte; an
  outline holds no envelope tag.
\<close>

theorem read_whole_or_nothing:
  assumes "readHandler e rl a w = (w', es, Returned r)"
  shows "\<exists>q c. read_args e rl a = Inr q \<and> en_resolver e (rq_profile q) = Some c \<and>
     read_shown e c q (gnoweb_of e (rq_profile q) (rq_path q) []) w r"
proof -
  have b: "read_body e rl a w = (w', Inr r)" using assms unfolding readHandler_def by (rule plain_returned)
  obtain q where q: "read_args e rl a = Inr q" using b by (cases "read_args e rl a") (auto simp: read_body_def)
  obtain c where c: "en_resolver e (rq_profile q) = Some c"
    "(case read_mode e rl c q (gnoweb_of e (rq_profile q) (rq_path q) []) w of
        (w1, Inl err) \<Rightarrow> explained e c (rq_path q) err w1 | (w1, Inr r) \<Rightarrow> (w1, Inr r)) = (w', Inr r)"
    using with_client_Inr [OF b [unfolded read_body_def q sum.case]] by blast
  obtain w1 m where m: "read_mode e rl c q (gnoweb_of e (rq_profile q) (rq_path q) []) w = (w1, m)" by force
  have "m = Inr r" using c(2) unfolding m by (cases m) (simp_all add: explained_Inl)
  with m read_mode_shown q c(1) show ?thesis by blast
qed

definition demo_file_node :: node where
  "demo_file_node = demo_node\<lparr>nd_query := (\<lambda>h p d. Inr ''package a'')\<rparr>"

definition demo_read_env :: env where
  "demo_read_env = demo_env\<lparr>en_resolver := (\<lambda>p. Some (demo_client\<lparr>cl_node := demo_file_node\<rparr>))\<rparr>"

definition demo_read_args :: args where
  "demo_read_args = [''path'' \<mapsto> JStr ''r/a'', ''file'' \<mapsto> JStr ''a.gno'', ''full'' \<mapsto> JBool True, ''profile'' \<mapsto> JStr ''dev'']"

lemma demo_read_run:
  "\<exists>w' r. readHandler demo_read_env demo_read demo_read_args demo_world = (w', [], Returned r) \<and> rs_ResourceBody r = ''package a''"
proof -
  have q: "read_args demo_read_env demo_read demo_read_args =
      Inr \<lparr>rq_path = ''r/a'', rq_file = ''a.gno'', rq_symbols = [], rq_full = True, rq_profile = ''dev''\<rparr>"
    by (simp add: read_args_def arg_def bindS_def StringArg_def BoolArg_def StringSliceArg_def demo_read_args_def demo_read_def IsReadablePackagePath_def)
  have f: "File demo_file_node ''r/a'' ''a.gno'' [] = ([EvQuery ''vm/qfile'' ''r/a/a.gno''], Inr ''package a'')"
    by (simp add: File_def query_def request_def demo_file_node_def)
  have "budgetBody ''package a'' u ExplicitBudget = (''package a'', False)" for u
    by (simp add: budgetBody_def Apply_def ExplicitBudget_def)
  moreover have "en_resolver demo_read_env ''dev'' = Some (demo_client\<lparr>cl_node := demo_file_node\<rparr>)" by (simp add: demo_read_env_def)
  moreover have "wo_rpc demo_world = []" by (simp add: demo_world_def)
  ultimately have "\<exists>w' r. read_body demo_read_env demo_read demo_read_args demo_world = (w', Inr r) \<and> rs_ResourceBody r = ''package a''"
    using f unfolding read_body_def q sum.case with_client_def
    by (simp add: read_mode_def readFullFile_def run_rpc_def res_result_def)
  then show ?thesis by (auto simp: readHandler_def plain_handler_def)
qed

lemma read_whole_or_nothing_witness:
  "\<exists>w' r q c. readHandler demo_read_env demo_read demo_read_args demo_world = (w', [], Returned r) \<and> rs_ResourceBody r = ''package a'' \<and>
     read_shown demo_read_env c q (gnoweb_of demo_read_env (rq_profile q) (rq_path q) []) demo_world r"
  using demo_read_run read_whole_or_nothing [of demo_read_env demo_read demo_read_args demo_world] by blast

end
