(* ===== verification/Profileadd.thy ===== *)
theory Profileadd
  imports Dispatch Scope
begin

section \<open>Adding a profile at run time: internal/gnoweb, gno\_connect and gno\_profile\_add\<close>

text \<open>
  A gnoweb page advertises the RPC endpoint and the chain-id of its chain in meta-tags. gno\_connect
  turns them into a command for the user, gno\_profile\_add into an entry of the server's table. The
  page is anyone's: both check what they read before it reaches a table or a terminal.
\<close>

subsection \<open>Library calls\<close>

text \<open>
  The HTML tokenizer gives the tokens of a text up to its error token; an element has its attributes
  in order, with lower-case keys. A request gives an error or the status and the body.
  \<open>al_loopback\<close> is \<open>net.ParseIP\<close> with the test for a loopback or unspecified address, \<open>al_verify\<close>
  \<open>chain.QueryChainID\<close> as its error text or the chain-id, \<open>al_republish\<close> the callback that publishes
  the tools again.
\<close>

datatype html_token = EndTag string | StartTag string "(string \<times> string) list" | OtherToken

record admin_lib =
  al_get :: "string \<Rightarrow> string + (int \<times> bytes)"
  al_tokens :: "bytes \<Rightarrow> html_token list"
  al_quote :: "string \<Rightarrow> string"
  al_arg_text :: "arg_error \<Rightarrow> string"
  al_dyn_text :: "dyn_error \<Rightarrow> string"
  al_profile_text :: "profile_error \<Rightarrow> string"
  al_url :: url_parse
  al_loopback :: "string \<Rightarrow> bool option"
  al_duration :: "string \<Rightarrow> duration option"
  al_bech32 :: "string \<Rightarrow> bytes option"
  al_verify :: "string \<Rightarrow> string + string"
  al_republish :: "server \<Rightarrow> string option"

subsection \<open>Discovery\<close>

definition metaNameRPC :: string where "metaNameRPC = ''gnoconnect:rpc''"
definition metaNameChainID :: string where "metaNameChainID = ''gnoconnect:chainid''"

record gnoweb_conn =
  gw_RPC :: string
  gw_ChainID :: string

definition metaAttr :: "string \<Rightarrow> (string \<times> string) list \<Rightarrow> string" where
  "metaAttr key attrs = (case map_of (rev attrs) key of None \<Rightarrow> [] | Some v \<Rightarrow> v)"

definition metaAttrs :: "(string \<times> string) list \<Rightarrow> string \<times> string" where
  "metaAttrs attrs = (metaAttr ''name'' attrs, metaAttr ''content'' attrs)"

definition read_meta :: "(string \<times> string) list \<Rightarrow> gnoweb_conn \<Rightarrow> gnoweb_conn" where
  "read_meta attrs c =
     (case metaAttrs attrs of
        (metaName, content) \<Rightarrow>
          if metaName = metaNameRPC then c\<lparr>gw_RPC := content\<rparr>
          else if metaName = metaNameChainID then c\<lparr>gw_ChainID := content\<rparr>
          else c)"

fun read_head :: "html_token list \<Rightarrow> gnoweb_conn \<Rightarrow> gnoweb_conn" where
  "read_head [] c = c"
| "read_head (EndTag name # ts) c = (if name = ''head'' then c else read_head ts c)"
| "read_head (StartTag name attrs # ts) c =
     (if name = ''body'' then c else if name = ''meta'' then read_head ts (read_meta attrs c) else read_head ts c)"
| "read_head (OtherToken # ts) c = read_head ts c"

definition no_meta_text :: string where
  "no_meta_text = ''no '' @ metaNameRPC @ ''/'' @ metaNameChainID @ '' meta-tags (is this a gnoweb host?)''"

definition Discover :: "admin_lib \<Rightarrow> string \<Rightarrow> string + gnoweb_conn" where
  "Discover lb url =
     (case al_get lb url of
        Inl x \<Rightarrow> Inl (''fetch gnoweb '' @ al_quote lb url @ '': '' @ x)
      | Inr (status, body) \<Rightarrow>
          (let c = read_head (al_tokens lb (take (2 ^ 20) body)) \<lparr>gw_RPC = [], gw_ChainID = []\<rparr>
           in if gw_RPC c = [] \<or> gw_ChainID c = [] then
                Inl (''gnoweb '' @ al_quote lb url @ '': '' @
                  (if status \<noteq> 200 then ''status '' @ show_int status @ '', '' else []) @ no_meta_text)
              else Inr c))"

subsection \<open>gno\_connect\<close>

definition le_sign :: string where "le_sign = [CHR 0xE2, CHR 0x89, CHR 0xA4]"

definition fence :: string where "fence = replicate 3 (CHR 0x60)"

definition malformed_text :: string where
  "malformed_text = '' is malformed (want lowercase alphanumeric with '.', '-', '_', '' @ le_sign @ ''64 chars)''"

definition add_command :: "string \<Rightarrow> string \<Rightarrow> string \<Rightarrow> string" where
  "add_command name rpc chainID = ''gnomcp profile add '' @ name @ '' --rpc '' @ rpc @ '' --chain-id '' @ chainID"

definition connect_capability :: "bool \<Rightarrow> string" where
  "connect_capability readOnly =
     (if readOnly then
        ''This is a read-only chain: read tools only'' @ dash @ ''no agent key, no faucet, and --master is refused. That is all an audit needs.''
      else ''For write-as-user sessions, persist the profile with --master <g1...> appended (dynamic profiles support agent-key writes only).'')"

definition connect_result :: "admin_lib \<Rightarrow> string \<Rightarrow> gnoweb_conn \<Rightarrow> tool_result" where
  "connect_result lb name c =
     (let cmd = add_command name (gw_RPC c) (gw_ChainID c); readOnly = (\<not> ChainIDWritable (gw_ChainID c))
      in \<lparr>rs_Text =
            ''Discovered chain '' @ al_quote lb (gw_ChainID c) @ '' at RPC '' @ gw_RPC c @ ''.'' @ nl @ nl @
            ''To use it in this session (in-memory until restart), call gno_profile_add with name='' @ al_quote lb name @
            '', rpc_url='' @ al_quote lb (gw_RPC c) @ '', chain_id='' @ al_quote lb (gw_ChainID c) @ ''.'' @ nl @ nl @
            ''To persist it, run:'' @ nl @ nl @ fence @ nl @ cmd @ nl @ fence @ nl @ nl @
            ''Then pass profile='' @ al_quote lb name @ '' to the read tools. '' @ connect_capability readOnly,
          rs_ResourceURI = [], rs_ResourceBody = [], rs_ResourceMIME = [],
          rs_Structured = [(''rpc'', JStr (gw_RPC c)), (''chain_id'', JStr (gw_ChainID c)), (''name'', JStr name),
            (''command'', JStr cmd), (''read_only'', JBool readOnly)]\<rparr>)"

text \<open>A name of the wrong type counts as none given.\<close>

definition connectHandler :: "admin_lib \<Rightarrow> args \<Rightarrow> tool_error + tool_result" where
  "connectHandler lb a =
     (case StringArg a ''gnoweb_url'' of
        Inl x \<Rightarrow> Inl (PlainError (al_arg_text lb x))
      | Inr url \<Rightarrow>
     if url = [] then Inl (PlainError ''gnoweb_url is required'')
     else case Discover lb url of
        Inl x \<Rightarrow> Inl (PlainError (''gno_connect: '' @ x))
      | Inr c \<Rightarrow>
     if \<not> ChainIDValid (gw_ChainID c) then
       Inl (ToolError ''chain_id_malformed''
         (''discovered chain-id '' @ al_quote lb (gw_ChainID c) @ malformed_text @ ''; refusing to build a profile from it'')
         [(''chain_id'', JStr (gw_ChainID c)), (''rpc'', JStr (gw_RPC c))])
     else if \<not> ValidRPCURL (gw_RPC c) then
       Inl (PlainError (''gno_connect: discovered RPC '' @ al_quote lb (gw_RPC c) @
         '' is not a safe http(s) URL; refusing to build a paste command from it''))
     else
       (let given = (case StringArg a ''name'' of Inl x \<Rightarrow> [] | Inr v \<Rightarrow> v);
            name = (if given = [] then gw_ChainID c else given)
        in if \<not> ValidProfileName name then
             Inl (PlainError (''gno_connect: profile name '' @ al_quote lb name @
               '' must be lowercase alphanumeric with '-' or '_' (e.g. '' @ al_quote lb (gw_ChainID c) @ '')''))
           else Inr (connect_result lb name c)))"

subsection \<open>gno\_profile\_add\<close>

definition clip :: "string \<Rightarrow> nat \<Rightarrow> string" where
  "clip s k = (if length s \<le> k then s else take k s @ [CHR 0xE2, CHR 0x80, CHR 0xA6] @ ''(truncated)'')"

text \<open>
  \<open>strings.EqualFold\<close> with ``localhost'': ASCII case, and the long s (two bytes in UTF-8), the one
  other rune that folds to a letter of that word.
\<close>

fun fold_long_s :: "string \<Rightarrow> string" where
  "fold_long_s (c # d # s) =
     (if c = CHR 0xC5 \<and> d = CHR 0xBF then CHR ''s'' # fold_long_s s else c # fold_long_s (d # s))"
| "fold_long_s s = s"

definition is_localhost :: "string \<Rightarrow> bool" where
  "is_localhost host \<longleftrightarrow> map lower_ascii (fold_long_s host) = ''localhost''"

definition hostIsLoopback :: "admin_lib \<Rightarrow> string \<Rightarrow> bool" where
  "hostIsLoopback lb rawURL =
     (case al_url lb rawURL of
        None \<Rightarrow> False
      | Some u \<Rightarrow> is_localhost (u_Hostname u) \<or> al_loopback lb (u_Hostname u) = Some True)"

definition gnowebRPCUnusable :: "admin_lib \<Rightarrow> string \<Rightarrow> string \<Rightarrow> bool" where
  "gnowebRPCUnusable lb gnowebURL rpcURL \<longleftrightarrow> hostIsLoopback lb rpcURL \<and> \<not> hostIsLoopback lb gnowebURL"

definition nameToolError :: "admin_lib \<Rightarrow> string \<Rightarrow> dyn_error \<Rightarrow> tool_error" where
  "nameToolError lb name err =
     ToolError (case err of ErrProfileReserved \<Rightarrow> ''profile_reserved'' | ErrProfileImmutable n \<Rightarrow> ''profile_immutable''
                | ErrProfileNameInvalid n \<Rightarrow> ''invalid_profile_name'') (al_dyn_text lb err) [(''name'', JStr name)]"

record add_request =
  ar_name :: string
  ar_rpc_url :: string
  ar_chain_id :: string
  ar_gnoweb_url :: string
  ar_indexer :: string
  ar_faucet_service :: string
  ar_faucet :: string

definition add_arg_names :: "string list" where
  "add_arg_names = [''name'', ''rpc_url'', ''chain_id'', ''gnoweb_url'', ''tx_indexer_url'', ''faucet_service_url'', ''faucet_url'']"

definition string_value :: "args \<Rightarrow> string \<Rightarrow> string" where
  "string_value a n = (case StringArg a n of Inl x \<Rightarrow> [] | Inr v \<Rightarrow> v)"

text \<open>\<open>order\<close> lists the argument names in the order the loop over the map visits them.\<close>

definition add_args :: "admin_lib \<Rightarrow> string list \<Rightarrow> args \<Rightarrow> tool_error + add_request" where
  "add_args lb order a =
     (case first_error (\<lambda>n. case StringArg a n of Inl x \<Rightarrow> Some x | Inr v \<Rightarrow> None) order of
        Some x \<Rightarrow> Inl (PlainError (al_arg_text lb x))
      | None \<Rightarrow>
          (let q = \<lparr>ar_name = string_value a ''name'', ar_rpc_url = string_value a ''rpc_url'', ar_chain_id = string_value a ''chain_id'',
                    ar_gnoweb_url = string_value a ''gnoweb_url'', ar_indexer = string_value a ''tx_indexer_url'',
                    ar_faucet_service = string_value a ''faucet_service_url'', ar_faucet = string_value a ''faucet_url''\<rparr>
           in if ar_gnoweb_url q \<noteq> [] \<and> (ar_rpc_url q \<noteq> [] \<or> ar_chain_id q \<noteq> []) then
                Inl (ToolError ''invalid_arguments'' ''pass either gnoweb_url OR rpc_url+chain_id, not both'' [])
              else if ar_gnoweb_url q = [] \<and> (ar_rpc_url q = [] \<or> ar_chain_id q = []) then
                Inl (ToolError ''invalid_arguments'' ''rpc_url and chain_id are both required (or pass gnoweb_url to discover them)'' [])
              else Inr q))"

text \<open>Where the endpoint comes from, the RPC URL and the chain-id.\<close>

definition add_endpoint :: "admin_lib \<Rightarrow> add_request \<Rightarrow> tool_error + string \<times> string \<times> string" where
  "add_endpoint lb q =
     (if ar_gnoweb_url q = [] then Inr (''explicit'', ar_rpc_url q, ar_chain_id q)
      else case Discover lb (ar_gnoweb_url q) of
        Inl x \<Rightarrow> Inl (ToolError ''gnoweb_discovery_failed''
                   (''could not discover chain info from '' @ al_quote lb (ar_gnoweb_url q) @ '': '' @ x @ dash @
                    ''pass rpc_url and chain_id explicitly instead'') [])
      | Inr c \<Rightarrow>
          (let rpc = clip (gw_RPC c) 256; chainID = clip (gw_ChainID c) 64
           in if gnowebRPCUnusable lb (ar_gnoweb_url q) rpc then
                Inl (ToolError ''gnoweb_rpc_unusable''
                  (''gnoweb '' @ al_quote lb (ar_gnoweb_url q) @ '' advertises RPC '' @ al_quote lb rpc @
                   '', a loopback address that cannot be the remote chain'' @ dash @
                   ''the deployment is misconfigured; pass rpc_url and chain_id explicitly'')
                  [(''advertised_rpc'', JStr rpc), (''chain_id'', JStr chainID)])
              else Inr (''gnoweb'', rpc, chainID)))"

definition added_profile :: "add_request \<Rightarrow> string \<Rightarrow> string \<Rightarrow> Profile" where
  "added_profile q rpc chainID =
     empty_profile\<lparr>RPCURL := rpc, ChainID := chainID, TxIndexerURL := ar_indexer q,
       FaucetServiceURL := ar_faucet_service q, FaucetURL := ar_faucet q\<rparr>"

definition add_checks :: "admin_lib \<Rightarrow> string \<Rightarrow> Profile \<Rightarrow> tool_error option" where
  "add_checks lb name p =
     (if \<not> ValidRPCURL (RPCURL p) then
        Some (ToolError ''invalid_rpc_url''
          (''rpc_url '' @ al_quote lb (RPCURL p) @ '' must be an absolute http(s) URL with no spaces or shell metacharacters'') [])
      else if \<not> ChainIDValid (ChainID p) then
        Some (ToolError ''chain_id_malformed'' (''chain-id '' @ al_quote lb (ChainID p) @ malformed_text)
          [(''chain_id'', JStr (ChainID p))])
      else if TxIndexerURL p \<noteq> [] \<and> \<not> ValidRPCURL (TxIndexerURL p) then
        Some (ToolError ''invalid_indexer_url''
          (''tx_indexer_url '' @ al_quote lb (TxIndexerURL p) @ '' must be an absolute http(s) URL with no spaces or shell metacharacters'') [])
      else case Validate (al_url lb) (al_duration lb) (al_bech32 lb) [name] [name \<mapsto> p] of
        Some x \<Rightarrow> Some (ToolError ''invalid_config'' (al_profile_text lb x) [])
      | None \<Rightarrow> None)"

definition add_verify :: "admin_lib \<Rightarrow> Profile \<Rightarrow> tool_error option" where
  "add_verify lb p =
     (case al_verify lb (RPCURL p) of
        Inl x \<Rightarrow> Some (ToolError ''chain_unreachable''
                   (''could not query '' @ al_quote lb (RPCURL p) @ '' for its chain-id: '' @ x @ dash @
                    ''check the rpc_url (the profile was NOT added)'') [])
      | Inr reported \<Rightarrow>
          if reported \<noteq> ChainID p then
            Some (ToolError ''chain_id_mismatch''
              (''node at '' @ al_quote lb (RPCURL p) @ '' reports chain-id '' @ al_quote lb (clip reported 64) @
               '', not the declared '' @ al_quote lb (ChainID p) @ '' (the profile was NOT added)'')
              [(''declared'', JStr (ChainID p)), (''reported'', JStr (clip reported 64))])
          else None)"

definition persist_command :: "string \<Rightarrow> Profile \<Rightarrow> string" where
  "persist_command name p =
     add_command name (RPCURL p) (ChainID p) @ (if TxIndexerURL p \<noteq> [] then '' --indexer-url '' @ TxIndexerURL p else [])"

definition add_result :: "admin_lib \<Rightarrow> string \<Rightarrow> Profile \<Rightarrow> string \<Rightarrow> tool_result" where
  "add_result lb name p source =
     \<lparr>rs_Text =
        ''Profile '' @ al_quote lb name @ '' added (chain-id '' @ ChainID p @ '', RPC '' @ RPCURL p @ '', via '' @ source @ '').'' @ nl @
        ''It is in-memory only and disappears on restart. To persist it, run:'' @ nl @ nl @
        fence @ nl @ persist_command name p @ nl @ fence @ nl @ nl @
        ''Use it now: pass profile='' @ name @ '' to the tools; the tool list was refreshed (tools/list_changed)'' @ dash @
        ''re-fetch tool schemas if your client cached the old profile list.'' @
        (if IsReadOnly p then
           nl @ nl @ ''This is a read-only chain: pass it to the read tools (gno_read, gno_packages, gno_render, gno_eval)'' @ dash @
           ''there is no agent key, faucet, or write path.''
         else []) @
        (if FaucetServiceURL p \<noteq> [] \<or> FaucetURL p \<noteq> [] then
           nl @ nl @ ''(faucet-url / faucet-service-url have no CLI flags'' @ dash @ ''add them to profiles.toml by hand when persisting.)''
         else []),
      rs_ResourceURI = [], rs_ResourceBody = [], rs_ResourceMIME = [],
      rs_Structured = [(''name'', JStr name), (''chain_id'', JStr (ChainID p)), (''rpc_url'', JStr (RPCURL p)),
        (''source'', JStr source), (''persisted'', JBool False), (''persist_command'', JStr (persist_command name p)),
        (''read_only'', JBool (IsReadOnly p))]\<rparr>"

definition republish_error :: "admin_lib \<Rightarrow> string \<Rightarrow> string \<Rightarrow> tool_error" where
  "republish_error lb name x =
     ToolError ''republish_failed''
       (''profile '' @ al_quote lb name @ '' was added and is usable by name right away, but re-publishing the tool list failed: '' @ x @ dash @
        ''clients may show stale tool schemas until restart'') [(''name'', JStr name)]"

definition profileAddHandler :: "admin_lib \<Rightarrow> string list \<Rightarrow> args \<Rightarrow> server \<Rightarrow> server \<times> (tool_error + tool_result)" where
  "profileAddHandler lb order a s =
     (case add_args lb order a of
        Inl err \<Rightarrow> (s, Inl err)
      | Inr q \<Rightarrow>
     (case CheckDynamicProfileName s (ar_name q) of
        Some x \<Rightarrow> (s, Inl (nameToolError lb (ar_name q) x))
      | None \<Rightarrow>
     (case add_endpoint lb q of
        Inl err \<Rightarrow> (s, Inl err)
      | Inr (source, rpc, chainID) \<Rightarrow>
          (let p = added_profile q rpc chainID
           in case add_checks lb (ar_name q) p of
                Some err \<Rightarrow> (s, Inl err)
              | None \<Rightarrow>
             (case add_verify lb p of
                Some err \<Rightarrow> (s, Inl err)
              | None \<Rightarrow>
             (case AddDynamicProfile (ar_name q) p s of
                (s1, Some x) \<Rightarrow> (s1, Inl (nameToolError lb (ar_name q) x))
              | (s1, None) \<Rightarrow>
             (case al_republish lb s1 of
                Some x \<Rightarrow> (s1, Inl (republish_error lb (ar_name q) x))
              | None \<Rightarrow> (s1, Inr (add_result lb (ar_name q) p source)))))))))"


subsection \<open>Lemmas\<close>

lemma shell_words_Join: "list_all shell_word ws \<Longrightarrow> shell_words (Join ws '' '') = Some ws"
proof (induction ws "'' ''" rule: Join.induct)
  case (2 w)
  then show ?case using sh_words_safe [of w "[]" "[]"] by (auto simp: shell_words_def shell_word_def)
next
  case (3 w v ws)
  then show ?case using sh_words_word [of w "Join (v # ws) '' ''"] by (simp add: shell_words_def)
qed (simp add: shell_words_def)

lemma add_words [simp]:
  "shell_word ''gnomcp''" "shell_word ''profile''" "shell_word ''add''" "shell_word ''--rpc''" "shell_word ''--chain-id''"
  "shell_word ''--indexer-url''"
  by (simp_all add: shell_word_def shell_safe_def shell_safe_cls_def in_cls_def)

text \<open>The words the printed command should be: what the program itself is then started with.\<close>

definition add_argv :: "string \<Rightarrow> Profile \<Rightarrow> string list" where
  "add_argv name p =
     [name, ''--rpc'', RPCURL p, ''--chain-id'', ChainID p] @ (if TxIndexerURL p \<noteq> [] then [''--indexer-url'', TxIndexerURL p] else [])"

lemma persist_command_words:
  assumes "ValidProfileName name" "ValidRPCURL (RPCURL p)" "ChainIDValid (ChainID p)" "TxIndexerURL p \<noteq> [] \<longrightarrow> ValidRPCURL (TxIndexerURL p)"
  shows "shell_words (persist_command name p) = Some ([''gnomcp'', ''profile'', ''add''] @ add_argv name p)"
proof -
  have "persist_command name p = Join ([''gnomcp'', ''profile'', ''add''] @ add_argv name p) '' ''"
    by (simp add: persist_command_def add_command_def add_argv_def)
  moreover have "list_all shell_word ([''gnomcp'', ''profile'', ''add''] @ add_argv name p)"
    using assms by (simp add: add_argv_def ValidProfileName_word ValidRPCURL_word ChainIDValid_word)
  ultimately show ?thesis using shell_words_Join by metis
qed

lemma add_checks_None:
  assumes "add_checks lb name p = None"
  shows "ValidRPCURL (RPCURL p)" "ChainIDValid (ChainID p)" "TxIndexerURL p \<noteq> [] \<longrightarrow> ValidRPCURL (TxIndexerURL p)"
    "validate_profile (al_url lb) (al_duration lb) (al_bech32 lb) name p = None"
  using assms by (auto simp: add_checks_def Validate_None split: if_splits option.splits)

lemma CheckDynamic_Add:
  assumes "CheckDynamicProfileName s name = None"
  shows "AddDynamicProfile name p s = (s\<lparr>sv_profiles := (name, p) # filter (\<lambda>q. fst q \<noteq> name) (sv_profiles s)\<rparr>, None)"
  using assms by (auto simp: CheckDynamicProfileName_def AddDynamicProfile_def split: if_splits)

text \<open>Everything the handler established by the time the table changes.\<close>

definition add_guarded :: "admin_lib \<Rightarrow> add_request \<Rightarrow> string \<Rightarrow> Profile \<Rightarrow> server \<Rightarrow> bool" where
  "add_guarded lb q source p s \<longleftrightarrow>
     CheckDynamicProfileName s (ar_name q) = None \<and> add_endpoint lb q = Inr (source, RPCURL p, ChainID p) \<and>
     p = added_profile q (RPCURL p) (ChainID p) \<and> add_checks lb (ar_name q) p = None \<and> al_verify lb (RPCURL p) = Inr (ChainID p)"

lemma profileAddHandler_cases:
  assumes "profileAddHandler lb order a s = (s', res)"
  shows "(\<exists>err. res = Inl err \<and> s' = s) \<or>
     (\<exists>q source p. add_args lb order a = Inr q \<and> add_guarded lb q source p s \<and> s' = fst (AddDynamicProfile (ar_name q) p s) \<and>
        ((\<exists>x. al_republish lb s' = Some x \<and> res = Inl (republish_error lb (ar_name q) x)) \<or>
         al_republish lb s' = None \<and> res = Inr (add_result lb (ar_name q) p source)))"
proof (cases "add_args lb order a")
  case (Inl err)
  then show ?thesis using assms by (auto simp: profileAddHandler_def)
next
  case q: (Inr q)
  show ?thesis
  proof (cases "CheckDynamicProfileName s (ar_name q)")
    case (Some x)
    then show ?thesis using assms q by (auto simp: profileAddHandler_def)
  next
    case name: None
    show ?thesis
    proof (cases "add_endpoint lb q")
      case (Inl err)
      then show ?thesis using assms q name by (auto simp: profileAddHandler_def)
    next
      case (Inr t)
      then obtain source rpc chainID where t: "add_endpoint lb q = Inr (source, rpc, chainID)" by (cases t) auto
      let ?p = "added_profile q rpc chainID"
      show ?thesis
      proof (cases "add_checks lb (ar_name q) ?p = None \<and> add_verify lb ?p = None")
        case False
        then show ?thesis using assms q name t by (auto simp: profileAddHandler_def Let_def split: option.splits)
      next
        case True
        then have "al_verify lb rpc = Inr chainID" by (auto simp: add_verify_def added_profile_def split: sum.splits if_splits)
        then have "add_guarded lb q source ?p s" using name t True by (simp add: add_guarded_def added_profile_def)
        moreover have "s' = fst (AddDynamicProfile (ar_name q) ?p s) \<and>
            ((\<exists>x. al_republish lb s' = Some x \<and> res = Inl (republish_error lb (ar_name q) x)) \<or>
             al_republish lb s' = None \<and> res = Inr (add_result lb (ar_name q) ?p source))"
          using assms q name t True CheckDynamic_Add [OF name, of ?p]
          by (cases "al_republish lb (fst (AddDynamicProfile (ar_name q) ?p s))") (auto simp: profileAddHandler_def Let_def)
        ultimately show ?thesis using q by blast
      qed
    qed
  qed
qed

text \<open>What the server asks of a profile it takes at run time.\<close>

definition admitted :: "admin_lib \<Rightarrow> server \<Rightarrow> add_request \<Rightarrow> Profile \<Rightarrow> bool" where
  "admitted lb s q p \<longleftrightarrow>
     ValidProfileName (ar_name q) \<and> ar_name q \<noteq> ''default'' \<and> ar_name q \<notin> set (sv_initNames s) \<and>
     al_verify lb (RPCURL p) = Inr (ChainID p) \<and> profile_ok (al_bech32 lb) p \<and> MasterAddress p = [] \<and> \<not> BypassHardLimits p \<and>
     (ar_gnoweb_url q = [] \<longrightarrow> RPCURL p = ar_rpc_url q \<and> ChainID p = ar_chain_id q) \<and>
     (ar_gnoweb_url q \<noteq> [] \<longrightarrow> hostIsLoopback lb (RPCURL p) \<longrightarrow> hostIsLoopback lb (ar_gnoweb_url q))"

lemma add_endpoint_Inr:
  assumes "add_endpoint lb q = Inr (source, rpc, chainID)"
  shows "(ar_gnoweb_url q = [] \<longrightarrow> rpc = ar_rpc_url q \<and> chainID = ar_chain_id q) \<and>
     (ar_gnoweb_url q \<noteq> [] \<longrightarrow> hostIsLoopback lb rpc \<longrightarrow> hostIsLoopback lb (ar_gnoweb_url q))"
  using assms by (auto simp: add_endpoint_def gnowebRPCUnusable_def Let_def split: if_splits sum.splits)

lemma guarded_admitted:
  assumes "add_guarded lb q source p s"
  shows "admitted lb s q p"
proof -
  have g: "CheckDynamicProfileName s (ar_name q) = None" "add_endpoint lb q = Inr (source, RPCURL p, ChainID p)"
      "p = added_profile q (RPCURL p) (ChainID p)" "add_checks lb (ar_name q) p = None" "al_verify lb (RPCURL p) = Inr (ChainID p)"
    using assms unfolding add_guarded_def by blast+
  have "MasterAddress p = []" "\<not> BypassHardLimits p" by (subst g(3), simp add: added_profile_def empty_profile_def)+
  with g(1,5) add_endpoint_Inr [OF g(2)] validate_profile_ok [OF add_checks_None(4) [OF g(4)]] show ?thesis
    by (auto simp: admitted_def CheckDynamicProfileName_def split: if_splits)
qed

subsection \<open>Properties\<close>

text \<open>
  C36. What gno\_profile\_add may do to the profile table. Either it refuses and leaves the table as it
  was, or it puts exactly one entry there, under the valid name asked for, never one loaded at start and never ``default'': a profile
  that passed validation, has no master address, whose node reported the very chain-id the profile
  declares, at the endpoint asked for or, when a page named it, not at a loopback host unless the page is on one itself. The only error
  after the change is that of publishing the tools again, and it says so.
\<close>

theorem profile_add_guarded:
  assumes "profileAddHandler lb order a s = (s', res)"
  shows "(s' = s \<and> isl res) \<or>
     (\<exists>q p. add_args lb order a = Inr q \<and> admitted lb s q p \<and>
        server_profile s' = (server_profile s)(ar_name q \<mapsto> p) \<and> sv_initNames s' = sv_initNames s \<and>
        (isl res \<longrightarrow> (\<exists>x. al_republish lb s' = Some x \<and> res = Inl (republish_error lb (ar_name q) x))))"
proof (rule disjE [OF profileAddHandler_cases [OF assms]])
  assume "\<exists>err. res = Inl err \<and> s' = s"
  then show ?thesis by auto
next
  assume "\<exists>q source p. add_args lb order a = Inr q \<and> add_guarded lb q source p s \<and> s' = fst (AddDynamicProfile (ar_name q) p s) \<and>
        ((\<exists>x. al_republish lb s' = Some x \<and> res = Inl (republish_error lb (ar_name q) x)) \<or>
         al_republish lb s' = None \<and> res = Inr (add_result lb (ar_name q) p source))"
  then obtain q source p where g: "add_args lb order a = Inr q" "add_guarded lb q source p s" "s' = fst (AddDynamicProfile (ar_name q) p s)"
    and r: "(\<exists>x. al_republish lb s' = Some x \<and> res = Inl (republish_error lb (ar_name q) x)) \<or> res = Inr (add_result lb (ar_name q) p source)"
    by blast
  have "CheckDynamicProfileName s (ar_name q) = None" using g(2) by (simp add: add_guarded_def)
  then have "server_profile s' = (server_profile s)(ar_name q \<mapsto> p)" "sv_initNames s' = sv_initNames s"
    unfolding g(3) by (auto simp: AddDynamicProfile_profiles)
  with g(1) guarded_admitted [OF g(2)] r show ?thesis by auto
qed

definition demo_admin :: admin_lib where
  "demo_admin = \<lparr>al_get = (\<lambda>u. Inr (200, ''page'')),
     al_tokens = (\<lambda>b. [OtherToken, StartTag ''head'' [],
        StartTag ''meta'' [(''name'', ''gnoconnect:rpc''), (''content'', ''http://127.0.0.1:26657'')],
        StartTag ''meta'' [(''content'', ''dev''), (''name'', ''gnoconnect:chainid'')], EndTag ''head'']),
     al_quote = id, al_arg_text = (\<lambda>x. []), al_dyn_text = (\<lambda>x. []), al_profile_text = (\<lambda>x. []),
     al_url = (\<lambda>u. Some \<lparr>u_Scheme = ''http'', u_Host = ''127.0.0.1'', u_Hostname = ''127.0.0.1''\<rparr>),
     al_loopback = (\<lambda>h. Some True), al_duration = (\<lambda>d. None), al_bech32 = Some, al_verify = (\<lambda>u. Inr ''dev''),
     al_republish = (\<lambda>s. None)\<rparr>"

definition demo_add_args :: args where
  "demo_add_args = [''name'' \<mapsto> JStr ''mine'', ''gnoweb_url'' \<mapsto> JStr ''http://127.0.0.1:8888'']"

definition demo_start :: server where
  "demo_start = NewServer [(''local'', empty_profile\<lparr>RPCURL := ''http://127.0.0.1:26657'', ChainID := ''dev''\<rparr>)] []"

definition demo_request :: add_request where
  "demo_request = \<lparr>ar_name = ''mine'', ar_rpc_url = [], ar_chain_id = [], ar_gnoweb_url = ''http://127.0.0.1:8888'',
     ar_indexer = [], ar_faucet_service = [], ar_faucet = []\<rparr>"

definition demo_added :: Profile where
  "demo_added = empty_profile\<lparr>RPCURL := ''http://127.0.0.1:26657'', ChainID := ''dev''\<rparr>"

lemma demo_endpoint: "add_endpoint demo_admin demo_request = Inr (''gnoweb'', ''http://127.0.0.1:26657'', ''dev'')"
proof -
  have "Discover demo_admin u = Inr \<lparr>gw_RPC = ''http://127.0.0.1:26657'', gw_ChainID = ''dev''\<rparr>" for u
    by (simp add: Discover_def demo_admin_def read_meta_def metaAttrs_def metaAttr_def metaNameRPC_def metaNameChainID_def)
  moreover have "hostIsLoopback demo_admin u" for u by (simp add: hostIsLoopback_def demo_admin_def)
  ultimately show ?thesis by (simp add: add_endpoint_def demo_request_def clip_def gnowebRPCUnusable_def)
qed

lemma demo_checks: "add_checks demo_admin ''mine'' demo_added = None"
proof -
  have "ValidRPCURL ''http://127.0.0.1:26657''" "ChainIDValid ''dev''" by code_simp+
  then show ?thesis by (simp add: add_checks_def demo_added_def empty_profile_def Validate_def validate_profile_def check_faucet_url_def)
qed

lemma demo_add_run: "\<not> isl (snd (profileAddHandler demo_admin add_arg_names demo_add_args demo_start))"
proof -
  have "add_args demo_admin add_arg_names demo_add_args = Inr demo_request"
    by (simp add: add_args_def demo_add_args_def add_arg_names_def StringArg_def string_value_def demo_request_def Let_def)
  moreover have "added_profile demo_request ''http://127.0.0.1:26657'' ''dev'' = demo_added"
    by (simp add: added_profile_def demo_request_def demo_added_def empty_profile_def)
  moreover have "add_verify demo_admin demo_added = None" by (simp add: add_verify_def demo_admin_def demo_added_def)
  moreover have name: "CheckDynamicProfileName demo_start ''mine'' = None" by code_simp
  moreover have "ar_name demo_request = ''mine''" "al_republish demo_admin x = None" for x by (simp_all add: demo_request_def demo_admin_def)
  ultimately show ?thesis by (simp add: profileAddHandler_def demo_endpoint demo_checks CheckDynamic_Add [OF name])
qed

lemma profile_add_guarded_witness:
  "\<exists>s' r q p. profileAddHandler demo_admin add_arg_names demo_add_args demo_start = (s', Inr r) \<and>
     admitted demo_admin demo_start q p \<and> server_profile s' = (server_profile demo_start)(ar_name q \<mapsto> p)"
proof -
  obtain s' res where h: "profileAddHandler demo_admin add_arg_names demo_add_args demo_start = (s', res)" by force
  then have "\<not> isl res" using demo_add_run by simp
  with h profile_add_guarded [OF h] show ?thesis by (cases res) auto
qed

end
