(* ===== verification/Profilecli.thy ===== *)
theory Profilecli
  imports Profileadd Storage
begin

section \<open>The profile command: cmd/gnomcp profile.go and internal/profiles write.go\<close>

text \<open>
  \<open>gnomcp profile\<close> lists, adds and removes the entries of the user's configuration file: read, change,
  validate, encode, replace the file. The file system is that of \<open>Storage\<close>; the TOML codec is a
  parameter, and package \<open>flag\<close> is modelled as far as the command uses it (string flags only).
\<close>

subsection \<open>Environment\<close>

text \<open>
  \<open>pc_open_error\<close> is an error of opening the file other than its absence, \<open>pc_project\<close> the file of the
  working directory, \<open>pc_keys\<close> the order in which a loop visits a table.
\<close>

datatype cli_error =
    ReservedName string
  | DiscoverErr string
  | NeedEndpoint
  | OpenErr string
  | LoadErr profile_error
  | InvalidConfig profile_error
  | EncodeErr string
  | WriteFailed fs_error
  | ProfileNotFound string

record profile_cli =
  pc_admin :: admin_lib
  pc_home :: "string option"
  pc_toml :: "bytes \<Rightarrow> string + profile_map \<times> string list"
  pc_encode :: "profile_map \<Rightarrow> string + bytes"
  pc_keys :: "profile_map \<Rightarrow> string list"
  pc_open_error :: "string option"
  pc_project :: open_result
  pc_text :: "cli_error \<Rightarrow> string"

subsection \<open>The file\<close>

text \<open>Directory and name of the file.\<close>

definition globalProfilePath :: "string option \<Rightarrow> string \<times> string" where
  "globalProfilePath home = (case home of Some h \<Rightarrow> (h @ ''/.config/gnomcp'', ''profiles.toml'') | None \<Rightarrow> (''.'', ''profiles.toml''))"

definition path_text :: "string \<times> string \<Rightarrow> string" where
  "path_text q = (if fst q = ''.'' then snd q else fst q @ ''/'' @ snd q)"

definition open_global :: "profile_cli \<Rightarrow> fsys \<Rightarrow> open_result" where
  "open_global cli fs =
     (case pc_open_error cli of
        Some x \<Rightarrow> FileError x
      | None \<Rightarrow>
          (case globalProfilePath (pc_home cli) of
             (d, n) \<Rightarrow> (case fget fs d n of None \<Rightarrow> FileMissing | Some b \<Rightarrow> FileContent b)))"

definition loadGlobal :: "profile_cli \<Rightarrow> fsys \<Rightarrow> cli_error + profile_map" where
  "loadGlobal cli fs =
     (case open_global cli fs of
        FileMissing \<Rightarrow> Inr Map.empty
      | FileError x \<Rightarrow> Inl (OpenErr x)
      | FileContent b \<Rightarrow> (case Load (pc_toml cli) b of Inl x \<Rightarrow> Inl (LoadErr x) | Inr ps \<Rightarrow> Inr ps))"

definition WriteFile :: "profile_cli \<Rightarrow> faults \<Rightarrow> fsys \<Rightarrow> profile_map \<Rightarrow> fsys \<times> cli_error option" where
  "WriteFile cli flt fs ps =
     (let lb = pc_admin cli;
          bad = (if pc_keys cli ps \<noteq> [] then Validate (al_url lb) (al_duration lb) (al_bech32 lb) (pc_keys cli ps) ps else None)
      in case bad of
           Some x \<Rightarrow> (fs, Some (InvalidConfig x))
         | None \<Rightarrow>
        (case pc_encode cli ps of
           Inl x \<Rightarrow> (fs, Some (EncodeErr x))
         | Inr b \<Rightarrow>
        (case globalProfilePath (pc_home cli) of
           (d, n) \<Rightarrow> (case WriteFileAtomic flt fs d n b of (tr, err) \<Rightarrow> (last tr, map_option WriteFailed err)))))"

subsection \<open>Adding and removing\<close>

definition isReservedName :: "string \<Rightarrow> bool" where
  "isReservedName name \<longleftrightarrow> name = ''default'' \<or> BuiltinProfiles name \<noteq> None"

record profileAddOpts =
  op_FromGnoweb :: string
  op_RPC :: string
  op_ChainID :: string
  op_Master :: string
  op_IndexerURL :: string

definition opts_profile :: "profileAddOpts \<Rightarrow> string \<Rightarrow> string \<Rightarrow> Profile" where
  "opts_profile opt rpc chainID =
     empty_profile\<lparr>RPCURL := rpc, ChainID := chainID, MasterAddress := op_Master opt, TxIndexerURL := op_IndexerURL opt\<rparr>"

definition opts_endpoint :: "profile_cli \<Rightarrow> profileAddOpts \<Rightarrow> cli_error + string \<times> string" where
  "opts_endpoint cli opt =
     (case (if op_FromGnoweb opt \<noteq> [] then Discover (pc_admin cli) (op_FromGnoweb opt)
            else Inr \<lparr>gw_RPC = op_RPC opt, gw_ChainID = op_ChainID opt\<rparr>) of
        Inl x \<Rightarrow> Inl (DiscoverErr x)
      | Inr c \<Rightarrow> if gw_RPC c = [] \<or> gw_ChainID c = [] then Inl NeedEndpoint else Inr (gw_RPC c, gw_ChainID c))"

definition profileAdd :: "profile_cli \<Rightarrow> faults \<Rightarrow> fsys \<Rightarrow> string \<Rightarrow> profileAddOpts \<Rightarrow> fsys \<times> cli_error option" where
  "profileAdd cli flt fs name opt =
     (if isReservedName name then (fs, Some (ReservedName name))
      else case opts_endpoint cli opt of
        Inl x \<Rightarrow> (fs, Some x)
      | Inr (rpc, chainID) \<Rightarrow>
     (case loadGlobal cli fs of
        Inl x \<Rightarrow> (fs, Some x)
      | Inr cur \<Rightarrow> WriteFile cli flt fs (cur(name \<mapsto> opts_profile opt rpc chainID))))"

definition profileRemove :: "profile_cli \<Rightarrow> faults \<Rightarrow> fsys \<Rightarrow> string \<Rightarrow> fsys \<times> cli_error option" where
  "profileRemove cli flt fs name =
     (case loadGlobal cli fs of
        Inl x \<Rightarrow> (fs, Some x)
      | Inr cur \<Rightarrow>
          if cur name = None then (fs, Some (ProfileNotFound name))
          else WriteFile cli flt fs (cur(name := None)))"

subsection \<open>Listing\<close>

text \<open>\<open>%-12s\<close> counts runes.\<close>

definition pad_right :: "nat \<Rightarrow> string \<Rightarrow> string" where
  "pad_right k s = s @ replicate (k - RuneCount s) (CHR '' '')"

definition list_line :: "string \<Rightarrow> Profile \<Rightarrow> string" where
  "list_line n p =
     pad_right 12 n @ '' '' @ pad_right 10 (ChainID p) @ '' '' @ RPCURL p @ ''  ['' @
     (if MasterAddress p \<noteq> [] then ''writable'' else ''read-only'') @ '']'' @ nl"

definition profileList :: "profile_cli \<Rightarrow> fsys \<Rightarrow> cli_error + string" where
  "profileList cli fs =
     (let lb = pc_admin cli; path = path_text (globalProfilePath (pc_home cli));
          openf = (\<lambda>q. if q = path then open_global cli fs else if q = ''profiles.toml'' then pc_project cli else FileMissing)
      in case LoadResolved openf (pc_toml cli) (pc_keys cli) (al_url lb) (al_duration lb) (al_bech32 lb)
                \<lparr>GlobalPath = path, ProjectPath = ''profiles.toml'', ExplicitPath = []\<rparr> of
           Inl x \<Rightarrow> Inl (LoadErr x)
         | Inr m \<Rightarrow> Inr (concat (map (\<lambda>n. case m n of None \<Rightarrow> [] | Some p \<Rightarrow> list_line n p) (sort_by id (pc_keys cli m)))))"

subsection \<open>The command line\<close>

text \<open>
  \<open>flag.Parse\<close>: one or two dashes, a value after \<open>=\<close> or in the next word; it stops at the first word
  that is no flag, or after two dashes alone.
\<close>

definition flag_names :: "string list" where
  "flag_names = [''from-gnoweb'', ''rpc'', ''chain-id'', ''master'', ''indexer-url'']"

definition set_flag :: "string \<Rightarrow> string \<Rightarrow> profileAddOpts \<Rightarrow> profileAddOpts" where
  "set_flag name v opt =
     (if name = ''from-gnoweb'' then opt\<lparr>op_FromGnoweb := v\<rparr>
      else if name = ''rpc'' then opt\<lparr>op_RPC := v\<rparr>
      else if name = ''chain-id'' then opt\<lparr>op_ChainID := v\<rparr>
      else if name = ''master'' then opt\<lparr>op_Master := v\<rparr>
      else opt\<lparr>op_IndexerURL := v\<rparr>)"

definition split_flag :: "string \<Rightarrow> string \<times> string option" where
  "split_flag s =
     (let n = hd s # takeWhile (\<lambda>c. c \<noteq> CHR ''='') (tl s)
      in (n, if CHR ''='' \<in> set (tl s) then Some (drop (Suc (length n)) s) else None))"

definition flag_word :: "string \<Rightarrow> bool" where
  "flag_word s \<longleftrightarrow> 2 \<le> length s \<and> hd s = CHR ''-'' \<and> s \<noteq> ''--''"

definition strip_dashes :: "string \<Rightarrow> string" where
  "strip_dashes s = (if HasPrefix s ''--'' then drop 2 s else drop 1 s)"

fun parse_flags :: "string list \<Rightarrow> profileAddOpts \<Rightarrow> string + profileAddOpts" where
  "parse_flags [] opt = Inr opt"
| "parse_flags (s # rest) opt =
     (if \<not> flag_word s then Inr opt
      else if hd (strip_dashes s) \<in> {CHR ''-'', CHR ''=''} then Inl (''bad flag syntax: '' @ s)
      else if fst (split_flag (strip_dashes s)) \<notin> set flag_names then
        Inl (if fst (split_flag (strip_dashes s)) \<in> {''help'', ''h''} then ''flag: help requested''
             else ''flag provided but not defined: -'' @ fst (split_flag (strip_dashes s)))
      else case snd (split_flag (strip_dashes s)) of
             Some v \<Rightarrow> parse_flags rest (set_flag (fst (split_flag (strip_dashes s))) v opt)
           | None \<Rightarrow>
               (case rest of
                  [] \<Rightarrow> Inl (''flag needs an argument: -'' @ fst (split_flag (strip_dashes s)))
                | v # rest' \<Rightarrow> parse_flags rest' (set_flag (fst (split_flag (strip_dashes s))) v opt)))"

definition no_opts :: profileAddOpts where
  "no_opts = \<lparr>op_FromGnoweb = [], op_RPC = [], op_ChainID = [], op_Master = [], op_IndexerURL = []\<rparr>"

definition parseProfileAddArgs :: "string list \<Rightarrow> string + string \<times> profileAddOpts" where
  "parseProfileAddArgs args =
     (case args of
        [] \<Rightarrow> Inl ''profile name required as the first argument''
      | name # rest \<Rightarrow>
          if HasPrefix name ''-'' then Inl ''profile name required as the first argument''
          else case parse_flags rest no_opts of Inl x \<Rightarrow> Inl x | Inr opt \<Rightarrow> Inr (name, opt))"

text \<open>The left side is what the program itself prints on standard error before it exits with status 1.\<close>

definition cli_fatal :: "profile_cli \<Rightarrow> cli_error \<Rightarrow> string" where
  "cli_fatal cli err = ''error: '' @ pc_text cli err @ nl"

definition runProfile :: "profile_cli \<Rightarrow> faults \<Rightarrow> string list \<Rightarrow> fsys \<Rightarrow> fsys \<times> (string + string)" where
  "runProfile cli flt args fs =
     (case args of
        [] \<Rightarrow> (fs, Inl (''usage: gnomcp profile <list|add|remove>'' @ nl))
      | sub # rest \<Rightarrow>
          if sub = ''list'' then (case profileList cli fs of Inl x \<Rightarrow> (fs, Inl (cli_fatal cli x)) | Inr t \<Rightarrow> (fs, Inr t))
          else if sub = ''add'' then
            (case parseProfileAddArgs rest of
               Inl x \<Rightarrow>
                 (fs, Inl (''usage: gnomcp profile add <name> [--from-gnoweb URL | --rpc URL --chain-id ID] [--master g1...] [--indexer-url URL]'' @
                    nl @ ''error: '' @ x @ nl))
             | Inr (name, opt) \<Rightarrow>
                 (case profileAdd cli flt fs name opt of
                    (fs1, Some x) \<Rightarrow> (fs1, Inl (cli_fatal cli x))
                  | (fs1, None) \<Rightarrow>
                      (fs1, Inr (''added profile '' @ al_quote (pc_admin cli) name @ '' to '' @
                         path_text (globalProfilePath (pc_home cli)) @ nl))))
          else if sub = ''remove'' then
            (case rest of
               [] \<Rightarrow> (fs, Inl (''usage: gnomcp profile remove <name>'' @ nl))
             | name # others \<Rightarrow>
                 (case profileRemove cli flt fs name of
                    (fs1, Some x) \<Rightarrow> (fs1, Inl (cli_fatal cli x))
                  | (fs1, None) \<Rightarrow> (fs1, Inr (''removed profile '' @ al_quote (pc_admin cli) name @ nl))))
          else (fs, Inl (''unknown profile subcommand '' @ al_quote (pc_admin cli) sub @ nl)))"


subsection \<open>Probing a local node: internal/profiles discovery.go\<close>

text \<open>
  \<open>build\<close> is the error of building a request, \<open>fetch\<close> the answer within the timeout if there is one,
  \<open>network_of\<close> the network an answer names. A node that is down is no error.
\<close>

definition DiscoverLocal ::
  "(string \<Rightarrow> string option) \<Rightarrow> (string \<Rightarrow> (int \<times> bytes) option) \<Rightarrow> (bytes \<Rightarrow> string + string) \<Rightarrow> Profile \<Rightarrow> string + bool" where
  "DiscoverLocal build fetch network_of p =
     (if \<not> IsLocal p then Inr False
      else let url = RPCURL p @ ''/status'' in
        case build url of
          Some x \<Rightarrow> Inl (''build status request: '' @ x)
        | None \<Rightarrow>
       (case fetch url of
          None \<Rightarrow> Inr False
        | Some (status, body) \<Rightarrow>
            if status \<noteq> 200 then Inr False
            else case network_of body of
              Inl x \<Rightarrow> Inl (''decode status: '' @ x)
            | Inr network \<Rightarrow> Inr (network = ChainID p)))"

lemma DiscoverLocal_local: "DiscoverLocal build fetch network_of p = Inr True \<Longrightarrow>
    ChainID p = ''dev'' \<and> (\<exists>body. fetch (RPCURL p @ ''/status'') = Some (200, body) \<and> network_of body = Inr ''dev'')"
  by (auto simp: DiscoverLocal_def IsLocal_def Let_def split: if_splits option.splits sum.splits)

subsection \<open>Lemmas\<close>

lemma parse_flag_pair:
  assumes "name \<in> set flag_names"
  shows "parse_flags ((''--'' @ name) # v # rest) opt = parse_flags rest (set_flag name v opt)"
proof -
  have "flag_word (''--'' @ name) \<and> strip_dashes (''--'' @ name) = name \<and> hd name \<notin> {CHR ''-'', CHR ''=''} \<and> split_flag name = (name, None)"
    using assms by (auto simp: flag_names_def flag_word_def strip_dashes_def split_flag_def HasPrefix_def)
  then show ?thesis using assms by simp
qed

lemma parse_add_argv:
  assumes "ValidProfileName name"
  shows "parseProfileAddArgs (add_argv name p) =
     Inr (name, \<lparr>op_FromGnoweb = [], op_RPC = RPCURL p, op_ChainID = ChainID p, op_Master = [], op_IndexerURL = TxIndexerURL p\<rparr>)"
proof -
  have "name \<noteq> []" "hd name \<noteq> CHR ''-''"
    using assms ValidProfileName_no_flag ValidProfileName_word by (auto simp: shell_word_def)
  then have "\<not> HasPrefix name ''-''" by (cases name) (auto simp: HasPrefix_def)
  moreover have "parse_flags (tl (add_argv name p)) no_opts =
      Inr \<lparr>op_FromGnoweb = [], op_RPC = RPCURL p, op_ChainID = ChainID p, op_Master = [], op_IndexerURL = TxIndexerURL p\<rparr>"
    using parse_flag_pair [of "''rpc''"] parse_flag_pair [of "''chain-id''"] parse_flag_pair [of "''indexer-url''"]
    by (simp add: add_argv_def flag_names_def set_flag_def no_opts_def del: parse_flags.simps(2))
  ultimately show ?thesis by (simp add: parseProfileAddArgs_def add_argv_def)
qed

text \<open>A printed command with its words and what the program makes of them.\<close>

definition adds_profile :: "profile_cli \<Rightarrow> string \<Rightarrow> string \<Rightarrow> Profile \<Rightarrow> bool" where
  "adds_profile cli cmd name p \<longleftrightarrow>
     (\<exists>argv opt. shell_words cmd = Some ([''gnomcp'', ''profile'', ''add''] @ argv) \<and> parseProfileAddArgs argv = Inr (name, opt) \<and>
        opts_endpoint cli opt = Inr (RPCURL p, ChainID p) \<and> opts_profile opt (RPCURL p) (ChainID p) = p)"

lemma persist_command_adds:
  assumes "ValidProfileName name" "ValidRPCURL (RPCURL p)" "ChainIDValid (ChainID p)" "TxIndexerURL p \<noteq> [] \<longrightarrow> ValidRPCURL (TxIndexerURL p)"
  shows "adds_profile cli (persist_command name p) name
     (empty_profile\<lparr>RPCURL := RPCURL p, ChainID := ChainID p, TxIndexerURL := TxIndexerURL p\<rparr>)"
proof -
  let ?opt = "\<lparr>op_FromGnoweb = [], op_RPC = RPCURL p, op_ChainID = ChainID p, op_Master = [], op_IndexerURL = TxIndexerURL p\<rparr>"
  have "RPCURL p \<noteq> []" "ChainID p \<noteq> []" using ValidRPCURL_word [OF assms(2)] ChainIDValid_word [OF assms(3)] by (auto simp: shell_word_def)
  then have "opts_endpoint cli ?opt = Inr (RPCURL p, ChainID p)" by (simp add: opts_endpoint_def)
  moreover have "opts_profile ?opt (RPCURL p) (ChainID p) = empty_profile\<lparr>RPCURL := RPCURL p, ChainID := ChainID p, TxIndexerURL := TxIndexerURL p\<rparr>"
    by (simp add: opts_profile_def empty_profile_def)
  ultimately show ?thesis
    using persist_command_words [OF assms] parse_add_argv [OF assms(1), of p] unfolding adds_profile_def by (auto simp: empty_profile_def)
qed

lemma add_command_persist: "add_command name rpc chainID = persist_command name (empty_profile\<lparr>RPCURL := rpc, ChainID := chainID\<rparr>)"
  by (simp add: persist_command_def empty_profile_def)

lemma connectHandler_Inr:
  assumes "connectHandler lb a = Inr r"
  shows "\<exists>url c name. StringArg a ''gnoweb_url'' = Inr url \<and> Discover lb url = Inr c \<and> r = connect_result lb name c \<and>
     ValidProfileName name \<and> ValidRPCURL (gw_RPC c) \<and> ChainIDValid (gw_ChainID c)"
  using assms unfolding connectHandler_def Let_def by (auto split: sum.splits if_splits)

lemma WriteFile_None:
  assumes "WriteFile cli flt fs ps = (fs', None)" "globalProfilePath (pc_home cli) = (d, n)" "n \<noteq> flt_tmp flt"
  shows "\<exists>b. pc_encode cli ps = Inr b \<and> fget fs' d n = Some b \<and>
     (pc_keys cli ps \<noteq> [] \<longrightarrow>
        Validate (al_url (pc_admin cli)) (al_duration (pc_admin cli)) (al_bech32 (pc_admin cli)) (pc_keys cli ps) ps = None)"
  using assms atomic.success [OF assms(3), of fs d]
  by (auto simp: WriteFile_def Let_def split: option.splits sum.splits prod.splits if_splits)

lemma WriteFile_Some:
  assumes "WriteFile cli flt fs ps = (fs', Some x)" "globalProfilePath (pc_home cli) = (d, n)" "n \<noteq> flt_tmp flt" "x \<noteq> WriteFailed SyncDirErr"
  shows "fget fs' d n = fget fs d n"
  using assms atomic.failure [OF assms(3), of fs d]
  by (auto simp: WriteFile_def Let_def split: option.splits sum.splits prod.splits if_splits)

subsection \<open>Properties\<close>


definition demo_cli :: profile_cli where
  "demo_cli = \<lparr>pc_admin = demo_admin, pc_home = None,
     pc_toml = (\<lambda>b. Inr ([''mine'' \<mapsto> demo_added], [])), 
     pc_encode = (\<lambda>ps. if ps = [''mine'' \<mapsto> demo_added] then Inr ''toml'' else Inl ''other''), pc_keys = (\<lambda>ps. [''mine'']),
     pc_open_error = None, pc_project = FileMissing, pc_text = (\<lambda>x. [])\<rparr>"



definition demo_opts :: profileAddOpts where
  "demo_opts = \<lparr>op_FromGnoweb = [], op_RPC = ''http://127.0.0.1:26657'', op_ChainID = ''dev'', op_Master = [], op_IndexerURL = []\<rparr>"

lemma demo_profile_add: "snd (profileAdd demo_cli (no_faults ''t'') Map.empty ''mine'' demo_opts) = None"
proof -
  have o: "opts_profile demo_opts ''http://127.0.0.1:26657'' ''dev'' = demo_added"
    by (simp add: opts_profile_def demo_opts_def demo_added_def empty_profile_def)
  have "Validate (al_url demo_admin) (al_duration demo_admin) (al_bech32 demo_admin) [''mine''] [''mine'' \<mapsto> demo_added] = None"
    using add_checks_None(4) [OF demo_checks] by (simp add: Validate_None)
  then have "snd (WriteFile demo_cli (no_faults ''t'') Map.empty [''mine'' \<mapsto> demo_added]) = None"
    by (simp add: WriteFile_def demo_cli_def globalProfilePath_def WriteFileAtomic_def writeTemp_def no_faults_def syncDir_def Let_def)
  moreover have "loadGlobal demo_cli Map.empty = Inr Map.empty"
    by (simp add: loadGlobal_def open_global_def demo_cli_def globalProfilePath_def fget_def entries_def)
  moreover have "\<not> isReservedName ''mine''" by (simp add: isReservedName_def BuiltinProfiles_def)
  moreover have "opts_endpoint demo_cli demo_opts = Inr (''http://127.0.0.1:26657'', ''dev'')" by (simp add: opts_endpoint_def demo_opts_def)
  ultimately show ?thesis by (simp add: profileAdd_def o)
qed


end
