(* ===== verification/Indexer.thy ===== *)
theory Indexer
  imports Readtools
begin

section \<open>The tx-indexer: internal/indexer graphql.go and internal/tools/indexer\<close>

text \<open>
  A GraphQL client for the transaction log of a realm, and the two tools over it. The endpoint is
  configured per profile and may be anyone's plain-http server: its answer is read up to a bound,
  decoded, and reaches the model inside the envelope of \<open>Untrusted\<close> only. The state is the list of
  requests sent.
\<close>

subsection \<open>Data\<close>

record TxEvent =
  tx_Hash :: string
  tx_Height :: int64
  tx_Time :: time
  tx_Kind :: string
  tx_Caller :: string
  tx_Func :: string
  tx_Args :: "string list"

record gqlMessageValue =
  gv_Typename :: string
  gv_Caller :: string
  gv_Func :: string
  gv_Args :: "string list"
  gv_Creator :: string

record gqlTxMessage =
  gm_TypeURL :: string
  gm_Value :: gqlMessageValue

record gqlTransaction =
  gt_Hash :: string
  gt_BlockHeight :: int64
  gt_Messages :: "gqlTxMessage list"

text \<open>
  \<open>gq_marshal\<close> encodes a query with its variables, \<open>gq_build\<close> is the error of building a request,
  \<open>gq_post\<close> the answer to the requests sent so far and this one, \<open>gq_envelope\<close> decodes the data and
  the messages of the errors, \<open>gq_data\<close> the transactions; \<open>gq_rfc3339\<close> parses a time and \<open>gq_date\<close>
  prints one.
\<close>

type_synonym request_log = "(string \<times> bytes) list"

record gql_lib =
  gq_marshal :: "string \<Rightarrow> json \<Rightarrow> string + bytes"
  gq_build :: "string \<Rightarrow> string option"
  gq_post :: "request_log \<Rightarrow> string + (int \<times> bytes)"
  gq_envelope :: "bytes \<Rightarrow> string + (bytes \<times> string list)"
  gq_data :: "bytes \<Rightarrow> string + gqlTransaction list"
  gq_rfc3339 :: "string \<Rightarrow> string + time"
  gq_date :: "time \<Rightarrow> string"

subsection \<open>Transport\<close>

definition maxRespBytes :: nat where "maxRespBytes = 4 * 2 ^ 20"

definition graphql_do :: "gql_lib \<Rightarrow> string \<Rightarrow> string \<Rightarrow> json \<Rightarrow> request_log \<Rightarrow> request_log \<times> (string + gqlTransaction list)" where
  "graphql_do g url qtext vars h =
     (case gq_marshal g qtext vars of
        Inl x \<Rightarrow> (h, Inl (''marshal: '' @ x))
      | Inr body \<Rightarrow>
     (case gq_build g url of
        Some x \<Rightarrow> (h, Inl (''build request: '' @ x))
      | None \<Rightarrow>
          (let h1 = h @ [(url, body)] in
           case gq_post g h1 of
             Inl x \<Rightarrow> (h1, Inl (''error_unavailable: indexer unreachable: '' @ x @ '' (retry later)''))
           | Inr (status, answer) \<Rightarrow>
          if status \<noteq> 200 then (h1, Inl (''indexer returned '' @ show_int status))
          else case gq_envelope g (take maxRespBytes answer) of
             Inl x \<Rightarrow> (h1, Inl (''decode envelope: '' @ x))
           | Inr (data, errors) \<Rightarrow>
          if errors \<noteq> [] then (h1, Inl (''graphql error: '' @ hd errors))
          else if data = [] then
            (h1, Inl (''indexer response has no \"data\" field: '' @ url @ '' does not look like a GraphQL endpoint'' @ dash @
               ''tx-indexer serves GraphQL at /graphql/query, check the profile's indexer URL includes that path''))
          else case gq_data g data of
             Inl x \<Rightarrow> (h1, Inl (''unmarshal data: '' @ x))
           | Inr txs \<Rightarrow> (h1, Inr txs))))"

subsection \<open>Queries\<close>

definition transactionsQuery :: string where
  "transactionsQuery = nl @ Join
     [''query Transactions($filter: TransactionFilter!) {'',
      ''  transactions(filter: $filter) {'',
      ''    hash'',
      ''    block_height'',
      ''    messages {'',
      ''      typeUrl'',
      ''      route'',
      ''      value {'',
      ''        __typename'',
      ''        ... on MsgCall {'',
      ''          caller'',
      ''          pkg_path'',
      ''          func'',
      ''          args'',
      ''        }'',
      ''        ... on MsgAddPackage {'',
      ''          creator'',
      ''          package { path }'',
      ''        }'',
      ''        ... on MsgRun {'',
      ''          caller'',
      ''          package { path }'',
      ''        }'',
      ''      }'',
      ''    }'',
      ''  }'',
      ''}''] nl"

text \<open>A transaction matches when one of its messages calls, deploys or runs the realm.\<close>

definition vm_filter :: "string \<Rightarrow> json \<Rightarrow> json" where
  "vm_filter kind param = JObj [(''route'', JStr ''vm''), (''vm_param'', JObj [(kind, param)])]"

definition history_vars :: "string \<Rightarrow> json" where
  "history_vars realm =
     JObj [(''filter'', JObj [(''message'', JArr
       [vm_filter ''exec'' (JObj [(''pkg_path'', JStr realm)]),
        vm_filter ''add_package'' (JObj [(''package'', JObj [(''path'', JStr realm)])]),
        vm_filter ''run'' (JObj [(''package'', JObj [(''path'', JStr realm)])])])])]"

text \<open>The first message of a transaction describes it.\<close>

definition populateFromMessage :: "gqlTxMessage \<Rightarrow> TxEvent \<Rightarrow> TxEvent" where
  "populateFromMessage msg ev =
     (let v = gm_Value msg in
      if gv_Typename v = ''MsgCall'' then
        ev\<lparr>tx_Kind := ''MsgCall'', tx_Caller := gv_Caller v, tx_Func := gv_Func v, tx_Args := gv_Args v\<rparr>
      else if gv_Typename v = ''MsgAddPackage'' then ev\<lparr>tx_Kind := ''MsgAddPackage'', tx_Caller := gv_Creator v\<rparr>
      else if gv_Typename v = ''MsgRun'' then ev\<lparr>tx_Kind := ''MsgRun'', tx_Caller := gv_Caller v\<rparr>
      else if gv_Typename v = ''BankMsgSend'' then ev\<lparr>tx_Kind := ''BankMsgSend''\<rparr>
      else ev\<lparr>tx_Kind := gm_TypeURL msg\<rparr>)"

definition toTxEvent :: "gqlTransaction \<Rightarrow> TxEvent" where
  "toTxEvent tx =
     (let ev = \<lparr>tx_Hash = gt_Hash tx, tx_Height = gt_BlockHeight tx, tx_Time = 0, tx_Kind = [], tx_Caller = [], tx_Func = [], tx_Args = []\<rparr>
      in case gt_Messages tx of [] \<Rightarrow> ev | m # ms \<Rightarrow> populateFromMessage m ev)"

definition toTxEvents :: "gqlTransaction list \<Rightarrow> TxEvent list" where
  "toTxEvents txs = map toTxEvent txs"

definition History :: "gql_lib \<Rightarrow> string \<Rightarrow> string \<Rightarrow> request_log \<Rightarrow> request_log \<times> (string + TxEvent list)" where
  "History g url realm h =
     (case graphql_do g url transactionsQuery (history_vars realm) h of
        (h1, Inl x) \<Rightarrow> (h1, Inl x)
      | (h1, Inr txs) \<Rightarrow> (h1, Inr (toTxEvents txs)))"

definition runtime_event :: "TxEvent \<Rightarrow> bool" where
  "runtime_event e \<longleftrightarrow> tx_Kind e = ''MsgCall'' \<or> tx_Kind e = ''MsgRun''"

definition Activity ::
  "gql_lib \<Rightarrow> string \<Rightarrow> string \<Rightarrow> time option \<Rightarrow> time option \<Rightarrow> request_log \<Rightarrow> request_log \<times> (string + TxEvent list)" where
  "Activity g url realm since until h =
     (if since \<noteq> None \<or> until \<noteq> None then
        (h, Inl ''error_unavailable: time filtering not supported by current indexer schema (no time field on Transaction)'')
      else case History g url realm h of
        (h1, Inl x) \<Rightarrow> (h1, Inl x)
      | (h1, Inr all) \<Rightarrow> (h1, Inr (filter runtime_event all)))"

subsection \<open>gno\_history and gno\_activity\<close>

text \<open>The profiles a schema lists: those with an indexer.\<close>

definition indexer_profile_arg :: "server \<Rightarrow> string list \<times> string option \<times> bool" where
  "indexer_profile_arg s =
     (let ps = server_schema s; has = (\<lambda>n. case server_profile s n of None \<Rightarrow> False | Some p \<Rightarrow> TxIndexerURL p \<noteq> [])
      in (filter has (psc_Enum ps), if psc_Default ps \<noteq> [] \<and> has (psc_Default ps) then Some (psc_Default ps) else None, psc_Required ps))"

definition event_line :: "gql_lib \<Rightarrow> TxEvent \<Rightarrow> string" where
  "event_line g e =
     (if IsZero (tx_Time e) then ''- height '' @ show_int (tx_Height e)
      else ''- '' @ gq_date g (tx_Time e) @ '' @ height '' @ show_int (tx_Height e)) @
     '' ('' @ tx_Hash e @ '')  kind='' @ tx_Kind e @
     (if tx_Caller e \<noteq> [] then ''  caller='' @ tx_Caller e else []) @ (if tx_Func e \<noteq> [] then ''  func='' @ tx_Func e else []) @ nl"

definition formatEvents :: "gql_lib \<Rightarrow> TxEvent list \<Rightarrow> string" where
  "formatEvents g events =
     (if events = [] then ''No transactions found for this realm.'' else concat (map (event_line g) events))"

definition no_indexer :: "env \<Rightarrow> string \<Rightarrow> tool_error" where
  "no_indexer e profile = PlainError (''profile '' @ en_quote e profile @ '' has no tx-indexer-url configured'')"

definition realm_arg :: "env \<Rightarrow> args \<Rightarrow> tool_error + string" where
  "realm_arg e a =
     bindS (arg e StringArg a ''realm'') (\<lambda>realm.
       if realm = [] then Inl (PlainError ''realm: required argument is missing'') else Inr realm)"

text \<open>\<open>resolve\<close> gives the endpoint of a profile's client.\<close>

definition historyHandler ::
  "env \<Rightarrow> gql_lib \<Rightarrow> (string \<Rightarrow> string option) \<Rightarrow> args \<Rightarrow> request_log \<Rightarrow> request_log \<times> (tool_error + tool_result)" where
  "historyHandler e g resolve a h =
     (case bindS (realm_arg e a) (\<lambda>realm. bindS (arg e StringArg a ''profile'') (\<lambda>profile. Inr (realm, profile))) of
        Inl err \<Rightarrow> (h, Inl err)
      | Inr (realm, profile) \<Rightarrow>
     (case resolve profile of
        None \<Rightarrow> (h, Inl (no_indexer e profile))
      | Some url \<Rightarrow>
     (case History g url realm h of
        (h1, Inl x) \<Rightarrow> (h1, Inl (PlainError (''gno_history: '' @ x)))
      | (h1, Inr events) \<Rightarrow>
          (h1, Inr (text_result (fst (Wrapped (en_quote e) (formatEvents g events) [] ''history'' realm)) [])))))"

definition time_arg :: "env \<Rightarrow> gql_lib \<Rightarrow> args \<Rightarrow> string \<Rightarrow> tool_error + time option" where
  "time_arg e g a name =
     bindS (arg e StringArg a name) (\<lambda>v.
       if v = [] then Inr None
       else case gq_rfc3339 g v of
         Inl x \<Rightarrow> Inl (PlainError (''invalid '' @ [CHR 0x27] @ name @ [CHR 0x27] @ '' (must be RFC3339): '' @ x))
       | Inr t \<Rightarrow> Inr (Some t))"

definition activity_args :: "env \<Rightarrow> gql_lib \<Rightarrow> args \<Rightarrow> tool_error + string \<times> time option \<times> time option \<times> string" where
  "activity_args e g a =
     bindS (realm_arg e a) (\<lambda>realm. bindS (time_arg e g a ''since'') (\<lambda>since. bindS (time_arg e g a ''until'') (\<lambda>until.
     bindS (arg e StringArg a ''profile'') (\<lambda>profile. Inr (realm, since, until, profile)))))"

definition activityHandler ::
  "env \<Rightarrow> gql_lib \<Rightarrow> (string \<Rightarrow> string option) \<Rightarrow> args \<Rightarrow> request_log \<Rightarrow> request_log \<times> (tool_error + tool_result)" where
  "activityHandler e g resolve a h =
     (case activity_args e g a of
        Inl err \<Rightarrow> (h, Inl err)
      | Inr (realm, since, until, profile) \<Rightarrow>
     (case resolve profile of
        None \<Rightarrow> (h, Inl (no_indexer e profile))
      | Some url \<Rightarrow>
     (case Activity g url realm since until h of
        (h1, Inl x) \<Rightarrow> (h1, Inl (PlainError (''gno_activity: '' @ x)))
      | (h1, Inr events) \<Rightarrow>
          (h1, Inr (text_result (fst (Wrapped (en_quote e) (formatEvents g events) [] ''activity'' realm)) [])))))"

subsection \<open>Lemmas\<close>

text \<open>A query asks once, at its endpoint, for the realm; what fails before that asks nothing.\<close>

definition asked :: "gql_lib \<Rightarrow> string \<Rightarrow> string \<Rightarrow> request_log \<Rightarrow> request_log \<Rightarrow> bool" where
  "asked g url realm h h' \<longleftrightarrow>
     (\<exists>body. gq_marshal g transactionsQuery (history_vars realm) = Inr body \<and> h' = h @ [(url, body)])"

lemma graphql_do_asks:
  assumes "graphql_do g url qtext vars h = (h', res)"
  shows "(h' = h \<and> isl res) \<or> (\<exists>body. gq_marshal g qtext vars = Inr body \<and> h' = h @ [(url, body)])"
  using assms by (auto simp: graphql_do_def Let_def split: sum.splits option.splits prod.splits if_splits)

lemma History_asks:
  assumes "History g url realm h = (h', res)"
  shows "(h' = h \<and> isl res) \<or> asked g url realm h h'"
proof -
  obtain h1 r where d: "graphql_do g url transactionsQuery (history_vars realm) h = (h1, r)" by force
  then have "h' = h1" "isl res = isl r" using assms by (auto simp: History_def split: sum.splits)
  with graphql_do_asks [OF d] show ?thesis unfolding asked_def by auto
qed

lemma Activity_asks:
  assumes "Activity g url realm since until h = (h', res)"
  shows "(h' = h \<and> isl res) \<or> asked g url realm h h'"
proof (cases "since = None \<and> until = None")
  case True
  obtain h1 r where d: "History g url realm h = (h1, r)" by force
  then have "h' = h1" "isl res = isl r" using assms True by (auto simp: Activity_def split: sum.splits)
  with History_asks [OF d] show ?thesis by auto
qed (use assms in \<open>auto simp: Activity_def\<close>)

text \<open>
  Only the first message of a transaction is looked at, so a call of the realm behind another message
  is no activity.
\<close>

lemma activity_skips_later_message:
  assumes "gt_Messages tx = m # ms" "gv_Typename (gm_Value m) = ''BankMsgSend''"
  shows "filter runtime_event (toTxEvents (txs @ [tx])) = filter runtime_event (toTxEvents txs)"
  using assms by (simp add: toTxEvents_def toTxEvent_def populateFromMessage_def runtime_event_def)

lemma formatEvents_order: "formatEvents g (toTxEvents (txs @ tx # txs')) =
    concat (map (event_line g) (toTxEvents txs)) @ event_line g (toTxEvent tx) @ concat (map (event_line g) (toTxEvents txs'))"
  by (simp add: formatEvents_def toTxEvents_def)

subsection \<open>Properties\<close>


definition demo_gql :: gql_lib where
  "demo_gql = \<lparr>gq_marshal = (\<lambda>q v. Inr ''body''), gq_build = (\<lambda>u. None), gq_post = (\<lambda>h. Inr (200, ''answer'')),
     gq_envelope = (\<lambda>b. Inr (''data'', [])), gq_data = (\<lambda>d. Inr []), gq_rfc3339 = (\<lambda>s. Inl []), gq_date = (\<lambda>t. [])\<rparr>"

definition demo_realm_args :: args where
  "demo_realm_args = [''realm'' \<mapsto> JStr ''r/a'', ''profile'' \<mapsto> JStr ''dev'']"

lemma demo_history_run: "\<exists>r. historyHandler demo_env demo_gql (\<lambda>p. Some ''http://i'') demo_realm_args [] = ([(''http://i'', ''body'')], Inr r)"
proof -
  have "History demo_gql ''http://i'' ''r/a'' [] = ([(''http://i'', ''body'')], Inr [])"
    by (simp add: History_def graphql_do_def demo_gql_def toTxEvents_def)
  then show ?thesis
    by (simp add: historyHandler_def realm_arg_def bindS_def arg_def StringArg_def demo_realm_args_def)
qed


end
