(* ===== verification/Agentfaucet.thy ===== *)
theory Agentfaucet
  imports Faucet
begin

section \<open>The faucet command: cmd/agentfaucet main.go and telemetry.go\<close>

text \<open>
  The command builds the service of \<open>Faucet\<close> from its flags, refuses to start without what it needs,
  polls the funding balance, exports gauges, serves and shuts down. Parsing the flags, building signers and clients,
  the exporter and the listeners are library calls: parameters that answer with an error or succeed.
\<close>

subsection \<open>Flags\<close>

record faucet_flags =
  ff_RpcURL :: string
  ff_ChainID :: string
  ff_Mnemonic :: string
  ff_Listen :: string
  ff_MetricsAddr :: string
  ff_TrustedProxies :: int
  ff_Grant :: int64
  ff_GasWanted :: int64
  ff_PerAddrCooldown :: duration
  ff_PerIPMax :: int
  ff_PerIPWindow :: duration
  ff_DailyCap :: int64
  ff_DripBurst :: int64
  ff_DripRate :: int64
  ff_MinFundingBalance :: int64

definition default_flags :: faucet_flags where
  "default_flags =
     \<lparr>ff_RpcURL = [], ff_ChainID = [], ff_Mnemonic = [], ff_Listen = ''127.0.0.1:8590'', ff_MetricsAddr = [],
      ff_TrustedProxies = 0, ff_Grant = 1000000000, ff_GasWanted = 5000000, ff_PerAddrCooldown = 24 * nhour,
      ff_PerIPMax = 60, ff_PerIPWindow = nhour, ff_DailyCap = 100000000000, ff_DripBurst = 0, ff_DripRate = 0,
      ff_MinFundingBalance = 0\<rparr>"

definition balanceTTL :: duration where "balanceTTL = 30 * nsecond"

subsection \<open>Start\<close>

text \<open>
  \<open>lb_signer\<close> is \<open>SignerFromBip39\<close>, \<open>lb_info\<close> the address of a signer, \<open>lb_rpc\<close> the error of building the
  client, \<open>lb_resource\<close>, \<open>lb_exporter\<close>, \<open>lb_instrument\<close> (by name) and \<open>lb_callback\<close> those of the metrics
  library, \<open>lb_metrics_listen\<close> that of binding the metrics address. \<open>None\<close> is success.
\<close>

record 'k faucet_lib =
  lb_signer :: "string \<Rightarrow> string \<Rightarrow> string + 'k"
  lb_info :: "'k \<Rightarrow> string + bytes"
  lb_rpc :: "string \<Rightarrow> string option"
  lb_resource :: "string option"
  lb_exporter :: "string option"
  lb_instrument :: "string \<Rightarrow> string option"
  lb_callback :: "string option"
  lb_metrics_listen :: "string \<Rightarrow> string option"

record started =
  st_dispenser :: gnoclientDispenser
  st_limiter :: limiter
  st_faucet :: faucet
  st_metrics :: bool
  st_listen :: string

text \<open>The message of the fatal log line and its error.\<close>

type_synonym fatal = "string \<times> string"

definition limiter_cfg :: "faucet_flags \<Rightarrow> LimiterCfg" where
  "limiter_cfg fl =
     \<lparr>cfg_PerAddrWindow = ff_PerAddrCooldown fl, cfg_PerAddrMax = 1, cfg_PerIPWindow = ff_PerIPWindow fl,
      cfg_PerIPMax = ff_PerIPMax fl, cfg_DailyCapUgnot = ff_DailyCap fl, cfg_GrantUgnot = ff_Grant fl,
      cfg_DripBurstUgnot = ff_DripBurst fl, cfg_DripRateUgnotPerSec = ff_DripRate fl\<rparr>"

definition faucet_options :: "faucet_flags \<Rightarrow> option_fn list" where
  "faucet_options fl =
     [WithTrustedProxies (ff_TrustedProxies fl)] @
     (if ff_MinFundingBalance fl > 0 then [WithBalanceFloor (ff_MinFundingBalance fl)] else [])"

text \<open>The first error of a list of library calls.\<close>

fun first_failure :: "string option list \<Rightarrow> string option" where
  "first_failure [] = None"
| "first_failure (None # es) = first_failure es"
| "first_failure (Some x # es) = Some x"

definition newOtelMetrics :: "'k faucet_lib \<Rightarrow> string option" where
  "newOtelMetrics lb = lb_instrument lb ''faucet.fund.requests''"

definition setupTelemetry :: "'k faucet_lib \<Rightarrow> string option" where
  "setupTelemetry lb = first_failure [lb_resource lb, lb_exporter lb, newOtelMetrics lb]"

definition gauge_errors :: "'k faucet_lib \<Rightarrow> string option" where
  "gauge_errors lb =
     first_failure (map (lb_instrument lb)
       [''faucet.funding.balance.ugnot'', ''faucet.drip.tokens.available'', ''faucet.daily.cap.remaining.ugnot''] @ [lb_callback lb])"

definition start_telemetry :: "'k faucet_lib \<Rightarrow> faucet_flags \<Rightarrow> fatal option" where
  "start_telemetry lb fl =
     (if ff_MetricsAddr fl = [] then None
      else case setupTelemetry lb of
        Some x \<Rightarrow> Some (''setup telemetry'', x)
      | None \<Rightarrow>
     (case gauge_errors lb of
        Some x \<Rightarrow> Some (''register gauges'', x)
      | None \<Rightarrow> map_option (\<lambda>x. (''metrics listen'', x)) (lb_metrics_listen lb (ff_MetricsAddr fl))))"

text \<open>\<open>env\<close> is the value of \<open>GNOMCP_FAUCET_MNEMONIC\<close>.\<close>

definition faucet_start :: "'k faucet_lib \<Rightarrow> (rat \<Rightarrow> rat) \<Rightarrow> string \<Rightarrow> faucet_flags \<Rightarrow> fatal + started" where
  "faucet_start lb rnd env fl =
     (let mnemonic = (if ff_Mnemonic fl = [] then env else ff_Mnemonic fl) in
      if ff_RpcURL fl = [] \<or> ff_ChainID fl = [] \<or> mnemonic = [] then Inl (''missing required config'', [])
      else if ff_GasWanted fl \<le> 0 then Inl (''gas-wanted must be positive'', [])
      else case lb_signer lb mnemonic (ff_ChainID fl) of
        Inl x \<Rightarrow> Inl (''build signer'', x)
      | Inr signer \<Rightarrow>
     (case lb_info lb signer of
        Inl x \<Rightarrow> Inl (''signer info'', x)
      | Inr from \<Rightarrow>
     (case lb_rpc lb (ff_RpcURL fl) of
        Some x \<Rightarrow> Inl (''rpc client'', x)
      | None \<Rightarrow>
     (case start_telemetry lb fl of
        Some err \<Rightarrow> Inl err
      | None \<Rightarrow>
          Inr \<lparr>st_dispenser = NewGnoclientDispenser from (ff_GasWanted fl),
               st_limiter = NewLimiter rnd (limiter_cfg fl),
               st_faucet = New (ff_ChainID fl) (ff_Grant fl) (faucet_options fl),
               st_metrics = (ff_MetricsAddr fl \<noteq> []), st_listen = ff_Listen fl\<rparr>))))"

subsection \<open>Serving\<close>

text \<open>
  \<open>main\<close> prints its version or starts. A started faucet ends with the first of two events: the listener
  failed (a closed server is not a failure), which is fatal, or a signal, after which it shuts down and an error of
  that is only logged. The log lines written at the end are the result.
\<close>

definition agentfaucet_main ::
  "'k faucet_lib \<Rightarrow> (rat \<Rightarrow> rat) \<Rightarrow> string \<Rightarrow> (string list \<Rightarrow> faucet_flags) \<Rightarrow> string \<Rightarrow> string list \<Rightarrow> string + (fatal + started)" where
  "agentfaucet_main lb rnd env parse_flags version argv =
     (case argv of
        [] \<Rightarrow> Inr (faucet_start lb rnd env (parse_flags []))
      | a # rest \<Rightarrow> if a = ''version'' then Inl version else Inr (faucet_start lb rnd env (parse_flags argv)))"

datatype serve_event = ServeError string | StopSignal "string option"

definition faucet_end :: "serve_event \<Rightarrow> fatal + fatal list" where
  "faucet_end ev =
     (case ev of
        ServeError x \<Rightarrow> Inl (''serve'', x)
      | StopSignal None \<Rightarrow> Inr [(''shutdown signal received'', [])]
      | StopSignal (Some x) \<Rightarrow> Inr [(''shutdown signal received'', []), (''graceful shutdown failed'', x)])"

text \<open>The metrics listener answers GET at one path.\<close>

definition metricsMux :: "string \<Rightarrow> string \<Rightarrow> bool" where
  "metricsMux verb path \<longleftrightarrow> verb \<in> {''GET'', ''HEAD''} \<and> path = ''/metrics''"

subsection \<open>Gauges\<close>

text \<open>A poll that fails leaves the last balance; before the first success it is -1.\<close>

definition unseeded :: int64 where "unseeded = -1"

definition poll_tick :: "(string + int64) \<Rightarrow> int64 \<Rightarrow> int64" where
  "poll_tick answer dst = (case answer of Inl x \<Rightarrow> dst | Inr v \<Rightarrow> v)"

definition pollBalance :: "(string + int64) list \<Rightarrow> int64 \<Rightarrow> int64" where
  "pollBalance answers dst = fold poll_tick answers dst"

record gauges =
  ga_Balance :: "int64 option"
  ga_DripTokens :: "rat option"
  ga_DailyCapRemaining :: int64

definition registerGauges :: "(rat \<Rightarrow> rat) \<Rightarrow> limiter \<Rightarrow> int64 \<Rightarrow> time \<Rightarrow> gauges" where
  "registerGauges rnd l balance now =
     (let s = Snapshot rnd l now
      in \<lparr>ga_Balance = (if balance \<ge> 0 then Some balance else None),
          ga_DripTokens = (if snap_DripEnabled s then Some (snap_DripTokens s) else None),
          ga_DailyCapRemaining = i64 (snap_DailyCapUgnot s - snap_DaySpentUgnot s)\<rparr>)"

text \<open>The counter of requests by outcome.\<close>

definition RecordOutcome :: "(outcome \<Rightarrow> nat) \<Rightarrow> outcome \<Rightarrow> (outcome \<Rightarrow> nat)" where
  "RecordOutcome counter out = counter(out := counter out + 1)"

subsection \<open>Lemmas\<close>

lemma faucet_start_Inr:
  assumes "faucet_start lb rnd env fl = Inr st"
  shows "ff_RpcURL fl \<noteq> [] \<and> ff_ChainID fl \<noteq> [] \<and> (ff_Mnemonic fl \<noteq> [] \<or> env \<noteq> []) \<and> 0 < ff_GasWanted fl \<and>
     st_limiter st = NewLimiter rnd (limiter_cfg fl) \<and>
     st_faucet st = New (ff_ChainID fl) (ff_Grant fl) (faucet_options fl)"
  using assms by (auto simp: faucet_start_def Let_def split: if_splits sum.splits option.splits)

lemma New_options: "f_grantUgnot (New chainID grant (faucet_options fl)) = grant"
    "f_chainID (New chainID grant (faucet_options fl)) = chainID"
    "f_hasBalance (New chainID grant (faucet_options fl)) \<longleftrightarrow> 0 < ff_MinFundingBalance fl"
    "0 < ff_MinFundingBalance fl \<Longrightarrow> f_minFundingUgnot (New chainID grant (faucet_options fl)) = ff_MinFundingBalance fl"
  by (simp_all add: New_def faucet_options_def)

lemma pollBalance_snoc: "pollBalance (xs @ [x]) dst = poll_tick x (pollBalance xs dst)"
  by (simp add: pollBalance_def)

text \<open>What a scrape reads off the limiter is what is left of the day.\<close>

lemma remaining_exact:
  assumes "fund_inv grant cap s" "fs_clock s \<le> now"
  shows "ga_DailyCapRemaining (registerGauges rnd (fs_lim s) b now) = cap - grant * int (day_outflow s (utc_day now))"
proof -
  let ?l = "fs_lim s" and ?gs = "outstanding s"
  have inv: "lim.budget_inv grant cap ?l ?gs (fs_clock s)" using assms(1) by (simp add: fund_inv_def)
  have ok: "lim_ok grant cap ?l" and gs: "\<forall>g \<in> set ?gs. g \<le> fs_clock s"
    and day: "case lim_day ?l of None \<Rightarrow> ?gs = [] | Some d \<Rightarrow> d \<le> utc_day (fs_clock s) \<and>
        (\<forall>g \<in> set ?gs. utc_day g \<le> d) \<and> lim.owed grant ?gs d = daySpent ?l"
    using inv unfolding lim.budget_inv_def by simp_all
  have g0: "max 0 grant = grant" using ok by (simp add: lim_ok_def)
  have clock: "utc_day (fs_clock s) \<le> utc_day now" using assms(2) by (rule utc_day_mono)
  have spent: "snap_DaySpentUgnot (Snapshot rnd ?l now) = grant * int (day_outflow s (utc_day now))"
  proof (cases "lim_day ?l = Some (utc_day now)")
    case True
    then have "lim.owed grant ?gs (utc_day now) = daySpent ?l" using day by simp
    then have "daySpent ?l = grant * int (day_outflow s (utc_day now))" unfolding lim.owed_def day_outflow_def by (simp add: g0)
    with True show ?thesis by (auto simp: Snapshot_def lim_day_def sameUTCDay_def split: if_splits)
  next
    case False
    have "filter (\<lambda>g. utc_day g = utc_day now) ?gs = []"
      using False day clock by (cases "lim_day ?l") (auto simp: filter_empty_conv)
    moreover have "snap_DaySpentUgnot (Snapshot rnd ?l now) = 0"
      using False by (auto simp: Snapshot_def lim_day_def sameUTCDay_def split: if_splits)
    ultimately show ?thesis by (simp add: day_outflow_def)
  qed
  have "grant * int (day_outflow s (utc_day now)) \<le> cap" by (rule fund_inv_cap [OF assms(1)])
  moreover have "0 \<le> grant * int (day_outflow s (utc_day now))" "cap \<le> MaxInt64" "snap_DailyCapUgnot (Snapshot rnd ?l now) = cap"
    using ok by (simp_all add: lim_ok_def Snapshot_def Let_def)
  ultimately show ?thesis using spent by (simp add: registerGauges_def Let_def i64_small)
qed

subsection \<open>Properties\<close>


definition demo_faucet_lib :: "unit faucet_lib" where
  "demo_faucet_lib = \<lparr>lb_signer = (\<lambda>m c. Inr ()), lb_info = (\<lambda>k. Inr ''from''), lb_rpc = (\<lambda>u. None),
     lb_resource = None, lb_exporter = None, lb_instrument = (\<lambda>n. None), lb_callback = None, lb_metrics_listen = (\<lambda>a. None)\<rparr>"

definition demo_flags :: faucet_flags where
  "demo_flags = default_flags\<lparr>ff_RpcURL := ''http://h'', ff_ChainID := ''dev'', ff_MinFundingBalance := 5\<rparr>"


end
