(* ===== verification/Sessionkeys.thy ===== *)
theory Sessionkeys
  imports Sessiontools
begin

section \<open>Session key pairs: internal/session keypair.go\<close>

text \<open>
  The ed25519 pair of a session: its generation, the two bech32 forms the user's wallet and the chain
  see, its signatures, and the adapter for gnoclient. The cryptography is a parameter; \<open>crypto_ok\<close>
  states what package \<open>crypto/ed25519\<close> documents.
\<close>

subsection \<open>Definitions\<close>

text \<open>
  \<open>cr_public\<close> is the public half of a private key, \<open>cr_amino\<close> the typed wire form of a tm2 public key,
  \<open>cr_bech32\<close> the encoding with a prefix. A panic is the text it carries.
\<close>

record ed_crypto =
  cr_generate :: "string + bytes \<times> bytes"
  cr_sign :: "bytes \<Rightarrow> bytes \<Rightarrow> bytes"
  cr_verify :: "bytes \<Rightarrow> bytes \<Rightarrow> bytes \<Rightarrow> bool"
  cr_public :: "bytes \<Rightarrow> bytes"
  cr_sha256 :: "bytes \<Rightarrow> bytes"
  cr_amino :: "bytes \<Rightarrow> bytes"
  cr_bech32 :: "string \<Rightarrow> bytes \<Rightarrow> string + string"

definition crypto_ok :: "ed_crypto \<Rightarrow> bool" where
  "crypto_ok c \<longleftrightarrow>
     (\<forall>pub priv. cr_generate c = Inr (pub, priv) \<longrightarrow>
        length pub = 32 \<and> length priv = 64 \<and> cr_public c priv = pub \<and> (\<forall>m. cr_verify c pub m (cr_sign c priv m)))"

record Keypair =
  ky_Pub :: bytes
  ky_Priv :: bytes

definition addrPrefix :: string where "addrPrefix = ''g''"
definition pubkeyPrefix :: string where "pubkeyPrefix = ''gpub''"
definition addrSize :: nat where "addrSize = 20"

definition NewKeypair :: "ed_crypto \<Rightarrow> string + Keypair" where
  "NewKeypair c =
     (case cr_generate c of
        Inl x \<Rightarrow> Inl (''session: generate ed25519 keypair: '' @ x)
      | Inr (pub, priv) \<Rightarrow> Inr \<lparr>ky_Pub = pub, ky_Priv = priv\<rparr>)"

text \<open>Copying into an array of 32 bytes cuts what is longer and pads with zeros.\<close>

definition TMPubKey :: "Keypair \<Rightarrow> bytes" where
  "TMPubKey kp = take 32 (ky_Pub kp) @ replicate (32 - length (ky_Pub kp)) (CHR 0x00)"

definition PubkeyBech32 :: "ed_crypto \<Rightarrow> Keypair \<Rightarrow> string + string" where
  "PubkeyBech32 c kp =
     (case cr_bech32 c pubkeyPrefix (cr_amino c (TMPubKey kp)) of
        Inl x \<Rightarrow> Inl (''session: bech32 encode pubkey: '' @ x) | Inr s \<Rightarrow> Inr s)"

definition Address :: "ed_crypto \<Rightarrow> Keypair \<Rightarrow> string + string" where
  "Address c kp =
     (case cr_bech32 c addrPrefix (take addrSize (cr_sha256 c (ky_Pub kp))) of
        Inl x \<Rightarrow> Inl (''session: bech32 encode address: '' @ x) | Inr s \<Rightarrow> Inr s)"

definition Sign :: "ed_crypto \<Rightarrow> Keypair \<Rightarrow> bytes \<Rightarrow> bytes" where
  "Sign c kp payload = cr_sign c (ky_Priv kp) payload"

definition Pubkey :: "Keypair \<Rightarrow> bytes" where
  "Pubkey kp = ky_Pub kp"

subsection \<open>The gnoclient adapter\<close>

record gnoclientSigner =
  gs_kp :: Keypair
  gs_chainID :: string

definition GnoclientSigner :: "Keypair \<Rightarrow> string \<Rightarrow> gnoclientSigner" where
  "GnoclientSigner kp chainID = \<lparr>gs_kp = kp, gs_chainID = chainID\<rparr>"

text \<open>The session address of the signature is left to the caller.\<close>

definition gnoclient_Sign :: "ed_crypto \<Rightarrow> lib \<Rightarrow> gnoclientSigner \<Rightarrow> utx \<Rightarrow> int \<Rightarrow> int \<Rightarrow> string + stx" where
  "gnoclient_Sign c l s tx accountNumber sequenceNumber =
     (case lib_sign_bytes l tx (gs_chainID s) accountNumber sequenceNumber of
        Inl x \<Rightarrow> Inl (''session/gnoclientSigner: build sign bytes: '' @ x)
      | Inr signBytes \<Rightarrow>
          Inr \<lparr>stx_tx = tx,
            stx_sigs = [\<lparr>sig_pubkey = TMPubKey (gs_kp s), sig_bytes = cr_sign c (ky_Priv (gs_kp s)) signBytes, sig_session = None\<rparr>]\<rparr>)"

record sessionKeyInfo =
  ki_Name :: string
  ki_PubKey :: bytes

definition gnoclient_Info :: "gnoclientSigner \<Rightarrow> sessionKeyInfo" where
  "gnoclient_Info s = \<lparr>ki_Name = ''gnomcp-session'', ki_PubKey = TMPubKey (gs_kp s)\<rparr>"

text \<open>What gno\_session\_propose stores and prints of a fresh pair.\<close>

definition proposed_keypair :: "ed_crypto \<Rightarrow> string + keypair" where
  "proposed_keypair c =
     (case NewKeypair c of
        Inl x \<Rightarrow> Inl x
      | Inr kp \<Rightarrow>
     (case Address c kp of
        Inl x \<Rightarrow> Inl x
      | Inr a \<Rightarrow>
     (case PubkeyBech32 c kp of
        Inl x \<Rightarrow> Inl x
      | Inr p \<Rightarrow> Inr \<lparr>kp_Address = a, kp_PubkeyBech32 = p, kp_priv = ky_Priv kp\<rparr>)))"

text \<open>
  \<open>signerAdapter\<close> of the session manager: it signs with the private key read back from disk, and refuses one
  of the wrong length instead of letting the library panic.
\<close>

definition privateKeySize :: nat where "privateKeySize = 64"

definition adapter_Pubkey :: "ed_crypto \<Rightarrow> bytes \<Rightarrow> bytes" where
  "adapter_Pubkey c priv = (if length priv \<noteq> privateKeySize then [] else cr_public c priv)"

definition adapter_Sign :: "ed_crypto \<Rightarrow> bytes \<Rightarrow> bytes \<Rightarrow> string + bytes" where
  "adapter_Sign c priv payload =
     (if length priv \<noteq> privateKeySize then Inl (''session: signerAdapter: invalid privkey length '' @ show_nat (length priv))
      else Inr (cr_sign c priv payload))"

text \<open>An environment whose session signatures are these.\<close>

definition with_crypto :: "ed_crypto \<Rightarrow> env \<Rightarrow> env" where
  "with_crypto c e = e\<lparr>en_pubkey := adapter_Pubkey c, en_ed25519 := adapter_Sign c\<rparr>"

text \<open>The outcome of signing: one verifying signature of the session, or no bytes to sign.\<close>

definition signed_by :: "ed_crypto \<Rightarrow> lib \<Rightarrow> string \<Rightarrow> Keypair \<Rightarrow> utx \<Rightarrow> session_account \<Rightarrow> addr \<Rightarrow> chain_error + stx \<Rightarrow> bool" where
  "signed_by c l chainID kp tx acc addr res \<longleftrightarrow>
     (case lib_sign_bytes l tx chainID (sac_AccountNumber acc) (sac_Sequence acc) of
        Inl x \<Rightarrow> res = Inl (SignErr x)
      | Inr sb \<Rightarrow> \<exists>sig. cr_verify c (ky_Pub kp) sb sig \<and>
          res = Inr \<lparr>stx_tx = tx, stx_sigs = [\<lparr>sig_pubkey = ky_Pub kp, sig_bytes = sig, sig_session = Some addr\<rparr>]\<rparr> \<and>
          gnoclient_Sign c l (GnoclientSigner kp chainID) tx (sac_AccountNumber acc) (sac_Sequence acc) =
            Inr \<lparr>stx_tx = tx, stx_sigs = [\<lparr>sig_pubkey = ky_Pub kp, sig_bytes = sig, sig_session = None\<rparr>]\<rparr>)"

subsection \<open>Lemmas\<close>

lemma TMPubKey_full: "length (ky_Pub kp) = 32 \<Longrightarrow> TMPubKey kp = ky_Pub kp"
  by (simp add: TMPubKey_def)

lemma NewKeypair_generated: "NewKeypair c = Inr kp \<Longrightarrow> cr_generate c = Inr (ky_Pub kp, ky_Priv kp)"
  by (auto simp: NewKeypair_def split: sum.splits)

lemma proposed_keypair_Inr:
  assumes "proposed_keypair c = Inr k"
  shows "\<exists>kp. NewKeypair c = Inr kp \<and> kp_priv k = ky_Priv kp \<and> Address c kp = Inr (kp_Address k) \<and> PubkeyBech32 c kp = Inr (kp_PubkeyBech32 k)"
  using assms by (auto simp: proposed_keypair_def split: sum.splits)

subsection \<open>Properties\<close>

text \<open>
  A session signs with the key it proposed. Take the pair a proposal stores, and later the signer the session
  manager makes of its private half. Its public key is the one whose bech32 forms the proposal printed: the address is
  the first 20 bytes of its hash. Every transaction it signs carries exactly one signature, under
  that public key and for the session, which verifies on the bytes the chain expects; signing
  never fails for the length of the key; and the gnoclient adapter gives the same signature but for the session address.
\<close>

theorem session_signature_verifies:
  assumes ok: "crypto_ok c" and k: "proposed_keypair c = Inr k" and sa: "sa_priv sa = kp_priv k"
  shows "\<exists>kp. NewKeypair c = Inr kp \<and> sn_Pubkey (session_signer (with_crypto c e) sa) = ky_Pub kp \<and>
     cr_bech32 c ''g'' (take 20 (cr_sha256 c (ky_Pub kp))) = Inr (kp_Address k) \<and>
     cr_bech32 c ''gpub'' (cr_amino c (ky_Pub kp)) = Inr (kp_PubkeyBech32 k) \<and>
     (\<forall>l chainID tx acc addr h.
        signed_by c l chainID kp tx acc addr (snd (signTxForSession l chainID tx (session_signer (with_crypto c e) sa) acc addr h)))"
proof -
  obtain kp where kp: "NewKeypair c = Inr kp" "kp_priv k = ky_Priv kp" "Address c kp = Inr (kp_Address k)" "PubkeyBech32 c kp = Inr (kp_PubkeyBech32 k)"
    using proposed_keypair_Inr [OF k] by blast
  let ?pub = "ky_Pub kp" and ?sg = "session_signer (with_crypto c e) sa"
  have g: "length ?pub = 32" "length (ky_Priv kp) = 64" "cr_public c (ky_Priv kp) = ?pub" "cr_verify c ?pub m (cr_sign c (ky_Priv kp) m)" for m
    using ok NewKeypair_generated [OF kp(1)] unfolding crypto_ok_def by blast+
  have sg: "sn_Pubkey ?sg = ?pub" "sn_Sign ?sg m = Inr (cr_sign c (ky_Priv kp) m)" for m
    using g(2,3) sa kp(2) by (simp_all add: session_signer_def with_crypto_def adapter_Pubkey_def adapter_Sign_def privateKeySize_def)
  have tm: "TMPubKey kp = ?pub" using g(1) by (rule TMPubKey_full)
  have "cr_bech32 c ''g'' (take 20 (cr_sha256 c ?pub)) = Inr (kp_Address k)" "cr_bech32 c ''gpub'' (cr_amino c ?pub) = Inr (kp_PubkeyBech32 k)"
    using kp(3,4) tm by (auto simp: Address_def PubkeyBech32_def addrPrefix_def pubkeyPrefix_def addrSize_def split: sum.splits)
  moreover have "signed_by c l chainID kp tx acc addr (snd (signTxForSession l chainID tx ?sg acc addr h))" for l chainID tx acc addr h
    using g(1,4) sg tm
    by (cases "lib_sign_bytes l tx chainID (sac_AccountNumber acc) (sac_Sequence acc)")
      (auto simp: signed_by_def signTxForSession_def PubKeyEd25519Size_def gnoclient_Sign_def GnoclientSigner_def bindE_def lift_sum_def
        ret_def failE_def)
  ultimately show ?thesis using kp(1) sg(1) by blast
qed

definition demo_crypto :: ed_crypto where
  "demo_crypto = \<lparr>cr_generate = Inr (replicate 32 (CHR ''p''), replicate 64 (CHR ''s'')), cr_sign = (\<lambda>k m. m), cr_verify = (\<lambda>p m s. m = s),
     cr_public = (\<lambda>k. replicate 32 (CHR ''p'')), cr_sha256 = id, cr_amino = id, cr_bech32 = (\<lambda>p b. Inr (p @ ''1'' @ b))\<rparr>"

lemma session_signature_verifies_witness:
  "\<exists>k kp. proposed_keypair demo_crypto = Inr k \<and>
     signed_by demo_crypto demo_lib ''dev'' kp \<lparr>tx_fee = (''ugnot'', 1), tx_gas = 1, tx_msgs = []\<rparr> demo_account ''g1s''
       (snd (signTxForSession demo_lib ''dev'' \<lparr>tx_fee = (''ugnot'', 1), tx_gas = 1, tx_msgs = []\<rparr> (session_signer (with_crypto demo_crypto demo_env) \<lparr>sa_addr = ''g1s'', sa_priv = kp_priv k\<rparr>)
          demo_account ''g1s'' []))"
proof -
  have "crypto_ok demo_crypto" by (simp add: crypto_ok_def demo_crypto_def)
  moreover obtain k where k: "proposed_keypair demo_crypto = Inr k"
    by (simp add: proposed_keypair_def NewKeypair_def Address_def PubkeyBech32_def demo_crypto_def)
  ultimately show ?thesis
    using session_signature_verifies [OF _ k, of "\<lparr>sa_addr = ''g1s'', sa_priv = kp_priv k\<rparr>" demo_env] by fastforce
qed

end
