(* ===== verification/Schemas.thy ===== *)
theory Schemas
  imports Indexer Sessiontools Profileadd
begin

section \<open>The input schemas of the tools: internal/tools/*/args.go and every InputSchema\<close>

text \<open>
  A tool publishes a JSON schema of its arguments, built from the profile table at registration: the
  properties in the order the code puts them, the required names, and no other argument. A schema is
  the list of its keys, a Go map of properties the list of its entries.
\<close>

subsection \<open>Building blocks\<close>

type_synonym schema_parts = "(string \<times> json) list \<times> string list"

text \<open>Assignment to a key of a map.\<close>

definition put_prop :: "string \<Rightarrow> json \<Rightarrow> schema_parts \<Rightarrow> schema_parts" where
  "put_prop k v parts = (filter (\<lambda>p. fst p \<noteq> k) (fst parts) @ [(k, v)], snd parts)"

definition require :: "bool \<Rightarrow> string \<Rightarrow> schema_parts \<Rightarrow> schema_parts" where
  "require b k parts = (fst parts, if b then snd parts @ [k] else snd parts)"

definition strings :: "string list \<Rightarrow> json" where
  "strings xs = JArr (map JStr xs)"

text \<open>The object a schema function returns; a slice that was declared and never appended to is null.\<close>

definition object_schema :: "json \<Rightarrow> schema_parts \<Rightarrow> (string \<times> json) list" where
  "object_schema required parts =
     [(''type'', JStr ''object''), (''properties'', JObj (fst parts)), (''required'', required), (''additionalProperties'', JBool False)]"

definition input_schema :: "schema_parts \<Rightarrow> (string \<times> json) list" where
  "input_schema parts = object_schema (strings (snd parts)) parts"

definition input_schema_nil :: "schema_parts \<Rightarrow> (string \<times> json) list" where
  "input_schema_nil parts = object_schema (if snd parts = [] then JNull else strings (snd parts)) parts"

definition indexer_schema :: "schema_parts \<Rightarrow> (string \<times> json) list" where
  "indexer_schema parts =
     [(''type'', JStr ''object''), (''properties'', JObj (fst parts)), (''additionalProperties'', JBool False)] @
     (if length (snd parts) > 0 then [(''required'', strings (snd parts))] else [])"

subsection \<open>The profile and key arguments\<close>

text \<open>A lookup in the configuration; a missing name gives the zero profile.\<close>

definition config_profile :: "server \<Rightarrow> string \<Rightarrow> Profile" where
  "config_profile s n = (case server_profile s n of None \<Rightarrow> empty_profile | Some p \<Rightarrow> p)"

text \<open>Read tools take any name; write tools list the profiles they can write, indexer tools those with an indexer.\<close>

definition read_profile_desc :: "(string \<Rightarrow> string) \<Rightarrow> server \<Rightarrow> string" where
  "read_profile_desc quote s =
     (let ps = server_schema s
      in ''Target chain profile'' @ dash @ ''any configured profile name, including one added at runtime via gno_profile_add.'' @
         (if psc_Enum ps \<noteq> [] then '' Configured: '' @ ProfileChainList (config_profile s) (psc_Enum ps) @ ''.'' else []) @
         (if psc_Default ps \<noteq> [] then '' Default: '' @ quote (psc_Default ps) @ ''.''
          else '' Required (no default'' @ dash @ ''pick one explicitly).''))"

definition read_addProfileArg :: "(string \<Rightarrow> string) \<Rightarrow> server \<Rightarrow> schema_parts \<Rightarrow> schema_parts" where
  "read_addProfileArg quote s parts =
     (let ps = server_schema s
      in require (psc_Required ps) ''profile''
           (put_prop ''profile''
             (JObj ([(''type'', JStr ''string'')] @
                    (if psc_Default ps \<noteq> [] then [(''default'', JStr (psc_Default ps))] else []) @
                    [(''description'', JStr (read_profile_desc quote s))])) parts))"

definition filtered_profile_arg :: "server \<Rightarrow> (Profile \<Rightarrow> bool) \<Rightarrow> string \<Rightarrow> schema_parts \<Rightarrow> schema_parts" where
  "filtered_profile_arg s keep desc parts =
     (case addProfileArgFiltered s keep of (names, dflt, req) \<Rightarrow>
        require req ''profile''
          (put_prop ''profile''
            (JObj ([(''type'', JStr ''string''), (''enum'', strings names),
                    (''description'', JStr (desc @ (if length names > 0 then '' Profiles: '' @ ProfileChainList (config_profile s) names @ ''.'' else [])))] @
                   (case dflt of Some d \<Rightarrow> [(''default'', JStr d)] | None \<Rightarrow> []))) parts))"

definition write_addProfileArg :: "server \<Rightarrow> schema_parts \<Rightarrow> schema_parts" where
  "write_addProfileArg s = filtered_profile_arg s profileSessionEligible
     ''Profile to use for a chain-bound session. Writable chains (local/testnet); a profile without a master-address needs master_address supplied at propose time.''"

definition addAgentProfileArg :: "server \<Rightarrow> schema_parts \<Rightarrow> schema_parts" where
  "addAgentProfileArg s = filtered_profile_arg s profileWritableByAgent
     ''Profile to use. Local profiles use the built-in test1 key; testnet profiles require a generated agent key (gno_key_generate).''"

definition addTestnetProfileArg :: "server \<Rightarrow> schema_parts \<Rightarrow> schema_parts" where
  "addTestnetProfileArg s = filtered_profile_arg s IsTestnet ''Profile to use. Only testnet profiles support agent key generation.''"

definition addWritableProfileArg :: "server \<Rightarrow> schema_parts \<Rightarrow> schema_parts" where
  "addWritableProfileArg s = filtered_profile_arg s (\<lambda>p. profileWritableByAgent p \<or> profileWritableBySession p)
     ''Profile to use. Lists profiles writable via an agent key (local/testnet) or a session (master-address).''"

definition claProfileArgDesc :: string where
  "claProfileArgDesc = ''Profile (chain) to target. Writable chains only'' @ dash @ ''the CLA gate applies to deploys, which sign with the agent key.''"

definition addOptionalKeyArg :: "schema_parts \<Rightarrow> schema_parts" where
  "addOptionalKeyArg = put_prop ''key''
     (JObj [(''type'', JStr ''string''),
            (''description'', JStr (''Optional name of the agent key to act with (default: \"default\"). '' @
                ''Applies to identity=agent only'' @ dash @ ''it is rejected with identity=session, which signs with the session key. '' @
                ''A profile can hold several keys so you can exercise realms involving multiple addresses; '' @
                ''create more with gno_key_generate and list them with gno_key_list. e.g. \"bob\".''))])"

definition indexer_addProfileArg :: "server \<Rightarrow> schema_parts \<Rightarrow> schema_parts" where
  "indexer_addProfileArg s parts =
     (case indexer_profile_arg s of (names, dflt, req) \<Rightarrow>
        require req ''profile''
          (put_prop ''profile''
            (JObj ([(''type'', JStr ''string''), (''enum'', if names = [] then JNull else strings names),
                    (''description'', JStr ''Profile whose tx-indexer-url to query. Only profiles with an indexer configured are listed.'')] @
                   (case dflt of Some d \<Rightarrow> [(''default'', JStr d)] | None \<Rightarrow> []))) parts))"

subsection \<open>One schema per tool\<close>

definition renderInputSchema :: "(string \<Rightarrow> string) \<Rightarrow> server \<Rightarrow> (string \<times> json) list" where
  "renderInputSchema quote s = input_schema
    (read_addProfileArg quote s
    ([(''realm'', JObj [(''type'', JStr ''string''),
                    (''description'', JStr (''Realm package path (e.g. 'gno.land/r/myorg/blog'). Required.'')),
                    (''pattern'', JStr (''^gno'' @ [CHR 0x5C] @ ''.land/r/[a-z0-9_'' @ [CHR 0x5C] @ ''-/'' @ [CHR 0x5C] @ ''.]+$''))]),
       (''path'', JObj [(''type'', JStr ''string''),
                    (''description'', JStr (''Optional subpath within the realm's Render() router (e.g. 'post/123'). Empty = home.''))])], [''realm'']))"

definition evalInputSchema :: "(string \<Rightarrow> string) \<Rightarrow> server \<Rightarrow> (string \<times> json) list" where
  "evalInputSchema quote s = input_schema
    (read_addProfileArg quote s
    ([(''path'', JObj [(''type'', JStr ''string''),
                    (''description'', JStr (''Package path: a realm (gno.land/r/myorg/counter) or pure package '' @
                            ''(gno.land/p/myorg/lib). Required.'')),
                    (''pattern'', JStr (''^[a-z0-9][a-z0-9._/'' @ [CHR 0x5C] @ ''-]+$''))]),
       (''expr'', JObj [(''type'', JStr ''string''),
                    (''description'', JStr (''Gno expression to evaluate within the package (e.g. 'Counter()' or 'Sprintf(\"%d\", 7)'). Required.''))])], [''path'', ''expr'']))"

definition readInputSchema :: "(string \<Rightarrow> string) \<Rightarrow> server \<Rightarrow> (string \<times> json) list" where
  "readInputSchema quote s = input_schema
    (read_addProfileArg quote s
    ([(''path'', JObj [(''type'', JStr ''string''),
                    (''description'', JStr (''Package path: a realm (gno.land/r/myorg/foo) or pure package '' @
                            ''(gno.land/p/myorg/lib). Required.'')),
                    (''pattern'', JStr (''^[a-z0-9][a-z0-9._/'' @ [CHR 0x5C] @ ''-]+$''))]),
       (''file'', JObj [(''type'', JStr ''string''),
                    (''description'', JStr (''Source file name within the package (e.g. 'counter.gno'). Alone: that '' @
                            ''file's outline. With full=true: that file verbatim. Cannot be combined with symbols.''))]),
       (''symbols'', JObj [(''type'', JStr ''array''),
                    (''items'', JObj [(''type'', JStr ''string'')]),
                    (''description'', JStr (''Declaration names to fetch verbatim, with docs and a dependency header '' @
                            ''(e.g. [\"Transfer\", \"Counter.Inc\"]'' @ dash @ ''top-level names; Type.Method for methods). '' @
                            ''Package-scoped. Cannot be combined with file or full.''))]),
       (''full'', JObj [(''type'', JStr ''boolean''),
                    (''description'', JStr (''true returns raw source instead of an outline: with 'file', that file '' @
                            ''verbatim (larger budget); without, the whole package as txtar. Cannot be combined '' @
                            ''with symbols.''))])], [''path'']))"

definition packagesInputSchema :: "(string \<Rightarrow> string) \<Rightarrow> server \<Rightarrow> (string \<times> json) list" where
  "packagesInputSchema quote s = input_schema
    (read_addProfileArg quote s
    ([(''path'', JObj [(''type'', JStr ''string''),
                    (''description'', JStr (''Path prefix ('gno.land/r/demo/') or '@namespace' ('@demo' for both /p/ and /r/). Required.''))]),
       (''limit'', JObj [(''type'', JStr ''integer''),
                    (''description'', JStr ''Max paths to return. Default 1000; the chain caps at 10000.'')])], [''path'']))"

definition accountInputSchema :: "(string \<Rightarrow> string) \<Rightarrow> server \<Rightarrow> (string \<times> json) list" where
  "accountInputSchema quote s = input_schema
    (read_addProfileArg quote s
    ([(''address'', JObj [(''type'', JStr ''string''),
                    (''description'', JStr (''Bech32 account address (e.g. 'g1jg8mtutu9khhfwc4nxmuhcpftf0pajdhfvsqf5'). Required.''))])], [''address'']))"

definition statusInputSchema :: "(string \<Rightarrow> string) \<Rightarrow> server \<Rightarrow> (string \<times> json) list" where
  "statusInputSchema quote s = input_schema_nil
    (read_addProfileArg quote s
    ([], []))"

definition historyInputSchema :: "server \<Rightarrow> (string \<times> json) list" where
  "historyInputSchema s = indexer_schema
    (indexer_addProfileArg s
    ([(''realm'', JObj [(''type'', JStr ''string''),
                    (''description'', JStr (''Realm path to fetch history for (e.g. 'gno.land/r/demo/boards').'')),
                    (''pattern'', JStr (''^gno'' @ [CHR 0x5C] @ ''.land/r/[a-z0-9_'' @ [CHR 0x5C] @ ''-/'' @ [CHR 0x5C] @ ''.]+$''))])], [''realm'']))"

definition activityInputSchema :: "server \<Rightarrow> (string \<times> json) list" where
  "activityInputSchema s = indexer_schema
    (indexer_addProfileArg s
    ([(''realm'', JObj [(''type'', JStr ''string''),
                    (''description'', JStr (''Realm path to fetch activity for (e.g. 'gno.land/r/demo/boards').'')),
                    (''pattern'', JStr (''^gno'' @ [CHR 0x5C] @ ''.land/r/[a-z0-9_'' @ [CHR 0x5C] @ ''-/'' @ [CHR 0x5C] @ ''.]+$''))]),
       (''since'', JObj [(''type'', JStr ''string''),
                    (''format'', JStr ''date-time''),
                    (''description'', JStr ''RFC3339 timestamp; only return events at or after this time (optional).'')]),
       (''until'', JObj [(''type'', JStr ''string''),
                    (''format'', JStr ''date-time''),
                    (''description'', JStr ''RFC3339 timestamp; only return events at or before this time (optional).'')])], [''realm'']))"

definition callInputSchema :: "server \<Rightarrow> (string \<times> json) list" where
  "callInputSchema s = input_schema
    (addOptionalKeyArg
    (addWritableProfileArg s
    ([(''realm'', JObj [(''type'', JStr ''string''),
                    (''description'', JStr ''Fully-qualified Gno realm path to call (e.g. \"gno.land/r/myorg/blog\").'')]),
       (''func'', JObj [(''type'', JStr ''string''),
                    (''description'', JStr ''Public function name to invoke in the realm.'')]),
       (''args'', JObj [(''type'', JStr ''array''),
                    (''items'', JObj [(''type'', JStr ''string'')]),
                    (''description'', JStr (''Positional string arguments for the function. Optional; omit or pass [] for zero-argument functions. '' @
                            ''e.g. [\"42\", \"g1abc...\"]'' @ dash @ ''all arguments are passed as strings; numbers, addresses, and booleans are stringified.''))]),
       (''send'', JObj [(''type'', JStr ''string''),
                    (''description'', JStr (''Coins to attach to the call for a payable function (one that reads std.OriginSend() / banker coins, e.g. a Bid or Buy). '' @
                            ''Single-denomination amount, e.g. \"5000000ugnot\". Optional; omit or \"\" sends nothing. '' @
                            ''For identity=session the coins are spent from the user's master account and count against the session spend_limit. '' @
                            ''To move plain ugnot between your own keys without calling a function, use gno_key_send instead.''))]),
       (''simulate'', JObj [(''type'', JStr ''boolean''),
                    (''description'', JStr ''When true, dry-run the call without broadcasting or spending gas. The acting identity still signs (agent key or session), but nothing is broadcast.''),
                    (''default'', JBool False)]),
       (''identity'', JObj [(''type'', JStr ''string''),
                    (''enum'', JArr [JStr ''agent'', JStr ''session'']),
                    (''description'', JStr (''Who signs: agent (the agent's own key'' @ dash @ ''local test1 or testnet generated key) or session (act as the user via a master-bound session). Default: agent; pass session to act as the user. The key arg applies to identity=agent only and is rejected with identity=session.''))])], [''realm'', ''func''])))"

definition runInputSchema :: "server \<Rightarrow> (string \<times> json) list" where
  "runInputSchema s = input_schema
    (addOptionalKeyArg
    (addWritableProfileArg s
    ([(''code'', JObj [(''type'', JStr ''string''),
                    (''description'', JStr ''Gno source code to execute. Must be a valid Gno package with a package main declaration and a main() entry point.'')]),
       (''simulate'', JObj [(''type'', JStr ''boolean''),
                    (''description'', JStr ''When true, dry-run the execution without broadcasting or spending gas. The acting identity still signs (agent key or session), but nothing is broadcast.''),
                    (''default'', JBool False)]),
       (''identity'', JObj [(''type'', JStr ''string''),
                    (''enum'', JArr [JStr ''agent'', JStr ''session'']),
                    (''description'', JStr (''Who signs: agent (the agent's own key'' @ dash @ ''local test1 or testnet generated key) or session (act as the user via a master-bound session). Default: agent; pass session to act as the user. The key arg applies to identity=agent only and is rejected with identity=session.''))])], [''code''])))"

definition claInfoInputSchema :: "server \<Rightarrow> (string \<times> json) list" where
  "claInfoInputSchema s = input_schema
    (filtered_profile_arg s profileWritableByAgent claProfileArgDesc
    ([], []))"

definition claSignInputSchema :: "server \<Rightarrow> (string \<times> json) list" where
  "claSignInputSchema s = input_schema
    (addOptionalKeyArg
    (filtered_profile_arg s profileWritableByAgent claProfileArgDesc
    ([(''hash'', JObj [(''type'', JStr ''string''),
                    (''pattern'', JStr ''^[0-9a-fA-F]+$''),
                    (''description'', JStr (''The CLA hash to sign, hex as reported by gno_cla_info. e.g. \"a1b2c3d4'' @ [CHR 0xE2, CHR 0x80, CHR 0xA6] @ ''\".''))])], [''hash''])))"

definition authStatusInputSchema :: "server \<Rightarrow> (string \<times> json) list" where
  "authStatusInputSchema s = input_schema
    (write_addProfileArg s
    ([], []))"

definition sessionProposeInputSchema :: "server \<Rightarrow> (string \<times> json) list" where
  "sessionProposeInputSchema s = input_schema_nil
    (write_addProfileArg s
    ([(''allow_paths'', JObj [(''type'', JStr ''array''),
                    (''items'', JObj [(''type'', JStr ''string'')]),
                    (''description'', JStr ''Realm paths the session may sign vm/MsgCall for (e.g. [\"gno.land/r/myorg/blog\"]). Optional if allow_run=true; otherwise required and non-empty. When present, must contain at least one entry.''),
                    (''minItems'', JInt 1)]),
       (''allow_run'', JObj [(''type'', JStr ''boolean''),
                    (''description'', JStr ''When true, the session can broadcast MsgRun (ad-hoc gno scripts) in addition to any realm calls in allow_paths. Optional; default false. At least one of allow_paths (non-empty) or allow_run=true must be requested.''),
                    (''default'', JBool False)]),
       (''spend_limit'', JObj [(''type'', JStr ''string''),
                    (''description'', JStr (''Maximum spend for this session (e.g. \"50000000ugnot\"). Every write consumes its full gas fee from this limit, so it must cover at least one write at the chain's live gas price'' @ dash @ ''a lower value is rejected with the minimum to use. Optional; when omitted, sized to ~10 writes at the live fee (or the profile default); clamped to the per-chain hard limit.''))]),
       (''expires_in'', JObj [(''type'', JStr ''string''),
                    (''description'', JStr ''Session lifetime as a Go duration string (e.g. \"24h\"). Optional; profile default used if omitted; clamped to the per-chain hard limit.'')]),
       (''master_address'', JObj [(''type'', JStr ''string''),
                    (''description'', JStr (''The user's PUBLIC account address'' @ dash @ ''bech32, starts with g1 (e.g. \"g1jg8mtutu9khhfwc4nxmuhcpftf0pajdhfvsqf5\"). '' @
                            ''Required when the target (writable testnet/local) profile has no master-address; the session binds to this account. '' @
                            ''It is PUBLIC and safe to share'' @ dash @ ''NEVER a private key or seed phrase. Ask the user for it with that distinction made explicit; do not edit profiles.toml on their behalf.''))])], []))"

definition sessionRevokeInputSchema :: "server \<Rightarrow> (string \<times> json) list" where
  "sessionRevokeInputSchema s = input_schema
    (write_addProfileArg s
    ([(''session_address'', JObj [(''type'', JStr ''string''),
                    (''description'', JStr ''Bech32 address of the session to revoke. Use gno_auth_status to list managed sessions.'')])], [''session_address'']))"

definition addpkgInputSchema :: "server \<Rightarrow> (string \<times> json) list" where
  "addpkgInputSchema s = input_schema
    (addOptionalKeyArg
    (addAgentProfileArg s
    ([(''deploy_path'', JObj [(''type'', JStr ''string''),
                    (''description'', JStr (''Full package path (e.g. \"gno.land/r/myname/hello\") or a short package name (e.g. \"hello\"). '' @
                            ''When a short name is given (no \"/\"), the path is automatically expanded to '' @
                            ''\"gno.land/r/<agent_address>/<name>\"'' @ dash @ ''this is always authorized and gnoweb-compatible. '' @
                            ''Use a full path only when deploying to a registered namespace.''))]),
       (''files'', JObj [(''type'', JStr ''array''),
                    (''description'', JStr ''Source files to deploy. Each element must have \"name\" and \"body\" string fields. gnomod.toml is generated automatically if omitted.''),
                    (''items'', JObj [(''type'', JStr ''object''),
                            (''properties'', JObj [(''name'', JObj [(''type'', JStr ''string'')]),
                                    (''body'', JObj [(''type'', JStr ''string'')])]),
                            (''required'', JArr [JStr ''name'', JStr ''body''])])]),
       (''simulate'', JObj [(''type'', JStr ''boolean''),
                    (''description'', JStr ''When true, dry-run the deployment without broadcasting or spending gas. On a chain running the inert code-submission policy the dry run does not type-check the code.''),
                    (''default'', JBool False)])], [''deploy_path'', ''files''])))"

definition keySendInputSchema :: "server \<Rightarrow> (string \<times> json) list" where
  "keySendInputSchema s = input_schema
    (addTestnetProfileArg s
    ([(''from'', JObj [(''type'', JStr ''string''),
                    (''default'', JStr ''default''),
                    (''description'', JStr ''Name of the source key to send from (default: \"default\"). Must be a funded key in this profile.'')]),
       (''to'', JObj [(''type'', JStr ''string''),
                    (''description'', JStr ''Name of the destination key to send to. Must be an existing key in this profile (gno_key_generate). e.g. \"bob\".'')]),
       (''amount'', JObj [(''type'', JStr ''integer''),
                    (''description'', JStr ''Amount of ugnot to transfer, a whole number greater than zero. e.g. 5000000.'')])], [''to'', ''amount'']))"

definition keyAddrInputSchema :: "server \<Rightarrow> (string \<times> json) list" where
  "keyAddrInputSchema s = input_schema
    (addOptionalKeyArg
    (addAgentProfileArg s
    ([], [])))"

definition keyListInputSchema :: "server \<Rightarrow> (string \<times> json) list" where
  "keyListInputSchema s = input_schema
    (addAgentProfileArg s
    ([], []))"

definition keyGenInputSchema :: "server \<Rightarrow> (string \<times> json) list" where
  "keyGenInputSchema s = input_schema
    (addOptionalKeyArg
    (addTestnetProfileArg s
    ([], [])))"

definition keyDeleteInputSchema :: "server \<Rightarrow> (string \<times> json) list" where
  "keyDeleteInputSchema s = input_schema
    (put_prop ''force'' (JObj [(''type'', JStr ''boolean''),
              (''description'', JStr (''Delete even if the key still holds ugnot, permanently abandoning those funds (default false). '' @
                      ''Prefer sweep_to to recover the balance instead; use force only when you intend to discard the funds '' @
                      ''or there is no other key to sweep to.''))])
    (put_prop ''sweep_to'' (JObj [(''type'', JStr ''string''),
              (''description'', JStr (''Name of another of your keys to receive this key's funds before deletion. '' @
                      ''Atomically sweeps the full live balance (minus the gas fee) to that key, then deletes'' @ dash @ ''the safe way '' @
                      ''to remove a funded key without stranding anything. e.g. \"main\". A balance at or below the gas fee is left behind.''))])
    (addOptionalKeyArg
    (addTestnetProfileArg s
    ([], [''key''])))))"

definition faucetFundInputSchema :: "server \<Rightarrow> (string \<times> json) list" where
  "faucetFundInputSchema s = input_schema
    (addOptionalKeyArg
    (addTestnetProfileArg s
    ([], [])))"

definition profileAddInputSchema :: "(string \<times> json) list" where
  "profileAddInputSchema = input_schema
    ([(''name'', JObj [(''type'', JStr ''string''),
                  (''description'', JStr (''Profile name: lowercase alphanumeric, internal '-' or '_' allowed (e.g. 'onyx'). '' @
                          ''Must not be 'default' or a name already loaded from profiles.toml/builtins. Required.'')),
                  (''pattern'', JStr ''^[a-z0-9][a-z0-9_-]*$'')]),
     (''rpc_url'', JObj [(''type'', JStr ''string''),
                  (''format'', JStr ''uri''),
                  (''description'', JStr (''Chain RPC endpoint (absolute http(s) URL, e.g. 'https://rpc.onyx.testnets.gno.land'). '' @
                          ''Required together with chain_id unless gnoweb_url is given.''))]),
     (''chain_id'', JObj [(''type'', JStr ''string''),
                  (''description'', JStr (''Chain-id the node reports (e.g. 'onyx-1', or 'gnoland-1' for mainnet'' @ dash @ ''read-only). '' @
                          ''dev and known testnets (test*, onyx-*) are write-capable; any other id is admitted read-only. '' @
                          ''Required together with rpc_url unless gnoweb_url is given. Cross-checked against the live node.''))]),
     (''gnoweb_url'', JObj [(''type'', JStr ''string''),
                  (''format'', JStr ''uri''),
                  (''description'', JStr (''Gnoweb page URL to discover rpc_url + chain_id from (e.g. 'https://onyx.testnets.gno.land'). '' @
                          ''Mutually exclusive with rpc_url/chain_id. Discovery is a hint only'' @ dash @ ''the node is still dialed and verified.''))]),
     (''tx_indexer_url'', JObj [(''type'', JStr ''string''),
                  (''format'', JStr ''uri''),
                  (''description'', JStr (''Optional tx-indexer GraphQL endpoint (e.g. 'https://indexer.onyx.testnets.gno.land/graphql/query'); '' @
                          ''enables the indexer tools for this profile.''))]),
     (''faucet_service_url'', JObj [(''type'', JStr ''string''),
                  (''format'', JStr ''uri''),
                  (''description'', JStr (''Optional automatic agent-faucet service URL (e.g. 'http://127.0.0.1:8590'; testnet funding tier 2).''))]),
     (''faucet_url'', JObj [(''type'', JStr ''string''),
                  (''format'', JStr ''uri''),
                  (''description'', JStr (''Optional human faucet page URL (e.g. 'https://faucet.gno.land'; testnet funding tier 1).''))])],
     [''name''])"

end
