(* ===== verification/Gnomcp.thy ===== *)
theory Gnomcp
  imports Catalog Toolbox Clapage "HOL-Library.Sublist"
begin

section \<open>The program: cmd/gnomcp main.go and register.go\<close>

text \<open>
  The process holds the profile table, the registry and the tools published to the SDK, the sessions,
  the keys, the requests sent to the nodes and to the indexers, and the audit log. A client's call
  goes through the adapter of \<open>Server\<close> to the handler the tool was registered with; adding a profile
  registers and publishes the tools again from inside a call. Every call has its own environment
  (\<open>call_env\<close>): what the disk, the nodes, the clock and the libraries answer during it.
\<close>

subsection \<open>State and environment\<close>

record 'c gnomcp =
  gp_server :: server
  gp_registry :: "tool_decl list"
  gp_sdk :: "'c sdk"
  gp_world :: world
  gp_http :: request_log
  gp_audit :: "audit_entry list"

text \<open>What is fixed for the life of the process.\<close>

record 'c process =
  ps_quote :: "string \<Rightarrow> string"
  ps_marshal :: "args \<Rightarrow> string option"
  ps_schemas :: "'c schema_lib"
  ps_auditReads :: bool

record call_env =
  ce_env :: env
  ce_read :: read_lib
  ce_gql :: gql_lib
  ce_admin :: admin_lib
  ce_order :: "string list"
  ce_faucet :: http_client
  ce_propose :: propose_env
  ce_salt :: "bytes option"
  ce_nonce :: "bytes option"
  ce_fresh :: "string option"
  ce_cla_render :: "string \<Rightarrow> string + string"
  ce_oor :: "rat \<Rightarrow> int64"
  ce_f64 :: "int64 \<Rightarrow> rat"
  ce_log_fails :: "audit_entry \<Rightarrow> bool"

text \<open>The server the handlers see is the live one.\<close>

definition live_env :: "call_env \<Rightarrow> 'c gnomcp \<Rightarrow> env" where
  "live_env ce g = (ce_env ce)\<lparr>en_server := gp_server g\<rparr>"

subsection \<open>The handlers over the whole state\<close>

definition to_outcome :: "tool_error + tool_result \<Rightarrow> outcome" where
  "to_outcome r = (case r of Inl e \<Rightarrow> Failed e | Inr x \<Rightarrow> Returned x)"

definition on_world :: "world handler \<Rightarrow> 'c gnomcp handler" where
  "on_world h a g = (case h a (gp_world g) of (w, es, out) \<Rightarrow> (g\<lparr>gp_world := w\<rparr>, es, out))"

definition on_http :: "(args \<Rightarrow> request_log \<Rightarrow> request_log \<times> (tool_error + tool_result)) \<Rightarrow> 'c gnomcp handler" where
  "on_http h a g = (case h a (gp_http g) of (l, r) \<Rightarrow> (g\<lparr>gp_http := l\<rparr>, [], to_outcome r))"

definition only_answer :: "(args \<Rightarrow> tool_error + tool_result) \<Rightarrow> 'c gnomcp handler" where
  "only_answer h a g = (g, [], to_outcome (h a))"

text \<open>The resolver of the indexer tools: a profile's indexer, when it has one.\<close>

definition indexer_url :: "server \<Rightarrow> string \<Rightarrow> string option" where
  "indexer_url s n =
     (case server_profile s n of None \<Rightarrow> None | Some p \<Rightarrow> if TxIndexerURL p = [] then None else Some (TxIndexerURL p))"

text \<open>\<open>onProfileAdded\<close>: register every tool again, then publish the registry.\<close>

definition onProfileAdded :: "'c process \<Rightarrow> server \<Rightarrow> 'c gnomcp \<Rightarrow> tool_decl list \<times> 'c sdk \<times> string option" where
  "onProfileAdded P s g =
     (let reg = register_tools (ps_quote P) s (gp_registry g)
      in (reg, publishTools (ps_quote P) (ps_schemas P) reg (gp_sdk g)))"

text \<open>Whether the handler got as far as calling \<open>onAdded\<close>: it succeeded, or that call is what failed.\<close>

definition announced :: "tool_error + tool_result \<Rightarrow> bool" where
  "announced r = (case r of Inr _ \<Rightarrow> True | Inl (ToolError code _ _) \<Rightarrow> code = ''republish_failed'' | Inl (PlainError _) \<Rightarrow> False)"

definition profile_add_tool :: "'c process \<Rightarrow> call_env \<Rightarrow> 'c gnomcp handler" where
  "profile_add_tool P ce a g =
     (let lb = (ce_admin ce)\<lparr>al_republish := (\<lambda>s. snd (snd (onProfileAdded P s g)))\<rparr>
      in case profileAddHandler lb (ce_order ce) a (gp_server g) of
           (s, r) \<Rightarrow>
             (if announced r
              then (case onProfileAdded P s g of (reg, sdk, err) \<Rightarrow> g\<lparr>gp_server := s, gp_registry := reg, gp_sdk := sdk\<rparr>)
              else g\<lparr>gp_server := s\<rparr>,
              [], to_outcome r))"

definition world_tools :: "call_env \<Rightarrow> env \<Rightarrow> (string \<times> world handler) list" where
  "world_tools ce e =
     [(''gno_render'', renderHandler e (ce_read ce)), (''gno_eval'', evalHandler e (ce_read ce)), (''gno_read'', readHandler e (ce_read ce)),
      (''gno_packages'', packagesHandler e (ce_read ce)), (''gno_account'', accountHandler e (ce_read ce)),
      (''gno_status'', statusHandler e (ce_read ce)),
      (''gno_call'', callHandler e), (''gno_run'', runHandler e), (''gno_cla_sign'', claSignHandler e),
      (''gno_auth_status'', authStatusHandler e), (''gno_session_propose'', sessionProposeHandler e (ce_propose ce)),
      (''gno_session_revoke'', sessionRevokeHandler e), (''gno_addpkg'', addpkgHandler e),
      (''gno_key_send'', keySendHandler e (ce_oor ce) (ce_f64 ce)), (''gno_key_address'', keyAddrHandler e),
      (''gno_key_list'', keyListHandler e), (''gno_key_generate'', keyGenHandler e (ce_salt ce) (ce_nonce ce) (ce_fresh ce)),
      (''gno_key_delete'', keyDeleteHandler e), (''gno_faucet_fund'', faucetFundHandler e (ce_faucet ce))]"

definition other_tools :: "'c process \<Rightarrow> call_env \<Rightarrow> env \<Rightarrow> (string \<times> 'c gnomcp handler) list" where
  "other_tools P ce e =
     [(''gno_connect'', only_answer (connectHandler (ce_admin ce))),
      (''gno_profile_list'', only_answer (\<lambda>a. Inr (profileListHandler (en_server e)))),
      (''gno_history'', on_http (historyHandler e (ce_gql ce) (indexer_url (en_server e)))),
      (''gno_activity'', on_http (activityHandler e (ce_gql ce) (indexer_url (en_server e)))),
      (''gno_cla_info'', only_answer (claInfoHandler e (ce_cla_render ce) claHashRe claURLRe)),
      (''gno_profile_add'', profile_add_tool P ce)]"

text \<open>The handler the Register function of a tool closes over.\<close>

definition tool_handler :: "'c process \<Rightarrow> call_env \<Rightarrow> string \<Rightarrow> 'c gnomcp handler option" where
  "tool_handler P ce name =
     (if name \<in> fst ` set (world_tools ce (ce_env ce))
      then Some (\<lambda>a g. on_world (the (map_of (world_tools ce (live_env ce g)) name)) a g)
      else if name \<in> fst ` set (other_tools P ce (ce_env ce))
      then Some (\<lambda>a g. (the (map_of (other_tools P ce (live_env ce g)) name)) a g)
      else None)"

definition attach :: "'c process \<Rightarrow> call_env \<Rightarrow> tool_decl \<Rightarrow> 'c gnomcp tool" where
  "attach P ce t = tool_decl.extend t (tool.fields (tool_handler P ce (tl_Name t)))"

subsection \<open>One call\<close>

text \<open>
  The SDK looks the tool up and runs \<open>makeHandler\<close> of the declaration it was given (\<open>None\<close>: no such
  tool, answered by the SDK); the registry dispatches to the handler registered last. Then the log is written.
\<close>

definition serve ::
  "'c process \<Rightarrow> call_env \<Rightarrow> string \<Rightarrow> (string + args) option \<Rightarrow> 'c gnomcp \<Rightarrow> 'c gnomcp \<times> audit_entry list \<times> mcp_result option" where
  "serve P ce name raw g =
     (case gp_sdk g name of
        None \<Rightarrow> (g, [], None)
      | Some (st, t) \<Rightarrow>
          (case makeHandler (ps_quote P) (ps_marshal P) (attach P ce t) (map (attach P ce) (gp_registry g)) (gp_server g)
                  (ps_auditReads P) raw g of
             (g', es, r) \<Rightarrow>
               (g'\<lparr>gp_audit := fold (\<lambda>en. Record (ce_log_fails ce en) en) es (gp_audit g')\<rparr>, es, Some r)))"

subsection \<open>Starting\<close>

text \<open>What \<open>main\<close> does with its arguments, and the audit subcommand (\<open>openf\<close> reads the log's lines or fails).\<close>

datatype main_command = ShowVersion | AuditCommand "string list" | ProfileCommand "string list" | ServeCommand "string list"

definition main_command :: "string list \<Rightarrow> main_command" where
  "main_command argv =
     (case argv of
        [] \<Rightarrow> ServeCommand []
      | a # rest \<Rightarrow>
          if a = ''version'' then ShowVersion
          else if a = ''audit'' then AuditCommand rest
          else if a = ''profile'' then ProfileCommand rest
          else ServeCommand argv)"

datatype audit_result = AuditUsage string | AuditFatal string | AuditLines "string list" bool

definition read_audit :: "(string \<Rightarrow> string + string list) \<Rightarrow> string \<Rightarrow> (string list \<Rightarrow> string list \<times> bool) \<Rightarrow> audit_result" where
  "read_audit openf path scan =
     (case openf path of
        Inl e \<Rightarrow> AuditFatal (''open audit log: '' @ e)
      | Inr ls \<Rightarrow> (case scan ls of (out, ok) \<Rightarrow> AuditLines out ok))"

definition runAudit ::
  "(string \<Rightarrow> string) \<Rightarrow> (string \<Rightarrow> string) \<Rightarrow> string option \<Rightarrow> (string \<Rightarrow> string + string list) \<Rightarrow> string list \<Rightarrow> audit_result" where
  "runAudit quote env home openf args =
     (case args of
        [] \<Rightarrow> AuditUsage (''usage: gnomcp audit <tail|grep <pattern>>'' @ nl)
      | sub # rest \<Rightarrow>
          if sub = ''tail'' then read_audit openf (defaultAuditPath env home) scan_lines
          else if sub = ''grep'' then
            (case rest of
               [] \<Rightarrow> AuditUsage (''usage: gnomcp audit grep <pattern>'' @ nl)
             | pattern # more_args \<Rightarrow> read_audit openf (defaultAuditPath env home) (grepAudit pattern))
          else AuditUsage (''unknown audit subcommand '' @ quote sub @ nl))"

text \<open>The flags of the server; an absent flag has the default its environment variable or home gives.\<close>

record serve_flags =
  sf_config :: string
  sf_audit_path :: string
  sf_audit_reads :: bool
  sf_sessions_path :: string

definition default_serve_flags :: "(string \<Rightarrow> string) \<Rightarrow> string option \<Rightarrow> serve_flags" where
  "default_serve_flags env home =
     \<lparr>sf_config = [], sf_audit_path = defaultAuditPath env home, sf_audit_reads = False,
      sf_sessions_path = defaultSessionsPath env home\<rparr>"

text \<open>
  \<open>su_load\<close> is \<open>LoadResolved\<close> over the files of the machine, \<open>su_order\<close> the table in the order Go visits
  it, \<open>su_probe\<close> asks a local node, \<open>su_mkdir\<close> and \<open>su_openlog\<close> are the errors of the two system
  calls, \<open>su_dial\<close> is \<open>chain.NewReal\<close>; \<open>su_list\<close>, \<open>su_delete\<close> and \<open>su_sessions\<close> are the store at the
  sessions path.
\<close>

record 'd startup =
  su_env :: "string \<Rightarrow> string"
  su_home :: "string option"
  su_load :: "Sources \<Rightarrow> profile_error + profile_map"
  su_order :: "profile_map \<Rightarrow> (string \<times> Profile) list"
  su_probe :: "Profile \<Rightarrow> string + bool"
  su_dirname :: "string \<Rightarrow> string"
  su_mkdir :: "string \<Rightarrow> string option"
  su_openlog :: "string \<Rightarrow> string option"
  su_dial :: "string \<Rightarrow> string \<Rightarrow> 'd option"
  su_query :: "'d conn_cache \<Rightarrow> string \<Rightarrow> session_query option"
  su_sessions :: "string \<Rightarrow> fsys"
  su_profiles :: "string list"
  su_list :: "fsys \<Rightarrow> string \<Rightarrow> store_error + SessionMeta list"
  su_delete :: "fsys \<Rightarrow> string \<Rightarrow> string \<Rightarrow> fsys \<times> store_error option"
  su_keys :: fsys

datatype start_error =
    LoadConfig profile_error
  | MkdirAudit string
  | OpenAudit string
  | ChainClient
  | PublishFailed string

definition NewManager :: "fsys \<Rightarrow> manager" where
  "NewManager fs = \<lparr>mg_sessions = (\<lambda>profile. Map.empty), mg_fs = fs\<rparr>"

definition gnomcp_start :: "'c process \<Rightarrow> 'd startup \<Rightarrow> serve_flags \<Rightarrow> start_error + (string \<times> 'd conn_cache \<times> 'c gnomcp)" where
  "gnomcp_start P su fl =
     (case su_load su (resolveSources (su_env su) (su_home su) (sf_config fl)) of
        Inl e \<Rightarrow> Inl (LoadConfig e)
      | Inr cfg \<Rightarrow>
          (let table = su_order su cfg; discovered = discoverLocal (su_probe su) table in
           case su_mkdir su (su_dirname su (sf_audit_path fl)) of
             Some e \<Rightarrow> Inl (MkdirAudit e)
           | None \<Rightarrow>
          (case su_openlog su (sf_audit_path fl) of
             Some e \<Rightarrow> Inl (OpenAudit e)
           | None \<Rightarrow>
              (let s = NewServer table discovered in
               case seed_cache (su_dial su) table Map.empty of
                 None \<Rightarrow> Inl ChainClient
               | Some cache \<Rightarrow>
                   (let mgr = fst (Hydrate (su_list su) (su_delete su) (su_query su cache)
                                     (NewManager (su_sessions su (sf_sessions_path fl))) (su_profiles su));
                        reg = register_tools (ps_quote P) s []
                    in case publishTools (ps_quote P) (ps_schemas P) reg Map.empty of
                         (sdk, Some e) \<Rightarrow> Inl (PublishFailed e)
                       | (sdk, None) \<Rightarrow>
                           Inr (buildServerInstructions table, cache,
                             \<lparr>gp_server = s, gp_registry = reg, gp_sdk = sdk,
                              gp_world = \<lparr>wo_mgr = mgr, wo_keys = su_keys su, wo_rpc = []\<rparr>, gp_http = [], gp_audit = []\<rparr>))))))"

text \<open>The states of a process that started and served calls.\<close>

inductive running :: "'c process \<Rightarrow> 'd startup \<Rightarrow> serve_flags \<Rightarrow> 'c gnomcp \<Rightarrow> bool" where
  started: "gnomcp_start P su fl = Inr (instructions, cache, g) \<Longrightarrow> running P su fl g"
| served: "running P su fl g \<Longrightarrow> serve P ce name raw g = (g', es, r) \<Longrightarrow> running P su fl g'"

subsection \<open>What each tool is\<close>

definition is_tool :: "tool_decl \<Rightarrow> bool" where
  "is_tool t \<longleftrightarrow> (\<exists>quote s. t \<in> set (registerAllTools quote s))"

text \<open>Name, capability, whether it keeps its own record, whether it is announced read-only.\<close>

definition tool_table :: "(string \<times> capability \<times> bool \<times> bool) list" where
  "tool_table =
     [(''gno_render'', CapBaseRead, False, False), (''gno_eval'', CapBaseRead, False, False), (''gno_read'', CapBaseRead, False, False),
      (''gno_packages'', CapBaseRead, False, True), (''gno_account'', CapBaseRead, False, True), (''gno_status'', CapBaseRead, False, True),
      (''gno_connect'', CapBaseRead, False, True), (''gno_profile_list'', CapBaseRead, False, True),
      (''gno_history'', CapIndexerRead, False, True), (''gno_activity'', CapIndexerRead, False, True),
      (''gno_call'', CapWrite, True, False), (''gno_run'', CapWrite, True, False), (''gno_cla_info'', CapWritePrep, False, True),
      (''gno_cla_sign'', CapWrite, True, False), (''gno_auth_status'', CapWritePrep, False, True),
      (''gno_session_propose'', CapWritePrep, False, False), (''gno_session_revoke'', CapWritePrep, False, False),
      (''gno_addpkg'', CapWrite, True, False), (''gno_key_send'', CapWrite, False, False), (''gno_key_address'', CapBaseRead, False, True),
      (''gno_key_list'', CapBaseRead, False, True), (''gno_key_generate'', CapWrite, False, False),
      (''gno_key_delete'', CapWrite, False, False), (''gno_faucet_fund'', CapWrite, False, False),
      (''gno_profile_add'', CapWritePrep, False, False)]"

lemma tool_in_table:
  assumes "is_tool t"
  shows "(tl_Name t, tl_Capability t, tl_SelfAudited t, an_ReadOnly (tl_Annotations t)) \<in> set tool_table"
proof -
  have "list_all (\<lambda>t. (tl_Name t, tl_Capability t, tl_SelfAudited t, an_ReadOnly (tl_Annotations t)) \<in> set tool_table) (registerAllTools quote s)"
    for quote s
    by (simp add: registerAllTools_def tool_table_def)
  with assms show ?thesis by (auto simp: is_tool_def list_all_iff)
qed

definition world_names :: "string list" where
  "world_names =
     [''gno_render'', ''gno_eval'', ''gno_read'', ''gno_packages'', ''gno_account'', ''gno_status'', ''gno_call'', ''gno_run'', ''gno_cla_sign'', ''gno_auth_status'', ''gno_session_propose'', ''gno_session_revoke'', ''gno_addpkg'', ''gno_key_send'', ''gno_key_address'', ''gno_key_list'', ''gno_key_generate'', ''gno_key_delete'', ''gno_faucet_fund'']"

definition other_names :: "string list" where
  "other_names = [''gno_connect'', ''gno_profile_list'', ''gno_history'', ''gno_activity'', ''gno_cla_info'', ''gno_profile_add'']"

lemma tool_list_names: "map fst (world_tools ce e) = world_names" "map fst (other_tools P ce e) = other_names"
  by (simp_all add: world_tools_def world_names_def other_tools_def other_names_def)

lemma table_split: "list_all (\<lambda>x. (List.member world_names (fst x)) \<noteq> (List.member other_names (fst x))) tool_table"
  by code_simp

lemma tool_handler_world:
  assumes "name \<in> set world_names"
  shows "tool_handler P ce name = Some (\<lambda>a g. on_world (the (map_of (world_tools ce (live_env ce g)) name)) a g)"
proof -
  have "name \<in> fst ` set (world_tools ce (ce_env ce))" using assms by (simp flip: set_map add: tool_list_names)
  then show ?thesis by (simp add: tool_handler_def)
qed

lemma tool_handler_other:
  assumes "name \<notin> set world_names" "name \<in> set other_names"
  shows "tool_handler P ce name = Some (\<lambda>a g. (the (map_of (other_tools P ce (live_env ce g)) name)) a g)"
proof -
  have "name \<notin> fst ` set (world_tools ce (ce_env ce))" "name \<in> fst ` set (other_tools P ce (ce_env ce))"
    using assms by (simp_all flip: set_map add: tool_list_names)
  then show ?thesis by (simp add: tool_handler_def)
qed

lemma tool_split:
  assumes "is_tool t"
  shows "tl_Name t \<in> set world_names \<and> tl_Name t \<notin> set other_names \<or> tl_Name t \<notin> set world_names \<and> tl_Name t \<in> set other_names"
  using tool_in_table [OF assms] table_split by (fastforce simp: list_all_iff)


subsection \<open>The registry and the published tools\<close>

definition gnomcp_ok :: "'c gnomcp \<Rightarrow> bool" where
  "gnomcp_ok g \<longleftrightarrow>
     distinct (map tl_Name (gp_registry g)) \<and> (\<forall>t \<in> set (gp_registry g). is_tool t) \<and>
     (\<forall>n st t. gp_sdk g n = Some (st, t) \<longrightarrow>
        tl_Name t = n \<and> is_tool t \<and> n \<in> tl_Name ` set (gp_registry g) \<and> (\<exists>c. st = sdk_tool_of t c))"

lemma attach_select [simp]:
  "tl_Name (attach P ce t) = tl_Name t" "tl_OutputKind (attach P ce t) = tl_OutputKind t" "tl_Capability (attach P ce t) = tl_Capability t"
  "tl_SelfAudited (attach P ce t) = tl_SelfAudited t" "tl_InputSchema (attach P ce t) = tl_InputSchema t" "tl_Handler (attach P ce t) = tool_handler P ce (tl_Name t)"
  by (simp_all add: attach_def tool_decl.defs tool.defs)

lemma applyProfileDefault_attach [simp]: "applyProfileDefault (attach P ce t) s a = applyProfileDefault t s a"
  by (simp add: applyProfileDefault_def toolAcceptsProfile_def)

lemma Registry_Get_attached:
  assumes "n \<in> tl_Name ` set reg"
  shows "\<exists>t \<in> set reg. tl_Name t = n \<and> Registry_Get (map (attach P ce) reg) n = Some (attach P ce t)"
  using assms by (induction reg) (auto simp: Registry_Get_def)

lemma publish_each_entries:
  "publish_each quote sl ts m = (m', r) \<Longrightarrow> m' n = Some (st, t) \<Longrightarrow>
     m n = Some (st, t) \<or> t \<in> set ts \<and> tl_Name t = n \<and> (\<exists>c. st = sdk_tool_of t c)"
proof (induction ts arbitrary: m)
  case (Cons u us)
  show ?case
  proof (cases "mapToSchema sl (tl_InputSchema u)")
    case (Inr c)
    with Cons.prems(1) have "publish_each quote sl us (m(tl_Name u \<mapsto> (sdk_tool_of u c, u))) = (m', r)" by simp
    from Cons.IH [OF this Cons.prems(2)] show ?thesis by (auto split: if_splits)
  qed (use Cons.prems in simp)
qed simp

lemma gnomcp_ok_register:
  assumes "distinct (map tl_Name reg)" "\<forall>t \<in> set reg. is_tool t"
    and "\<And>n st t. sdk n = Some (st, t) \<Longrightarrow> tl_Name t = n \<and> is_tool t \<and> n \<in> tl_Name ` set reg \<and> (\<exists>c. st = sdk_tool_of t c)"
    and "publishTools quote sl (register_tools quote s reg) sdk = (sdk', err)"
    and "gp_registry g = register_tools quote s reg" "gp_sdk g = sdk'"
  shows "gnomcp_ok g"
proof -
  have d: "distinct (map tl_Name (register_tools quote s reg))" by (rule registered_distinct [OF assms(1)])
  have i: "is_tool t" if "t \<in> set (register_tools quote s reg)" for t
    using that assms(2) by (auto simp: register_tools_mem is_tool_def)
  have e: "tl_Name t = n \<and> is_tool t \<and> n \<in> tl_Name ` set (register_tools quote s reg) \<and> (\<exists>c. st = sdk_tool_of t c)"
    if "sdk' n = Some (st, t)" for n st t
    using publish_each_entries [OF assms(4) [unfolded publishTools_def] that]
  proof
    assume "sdk n = Some (st, t)"
    from assms(3) [OF this] show ?thesis by (simp add: registered_names)
  next
    assume "t \<in> set (Registry_All (register_tools quote s reg)) \<and> tl_Name t = n \<and> (\<exists>c. st = sdk_tool_of t c)"
    then have "t \<in> set (register_tools quote s reg)" "tl_Name t = n" "\<exists>c. st = sdk_tool_of t c" by (simp_all add: Registry_All_def)
    with i show ?thesis by (metis imageI)
  qed
  show ?thesis using d i e by (simp add: gnomcp_ok_def assms(5,6))
qed

lemma started_ok: "gnomcp_start P su fl = Inr (instructions, cache, g) \<Longrightarrow> gnomcp_ok g"
  by (rule gnomcp_ok_register [of "[]" Map.empty "ps_quote P" "ps_schemas P" "gp_server g" "gp_sdk g" None g])
     (auto simp: gnomcp_start_def Let_def split: sum.splits option.splits prod.splits)

subsection \<open>One call, taken apart\<close>

lemma profile_add_shape:
  assumes "profile_add_tool P ce a g = (g', es, out)"
  shows "es = [] \<and> gp_world g' = gp_world g \<and> gp_http g' = gp_http g \<and> gp_audit g' = gp_audit g \<and>
     (gp_server g' = gp_server g \<or> (\<exists>n p. gp_server g' = fst (AddDynamicProfile n p (gp_server g)))) \<and>
     (gp_registry g' = gp_registry g \<and> gp_sdk g' = gp_sdk g \<or>
      (\<exists>err. onProfileAdded P (gp_server g') g = (gp_registry g', gp_sdk g', err)))"
proof -
  let ?lb = "(ce_admin ce)\<lparr>al_republish := (\<lambda>s. snd (snd (onProfileAdded P s g)))\<rparr>"
  obtain s r where h: "profileAddHandler ?lb (ce_order ce) a (gp_server g) = (s, r)" by force
  have s: "s = gp_server g \<or> (\<exists>n p. s = fst (AddDynamicProfile n p (gp_server g)))"
    using profileAddHandler_cases [OF h] by blast
  obtain reg sdk err where o: "onProfileAdded P s g = (reg, sdk, err)" using prod_cases3 by blast
  show ?thesis
  proof (cases "announced r")
    case True
    then have g: "g' = g\<lparr>gp_server := s, gp_registry := reg, gp_sdk := sdk\<rparr>" "es = []"
      using assms o unfolding profile_add_tool_def Let_def h by simp_all
    have "onProfileAdded P (gp_server g') g = (gp_registry g', gp_sdk g', err)" using o unfolding g by simp
    moreover have "gp_server g' = s" unfolding g by simp
    ultimately show ?thesis using s unfolding g by simp
  next
    case False
    then have g: "g' = g\<lparr>gp_server := s\<rparr>" "es = []" using assms unfolding profile_add_tool_def Let_def h by simp_all
    then have "gp_server g' = s" by simp
    with s show ?thesis unfolding g by simp
  qed
qed

lemma only_answer_same: "only_answer h a g = (g', es, out) \<Longrightarrow> g' = g \<and> es = []"
  by (simp add: only_answer_def)

lemma on_http_shape: "on_http h a g = (g', es, out) \<Longrightarrow> (\<exists>l. g' = g\<lparr>gp_http := l\<rparr>) \<and> es = []"
  by (auto simp: on_http_def split: prod.splits)

lemma other_tools_lookup:
  "the (map_of (other_tools P ce e) ''gno_connect'') = only_answer (connectHandler (ce_admin ce))"
  "the (map_of (other_tools P ce e) ''gno_profile_list'') = only_answer (\<lambda>a. Inr (profileListHandler (en_server e)))"
  "the (map_of (other_tools P ce e) ''gno_history'') = on_http (historyHandler e (ce_gql ce) (indexer_url (en_server e)))"
  "the (map_of (other_tools P ce e) ''gno_activity'') = on_http (activityHandler e (ce_gql ce) (indexer_url (en_server e)))"
  "the (map_of (other_tools P ce e) ''gno_cla_info'') = only_answer (claInfoHandler e (ce_cla_render ce) claHashRe claURLRe)"
  "the (map_of (other_tools P ce e) ''gno_profile_add'') = profile_add_tool P ce"
  by (simp_all add: other_tools_def)

lemma other_tools_shape:
  assumes "name \<in> set other_names" "the (map_of (other_tools P ce e) name) a g = (g', es, out)"
  shows "es = [] \<and> (g' = g \<or> (\<exists>l. g' = g\<lparr>gp_http := l\<rparr>) \<or> name = ''gno_profile_add'' \<and> profile_add_tool P ce a g = (g', es, out))"
proof -
  from assms(1) consider "name = ''gno_connect''" | "name = ''gno_profile_list''" | "name = ''gno_cla_info''" | "name = ''gno_history''"
    | "name = ''gno_activity''" | "name = ''gno_profile_add''" unfolding other_names_def by (simp only: list.set insert_iff empty_iff) fast
  then show ?thesis
  proof cases
    case 1 show ?thesis using only_answer_same [OF assms(2) [unfolded 1 other_tools_lookup]] by simp
  next
    case 2 show ?thesis using only_answer_same [OF assms(2) [unfolded 2 other_tools_lookup]] by simp
  next
    case 3 show ?thesis using only_answer_same [OF assms(2) [unfolded 3 other_tools_lookup]] by simp
  next
    case 4 show ?thesis using on_http_shape [OF assms(2) [unfolded 4 other_tools_lookup]] by simp
  next
    case 5 show ?thesis using on_http_shape [OF assms(2) [unfolded 5 other_tools_lookup]] by simp
  next
    case 6
    note h = assms(2) [unfolded 6 other_tools_lookup]
    show ?thesis using profile_add_shape [OF h] h 6 by simp
  qed
qed

text \<open>What a served call ran: nothing, or the handler of the published tool's name with the arguments after defaulting.\<close>

definition logged :: "call_env \<Rightarrow> audit_entry list \<Rightarrow> audit_entry list \<Rightarrow> audit_entry list" where
  "logged ce es l = fold (\<lambda>en. Record (ce_log_fails ce en) en) es l"

definition call_ran ::
  "'c process \<Rightarrow> call_env \<Rightarrow> tool_decl \<Rightarrow> (string + args) option \<Rightarrow> 'c gnomcp \<Rightarrow> 'c gnomcp \<Rightarrow> audit_entry list \<Rightarrow> bool" where
  "call_ran P ce t raw g g' es \<longleftrightarrow>
     (\<exists>h a g1 es1 out extra. tool_handler P ce (tl_Name t) = Some h \<and>
        a = applyProfileDefault t (gp_server g) (case raw of Some (Inr a0) \<Rightarrow> a0 | _ \<Rightarrow> Map.empty) \<and>
        h a g = (g1, es1, out) \<and> es = es1 @ extra \<and> (\<forall>en \<in> set extra. ae_Tool en = tl_Name t) \<and>
        (extra \<noteq> [] \<longleftrightarrow> shouldAuditAtAdapter (tl_Capability t) (tl_SelfAudited t) (ps_auditReads P)) \<and>
        g' = g1\<lparr>gp_audit := logged ce es (gp_audit g1)\<rparr>)"

lemma adapter_entry:
  assumes "Registry_Call quote reg (tl_Name t) (applyProfileDefault t sv (case raw of Some (Inr a0) \<Rightarrow> a0 | _ \<Rightarrow> Map.empty)) s = (s1, es1, res)"
    and "\<nexists>e. raw = Some (Inl e)"
  shows "\<exists>extra r. makeHandler quote marshal t reg sv reads raw s = (s1, es1 @ extra, r) \<and> (\<forall>en \<in> set extra. ae_Tool en = tl_Name t) \<and>
     (extra \<noteq> [] \<longleftrightarrow> shouldAuditAtAdapter (tl_Capability t) (tl_SelfAudited t) reads)"
  using assms by (cases raw) (auto simp: makeHandler_def Let_def split: sum.splits)

lemma serve_ran:
  assumes "gnomcp_ok g" "serve P ce name raw g = (g', es, r)"
  shows "(gp_sdk g name = None \<or> (\<exists>e. raw = Some (Inl e))) \<and> g' = g \<and> es = [] \<or>
     (\<exists>st t. gp_sdk g name = Some (st, t) \<and> tl_Name t = name \<and> is_tool t \<and> call_ran P ce t raw g g' es)"
proof (cases "gp_sdk g name")
  case None
  then show ?thesis using assms(2) by (simp add: serve_def)
next
  case (Some p)
  then obtain st t where p: "gp_sdk g name = Some (st, t)" by (cases p) auto
  with assms(1) have t: "tl_Name t = name" "is_tool t" "name \<in> tl_Name ` set (gp_registry g)" by (auto simp: gnomcp_ok_def)
  obtain u where u: "u \<in> set (gp_registry g)" "tl_Name u = name"
      "Registry_Get (map (attach P ce) (gp_registry g)) name = Some (attach P ce u)"
    using Registry_Get_attached [OF t(3)] by blast
  obtain h where h: "tool_handler P ce name = Some h"
    using tool_split [OF t(2)] tool_handler_world [of name P ce] tool_handler_other [of name P ce] unfolding t(1) by blast
  show ?thesis
  proof (cases "\<exists>e. raw = Some (Inl e)")
    case True
    then show ?thesis using assms(2) p by (auto simp: serve_def makeHandler_def)
  next
    case False
    let ?a = "applyProfileDefault t (gp_server g) (case raw of Some (Inr a0) \<Rightarrow> a0 | _ \<Rightarrow> Map.empty)"
    obtain g1 es1 out where o: "h ?a g = (g1, es1, out)" using prod_cases3 by blast
    obtain res where c: "Registry_Call (ps_quote P) (map (attach P ce) (gp_registry g)) name ?a g = (g1, es1, res)"
      by (simp add: Registry_Call_def u(2,3) h o)
    obtain extra r1 where m: "makeHandler (ps_quote P) (ps_marshal P) (attach P ce t) (map (attach P ce) (gp_registry g)) (gp_server g)
          (ps_auditReads P) raw g = (g1, es1 @ extra, r1)"
        "\<forall>en \<in> set extra. ae_Tool en = name"
        "extra \<noteq> [] \<longleftrightarrow> shouldAuditAtAdapter (tl_Capability t) (tl_SelfAudited t) (ps_auditReads P)"
      using adapter_entry [OF c [folded t(1), folded attach_select(1) [of P ce] applyProfileDefault_attach [of P ce]] False, of "ps_marshal P" "ps_auditReads P"] t(1)
      by auto
    have "es = es1 @ extra" "g' = g1\<lparr>gp_audit := logged ce (es1 @ extra) (gp_audit g1)\<rparr>"
      using assms(2) by (auto simp: serve_def p m(1) logged_def)
    then have "call_ran P ce t raw g g' es"
      unfolding call_ran_def using h o m(2,3) t(1) by (intro exI [of _ h] exI [of _ ?a] exI [of _ g1] exI [of _ es1] exI [of _ out] exI [of _ extra]) simp
    with p t show ?thesis by blast
  qed
qed

lemma serve_cases:
  assumes "gnomcp_ok g" "serve P ce name raw g = (g', es, r)"
  shows "g' = g \<and> es = [] \<or> (\<exists>st t. gp_sdk g name = Some (st, t) \<and> tl_Name t = name \<and> is_tool t \<and> call_ran P ce t raw g g' es)"
  using serve_ran [OF assms] by blast


subsection \<open>What a tool may do, and answer for\<close>

text \<open>
  The contract of a handler over the world, under what its declaration says: a call commits at most one
  transaction, and only if the tool is a chain write; what it writes to the log names the tool, and a
  tool that keeps its own record writes one; a tool announced read-only leaves the keys alone, and, but for the status tool, the sessions.
\<close>

locale accountable =
  fixes name :: string and cap :: capability and self ro :: bool and h :: "world handler"
  assumes at_most_one: "h a w = (w', es, out) \<Longrightarrow> length (writes (wo_rpc w) (wo_rpc w')) \<le> 1"
    and only_writers: "h a w = (w', es, out) \<Longrightarrow> cap \<noteq> CapWrite \<Longrightarrow> writes (wo_rpc w) (wo_rpc w') = []"
    and own_records: "h a w = (w', es, out) \<Longrightarrow> (\<forall>en \<in> set es. ae_Tool en = name) \<and> (self \<longrightarrow> es \<noteq> [])"
    and keys_kept: "h a w = (w', es, out) \<Longrightarrow> ro \<Longrightarrow> wo_keys w' = wo_keys w"
    and sessions_kept: "h a w = (w', es, out) \<Longrightarrow> ro \<Longrightarrow> name \<noteq> ''gno_auth_status'' \<Longrightarrow> wo_mgr w' = wo_mgr w"
begin

text \<open>Together with the adapter's line, every transaction of a call has a record of its own.\<close>

lemma accounted:
  assumes "h a w = (w', es, out)" "\<forall>en \<in> set extra. ae_Tool en = name" "extra \<noteq> [] \<longleftrightarrow> shouldAuditAtAdapter cap self reads"
  shows "subseq (map (\<lambda>ev. name) (writes (wo_rpc w) (wo_rpc w'))) (map ae_Tool (es @ extra))"
proof (cases "writes (wo_rpc w) (wo_rpc w')")
  case (Cons ev evs)
  then have w: "evs = []" "cap = CapWrite" using at_most_one [OF assms(1)] only_writers [OF assms(1)] by auto
  have "es @ extra \<noteq> []"
  proof (cases self)
    case True
    then show ?thesis using own_records [OF assms(1)] by simp
  next
    case False
    then show ?thesis using assms(3) w(2) by (simp add: shouldAuditAtAdapter_def)
  qed
  moreover have "\<forall>en \<in> set (es @ extra). ae_Tool en = name" using own_records [OF assms(1)] assms(2) by auto
  ultimately obtain en rest where "es @ extra = en # rest" "ae_Tool en = name" by (cases "es @ extra") auto
  with Cons w(1) show ?thesis by simp
qed simp

end

lemma self_accountable:
  assumes "\<And>a w. audit_true name (Q a w) w (body a w)"
  shows "accountable name CapWrite True False (self_audited body)"
proof
  fix a w w' es out assume h: "self_audited body a w = (w', es, out)"
  have w: "w' = fst (body a w)" by (rule audited_world [OF h])
  show "length (writes (wo_rpc w) (wo_rpc w')) \<le> 1" unfolding w by (rule audited_one [OF assms])
  have "\<exists>en. es = [en] \<and> ae_Tool en = name"
    using h assms [of a w] by (cases "body a w") (auto simp: self_audited_def audit_true_def split: sum.splits)
  then show "(\<forall>en \<in> set es. ae_Tool en = name) \<and> (True \<longrightarrow> es \<noteq> [])" by auto
qed auto

lemma plain_accountable:
  assumes "\<And>a w. length (writes (wo_rpc w) (wo_rpc (fst (body a w)))) \<le> 1"
    and "\<And>a w. cap \<noteq> CapWrite \<Longrightarrow> writes (wo_rpc w) (wo_rpc (fst (body a w))) = []"
    and "\<And>a w. ro \<Longrightarrow> wo_keys (fst (body a w)) = wo_keys w"
    and "\<And>a w. ro \<Longrightarrow> name \<noteq> ''gno_auth_status'' \<Longrightarrow> wo_mgr (fst (body a w)) = wo_mgr w"
  shows "accountable name cap False ro (plain_handler body)"
  using assms by unfold_locales (auto dest: plain_world plain_handler_records)

lemma reading_accountable:
  assumes "\<And>a w. only_read w (fst (body a w))"
  shows "accountable name cap False ro (plain_handler body)"
proof (rule plain_accountable)
  fix a w
  obtain h where h: "fst (body a w) = w\<lparr>wo_rpc := h\<rparr>" "writes (wo_rpc w) h = []" using assms [of w a] by (auto simp: only_read_def)
  then show "length (writes (wo_rpc w) (wo_rpc (fst (body a w)))) \<le> 1" "writes (wo_rpc w) (wo_rpc (fst (body a w))) = []"
    "wo_keys (fst (body a w)) = wo_keys w" "wo_mgr (fst (body a w)) = wo_mgr w" by simp_all
qed

interpretation render_acc: accountable "''gno_render''" CapBaseRead False False "renderHandler e rl"
  unfolding renderHandler_def by (rule reading_accountable [OF only_read_render])
interpretation eval_acc: accountable "''gno_eval''" CapBaseRead False False "evalHandler e rl"
  unfolding evalHandler_def by (rule reading_accountable [OF only_read_eval])
interpretation read_acc: accountable "''gno_read''" CapBaseRead False False "readHandler e rl"
  unfolding readHandler_def by (rule reading_accountable [OF only_read_read])
interpretation packages_acc: accountable "''gno_packages''" CapBaseRead False True "packagesHandler e rl"
  unfolding packagesHandler_def by (rule reading_accountable [OF only_read_packages])
interpretation account_acc: accountable "''gno_account''" CapBaseRead False True "accountHandler e rl"
  unfolding accountHandler_def by (rule reading_accountable [OF only_read_account])
interpretation status_acc: accountable "''gno_status''" CapBaseRead False True "statusHandler e rl"
  unfolding statusHandler_def by (rule reading_accountable [OF only_read_status])
interpretation call_acc: accountable "''gno_call''" CapWrite True False "callHandler e"
  unfolding callHandler_def by (rule self_accountable [OF call_body_true])
interpretation run_acc: accountable "''gno_run''" CapWrite True False "runHandler e"
  unfolding runHandler_def by (rule self_accountable [OF run_body_true])

lemma agent_accountable:
  assumes "\<And>a w. length (writes (wo_rpc w) (wo_rpc (fst (body a w)))) \<le> 1 \<and> ae_Tool (fst (snd (body a w))) = name"
  shows "accountable name CapWrite self False (self_audited body)"
proof
  fix a w w' es out assume h: "self_audited body a w = (w', es, out)"
  have w: "w' = fst (body a w)" by (rule audited_world [OF h])
  show "length (writes (wo_rpc w) (wo_rpc w')) \<le> 1" using assms [of w a] unfolding w by simp
  have "es = [fst (snd (body a w))]" using h by (auto simp: self_audited_def split: prod.splits sum.splits)
  then show "(\<forall>en \<in> set es. ae_Tool en = name) \<and> (self \<longrightarrow> es \<noteq> [])" using assms [of w a] by simp
qed auto

interpretation addpkg_acc: accountable "''gno_addpkg''" CapWrite True False "addpkgHandler e"
  unfolding addpkgHandler_def
proof (rule agent_accountable)
  fix a w
  obtain x where x: "addpkg_body e production_wait a w = Some x" "addpkg_true e a w x" using addpkg_body_true by blast
  from agent_tools_one(1) [OF x(2)] x(2)
  show "length (writes (wo_rpc w) (wo_rpc (fst (the (addpkg_body e production_wait a w))))) \<le> 1 \<and>
      ae_Tool (fst (snd (the (addpkg_body e production_wait a w)))) = ''gno_addpkg''"
    by (auto simp: x(1) addpkg_true_def split: prod.splits)
qed

interpretation cla_acc: accountable "''gno_cla_sign''" CapWrite True False "claSignHandler e"
  unfolding claSignHandler_def
proof (rule agent_accountable)
  fix a w
  from agent_tools_one(2) [OF cla_body_true] cla_body_true [of e a w]
  show "length (writes (wo_rpc w) (wo_rpc (fst (cla_sign_body e a w)))) \<le> 1 \<and> ae_Tool (fst (snd (cla_sign_body e a w))) = ''gno_cla_sign''"
    by (auto simp: cla_true_def split: prod.splits)
qed

interpretation send_acc: accountable "''gno_key_send''" CapWrite False False "keySendHandler e oor f64"
  unfolding keySendHandler_def
proof (rule agent_accountable)
  fix a w
  from agent_tools_one(3) [OF key_send_body_true] key_send_body_true [of e oor f64 a w]
  show "length (writes (wo_rpc w) (wo_rpc (fst (key_send_body e oor f64 a w)))) \<le> 1 \<and>
      ae_Tool (fst (snd (key_send_body e oor f64 a w))) = ''gno_key_send''"
    by (auto simp: send_true_def split: prod.splits)
qed

interpretation delete_acc: accountable "''gno_key_delete''" CapWrite False False "keyDeleteHandler e"
  unfolding keyDeleteHandler_def using delete_one [OF key_delete_body_true] by (intro plain_accountable) auto

interpretation faucet_acc: accountable "''gno_faucet_fund''" CapWrite False False "faucetFundHandler e hc"
  unfolding faucetFundHandler_def using faucet_quiet by (intro plain_accountable) (auto simp: quiet_step_def)

lemma propose_quiet: "writes (wo_rpc w) (wo_rpc (fst (propose_body e pe a w))) = []"
  using propose_body_outcome [of e pe a w] by (auto simp: propose_outcome_def split: prod.splits)

interpretation propose_acc: accountable "''gno_session_propose''" CapWritePrep False False "sessionProposeHandler e pe"
  unfolding sessionProposeHandler_def by (intro plain_accountable) (simp_all add: propose_quiet)

interpretation revoke_acc: accountable "''gno_session_revoke''" CapWritePrep False False "sessionRevokeHandler e"
  unfolding sessionRevokeHandler_def using revoke_quiet by (intro plain_accountable) (auto simp: quiet_step_def)

lemma auth_keys: "wo_keys (fst (auth_body e a w)) = wo_keys w"
  by (auto simp: auth_body_def Let_def split: sum.splits prod.splits)

interpretation auth_acc: accountable "''gno_auth_status''" CapWritePrep False True "authStatusHandler e"
  unfolding authStatusHandler_def by (intro plain_accountable) (simp_all add: auth_rpc auth_keys writes_def)

lemma keys_same:
  "keyAddrHandler e a w = (w', es, out) \<Longrightarrow> w' = w \<and> es = []" "keyListHandler e a w = (w', es, out) \<Longrightarrow> w' = w \<and> es = []"
  by (auto simp: keyAddrHandler_def keyListHandler_def dest: plain_world plain_handler_records)

interpretation keyaddr_acc: accountable "''gno_key_address''" CapBaseRead False True "keyAddrHandler e"
  by unfold_locales (auto dest: keys_same simp: writes_def)
interpretation keylist_acc: accountable "''gno_key_list''" CapBaseRead False True "keyListHandler e"
  by unfold_locales (auto dest: keys_same simp: writes_def)
interpretation keygen_acc: accountable "''gno_key_generate''" CapWrite False False "keyGenHandler e salt nonce fresh"
proof
  fix a w w' es out assume h: "keyGenHandler e salt nonce fresh a w = (w', es, out)"
  from keys_quiet(1) [OF h] show "length (writes (wo_rpc w) (wo_rpc w')) \<le> 1" by (simp add: quiet_step_def)
  show "(\<forall>en \<in> set es. ae_Tool en = ''gno_key_generate'') \<and> (False \<longrightarrow> es \<noteq> [])"
    using keygen_audited.records [OF h] by simp
qed auto

lemmas accountable_tools = render_acc.accountable_axioms eval_acc.accountable_axioms read_acc.accountable_axioms packages_acc.accountable_axioms account_acc.accountable_axioms status_acc.accountable_axioms call_acc.accountable_axioms run_acc.accountable_axioms addpkg_acc.accountable_axioms cla_acc.accountable_axioms send_acc.accountable_axioms delete_acc.accountable_axioms faucet_acc.accountable_axioms propose_acc.accountable_axioms revoke_acc.accountable_axioms auth_acc.accountable_axioms keyaddr_acc.accountable_axioms keylist_acc.accountable_axioms keygen_acc.accountable_axioms

lemma tools_listed: "list_all (\<lambda>x. map_of tool_table (fst x) = Some (snd x)) tool_table"
  by code_simp

lemma world_tools_accountable:
  assumes "name \<in> set world_names" "(name, cap, self, ro) \<in> set tool_table"
  shows "accountable name cap self ro (the (map_of (world_tools ce e) name))"
proof -
  have all: "list_all (\<lambda>(n, h). case the (map_of tool_table n) of (cap, self, ro) \<Rightarrow> accountable n cap self ro h) (world_tools ce e)"
    by (simp add: world_tools_def tool_table_def accountable_tools)
  have "name \<in> fst ` set (world_tools ce e)" using assms(1) by (simp flip: set_map add: tool_list_names)
  then obtain h where h: "map_of (world_tools ce e) name = Some h" by (metis map_of_eq_None_iff not_Some_eq)
  then have "(name, h) \<in> set (world_tools ce e)" by (rule map_of_SomeD)
  moreover have "map_of tool_table name = Some (cap, self, ro)" using assms(2) tools_listed by (auto simp: list_all_iff)
  ultimately show ?thesis using all h by (auto simp: list_all_iff)
qed


subsection \<open>Every call\<close>

lemma gnomcp_ok_same: "gp_registry g' = gp_registry g \<Longrightarrow> gp_sdk g' = gp_sdk g \<Longrightarrow> gnomcp_ok g' = gnomcp_ok g"
  by (simp add: gnomcp_ok_def)

lemma gnomcp_ok_profile_add:
  assumes "gnomcp_ok g" "profile_add_tool P ce a g = (g1, es, out)"
  shows "gnomcp_ok g1"
proof -
  note s = profile_add_shape [OF assms(2)]
  show ?thesis
  proof (cases "gp_registry g1 = gp_registry g \<and> gp_sdk g1 = gp_sdk g")
    case True
    then show ?thesis using gnomcp_ok_same [of g1 g] assms(1) by simp
  next
    case False
    then obtain err where o: "onProfileAdded P (gp_server g1) g = (gp_registry g1, gp_sdk g1, err)" using s by blast
    then have p: "publishTools (ps_quote P) (ps_schemas P) (register_tools (ps_quote P) (gp_server g1) (gp_registry g)) (gp_sdk g) = (gp_sdk g1, err)"
      and r: "gp_registry g1 = register_tools (ps_quote P) (gp_server g1) (gp_registry g)"
      by (auto simp: onProfileAdded_def Let_def)
    show ?thesis
      by (rule gnomcp_ok_register [OF _ _ _ p r refl]) (use assms(1) in \<open>auto simp: gnomcp_ok_def\<close>)
  qed
qed

text \<open>A call of a tool over the world leaves the table and the tools; the others send no transaction and keep no record.\<close>

lemma call_ran_cases:
  assumes "is_tool t" "call_ran P ce t raw g g' es"
  obtains (world) h a w es1 out extra where
      "h = the (map_of (world_tools ce (live_env ce g)) (tl_Name t))" "tl_Name t \<in> set world_names" "h a (gp_world g) = (w, es1, out)"
      "es = es1 @ extra" "\<forall>en \<in> set extra. ae_Tool en = tl_Name t"
      "extra \<noteq> [] \<longleftrightarrow> shouldAuditAtAdapter (tl_Capability t) (tl_SelfAudited t) (ps_auditReads P)"
      "g' = g\<lparr>gp_world := w, gp_audit := logged ce es (gp_audit g)\<rparr>"
    | (other) g1 a out where "gp_world g1 = gp_world g" "gp_audit g1 = gp_audit g" "g' = g1\<lparr>gp_audit := logged ce es (gp_audit g)\<rparr>"
      "\<forall>en \<in> set es. ae_Tool en = tl_Name t"
      "gp_server g1 = gp_server g \<and> gp_registry g1 = gp_registry g \<and> gp_sdk g1 = gp_sdk g \<or>
       tl_Name t = ''gno_profile_add'' \<and> profile_add_tool P ce a g = (g1, [], out)"
proof -
  obtain h a g1 es1 out extra where h: "tool_handler P ce (tl_Name t) = Some h" "h a g = (g1, es1, out)" "es = es1 @ extra"
      "\<forall>en \<in> set extra. ae_Tool en = tl_Name t"
      "extra \<noteq> [] \<longleftrightarrow> shouldAuditAtAdapter (tl_Capability t) (tl_SelfAudited t) (ps_auditReads P)"
      "g' = g1\<lparr>gp_audit := logged ce es (gp_audit g1)\<rparr>"
    using assms(2) unfolding call_ran_def by (elim exE conjE) (rule that)
  show thesis
  proof (cases "tl_Name t \<in> set world_names")
    case True
    let ?h = "the (map_of (world_tools ce (live_env ce g)) (tl_Name t))"
    have hd: "h = (\<lambda>a g. on_world (the (map_of (world_tools ce (live_env ce g)) (tl_Name t))) a g)"
      using h(1) tool_handler_world [OF True, of P ce] by simp
    have "on_world ?h a g = (g1, es1, out)" using h(2) unfolding hd .
    then obtain w where w: "?h a (gp_world g) = (w, es1, out)" "g1 = g\<lparr>gp_world := w\<rparr>" by (auto simp: on_world_def split: prod.splits)
    show thesis by (rule world [OF refl True w(1) h(3,4,5)]) (use h(6) w(2) in simp)
  next
    case False
    then have o: "tl_Name t \<in> set other_names" using tool_split [OF assms(1)] by blast
    have r: "the (map_of (other_tools P ce (live_env ce g)) (tl_Name t)) a g = (g1, es1, out)"
    proof -
      have hd: "h = (\<lambda>a g. (the (map_of (other_tools P ce (live_env ce g)) (tl_Name t))) a g)"
        using h(1) tool_handler_other [OF False o, of P ce] by simp
      show ?thesis using h(2) unfolding hd .
    qed
    note s = other_tools_shape [OF o r]
    have e: "es1 = []" using s by simp
    have same: "gp_world g1 = gp_world g \<and> gp_audit g1 = gp_audit g" using s profile_add_shape [of P ce a g g1 es1 out] by auto
    show thesis
    proof (rule other)
      show "gp_world g1 = gp_world g" "gp_audit g1 = gp_audit g" using same by simp_all
      show "g' = g1\<lparr>gp_audit := logged ce es (gp_audit g)\<rparr>" using h(6) same by simp
      show "\<forall>en \<in> set es. ae_Tool en = tl_Name t" using h(3,4) e by simp
      show "gp_server g1 = gp_server g \<and> gp_registry g1 = gp_registry g \<and> gp_sdk g1 = gp_sdk g \<or>
          tl_Name t = ''gno_profile_add'' \<and> profile_add_tool P ce a g = (g1, [], out)"
        using s e by auto
    qed
  qed
qed

definition txs_of :: "'c gnomcp \<Rightarrow> 'c gnomcp \<Rightarrow> event list" where
  "txs_of g g' = writes (wo_rpc (gp_world g)) (wo_rpc (gp_world g'))"

lemma txs_of_same [simp]: "gp_world g' = gp_world g \<Longrightarrow> txs_of g g' = []"
  by (simp add: txs_of_def writes_def)

lemma serve_accounted:
  assumes "gnomcp_ok g" "serve P ce name raw g = (g', es, r)"
  shows "gnomcp_ok g' \<and> gp_audit g' = logged ce es (gp_audit g) \<and> subseq (map (\<lambda>ev. name) (txs_of g g')) (map ae_Tool es)"
  using serve_cases [OF assms]
proof (elim disjE exE conjE)
  assume "g' = g" "es = []"
  then show ?thesis using assms(1) by (simp add: logged_def)
next
  fix st t assume t: "tl_Name t = name" "is_tool t" "call_ran P ce t raw g g' es"
  from t(2,3) show ?thesis
  proof (cases rule: call_ran_cases)
    case (world h a w es1 out extra)
    have "accountable name (tl_Capability t) (tl_SelfAudited t) (an_ReadOnly (tl_Annotations t)) h"
      unfolding world(1) t(1) using world_tools_accountable tool_in_table [OF t(2)] world(2) unfolding t(1) by blast
    from accountable.accounted [OF this world(3) world(5) [unfolded t(1)] world(6)]
    have "subseq (map (\<lambda>ev. name) (txs_of g g')) (map ae_Tool es)" unfolding world(4,7) txs_of_def by simp
    moreover have "gnomcp_ok g'" using gnomcp_ok_same [of g' g] assms(1) world(7) by simp
    ultimately show ?thesis using world(7) by simp
  next
    case (other g1 a out)
    have "gnomcp_ok g1" using other(5) gnomcp_ok_profile_add [OF assms(1)] gnomcp_ok_same [of g1 g] assms(1) by blast
    then have "gnomcp_ok g'" using gnomcp_ok_same [of g' g1] other(3) by simp
    moreover have "txs_of g g' = []" using other(1,3) by simp
    ultimately show ?thesis using other(3) by simp
  qed
qed

lemma running_ok: "running P su fl g \<Longrightarrow> gnomcp_ok g"
  by (induction rule: running.induct) (auto intro: started_ok dest: serve_accounted)

subsection \<open>Properties\<close>

text \<open>A run of calls during which the disk takes every line of the log, with the transactions it committed, each under the name of its tool.\<close>

inductive logged_run :: "'c process \<Rightarrow> 'c gnomcp \<Rightarrow> (string \<times> event) list \<Rightarrow> 'c gnomcp \<Rightarrow> bool" where
  no_call: "logged_run P g [] g"
| next_call: "logged_run P g txs g1 \<Longrightarrow> serve P ce name raw g1 = (g2, es, r) \<Longrightarrow> (\<And>en. \<not> ce_log_fails ce en) \<Longrightarrow>
    logged_run P g (txs @ map (Pair name) (txs_of g1 g2)) g2"

lemma logged_all: "(\<And>en. \<not> ce_log_fails ce en) \<Longrightarrow> logged ce es l = l @ es"
  unfolding logged_def by (induction es arbitrary: l) (simp_all add: Record_def Append_def)

text \<open>
  C1. No transaction goes unrecorded. Over the whole life of a server, whatever its clients send in whatever
  order and whatever nodes and disk answer, as long as the disk takes the log's lines the log has, for each
  transaction broadcast and in the same order, a record of its own that names the tool that made it.
\<close>

theorem transactions_logged:
  assumes "gnomcp_start P su fl = Inr (instructions, cache, g0)" "logged_run P g0 txs g"
  shows "subseq (map fst txs) (map ae_Tool (gp_audit g))"
proof -
  have "gnomcp_ok g0" by (rule started_ok [OF assms(1)])
  with assms(2) have "gnomcp_ok g \<and> subseq (map fst txs) (map ae_Tool (gp_audit g))"
  proof (induction rule: logged_run.induct)
    case (next_call P g txs g1 ce name raw g2 es r)
    then have g1: "gnomcp_ok g1" "subseq (map fst txs) (map ae_Tool (gp_audit g1))" by simp_all
    note s = serve_accounted [OF g1(1) next_call.hyps(2)]
    have a: "gp_audit g2 = gp_audit g1 @ es" using s logged_all [of ce es, OF next_call.hyps(3)] by simp
    have "subseq (map fst txs @ map (\<lambda>ev. name) (txs_of g1 g2)) (map ae_Tool (gp_audit g1) @ map ae_Tool es)"
      using s g1(2) by (intro list_emb_append_mono) simp_all
    with a s show ?case by (simp add: comp_def)
  qed simp
  then show ?thesis by simp
qed

text \<open>
  C11. A tool announced read-only is. Whatever reachable state the server is in and whatever such a
  tool is given, its call commits no transaction, touches no key, adds no profile and republishes no tool; only
  gno\_auth\_status may bring the sessions up to date with what the chain reports.
\<close>

theorem read_only_hint_true:
  assumes "running P su fl g" "gp_sdk g name = Some (st, t)" "sdk_ReadOnlyHint (st_Annotations st)"
    and "serve P ce name raw g = (g', es, r)"
  shows "txs_of g g' = [] \<and> wo_keys (gp_world g') = wo_keys (gp_world g) \<and> gp_server g' = gp_server g \<and> gp_sdk g' = gp_sdk g \<and>
     (name \<noteq> ''gno_auth_status'' \<longrightarrow> wo_mgr (gp_world g') = wo_mgr (gp_world g))"
proof -
  have ok: "gnomcp_ok g" by (rule running_ok [OF assms(1)])
  obtain c where t: "tl_Name t = name" "is_tool t" "st = sdk_tool_of t c" using ok assms(2) unfolding gnomcp_ok_def by blast
  have ro: "an_ReadOnly (tl_Annotations t)" using assms(3) t(3) by (simp add: sdk_tool_of_def toSDKAnnotations_def)
  note row = tool_in_table [OF t(2), unfolded t(1), simplified ro]
  have cap: "tl_Capability t \<noteq> CapWrite" using t(2) ro tools_hints by (auto simp: is_tool_def list_all_iff hints_ok_def)
  have n: "name \<noteq> ''gno_profile_add''" using row by (auto simp: tool_table_def)
  from serve_cases [OF ok assms(4)] show ?thesis
  proof (elim disjE exE conjE)
    assume "g' = g"
    then show ?thesis by simp
  next
    fix st' t' assume u: "gp_sdk g name = Some (st', t')" "call_ran P ce t' raw g g' es"
    then have "call_ran P ce t raw g g' es" using assms(2) by simp
    with t(2) show ?thesis
    proof (cases rule: call_ran_cases)
      case (world h a w es1 out extra)
      have acc: "accountable name (tl_Capability t) (tl_SelfAudited t) True h"
        unfolding world(1) t(1) using world_tools_accountable [OF _ row] world(2) unfolding t(1) by blast
      show ?thesis
        using accountable.only_writers [OF acc world(3) cap] accountable.keys_kept [OF acc world(3)]
          accountable.sessions_kept [OF acc world(3)] unfolding world(7) txs_of_def by simp
    next
      case (other g1 a out)
      have same: "gp_server g1 = gp_server g" "gp_sdk g1 = gp_sdk g" using other(5) n t(1) by auto
      have "txs_of g g' = []" using other(1,3) by simp
      then show ?thesis using other(1,3) same by simp
    qed
  qed
qed

lemma started_shape:
  assumes "gnomcp_start P su fl = Inr (instructions, cache, g)"
    and "su_load su (resolveSources (su_env su) (su_home su) (sf_config fl)) = Inr cfg"
    and "s0 = NewServer (su_order su cfg) (discoverLocal (su_probe su) (su_order su cfg))"
  shows "gp_server g = s0 \<and> gp_registry g = register_tools (ps_quote P) s0 [] \<and>
     publishTools (ps_quote P) (ps_schemas P) (register_tools (ps_quote P) s0 []) Map.empty = (gp_sdk g, None) \<and>
     seed_cache (su_dial su) (su_order su cfg) Map.empty = Some cache \<and> instructions = buildServerInstructions (su_order su cfg) \<and>
     gp_world g = \<lparr>wo_mgr = fst (Hydrate (su_list su) (su_delete su) (su_query su cache) (NewManager (su_sessions su (sf_sessions_path fl)))
         (su_profiles su)), wo_keys = su_keys su, wo_rpc = []\<rparr> \<and> gp_audit g = []"
  using assms by (auto simp: gnomcp_start_def Let_def split: option.splits prod.splits)

lemma serve_changes:
  assumes "gnomcp_ok g" "serve P ce name raw g = (g', es, r)"
  shows "dom (gp_sdk g) \<subseteq> dom (gp_sdk g') \<and>
     (gp_server g' = gp_server g \<or> (\<exists>n p. gp_server g' = fst (AddDynamicProfile n p (gp_server g))))"
  using serve_cases [OF assms]
proof (elim disjE exE conjE)
  assume "g' = g"
  then show ?thesis by simp
next
  fix st t assume t: "is_tool t" "call_ran P ce t raw g g' es"
  then show ?thesis
  proof (cases rule: call_ran_cases)
    case (world h a w es1 out extra)
    then show ?thesis by simp
  next
    case (other g1 a out)
    have e: "gp_sdk g' = gp_sdk g1" "gp_server g' = gp_server g1" using other(3) by simp_all
    from other(5) show ?thesis
    proof
      assume "gp_server g1 = gp_server g \<and> gp_registry g1 = gp_registry g \<and> gp_sdk g1 = gp_sdk g"
      then show ?thesis by (simp add: e)
    next
      assume "tl_Name t = ''gno_profile_add'' \<and> profile_add_tool P ce a g = (g1, [], out)"
      then have s: "gp_server g1 = gp_server g \<or> (\<exists>n p. gp_server g1 = fst (AddDynamicProfile n p (gp_server g)))"
        "gp_registry g1 = gp_registry g \<and> gp_sdk g1 = gp_sdk g \<or> (\<exists>err. onProfileAdded P (gp_server g1) g = (gp_registry g1, gp_sdk g1, err))"
        using profile_add_shape [of P ce a g g1 "[]" out] by simp_all
      from s(2) have "dom (gp_sdk g) \<subseteq> dom (gp_sdk g1)"
      proof (elim disjE exE)
        fix err assume "onProfileAdded P (gp_server g1) g = (gp_registry g1, gp_sdk g1, err)"
        then have "publish_each (ps_quote P) (ps_schemas P) (Registry_All (gp_registry g1)) (gp_sdk g) = (gp_sdk g1, err)"
          by (auto simp: onProfileAdded_def publishTools_def Let_def)
        from publish_each_dom [OF this] show ?thesis by blast
      qed simp
      with s(1) show ?thesis by (simp add: e)
    qed
  qed
qed

lemma started_tools:
  assumes "publishTools quote sl (register_tools quote s []) Map.empty = (sdk, None)"
  shows "tl_Name ` set (registerAllTools quote s) \<subseteq> dom sdk"
  using published_all [OF assms registered_distinct] by (auto simp: register_tools_mem)

lemma added_keeps:
  assumes "s' = s \<or> (\<exists>n p. s' = fst (AddDynamicProfile n p s))"
  shows "sv_initNames s' = sv_initNames s \<and> dom (server_profile s) \<subseteq> dom (server_profile s') \<and>
     (\<forall>n \<in> set (sv_initNames s). server_profile s' n = server_profile s n)"
  using assms by (auto simp: AddDynamicProfile_profiles CheckDynamicProfileName_def split: if_splits)



lemma seed_cache_dials:
  "seed_cache dial table c0 = Some c \<Longrightarrow> (n, p) \<in> set table \<Longrightarrow> dial (RPCURL p) (ChainID p) \<noteq> None"
  by (induction dial table c0 rule: seed_cache.induct) (auto split: option.splits)

text \<open>
  C27. A server that started is ready. The table is the configuration that was loaded; every loaded profile resolves to a
  client dialled with its endpoint and chain-id; exactly the tools the table opens are published, each with its own
  text, hints and converted schema; the log is empty and no transaction was sent. With fewer than \<open>2 ^ 63\<close>
  profiles the instructions fit the client's limit.
\<close>

theorem startup_ready:
  assumes "gnomcp_start P su fl = Inr (instructions, cache, g)"
  shows "\<exists>cfg. su_load su (resolveSources (su_env su) (su_home su) (sf_config fl)) = Inr cfg \<and>
     server_profile (gp_server g) = map_of (su_order su cfg) \<and>
     (\<forall>n p. server_profile (gp_server g) n = Some p \<longrightarrow>
        snd (chainResolver (su_dial su) (gp_server g) n cache) = su_dial su (RPCURL p) (ChainID p) \<and> su_dial su (RPCURL p) (ChainID p) \<noteq> None) \<and>
     dom (gp_sdk g) = tl_Name ` set (registerAllTools (ps_quote P) (gp_server g)) \<and>
     (\<forall>t \<in> set (registerAllTools (ps_quote P) (gp_server g)). \<exists>c.
        mapToSchema (ps_schemas P) (tl_InputSchema t) = Inr c \<and> gp_sdk g (tl_Name t) = Some (sdk_tool_of t c, t)) \<and>
     gp_audit g = [] \<and> wo_rpc (gp_world g) = [] \<and>
     (length (su_order su cfg) < 2 ^ 63 \<longrightarrow> RuneCount instructions \<le> 2048)"
proof -
  obtain cfg where cfg: "su_load su (resolveSources (su_env su) (su_home su) (sf_config fl)) = Inr cfg"
    using assms by (auto simp: gnomcp_start_def split: sum.splits)
  let ?s = "NewServer (su_order su cfg) (discoverLocal (su_probe su) (su_order su cfg))"
  have st: "gp_server g = ?s" "gp_registry g = register_tools (ps_quote P) ?s []"
      "publishTools (ps_quote P) (ps_schemas P) (register_tools (ps_quote P) ?s []) Map.empty = (gp_sdk g, None)"
      "seed_cache (su_dial su) (su_order su cfg) Map.empty = Some cache" "instructions = buildServerInstructions (su_order su cfg)"
      "wo_rpc (gp_world g) = []" "gp_audit g = []"
    using started_shape [OF assms cfg refl] by simp_all
  have table: "server_profile (gp_server g) = map_of (su_order su cfg)"
    unfolding st(1) by (simp add: NewServer_def server_profile_def fun_eq_iff)
  have "cache_ok (su_dial su) cache" using seed_cache_ok [OF _ st(4)] by (simp add: cache_ok_def)
  note res = chainResolver_dial [OF this, of "gp_server g"]
  have dials: "su_dial su (RPCURL p) (ChainID p) \<noteq> None" if "server_profile (gp_server g) n = Some p" for n p
    using seed_cache_dials [OF st(4)] map_of_SomeD [OF that [unfolded table]] by blast
  note pub = published_all [OF st(3) registered_distinct]
  have d: "dom (gp_sdk g) = tl_Name ` set (registerAllTools (ps_quote P) (gp_server g))"
  proof
    show "dom (gp_sdk g) \<subseteq> tl_Name ` set (registerAllTools (ps_quote P) (gp_server g))"
      using publish_each_dom [OF st(3) [unfolded publishTools_def]] unfolding st(1) by (simp add: Registry_All_def registered_names)
    show "tl_Name ` set (registerAllTools (ps_quote P) (gp_server g)) \<subseteq> dom (gp_sdk g)" unfolding st(1) by (rule started_tools [OF st(3)])
  qed
  have t: "\<forall>t \<in> set (registerAllTools (ps_quote P) (gp_server g)). \<exists>c.
      mapToSchema (ps_schemas P) (tl_InputSchema t) = Inr c \<and> gp_sdk g (tl_Name t) = Some (sdk_tool_of t c, t)"
    unfolding st(1) using pub by (simp add: register_tools_mem)
  have i: "length (su_order su cfg) < 2 ^ 63 \<longrightarrow> RuneCount instructions \<le> 2048"
    unfolding st(5) using instructions_fit by blast
  show ?thesis using cfg table res dials d t st(6,7) i by (intro exI [of _ cfg]) (simp add: option.case_eq_if)
qed

subsection \<open>A demonstration server\<close>

definition demo_process :: "nat process" where
  "demo_process = \<lparr>ps_quote = id, ps_marshal = (\<lambda>a. None), ps_schemas = demo_schemas, ps_auditReads = False\<rparr>"

definition demo_startup :: "nat startup" where
  "demo_startup = \<lparr>su_env = (\<lambda>v. []), su_home = None, su_load = (\<lambda>s. Inr (map_of (sv_profiles demo_server))),
     su_order = (\<lambda>m. sv_profiles demo_server), su_probe = (\<lambda>p. Inr (ChainID p = ''dev'')), su_dirname = id, su_mkdir = (\<lambda>d. None),
     su_openlog = (\<lambda>f. None), su_dial = (\<lambda>u i. Some 0), su_query = (\<lambda>c p. None), su_sessions = (\<lambda>d. Map.empty), su_profiles = [],
     su_list = (\<lambda>fs p. Inr []), su_delete = (\<lambda>fs p a. (fs, None)), su_keys = Map.empty\<rparr>"

definition demo_flags_serve :: serve_flags where
  "demo_flags_serve = default_serve_flags (\<lambda>v. []) None"

definition demo_call_env :: call_env where
  "demo_call_env = \<lparr>ce_env = demo_env, ce_read = demo_read, ce_gql = demo_gql, ce_admin = demo_admin, ce_order = [], ce_faucet = demo_http,
     ce_propose = demo_propose, ce_salt = None, ce_nonce = None, ce_fresh = None, ce_cla_render = (\<lambda>p. Inl ''down''),
     ce_oor = (\<lambda>r. 0), ce_f64 = of_int, ce_log_fails = (\<lambda>en. False)\<rparr>"

definition demo_gnomcp :: "nat gnomcp" where
  "demo_gnomcp = snd (snd (projr (gnomcp_start demo_process demo_startup demo_flags_serve)))"

lemma demo_started:
  "\<exists>instructions cache. gnomcp_start demo_process demo_startup demo_flags_serve = Inr (instructions, cache, demo_gnomcp)"
proof -
  have "\<exists>x. gnomcp_start demo_process demo_startup demo_flags_serve = Inr x"
    by (simp add: gnomcp_start_def demo_startup_def demo_process_def demo_flags_serve_def publishTools_def demo_publish
        demo_server_def NewServer_def Let_def del: Hydrate.simps)
  then show ?thesis unfolding demo_gnomcp_def by (metis prod.collapse sum.sel(2))
qed

lemma demo_shape:
  "gp_server demo_gnomcp = demo_server" "gp_world demo_gnomcp = demo_world" "gp_audit demo_gnomcp = []"
  "t \<in> set (registerAllTools id demo_server) \<Longrightarrow> gp_sdk demo_gnomcp (tl_Name t) = Some (sdk_tool_of t 0, t)"
proof -
  obtain i c where s: "gnomcp_start demo_process demo_startup demo_flags_serve = Inr (i, c, demo_gnomcp)" using demo_started by blast
  have l: "su_load demo_startup (resolveSources (su_env demo_startup) (su_home demo_startup) (sf_config demo_flags_serve)) =
      Inr (map_of (sv_profiles demo_server))"
    by (simp add: demo_startup_def)
  have d: "demo_server = NewServer (su_order demo_startup (map_of (sv_profiles demo_server)))
      (discoverLocal (su_probe demo_startup) (su_order demo_startup (map_of (sv_profiles demo_server))))"
    by (simp add: demo_startup_def demo_server_def NewServer_def demo_dyn_def)
  note sh = started_shape [OF s l d]
  show "gp_server demo_gnomcp = demo_server" "gp_audit demo_gnomcp = []" using sh by simp_all
  show "gp_world demo_gnomcp = demo_world"
    using sh by (simp add: demo_startup_def demo_world_def NewManager_def)
  assume t: "t \<in> set (registerAllTools id demo_server)"
  have p: "publishTools id demo_schemas (register_tools id demo_server []) Map.empty = (gp_sdk demo_gnomcp, None)"
    using sh by (simp add: demo_process_def)
  have m: "mapToSchema demo_schemas x = Inr 0" for x by (simp add: mapToSchema_def demo_schemas_def)
  show "gp_sdk demo_gnomcp (tl_Name t) = Some (sdk_tool_of t 0, t)"
    using published_all [OF p registered_distinct] t by (auto simp: register_tools_mem m)
qed

lemma demo_running: "running demo_process demo_startup demo_flags_serve demo_gnomcp"
  using demo_started running.started by blast

lemma demo_live: "live_env demo_call_env demo_gnomcp = demo_env"
  by (simp add: live_env_def demo_call_env_def demo_shape demo_env_def)

text \<open>A call of \<open>gno_call\<close> on the demonstration server runs the handler on its arguments.\<close>

lemma demo_served:
  assumes "serve demo_process demo_call_env ''gno_call'' (Some (Inr demo_call_args)) demo_gnomcp = (g', es, r)"
  shows "gp_world g' = fst (callHandler demo_env demo_call_args demo_world)"
proof -
  have t: "gp_sdk demo_gnomcp ''gno_call'' = Some (sdk_tool_of (RegisterCall demo_server) 0, RegisterCall demo_server)"
    using demo_shape(4) [of "RegisterCall demo_server"] by (simp add: registerAllTools_def)
  have ran: "call_ran demo_process demo_call_env (RegisterCall demo_server) (Some (Inr demo_call_args)) demo_gnomcp g' es"
    using serve_ran [OF running_ok [OF demo_running] assms] t by auto
  have d: "applyProfileDefault (RegisterCall demo_server) demo_server demo_call_args = demo_call_args"
    by (auto simp: applyProfileDefault_def demo_call_args_def Let_def)
  have n: "''gno_call'' \<in> set world_names" by (simp add: world_names_def)
  have h: "the (map_of (world_tools demo_call_env (live_env demo_call_env demo_gnomcp)) ''gno_call'') = callHandler demo_env"
    unfolding demo_live by (simp add: world_tools_def)
  show ?thesis
    using ran unfolding call_ran_def by (auto simp: tool_handler_world [OF n] h on_world_def demo_shape d split: prod.splits)
qed

lemma startup_ready_witness:
  "gp_sdk demo_gnomcp ''gno_key_list'' \<noteq> None \<and> server_profile (gp_server demo_gnomcp) ''dev'' = Some demo_dyn"
proof -
  obtain i c where s: "gnomcp_start demo_process demo_startup demo_flags_serve = Inr (i, c, demo_gnomcp)" using demo_started by blast
  have r: "RegisterKeyList demo_server \<in> set (registerAllTools (ps_quote demo_process) demo_server)" by (simp add: registerAllTools_def)
  have "gp_sdk demo_gnomcp (tl_Name (RegisterKeyList demo_server)) \<noteq> None"
    using startup_ready [OF s] r unfolding demo_shape(1) by blast
  then show ?thesis unfolding demo_shape(1) by (simp add: demo_server_def NewServer_def server_profile_def)
qed

lemma transactions_logged_witness:
  "\<exists>g ev. logged_run demo_process demo_gnomcp [(''gno_call'', ev)] g \<and> ''gno_call'' \<in> set (map ae_Tool (gp_audit g))"
proof -
  obtain g es r where g: "serve demo_process demo_call_env ''gno_call'' (Some (Inr demo_call_args)) demo_gnomcp = (g, es, r)"
    using prod_cases3 by blast
  have "writes [] (wo_rpc (gp_world g)) \<noteq> []" unfolding demo_served [OF g] by (rule demo_call_writes)
  moreover have "length (txs_of demo_gnomcp g) \<le> 1"
    unfolding txs_of_def demo_served [OF g] demo_shape(2) using call_acc.at_most_one by (metis prod.collapse)
  ultimately obtain ev where ev: "txs_of demo_gnomcp g = [ev]"
    unfolding txs_of_def demo_shape(2) demo_fields by (cases "writes [] (wo_rpc (gp_world g))") auto
  have "logged_run demo_process demo_gnomcp ([] @ map (Pair ''gno_call'') (txs_of demo_gnomcp g)) g"
    by (rule next_call [OF no_call g]) (simp add: demo_call_env_def)
  then have l: "logged_run demo_process demo_gnomcp [(''gno_call'', ev)] g" by (simp add: ev)
  obtain i c where s: "gnomcp_start demo_process demo_startup demo_flags_serve = Inr (i, c, demo_gnomcp)" using demo_started by blast
  from transactions_logged [OF s l] l show ?thesis by (auto simp: subseq_singleton_left)
qed

lemma read_only_hint_true_witness:
  "\<exists>g es r. serve demo_process demo_call_env ''gno_packages'' None demo_gnomcp = (g, es, r) \<and> txs_of demo_gnomcp g = [] \<and>
     wo_mgr (gp_world g) = wo_mgr demo_world"
proof -
  obtain g es r where g: "serve demo_process demo_call_env ''gno_packages'' None demo_gnomcp = (g, es, r)" using prod_cases3 by blast
  have "gp_sdk demo_gnomcp ''gno_packages'' = Some (sdk_tool_of (RegisterPackages id demo_server) 0, RegisterPackages id demo_server)"
    using demo_shape(4) [of "RegisterPackages id demo_server"] by (simp add: registerAllTools_def)
  from read_only_hint_true [OF demo_running this _ g] show ?thesis
    using g by (auto simp: sdk_tool_of_def toSDKAnnotations_def demo_shape)
qed


end
