(* ===== verification/Arguments.thy ===== *)
theory Arguments
  imports Gnomcp
begin

section \<open>What a tool reads of its arguments\<close>

text \<open>
  The schema a tool publishes and the code that reads its arguments are written apart. This theory compares them:
  \<open>arg_table\<close> lists what each handler reads, proved handler by handler, and every name of it is a property
  of the schema that is published.
\<close>

subsection \<open>The table\<close>

definition arg_table :: "(string \<times> string list) list" where
  "arg_table =
     [(''gno_render'', [''realm'', ''path'', ''profile'']), (''gno_eval'', [''path'', ''expr'', ''profile'']),
      (''gno_read'', [''path'', ''file'', ''symbols'', ''full'', ''profile'']), (''gno_packages'', [''path'', ''profile'', ''limit'']),
      (''gno_account'', [''address'', ''profile'']), (''gno_status'', [''profile'']), (''gno_connect'', [''gnoweb_url'', ''name'']),
      (''gno_profile_list'', []), (''gno_history'', [''realm'', ''profile'']),
      (''gno_activity'', [''realm'', ''since'', ''until'', ''profile'']),
      (''gno_call'', [''profile'', ''key'', ''realm'', ''func'', ''args'', ''simulate'', ''send'', ''identity'']),
      (''gno_run'', [''profile'', ''key'', ''code'', ''simulate'', ''identity'']), (''gno_cla_info'', [''profile'']),
      (''gno_cla_sign'', [''profile'', ''hash'', ''key'']), (''gno_auth_status'', [''profile'']),
      (''gno_session_propose'', [''profile'', ''allow_paths'', ''allow_run'', ''spend_limit'', ''expires_in'', ''master_address'']),
      (''gno_session_revoke'', [''profile'', ''session_address'']),
      (''gno_addpkg'', [''profile'', ''key'', ''deploy_path'', ''simulate'', ''files'']),
      (''gno_key_send'', [''profile'', ''from'', ''to'', ''amount'']), (''gno_key_address'', [''profile'', ''key'']),
      (''gno_key_list'', [''profile'']), (''gno_key_generate'', [''profile'', ''key'']),
      (''gno_key_delete'', [''profile'', ''key'', ''force'', ''sweep_to'']), (''gno_faucet_fund'', [''profile'', ''key'']),
      (''gno_profile_add'', add_arg_names)]"

definition agree :: "string list \<Rightarrow> args \<Rightarrow> args \<Rightarrow> bool" where
  "agree ns a b \<longleftrightarrow> (\<forall>n \<in> set ns. a n = b n)"

lemma agree_simps [simp]:
  "agree [] a b" "agree (n # ns) a b \<longleftrightarrow> a n = b n \<and> agree ns a b"
  by (simp_all add: agree_def)

subsection \<open>Declared arguments\<close>

lemma declared_profile:
  "fst ` set (fst (read_addProfileArg quote s parts)) = insert ''profile'' (fst ` set (fst parts))"
  "fst ` set (fst (filtered_profile_arg s keep desc parts)) = insert ''profile'' (fst ` set (fst parts))"
  "fst ` set (fst (indexer_addProfileArg s parts)) = insert ''profile'' (fst ` set (fst parts))"
  unfolding read_addProfileArg_def Let_def filtered_profile_arg_def indexer_addProfileArg_def
  by (simp_all only: require_fst in_put_prop split: prod.split) simp_all

lemma declared_args:
  "fst ` set (fst (write_addProfileArg s parts)) = insert ''profile'' (fst ` set (fst parts))"
  "fst ` set (fst (addAgentProfileArg s parts)) = insert ''profile'' (fst ` set (fst parts))"
  "fst ` set (fst (addTestnetProfileArg s parts)) = insert ''profile'' (fst ` set (fst parts))"
  "fst ` set (fst (addWritableProfileArg s parts)) = insert ''profile'' (fst ` set (fst parts))"
  "fst ` set (fst (addOptionalKeyArg parts)) = insert ''key'' (fst ` set (fst parts))"
  by (simp_all only: write_addProfileArg_def addAgentProfileArg_def addTestnetProfileArg_def addWritableProfileArg_def
      declared_profile addOptionalKeyArg_def in_put_prop)

subsection \<open>The handlers\<close>

definition reads :: "string list \<Rightarrow> (args \<Rightarrow> 'x) \<Rightarrow> bool" where
  "reads ns h \<longleftrightarrow> (\<forall>a b. agree ns a b \<longrightarrow> h a = h b)"

lemma readsI: "(\<And>a b. agree ns a b \<Longrightarrow> h a = h b) \<Longrightarrow> reads ns h"
  by (simp add: reads_def)

lemma readsI2: "(\<And>a b w. agree ns a b \<Longrightarrow> h a w = h b w) \<Longrightarrow> reads ns h"
  by (auto simp: reads_def fun_eq_iff)

lemmas getter_defs = arg_def StringArg_def BoolArg_def StringSliceArg_def requireProfile_def keyArg_def identityArg_def

lemma render_reads: "reads [''realm'', ''path'', ''profile''] (renderHandler e rl)"
  by (rule readsI2, unfold renderHandler_def plain_handler_def render_body_def render_args_def getter_defs) (simp only: agree_simps)

lemma eval_reads: "reads [''path'', ''expr'', ''profile''] (evalHandler e rl)"
  by (rule readsI2, unfold evalHandler_def plain_handler_def eval_body_def eval_args_def getter_defs) (simp only: agree_simps)

lemma read_reads: "reads [''path'', ''file'', ''symbols'', ''full'', ''profile''] (readHandler e rl)"
  by (rule readsI2, unfold readHandler_def plain_handler_def read_body_def read_args_def getter_defs) (simp only: agree_simps)

lemma packages_reads: "reads [''path'', ''profile'', ''limit''] (packagesHandler e rl)"
  by (rule readsI2, unfold packagesHandler_def plain_handler_def packages_body_def packages_args_def packages_limit_def getter_defs) (simp only: agree_simps)

lemma account_reads: "reads [''address'', ''profile''] (accountHandler e rl)"
  by (rule readsI2, unfold accountHandler_def plain_handler_def account_body_def account_args_def getter_defs) (simp only: agree_simps)

lemma status_reads: "reads [''profile''] (statusHandler e rl)"
  by (rule readsI2, unfold statusHandler_def plain_handler_def status_body_def getter_defs) (simp only: agree_simps)

lemma connect_reads: "reads [''gnoweb_url'', ''name''] (connectHandler lb)"
  by (rule readsI, unfold connectHandler_def getter_defs) (simp only: agree_simps)

lemma history_reads: "reads [''realm'', ''profile''] (historyHandler e gl rs)"
  by (rule readsI2, unfold historyHandler_def realm_arg_def getter_defs) (simp only: agree_simps)

lemma activity_reads: "reads [''realm'', ''since'', ''until'', ''profile''] (activityHandler e gl rs)"
  by (rule readsI2, unfold activityHandler_def activity_args_def realm_arg_def time_arg_def getter_defs) (simp only: agree_simps)

lemma call_reads: "reads [''profile'', ''key'', ''realm'', ''func'', ''args'', ''simulate'', ''send'', ''identity''] (callHandler e)"
  by (rule readsI2, unfold callHandler_def self_audited_def call_body_def call_args_def getter_defs) (simp only: agree_simps)

lemma run_reads: "reads [''profile'', ''key'', ''code'', ''simulate'', ''identity''] (runHandler e)"
  by (rule readsI2, unfold runHandler_def self_audited_def run_body_def run_args_def getter_defs) (simp only: agree_simps)

lemma cla_info_reads: "reads [''profile''] (claInfoHandler e r fh fu)"
  by (rule readsI, unfold claInfoHandler_def getter_defs) (simp only: agree_simps)

lemma cla_sign_reads: "reads [''profile'', ''hash'', ''key''] (claSignHandler e)"
  by (rule readsI2, unfold claSignHandler_def self_audited_def cla_sign_body_def getter_defs) (simp only: agree_simps)

lemma auth_reads: "reads [''profile''] (authStatusHandler e)"
  by (rule readsI2, unfold authStatusHandler_def plain_handler_def auth_body_def getter_defs) (simp only: agree_simps)

lemma propose_reads: "reads [''profile'', ''allow_paths'', ''allow_run'', ''spend_limit'', ''expires_in'', ''master_address''] (sessionProposeHandler e pe)"
  by (rule readsI2, unfold sessionProposeHandler_def plain_handler_def propose_body_def propose_args_def getter_defs) (simp only: agree_simps)

lemma revoke_reads: "reads [''profile'', ''session_address''] (sessionRevokeHandler e)"
  by (rule readsI2, unfold sessionRevokeHandler_def plain_handler_def revoke_body_def getter_defs) (simp only: agree_simps)

lemma addpkg_reads: "reads [''profile'', ''key'', ''deploy_path'', ''simulate'', ''files''] (addpkgHandler e)"
  by (rule readsI2, unfold addpkgHandler_def self_audited_def addpkg_body_def addpkg_args_def getter_defs) (simp only: agree_simps)

lemma key_send_reads: "reads [''profile'', ''from'', ''to'', ''amount''] (keySendHandler e oor f64)"
  by (rule readsI2, unfold keySendHandler_def self_audited_def key_send_body_def Int64Arg_def getter_defs) (simp only: agree_simps)

lemma key_addr_reads: "reads [''profile'', ''key''] (keyAddrHandler e)"
  by (rule readsI2, unfold keyAddrHandler_def plain_handler_def getter_defs) (simp only: agree_simps)

lemma key_list_reads: "reads [''profile''] (keyListHandler e)"
  by (rule readsI2, unfold keyListHandler_def plain_handler_def getter_defs) (simp only: agree_simps)

lemma key_gen_reads: "reads [''profile'', ''key''] (keyGenHandler e salt nonce fresh)"
  by (rule readsI2, unfold keyGenHandler_def plain_handler_def getter_defs) (simp only: agree_simps)

lemma key_delete_reads: "reads [''profile'', ''key'', ''force'', ''sweep_to''] (keyDeleteHandler e)"
  by (rule readsI2, unfold keyDeleteHandler_def plain_handler_def key_delete_body_def delete_args_def getter_defs) (simp only: agree_simps)

lemma faucet_reads: "reads [''profile'', ''key''] (faucetFundHandler e hc)"
  by (rule readsI2, unfold faucetFundHandler_def plain_handler_def faucet_body_def getter_defs) (simp only: agree_simps)

lemma first_error_cong: "(\<And>n. n \<in> set xs \<Longrightarrow> f n = g n) \<Longrightarrow> first_error f xs = first_error g xs"
  by (induction xs) (auto split: option.split)

lemma profile_add_reads:
  assumes "agree add_arg_names a b" "set order \<subseteq> set add_arg_names"
  shows "profileAddHandler lb order a s = profileAddHandler lb order b s"
proof -
  have same: "StringArg a n = StringArg b n" if "n \<in> set add_arg_names" for n
    using assms(1) that by (simp add: agree_def StringArg_def)
  then have e: "first_error (\<lambda>n. case StringArg a n of Inl x \<Rightarrow> Some x | Inr v \<Rightarrow> None) order =
      first_error (\<lambda>n. case StringArg b n of Inl x \<Rightarrow> Some x | Inr v \<Rightarrow> None) order"
    using assms(2) by (intro first_error_cong) auto
  have v: "list_all (\<lambda>n. string_value a n = string_value b n) add_arg_names"
    using same by (simp add: list_all_iff string_value_def)
  have "add_args lb order a = add_args lb order b"
    using v unfolding add_args_def e add_arg_names_def list.pred_inject by (simp only: simp_thms)
  then show ?thesis by (simp add: profileAddHandler_def)
qed

text \<open>The handlers and the table, entry by entry.\<close>

lemmas world_reads =
  render_reads eval_reads read_reads packages_reads account_reads
  status_reads call_reads run_reads cla_sign_reads auth_reads
  propose_reads revoke_reads addpkg_reads key_send_reads key_addr_reads
  key_list_reads key_gen_reads key_delete_reads faucet_reads

definition reads_as_listed :: "string \<times> (args \<Rightarrow> 'x) \<Rightarrow> bool" where
  "reads_as_listed q = (case map_of arg_table (fst q) of None \<Rightarrow> False | Some ns \<Rightarrow> reads ns (snd q))"

lemma world_listed: "list_all reads_as_listed (world_tools ce e)"
  by (simp add: reads_as_listed_def world_tools_def arg_table_def world_reads)

lemma constant_reads: "reads ns (\<lambda>a. c)"
  by (simp add: reads_def)

lemma only_answer_reads: "reads ns h \<Longrightarrow> reads ns (only_answer h)"
  by (auto simp: reads_def only_answer_def fun_eq_iff)

lemma on_http_reads: "reads ns h \<Longrightarrow> reads ns (on_http h)"
  by (auto simp: reads_def on_http_def fun_eq_iff split: prod.split)

lemma on_world_reads: "reads ns h \<Longrightarrow> agree ns a b \<Longrightarrow> on_world h a g = on_world h b g"
  by (simp add: reads_def on_world_def)

lemma profile_add_tool_reads:
  assumes "set (ce_order ce) \<subseteq> set add_arg_names"
  shows "reads add_arg_names (profile_add_tool P ce)"
  by (rule readsI2) (simp only: profile_add_tool_def Let_def profile_add_reads [OF _ assms])

lemma other_listed:
  assumes "set (ce_order ce) \<subseteq> set add_arg_names"
  shows "list_all reads_as_listed (other_tools P ce e)"
  using profile_add_tool_reads [OF assms, of P]
  by (simp add: reads_as_listed_def other_tools_def arg_table_def add_arg_names_def only_answer_reads on_http_reads
      connect_reads cla_info_reads history_reads activity_reads constant_reads)

text \<open>What is read is declared.\<close>

definition schema_names :: "(string \<times> json) list \<Rightarrow> string set" where
  "schema_names m = fst ` set (case map_of m ''properties'' of Some (JObj ps) \<Rightarrow> ps | _ \<Rightarrow> [])"

lemma declared_names: "set (declared t) = schema_names (tl_InputSchema t)"
  by (simp add: declared_def schema_props_def schema_names_def)

lemma schema_names_of:
  "schema_names (input_schema parts) = fst ` set (fst parts)"
  "schema_names (input_schema_nil parts) = fst ` set (fst parts)"
  "schema_names (indexer_schema parts) = fst ` set (fst parts)"
  by (simp_all add: schema_names_def input_schema_def input_schema_nil_def indexer_schema_def object_schema_def)

lemmas names_of_parts = schema_names_of declared_profile declared_args in_put_prop fst_conv list.set image_insert image_empty

lemma declared_tools:
  "set [''realm'', ''path'', ''profile''] \<subseteq> set (declared (RegisterRender quote s))"
  "set [''path'', ''expr'', ''profile''] \<subseteq> set (declared (RegisterEval quote s))"
  "set [''path'', ''file'', ''symbols'', ''full'', ''profile''] \<subseteq> set (declared (RegisterRead quote s))"
  "set [''path'', ''profile'', ''limit''] \<subseteq> set (declared (RegisterPackages quote s))"
  "set [''address'', ''profile''] \<subseteq> set (declared (RegisterAccount quote s))"
  "set [''profile''] \<subseteq> set (declared (RegisterStatus quote s))"
  "set [''realm'', ''profile''] \<subseteq> set (declared (RegisterHistory s))"
  "set [''realm'', ''since'', ''until'', ''profile''] \<subseteq> set (declared (RegisterActivity s))"
  "set [''profile'', ''key'', ''realm'', ''func'', ''args'', ''simulate'', ''send'', ''identity''] \<subseteq> set (declared (RegisterCall s))"
  "set [''profile'', ''key'', ''code'', ''simulate'', ''identity''] \<subseteq> set (declared (RegisterRun s))"
  "set [''profile''] \<subseteq> set (declared (RegisterCLAInfo s))"
  "set [''profile'', ''hash'', ''key''] \<subseteq> set (declared (RegisterCLASign s))"
  "set [''profile''] \<subseteq> set (declared (RegisterAuthStatus s))"
  "set [''profile'', ''allow_paths'', ''allow_run'', ''spend_limit'', ''expires_in'', ''master_address''] \<subseteq> set (declared (RegisterSessionPropose s))"
  "set [''profile'', ''session_address''] \<subseteq> set (declared (RegisterSessionRevoke s))"
  "set [''profile'', ''key'', ''deploy_path'', ''simulate'', ''files''] \<subseteq> set (declared (registerAddPkg s))"
  "set [''profile'', ''from'', ''to'', ''amount''] \<subseteq> set (declared (RegisterKeySend s))"
  "set [''profile'', ''key''] \<subseteq> set (declared (RegisterKeyAddress s))"
  "set [''profile''] \<subseteq> set (declared (RegisterKeyList s))"
  "set [''profile'', ''key''] \<subseteq> set (declared (RegisterKeyGenerate s))"
  "set [''profile'', ''key'', ''force'', ''sweep_to''] \<subseteq> set (declared (RegisterKeyDelete s))"
  "set [''profile'', ''key''] \<subseteq> set (declared (RegisterFaucetFund s))"
  "set add_arg_names \<subseteq> set (declared RegisterProfileAdd)"
  by (simp_all only: declared_names tool_decl.select_convs add_arg_names_def names_of_parts insert_subset insert_iff simp_thms empty_subsetI
      RegisterRender_def renderInputSchema_def RegisterEval_def evalInputSchema_def RegisterRead_def readInputSchema_def
      RegisterPackages_def packagesInputSchema_def RegisterAccount_def accountInputSchema_def RegisterStatus_def
      statusInputSchema_def RegisterHistory_def historyInputSchema_def RegisterActivity_def activityInputSchema_def
      RegisterCall_def callInputSchema_def RegisterRun_def runInputSchema_def RegisterCLAInfo_def claInfoInputSchema_def
      RegisterCLASign_def claSignInputSchema_def RegisterAuthStatus_def authStatusInputSchema_def RegisterSessionPropose_def
      sessionProposeInputSchema_def RegisterSessionRevoke_def sessionRevokeInputSchema_def registerAddPkg_def
      addpkgInputSchema_def RegisterKeySend_def keySendInputSchema_def RegisterKeyAddress_def keyAddrInputSchema_def
      RegisterKeyList_def keyListInputSchema_def RegisterKeyGenerate_def keyGenInputSchema_def RegisterKeyDelete_def
      keyDeleteInputSchema_def RegisterFaucetFund_def faucetFundInputSchema_def RegisterProfileAdd_def
      profileAddInputSchema_def)

lemma declared_connect: "set (declared RegisterConnect) = {''gnoweb_url'', ''name''}"
  unfolding declared_names RegisterConnect_def tool_decl.select_convs by (simp add: schema_names_def)

lemma listed_declared: "list_all (\<lambda>t. case map_of arg_table (tl_Name t) of None \<Rightarrow> False | Some ns \<Rightarrow> set ns \<subseteq> set (declared t)) (registerAllTools quote s)"
  using declared_tools [simplified]
  by (simp add: registerAllTools_def arg_table_def declared_connect)

subsection \<open>Property\<close>

text \<open>
  C25. What a tool does not declare, it does not read. For any profile table and any tool registered for it, a call with
  arguments beyond the properties of the published schema changes and answers exactly what the call without
  them does; so the closed schemas (no additional property) lose no behaviour.
\<close>

theorem undeclared_arguments_ignored:
  assumes "t \<in> set (registerAllTools quote s)" "tool_handler P ce (tl_Name t) = Some h" "set (ce_order ce) \<subseteq> set add_arg_names"
  shows "h a g = h (a |` set (declared t)) g"
proof -
  have t: "is_tool t" using assms(1) by (auto simp: is_tool_def)
  obtain ns where ns: "map_of arg_table (tl_Name t) = Some ns" "set ns \<subseteq> set (declared t)"
    using listed_declared [of quote s] assms(1) by (auto simp: list_all_iff split: option.splits)
  have ag: "agree ns a (a |` set (declared t))" using ns(2) by (auto simp: agree_def restrict_map_def)
  from tool_split [OF t] show ?thesis
  proof (elim disjE conjE)
    assume n: "tl_Name t \<in> set world_names"
    let ?ws = "world_tools ce (live_env ce g)"
    have "tl_Name t \<in> fst ` set ?ws" using n tool_list_names(1) [of ce "live_env ce g"] by (metis image_set)
    then obtain k where k: "map_of ?ws (tl_Name t) = Some k" using map_of_eq_None_iff [of ?ws "tl_Name t"] by auto
    have "reads ns k" using world_listed [of ce "live_env ce g"] map_of_SomeD [OF k] ns(1)
      by (fastforce simp: list_all_iff reads_as_listed_def)
    with assms(2) tool_handler_world [OF n, of P ce] k show ?thesis by (auto intro: on_world_reads [OF _ ag])
  next
    assume n: "tl_Name t \<notin> set world_names" "tl_Name t \<in> set other_names"
    let ?os = "other_tools P ce (live_env ce g)"
    have "tl_Name t \<in> fst ` set ?os" using n tool_list_names(2) [of P ce "live_env ce g"] by (metis image_set)
    then obtain k where k: "map_of ?os (tl_Name t) = Some k" using map_of_eq_None_iff [of ?os "tl_Name t"] by auto
    have "reads ns k" using other_listed [OF assms(3), of P "live_env ce g"] map_of_SomeD [OF k] ns(1)
      by (fastforce simp: list_all_iff reads_as_listed_def)
    with assms(2) tool_handler_other [OF n, of P ce] k ag show ?thesis by (auto simp: reads_def)
  qed
qed

theorem undeclared_arguments_ignored_witness:
  "\<exists>h. tool_handler demo_process demo_call_env ''gno_connect'' = Some h \<and>
     h [''note'' \<mapsto> JStr ''x'', ''name'' \<mapsto> JStr ''dev''] demo_gnomcp = h [''name'' \<mapsto> JStr ''dev''] demo_gnomcp"
proof -
  have "''gno_connect'' \<notin> set world_names" "''gno_connect'' \<in> set other_names" by (simp_all add: world_names_def other_names_def)
  note h = tool_handler_other [OF this, of demo_process demo_call_env]
  have t: "RegisterConnect \<in> set (registerAllTools id (gp_server demo_gnomcp))" "tl_Name RegisterConnect = ''gno_connect''"
    by (simp_all add: registerAllTools_def)
  have o: "set (ce_order demo_call_env) \<subseteq> set add_arg_names" by (simp add: demo_call_env_def add_arg_names_def)
  have r: "[''note'' \<mapsto> JStr ''x'', ''name'' \<mapsto> JStr ''dev''] |` set (declared RegisterConnect) = [''name'' \<mapsto> JStr ''dev'']"
    by (simp add: declared_connect fun_eq_iff restrict_map_def)
  show ?thesis
    using undeclared_arguments_ignored [OF t(1), unfolded t(2), OF h o, of demo_gnomcp "[''note'' \<mapsto> JStr ''x'', ''name'' \<mapsto> JStr ''dev'']"]
    unfolding r h by blast
qed

end
