(* ===== verification/Doubles.thy ===== *)
theory Doubles
  imports Chain Indexer
begin

section \<open>The in-memory clients: internal/chain/fake.go and internal/indexer/fake.go\<close>

text \<open>
  \<open>Fake\<close> answers a chain client's calls from tables a test has seeded and records what the code under
  test did. Its verdicts are worth what the record is worth: a test that finds no broadcast counted
  concludes that none was made. A method is a function of the double; a Go pair of result and error is a
  pair, since a seeded nil error is returned with an empty result. A nil error is \<open>None\<close>; \<open>quote\<close> is the verb
  \<open>%q\<close>; a signer is what its \<open>Info\<close> answers, the error or the address.
\<close>

subsection \<open>State\<close>

type_synonym fake_signer = "(string + string) option"

text \<open>A bank transfer as recorded: recipient and amount.\<close>

type_synonym SendRecord = "string \<times> int64"

record fake =
  fk_renders :: "string \<rightharpoonup> string"
  fk_evals :: "string \<rightharpoonup> string"
  fk_files :: "string \<rightharpoonup> string"
  fk_listings :: "string \<rightharpoonup> string list"
  fk_paths :: "string \<rightharpoonup> string list"
  fk_docs :: "string \<rightharpoonup> string"
  fk_calls :: "string \<rightharpoonup> tx_result"
  fk_callErrors :: "string \<rightharpoonup> string option"
  fk_runs :: "string \<rightharpoonup> tx_result"
  fk_runErrors :: "string \<rightharpoonup> string option"
  fk_sessions :: "string \<rightharpoonup> SessionStatus"
  fk_sessionErrors :: "string \<rightharpoonup> string option"
  fk_balances :: "string \<Rightarrow> int64"
  fk_accounts :: "string \<rightharpoonup> account_info"
  fk_accountErrors :: "string \<rightharpoonup> string option"
  fk_status :: NodeStatus
  fk_statusSet :: bool
  fk_statusErr :: "string option"
  fk_agentCalls :: "string \<rightharpoonup> tx_result"
  fk_agentCallErrors :: "string \<rightharpoonup> string option"
  fk_agentRuns :: "string \<rightharpoonup> tx_result"
  fk_addPkgs :: "string \<rightharpoonup> tx_result"
  fk_addPkgErrs :: "string \<rightharpoonup> string option"
  fk_addPkgBcasts :: "string \<Rightarrow> int64"
  fk_lastAddPkgFiles :: "string \<rightharpoonup> mem_file list"
  fk_lastSend :: string
  fk_lastAsUserMstr :: string
  fk_bankSends :: "SendRecord list"
  fk_sendErr :: "string option"
  fk_gasFee :: int64
  fk_gasFeeErr :: "string option"
  fk_policy :: string
  fk_policyErr :: "string option"
  fk_runSubmitters :: "string list"
  fk_runSubmitErr :: "string option"
  fk_pkgMetas :: "string \<rightharpoonup> PackageMeta list"
  fk_pkgMetaErrs :: "string \<rightharpoonup> string option"
  fk_pkgMetaCalls :: "string \<Rightarrow> int64"
  fk_pkgMetaFailAt :: "string \<Rightarrow> int64"

definition zero_status :: NodeStatus where
  "zero_status = \<lparr>ns_ChainID = [], ns_Height = 0, ns_BlockTime = 0\<rparr>"

definition zero_result :: tx_result where
  "zero_result = \<lparr>tr_TxHash = [], tr_Height = 0, tr_Result = [], tr_GasUsed = 0, tr_GasWanted = 0, tr_GasFeeUgnot = 0, tr_Simulated = False\<rparr>"

definition zero_account :: account_info where
  "zero_account = \<lparr>ai_Coins = [], ai_Sequence = 0, ai_AccountNumber = 0, ai_Exists = False\<rparr>"

definition zero_send :: send_result where
  "zero_send = \<lparr>sr_TxHash = [], sr_Height = 0, sr_GasUsed = 0, sr_GasFeeUgnot = 0\<rparr>"

definition zero_meta :: PackageMeta where
  "zero_meta = \<lparr>pm_Status = [], pm_Reason = [], pm_Pending = False\<rparr>"

definition NewFake :: fake where
  "NewFake =
     \<lparr>fk_renders = Map.empty, fk_evals = Map.empty, fk_files = Map.empty, fk_listings = Map.empty, fk_paths = Map.empty,
      fk_docs = Map.empty, fk_calls = Map.empty, fk_callErrors = Map.empty, fk_runs = Map.empty, fk_runErrors = Map.empty,
      fk_sessions = Map.empty, fk_sessionErrors = Map.empty, fk_balances = (\<lambda>a. 0), fk_accounts = Map.empty,
      fk_accountErrors = Map.empty, fk_status = zero_status, fk_statusSet = False, fk_statusErr = None,
      fk_agentCalls = Map.empty, fk_agentCallErrors = Map.empty, fk_agentRuns = Map.empty, fk_addPkgs = Map.empty,
      fk_addPkgErrs = Map.empty, fk_addPkgBcasts = (\<lambda>p. 0), fk_lastAddPkgFiles = Map.empty, fk_lastSend = [],
      fk_lastAsUserMstr = [], fk_bankSends = [], fk_sendErr = None, fk_gasFee = DefaultGasFeeUgnot, fk_gasFeeErr = None,
      fk_policy = [], fk_policyErr = None, fk_runSubmitters = [], fk_runSubmitErr = None, fk_pkgMetas = Map.empty,
      fk_pkgMetaErrs = Map.empty, fk_pkgMetaCalls = (\<lambda>p. 0), fk_pkgMetaFailAt = (\<lambda>p. 0)\<rparr>"

subsection \<open>Keys\<close>

definition bar_key :: "string \<Rightarrow> string \<Rightarrow> string" where
  "bar_key a b = a @ ''|'' @ b"

definition callKey :: "string \<Rightarrow> string \<Rightarrow> string list \<Rightarrow> string" where
  "callKey realm fn args = realm @ ''|'' @ fn @ ''|'' @ Join args '',''"

definition sessionKey :: "string \<Rightarrow> string \<Rightarrow> string" where
  "sessionKey master sessionAddr = master @ ''|'' @ sessionAddr"

subsection \<open>Seeding\<close>

definition SetSubmissionPolicy :: "string \<Rightarrow> fake \<Rightarrow> fake" where
  "SetSubmissionPolicy p f =
     f\<lparr>fk_policy := p\<rparr>"

definition SetSubmissionPolicyErr :: "string option \<Rightarrow> fake \<Rightarrow> fake" where
  "SetSubmissionPolicyErr e f =
     f\<lparr>fk_policyErr := e\<rparr>"

definition SetRunSubmitters :: "string list \<Rightarrow> fake \<Rightarrow> fake" where
  "SetRunSubmitters xs f =
     f\<lparr>fk_runSubmitters := xs\<rparr>"

definition SetRunSubmittersErr :: "string option \<Rightarrow> fake \<Rightarrow> fake" where
  "SetRunSubmittersErr e f =
     f\<lparr>fk_runSubmitErr := e\<rparr>"

definition SetPackageMetaErr :: "string \<Rightarrow> string option \<Rightarrow> fake \<Rightarrow> fake" where
  "SetPackageMetaErr path e f =
     f\<lparr>fk_pkgMetaErrs := (fk_pkgMetaErrs f)(path \<mapsto> e), fk_pkgMetaFailAt := (fk_pkgMetaFailAt f)(path := 0)\<rparr>"

definition SetPackageMetaSequence :: "string \<Rightarrow> PackageMeta list \<Rightarrow> fake \<Rightarrow> fake" where
  "SetPackageMetaSequence path ms f =
     f\<lparr>fk_pkgMetas := (fk_pkgMetas f)(path \<mapsto> ms)\<rparr>"

definition FailPackageMetaFrom :: "string \<Rightarrow> int64 \<Rightarrow> string option \<Rightarrow> fake \<Rightarrow> fake" where
  "FailPackageMetaFrom path n e f =
     f\<lparr>fk_pkgMetaErrs := (fk_pkgMetaErrs f)(path \<mapsto> e), fk_pkgMetaFailAt := (fk_pkgMetaFailAt f)(path := n)\<rparr>"

definition SetGasFee :: "int64 \<Rightarrow> fake \<Rightarrow> fake" where
  "SetGasFee n f =
     f\<lparr>fk_gasFee := n\<rparr>"

definition SetGasFeeErr :: "string option \<Rightarrow> fake \<Rightarrow> fake" where
  "SetGasFeeErr e f =
     f\<lparr>fk_gasFeeErr := e\<rparr>"

definition SetRender :: "string \<Rightarrow> string \<Rightarrow> string \<Rightarrow> fake \<Rightarrow> fake" where
  "SetRender realm path body f =
     f\<lparr>fk_renders := (fk_renders f)(bar_key realm path \<mapsto> body)\<rparr>"

definition SetEval :: "string \<Rightarrow> string \<Rightarrow> string \<Rightarrow> fake \<Rightarrow> fake" where
  "SetEval realm expr res f =
     f\<lparr>fk_evals := (fk_evals f)(bar_key realm expr \<mapsto> res)\<rparr>"

definition SetFile :: "string \<Rightarrow> string \<Rightarrow> string \<Rightarrow> fake \<Rightarrow> fake" where
  "SetFile realm name body f =
     f\<lparr>fk_files := (fk_files f)(bar_key realm name \<mapsto> body)\<rparr>"

definition SetListing :: "string \<Rightarrow> string list \<Rightarrow> fake \<Rightarrow> fake" where
  "SetListing realm fs f =
     f\<lparr>fk_listings := (fk_listings f)(realm \<mapsto> fs)\<rparr>"

definition SetDoc :: "string \<Rightarrow> string \<Rightarrow> fake \<Rightarrow> fake" where
  "SetDoc realm d f =
     f\<lparr>fk_docs := (fk_docs f)(realm \<mapsto> d)\<rparr>"

definition SetPaths :: "string \<Rightarrow> string list \<Rightarrow> fake \<Rightarrow> fake" where
  "SetPaths target ps f =
     f\<lparr>fk_paths := (fk_paths f)(target \<mapsto> ps)\<rparr>"

definition SetAccount :: "string \<Rightarrow> account_info \<Rightarrow> fake \<Rightarrow> fake" where
  "SetAccount a info f =
     f\<lparr>fk_accounts := (fk_accounts f)(a \<mapsto> info)\<rparr>"

definition SetAccountError :: "string \<Rightarrow> string option \<Rightarrow> fake \<Rightarrow> fake" where
  "SetAccountError a e f =
     f\<lparr>fk_accountErrors := (fk_accountErrors f)(a \<mapsto> e)\<rparr>"

definition SetStatus :: "NodeStatus \<Rightarrow> fake \<Rightarrow> fake" where
  "SetStatus st f =
     f\<lparr>fk_status := st, fk_statusSet := True\<rparr>"

definition SetStatusError :: "string option \<Rightarrow> fake \<Rightarrow> fake" where
  "SetStatusError e f =
     f\<lparr>fk_statusErr := e\<rparr>"

definition SetSession :: "string \<Rightarrow> string \<Rightarrow> SessionStatus \<Rightarrow> fake \<Rightarrow> fake" where
  "SetSession master a st f =
     f\<lparr>fk_sessions := (fk_sessions f)(sessionKey master a \<mapsto> st)\<rparr>"

definition SetSessionError :: "string \<Rightarrow> string \<Rightarrow> string option \<Rightarrow> fake \<Rightarrow> fake" where
  "SetSessionError master a e f =
     f\<lparr>fk_sessionErrors := (fk_sessionErrors f)(sessionKey master a \<mapsto> e)\<rparr>"

definition SetCallAsUser :: "string \<Rightarrow> string \<Rightarrow> string list \<Rightarrow> tx_result \<Rightarrow> fake \<Rightarrow> fake" where
  "SetCallAsUser realm fn args r f =
     f\<lparr>fk_calls := (fk_calls f)(callKey realm fn args \<mapsto> r)\<rparr>"

definition SetCallAsUserError :: "string \<Rightarrow> string \<Rightarrow> string option \<Rightarrow> fake \<Rightarrow> fake" where
  "SetCallAsUserError realm fn e f =
     f\<lparr>fk_callErrors := (fk_callErrors f)(callKey realm fn [] \<mapsto> e)\<rparr>"

definition SetRunAsUser :: "string \<Rightarrow> tx_result \<Rightarrow> fake \<Rightarrow> fake" where
  "SetRunAsUser code r f =
     f\<lparr>fk_runs := (fk_runs f)(code \<mapsto> r)\<rparr>"

definition SetRunAsUserError :: "string \<Rightarrow> string option \<Rightarrow> fake \<Rightarrow> fake" where
  "SetRunAsUserError code e f =
     f\<lparr>fk_runErrors := (fk_runErrors f)(code \<mapsto> e)\<rparr>"

definition SetCall :: "string \<Rightarrow> string \<Rightarrow> string list \<Rightarrow> tx_result \<Rightarrow> fake \<Rightarrow> fake" where
  "SetCall realm fn args r f =
     f\<lparr>fk_agentCalls := (fk_agentCalls f)(callKey realm fn args \<mapsto> r)\<rparr>"

definition SetCallError :: "string \<Rightarrow> string \<Rightarrow> string option \<Rightarrow> fake \<Rightarrow> fake" where
  "SetCallError realm fn e f =
     f\<lparr>fk_agentCallErrors := (fk_agentCallErrors f)(callKey realm fn [] \<mapsto> e)\<rparr>"

definition SetRun :: "string \<Rightarrow> tx_result \<Rightarrow> fake \<Rightarrow> fake" where
  "SetRun code r f =
     f\<lparr>fk_agentRuns := (fk_agentRuns f)(code \<mapsto> r)\<rparr>"

definition SetAddPackage :: "string \<Rightarrow> tx_result \<Rightarrow> fake \<Rightarrow> fake" where
  "SetAddPackage path r f =
     f\<lparr>fk_addPkgs := (fk_addPkgs f)(path \<mapsto> r)\<rparr>"

definition SetAddPackageError :: "string \<Rightarrow> string option \<Rightarrow> fake \<Rightarrow> fake" where
  "SetAddPackageError path e f =
     f\<lparr>fk_addPkgErrs := (fk_addPkgErrs f)(path \<mapsto> e)\<rparr>"

definition SetSendError :: "string option \<Rightarrow> fake \<Rightarrow> fake" where
  "SetSendError e f =
     f\<lparr>fk_sendErr := e\<rparr>"

definition SetBalance :: "string \<Rightarrow> int64 \<Rightarrow> fake \<Rightarrow> fake" where
  "SetBalance a n f =
     f\<lparr>fk_balances := (fk_balances f)(a := n)\<rparr>"

text \<open>A choice of setter and its arguments.\<close>

datatype fake_seed =
    DoSetSubmissionPolicy string
  | DoSetSubmissionPolicyErr "string option"
  | DoSetRunSubmitters "string list"
  | DoSetRunSubmittersErr "string option"
  | DoSetPackageMetaErr string "string option"
  | DoSetPackageMetaSequence string "PackageMeta list"
  | DoFailPackageMetaFrom string int64 "string option"
  | DoSetGasFee int64
  | DoSetGasFeeErr "string option"
  | DoSetRender string string string
  | DoSetEval string string string
  | DoSetFile string string string
  | DoSetListing string "string list"
  | DoSetDoc string string
  | DoSetPaths string "string list"
  | DoSetAccount string account_info
  | DoSetAccountError string "string option"
  | DoSetStatus NodeStatus
  | DoSetStatusError "string option"
  | DoSetSession string string SessionStatus
  | DoSetSessionError string string "string option"
  | DoSetCallAsUser string string "string list" tx_result
  | DoSetCallAsUserError string string "string option"
  | DoSetRunAsUser string tx_result
  | DoSetRunAsUserError string "string option"
  | DoSetCall string string "string list" tx_result
  | DoSetCallError string string "string option"
  | DoSetRun string tx_result
  | DoSetAddPackage string tx_result
  | DoSetAddPackageError string "string option"
  | DoSetSendError "string option"
  | DoSetBalance string int64

primrec seed :: "fake_seed \<Rightarrow> fake \<Rightarrow> fake" where
  "seed (DoSetSubmissionPolicy p) = SetSubmissionPolicy p"
| "seed (DoSetSubmissionPolicyErr e) = SetSubmissionPolicyErr e"
| "seed (DoSetRunSubmitters xs) = SetRunSubmitters xs"
| "seed (DoSetRunSubmittersErr e) = SetRunSubmittersErr e"
| "seed (DoSetPackageMetaErr path e) = SetPackageMetaErr path e"
| "seed (DoSetPackageMetaSequence path ms) = SetPackageMetaSequence path ms"
| "seed (DoFailPackageMetaFrom path n e) = FailPackageMetaFrom path n e"
| "seed (DoSetGasFee n) = SetGasFee n"
| "seed (DoSetGasFeeErr e) = SetGasFeeErr e"
| "seed (DoSetRender realm path body) = SetRender realm path body"
| "seed (DoSetEval realm expr res) = SetEval realm expr res"
| "seed (DoSetFile realm name body) = SetFile realm name body"
| "seed (DoSetListing realm fs) = SetListing realm fs"
| "seed (DoSetDoc realm d) = SetDoc realm d"
| "seed (DoSetPaths target ps) = SetPaths target ps"
| "seed (DoSetAccount a info) = SetAccount a info"
| "seed (DoSetAccountError a e) = SetAccountError a e"
| "seed (DoSetStatus st) = SetStatus st"
| "seed (DoSetStatusError e) = SetStatusError e"
| "seed (DoSetSession master a st) = SetSession master a st"
| "seed (DoSetSessionError master a e) = SetSessionError master a e"
| "seed (DoSetCallAsUser realm fn args r) = SetCallAsUser realm fn args r"
| "seed (DoSetCallAsUserError realm fn e) = SetCallAsUserError realm fn e"
| "seed (DoSetRunAsUser code r) = SetRunAsUser code r"
| "seed (DoSetRunAsUserError code e) = SetRunAsUserError code e"
| "seed (DoSetCall realm fn args r) = SetCall realm fn args r"
| "seed (DoSetCallError realm fn e) = SetCallError realm fn e"
| "seed (DoSetRun code r) = SetRun code r"
| "seed (DoSetAddPackage path r) = SetAddPackage path r"
| "seed (DoSetAddPackageError path e) = SetAddPackageError path e"
| "seed (DoSetSendError e) = SetSendError e"
| "seed (DoSetBalance a n) = SetBalance a n"

lemmas setter_defs =
  SetSubmissionPolicy_def SetSubmissionPolicyErr_def SetRunSubmitters_def SetRunSubmittersErr_def SetPackageMetaErr_def
  SetPackageMetaSequence_def FailPackageMetaFrom_def SetGasFee_def SetGasFeeErr_def SetRender_def
  SetEval_def SetFile_def SetListing_def SetDoc_def SetPaths_def
  SetAccount_def SetAccountError_def SetStatus_def SetStatusError_def SetSession_def
  SetSessionError_def SetCallAsUser_def SetCallAsUserError_def SetRunAsUser_def SetRunAsUserError_def
  SetCall_def SetCallError_def SetRun_def SetAddPackage_def SetAddPackageError_def
  SetSendError_def SetBalance_def

declare seed.simps [simp del]

subsection \<open>Reads\<close>

type_synonym 'a answer = "'a \<times> string option"

definition seeded :: "'a \<Rightarrow> string \<Rightarrow> (string \<rightharpoonup> 'a) \<Rightarrow> string \<Rightarrow> 'a answer" where
  "seeded zero complaint table k = (case table k of None \<Rightarrow> (zero, Some complaint) | Some v \<Rightarrow> (v, None))"

definition Fake_Render :: "(string \<Rightarrow> string) \<Rightarrow> fake \<Rightarrow> string \<Rightarrow> string \<Rightarrow> string answer" where
  "Fake_Render quote f realm path =
     seeded [] (''fake: no render for realm='' @ quote realm @ '' path='' @ quote path) (fk_renders f) (bar_key realm path)"

definition Fake_Eval :: "(string \<Rightarrow> string) \<Rightarrow> fake \<Rightarrow> string \<Rightarrow> string \<Rightarrow> string answer" where
  "Fake_Eval quote f realm expr =
     seeded [] (''fake: no eval for realm='' @ quote realm @ '' expr='' @ quote expr) (fk_evals f) (bar_key realm expr)"

definition Fake_File :: "(string \<Rightarrow> string) \<Rightarrow> fake \<Rightarrow> string \<Rightarrow> string \<Rightarrow> string answer" where
  "Fake_File quote f realm name =
     seeded [] (''fake: no file for realm='' @ quote realm @ '' file='' @ quote name) (fk_files f) (bar_key realm name)"

definition Fake_ListFiles :: "(string \<Rightarrow> string) \<Rightarrow> fake \<Rightarrow> string \<Rightarrow> string list answer" where
  "Fake_ListFiles quote f realm = seeded [] (''fake: no listing for realm='' @ quote realm) (fk_listings f) realm"

definition Fake_ListPaths :: "(string \<Rightarrow> string) \<Rightarrow> fake \<Rightarrow> string \<Rightarrow> int \<Rightarrow> string list answer" where
  "Fake_ListPaths quote f target limit = seeded [] (''fake: no paths for target='' @ quote target) (fk_paths f) target"

definition Fake_Doc :: "(string \<Rightarrow> string) \<Rightarrow> fake \<Rightarrow> string \<Rightarrow> string answer" where
  "Fake_Doc quote f realm = seeded [] (''fake: no doc for realm='' @ quote realm) (fk_docs f) realm"

text \<open>An entry with a nil error counts as no entry here.\<close>

definition seeded_error :: "(string \<rightharpoonup> string option) \<Rightarrow> string \<Rightarrow> string option" where
  "seeded_error table k = (case table k of None \<Rightarrow> None | Some e \<Rightarrow> e)"

definition Fake_QuerySession :: "fake \<Rightarrow> string \<Rightarrow> string \<Rightarrow> SessionStatus answer" where
  "Fake_QuerySession f master sessionAddr =
     (let key = sessionKey master sessionAddr in
      case seeded_error (fk_sessionErrors f) key of
        Some e \<Rightarrow> (no_status, Some e)
      | None \<Rightarrow> (case fk_sessions f key of None \<Rightarrow> no_status | Some st \<Rightarrow> st, None))"

definition Fake_Balance :: "fake \<Rightarrow> string \<Rightarrow> int64 answer" where
  "Fake_Balance f a = (fk_balances f a, None)"

definition Fake_Account :: "fake \<Rightarrow> string \<Rightarrow> account_info answer" where
  "Fake_Account f a =
     (case seeded_error (fk_accountErrors f) a of
        Some e \<Rightarrow> (zero_account, Some e)
      | None \<Rightarrow> (case fk_accounts f a of None \<Rightarrow> zero_account | Some i \<Rightarrow> i, None))"

definition Fake_Status :: "fake \<Rightarrow> NodeStatus answer" where
  "Fake_Status f =
     (case fk_statusErr f of
        Some e \<Rightarrow> (zero_status, Some e)
      | None \<Rightarrow> if \<not> fk_statusSet f then (zero_status, Some ''fake: no status seeded'') else (fk_status f, None))"

definition Fake_SubmissionPolicy :: "fake \<Rightarrow> string answer" where
  "Fake_SubmissionPolicy f = (fk_policy f, fk_policyErr f)"

definition Fake_RunSubmitters :: "fake \<Rightarrow> string list answer" where
  "Fake_RunSubmitters f = (case fk_runSubmitErr f of Some e \<Rightarrow> ([], Some e) | None \<Rightarrow> (fk_runSubmitters f, None))"

definition Fake_GasFeeUgnot :: "fake \<Rightarrow> int64 answer" where
  "Fake_GasFeeUgnot f = (case fk_gasFeeErr f of Some e \<Rightarrow> (0, Some e) | None \<Rightarrow> (fk_gasFee f, None))"

subsection \<open>Calls that leave a trace\<close>

definition withFee :: "fake \<Rightarrow> int64 \<Rightarrow> int64" where
  "withFee f fee = (if fee = 0 then fk_gasFee f else fee)"

text \<open>The common end of the four writes: a seeded result, marked as simulated and given a fee.\<close>

definition stamped :: "fake \<Rightarrow> bool \<Rightarrow> tx_result \<Rightarrow> tx_result" where
  "stamped f simulate r =
     r\<lparr>tr_Simulated := (if simulate then True else tr_Simulated r), tr_GasFeeUgnot := withFee f (tr_GasFeeUgnot r)\<rparr>"

definition seeded_tx ::
  "fake \<Rightarrow> bool \<Rightarrow> string \<Rightarrow> (string \<rightharpoonup> string option) \<Rightarrow> string \<Rightarrow> (string \<rightharpoonup> tx_result) \<Rightarrow> string \<Rightarrow> tx_result answer" where
  "seeded_tx f simulate complaint errors ekey table key =
     (case errors ekey of
        Some e \<Rightarrow> (zero_result, e)
      | None \<Rightarrow> (case table key of
                   None \<Rightarrow> (zero_result, Some complaint)
                 | Some r \<Rightarrow> (stamped f simulate r, None)))"

definition no_call_text :: "(string \<Rightarrow> string) \<Rightarrow> string \<Rightarrow> string \<Rightarrow> string list \<Rightarrow> string" where
  "no_call_text quote realm fn args =
     ''fake: no call for realm='' @ quote realm @ '' fn='' @ quote fn @ '' args=['' @ Join args '' '' @ '']''"

definition no_run_text :: "string \<Rightarrow> string" where
  "no_run_text code = ''fake: no run for code ('' @ show_nat (length code) @ '' chars)''"

definition Fake_CallAsUser ::
  "(string \<Rightarrow> string) \<Rightarrow> string \<Rightarrow> string \<Rightarrow> string \<Rightarrow> string list \<Rightarrow> string \<Rightarrow> bool \<Rightarrow> fake \<Rightarrow> fake \<times> tx_result answer" where
  "Fake_CallAsUser quote master realm fn args send simulate f0 =
     (let f = f0\<lparr>fk_lastSend := send, fk_lastAsUserMstr := master\<rparr>
      in (f, seeded_tx f simulate (no_call_text quote realm fn args)
               (fk_callErrors f) (callKey realm fn []) (fk_calls f) (callKey realm fn args)))"

definition Fake_RunAsUser :: "string \<Rightarrow> string \<Rightarrow> bool \<Rightarrow> fake \<Rightarrow> fake \<times> tx_result answer" where
  "Fake_RunAsUser master code simulate f0 =
     (let f = f0\<lparr>fk_lastAsUserMstr := master\<rparr>
      in (f, seeded_tx f simulate (no_run_text code) (fk_runErrors f) code (fk_runs f) code))"

definition Fake_Call ::
  "(string \<Rightarrow> string) \<Rightarrow> string \<Rightarrow> string \<Rightarrow> string list \<Rightarrow> string \<Rightarrow> bool \<Rightarrow> fake \<Rightarrow> fake \<times> tx_result answer" where
  "Fake_Call quote realm fn args send simulate f0 =
     (let f = f0\<lparr>fk_lastSend := send\<rparr>
      in (f, seeded_tx f simulate (no_call_text quote realm fn args)
               (fk_agentCallErrors f) (callKey realm fn []) (fk_agentCalls f) (callKey realm fn args)))"

definition Fake_Run :: "string \<Rightarrow> bool \<Rightarrow> fake \<Rightarrow> fake \<times> tx_result answer" where
  "Fake_Run code simulate f = (f, seeded_tx f simulate (no_run_text code) Map.empty code (fk_agentRuns f) code)"

definition Fake_AddPackage ::
  "(string \<Rightarrow> string) \<Rightarrow> string \<Rightarrow> mem_file list \<Rightarrow> bool \<Rightarrow> fake \<Rightarrow> fake \<times> tx_result answer" where
  "Fake_AddPackage quote deployPath files simulate f0 =
     (let f1 = f0\<lparr>fk_lastAddPkgFiles := (fk_lastAddPkgFiles f0)(deployPath \<mapsto> files)\<rparr>;
          f = (if simulate then f1
               else f1\<lparr>fk_addPkgBcasts := (fk_addPkgBcasts f1)(deployPath := i64 (fk_addPkgBcasts f1 deployPath + 1))\<rparr>)
      in (f, seeded_tx f simulate (''fake: no addpackage for deployPath='' @ quote deployPath)
               (fk_addPkgErrs f) deployPath (fk_addPkgs f) deployPath))"

text \<open>\<open>PackageMeta\<close> answers a script in order; the last entry stays. The index is the number of earlier calls.\<close>

definition Fake_PackageMeta :: "string \<Rightarrow> string \<Rightarrow> fake \<Rightarrow> fake \<times> PackageMeta answer" where
  "Fake_PackageMeta absent path f0 =
     (let n = fk_pkgMetaCalls f0 path;
          f = f0\<lparr>fk_pkgMetaCalls := (fk_pkgMetaCalls f0)(path := i64 (n + 1))\<rparr>;
          err = (if fk_pkgMetaFailAt f path \<le> n then seeded_error (fk_pkgMetaErrs f) path else None);
          metas = (case fk_pkgMetas f path of None \<Rightarrow> [] | Some ms \<Rightarrow> ms)
      in (f, case err of
               Some e \<Rightarrow> (zero_meta, Some e)
             | None \<Rightarrow> if metas = [] then (zero_meta\<lparr>pm_Status := absent\<rparr>, None)
                       else (metas ! nat (min n (int (length metas) - 1)), None)))"

text \<open>A transfer moves the seeded balances; a signer without an address debits nobody.\<close>

definition debited :: "fake_signer \<Rightarrow> string option" where
  "debited sg = (case sg of Some (Inr a) \<Rightarrow> Some a | _ \<Rightarrow> None)"

definition Fake_Send :: "fake_signer \<Rightarrow> string \<Rightarrow> int64 \<Rightarrow> fake \<Rightarrow> fake \<times> send_result answer" where
  "Fake_Send sg toAddr amount f =
     (case fk_sendErr f of
        Some e \<Rightarrow> (f, zero_send, Some e)
      | None \<Rightarrow>
          if amount \<le> 0 then (f, zero_send, Some (''send: amount must be positive, got '' @ show_int amount))
          else (let b1 = (case debited sg of None \<Rightarrow> fk_balances f
                          | Some a \<Rightarrow> (fk_balances f)(a := i64 (fk_balances f a - amount)));
                    b2 = b1(toAddr := i64 (b1 toAddr + amount))
                in (f\<lparr>fk_bankSends := fk_bankSends f @ [(toAddr, amount)], fk_balances := b2\<rparr>,
                    \<lparr>sr_TxHash = ''0xsend'', sr_Height = 1, sr_GasUsed = 1, sr_GasFeeUgnot = fk_gasFee f\<rparr>, None)))"

subsection \<open>What a test reads back\<close>

definition AddPackageBroadcasts :: "fake \<Rightarrow> string \<Rightarrow> int64" where
  "AddPackageBroadcasts f deployPath = fk_addPkgBcasts f deployPath"

definition PackageMetaCalls :: "fake \<Rightarrow> string \<Rightarrow> int64" where
  "PackageMetaCalls f path = fk_pkgMetaCalls f path"

definition LastAddPackageFiles :: "fake \<Rightarrow> string \<Rightarrow> mem_file list" where
  "LastAddPackageFiles f deployPath = (case fk_lastAddPkgFiles f deployPath of None \<Rightarrow> [] | Some fs \<Rightarrow> fs)"

definition LastSend :: "fake \<Rightarrow> string" where
  "LastSend f = fk_lastSend f"

definition LastAsUserMaster :: "fake \<Rightarrow> string" where
  "LastAsUserMaster f = fk_lastAsUserMstr f"

definition BankSends :: "fake \<Rightarrow> SendRecord list" where
  "BankSends f = fk_bankSends f"

subsection \<open>The indexer's double\<close>

record indexer_fake =
  xf_histories :: "string \<rightharpoonup> TxEvent list"
  xf_activities :: "string \<rightharpoonup> TxEvent list"

definition NewIndexerFake :: indexer_fake where
  "NewIndexerFake = \<lparr>xf_histories = Map.empty, xf_activities = Map.empty\<rparr>"

definition SetHistory :: "string \<Rightarrow> TxEvent list \<Rightarrow> indexer_fake \<Rightarrow> indexer_fake" where
  "SetHistory realm events f = f\<lparr>xf_histories := (xf_histories f)(realm \<mapsto> events)\<rparr>"

definition SetActivity :: "string \<Rightarrow> TxEvent list \<Rightarrow> indexer_fake \<Rightarrow> indexer_fake" where
  "SetActivity realm events f = f\<lparr>xf_activities := (xf_activities f)(realm \<mapsto> events)\<rparr>"

definition Fake_History :: "indexer_fake \<Rightarrow> string \<Rightarrow> TxEvent list answer" where
  "Fake_History f realm = seeded [] (''fake: no history for '' @ realm) (xf_histories f) realm"

definition Fake_Activity :: "indexer_fake \<Rightarrow> string \<Rightarrow> time option \<Rightarrow> time option \<Rightarrow> TxEvent list answer" where
  "Fake_Activity f realm since until =
     (case xf_activities f realm of
        None \<Rightarrow> ([], Some (''fake: no activity for '' @ realm))
      | Some v \<Rightarrow>
          (filter (\<lambda>ev. \<not> (case since of None \<Rightarrow> False | Some t \<Rightarrow> tx_Time ev < t) \<and>
                        \<not> (case until of None \<Rightarrow> False | Some t \<Rightarrow> t < tx_Time ev)) v, None))"

subsection \<open>Runs\<close>

text \<open>What a test may do that changes the double: seed it, or let the code under test call it.\<close>

datatype fake_op =
    Seed fake_seed
  | OpCallAsUser string string string "string list" string bool
  | OpRunAsUser string string bool
  | OpCall string string "string list" string bool
  | OpRun string bool
  | OpAddPackage string "mem_file list" bool
  | OpSend fake_signer string int64
  | OpPackageMeta string

fun fake_step :: "(string \<Rightarrow> string) \<Rightarrow> string \<Rightarrow> fake_op \<Rightarrow> fake \<Rightarrow> fake" where
  "fake_step quote absent (Seed s) f = seed s f"
| "fake_step quote absent (OpCallAsUser master realm fn args send simulate) f = fst (Fake_CallAsUser quote master realm fn args send simulate f)"
| "fake_step quote absent (OpRunAsUser master code simulate) f = fst (Fake_RunAsUser master code simulate f)"
| "fake_step quote absent (OpCall realm fn args send simulate) f = fst (Fake_Call quote realm fn args send simulate f)"
| "fake_step quote absent (OpRun code simulate) f = fst (Fake_Run code simulate f)"
| "fake_step quote absent (OpAddPackage path files simulate) f = fst (Fake_AddPackage quote path files simulate f)"
| "fake_step quote absent (OpSend sg toAddr amount) f = fst (Fake_Send sg toAddr amount f)"
| "fake_step quote absent (OpPackageMeta path) f = fst (Fake_PackageMeta absent path f)"

definition fake_run :: "(string \<Rightarrow> string) \<Rightarrow> string \<Rightarrow> fake_op list \<Rightarrow> fake \<Rightarrow> fake" where
  "fake_run quote absent = fold (fake_step quote absent)"

text \<open>
  The reference: the same facts computed from the sequence of operations. \<open>broadcasts\<close> counts the deploys
  of a path that were not simulations; \<open>transfers\<close> lists the sends that were not refused (\<open>e\<close> is the
  error seeded last); \<open>ledger\<close> is the balance of an account with exact integers.
\<close>

fun broadcasts :: "string \<Rightarrow> fake_op list \<Rightarrow> nat" where
  "broadcasts path [] = 0"
| "broadcasts path (OpAddPackage p files simulate # ops) = (if p = path \<and> \<not> simulate then 1 else 0) + broadcasts path ops"
| "broadcasts path (op # ops) = broadcasts path ops"

fun meta_queries :: "string \<Rightarrow> fake_op list \<Rightarrow> nat" where
  "meta_queries path [] = 0"
| "meta_queries path (OpPackageMeta p # ops) = (if p = path then 1 else 0) + meta_queries path ops"
| "meta_queries path (op # ops) = meta_queries path ops"

fun transfers :: "string option \<Rightarrow> fake_op list \<Rightarrow> (fake_signer \<times> string \<times> int64) list" where
  "transfers e [] = []"
| "transfers e (Seed (DoSetSendError x) # ops) = transfers x ops"
| "transfers e (OpSend sg toAddr amount # ops) = (if e = None \<and> 0 < amount then [(sg, toAddr, amount)] else []) @ transfers e ops"
| "transfers e (op # ops) = transfers e ops"

fun ledger :: "string option \<Rightarrow> string \<Rightarrow> int \<Rightarrow> fake_op list \<Rightarrow> int" where
  "ledger e a b [] = b"
| "ledger e a b (Seed (DoSetSendError x) # ops) = ledger x a b ops"
| "ledger e a b (Seed (DoSetBalance x n) # ops) = ledger e a (if x = a then n else b) ops"
| "ledger e a b (OpSend sg toAddr amount # ops) =
     ledger e a (if e = None \<and> 0 < amount
                 then b - (if debited sg = Some a then amount else 0) + (if toAddr = a then amount else 0) else b) ops"
| "ledger e a b (op # ops) = ledger e a b ops"

text \<open>The arguments recorded last.\<close>

fun sent_last :: "string \<Rightarrow> fake_op list \<Rightarrow> string" where
  "sent_last s [] = s"
| "sent_last s (OpCallAsUser master realm fn args send simulate # ops) = sent_last send ops"
| "sent_last s (OpCall realm fn args send simulate # ops) = sent_last send ops"
| "sent_last s (op # ops) = sent_last s ops"

fun master_last :: "string \<Rightarrow> fake_op list \<Rightarrow> string" where
  "master_last s [] = s"
| "master_last s (OpCallAsUser master realm fn args send simulate # ops) = master_last master ops"
| "master_last s (OpRunAsUser master code simulate # ops) = master_last master ops"
| "master_last s (op # ops) = master_last s ops"

subsection \<open>Lemmas\<close>

lemma i64_add_left: "i64 (i64 x + y) = i64 (x + y)"
  by (simp add: i64_def mod_simps algebra_simps)

lemma i64_diff_left: "i64 (i64 x - y) = i64 (x - y)"
  using i64_add_left [of x "- y"] by simp

lemma i64_idem: "i64 (i64 x) = i64 x"
  using i64_add_left [of x 0] by simp

lemmas i64_wraps = i64_add_left i64_diff_left i64_idem i64_add_left [unfolded add.commute [of "i64 _"]]

lemmas fake_method_defs = Fake_CallAsUser_def Fake_RunAsUser_def Fake_Call_def Fake_Run_def Fake_AddPackage_def Fake_PackageMeta_def

lemma run_simps [simp]:
  "fake_run quote absent [] f = f"
  "fake_run quote absent (x # ops) f = fake_run quote absent ops (fake_step quote absent x f)"
  by (simp_all add: fake_run_def)

text \<open>A setter touches the records of the run only where it seeds them.\<close>

lemma seed_keeps [simp]:
  "fk_addPkgBcasts (seed s f) = fk_addPkgBcasts f" "fk_pkgMetaCalls (seed s f) = fk_pkgMetaCalls f"
  "fk_bankSends (seed s f) = fk_bankSends f" "fk_lastSend (seed s f) = fk_lastSend f"
  "fk_lastAsUserMstr (seed s f) = fk_lastAsUserMstr f"
  by (cases s; simp add: seed.simps setter_defs)+

lemma seed_send_state:
  "fk_sendErr (seed s f) = (case s of DoSetSendError x \<Rightarrow> x | _ \<Rightarrow> fk_sendErr f)"
  "fk_balances (seed s f) = (case s of DoSetBalance a n \<Rightarrow> (fk_balances f)(a := n) | _ \<Rightarrow> fk_balances f)"
  by (cases s; simp add: seed.simps setter_defs)+

lemma send_keeps [simp]:
  "fk_addPkgBcasts (fst (Fake_Send sg a n f)) = fk_addPkgBcasts f" "fk_pkgMetaCalls (fst (Fake_Send sg a n f)) = fk_pkgMetaCalls f"
  "fk_lastSend (fst (Fake_Send sg a n f)) = fk_lastSend f" "fk_lastAsUserMstr (fst (Fake_Send sg a n f)) = fk_lastAsUserMstr f"
  "fk_sendErr (fst (Fake_Send sg a n f)) = fk_sendErr f"
  by (auto simp: Fake_Send_def Let_def split: option.split)

lemma run_broadcasts:
  "fk_addPkgBcasts (fake_run quote absent ops f) path = (if broadcasts path ops = 0 then fk_addPkgBcasts f path
     else i64 (fk_addPkgBcasts f path + int (broadcasts path ops)))"
proof (induction ops arbitrary: f)
  case (Cons x ops)
  then show ?case by (cases x) (simp_all add: fake_method_defs Let_def i64_wraps algebra_simps)
qed simp

lemma run_meta_queries:
  "fk_pkgMetaCalls (fake_run quote absent ops f) path = (if meta_queries path ops = 0 then fk_pkgMetaCalls f path
     else i64 (fk_pkgMetaCalls f path + int (meta_queries path ops)))"
proof (induction ops arbitrary: f)
  case (Cons x ops)
  then show ?case by (cases x) (simp_all add: fake_method_defs Let_def i64_wraps algebra_simps)
qed simp

lemma run_last_send: "fk_lastSend (fake_run quote absent ops f) = sent_last (fk_lastSend f) ops"
proof (induction ops arbitrary: f)
  case (Cons x ops)
  then show ?case by (cases x) (simp_all add: fake_method_defs Let_def)
qed simp

lemma run_last_master: "fk_lastAsUserMstr (fake_run quote absent ops f) = master_last (fk_lastAsUserMstr f) ops"
proof (induction ops arbitrary: f)
  case (Cons x ops)
  then show ?case by (cases x) (simp_all add: fake_method_defs Let_def)
qed simp

lemma run_transfers:
  "fk_bankSends (fake_run quote absent ops f) = fk_bankSends f @ map snd (transfers (fk_sendErr f) ops)"
proof (induction ops arbitrary: f)
  case (Cons x ops)
  show ?case
  proof (cases x)
    case (Seed s)
    then show ?thesis using Cons.IH by (cases s) (simp_all add: seed_send_state)
  qed (simp_all add: Cons.IH fake_method_defs Fake_Send_def Let_def split: option.split)
qed simp

lemma ledger_congr:
  assumes "i64 b = i64 c"
  shows "i64 (ledger e a b ops) = i64 (ledger e a c ops)"
  using assms
proof (induction ops arbitrary: e b c)
  case (Cons x ops)
  have step: "i64 (b + y) = i64 (c + y)" for y using i64_add_left [of b y] i64_add_left [of c y] Cons.prems by simp
  have step2: "i64 (b - y + z) = i64 (c - y + z)" for y z using step [of "z - y"] by (simp add: algebra_simps)
  note same = Cons.IH [OF Cons.prems]
  show ?case
  proof (cases x)
    case (Seed s)
    then show ?thesis by (cases s) (simp_all add: same)
  next
    case (OpSend sg toAddr amount)
    show ?thesis unfolding OpSend ledger.simps by (rule Cons.IH) (simp add: Cons.prems step2)
  qed (simp_all add: same)
qed simp

lemma run_ledger: "i64 (fk_balances (fake_run quote absent ops f) a) = i64 (ledger (fk_sendErr f) a (fk_balances f a) ops)"
proof (induction ops arbitrary: f)
  case (Cons x ops)
  show ?case
  proof (cases x)
    case (Seed s)
    then show ?thesis using Cons.IH [of "seed s f"] by (cases s) (simp_all add: seed_send_state)
  next
    case (OpSend sg toAddr amount)
    show ?thesis unfolding OpSend run_simps Cons.IH fake_step.simps ledger.simps send_keeps
      by (rule ledger_congr)
        (auto simp: Fake_Send_def Let_def debited_def i64_wraps algebra_simps split: option.split sum.split)
  qed (simp_all add: Cons.IH fake_method_defs Let_def)
qed simp

lemma broadcasts_bound: "broadcasts path ops \<le> length ops" "meta_queries path ops \<le> length ops"
proof -
  show "broadcasts path ops \<le> length ops"
  proof (induction ops)
    case (Cons x ops)
    then show ?case by (cases x) simp_all
  qed simp
  show "meta_queries path ops \<le> length ops"
  proof (induction ops)
    case (Cons x ops)
    then show ?case by (cases x) simp_all
  qed simp
qed

lemma counter_exact:
  assumes "n \<le> length ops" "length ops < 2 ^ 63"
  shows "(if n = 0 then 0 else i64 (0 + int n)) = int n"
proof -
  have "int n < 2 ^ 63" using assms by (meson le_less_trans of_nat_less_numeral_power_cancel_iff)
  then show ?thesis by (simp add: i64_small MaxInt64_def)
qed

subsection \<open>Property\<close>

text \<open>
  What the double reports about a run is what happened in it. After any sequence of fewer than \<open>2 ^ 63\<close> seedings
  and calls on a new double, the counted broadcasts of a path are the deploys of that path that were not simulations,
  the counted queries are the queries made, the recorded transfers are those not refused in their order, the balances are
  the seeded ones plus and minus those transfers (modulo \<open>2 ^ 64\<close>), and the recorded coins and master are those of the last call.
\<close>

theorem double_reports_run:
  assumes "length ops < 2 ^ 63"
  shows "AddPackageBroadcasts (fake_run quote absent ops NewFake) path = int (broadcasts path ops) \<and>
     PackageMetaCalls (fake_run quote absent ops NewFake) path = int (meta_queries path ops) \<and>
     BankSends (fake_run quote absent ops NewFake) = map snd (transfers None ops) \<and>
     i64 (fst (Fake_Balance (fake_run quote absent ops NewFake) a)) = i64 (ledger None a 0 ops) \<and>
     LastSend (fake_run quote absent ops NewFake) = sent_last [] ops \<and>
     LastAsUserMaster (fake_run quote absent ops NewFake) = master_last [] ops"
proof -
  have new: "fk_addPkgBcasts NewFake path = 0" "fk_pkgMetaCalls NewFake path = 0" "fk_bankSends NewFake = []" "fk_sendErr NewFake = None"
      "fk_balances NewFake a = 0" "fk_lastSend NewFake = []" "fk_lastAsUserMstr NewFake = []"
    by (simp_all add: NewFake_def)
  show ?thesis
    unfolding AddPackageBroadcasts_def PackageMetaCalls_def BankSends_def Fake_Balance_def LastSend_def LastAsUserMaster_def fst_conv
      run_broadcasts run_meta_queries run_transfers run_ledger run_last_send run_last_master new
    by (simp add: counter_exact [OF broadcasts_bound(1) assms, simplified] counter_exact [OF broadcasts_bound(2) assms, simplified])
qed

text \<open>A deploy is simulated, then broadcast; a transfer is refused, then goes through twice, once to the payer.\<close>

definition demo_ops :: "fake_op list" where
  "demo_ops =
     [Seed (DoSetBalance ''g1a'' 100), OpAddPackage ''gno.land/r/x'' [] True, OpAddPackage ''gno.land/r/x'' [] False,
      Seed (DoSetSendError (Some ''down'')), OpSend (Some (Inr ''g1a'')) ''g1b'' 30, Seed (DoSetSendError None),
      OpSend (Some (Inr ''g1a'')) ''g1b'' 30, OpSend (Some (Inr ''g1a'')) ''g1a'' 5,
      OpCallAsUser ''g1m'' ''gno.land/r/x'' ''F'' [] ''1ugnot'' False]"

theorem double_reports_run_witness:
  "AddPackageBroadcasts (fake_run (\<lambda>x. x) ''absent'' demo_ops NewFake) ''gno.land/r/x'' = 1 \<and>
   BankSends (fake_run (\<lambda>x. x) ''absent'' demo_ops NewFake) = [(''g1b'', 30), (''g1a'', 5)] \<and>
   i64 (fst (Fake_Balance (fake_run (\<lambda>x. x) ''absent'' demo_ops NewFake) ''g1a'')) = 70 \<and>
   LastAsUserMaster (fake_run (\<lambda>x. x) ''absent'' demo_ops NewFake) = ''g1m''"
proof -
  have "length demo_ops < 2 ^ 63" by (simp add: demo_ops_def)
  note r = double_reports_run [OF this, of "\<lambda>x. x" "''absent''" "''gno.land/r/x''" "''g1a''"]
  have "broadcasts ''gno.land/r/x'' demo_ops = 1" "map snd (transfers None demo_ops) = [(''g1b'', 30), (''g1a'', 5)]"
      "ledger None ''g1a'' 0 demo_ops = 70" "master_last [] demo_ops = ''g1m''"
    by (simp_all add: demo_ops_def debited_def)
  with r show ?thesis by (simp add: i64_def)
qed

end
