(* ===== verification/Playground.thy ===== *)
theory Playground
  imports Faucet Keystore Chain
begin

section \<open>The end-to-end playground: playground/e2e\<close>

text \<open>
  \<open>gnoquery\<close> is the oracle of the end-to-end runs: it asks a node directly and answers by text and exit
  code. \<open>simnet\<close> boots a node with the test realms, a faucet of \<open>Faucet\<close> and a web front; starting a node, dialling,
  signing and listening are library calls, parameters that answer with an error or succeed. Waiting for the stop
  signal and closing are left out.
\<close>

subsection \<open>gnoquery\<close>

text \<open>
  What package flag makes of the arguments is given: an error, after it has written its own text, or the
  endpoint and the rest. \<open>qc_account\<close> answers with an account's coins, or without an account.
\<close>

record 'c query_client =
  qc_dial :: "string \<Rightarrow> string + 'c"
  qc_status :: "'c \<Rightarrow> string + NodeStatus"
  qc_render :: "'c \<Rightarrow> string \<Rightarrow> string \<Rightarrow> string + string"
  qc_eval :: "'c \<Rightarrow> string \<Rightarrow> string \<Rightarrow> string + string"
  qc_address :: "string \<Rightarrow> string + addr"
  qc_account :: "'c \<Rightarrow> addr \<Rightarrow> string + string option"

record query_out =
  qo_stdout :: string
  qo_stderr :: string
  qo_code :: nat

definition gnoquery_usage :: string where
  "gnoquery_usage = ''usage: gnoquery [-rpc URL] <command>'' @ nl @
     ''  status                       chain-id and latest height'' @ nl @
     ''  height                       latest block height'' @ nl @
     ''  render <pkgpath> [path]      a realm'' @ [CHR 0x27] @ ''s Render(path) output'' @ nl @
     ''  eval   <pkgpath> <expr>      evaluate an expression (e.g. \"Total()\")'' @ nl @
     ''  balance <bech32-addr>        an account'' @ [CHR 0x27] @ ''s coins''"

definition query_fail :: "string \<Rightarrow> query_out" where
  "query_fail err = \<lparr>qo_stdout = [], qo_stderr = ''gnoquery: '' @ err @ nl, qo_code = 1\<rparr>"

definition query_emit :: "string + string \<Rightarrow> query_out" where
  "query_emit r = (case r of Inl e \<Rightarrow> query_fail e | Inr s \<Rightarrow> \<lparr>qo_stdout = s @ nl, qo_stderr = [], qo_code = 0\<rparr>)"

definition usage_error :: "string \<Rightarrow> query_out" where
  "usage_error t = \<lparr>qo_stdout = [], qo_stderr = t @ nl, qo_code = 2\<rparr>"

definition withClient :: "'c query_client \<Rightarrow> string \<Rightarrow> ('c \<Rightarrow> query_out) \<Rightarrow> query_out" where
  "withClient qc rpcURL fn = (case qc_dial qc rpcURL of Inl e \<Rightarrow> query_fail e | Inr c \<Rightarrow> fn c)"

definition with_status :: "'c query_client \<Rightarrow> string \<Rightarrow> (NodeStatus \<Rightarrow> string) \<Rightarrow> query_out" where
  "with_status qc rpcURL txt = withClient qc rpcURL (\<lambda>c. query_emit (map_sum id txt (qc_status qc c)))"

definition account_not_found :: query_out where
  "account_not_found = \<lparr>qo_stdout = ''(account not found)'' @ nl, qo_stderr = [], qo_code = 1\<rparr>"

definition query_balance :: "(string \<Rightarrow> string) \<Rightarrow> 'c query_client \<Rightarrow> string \<Rightarrow> string \<Rightarrow> query_out" where
  "query_balance quote qc rpcURL a =
     (case qc_address qc a of
        Inl e \<Rightarrow> usage_error (''gnoquery: invalid address '' @ quote a @ '': '' @ e)
      | Inr ad \<Rightarrow> withClient qc rpcURL (\<lambda>c.
          case qc_account qc c ad of
            Inl e \<Rightarrow> query_fail e
          | Inr None \<Rightarrow> account_not_found
          | Inr (Some coins) \<Rightarrow> \<lparr>qo_stdout = coins @ nl, qo_stderr = [], qo_code = 0\<rparr>))"

definition gnoquery_run :: "(string \<Rightarrow> string) \<Rightarrow> 'c query_client \<Rightarrow> string + string \<times> string list \<Rightarrow> query_out" where
  "gnoquery_run quote qc parsed =
     (case parsed of
        Inl flag_text \<Rightarrow> \<lparr>qo_stdout = [], qo_stderr = flag_text, qo_code = 2\<rparr>
      | Inr (rpc, args) \<Rightarrow>
          (case args of
             [] \<Rightarrow> usage_error gnoquery_usage
           | cmd # rest \<Rightarrow>
               if cmd = ''status'' then
                 with_status qc rpc (\<lambda>st. ''chain-id: '' @ ns_ChainID st @ nl @ ''height: '' @ show_int (ns_Height st))
               else if cmd = ''height'' then with_status qc rpc (\<lambda>st. show_int (ns_Height st))
               else if cmd = ''render'' then
                 (case rest of
                    [] \<Rightarrow> usage_error ''usage: gnoquery render <pkgpath> [path]''
                  | pkg # paths \<Rightarrow> withClient qc rpc (\<lambda>c. query_emit (qc_render qc c pkg (case paths of [] \<Rightarrow> [] | path # _ \<Rightarrow> path))))
               else if cmd = ''eval'' then
                 (case rest of
                    pkg # expr # _ \<Rightarrow> withClient qc rpc (\<lambda>c. query_emit (qc_eval qc c pkg expr))
                  | _ \<Rightarrow> usage_error ''usage: gnoquery eval <pkgpath> <expr>'')
               else if cmd = ''balance'' then
                 (case rest of
                    [] \<Rightarrow> usage_error ''usage: gnoquery balance <bech32-addr>''
                  | a # _ \<Rightarrow> query_balance quote qc rpc a)
               else usage_error (''gnoquery: unknown command '' @ quote cmd @ nl @ gnoquery_usage)))"

subsection \<open>simnet\<close>

definition claPkgPath :: string where
  "claPkgPath = ''gno.land/r/sys/cla''"

record simnet_config =
  sc_RealmsDir :: string
  sc_ChainID :: string
  sc_RPCListen :: string
  sc_CLAPkgDir :: string
  sc_CLARequiredHash :: string

text \<open>
  \<open>bo_cla\<close> and \<open>bo_realms\<close> are the errors of loading packages, \<open>bo_genesis\<close> the transactions that deploy what was loaded
  (with or without the agreement's realm), \<open>bo_activation\<close> the signed call of a function of a realm, \<open>bo_node\<close>
  creates a node from the transactions of its genesis; then it starts, becomes ready or not, and has an address.
\<close>

record ('t, 'n) boot_lib =
  bo_quote :: "string \<Rightarrow> string"
  bo_cla :: "string \<Rightarrow> string option"
  bo_realms :: "string \<Rightarrow> string option"
  bo_key :: "string \<Rightarrow> string option"
  bo_genesis :: "bool \<Rightarrow> string + 't list"
  bo_activation :: "string \<Rightarrow> string \<Rightarrow> string list \<Rightarrow> string + 't"
  bo_state :: "'t list"
  bo_node :: "simnet_config \<Rightarrow> 't list \<Rightarrow> string + 'n"
  bo_start :: "'n \<Rightarrow> string option"
  bo_ready :: "'n \<Rightarrow> bool"
  bo_address :: "'n \<Rightarrow> string"

definition claActivationTx :: "('t, 'n) boot_lib \<Rightarrow> string \<Rightarrow> string + 't" where
  "claActivationTx bo hash = bo_activation bo claPkgPath ''SetRequiredHash'' [hash]"

text \<open>The activation is the last transaction, so that nothing before it is blocked.\<close>

definition genesis_txs :: "('t, 'n) boot_lib \<Rightarrow> simnet_config \<Rightarrow> string + 't list" where
  "genesis_txs bo c =
     (case bo_genesis bo (sc_CLAPkgDir c \<noteq> []) of
        Inl e \<Rightarrow> Inl (''generate genesis txs: '' @ e)
      | Inr txs \<Rightarrow>
          if sc_CLAPkgDir c \<noteq> [] \<and> sc_CLARequiredHash c \<noteq> [] then
            (case claActivationTx bo (sc_CLARequiredHash c) of
               Inl e \<Rightarrow> Inl (''build cla activation tx: '' @ e)
             | Inr t \<Rightarrow> Inr (bo_state bo @ txs @ [t]))
          else Inr (bo_state bo @ txs))"

definition load_packages :: "('t, 'n) boot_lib \<Rightarrow> simnet_config \<Rightarrow> string option" where
  "load_packages bo c =
     (case (if sc_CLAPkgDir c \<noteq> [] then bo_cla bo (sc_CLAPkgDir c) else None) of
        Some e \<Rightarrow> Some (''load cla realm from '' @ bo_quote bo (sc_CLAPkgDir c) @ '': '' @ e)
      | None \<Rightarrow> map_option (\<lambda>e. ''load realms from '' @ bo_quote bo (sc_RealmsDir c) @ '': '' @ e) (bo_realms bo (sc_RealmsDir c)))"

definition Boot :: "('t, 'n) boot_lib \<Rightarrow> simnet_config \<Rightarrow> string + 'n \<times> string" where
  "Boot bo c =
     (case load_packages bo c of
        Some e \<Rightarrow> Inl e
      | None \<Rightarrow>
     (case bo_key bo Test1Mnemonic of
        Some e \<Rightarrow> Inl (''derive test1 key: '' @ e)
      | None \<Rightarrow>
     (case genesis_txs bo c of
        Inl e \<Rightarrow> Inl e
      | Inr txs \<Rightarrow>
     (case bo_node bo c txs of
        Inl e \<Rightarrow> Inl (''create node: '' @ e)
      | Inr n \<Rightarrow>
     (case bo_start bo n of
        Some e \<Rightarrow> Inl (''start node: '' @ e)
      | None \<Rightarrow> if bo_ready bo n then Inr (n, bo_address bo n) else Inl ''node not ready after 15s'')))))"

record FaucetConfig =
  fc_RPCAddr :: string
  fc_ChainID :: string
  fc_Listen :: string
  fc_GrantUgnot :: int64
  fc_PerAddrMax :: int

record 'k simnet_lib =
  sl_rpc :: "string \<Rightarrow> string option"
  sl_signer :: "string \<Rightarrow> string \<Rightarrow> string + 'k"
  sl_info :: "'k \<Rightarrow> string + bytes"
  sl_listen :: "string \<Rightarrow> string + string"
  sl_router :: "string \<Rightarrow> string \<Rightarrow> string \<Rightarrow> string option"

definition simnet_limiter_cfg :: "FaucetConfig \<Rightarrow> LimiterCfg" where
  "simnet_limiter_cfg cfg =
     \<lparr>cfg_PerAddrWindow = 0, cfg_PerAddrMax = (if fc_PerAddrMax cfg = 0 then 5 else fc_PerAddrMax cfg), cfg_PerIPWindow = 0,
      cfg_PerIPMax = 100, cfg_DailyCapUgnot = 1000000000000, cfg_GrantUgnot = fc_GrantUgnot cfg, cfg_DripBurstUgnot = 0,
      cfg_DripRateUgnotPerSec = 0\<rparr>"

text \<open>The address listened on, and the dispenser, the limiter and the service behind it.\<close>

definition StartFaucet ::
  "'k simnet_lib \<Rightarrow> (rat \<Rightarrow> rat) \<Rightarrow> FaucetConfig \<Rightarrow> string + string \<times> gnoclientDispenser \<times> limiter \<times> faucet" where
  "StartFaucet lb rnd cfg =
     (case sl_rpc lb (fc_RPCAddr cfg) of
        Some e \<Rightarrow> Inl (''faucet rpc client: '' @ e)
      | None \<Rightarrow>
     (case sl_signer lb Test1Mnemonic (fc_ChainID cfg) of
        Inl e \<Rightarrow> Inl (''faucet signer: '' @ e)
      | Inr k \<Rightarrow>
     (case sl_info lb k of
        Inl e \<Rightarrow> Inl (''faucet signer info: '' @ e)
      | Inr from \<Rightarrow>
     (case sl_listen lb (fc_Listen cfg) of
        Inl e \<Rightarrow> Inl (''faucet listen '' @ fc_Listen cfg @ '': '' @ e)
      | Inr a \<Rightarrow> Inr (a, NewGnoclientDispenser from DefaultGasWanted, NewLimiter rnd (simnet_limiter_cfg cfg),
                       New (fc_ChainID cfg) (fc_GrantUgnot cfg) [])))))"

record GnowebConfig =
  gc_NodeRPC :: string
  gc_AdvertisedRPC :: string
  gc_ChainID :: string
  gc_Listen :: string

definition StartGnoweb :: "'k simnet_lib \<Rightarrow> GnowebConfig \<Rightarrow> string + string" where
  "StartGnoweb lb c =
     (case sl_router lb (gc_NodeRPC c) (gc_AdvertisedRPC c) (gc_ChainID c) of
        Some e \<Rightarrow> Inl (''gnoweb router: '' @ e)
      | None \<Rightarrow> map_sum (\<lambda>e. ''gnoweb listen '' @ gc_Listen c @ '': '' @ e) id (sl_listen lb (gc_Listen c)))"

record simnet_flags =
  sf_node :: simnet_config
  sf_faucetListen :: string
  sf_webListen :: string
  sf_hostname :: string
  sf_grant :: int64
  sf_faucetPerAddr :: int

definition default_simnet_flags :: simnet_flags where
  "default_simnet_flags =
     \<lparr>sf_node = \<lparr>sc_RealmsDir = ''/opt/e2e/realms'', sc_ChainID = ''test-9999'', sc_RPCListen = ''tcp://127.0.0.1:26687'',
                 sc_CLAPkgDir = [], sc_CLARequiredHash = []\<rparr>,
      sf_faucetListen = ''127.0.0.1:8590'', sf_webListen = ''127.0.0.1:8688'', sf_hostname = ''testnet.gnomcp.sim'',
      sf_grant = 1000000000, sf_faucetPerAddr = 5\<rparr>"

text \<open>What follows the last colon; the whole text when there is none.\<close>

definition after_last_colon :: "string \<Rightarrow> string" where
  "after_last_colon s = rev (takeWhile (\<lambda>c. c \<noteq> CHR '':'') (rev s))"

definition advertised_rpc :: "string \<Rightarrow> string \<Rightarrow> string" where
  "advertised_rpc hostname rpcAddr = ''http://'' @ hostname @ '':'' @ after_last_colon rpcAddr"

record simnet_up =
  up_rpc :: string
  up_faucet :: "string \<times> gnoclientDispenser \<times> limiter \<times> faucet"
  up_web :: string
  up_advertised :: string

text \<open>The message of the fatal log line and its error.\<close>

definition simnet_main ::
  "('t, 'n) boot_lib \<Rightarrow> 'k simnet_lib \<Rightarrow> (rat \<Rightarrow> rat) \<Rightarrow> simnet_flags \<Rightarrow> (string \<times> string) + simnet_up" where
  "simnet_main bo lb rnd fl =
     (let chainID = sc_ChainID (sf_node fl) in
      case Boot bo (sf_node fl) of
        Inl e \<Rightarrow> Inl (''simnet: node boot failed'', e)
      | Inr (n, rpcAddr) \<Rightarrow>
     (case StartFaucet lb rnd \<lparr>fc_RPCAddr = rpcAddr, fc_ChainID = chainID, fc_Listen = sf_faucetListen fl,
                               fc_GrantUgnot = sf_grant fl, fc_PerAddrMax = sf_faucetPerAddr fl\<rparr> of
        Inl e \<Rightarrow> Inl (''simnet: faucet failed'', e)
      | Inr fa \<Rightarrow>
     (case StartGnoweb lb \<lparr>gc_NodeRPC = rpcAddr, gc_AdvertisedRPC = advertised_rpc (sf_hostname fl) rpcAddr,
                           gc_ChainID = chainID, gc_Listen = sf_webListen fl\<rparr> of
        Inl e \<Rightarrow> Inl (''simnet: gnoweb failed'', e)
      | Inr web \<Rightarrow> Inr \<lparr>up_rpc = rpcAddr, up_faucet = fa, up_web = web,
                        up_advertised = advertised_rpc (sf_hostname fl) rpcAddr\<rparr>)))"

subsection \<open>Lemmas\<close>

text \<open>What an exit code says: an answer and no complaint, a failed query, or a complaint and no query answered.\<close>

definition code_ok :: "query_out \<Rightarrow> bool" where
  "code_ok r \<longleftrightarrow>
     (qo_code r = 0 \<and> qo_stdout r \<noteq> [] \<and> qo_stderr r = [] \<or>
      qo_code r = 1 \<and> (qo_stdout r = [] \<and> HasPrefix (qo_stderr r) ''gnoquery: '' \<or> r = account_not_found) \<or>
      qo_code r = 2 \<and> qo_stdout r = [])"

lemma code_ok_simps [simp]:
  "code_ok (query_fail e)" "code_ok (query_emit r)" "code_ok (usage_error t)" "code_ok \<lparr>qo_stdout = s @ nl, qo_stderr = [], qo_code = 0\<rparr>"
  "code_ok account_not_found" "code_ok \<lparr>qo_stdout = [], qo_stderr = t, qo_code = 2\<rparr>"
  by (simp_all add: code_ok_def account_not_found_def query_fail_def query_emit_def usage_error_def HasPrefix_def nl_def split: sum.split)

lemma usage_code [simp]: "qo_code (usage_error t) = 2" "qo_code account_not_found = 1"
  by (simp_all add: usage_error_def account_not_found_def)

lemma code_ok_withClient [intro!]: "(\<And>c. code_ok (fn c)) \<Longrightarrow> code_ok (withClient qc url fn)"
  by (simp add: withClient_def split: sum.split)

text \<open>Without a dial nothing is answered: an exit code of 0 means that the node the flags name was reached.\<close>

lemma code_0_dialled: "qo_code (withClient qc url fn) = 0 \<Longrightarrow> \<exists>c. qc_dial qc url = Inr c"
  by (auto simp: withClient_def query_fail_def split: sum.splits)

subsection \<open>Properties\<close>

text \<open>
  The exit code of gnoquery can be trusted. Code 0 comes with an answer, without a complaint and from the
  node the flags name; code 1 with a complaint or with the one text for an unknown account; code 2, a usage
  error, with no answer, and it is the only code when the arguments name no known command.
\<close>

theorem gnoquery_exit:
  shows "code_ok (gnoquery_run quote qc parsed) \<and>
     (qo_code (gnoquery_run quote qc parsed) = 0 \<longrightarrow>
        (\<exists>rpc cmd rest c. parsed = Inr (rpc, cmd # rest) \<and> qc_dial qc rpc = Inr c \<and>
           cmd \<in> {''status'', ''height'', ''render'', ''eval'', ''balance''}))"
proof (cases "\<exists>rpc cmd rest. parsed = Inr (rpc, cmd # rest)")
  case True
  then obtain rpc cmd rest where p: "parsed = Inr (rpc, cmd # rest)" by blast
  consider "cmd = ''status''" | "cmd = ''height''" | "cmd = ''render''" | "cmd = ''eval''" | "cmd = ''balance''"
    | "cmd \<notin> {''status'', ''height'', ''render'', ''eval'', ''balance''}" by blast
  then show ?thesis
    by cases (use p in \<open>auto simp: gnoquery_run_def with_status_def query_balance_def dest!: code_0_dialled
      split: list.split sum.split option.split\<close>)
next
  case False
  then show ?thesis by (cases parsed) (auto simp: gnoquery_run_def split: list.splits)
qed

text \<open>
  What a simulated network promises once it is up. The node was created from a genesis that deploys the packages and, when an
  agreement hash is set, activates the gate as its very last transaction; the advertised endpoint keeps the node's port
  under the alias; and however requests to its faucet interleave, a day's grants stay within 1000000 GNOT.
\<close>

theorem simnet_promises:
  assumes up: "simnet_main bo lb rnd fl = Inr u" "up_faucet u = (a, disp, l, f)"
    and flags: "0 \<le> sf_grant fl" "sf_grant fl \<le> MaxInt64"
    and run: "0 < t0" "(fund_step rnd parse render f)\<^sup>*\<^sup>* (fund_init l t0) s"
  shows "(\<exists>txs n. genesis_txs bo (sf_node fl) = Inr txs \<and> bo_node bo (sf_node fl) txs = Inr n \<and> bo_address bo n = up_rpc u \<and>
       (sc_CLAPkgDir (sf_node fl) \<noteq> [] \<and> sc_CLARequiredHash (sf_node fl) \<noteq> [] \<longrightarrow>
          txs \<noteq> [] \<and> claActivationTx bo (sc_CLARequiredHash (sf_node fl)) = Inr (last txs))) \<and>
     up_advertised u = ''http://'' @ sf_hostname fl @ '':'' @ after_last_colon (up_rpc u) \<and>
     sf_grant fl * int (day_outflow s d) \<le> 1000000000000"
proof -
  obtain n where boot: "Boot bo (sf_node fl) = Inr (n, up_rpc u)"
    and fa: "StartFaucet lb rnd \<lparr>fc_RPCAddr = up_rpc u, fc_ChainID = sc_ChainID (sf_node fl), fc_Listen = sf_faucetListen fl,
        fc_GrantUgnot = sf_grant fl, fc_PerAddrMax = sf_faucetPerAddr fl\<rparr> = Inr (a, disp, l, f)"
    and adv: "up_advertised u = advertised_rpc (sf_hostname fl) (up_rpc u)"
    using up by (auto simp: simnet_main_def Let_def split: sum.splits)
  obtain cfg where l: "l = NewLimiter rnd cfg" "cfg_GrantUgnot cfg = sf_grant fl" "cfg_DailyCapUgnot cfg = 1000000000000"
    using fa by (auto simp: StartFaucet_def simnet_limiter_cfg_def split: option.splits sum.splits)
  have "lim_ok (sf_grant fl) 1000000000000 l" using NewLimiter_ok [of cfg rnd] l flags by (simp add: MaxInt64_def)
  moreover have "lim_day l = None" unfolding l by (simp add: lim_day_def NewLimiter_def IsZero_def)
  ultimately have inv: "fund_inv (sf_grant fl) 1000000000000 s"
    using fund_init_inv run(1) fund_reachable_inv [OF run(2)] by blast
  obtain txs where txs: "genesis_txs bo (sf_node fl) = Inr txs" "bo_node bo (sf_node fl) txs = Inr n" "bo_address bo n = up_rpc u"
    using boot by (auto simp: Boot_def split: option.splits sum.splits if_splits)
  moreover have "txs \<noteq> [] \<and> claActivationTx bo (sc_CLARequiredHash (sf_node fl)) = Inr (last txs)"
    if "sc_CLAPkgDir (sf_node fl) \<noteq> []" "sc_CLARequiredHash (sf_node fl) \<noteq> []"
    using txs(1) that by (auto simp: genesis_txs_def split: sum.splits)
  ultimately show ?thesis using adv fund_inv_cap [OF inv] unfolding advertised_rpc_def by blast
qed

definition demo_boot :: "(string, unit) boot_lib" where
  "demo_boot = \<lparr>bo_quote = id, bo_cla = (\<lambda>d. None), bo_realms = (\<lambda>d. None), bo_key = (\<lambda>m. None), bo_genesis = (\<lambda>cla. Inr [''deploy'']),
     bo_activation = (\<lambda>p f xs. Inr f), bo_state = [], bo_node = (\<lambda>c txs. Inr ()), bo_start = (\<lambda>n. None), bo_ready = (\<lambda>n. True),
     bo_address = (\<lambda>n. ''tcp://127.0.0.1:26687'')\<rparr>"

definition demo_simnet_lib :: "unit simnet_lib" where
  "demo_simnet_lib = \<lparr>sl_rpc = (\<lambda>u. None), sl_signer = (\<lambda>m c. Inr ()), sl_info = (\<lambda>k. Inr ''from''), sl_listen = Inr,
     sl_router = (\<lambda>a b c. None)\<rparr>"

definition demo_query :: "unit query_client" where
  "demo_query = \<lparr>qc_dial = (\<lambda>u. Inr ()), qc_status = (\<lambda>c. Inl ''x''), qc_render = (\<lambda>c p q. Inr p), qc_eval = (\<lambda>c p q. Inl q),
     qc_address = Inr, qc_account = (\<lambda>c a. Inr None)\<rparr>"

theorem gnoquery_exit_witness:
  "qo_code (gnoquery_run id demo_query (Inr (''u'', [''render'', ''gno.land/r/x'']))) = 0 \<and>
   (\<exists>c. qc_dial demo_query ''u'' = Inr c)"
proof -
  have "qo_code (gnoquery_run id demo_query (Inr (''u'', [''render'', ''gno.land/r/x'']))) = 0"
    by (simp add: gnoquery_run_def withClient_def query_emit_def demo_query_def)
  with gnoquery_exit [of id demo_query "Inr (''u'', [''render'', ''gno.land/r/x''])"] show ?thesis by auto
qed

theorem simnet_promises_witness:
  "\<exists>u. simnet_main demo_boot demo_simnet_lib (\<lambda>x. x) default_simnet_flags = Inr u \<and> up_advertised u = ''http://testnet.gnomcp.sim:26687''"
proof -
  obtain u where u: "simnet_main demo_boot demo_simnet_lib (\<lambda>x. x) default_simnet_flags = Inr u"
    by (simp add: simnet_main_def Let_def Boot_def load_packages_def genesis_txs_def StartFaucet_def StartGnoweb_def demo_boot_def demo_simnet_lib_def
        default_simnet_flags_def)
  have rpc: "up_rpc u = ''tcp://127.0.0.1:26687''"
    using u by (auto simp: simnet_main_def Let_def Boot_def load_packages_def genesis_txs_def StartFaucet_def StartGnoweb_def demo_boot_def
        demo_simnet_lib_def default_simnet_flags_def)
  obtain a disp l f where fa: "up_faucet u = (a, disp, l, f)" by (cases "up_faucet u")
  have "up_advertised u = ''http://'' @ sf_hostname default_simnet_flags @ '':'' @ after_last_colon (up_rpc u)"
    using simnet_promises [OF u fa, of 5 Some "\<lambda>a. a" "fund_init l 5" 0] by (simp add: default_simnet_flags_def MaxInt64_def)
  with u rpc show ?thesis by (simp add: default_simnet_flags_def after_last_colon_def)
qed

end
