(* ===== verification/Spec2Isabelle.thy ===== *)
theory Spec2Isabelle
  imports Gas_Price Limiter Faucet Profiles Untrusted Scope Storage Keystore Session Chain Server Dispatch Deploy Clapage Clientfaucet Keytools Sessiontools Toolbox Gnosrc Readtools Profileadd Profilecli Indexer Agentfaucet Sessionkeys Schemas Catalog Gnomcp Arguments Doubles Playground
begin

text \<open>
  A verification development of gno-mcp, a server through which a language model reads and writes
  gno.land chains (\<open>cmd/gnomcp\<close>), and of the faucet service it asks for money (\<open>cmd/agentfaucet\<close>).

  The program. \<open>gnomcp\<close> loads a table of chain profiles, opens an audit log, a directory of session files and a directory
  of agent keys, registers its tools and publishes them to an MCP client. A call names a tool and
  gives it JSON arguments. The adapter fills in a default profile, dispatches the call through the registry,
  recovers from a panic and writes an audit record unless the tool writes its own. Read tools query
  a node or an indexer and show what anyone may have put on the chain. Write tools sign, either with a key of the
  agent's or with a session key the user granted, and broadcast one transaction. Admin tools change the profile table; adding a
  profile registers and publishes every tool again. The faucet service is a program of its own: it rate-limits grants and
  pays them from a funded account.

  \<^bold>\<open>Theories and what they model\<close> (paths are under src/).

  \<^item> \<open>Go_Prelude\<close>: Go values. \<open>int64\<close> is \<open>int\<close> with its wrap written out by \<open>i64\<close>; a byte string is \<open>string\<close>.
    \<open>Go_Regexp\<close>: anchored patterns, with a matcher by derivatives and its correctness.
  \<^item> \<open>Gas_Price\<close> (gasprice/gasprice.go, internal/chain/gasfee.go): fee and gas limit of a transaction.
  \<^item> \<open>Limiter\<close> (faucet/limiter.go), \<open>Faucet\<close> (the other files of faucet/) and \<open>Agentfaucet\<close>
    (cmd/agentfaucet): the service, from its flags to the interleaving of concurrent requests.
  \<^item> \<open>Profiles\<close> (internal/profiles): validation, layers, limits. \<open>Profilecli\<close> (cmd/gnomcp/profile.go,
    internal/profiles/write.go): the command that edits the configuration file.
  \<^item> \<open>Untrusted\<close> (internal/untrusted, internal/budget): the envelope around chain text, and its size limits.
  \<^item> \<open>Storage\<close> (internal/fsutil, internal/secret): durable writes as traces of disk states, encryption at rest.
    \<open>Keystore\<close> (internal/keystore): the agent's keys.
  \<^item> \<open>Scope\<close> (internal/session/scope.go, gnokey.go), \<open>Session\<close> (store.go, chain\_check.go, manager.go) and
    \<open>Sessionkeys\<close> (keypair.go): what a session may do, its life cycle, its signatures.
  \<^item> \<open>Chain\<close> (internal/chain): the client of a node, its two write pipelines and the reads they need.
  \<^item> \<open>Server\<close> (internal/server, internal/audit and the adapter of cmd/gnomcp/main.go): arguments, registry,
    profile table, audit log, one adapted call.
  \<^item> The handlers (internal/tools and what only they use): \<open>Dispatch\<close> (who signs; gno\_call and gno\_run),
    \<open>Deploy\<close> (gno\_addpkg, gno\_cla\_sign, gno\_cla\_info) with \<open>Clapage\<close> (what gno\_cla\_info reads off its page), \<open>Clientfaucet\<close> (gno\_faucet\_fund), \<open>Keytools\<close> (the gno\_key tools),
    \<open>Sessiontools\<close> (gno\_session\_propose, gno\_session\_revoke, gno\_auth\_status), \<open>Gnosrc\<close> and \<open>Readtools\<close>
    (the read tools), \<open>Indexer\<close> (gno\_history, gno\_activity), \<open>Profileadd\<close> (gno\_connect, gno\_profile\_add).
  \<^item> \<open>Schemas\<close> (args.go and every InputSchema function), \<open>Catalog\<close> (every Register function, register.go):
    what each tool announces. \<open>Toolbox\<close>: the tools as steps of one world. \<open>Gnomcp\<close> (main.go, register.go):
    starting the server, and any sequence of calls to it. \<open>Arguments\<close>: what each handler reads of its arguments, against the schema it publishes.
  \<^item> \<open>Doubles\<close> (internal/chain/fake.go, internal/indexer/fake.go) and \<open>Playground\<close> (playground/e2e): what the project's
    own tests rest on.

  \<^bold>\<open>State.\<close> A Go struct is a record with the code's field names (prefixed by the initials of
  the struct where two structs share a name), a map a partial function or, where its order or its
  length matters, an association list. The handlers of the write tools share the state \<open>world\<close>: the session
  manager with its files, the key directory, and the history of requests sent to the nodes. The server's state
  \<open>gnomcp\<close> adds the profile table, the registry, the published tools and the audit log. An operation
  returns the new state and its result; an error is a value of a sum type with the code's message or error code.
  A section that runs under a mutex is one step. Where the code releases a lock and takes it again, the steps are
  separate definitions, and an inductive relation interleaves them (\<open>fund_step\<close>, \<open>mgr_step\<close>, \<open>tool_step\<close>).

  \<^bold>\<open>Parameters.\<close> Code that is not in the repository is an argument: the tm2, gno.land and gnoclient libraries
  (\<open>lib\<close>, \<open>node\<close>, \<open>signer\<close>), the MCP SDK's schema type (\<open>schema_lib\<close>), HTTP, JSON, TOML and HTML codecs, cryptography,
  the Go parser (\<open>goast\<close>), clocks, system-call outcomes, and the wording of library errors. A node's answer may
  depend on every earlier request, so two equal queries may get two answers. The laws that are assumed are
  documented behaviour of those packages and stand as premises: a codec decodes what it encoded, a cipher opens what it
  sealed, a signature verifies under its own key, rounding of floats is monotone.

  \<^bold>\<open>What is shown.\<close>

  \<^item> Money. The fee formula is exact where no product overflows and falls back to a floor where one does
    (\<open>Gas_Price\<close>). The limiter's drip bounds the outflow, refunds included; pruning changes no decision (\<open>Limiter\<close>). The
    error that says a grant was not paid is true (\<open>Faucet\<close>), and a service that started keeps the limits its flags set (\<open>Agentfaucet\<close>).
  \<^item> Writes. A session-signed or agent-signed write sends at most one transaction, as the last request, and
    only the one that was checked and priced (\<open>Chain\<close>); any tool call commits at most one (\<open>Toolbox\<close>); the record a tool
    writes says what was committed, by whom, and whether it worked (\<open>Dispatch\<close>, \<open>Deploy\<close>, \<open>Keytools\<close>).
  \<^item> Authority. Resolved scopes respect the hard limits (\<open>Scope\<close>); the picked session is usable and covers the realm,
    and keys, master and age of a session never change under any interleaving (\<open>Session\<close>). Tool calls are runs of the
    manager's steps (\<open>Toolbox\<close>). A funded key is not deleted by accident (\<open>Keytools\<close>), and a mistaken seed phrase is not echoed (\<open>Sessiontools\<close>).
  \<^item> Containment. Text read from a chain, an indexer or a faucet reaches the model in an envelope that it
    cannot forge or close, or not at all (\<open>Untrusted\<close>, \<open>Readtools\<close>, \<open>Indexer\<close>, \<open>Clientfaucet\<close>,
    \<open>Clapage\<close>).
  \<^item> Storage. Every crash point of an atomic write leaves the old or the new file (\<open>Storage\<close>); sessions, keys and
    profile files read back as written (\<open>Session\<close>, \<open>Keystore\<close>, \<open>Profilecli\<close>).
  \<^item> The program. For every profile table the tool set is well formed, and publishing again never takes a tool away
    (\<open>Catalog\<close>). A server that started is ready; configured profiles and published tools stay; a tool announced
    read-only is; and over any run of calls every transaction has a record of its own (\<open>Gnomcp\<close>). No handler reads an argument
    that its schema does not declare (\<open>Arguments\<close>).

  \<^item> The tests' ground. What the client's double counts and records of a run is what happened in it (\<open>Doubles\<close>); the exit code
    of the end-to-end oracle can be trusted (\<open>Playground\<close>).

  \<^bold>\<open>Interfaces.\<close> A contract that several components share is a locale, interpreted on the model's own
  definitions where they stand: \<open>durable_write\<close> (the two write functions of fsutil), \<open>session_disk\<close> (the store under the manager),
  \<open>daily_budget\<close> (the limiter under the faucet), \<open>write_dispatch\<close> (the callbacks of gno\_call and gno\_run),
  \<open>audited_handler\<close> (which tools write a record themselves) and \<open>accountable\<close> (what a call may do to the world,
  given what the tool announces; one interpretation per tool of the shared state).

  \<^bold>\<open>Bounds.\<close> The loops over lists are structural. The two loops that wait for a chain are partial functions in the option
  type and shown to return: at most 16 polls for a parked package (\<open>Deploy\<close>), 22 for a faucet grant
  (\<open>Clientfaucet\<close>), by the deadlines and intervals of the code. The sizes are the code's: 1 MiB of a gnoweb page,
  4 MiB of an indexer's answer, 64 KiB for a line of the audit reader, 2048 runes of instructions, and
  the output budgets of \<open>Untrusted\<close>.

  \<^bold>\<open>Not modelled.\<close>

  \<^item> Of cmd/agentfaucet and playground/: what the metrics, HTTP and node libraries do once started, and
    timeouts of listeners.
  \<^item> Of cmd/gnomcp: the stdio transport, signal handling, what package flag prints, and the terminal output
    of the version command. The \<open>flag\<close> package is modelled as far as \<open>gnomcp profile\<close> uses it.
  \<^item> Log lines that no result depends on, durations in audit records, metrics sinks, and HTTP routing: they influence nothing else.
  \<^item> Cancellation of a request's context, except as an error a library may return.
\<close>

end
